(* ===== verification/Prelude.thy ===== *)
theory Prelude
  imports Main "HOL-Library.Word" "HOL-Library.AList"
begin

text \<open>
  Shared vocabulary of the development: C++ exceptions as values, programs that pass a state
  and may throw, the rules by which invariants and frame conditions go through such programs,
  and facts on association lists (the model of \<^verbatim>\<open>boost::unordered_map\<close>).
\<close>

section \<open>Machine types\<close>

type_synonym cint = "32 word" \<comment> \<open>C++ \<^verbatim>\<open>int\<close> where it is computed with (read by \<open>sint\<close>)\<close>
type_synonym playerid = int   \<comment> \<open>SA-MP player ids, only compared\<close>

section \<open>Exceptions\<close>

text \<open>
  What can leave a function other than by returning: \<^verbatim>\<open>std::runtime_error\<close> with its message,
  \<^verbatim>\<open>mongo::UserException\<close>, \<^verbatim>\<open>mongo::AssertionException\<close> and \<^verbatim>\<open>mongo::SocketException\<close> of the driver,
  \<^verbatim>\<open>boost::bad_lexical_cast\<close>, a thrown \<^verbatim>\<open>int\<close>, and undefined behaviour (a dereferenced end iterator, an invalid pointer), which the model
  keeps apart from every exception: no handler catches it.
\<close>

datatype exn = RuntimeError string | UserException | AssertionException | SocketException | BadLexicalCast | ThrownInt int | Undefined

section \<open>Programs: a state, a result or an exception\<close>

text \<open>C++ does not undo effects when an exception leaves a function, so the state comes back
  in both cases.\<close>

type_synonym ('s, 'a) prog = "'s \<Rightarrow> (exn + 'a) \<times> 's"

definition ret :: "'a \<Rightarrow> ('s, 'a) prog" where
  "ret x = (\<lambda>s. (Inr x, s))"

text \<open>The result of a function without effects, as a program.\<close>

definition liftR :: "exn + 'a \<Rightarrow> ('s, 'a) prog" where
  "liftR r = (\<lambda>s. (r, s))"

text \<open>Functions without effects in sequence.\<close>

definition bindR :: "exn + 'a \<Rightarrow> ('a \<Rightarrow> exn + 'b) \<Rightarrow> exn + 'b" where
  "bindR r f = (case r of Inl e \<Rightarrow> Inl e | Inr x \<Rightarrow> f x)"

lemma bindR_simps [simp]: "bindR (Inl e) f = Inl e" "bindR (Inr x) f = f x"
  by (simp_all add: bindR_def)

definition throw :: "exn \<Rightarrow> ('s, 'a) prog" where
  "throw e = (\<lambda>s. (Inl e, s))"

definition seq :: "('s, 'a) prog \<Rightarrow> ('a \<Rightarrow> ('s, 'b) prog) \<Rightarrow> ('s, 'b) prog" where
  "seq m f = (\<lambda>s. case m s of (Inl e, s') \<Rightarrow> (Inl e, s') | (Inr x, s') \<Rightarrow> f x s')"

definition andthen :: "('s, 'a) prog \<Rightarrow> ('s, 'b) prog \<Rightarrow> ('s, 'b) prog" where
  "andthen m n = seq m (\<lambda>_. n)"

definition gets :: "('s \<Rightarrow> 'a) \<Rightarrow> ('s, 'a) prog" where
  "gets f = (\<lambda>s. (Inr (f s), s))"

definition modify :: "('s \<Rightarrow> 's) \<Rightarrow> ('s, unit) prog" where
  "modify f = (\<lambda>s. (Inr (), f s))"

definition whenP :: "bool \<Rightarrow> ('s, unit) prog \<Rightarrow> ('s, unit) prog" where
  "whenP b m = (if b then m else ret ())"

text \<open>\<^verbatim>\<open>try { m } catch(...) { h }\<close>: the handler sees the exception and the state it left.
  A handler that does not take an exception throws it again.\<close>

definition tryCatch :: "('s, 'a) prog \<Rightarrow> (exn \<Rightarrow> ('s, 'a) prog) \<Rightarrow> ('s, 'a) prog" where
  "tryCatch m h = (\<lambda>s. case m s of (Inl e, s') \<Rightarrow> h e s' | (Inr x, s') \<Rightarrow> (Inr x, s'))"

text \<open>A \<^verbatim>\<open>for\<close> loop over the elements of a container.\<close>

primrec forEach :: "'a list \<Rightarrow> ('a \<Rightarrow> ('s, unit) prog) \<Rightarrow> ('s, unit) prog" where
  "forEach [] f = ret ()"
| "forEach (x # xs) f = andthen (f x) (forEach xs f)"

subsection \<open>Evaluation\<close>

named_theorems prog_defs "the program combinators, unfolded"

declare ret_def [prog_defs] liftR_def [prog_defs] throw_def [prog_defs] seq_def [prog_defs] andthen_def [prog_defs]
  gets_def [prog_defs] modify_def [prog_defs] whenP_def [prog_defs] tryCatch_def [prog_defs]

lemma seq_Inr: "m s = (Inr x, s') \<Longrightarrow> seq m f s = f x s'"
  by (simp add: seq_def)

lemma seq_Inl: "m s = (Inl e, s') \<Longrightarrow> seq m f s = (Inl e, s')"
  by (simp add: seq_def)

lemma seq_ret [simp]: "seq (ret x) f = f x"
  by (simp add: seq_def ret_def)

lemma seq_ret_right [simp]: "seq m ret = m"
  by (rule ext) (simp add: seq_def ret_def split: prod.splits sum.splits)

lemma seq_assoc: "seq (seq m f) g = seq m (\<lambda>x. seq (f x) g)"
  by (rule ext) (simp add: seq_def split: prod.splits sum.splits)

lemma forEach_append: "forEach (xs @ ys) f = andthen (forEach xs f) (forEach ys f)"
  by (induction xs) (simp_all add: andthen_def seq_assoc)

subsection \<open>Invariants of programs\<close>

text \<open>\<open>keeps P m\<close>: if \<open>P\<close> holds before \<open>m\<close> it holds after, whether \<open>m\<close> returns or throws.\<close>

definition keeps :: "('s \<Rightarrow> bool) \<Rightarrow> ('s, 'a) prog \<Rightarrow> bool" where
  "keeps P m \<longleftrightarrow> (\<forall>s. P s \<longrightarrow> P (snd (m s)))"

named_theorems keeps_intros "rules that show an invariant of a program from its parts"

lemma keepsD: "keeps P m \<Longrightarrow> P s \<Longrightarrow> P (snd (m s))"
  by (simp add: keeps_def)

lemma keepsI: "(\<And>s. P s \<Longrightarrow> P (snd (m s))) \<Longrightarrow> keeps P m"
  by (simp add: keeps_def)

lemma keeps_ret [keeps_intros]: "keeps P (ret x)"
  by (simp add: keeps_def ret_def)

lemma keeps_throw [keeps_intros]: "keeps P (throw e)"
  by (simp add: keeps_def throw_def)

lemma keeps_liftR [keeps_intros]: "keeps P (liftR r)"
  by (simp add: keeps_def liftR_def)

lemma keeps_gets [keeps_intros]: "keeps P (gets f)"
  by (simp add: keeps_def gets_def)

lemma keeps_modify: "(\<And>s. P s \<Longrightarrow> P (f s)) \<Longrightarrow> keeps P (modify f)"
  by (simp add: keeps_def modify_def)

lemma keeps_seq [keeps_intros]:
  assumes "keeps P m" and "\<And>x. keeps P (f x)"
  shows "keeps P (seq m f)"
proof (rule keepsI)
  fix s assume "P s"
  with assms(1) have "P (snd (m s))" by (rule keepsD)
  with assms(2) show "P (snd (seq m f s))"
    by (auto simp: seq_def keeps_def split: prod.splits sum.splits)
qed

lemma keeps_andthen [keeps_intros]: "keeps P m \<Longrightarrow> keeps P n \<Longrightarrow> keeps P (andthen m n)"
  by (simp add: andthen_def keeps_seq)

lemma keeps_whenP [keeps_intros]: "(b \<Longrightarrow> keeps P m) \<Longrightarrow> keeps P (whenP b m)"
  by (simp add: whenP_def keeps_ret)

lemma keeps_if [keeps_intros]: "(b \<Longrightarrow> keeps P m) \<Longrightarrow> (\<not> b \<Longrightarrow> keeps P n) \<Longrightarrow> keeps P (if b then m else n)"
  by simp

lemma keeps_tryCatch [keeps_intros]:
  assumes "keeps P m" and "\<And>e. keeps P (h e)"
  shows "keeps P (tryCatch m h)"
proof (rule keepsI)
  fix s assume "P s"
  with assms(1) have "P (snd (m s))" by (rule keepsD)
  with assms(2) show "P (snd (tryCatch m h s))"
    by (auto simp: tryCatch_def keeps_def split: prod.splits sum.splits)
qed

lemma keeps_forEach [keeps_intros]: "(\<And>x. x \<in> set xs \<Longrightarrow> keeps P (f x)) \<Longrightarrow> keeps P (forEach xs f)"
  by (induction xs) (simp_all add: keeps_ret keeps_andthen)

lemma keeps_case_option [keeps_intros]:
  "keeps P n \<Longrightarrow> (\<And>x. keeps P (f x)) \<Longrightarrow> keeps P (case v of None \<Rightarrow> n | Some x \<Rightarrow> f x)"
  by (simp split: option.split)

lemma keeps_case_list [keeps_intros]:
  "keeps P n \<Longrightarrow> (\<And>x xs. keeps P (f x xs)) \<Longrightarrow> keeps P (case v of [] \<Rightarrow> n | x # xs \<Rightarrow> f x xs)"
  by (simp split: list.split)

lemma keeps_case_prod [keeps_intros]:
  "(\<And>x y. keeps P (f x y)) \<Longrightarrow> keeps P (case v of (x, y) \<Rightarrow> f x y)"
  by (simp split: prod.split)

lemma keeps_Let [keeps_intros]: "keeps P (f v) \<Longrightarrow> keeps P (Let v f)"
  by simp

text \<open>A function of the state that a program leaves alone: the frame condition.\<close>

lemma keeps_eqI: "(\<And>c. keeps (\<lambda>s. g s = c) m) \<Longrightarrow> g (snd (m s)) = g s"
  by (auto simp: keeps_def)

subsection \<open>Pre- and postconditions\<close>

text \<open>\<open>hoare P m Q E\<close>: from a state with \<open>P\<close>, \<open>m\<close> returns with \<open>Q\<close> of the result and the state, or throws and leaves a state with \<open>E\<close>.\<close>

definition hoare :: "('s \<Rightarrow> bool) \<Rightarrow> ('s, 'a) prog \<Rightarrow> ('a \<Rightarrow> 's \<Rightarrow> bool) \<Rightarrow> ('s \<Rightarrow> bool) \<Rightarrow> bool" where
  "hoare P m Q E \<longleftrightarrow> (\<forall>s s'. P s \<longrightarrow> (\<forall>x. m s = (Inr x, s') \<longrightarrow> Q x s') \<and> (\<forall>e. m s = (Inl e, s') \<longrightarrow> E s'))"

lemma hoare_Inr: "hoare P m Q E \<Longrightarrow> P s \<Longrightarrow> m s = (Inr x, s') \<Longrightarrow> Q x s'"
  unfolding hoare_def by blast

lemma hoare_Inl: "hoare P m Q E \<Longrightarrow> P s \<Longrightarrow> m s = (Inl e, s') \<Longrightarrow> E s'"
  unfolding hoare_def by blast

lemma hoare_seq:
  assumes "hoare P m R E" and "\<And>x. hoare (R x) (f x) Q E"
  shows "hoare P (seq m f) Q E"
  unfolding hoare_def
proof (intro allI impI)
  fix s s' assume "P s"
  obtain r t where m: "m s = (r, t)" by fastforce
  show "(\<forall>x. seq m f s = (Inr x, s') \<longrightarrow> Q x s') \<and> (\<forall>e. seq m f s = (Inl e, s') \<longrightarrow> E s')"
  proof (cases r)
    case (Inl e)
    then show ?thesis using m hoare_Inl [OF assms(1) \<open>P s\<close>] by (auto simp: seq_def)
  next
    case (Inr x)
    then have "R x t" using m hoare_Inr [OF assms(1) \<open>P s\<close>] by simp
    then show ?thesis using m Inr hoare_Inr [OF assms(2)] hoare_Inl [OF assms(2)] by (simp add: seq_def)
  qed
qed

lemma hoare_andthen: "hoare P m (\<lambda>_. R) E \<Longrightarrow> hoare R n Q E \<Longrightarrow> hoare P (andthen m n) Q E"
  unfolding andthen_def by (rule hoare_seq)

lemma hoare_ret: "(\<And>s. P s \<Longrightarrow> Q x s) \<Longrightarrow> hoare P (ret x) Q E"
  by (simp add: hoare_def ret_def)

lemma hoare_throw: "(\<And>s. P s \<Longrightarrow> E s) \<Longrightarrow> hoare P (throw e) Q E"
  by (simp add: hoare_def throw_def)

lemma hoare_gets: "(\<And>s. P s \<Longrightarrow> Q (f s) s) \<Longrightarrow> hoare P (gets f) Q E"
  by (simp add: hoare_def gets_def)

lemma hoare_if: "(b \<Longrightarrow> hoare P m Q E) \<Longrightarrow> (\<not> b \<Longrightarrow> hoare P n Q E) \<Longrightarrow> hoare P (if b then m else n) Q E"
  by simp

lemma hoare_keeps: "keeps P m \<Longrightarrow> (\<And>s. P s \<Longrightarrow> E s) \<Longrightarrow> hoare P m (\<lambda>_. P) E"
  unfolding hoare_def keeps_def by (metis snd_conv)

lemma hoare_seq_keep:
  "keeps P m \<Longrightarrow> (\<And>s. P s \<Longrightarrow> E s) \<Longrightarrow> (\<And>x. hoare P (f x) Q E) \<Longrightarrow> hoare P (seq m f) Q E"
  by (rule hoare_seq [where R = "\<lambda>_. P"]) (rule hoare_keeps)

lemma hoare_andthen_keep:
  "keeps P m \<Longrightarrow> (\<And>s. P s \<Longrightarrow> E s) \<Longrightarrow> hoare P n Q E \<Longrightarrow> hoare P (andthen m n) Q E"
  unfolding andthen_def by (rule hoare_seq_keep)

lemma hoare_pre: "hoare P' m Q E \<Longrightarrow> (\<And>s. P s \<Longrightarrow> P' s) \<Longrightarrow> hoare P m Q E"
  unfolding hoare_def by blast

lemma hoare_post: "hoare P m Q' E \<Longrightarrow> (\<And>x s. Q' x s \<Longrightarrow> Q x s) \<Longrightarrow> hoare P m Q E"
  unfolding hoare_def by blast

section \<open>Association lists\<close>

lemma map_of_snoc_fresh:
  "k \<notin> fst ` set xs \<Longrightarrow> map_of (xs @ [(k, v)]) = (map_of xs)(k \<mapsto> v)"
  by (induction xs) (auto simp: fun_eq_iff)

lemma map_of_None_iff: "map_of xs k = None \<longleftrightarrow> k \<notin> fst ` set xs"
  by (simp add: map_of_eq_None_iff)

lemma distinct_fst_update [simp]:
  "distinct (map fst xs) \<Longrightarrow> distinct (map fst (AList.update k v xs))"
  by (rule distinct_update)

lemma distinct_fst_delete [simp]:
  "distinct (map fst xs) \<Longrightarrow> distinct (map fst (AList.delete k xs))"
  by (rule distinct_delete)

lemma length_delete_present:
  "distinct (map fst xs) \<Longrightarrow> k \<in> fst ` set xs \<Longrightarrow> Suc (length (AList.delete k xs)) = length xs"
proof (induction xs)
  case Nil
  then show ?case by simp
next
  case (Cons a xs)
  show ?case
  proof (cases "fst a = k")
    case True
    with Cons.prems(1) have "k \<notin> fst ` set xs" by auto
    then have "AList.delete k xs = xs"
      by (simp add: delete_id)
    with True show ?thesis by (cases a) simp
  next
    case False
    with Cons show ?thesis by (cases a) auto
  qed
qed

section \<open>Signed 32-bit integers\<close>

lemma sint_range: "- (2 ^ 31) \<le> sint (i :: cint)" "sint (i :: cint) < 2 ^ 31"
  using sint_greater_eq [of i] sint_less [of i] by simp_all

lemma sint_of_small: "- (2 ^ 31) \<le> k \<Longrightarrow> k < 2 ^ 31 \<Longrightarrow> sint (word_of_int k :: cint) = k"
  by (simp add: signed_of_int signed_take_bit_int_eq_self)

lemma sint_add_small:
  "- (2 ^ 31) \<le> sint a + sint b \<Longrightarrow> sint a + sint b < 2 ^ 31 \<Longrightarrow> sint (a + b) = sint a + sint (b :: cint)"
proof -
  have "a + b = word_of_int (sint a + sint b)" by (simp only: of_int_add of_int_sint scast_id)
  moreover assume "- (2 ^ 31) \<le> sint a + sint b" "sint a + sint b < 2 ^ 31"
  ultimately show ?thesis by (simp only: sint_of_small)
qed

lemma uint_eq_sint: "0 \<le> sint (w :: cint) \<Longrightarrow> uint w = sint w"
  using sint_range [of w] by (simp add: uint_sint take_bit_int_eq_self)

lemma sint_eq_uint: "uint (w :: cint) < 2 ^ 31 \<Longrightarrow> sint w = uint w"
proof -
  assume "uint w < 2 ^ 31"
  moreover have "0 \<le> uint w" by simp
  ultimately have "signed_take_bit 31 (uint w) = uint w"
    by (intro signed_take_bit_int_eq_self) linarith+
  then show ?thesis by (simp add: sint_uint)
qed

end
