(* ===== verification/Floats.thy ===== *)
theory Floats
  imports Prelude "HOL-Library.Log_Nat"
begin

text \<open>
  C++ \<^verbatim>\<open>float\<close> and \<^verbatim>\<open>double\<close> arithmetic: finite values as rationals, every operation the exact
  result rounded to the nearest representable value, ties to even, with a precision and a least
  exponent (24 and -126 for \<^verbatim>\<open>float\<close>, 53 and -1022 for \<^verbatim>\<open>double\<close>). Infinities, NaN and the sign of
  zero are outside the model, as is the overflow threshold.
\<close>

type_synonym flt = rat

section \<open>Rounding to nearest, ties to even\<close>

definition rne :: "rat \<Rightarrow> int" where
  "rne x = (let f = \<lfloor>x\<rfloor>; d = x - of_int f in
     if d < 1 / 2 then f else if 1 / 2 < d then f + 1 else if even f then f else f + 1)"

lemma rne_of_int [simp]: "rne (of_int i) = i"
  by (simp add: rne_def)

lemma rne_floor: "rne x = \<lfloor>x\<rfloor> \<or> rne x = \<lfloor>x\<rfloor> + 1"
  by (auto simp: rne_def Let_def)

lemma rne_mono: "x \<le> y \<Longrightarrow> rne x \<le> rne y"
proof -
  assume le: "x \<le> y"
  then have fl: "\<lfloor>x\<rfloor> \<le> \<lfloor>y\<rfloor>" by (rule floor_mono)
  show ?thesis
  proof (cases "\<lfloor>x\<rfloor> = \<lfloor>y\<rfloor>")
    case True
    then show ?thesis using le by (auto simp: rne_def Let_def)
  next
    case False
    with fl have "\<lfloor>x\<rfloor> + 1 \<le> \<lfloor>y\<rfloor>" by simp
    with rne_floor [of x] rne_floor [of y] show ?thesis by auto
  qed
qed

lemma rne_minus: "rne (- x) = - rne x"
proof (cases "x = of_int \<lfloor>x\<rfloor>")
  case True
  then show ?thesis by (metis of_int_minus rne_of_int)
next
  case False
  then have "\<lceil>x\<rceil> = \<lfloor>x\<rfloor> + 1" by (metis ceiling_altdef)
  then have "\<lfloor>- x\<rfloor> = - \<lfloor>x\<rfloor> - 1" by (simp add: floor_minus)
  then show ?thesis by (auto simp: rne_def Let_def)
qed

section \<open>Exponents\<close>

definition expo :: "rat \<Rightarrow> int" where
  "expo x = (if 1 \<le> x then bitlen \<lfloor>x\<rfloor> - 1 else - bitlen (\<lceil>1 / x\<rceil> - 1))"

lemma expo_bounds:
  assumes "0 < x"
  shows "2 powi expo x \<le> x" and "x < 2 powi (expo x + 1)"
proof -
  have "2 powi expo x \<le> x \<and> x < 2 powi (expo x + 1)"
  proof (cases "1 \<le> x")
    case True
    then have f: "1 \<le> \<lfloor>x\<rfloor>" by (simp add: le_floor_iff)
    then obtain k where k: "bitlen \<lfloor>x\<rfloor> = int k + 1"
      using bitlen_bounds [of "\<lfloor>x\<rfloor>"] by (metis add.commute bitlen_nonneg bitlen_eq_zero_iff int_one_le_iff_zero_less
          le_add_diff_inverse nonneg_int_cases order_less_le not_le zero_less_one zle_diff1_eq diff_add_cancel)
    with bitlen_bounds [of "\<lfloor>x\<rfloor>"] f have "2 ^ k \<le> \<lfloor>x\<rfloor>" "\<lfloor>x\<rfloor> < 2 ^ (k + 1)"
      by (auto simp: nat_add_distrib)
    then have "of_int (2 ^ k) \<le> x" "x < of_int (2 ^ (k + 1))"
      by (simp_all only: le_floor_iff floor_less_iff)
    with True k show ?thesis
      by (simp add: expo_def power_int_def nat_add_distrib)
  next
    case False
    define n where "n = \<lceil>1 / x\<rceil>"
    have inv: "1 < 1 / x" using False assms by (simp add: field_simps)
    then have "1 < n" by (simp add: n_def less_ceiling_iff)
    then obtain k where k: "bitlen (n - 1) = int k + 1"
      by (metis bitlen_nonneg bitlen_eq_zero_iff diff_add_cancel diff_gt_0_iff_gt nonneg_int_cases not_le order_less_le zle_diff1_eq zero_less_diff)
    with bitlen_bounds [of "n - 1"] \<open>1 < n\<close> have "2 ^ k < n" "n \<le> 2 ^ (k + 1)"
      by (auto simp: nat_add_distrib)
    then have "of_int (2 ^ k) < 1 / x" "1 / x \<le> of_int (2 ^ (k + 1))"
      by (simp_all only: n_def less_ceiling_iff ceiling_le_iff)
    with assms have "1 / 2 ^ (k + 1) \<le> x" "x < 1 / 2 ^ k" by (simp_all add: field_simps)
    moreover from False k have e: "expo x = - int (k + 1)" "expo x + 1 = - int k"
      by (simp_all add: expo_def n_def)
    ultimately show ?thesis
      unfolding e(2) unfolding e(1) power_int_minus power_int_of_nat by (simp add: inverse_eq_divide)
  qed
  then show "2 powi expo x \<le> x" and "x < 2 powi (expo x + 1)" by auto
qed

lemma expo_mono: "0 < x \<Longrightarrow> x \<le> y \<Longrightarrow> expo x \<le> expo y"
proof (rule ccontr)
  assume "0 < x" "x \<le> y" "\<not> expo x \<le> expo y"
  then have "expo y + 1 \<le> expo x" by simp
  then have "(2 :: rat) powi (expo y + 1) \<le> 2 powi expo x" by (intro power_int_increasing) simp_all
  with expo_bounds [of x] expo_bounds [of y] \<open>0 < x\<close> \<open>x \<le> y\<close> show False by linarith
qed

section \<open>Rounding to a floating-point format\<close>

definition ulp :: "nat \<Rightarrow> int \<Rightarrow> rat \<Rightarrow> rat" where
  "ulp p emin x = 2 powi (max emin (expo \<bar>x\<bar>) - int p + 1)"

definition fl :: "nat \<Rightarrow> int \<Rightarrow> rat \<Rightarrow> rat" where
  "fl p emin x = (if x = 0 then 0 else of_int (rne (x / ulp p emin x)) * ulp p emin x)"

definition fl32 :: "rat \<Rightarrow> flt" where
  "fl32 = fl 24 (- 126)"

definition fl64 :: "rat \<Rightarrow> flt" where
  "fl64 = fl 53 (- 1022)"

lemma ulp_pos: "0 < ulp p emin x"
  by (simp add: ulp_def)

lemma fl_0 [simp]: "fl p emin 0 = 0"
  by (simp add: fl_def)

lemma fl_minus: "fl p emin (- x) = - fl p emin x"
  by (simp add: fl_def ulp_def rne_minus)

lemma fl_nonneg: "0 \<le> x \<Longrightarrow> 0 \<le> fl p emin x"
proof -
  assume "0 \<le> x"
  then have "0 \<le> x / ulp p emin x" using ulp_pos [of p emin x] by simp
  then have "rne 0 \<le> rne (x / ulp p emin x)" by (rule rne_mono)
  then have "0 \<le> rne (x / ulp p emin x)" using rne_of_int [of 0] by simp
  then show ?thesis using ulp_pos [of p emin x] by (simp add: fl_def)
qed

lemma fl_mono_pos:
  assumes x: "0 < x" and xy: "x \<le> y" and p: "1 \<le> p"
  shows "fl p emin x \<le> fl p emin y"
proof -
  define ex ey where "ex = max emin (expo x)" and "ey = max emin (expo y)"
  have y: "0 < y" using x xy by simp
  have ux: "ulp p emin x = 2 powi (ex - int p + 1)" and uy: "ulp p emin y = 2 powi (ey - int p + 1)"
    using x y by (simp_all add: ulp_def ex_def ey_def)
  have exy: "ex \<le> ey" using expo_mono [OF x xy] by (auto simp: ex_def ey_def)
  show ?thesis
  proof (cases "ex = ey")
    case True
    then have "rne (x / ulp p emin x) \<le> rne (y / ulp p emin y)"
      using xy by (intro rne_mono) (simp add: ux uy divide_right_mono)
    with True show ?thesis using x y by (simp add: fl_def ux uy)
  next
    case False
    with exy have lt: "ex + 1 \<le> ey" by simp
    then have ey: "ey = expo y" by (auto simp: ex_def ey_def)
    have "x < 2 powi (expo x + 1)" using x by (rule expo_bounds)
    also have "\<dots> \<le> 2 powi (ex + 1)" by (intro power_int_increasing) (simp_all add: ex_def)
    also have "2 powi (ex + 1) = of_int (2 ^ p) * (2 :: rat) powi (ex - int p + 1)"
      by (simp add: power_int_add [symmetric] flip: power_int_of_nat)
    finally have "x / ulp p emin x \<le> of_int (2 ^ p)" by (simp add: ux divide_le_eq)
    then have "rne (x / ulp p emin x) \<le> 2 ^ p" using rne_mono rne_of_int by metis
    then have "fl p emin x \<le> of_int (2 ^ p) * ulp p emin x"
      using x ulp_pos [of p emin x] by (simp add: fl_def del: of_int_power)
    also have "of_int (2 ^ p) * ulp p emin x = 2 powi (ex + 1)"
      by (simp add: ux power_int_add [symmetric] flip: power_int_of_nat)
    also have "(2 :: rat) powi (ex + 1) \<le> 2 powi ey" using lt by (intro power_int_increasing) simp_all
    also have half: "2 powi ey = of_int (2 ^ (p - 1)) * ulp p emin y"
      using p by (simp add: uy power_int_add [symmetric] flip: power_int_of_nat)
    also have "\<dots> \<le> fl p emin y"
    proof -
      have "2 powi ey \<le> y" unfolding ey using y by (rule expo_bounds)
      then have "of_int (2 ^ (p - 1)) \<le> y / ulp p emin y"
        using ulp_pos [of p emin y] by (simp add: half le_divide_eq)
      then have "2 ^ (p - 1) \<le> rne (y / ulp p emin y)" using rne_mono rne_of_int by metis
      then show ?thesis
        using y ulp_pos [of p emin y] by (simp add: fl_def del: of_int_power)
    qed
    finally show ?thesis .
  qed
qed

lemma fl_mono: "1 \<le> p \<Longrightarrow> x \<le> y \<Longrightarrow> fl p emin x \<le> fl p emin y"
proof -
  assume p: "1 \<le> p" and le: "x \<le> y"
  consider "0 < x" | "x \<le> 0" "0 \<le> y" | "y < 0" using le by linarith
  then show ?thesis
  proof cases
    case 1
    then show ?thesis using le p by (rule fl_mono_pos)
  next
    case 2
    then have "0 \<le> fl p emin (- x)" "0 \<le> fl p emin y" by (simp_all add: fl_nonneg)
    then show ?thesis by (simp add: fl_minus)
  next
    case 3
    then have "fl p emin (- y) \<le> fl p emin (- x)" using le p by (intro fl_mono_pos) simp_all
    then show ?thesis by (simp add: fl_minus)
  qed
qed

text \<open>Integers of at most \<open>p\<close> bits are represented exactly.\<close>

lemma fl_of_int:
  assumes i: "\<bar>i\<bar> < 2 ^ p" and e: "emin \<le> 0" and p: "1 \<le> p"
  shows "fl p emin (of_int i) = of_int i"
proof (cases "i = 0")
  case True
  then show ?thesis by simp
next
  case False
  define x where "x = \<bar>of_int i :: rat\<bar>"
  have x: "1 \<le> x" "0 < x" using False by (simp_all add: x_def)
  have "expo x < int p"
  proof (rule ccontr)
    assume "\<not> expo x < int p"
    then have "(2 :: rat) powi int p \<le> 2 powi expo x" by (intro power_int_increasing) simp_all
    also have "\<dots> \<le> x" using x(2) by (rule expo_bounds)
    finally have "of_int (2 ^ p) \<le> (of_int \<bar>i\<bar> :: rat)" by (simp add: x_def)
    with i show False by (simp only: of_int_le_iff)
  qed
  moreover have "0 \<le> expo x"
  proof (rule ccontr)
    assume "\<not> 0 \<le> expo x"
    then have "(2 :: rat) powi (expo x + 1) \<le> 2 powi 0" by (intro power_int_increasing) simp_all
    with expo_bounds(2) [OF x(2)] x(1) show False by simp
  qed
  moreover define k where "k = nat (int p - 1 - expo x)"
  ultimately have k: "max emin (expo x) - int p + 1 = - int k" using e by simp
  have u: "ulp p emin (of_int i) = 1 / 2 ^ k"
    by (simp add: ulp_def x_def [symmetric] k power_int_minus inverse_eq_divide)
  have "of_int i / ulp p emin (of_int i) = (of_int (i * 2 ^ k) :: rat)" by (simp add: u)
  then have "rne (of_int i / ulp p emin (of_int i)) = i * 2 ^ k" by (simp only: rne_of_int)
  then show ?thesis using False by (simp add: fl_def u)
qed

lemma fl32_mono: "x \<le> y \<Longrightarrow> fl32 x \<le> fl32 y"
  by (simp add: fl32_def fl_mono)

lemma fl32_of_int: "\<bar>i\<bar> < 2 ^ 24 \<Longrightarrow> fl32 (of_int i) = of_int i"
  by (simp add: fl32_def fl_of_int)

text \<open>The values a \<^verbatim>\<open>float\<close> can hold.\<close>

definition is_float :: "flt \<Rightarrow> bool" where
  "is_float x \<longleftrightarrow> fl32 x = x"

lemma is_float_int: "\<bar>i\<bar> < 2 ^ 24 \<Longrightarrow> is_float (of_int i)"
  by (simp add: is_float_def fl32_of_int)

lemma is_float_numeral [simp]: "is_float 0" "is_float 1" "is_float 50" "is_float 100"
  using is_float_int [of 0] is_float_int [of 1] is_float_int [of 50] is_float_int [of 100] by simp_all

lemma fl32_le_float: "is_float y \<Longrightarrow> x \<le> y \<Longrightarrow> fl32 x \<le> y"
  using fl32_mono [of x y] by (simp add: is_float_def)

lemma fl32_ge_float: "is_float y \<Longrightarrow> y \<le> x \<Longrightarrow> y \<le> fl32 x"
  using fl32_mono [of y x] by (simp add: is_float_def)

end
