(* ===== verification/Bson.thy ===== *)
theory Bson
  imports Floats
begin

text \<open>
  Documents as the program sees them: object ids with their hexadecimal form, BSON values, and the
  accessors of the driver (\<^verbatim>\<open>bson/oid.h\<close>, \<^verbatim>\<open>util/hex.h\<close>, \<^verbatim>\<open>bson/bsonelement.h\<close>) that throw
  \<^verbatim>\<open>UserException\<close> when a field is missing or has another type.
\<close>

unbundle bit_operations_syntax

section \<open>Object ids\<close>

text \<open>Twelve bytes, the first one the most significant.\<close>

type_synonym oid = "96 word"

definition oid_clear :: oid where
  "oid_clear = 0"

definition oid_isSet :: "oid \<Rightarrow> bool" where
  "oid_isSet o' \<longleftrightarrow> o' \<noteq> 0"

definition hexchars :: string where
  "hexchars = ''0123456789abcdef''"

definition nibble :: "oid \<Rightarrow> nat \<Rightarrow> nat" where
  "nibble o' i = unat (drop_bit (4 * (23 - i)) o' AND 15)"

definition oid_str :: "oid \<Rightarrow> string" where
  "oid_str o' = map (\<lambda>i. hexchars ! nibble o' i) [0..<24]"

definition fromHex :: "char \<Rightarrow> exn + nat" where
  "fromHex c =
     (let n = of_char c :: nat in
      if 48 \<le> n \<and> n \<le> 57 then Inr (n - 48)
      else if 97 \<le> n \<and> n \<le> 102 then Inr (n - 97 + 10)
      else if 65 \<le> n \<and> n \<le> 70 then Inr (n - 65 + 10)
      else Inl AssertionException)"

fun oid_init_loop :: "oid \<Rightarrow> string \<Rightarrow> exn + oid" where
  "oid_init_loop acc [] = Inr acc"
| "oid_init_loop acc (c # cs) =
     (case fromHex c of Inl e \<Rightarrow> Inl e | Inr d \<Rightarrow> oid_init_loop (push_bit 4 acc OR of_nat d) cs)"

definition oid_init :: "string \<Rightarrow> exn + oid" where
  "oid_init s = (if length s = 24 then oid_init_loop 0 s else Inl AssertionException)"

subsection \<open>The hexadecimal form determines the id\<close>

lemma nibble_less: "nibble o' i < 16"
proof -
  have "drop_bit (4 * (23 - i)) o' AND 15 \<le> 15" by (rule word_and_le1)
  then have "unat (drop_bit (4 * (23 - i)) o' AND 15) \<le> unat (15 :: oid)"
    by (simp only: word_le_nat_alt)
  then show ?thesis by (simp add: nibble_def)
qed

lemma fromHex_hexchars: "d < 16 \<Longrightarrow> fromHex (hexchars ! d) = Inr d"
proof -
  have "\<forall>d \<in> {..<16}. fromHex (hexchars ! d) = Inr d"
    by (simp add: lessThan_Suc eval_nat_numeral lessThan_nat_numeral fromHex_def hexchars_def)
  moreover assume "d < 16"
  ultimately show ?thesis by blast
qed

lemma oid_init_loop_append:
  "oid_init_loop acc (xs @ ys) =
     (case oid_init_loop acc xs of Inl e \<Rightarrow> Inl e | Inr a \<Rightarrow> oid_init_loop a ys)"
  by (induction acc xs rule: oid_init_loop.induct) (auto split: sum.splits)

lemma oid_init_loop_prefix:
  "n \<le> 24 \<Longrightarrow> oid_init_loop 0 (map (\<lambda>i. hexchars ! nibble o' i) [0..<n]) = Inr (drop_bit (4 * (24 - n)) o')"
proof (induction n)
  case 0
  have "drop_bit 96 o' = 0" by (rule bit_word_eqI) (auto simp: bit_simps dest: bit_imp_le_length)
  then show ?case by simp
next
  case (Suc n)
  define k where "k = 4 * (23 - n)"
  have k: "4 * (24 - n) = k + 4" "4 * (24 - Suc n) = k" using Suc.prems by (simp_all add: k_def)
  have "push_bit 4 (drop_bit (k + 4) o') OR (drop_bit k o' AND 15) = drop_bit k o'"
  proof (rule bit_word_eqI)
    fix i assume "i < LENGTH(96)"
    have "bit (15 :: oid) i \<longleftrightarrow> i < 4"
      using bit_mask_iff [of 4 i, where ?'a = oid] \<open>i < LENGTH(96)\<close> by (auto simp: mask_numeral)
    with \<open>i < LENGTH(96)\<close>
    show "bit (push_bit 4 (drop_bit (k + 4) o') OR (drop_bit k o' AND 15)) i = bit (drop_bit k o') i"
      by (auto simp: bit_simps)
  qed
  moreover have "of_nat (nibble o' n) = (drop_bit k o' AND 15 :: oid)"
    by (simp add: nibble_def k_def)
  ultimately show ?case
    using Suc by (simp add: oid_init_loop_append fromHex_hexchars nibble_less k(1)) (simp add: k_def)
qed

lemma length_oid_str [simp]: "length (oid_str o') = 24"
  by (simp add: oid_str_def)

text \<open>C39. Parsing the 24 hexadecimal digits of an object id gives the id back, so the managers
  that key teams and properties by the printed id keep different objects apart.\<close>

theorem oid_roundtrip: "oid_init (oid_str o') = Inr o'"
  using oid_init_loop_prefix [of 24 o'] by (simp add: oid_init_def oid_str_def del: upt_rec)

lemma oid_str_inject [simp]: "oid_str a = oid_str b \<longleftrightarrow> a = b"
proof
  assume eq: "oid_str a = oid_str b"
  have "Inr a = oid_init_loop 0 (oid_str a)" "Inr b = oid_init_loop 0 (oid_str b)"
    using oid_init_loop_prefix [of 24 a] oid_init_loop_prefix [of 24 b]
    by (simp_all add: oid_str_def del: upt_rec)
  with eq show "a = b" by (metis Inr_inject)
qed simp

section \<open>Values and documents\<close>

datatype bson =
    EOO \<comment> \<open>no such field\<close>
  | BStr string
  | BInt cint
  | BLong "64 word"
  | BDbl flt
  | BBool bool
  | BDate
  | BOid oid
  | BObj "(string \<times> bson) list"
  | BArr "bson list"

type_synonym doc = "(string \<times> bson) list"

definition getField :: "doc \<Rightarrow> string \<Rightarrow> bson" where
  "getField d f = (case map_of d f of None \<Rightarrow> EOO | Some v \<Rightarrow> v)"

text \<open>Decimal digits, for the keys of an array seen as a document.\<close>

fun nat_str :: "nat \<Rightarrow> string" where
  "nat_str n = (if n < 10 then [char_of (48 + n)] else nat_str (n div 10) @ [char_of (48 + n mod 10)])"

declare nat_str.simps [simp del]

definition array_doc :: "bson list \<Rightarrow> doc" where
  "array_doc vs = zip (map nat_str [0..<length vs]) vs"

definition bson_String :: "bson \<Rightarrow> exn + string" where
  "bson_String v = (case v of BStr s \<Rightarrow> Inr s | _ \<Rightarrow> Inl UserException)"

text \<open>\<^verbatim>\<open>Number()\<close> is a \<^verbatim>\<open>double\<close>: every 32-bit integer is one, a 64-bit integer is rounded.\<close>

definition bson_Number :: "bson \<Rightarrow> exn + flt" where
  "bson_Number v = (case v of BInt i \<Rightarrow> Inr (of_int (sint i)) | BLong l \<Rightarrow> Inr (fl64 (of_int (sint l)))
     | BDbl x \<Rightarrow> Inr x | _ \<Rightarrow> Inl UserException)"

definition bson_Bool :: "bson \<Rightarrow> exn + bool" where
  "bson_Bool v = (case v of BBool b \<Rightarrow> Inr b | _ \<Rightarrow> Inl UserException)"

definition bson_OID :: "bson \<Rightarrow> exn + oid" where
  "bson_OID v = (case v of BOid x \<Rightarrow> Inr x | _ \<Rightarrow> Inl UserException)"

definition bson_Obj :: "bson \<Rightarrow> exn + doc" where
  "bson_Obj v = (case v of BObj d \<Rightarrow> Inr d | BArr vs \<Rightarrow> Inr (array_doc vs) | _ \<Rightarrow> Inl UserException)"

definition bson_Array :: "bson \<Rightarrow> exn + bson list" where
  "bson_Array v = (case v of BArr vs \<Rightarrow> Inr vs | _ \<Rightarrow> Inl UserException)"

text \<open>\<^verbatim>\<open>element[field]\<close> on an element, which has to be an object.\<close>

definition bson_field :: "bson \<Rightarrow> string \<Rightarrow> exn + bson" where
  "bson_field v f = (case bson_Obj v of Inl e \<Rightarrow> Inl e | Inr d \<Rightarrow> Inr (getField d f))"

text \<open>\<^verbatim>\<open>(int)x\<close> of a \<^verbatim>\<open>double\<close> truncates towards zero; out of the range of \<^verbatim>\<open>int\<close> (where
  C++ promises nothing) it is the \<open>integer indefinite\<close> value of the x86 conversion.\<close>

definition trunc :: "flt \<Rightarrow> int" where
  "trunc x = (if 0 \<le> x then \<lfloor>x\<rfloor> else \<lceil>x\<rceil>)"

definition int_of_double :: "flt \<Rightarrow> cint" where
  "int_of_double x =
     (let t = trunc x in if - (2 ^ 31) \<le> t \<and> t < 2 ^ 31 then word_of_int t else word_of_int (- (2 ^ 31)))"

lemma trunc_of_int [simp]: "trunc (of_int i) = i"
  by (simp add: trunc_def)

lemma int_of_double_of_int [simp]: "int_of_double (of_int (sint i)) = i"
proof -
  have "- (2 ^ 31) \<le> sint i" "sint i < 2 ^ 31"
    using sint_greater_eq [of i] sint_less [of i] by simp_all
  then show ?thesis
    unfolding int_of_double_def trunc_of_int by (simp only: Let_def of_int_sint scast_id if_True simp_thms)
qed

lemmas bson_defs = getField_def bson_String_def bson_Number_def bson_Bool_def bson_OID_def
  bson_Obj_def bson_Array_def bson_field_def

end
