(* ===== verification/Database.thy ===== *)
theory Database
  imports Bson
begin

text \<open>
  The connection of \<^verbatim>\<open>application_database.cpp\<close> and the class \<^verbatim>\<open>SaveableItem\<close>
  (\<^verbatim>\<open>application_data_base.cpp\<close>), the base of profiles, teams, properties, gang zones, races and
  waypoints. The MongoDB server is a parameter: functions of the requests sent so far, kept in the
  connection's record. Operations on an object are programs over the object and the connection.
\<close>

section \<open>The connection\<close>

datatype dbreq =
    DbInsert string doc        \<comment> \<open>collection, document\<close>
  | DbUpdate string oid doc    \<comment> \<open>collection, \<open>_id\<close> of the document, modifier\<close>
  | DbRemove string oid        \<comment> \<open>collection, \<open>_id\<close> of the document\<close>

text \<open>The server and the driver: what a query returns (an empty document when nothing matches), what
  \<^verbatim>\<open>getLastError\<close> says, which requests make the driver throw, all depending on the requests so far,
  latest first; and the ids \<^verbatim>\<open>GENOID\<close> generates, one after the other.\<close>

record dbst =
  db_host :: "string option"     \<comment> \<open>\<^verbatim>\<open>Database.host\<close> of the configuration\<close>
  db_reachable :: bool
  db_connected :: bool           \<comment> \<open>\<^verbatim>\<open>_connected\<close>\<close>
  db_find :: "dbreq list \<Rightarrow> string \<Rightarrow> string \<times> bson \<Rightarrow> exn + doc"
  db_all :: "dbreq list \<Rightarrow> string \<Rightarrow> exn + doc list"
  db_near :: "dbreq list \<Rightarrow> string \<Rightarrow> flt \<times> flt \<Rightarrow> nat \<Rightarrow> exn + doc list"  \<comment> \<open>\<^verbatim>\<open>$near\<close>, at most so many\<close>
  db_err :: "dbreq list \<Rightarrow> string"
  db_fail :: "dbreq list \<Rightarrow> dbreq \<Rightarrow> exn option"
  db_log :: "dbreq list"
  db_genoid :: "nat \<Rightarrow> oid"
  db_oids :: nat

definition bad_path :: exn where
  "bad_path = RuntimeError ''No such node''"

definition GetDB :: "(dbst, unit) prog" where
  "GetDB d = (if db_connected d then (Inr (), d)
     else case db_host d of None \<Rightarrow> (Inl bad_path, d)
       | Some h \<Rightarrow> if db_reachable d then (Inr (), d\<lparr>db_connected := True\<rparr>) else (Inl UserException, d))"

definition findOne :: "string \<Rightarrow> string \<times> bson \<Rightarrow> (dbst, doc) prog" where
  "findOne c q = andthen GetDB (\<lambda>d. (db_find d (db_log d) c q, d))"

definition queryAll :: "string \<Rightarrow> (dbst, doc list) prog" where
  "queryAll c = andthen GetDB (\<lambda>d. (db_all d (db_log d) c, d))"

definition queryNear :: "string \<Rightarrow> flt \<times> flt \<Rightarrow> nat \<Rightarrow> (dbst, doc list) prog" where
  "queryNear c p n = andthen GetDB (\<lambda>d. (db_near d (db_log d) c p n, d))"

definition request :: "dbreq \<Rightarrow> (dbst, unit) prog" where
  "request r = andthen GetDB (\<lambda>d. case db_fail d (db_log d) r of
     Some e \<Rightarrow> (Inl e, d) | None \<Rightarrow> (Inr (), d\<lparr>db_log := r # db_log d\<rparr>))"

definition getLastError :: "(dbst, string) prog" where
  "getLastError = andthen GetDB (gets (\<lambda>d. db_err d (db_log d)))"

definition genOID :: "(dbst, oid) prog" where
  "genOID d = (Inr (db_genoid d (db_oids d)), d\<lparr>db_oids := Suc (db_oids d)\<rparr>)"

section \<open>SaveableItem\<close>

record saveable =
  sv_collection :: string
  sv_rawdata :: doc
  sv_uniqueid :: oid

text \<open>The state of a member function: the object (of a derived class) and the connection.\<close>

type_synonym ('o, 'a) sprog = "('o saveable_scheme \<times> dbst, 'a) prog"

definition viaDB :: "(dbst, 'a) prog \<Rightarrow> ('o \<times> dbst, 'a) prog" where
  "viaDB m s = (let (r, d) = m (snd s) in (r, (fst s, d)))"

definition document_id :: "doc \<Rightarrow> exn + oid" where
  "document_id d = bson_OID (getField d ''_id'')"

text \<open>The constructors: by id or by a query on one field, and without a query. The members a
  derived class adds come from its own constructor.\<close>

definition saveable_byQuery :: "string \<Rightarrow> string \<times> bson \<Rightarrow> (dbst, saveable) prog" where
  "saveable_byQuery c q =
     seq (findOne c q) (\<lambda>d. if d \<noteq> [] then seq (liftR (document_id d)) (\<lambda>u. ret (saveable.make c d u))
       else ret (saveable.make c [] oid_clear))"

definition saveable_byID :: "string \<Rightarrow> oid \<Rightarrow> (dbst, saveable) prog" where
  "saveable_byID c u = saveable_byQuery c (''_id'', BOid u)"

definition saveable_new :: "string \<Rightarrow> saveable" where
  "saveable_new c = saveable.make c [] oid_clear"

definition Refetch :: "('o, unit) sprog" where
  "Refetch = seq (gets fst) (\<lambda>o'.
     if \<not> oid_isSet (sv_uniqueid o') then throw (RuntimeError ''Object doesn't exist'')
     else seq (viaDB (findOne (sv_collection o') (''_id'', BOid (sv_uniqueid o')))) (\<lambda>d.
       andthen (modify (apfst (sv_rawdata_update (\<lambda>_. d))))
       (if d = [] then seq (viaDB getLastError) (\<lambda>m. throw (RuntimeError (''Received a empty document: '' @ m)))
        else ret ())))"

definition InitData :: "doc \<Rightarrow> ('o, unit) sprog" where
  "InitData d = seq (gets fst) (\<lambda>o'.
     if sv_rawdata o' \<noteq> [] then throw (RuntimeError ''Data already exists'')
     else andthen (modify (apfst (sv_rawdata_update (\<lambda>_. d))))
       (seq (liftR (document_id d)) (\<lambda>u. modify (apfst (sv_uniqueid_update (\<lambda>_. u))))))"

text \<open>The last lines of \<^verbatim>\<open>Create\<close>, \<^verbatim>\<open>Update\<close> and \<^verbatim>\<open>Destroy\<close> before they touch the object: send the
  request and turn the server's message into an exception.\<close>

definition requestOrThrow :: "dbreq \<Rightarrow> string \<Rightarrow> ('o, unit) sprog" where
  "requestOrThrow r msg = andthen (viaDB (request r)) (seq (viaDB getLastError) (\<lambda>m.
     if m \<noteq> [] then throw (RuntimeError (msg @ m)) else ret ()))"

definition Create :: "doc \<Rightarrow> bool \<Rightarrow> ('o, unit) sprog" where
  "Create data refetch = seq (gets fst) (\<lambda>o'.
     if sv_rawdata o' \<noteq> [] then throw (RuntimeError ''Object already exists'')
     else andthen (requestOrThrow (DbInsert (sv_collection o') data) ''Failed to insert document: '')
       (seq (liftR (document_id data)) (\<lambda>u. andthen (modify (apfst (sv_uniqueid_update (\<lambda>_. u))))
         (whenP refetch Refetch))))"

definition Update :: "doc \<Rightarrow> bool \<Rightarrow> ('o, unit) sprog" where
  "Update modifier refresh = seq (gets fst) (\<lambda>o'.
     if \<not> oid_isSet (sv_uniqueid o') then throw (RuntimeError ''Object doesn't exist'')
     else andthen (requestOrThrow (DbUpdate (sv_collection o') (sv_uniqueid o') modifier) ''Failed to update document: '')
       (whenP refresh Refetch))"

definition GetUniqueID :: "'o saveable_scheme \<Rightarrow> oid" where
  "GetUniqueID o' = sv_uniqueid o'"

definition IsEmpty :: "'o saveable_scheme \<Rightarrow> bool" where
  "IsEmpty o' \<longleftrightarrow> sv_rawdata o' = []"

definition Destroy :: "('o, unit) sprog" where
  "Destroy = seq (gets fst) (\<lambda>o'.
     if \<not> oid_isSet (sv_uniqueid o') then throw (RuntimeError ''Object doesn't exist'')
     else andthen (requestOrThrow (DbRemove (sv_collection o') (sv_uniqueid o')) ''Failed to remove document: '')
       (modify (apfst (\<lambda>o'. o'\<lparr>sv_rawdata := [], sv_uniqueid := oid_clear\<rparr>))))"

text \<open>\<^verbatim>\<open>BSON("$set" << BSON(...))\<close>\<close>

definition bson_set :: "doc \<Rightarrow> doc" where
  "bson_set fs = [(''$set'', BObj fs)]"

section \<open>What the operations keep\<close>

lemmas saveable_ops = Refetch_def InitData_def Create_def Update_def Destroy_def requestOrThrow_def

lemma fst_viaDB [simp]: "fst (snd (viaDB m s)) = fst s"
  by (simp add: viaDB_def split: prod.split)

lemma viaDB_apply: "viaDB m (o', d) = (fst (m d), (o', snd (m d)))"
  by (simp add: viaDB_def split: prod.split)

lemma keeps_viaDB [keeps_intros]:
  "(\<And>o'. keeps (\<lambda>d. P (o', d)) m) \<Longrightarrow> keeps P (viaDB m)"
  by (rule keepsI) (metis keepsD prod.collapse snd_conv viaDB_apply)

lemma keeps_object: "(\<And>s. P (fst s) \<Longrightarrow> P (fst (snd (m s)))) \<Longrightarrow> keeps (\<lambda>s. P (fst s)) m"
  by (simp add: keeps_def)

text \<open>The collection and the members of the derived class.\<close>

definition sv_frame :: "string \<Rightarrow> 'o \<Rightarrow> 'o saveable_scheme \<times> dbst \<Rightarrow> bool" where
  "sv_frame c x s \<longleftrightarrow> sv_collection (fst s) = c \<and> saveable.more (fst s) = x"

lemma sv_frame_modify:
  "keeps (sv_frame c x) (modify (apfst (sv_rawdata_update f)))"
  "keeps (sv_frame c x) (modify (apfst (sv_uniqueid_update g)))"
  "keeps (sv_frame c x) (modify (apfst (\<lambda>o'. o'\<lparr>sv_rawdata := [], sv_uniqueid := u\<rparr>)))"
  by (auto simp: sv_frame_def intro!: keeps_modify)

lemma sv_frame_viaDB: "keeps (sv_frame c x) (viaDB m)"
  by (simp add: keeps_def sv_frame_def)

lemmas sv_frame_intros = keeps_intros sv_frame_modify sv_frame_viaDB

lemma sv_frame_ops:
  "keeps (sv_frame c x) Refetch" "keeps (sv_frame c x) (InitData d)" "keeps (sv_frame c x) (Create d b)"
  "keeps (sv_frame c x) (Update d b)" "keeps (sv_frame c x) Destroy"
  by (simp_all only: saveable_ops) (intro sv_frame_intros)+

section \<open>Results of the requests\<close>

text \<open>What is left of a computation that returned normally.\<close>

lemma seq_returns:
  assumes "seq m f s = (Inr y, s')"
  obtains x t where "m s = (Inr x, t)" and "f x t = (Inr y, s')"
  using assms by (auto simp: seq_def split: prod.splits sum.splits)

lemma andthen_returns:
  assumes "andthen m n s = (Inr y, s')"
  obtains x t where "m s = (Inr x, t)" and "n t = (Inr y, s')"
  using assms unfolding andthen_def by (rule seq_returns)

lemma GetDB_log [simp]: "db_log (snd (GetDB d)) = db_log d"
  by (simp add: GetDB_def split: option.split)

lemma GetDB_returns: "GetDB d = (Inr x, d') \<Longrightarrow> d' = d\<lparr>db_connected := True\<rparr>"
  by (auto simp: GetDB_def split: option.splits if_splits)

lemma findOne_log [simp]: "db_log (snd (findOne c q d)) = db_log d"
  by (simp add: findOne_def andthen_def seq_def GetDB_def split: option.split)

lemma getLastError_log [simp]: "db_log (snd (getLastError d)) = db_log d"
  by (simp add: getLastError_def andthen_def seq_def gets_def GetDB_def split: option.split)

lemma log_unchanged:
  "getLastError d = (r, d') \<Longrightarrow> db_log d' = db_log d"
  "findOne c q d = (r', d') \<Longrightarrow> db_log d' = db_log d"
  using getLastError_log [of d] findOne_log [of c q d] by auto

lemma request_log: "db_log (snd (request r d)) = db_log d \<or> db_log (snd (request r d)) = r # db_log d"
  by (auto simp: request_def andthen_def seq_def GetDB_def split: option.split)

lemma request_returns: "request r d = (Inr x, d') \<Longrightarrow> db_log d' = r # db_log d \<and> db_connected d'"
  by (auto simp: request_def andthen_def seq_def GetDB_def split: option.splits if_splits)

lemma requestOrThrow_object [simp]: "fst (snd (requestOrThrow r msg s)) = fst s"
proof -
  have "keeps (\<lambda>s. fst s = c) (requestOrThrow r msg :: ('a saveable_scheme \<times> dbst, unit) prog)" for c
    unfolding requestOrThrow_def by (intro keeps_intros keeps_object) simp_all
  from keepsD [OF this refl, of s] show ?thesis by simp
qed

lemma requestOrThrow_log:
  "db_log (snd (snd (requestOrThrow r msg s))) = db_log (snd s) \<or>
   db_log (snd (snd (requestOrThrow r msg s))) = r # db_log (snd s)"
proof -
  obtain o' d where s: "s = (o', d)" by (cases s)
  have "db_log (snd (snd (requestOrThrow r msg s))) = db_log (snd (request r d))"
    unfolding s requestOrThrow_def andthen_def seq_def viaDB_def gets_def throw_def ret_def Let_def
    by (auto dest: log_unchanged split: prod.splits sum.splits)
  with request_log [of r d] show ?thesis by (simp add: s)
qed

lemma requestOrThrow_returns:
  "requestOrThrow r msg s = (Inr x, s') \<Longrightarrow> fst s' = fst s \<and> db_log (snd s') = r # db_log (snd s)"
  unfolding requestOrThrow_def
proof (elim andthen_returns seq_returns)
  fix u t m t'
  assume "viaDB (request r) s = (Inr u, t)" "viaDB getLastError t = (Inr m, t')"
    and "(if m \<noteq> [] then throw (RuntimeError (msg @ m)) else ret ()) t' = (Inr x, s')"
  then show "fst s' = fst s \<and> db_log (snd s') = r # db_log (snd s)"
    using request_returns [of r "snd s" u]
    by (auto dest!: log_unchanged simp: viaDB_def Let_def ret_def throw_def split: prod.splits if_splits)
qed

section \<open>The life of a stored object\<close>

lemma Refetch_returns:
  assumes "Refetch s = (Inr u, s')"
  shows "sv_rawdata (fst s') \<noteq> [] \<and> sv_uniqueid (fst s') = sv_uniqueid (fst s)
    \<and> db_log (snd s') = db_log (snd s) \<and> oid_isSet (sv_uniqueid (fst s))"
  using assms unfolding Refetch_def
  by (auto elim!: seq_returns andthen_returns dest!: log_unchanged simp: gets_def throw_def viaDB_def Let_def modify_def ret_def
      split: if_splits prod.splits)

lemma ops_when_absent:
  assumes "\<not> oid_isSet (sv_uniqueid (fst s))"
  shows "Update m b s = (Inl (RuntimeError ''Object doesn't exist''), s)"
    and "Refetch s = (Inl (RuntimeError ''Object doesn't exist''), s)"
    and "Destroy s = (Inl (RuntimeError ''Object doesn't exist''), s)"
  using assms by (simp_all add: Update_def Refetch_def Destroy_def seq_def gets_def throw_def)

lemma Create_when_present:
  "sv_rawdata (fst s) \<noteq> [] \<Longrightarrow> Create d b s = (Inl (RuntimeError ''Object already exists''), s)"
  by (simp add: Create_def seq_def gets_def throw_def)

text \<open>A server for the witnesses: it accepts everything and answers every query with one document.\<close>

definition demo_db :: dbst where
  "demo_db = \<lparr>db_host = Some ''localhost'', db_reachable = True, db_connected = False,
     db_find = (\<lambda>log c q. Inr [(''_id'', BOid 7)]), db_all = (\<lambda>log c. Inr []), db_near = (\<lambda>log c p n. Inr []),
     db_err = (\<lambda>log. []), db_fail = (\<lambda>log r. None), db_log = [], db_genoid = (\<lambda>n. of_nat n + 1), db_oids = 0\<rparr>"

definition demo_item :: saveable where
  "demo_item = saveable.make ''team'' [] 0"

lemmas demo_eval = demo_db_def demo_item_def saveable.defs prog_defs GetDB_def findOne_def request_def
  getLastError_def viaDB_def requestOrThrow_def Let_def document_id_def bson_defs oid_isSet_def oid_clear_def

text \<open>When \<open>Create\<close> with a refetch returns, the document was inserted once, the object carries the id of the
  document and what the server holds, the members of the derived class are untouched, and from
  then on every other \<open>Create\<close> is refused without a request.\<close>

theorem Create_once:
  assumes "Create data True (o', d) = (Inr (), (o1, d1))"
  shows "document_id data = Inr (GetUniqueID o1) \<and> \<not> IsEmpty o1
    \<and> sv_collection o1 = sv_collection o' \<and> saveable.more o1 = saveable.more o'
    \<and> db_log d1 = DbInsert (sv_collection o') data # db_log d
    \<and> (\<forall>data' b. Create data' b (o1, d1) = (Inl (RuntimeError ''Object already exists''), (o1, d1)))"
proof -
  from assms have "document_id data = Inr (sv_uniqueid o1) \<and> sv_rawdata o1 \<noteq> []
    \<and> db_log d1 = DbInsert (sv_collection o') data # db_log d"
    unfolding Create_def
    by (auto elim!: seq_returns andthen_returns dest!: requestOrThrow_returns Refetch_returns
        simp: gets_def throw_def whenP_def modify_def liftR_def split: if_splits)
  moreover have "sv_frame (sv_collection o') (saveable.more o') (o1, d1)"
    using keepsD [OF sv_frame_ops(3), of "sv_collection o'" "saveable.more o'" "(o', d)" data True] assms
    by (simp add: sv_frame_def)
  ultimately show ?thesis
    by (simp add: GetUniqueID_def IsEmpty_def sv_frame_def Create_when_present)
qed

theorem Create_once_witness:
  "let (o1, d1) = snd (Create [(''_id'', BOid 7)] True (demo_item, demo_db)) in
   GetUniqueID o1 = 7 \<and> db_log d1 = [DbInsert ''team'' [(''_id'', BOid 7)]]"
proof -
  have "Create [(''_id'', BOid 7)] True (demo_item, demo_db) =
     (Inr (), saveable.make ''team'' [(''_id'', BOid 7)] 7,
       demo_db\<lparr>db_connected := True, db_log := [DbInsert ''team'' [(''_id'', BOid 7)]]\<rparr>)"
    by (simp add: Create_def Refetch_def demo_eval)
  from Create_once [OF this] this show ?thesis
    by (simp add: document_id_def bson_defs demo_item_def demo_db_def saveable.defs)
qed

text \<open>When \<open>Destroy\<close> returns, the one request sent removes the object's own document, and the
  object is as if it never existed: later updates, refetches and removals are refused without a request.\<close>

theorem Destroy_ends:
  assumes "Destroy (o', d) = (Inr (), (o1, d1))"
  shows "oid_isSet (sv_uniqueid o') \<and> db_log d1 = DbRemove (sv_collection o') (sv_uniqueid o') # db_log d
    \<and> o1 = o'\<lparr>sv_rawdata := [], sv_uniqueid := 0\<rparr>
    \<and> (\<forall>m b. Update m b (o1, d1) = (Inl (RuntimeError ''Object doesn't exist''), (o1, d1)))
    \<and> Refetch (o1, d1) = (Inl (RuntimeError ''Object doesn't exist''), (o1, d1))
    \<and> Destroy (o1, d1) = (Inl (RuntimeError ''Object doesn't exist''), (o1, d1))"
proof -
  from assms have "oid_isSet (sv_uniqueid o') \<and> db_log d1 = DbRemove (sv_collection o') (sv_uniqueid o') # db_log d
    \<and> o1 = o'\<lparr>sv_rawdata := [], sv_uniqueid := 0\<rparr>"
    unfolding Destroy_def
    by (auto elim!: seq_returns andthen_returns dest!: requestOrThrow_returns
        simp: gets_def throw_def modify_def oid_clear_def split: if_splits)
  then show ?thesis by (simp add: ops_when_absent oid_isSet_def)
qed

theorem Destroy_ends_witness:
  "let (o1, d1) = snd (Destroy (demo_item\<lparr>sv_uniqueid := 7\<rparr>, demo_db)) in
   Refetch (o1, d1) = (Inl (RuntimeError ''Object doesn't exist''), (o1, d1)) \<and> db_log d1 = [DbRemove ''team'' 7]"
proof -
  have "Destroy (demo_item\<lparr>sv_uniqueid := 7\<rparr>, demo_db) =
     (Inr (), demo_item, demo_db\<lparr>db_connected := True, db_log := [DbRemove ''team'' 7]\<rparr>)"
    by (simp add: Destroy_def demo_eval)
  from Destroy_ends [OF this] this show ?thesis by (simp add: demo_eval)
qed

lemma requestOrThrow_throws: "requestOrThrow r msg s = (Inl e, t) \<Longrightarrow> fst t = fst s"
  using requestOrThrow_object [of r msg s] by simp

text \<open>What is left of a computation that threw.\<close>

lemma seq_throws:
  assumes "seq m f s = (Inl e, s')"
  obtains "m s = (Inl e, s')" | x t where "m s = (Inr x, t)" and "f x t = (Inl e, s')"
  using assms by (auto simp: seq_def split: prod.splits sum.splits)

lemma andthen_throws:
  assumes "andthen m n s = (Inl e, s')"
  obtains "m s = (Inl e, s')" | x t where "m s = (Inr x, t)" and "n t = (Inl e, s')"
  using assms unfolding andthen_def by (elim seq_throws) auto

lemma Update_object [simp]: "fst (snd (Update m False s)) = fst s"
  unfolding Update_def by (cases s) (auto simp: seq_def andthen_def gets_def throw_def whenP_def ret_def
    dest: requestOrThrow_throws requestOrThrow_returns split: prod.splits sum.splits)

lemma Create_throws: "Create data False s = (Inl e, s') \<Longrightarrow> fst s' = fst s"
  unfolding Create_def
  by (auto elim!: seq_throws andthen_throws dest!: requestOrThrow_throws requestOrThrow_returns
      simp: gets_def throw_def whenP_def ret_def modify_def liftR_def split: if_splits)

lemma Destroy_throws: "Destroy s = (Inl e, s') \<Longrightarrow> fst s' = fst s"
  unfolding Destroy_def
  by (auto elim!: seq_throws andthen_throws dest!: requestOrThrow_throws requestOrThrow_returns
      simp: gets_def throw_def modify_def split: if_splits)

end
