(* ===== verification/Managers.thy ===== *)
theory Managers
  imports Prelude
begin

text \<open>
  The containers of the game mode: the template \<^verbatim>\<open>ItemManager\<close>
  (\<^verbatim>\<open>application_gamemode_manager_base.h\<close>) with its contract as a locale, and the allocators of
  identifiers: \<^verbatim>\<open>IdentifierAllocator\<close> (\<^verbatim>\<open>basic_algorithm_math.h\<close>) that numbers the teams and
  \<^verbatim>\<open>Identifier\<close> of the streamer (\<^verbatim>\<open>Identifier.cpp\<close>), with a contract both meet.
\<close>

section \<open>ItemManager\<close>

text \<open>\<^verbatim>\<open>MemberMap\<close>: the pairs in the order an iterator visits them. \<^verbatim>\<open>boost::unordered_map\<close> promises
  no order; the model appends.\<close>

type_synonym ('k, 'v) members = "('k \<times> 'v) list"

definition IsExist :: "'k \<Rightarrow> ('k, 'v) members \<Rightarrow> bool" where
  "IsExist k m \<longleftrightarrow> map_of m k \<noteq> None"

definition Add :: "'k \<Rightarrow> 'v \<Rightarrow> ('k, 'v) members \<Rightarrow> bool \<times> ('k, 'v) members" where
  "Add k v m = (if IsExist k m then (False, m) else (True, m @ [(k, v)]))"

definition Remove :: "'k \<Rightarrow> ('k, 'v) members \<Rightarrow> bool \<times> ('k, 'v) members" where
  "Remove k m = (IsExist k m, AList.delete k m)"

definition Get :: "'k \<Rightarrow> ('k, 'v) members \<Rightarrow> exn + 'v" where
  "Get k m = (case map_of m k of Some v \<Rightarrow> Inr v | None \<Rightarrow> Inl (RuntimeError ''Object doesn't exist''))"

text \<open>A member is changed through the reference \<^verbatim>\<open>Get\<close> returns.\<close>

definition setMember :: "'k \<Rightarrow> 'v \<Rightarrow> ('k, 'v) members \<Rightarrow> ('k, 'v) members" where
  "setMember k v m = AList.update k v m"

definition members_ok :: "('k, 'v) members \<Rightarrow> bool" where
  "members_ok m \<longleftrightarrow> distinct (map fst m)"

lemmas manager_defs = IsExist_def Add_def Remove_def Get_def setMember_def

subsection \<open>Its contract\<close>

text \<open>What the components that use a manager rely on: a finite map from keys to objects in which
  \<^verbatim>\<open>Add\<close> never replaces a member.\<close>

locale item_manager =
  fixes ok :: "'m \<Rightarrow> bool"
    and add :: "'k \<Rightarrow> 'v \<Rightarrow> 'm \<Rightarrow> bool \<times> 'm"
    and exists_key :: "'k \<Rightarrow> 'm \<Rightarrow> bool"
    and remove :: "'k \<Rightarrow> 'm \<Rightarrow> bool \<times> 'm"
    and get :: "'k \<Rightarrow> 'm \<Rightarrow> exn + 'v"
    and set_member :: "'k \<Rightarrow> 'v \<Rightarrow> 'm \<Rightarrow> 'm"
    and content :: "'m \<Rightarrow> 'k \<rightharpoonup> 'v"
  assumes exists_content: "exists_key k m \<longleftrightarrow> content m k \<noteq> None"
    and get_content: "get k m = (case content m k of Some v \<Rightarrow> Inr v | None \<Rightarrow> Inl (RuntimeError ''Object doesn't exist''))"
    and add_content: "content (snd (add k v m)) = (if content m k = None then (content m)(k \<mapsto> v) else content m)"
    and add_result: "fst (add k v m) \<longleftrightarrow> content m k = None"
    and remove_content: "ok m \<Longrightarrow> content (snd (remove k m)) = (content m)(k := None)"
    and remove_result: "fst (remove k m) \<longleftrightarrow> content m k \<noteq> None"
    and set_content: "content (set_member k v m) = (content m)(k \<mapsto> v)"
    and ok_add: "ok m \<Longrightarrow> ok (snd (add k v m))"
    and ok_remove: "ok m \<Longrightarrow> ok (snd (remove k m))"
    and ok_set: "ok m \<Longrightarrow> ok (set_member k v m)"
begin

lemma get_after_add: "get k (snd (add k v m)) = (if exists_key k m then get k m else Inr v)"
  by (simp add: get_content add_content exists_content)

lemma get_other_after_add: "k' \<noteq> k \<Longrightarrow> get k' (snd (add k v m)) = get k' m"
  by (simp add: get_content add_content)

lemma add_twice_refused: "\<not> fst (add k v' (snd (add k v m)))"
  by (simp add: add_result add_content)

lemma get_after_remove:
  "ok m \<Longrightarrow> get k' (snd (remove k m)) = (if k' = k then Inl (RuntimeError ''Object doesn't exist'') else get k' m)"
  by (simp add: get_content remove_content)

lemma remove_undoes_add:
  "ok m \<Longrightarrow> \<not> exists_key k m \<Longrightarrow> content (snd (remove k (snd (add k v m)))) = content m"
  by (auto simp: remove_content add_content ok_add exists_content)

lemma get_after_set: "get k' (set_member k v m) = (if k' = k then Inr v else get k' m)"
  by (simp add: get_content set_content)

lemma ok_run: "ok m \<Longrightarrow> ok (foldl (\<lambda>m (k, v). snd (add k v m)) m kvs)"
  by (induction kvs arbitrary: m) (auto simp: ok_add)

end

interpretation members: item_manager members_ok Add IsExist Remove Get setMember map_of
  by unfold_locales
    (auto simp: manager_defs members_ok_def map_of_snoc_fresh map_of_None_iff delete_conv' update_conv'
      distinct_update fun_eq_iff simp del: map_of_append split: option.splits)

text \<open>The manager is a finite map: a member is found under its key from its insertion to its
  removal, a second insertion under the key is refused and keeps the first member, and the other
  members are never affected.\<close>

theorem manager_is_map:
  assumes "members_ok m"
  shows "Get k' (snd (Add k v m)) = (if k' = k \<and> \<not> IsExist k m then Inr v else Get k' m)
    \<and> fst (Add k v m) = (\<not> IsExist k m)
    \<and> Get k' (snd (Remove k m)) = (if k' = k then Inl (RuntimeError ''Object doesn't exist'') else Get k' m)
    \<and> fst (Remove k m) = IsExist k m
    \<and> members_ok (snd (Add k v m)) \<and> members_ok (snd (Remove k m))"
  using assms members.get_after_add [of k v m] members.get_other_after_add [of k' k v m]
    members.get_after_remove [of m k' k]
  by (cases "k' = k") (auto simp: members.add_result members.remove_result members.exists_content members.ok_add members.ok_remove)

theorem manager_is_map_witness:
  "Get (2::int) (snd (Remove 1 [(1, ''a''), (2, ''b'')])) = Inr ''b'' \<and> members_ok (snd (Add (1::int) ''c'' [(1, ''a''), (2, ''b'')]))"
  using manager_is_map [of "[(1::int, ''a''), (2, ''b'')]" 2 1 "''c''"]
  by (simp add: members_ok_def Get_def)

section \<open>Allocators of identifiers\<close>

subsection \<open>The contract\<close>

text \<open>An allocator in a state \<open>s\<close> while the identifiers \<open>L\<close> are in use. \<open>free\<close> is told how many are
  in use, the one given back included; \<open>room\<close> says that another one can be had.\<close>

locale id_allocator =
  fixes inv :: "'s \<Rightarrow> int set \<Rightarrow> bool"
    and room :: "int set \<Rightarrow> bool"
    and get :: "'s \<Rightarrow> int \<times> 's"
    and free :: "int \<Rightarrow> nat \<Rightarrow> 's \<Rightarrow> 's"
    and start :: 's
  assumes inv_start: "inv start {}"
    and inv_finite: "inv s L \<Longrightarrow> finite L"
    and get_fresh: "inv s L \<Longrightarrow> room L \<Longrightarrow> fst (get s) \<notin> L \<and> 0 < fst (get s)"
    and inv_get: "inv s L \<Longrightarrow> room L \<Longrightarrow> inv (snd (get s)) (insert (fst (get s)) L)"
    and inv_free: "inv s L \<Longrightarrow> i \<in> L \<Longrightarrow> inv (free i (card L) s) (L - {i})"

datatype alloc_op = AGet | AFree int

text \<open>A client: it takes identifiers and gives back the ones it holds. The list is what it holds; a
  request without room or a return of another one ends the run.\<close>

fun alloc_run :: "(int set \<Rightarrow> bool) \<Rightarrow> ('s \<Rightarrow> int \<times> 's) \<Rightarrow> (int \<Rightarrow> nat \<Rightarrow> 's \<Rightarrow> 's) \<Rightarrow> alloc_op list \<Rightarrow> 's \<times> int list
    \<Rightarrow> ('s \<times> int list) option" where
  "alloc_run room get free [] (s, held) = Some (s, held)"
| "alloc_run room get free (AGet # ops) (s, held) =
     (if room (set held) then alloc_run room get free ops (snd (get s), fst (get s) # held) else None)"
| "alloc_run room get free (AFree i # ops) (s, held) =
     (if i \<in> set held then alloc_run room get free ops (free i (length held) s, removeAll i held) else None)"

context id_allocator
begin

lemma run_inv:
  "inv s (set held) \<Longrightarrow> distinct held \<Longrightarrow> \<forall>i\<in>set held. 0 < i \<Longrightarrow>
   alloc_run room get free ops (s, held) = Some (s', held') \<Longrightarrow>
   inv s' (set held') \<and> distinct held' \<and> (\<forall>i\<in>set held'. 0 < i)"
proof (induction ops arbitrary: s held)
  case Nil
  then show ?case by simp
next
  case (Cons op ops)
  show ?case
  proof (cases op)
    case AGet
    then show ?thesis
      using Cons.prems Cons.IH [of "snd (get s)" "fst (get s) # held"]
        get_fresh [of s "set held"] inv_get [of s "set held"] by (simp split: if_splits)
  next
    case (AFree i)
    then show ?thesis
      using Cons.prems Cons.IH [of "free i (length held) s" "removeAll i held"]
        inv_free [of s "set held" i] by (simp add: distinct_card distinct_removeAll split: if_splits)
  qed
qed

lemma run_distinct:
  "alloc_run room get free ops (start, []) = Some (s', held') \<Longrightarrow>
   distinct held' \<and> (\<forall>i\<in>set held'. 0 < i) \<and> inv s' (set held')"
  using run_inv [of start "[]"] inv_start by simp

end

text \<open>An allocator that always hands out the least identifier that is not in use.\<close>

locale least_allocator = id_allocator +
  assumes get_least: "inv s L \<Longrightarrow> 0 < j \<Longrightarrow> j < fst (get s) \<Longrightarrow> j \<in> L"
begin

lemma get_is_least:
  "inv s L \<Longrightarrow> room L \<Longrightarrow> fst (get s) = (LEAST i. 0 < i \<and> i \<notin> L)"
  by (rule Least_equality [symmetric]) (use get_fresh get_least in \<open>force+\<close>)

end

subsection \<open>IdentifierAllocator\<close>

record idalloc =
  ia_max :: int
  ia_count :: int
  ia_returned :: "int list"  \<comment> \<open>the stack, its top first\<close>

definition ia_new :: "int \<Rightarrow> idalloc" where
  "ia_new m = \<lparr>ia_max = m, ia_count = 0, ia_returned = []\<rparr>"

definition ia_Get :: "idalloc \<Rightarrow> int \<times> idalloc" where
  "ia_Get a = (case ia_returned a of
     i # js \<Rightarrow> (i, a\<lparr>ia_returned := js\<rparr>)
   | [] \<Rightarrow> if ia_count a = ia_max a then (0, a) else (ia_count a + 1, a\<lparr>ia_count := ia_count a + 1\<rparr>))"

definition ia_Return :: "int \<Rightarrow> idalloc \<Rightarrow> idalloc" where
  "ia_Return i a = a\<lparr>ia_returned := i # ia_returned a\<rparr>"

text \<open>The identifiers up to the count are in use or on the stack, once.\<close>

definition ia_inv :: "int \<Rightarrow> idalloc \<Rightarrow> int set \<Rightarrow> bool" where
  "ia_inv m a L \<longleftrightarrow> ia_max a = m \<and> 0 \<le> ia_count a \<and> ia_count a \<le> m \<and> distinct (ia_returned a)
     \<and> set (ia_returned a) \<inter> L = {} \<and> set (ia_returned a) \<union> L = {1..ia_count a}"

definition ia_room :: "int \<Rightarrow> int set \<Rightarrow> bool" where
  "ia_room m L \<longleftrightarrow> int (card L) < m"

lemma ia_inv_full: "ia_inv m a L \<Longrightarrow> ia_returned a = [] \<Longrightarrow> int (card L) = ia_count a"
  by (auto simp: ia_inv_def)

lemma ia_get_ok:
  assumes "ia_inv m a L" and "ia_room m L"
  shows "fst (ia_Get a) \<notin> L \<and> 0 < fst (ia_Get a) \<and> ia_inv m (snd (ia_Get a)) (insert (fst (ia_Get a)) L)"
proof (cases "ia_returned a")
  case Nil
  then have L: "L = {1..ia_count a}" and "0 \<le> ia_count a" "ia_max a = m"
    using assms(1) by (simp_all add: ia_inv_def)
  moreover from ia_inv_full [OF assms(1) Nil] assms(2) have "ia_count a < m" by (simp add: ia_room_def)
  moreover have "{1..ia_count a + 1} = insert (ia_count a + 1) {1..ia_count a}"
    using \<open>0 \<le> ia_count a\<close> by auto
  moreover have "fst (ia_Get a) = ia_count a + 1" "snd (ia_Get a) = a\<lparr>ia_count := ia_count a + 1\<rparr>"
    using Nil calculation(3,4) by (simp_all add: ia_Get_def)
  ultimately show ?thesis using Nil by (simp add: ia_inv_def)
next
  case (Cons i js)
  then have get: "fst (ia_Get a) = i" "snd (ia_Get a) = a\<lparr>ia_returned := js\<rparr>"
    by (simp_all add: ia_Get_def)
  have inv: "set (i # js) \<inter> L = {}" "set (i # js) \<union> L = {1..ia_count a}" "distinct (i # js)"
    using assms(1) Cons by (simp_all add: ia_inv_def)
  then have "i \<in> {1..ia_count a}" by auto
  moreover have "set js \<inter> insert i L = {}" "set js \<union> insert i L = {1..ia_count a}"
    using inv by auto
  ultimately show ?thesis using inv assms(1) by (simp add: get ia_inv_def)
qed

lemma ia_Return_ok:
  assumes "ia_inv m a L" and "i \<in> L"
  shows "ia_inv m (ia_Return i a) (L - {i})"
  using assms by (auto simp: ia_inv_def ia_Return_def)

text \<open>Team ids: at most \<open>n\<close> are in use.\<close>

interpretation ia: id_allocator "ia_inv (int n)" "ia_room (int n)" ia_Get "\<lambda>i _. ia_Return i" "ia_new (int n)" for n
  by unfold_locales
    (simp_all add: ia_get_ok ia_Return_ok, auto simp: ia_inv_def ia_new_def intro: finite_subset [of _ "{1.._}"])

text \<open>C31. \<open>IdentifierAllocator\<close> (the in-game ids of the teams): over any sequence of requests and
  returns of ids in use with at most \<open>n\<close> in use at a time, the ids in use are different and lie
  between 1 and \<open>n\<close>.\<close>

theorem team_ids_distinct:
  assumes "alloc_run (ia_room (int n)) ia_Get (\<lambda>i _. ia_Return i) ops (ia_new (int n), []) = Some (a, held)"
  shows "distinct held \<and> set held \<subseteq> {1..int n}"
proof -
  have "distinct held" and "ia_inv (int n) a (set held)"
    using ia.run_distinct [OF assms] by simp_all
  then have "set held \<subseteq> {1..ia_count a}" and "ia_count a \<le> int n"
    unfolding ia_inv_def by (blast, simp)
  with \<open>distinct held\<close> show ?thesis by (meson atLeastatMost_subset_iff order.trans order_refl)
qed

theorem team_ids_distinct_witness:
  "let held = [1, 2, 3::int] in distinct held \<and> set held \<subseteq> {1..255}"
proof -
  have "alloc_run (ia_room (int 255)) ia_Get (\<lambda>i _. ia_Return i) [AGet, AGet, AFree 1, AGet, AFree 2, AGet, AGet, AFree 3, AGet, AFree 1, AGet]
      (ia_new (int 255), []) = Some (\<lparr>ia_max = 255, ia_count = 3, ia_returned = []\<rparr>, [1, 3, 2])"
    by (simp add: ia_room_def ia_Get_def ia_Return_def ia_new_def)
  from team_ids_distinct [OF this] show ?thesis by (simp add: Let_def)
qed

text \<open>Without room the allocator does not fail: it hands out 0, again and again.\<close>

lemma ia_exhausted:
  assumes "ia_inv m a L" and "\<not> ia_room m L"
  shows "ia_Get a = (0, a)"
proof -
  have fin: "finite L" and count: "0 \<le> ia_count a" "ia_count a \<le> m"
    using assms(1) by (auto simp: ia_inv_def intro: finite_subset [of _ "{1.._}"])
  have U: "set (ia_returned a) \<union> L = {1..ia_count a}" "set (ia_returned a) \<inter> L = {}"
    using assms(1) by (simp_all add: ia_inv_def)
  have "card (set (ia_returned a)) + card L = card {1..ia_count a}"
    unfolding U(1) [symmetric] using fin U(2) by (simp add: card_Un_disjoint)
  with assms(2) count have "card (set (ia_returned a)) = 0" "ia_count a = m"
    unfolding ia_room_def card_atLeastAtMost_int by linarith+
  with assms(1) show ?thesis by (simp add: ia_Get_def ia_inv_def)
qed

subsection \<open>The streamer's Identifier\<close>

text \<open>The priority queue of removed ids, smallest first.\<close>

record ident =
  id_highest :: int
  id_removed :: "int list"

definition ident_new :: ident where
  "ident_new = \<lparr>id_highest = 0, id_removed = []\<rparr>"

definition ident_get :: "ident \<Rightarrow> int \<times> ident" where
  "ident_get a = (case id_removed a of
     i # js \<Rightarrow> (i, a\<lparr>id_removed := js\<rparr>)
   | [] \<Rightarrow> (id_highest a + 1, a\<lparr>id_highest := id_highest a + 1\<rparr>))"

definition ident_reset :: "ident \<Rightarrow> ident" where
  "ident_reset a = a\<lparr>id_highest := 0, id_removed := []\<rparr>"

definition ident_remove :: "int \<Rightarrow> nat \<Rightarrow> ident \<Rightarrow> ident" where
  "ident_remove i remaining a =
     (if 1 < remaining then a\<lparr>id_removed := insort i (id_removed a)\<rparr> else ident_reset a)"

definition ident_inv :: "ident \<Rightarrow> int set \<Rightarrow> bool" where
  "ident_inv a L \<longleftrightarrow> 0 \<le> id_highest a \<and> distinct (id_removed a) \<and> sorted (id_removed a)
     \<and> set (id_removed a) \<inter> L = {} \<and> set (id_removed a) \<union> L = {1..id_highest a}"

lemma ident_inv_finite: "ident_inv a L \<Longrightarrow> finite L"
  by (auto simp: ident_inv_def intro: finite_subset [of _ "{1.._}"])

lemma ident_get_ok:
  assumes "ident_inv a L"
  shows "fst (ident_get a) \<notin> L \<and> 0 < fst (ident_get a)
    \<and> ident_inv (snd (ident_get a)) (insert (fst (ident_get a)) L)
    \<and> (\<forall>j. 0 < j \<and> j < fst (ident_get a) \<longrightarrow> j \<in> L)"
proof (cases "id_removed a")
  case Nil
  then have L: "L = {1..id_highest a}" and h: "0 \<le> id_highest a"
    using assms by (simp_all add: ident_inv_def)
  moreover have "{1..id_highest a + 1} = insert (id_highest a + 1) {1..id_highest a}"
    using h by auto
  moreover have "fst (ident_get a) = id_highest a + 1"
      "snd (ident_get a) = a\<lparr>id_highest := id_highest a + 1\<rparr>"
    using Nil by (simp_all add: ident_get_def)
  ultimately show ?thesis using Nil by (simp add: ident_inv_def)
next
  case (Cons i js)
  then have get: "fst (ident_get a) = i" "snd (ident_get a) = a\<lparr>id_removed := js\<rparr>"
    by (simp_all add: ident_get_def)
  have inv: "set (i # js) \<inter> L = {}" "set (i # js) \<union> L = {1..id_highest a}" "distinct (i # js)" "sorted (i # js)"
    using assms Cons by (simp_all add: ident_inv_def)
  then have i: "i \<in> {1..id_highest a}" by auto
  have "set js \<inter> insert i L = {}" "set js \<union> insert i L = {1..id_highest a}"
    using inv by auto
  moreover have "j \<in> L" if "0 < j" "j < i" for j
  proof -
    from that i have "j \<in> {1..id_highest a}" by simp
    with inv(2) have "j \<in> set (i # js) \<union> L" by blast
    with that inv(4) show ?thesis by auto
  qed
  ultimately show ?thesis using inv i assms by (simp add: get ident_inv_def)
qed

lemma ident_remove_ok:
  assumes "ident_inv a L" and "i \<in> L"
  shows "ident_inv (ident_remove i (card L) a) (L - {i})"
proof (cases "1 < card L")
  case True
  have "i \<notin> set (id_removed a)" using assms by (auto simp: ident_inv_def)
  with True assms show ?thesis
    by (auto simp: ident_remove_def ident_inv_def set_insort_key distinct_insort sorted_insort)
next
  case False
  from ident_inv_finite [OF assms(1)] assms(2) have "card L \<noteq> 0" by auto
  with False have "card L = 1" by simp
  with assms(2) have "L = {i}" by (auto simp: card_1_singleton_iff)
  with False show ?thesis by (simp add: ident_remove_def ident_reset_def ident_inv_def)
qed

interpretation ident: least_allocator ident_inv "\<lambda>_. True" ident_get ident_remove ident_new
  by unfold_locales
    (simp_all add: ident_get_ok ident_remove_ok ident_inv_finite, simp add: ident_inv_def ident_new_def)

text \<open>C32. The streamer's \<open>Identifier\<close>: over any sequence of requests and removals, with the number of
  items given to \<open>remove\<close>, the ids in use are different, and the next one is always the least positive
  id that is not in use, so ids stay dense.\<close>

theorem streamer_ids_least:
  assumes "alloc_run (\<lambda>_. True) ident_get ident_remove ops (ident_new, []) = Some (a, held)"
  shows "distinct held \<and> fst (ident_get a) = (LEAST i. 0 < i \<and> i \<notin> set held)"
  using ident.run_distinct [OF assms] ident.get_is_least by blast

theorem streamer_ids_least_witness: "(2::int) = (LEAST i. 0 < i \<and> i \<notin> set [3, 1])"
proof -
  have "alloc_run (\<lambda>_. True) ident_get ident_remove [AGet, AGet, AGet, AFree 2, AFree 1, AGet] (ident_new, [])
      = Some (\<lparr>id_highest = 3, id_removed = [2]\<rparr>, [1, 3])"
    by (simp add: ident_get_def ident_remove_def ident_new_def)
  from streamer_ids_least [OF this] show ?thesis by (simp add: ident_get_def insert_commute)
qed

end
