(* ===== verification/Host.thy ===== *)
theory Host
  imports Database Managers
begin

text \<open>
  What surrounds the program: the SA-MP server with its native functions, the configuration, the clock, the character
  conversion of Windows and the C library's text functions. A native call is recorded in a trace; what natives answer,
  the configuration and the clock are parameters, kept in a record so that they can differ from one event to the next.
\<close>

section \<open>Native functions with an effect\<close>

text \<open>Players, vehicles and zones are named by their ids, colours are 32-bit integers.\<close>

datatype (plugins only: code) native =
    SendClientMessage playerid cint string | SendClientMessageToAll cint string
  | SendDeathMessage playerid playerid int | SetPlayerChatBubble playerid string cint flt int
  | SetPlayerColor playerid cint | SetPlayerFightingStyle playerid cint
  | ResetPlayerMoney playerid | GivePlayerMoney playerid cint | SetPlayerScore playerid cint
  | SetPlayerHealth playerid flt | SetPlayerArmour playerid flt | GivePlayerWeapon playerid cint cint
  | PlayerPlaySound playerid int flt flt flt | SetPlayerTeam playerid int | SpawnPlayer playerid
  | SetPlayerPos playerid flt flt flt | SetPlayerFacingAngle playerid flt
  | SetPlayerInterior playerid cint | SetPlayerVirtualWorld playerid cint
  | SetPlayerCameraPos playerid flt flt flt | SetPlayerCameraLookAt playerid flt flt flt
  | TogglePlayerControllable playerid bool | TogglePlayerSpectating playerid bool
  | ForceClassSelection playerid | Kick playerid
  | SetPlayerRaceCheckpoint playerid int flt flt flt flt flt flt flt | DisablePlayerRaceCheckpoint playerid
  | PutPlayerInVehicle playerid int int | CreateVehicle cint flt flt flt flt
  | SetVehiclePos int flt flt flt | LinkVehicleToInterior int cint | SetVehicleVirtualWorld int cint
  | RepairVehicle int | AddVehicleComponent int int
  | ShowPlayerDialog playerid int int string string string string
  | GangZoneCreate flt flt flt flt | GangZoneDestroy int | GangZoneShowForAll int cint | GangZoneFlashForAll int cint
  | TextDrawSetString int string | TextDrawShowForAll int
  | SetWeather cint | SetWorldTime int | SetGameModeText string | AddPlayerClass int
  | DestroyPickup int | CreatePickup int int flt flt flt int
  | DestroyPlayerObject playerid int
  | SetPlayerMapIcon playerid int flt flt flt int cint int | RemovePlayerMapIcon playerid int
  | SetPlayerCheckpoint playerid flt flt flt flt | DisablePlayerCheckpoint playerid
  | DeletePlayer3DTextLabel playerid int
  | CreatePlayer3DTextLabel playerid string cint flt flt flt flt int int bool | UpdatePlayer3DTextLabelText playerid int cint string
  | CreatePlayerObject playerid int flt flt flt flt flt flt flt
  | SetPlayerObjectPos playerid int flt flt flt | SetPlayerObjectRot playerid int flt flt flt
  | MovePlayerObject playerid int flt flt flt flt flt flt flt | StopPlayerObject playerid int
  | AttachPlayerObjectToVehicle playerid int int flt flt flt flt flt flt
  | AttachCameraToPlayerObject playerid int | EditPlayerObject playerid int
  | SetPlayerObjectMaterial playerid int int int string string cint
  | SetPlayerObjectMaterialText playerid int string int int string int bool cint cint int

section \<open>Native functions that answer\<close>

text \<open>The answers depend on the calls made before (latest first).\<close>

record samp =
  q_name :: "playerid \<Rightarrow> string"
  q_ip :: "playerid \<Rightarrow> string"
  q_connected :: "playerid \<Rightarrow> bool"
  q_health :: "playerid \<Rightarrow> flt"
  q_armour :: "playerid \<Rightarrow> flt"
  q_pos :: "playerid \<Rightarrow> flt \<times> flt \<times> flt"
  q_facing :: "playerid \<Rightarrow> flt"
  q_interior :: "playerid \<Rightarrow> cint"
  q_world :: "playerid \<Rightarrow> cint"
  q_skin :: "playerid \<Rightarrow> cint"
  q_fightingstyle :: "playerid \<Rightarrow> cint"
  q_color :: "playerid \<Rightarrow> cint"
  q_weapon :: "playerid \<Rightarrow> nat \<Rightarrow> cint \<times> cint"
  q_target :: "playerid \<Rightarrow> playerid"
  q_invehicle :: "playerid \<Rightarrow> bool"
  q_vehicle :: "playerid \<Rightarrow> int"
  q_seat :: "playerid \<Rightarrow> int"
  q_newvehicle :: int
  q_newzone :: int
  q_newpickup :: int
  q_newplayerobject :: int
  q_newplayerlabel :: int
  q_state :: "playerid \<Rightarrow> int"
  q_velocity :: "playerid \<Rightarrow> flt \<times> flt \<times> flt"
  q_vehiclevelocity :: "int \<Rightarrow> flt \<times> flt \<times> flt"
  q_vehiclepos :: "int \<Rightarrow> (flt \<times> flt \<times> flt) option"          \<comment> \<open>\<open>None\<close>: there is no such vehicle\<close>
  q_objectpos :: "int \<Rightarrow> (flt \<times> flt \<times> flt) option"
  q_playerobjectpos :: "playerid \<Rightarrow> int \<Rightarrow> (flt \<times> flt \<times> flt) option"

definition INVALID_PLAYER_ID :: int where "INVALID_PLAYER_ID = 0xFFFF"
definition NO_TEAM :: int where "NO_TEAM = 255"

section \<open>Configuration, clock, codecs, libraries\<close>

text \<open>\<^verbatim>\<open>boost::geometry\<close>, which the streamer uses, is not part of the repository.\<close>

type_synonym vec2 = "flt \<times> flt"
type_synonym vec3 = "flt \<times> flt \<times> flt"

record geometry =
  g_dist2 :: "vec2 \<Rightarrow> vec2 \<Rightarrow> flt"           \<comment> \<open>\<^verbatim>\<open>comparable_distance\<close>\<close>
  g_dist3 :: "vec3 \<Rightarrow> vec3 \<Rightarrow> flt"
  g_distance3 :: "vec3 \<Rightarrow> vec3 \<Rightarrow> flt"       \<comment> \<open>\<^verbatim>\<open>distance\<close>, a \<^verbatim>\<open>double\<close>\<close>
  g_correct2 :: "vec2 \<times> vec2 \<Rightarrow> vec2 \<times> vec2"
  g_correct3 :: "vec3 \<times> vec3 \<Rightarrow> vec3 \<times> vec3"
  g_centroid2 :: "vec2 \<times> vec2 \<Rightarrow> vec2"
  g_centroid3 :: "vec3 \<times> vec3 \<Rightarrow> vec3"
  g_within2 :: "vec2 \<Rightarrow> vec2 \<times> vec2 \<Rightarrow> bool"
  g_within3 :: "vec3 \<Rightarrow> vec3 \<times> vec3 \<Rightarrow> bool"

record cenv =
  now :: int                                  \<comment> \<open>\<^verbatim>\<open>time(0)\<close>\<close>
  cfg_int :: "string \<Rightarrow> cint option"           \<comment> \<open>\<^verbatim>\<open>CONFIG_INT\<close>; \<open>None\<close>: missing or not a number\<close>
  cfg_float :: "string \<Rightarrow> flt option"
  cfg_string :: "string \<Rightarrow> string option"
  GBKToUTF8 :: "string \<Rightarrow> string"
  UTF8ToGBK :: "string \<Rightarrow> string"
  samp :: "native list \<Rightarrow> samp"
  lib_sin :: "flt \<Rightarrow> flt"
  lib_cos :: "flt \<Rightarrow> flt"
  lib_rand :: nat                             \<comment> \<open>\<^verbatim>\<open>rand()\<close> after \<^verbatim>\<open>srand\<close>\<close>
  geo :: geometry
  steady :: int                               \<comment> \<open>\<^verbatim>\<open>steady_clock::now()\<close>, in nanoseconds\<close>
  uninitialised :: int                        \<comment> \<open>what an uninitialised \<^verbatim>\<open>int\<close> member happens to hold\<close>
  uninitialised3 :: vec3                      \<comment> \<open>the same for a \<^verbatim>\<open>Vector3f\<close>\<close>
  cell_infinite :: "int \<times> int"               \<comment> \<open>the id the grid gives to an infinite position\<close>
  random_color :: cint                        \<comment> \<open>\<^verbatim>\<open>RandomRGBAColor()\<close>\<close>
  random_offset :: "flt \<Rightarrow> nat \<Rightarrow> flt"        \<comment> \<open>the \<open>k\<close>th real of the default-seeded engine in \<open>[-r, r)\<close>\<close> 
  read_file :: "string \<Rightarrow> string list option"   \<comment> \<open>the lines of a file\<close>
  lib_float :: "string \<Rightarrow> flt option"           \<comment> \<open>\<^verbatim>\<open>boost::lexical_cast<float>\<close>\<close>
  ini_file :: "string + (string \<Rightarrow> cint option) \<times> (string \<Rightarrow> flt option) \<times> (string \<Rightarrow> string option)"
                                              \<comment> \<open>\<^verbatim>\<open>read_ini\<close> of the configuration file: an error's text, or the settings\<close>

text \<open>The state every component sees: its surroundings, the trace and the database connection.\<close>

record host =
  env :: cenv
  out :: "native list"
  db :: dbst

type_synonym ('w, 'a) hprog = "('w host_scheme, 'a) prog"

definition native :: "native \<Rightarrow> ('w, unit) hprog" where
  "native n = modify (\<lambda>w. w\<lparr>out := n # out w\<rparr>)"

definition ask :: "(samp \<Rightarrow> 'a) \<Rightarrow> ('w, 'a) hprog" where
  "ask f = gets (\<lambda>w. f (samp (env w) (out w)))"

definition config :: "(cenv \<Rightarrow> string \<Rightarrow> 'a option) \<Rightarrow> string \<Rightarrow> ('w, 'a) hprog" where
  "config c path = (\<lambda>w. case c (env w) path of Some v \<Rightarrow> (Inr v, w) | None \<Rightarrow> (Inl bad_path, w))"

definition ReloadConfig :: "('w, unit) hprog" where
  "ReloadConfig = (\<lambda>w. case ini_file (env w) of Inl msg \<Rightarrow> (Inl (RuntimeError msg), w)
     | Inr (ints, floats, strings) \<Rightarrow> (Inr (), w\<lparr>env := (env w)\<lparr>cfg_int := ints, cfg_float := floats, cfg_string := strings\<rparr>\<rparr>))"

definition onDB :: "(dbst, 'a) prog \<Rightarrow> ('w, 'a) hprog" where
  "onDB m w = (let (r, d) = m (db w) in (r, w\<lparr>db := d\<rparr>))"

text \<open>A member function of \<^verbatim>\<open>SaveableItem\<close> on an object that is still being built.\<close>

definition onNew :: "'o saveable_scheme \<Rightarrow> ('o, 'a) sprog \<Rightarrow> ('w, 'a \<times> 'o saveable_scheme) hprog" where
  "onNew o' m w = (let (r, (o1, d)) = m (o', db w) in
     (case r of Inl e \<Rightarrow> Inl e | Inr x \<Rightarrow> Inr (x, o1), w\<lparr>db := d\<rparr>))"

definition SendChatMessage :: "playerid \<Rightarrow> cint \<Rightarrow> string \<Rightarrow> ('w, unit) hprog" where
  "SendChatMessage p c s = native (SendClientMessage p c s)"

section \<open>Colours\<close>

definition COLOR_RED :: cint where "COLOR_RED = 0xFF0000FF"
definition COLOR_WHITE :: cint where "COLOR_WHITE = 0xFFFFFFFF"
definition COLOR_CYAN :: cint where "COLOR_CYAN = 0x00FFFFFF"
definition COLOR_INFO :: cint where "COLOR_INFO = COLOR_WHITE"
definition COLOR_WARN :: cint where "COLOR_WARN = 0xF5DEB3FF"
definition COLOR_ERROR :: cint where "COLOR_ERROR = 0xFFA500FF"
definition COLOR_SUCC :: cint where "COLOR_SUCC = 0x00FFFFFF"

section \<open>Text\<close>

definition int_str :: "int \<Rightarrow> string" where
  "int_str i = (if i < 0 then ''-'' @ nat_str (nat (- i)) else nat_str (nat i))"

definition cint_str :: "cint \<Rightarrow> string" where
  "cint_str i = int_str (sint i)"

definition is_digit :: "char \<Rightarrow> bool" where
  "is_digit c \<longleftrightarrow> 48 \<le> (of_char c :: nat) \<and> (of_char c :: nat) \<le> 57"

definition is_space :: "char \<Rightarrow> bool" where
  "is_space c \<longleftrightarrow> (of_char c :: nat) = 32 \<or> 9 \<le> (of_char c :: nat) \<and> (of_char c :: nat) \<le> 13"

definition digits_val :: "string \<Rightarrow> nat" where
  "digits_val s = foldl (\<lambda>n c. 10 * n + (of_char c - 48)) 0 s"

definition scan_signed :: "string \<Rightarrow> (int \<times> string) option" where
  "scan_signed s = (let (neg, t) = (case s of c # cs \<Rightarrow> if c = CHR ''-'' then (True, cs)
                                      else if c = CHR ''+'' then (False, cs) else (False, s) | [] \<Rightarrow> (False, s));
                        ds = takeWhile is_digit t in
     if ds = [] then None
     else Some (if neg then - int (digits_val ds) else int (digits_val ds), dropWhile is_digit t))"

text \<open>\<^verbatim>\<open>sscanf(s, "%d", &x)\<close>: \<open>None\<close> leaves \<open>x\<close> alone.\<close>

definition scan_int :: "string \<Rightarrow> int option" where
  "scan_int s = (case scan_signed (dropWhile is_space s) of Some (i, _) \<Rightarrow> Some i | None \<Rightarrow> None)"

text \<open>\<^verbatim>\<open>boost::lexical_cast<int>\<close>: the whole text, and no more than 32 bits.\<close>

definition lexical_cast_int :: "string \<Rightarrow> exn + cint" where
  "lexical_cast_int s = (case scan_signed s of
     Some (i, []) \<Rightarrow> if - (2 ^ 31) \<le> i \<and> i < 2 ^ 31 then Inr (word_of_int i) else Inl BadLexicalCast
   | _ \<Rightarrow> Inl BadLexicalCast)"

section \<open>Surroundings for the examples\<close>

definition demo_samp :: samp where
  "demo_samp = \<lparr>q_name = (\<lambda>p. ''Tom''), q_ip = (\<lambda>p. ''127.0.0.1''), q_connected = (\<lambda>p. True), q_health = (\<lambda>p. 80), q_armour = (\<lambda>p. 0),
     q_pos = (\<lambda>p. (0, 0, 3)), q_facing = (\<lambda>p. 90), q_interior = (\<lambda>p. 0), q_world = (\<lambda>p. 0), q_skin = (\<lambda>p. 1),
     q_fightingstyle = (\<lambda>p. 4), q_color = (\<lambda>p. 255), q_weapon = (\<lambda>p i. (0, 0)), q_target = (\<lambda>p. INVALID_PLAYER_ID),
     q_invehicle = (\<lambda>p. False), q_vehicle = (\<lambda>p. 0), q_seat = (\<lambda>p. -1), q_newvehicle = 1, q_newzone = 0, q_newpickup = 0,
     q_newplayerobject = 1, q_newplayerlabel = 1, q_state = (\<lambda>p. 1), q_velocity = (\<lambda>p. (0, 0, 0)),
     q_vehiclevelocity = (\<lambda>v. (0, 0, 0)), q_vehiclepos = (\<lambda>v. None), q_objectpos = (\<lambda>i. None),
     q_playerobjectpos = (\<lambda>p i. None)\<rparr>"

definition demo_geometry :: geometry where
  "demo_geometry = \<lparr>g_dist2 = (\<lambda>p q. (fst p - fst q)\<^sup>2 + (snd p - snd q)\<^sup>2),
     g_dist3 = (\<lambda>p q. (fst p - fst q)\<^sup>2 + (fst (snd p) - fst (snd q))\<^sup>2 + (snd (snd p) - snd (snd q))\<^sup>2),
     g_distance3 = (\<lambda>p q. \<bar>fst p - fst q\<bar>),
     g_correct2 = id, g_correct3 = id, g_centroid2 = (\<lambda>(p, q). ((fst p + fst q) / 2, (snd p + snd q) / 2)),
     g_centroid3 = (\<lambda>(p, q). p), g_within2 = (\<lambda>p (lo, hi). fst lo < fst p \<and> fst p < fst hi \<and> snd lo < snd p \<and> snd p < snd hi),
     g_within3 = (\<lambda>p b. False)\<rparr>"

definition demo_env :: cenv where
  "demo_env = \<lparr>now = 100000, cfg_int = (\<lambda>s. Some 5), cfg_float = (\<lambda>s. Some 2), cfg_string = (\<lambda>s. Some s), GBKToUTF8 = id, UTF8ToGBK = id,
     samp = (\<lambda>ns. demo_samp), lib_sin = (\<lambda>x. x / 2), lib_cos = (\<lambda>x. 1 - x / 2), lib_rand = 7, geo = demo_geometry,
     steady = 0, uninitialised = 0, uninitialised3 = (1, 2, 3), cell_infinite = (- (2 ^ 31), - (2 ^ 31)), random_color = 0x123456FF, random_offset = (\<lambda>r k. 0),
     read_file = (\<lambda>f. None), lib_float = (\<lambda>s. None), ini_file = Inl ''cannot open file''\<rparr>"

definition demo_host :: host where
  "demo_host = \<lparr>env = demo_env, out = [], db = demo_db\<rparr>"

end
