(* ===== verification/Texts.thy ===== *)
theory Texts
  imports Host
begin

text \<open>
  The messages of the game mode, in the bytes they have in the source files (GBK, as the server sends them).
  The comment at each gives its meaning. ASCII messages are written where they are used.
\<close>

definition gbk :: "nat list \<Rightarrow> string" where
  "gbk bs = map char_of bs"

definition txt_need_registered :: string where \<comment> \<open>only for registered players\<close>
  "txt_need_registered = gbk [180, 203, 195, 252, 193, 238, 189, 246, 207, 222, 210, 209, 215, 162, 178, 225, 205, 230, 188, 210,
    202, 185, 211, 195]"
definition txt_need_signed_in :: string where \<comment> \<open>only for players signed in\<close>
  "txt_need_signed_in = gbk [180, 203, 195, 252, 193, 238, 189, 246, 207, 222, 210, 209, 181, 199, 194, 188, 205, 230, 188, 210,
    202, 185, 211, 195]"
definition txt_do_not_registered :: string where \<comment> \<open>only for players not registered\<close>
  "txt_do_not_registered = gbk [180, 203, 195, 252, 193, 238, 189, 246, 207, 222, 206, 180, 215, 162, 178, 225, 205, 230, 188, 210,
    202, 185, 211, 195]"
definition txt_do_not_signed_in :: string where \<comment> \<open>only for players not signed in\<close>
  "txt_do_not_signed_in = gbk [180, 203, 195, 252, 193, 238, 189, 246, 207, 222, 206, 180, 181, 199, 194, 188, 205, 230, 188, 210,
    202, 185, 211, 195]"
definition txt_you_need_level :: string where \<comment> \<open>you need at least level\<close>
  "txt_you_need_level = gbk [196, 250, 214, 193, 201, 217, 208, 232, 210, 170, 32, 76, 101, 118, 101, 108, 32]"
definition txt_to_run_this :: string where \<comment> \<open>to run this command\<close>
  "txt_to_run_this = gbk [32, 192, 180, 214, 180, 208, 208, 180, 203, 195, 252, 193, 238]"
definition txt_owner_absent :: string where \<comment> \<open>no player of the owner is online, a turf war cannot start\<close>
  "txt_owner_absent = gbk [182, 212, 183, 189, 195, 187, 211, 208, 205, 230, 188, 210, 212, 218, 207, 223, 44, 32, 178, 187,
    196, 220, 183, 162, 182, 175, 176, 239, 197, 201, 213, 189, 213, 249]"
definition txt_price :: string where \<comment> \<open>price\<close>
  "txt_price = gbk [10, 202, 219, 188, 219, 58, 32, 36]"
definition txt_profit :: string where \<comment> \<open>profit per day\<close>
  "txt_profit = gbk [10, 195, 191, 204, 236, 202, 213, 210, 230, 58, 32, 36]"
definition txt_draw_or_sell :: string where \<comment> \<open>draw the profit, sell\<close>
  "txt_draw_or_sell = gbk [193, 236, 200, 161, 202, 213, 210, 230, 10, 202, 219, 179, 246, 10, 45, 45, 45, 45, 45, 45, 45, 45,
    45, 45, 45, 45, 45, 45, 45, 45, 45, 45, 45, 45, 45, 45, 45, 45, 10]"
definition txt_tp_menu :: string where \<comment> \<open>create here, teleport to, view nearby, create a trigger\<close>
  "txt_tp_menu = gbk [212, 218, 180, 203, 180, 166, 180, 180, 189, 168, 10, 180, 171, 203, 205, 181, 189, 10, 178, 233,
    191, 180, 184, 189, 189, 252, 10, 180, 180, 189, 168, 180, 171, 203, 205, 177, 234, 188, 199]"
definition txt_goto_usage :: string where \<comment> \<open>usage\<close>
  "txt_goto_usage = gbk [211, 195, 183, 168, 58, 32, 47, 103, 111, 116, 111, 32, 60, 212, 218, 207, 223, 205, 230, 188, 210,
    73, 68, 62]"
definition txt_get_usage :: string where \<comment> \<open>usage\<close>
  "txt_get_usage = gbk [211, 195, 183, 168, 58, 32, 47, 103, 101, 116, 32, 60, 212, 218, 207, 223, 205, 230, 188, 210, 73,
    68, 62]"
definition txt_server_menu :: string where \<comment> \<open>reload teams, zones, settings, properties\<close>
  "txt_server_menu = gbk [214, 216, 208, 194, 212, 216, 200, 235, 205, 197, 182, 211, 193, 208, 177, 237, 10, 214, 216, 208,
    194, 212, 216, 200, 235, 181, 216, 197, 204, 193, 208, 177, 237, 10, 214, 216, 208, 194, 212, 216,
    200, 235, 183, 254, 206, 241, 198, 247, 201, 232, 214, 195, 10, 214, 216, 208, 194, 212, 216, 200,
    235, 178, 250, 210, 181, 193, 208, 177, 237]"
definition txt_gz_menu :: string where \<comment> \<open>create, delete\<close>
  "txt_gz_menu = gbk [180, 180, 189, 168, 10, 201, 190, 179, 253]"
definition txt_not_creating :: string where \<comment> \<open>not creating a zone\<close>
  "txt_not_creating = gbk [206, 180, 212, 218, 180, 180, 189, 168, 189, 248, 179, 204, 214, 208]"
definition txt_gzc_menu :: string where \<comment> \<open>save the spawn point, save the trigger, finish, cancel\<close>
  "txt_gzc_menu = gbk [177, 163, 180, 230, 181, 177, 199, 176, 206, 187, 214, 195, 206, 170, 179, 246, 201, 250, 181, 227,
    10, 177, 163, 180, 230, 181, 177, 199, 176, 206, 187, 214, 195, 206, 170, 213, 189, 213, 249, 180,
    165, 183, 162, 181, 227, 10, 205, 234, 179, 201, 180, 180, 189, 168, 10, 200, 161, 207, 251, 180,
    180, 189, 168]"
definition txt_create :: string where \<comment> \<open>create\<close>
  "txt_create = gbk [180, 180, 189, 168]"
definition txt_no_file :: string where \<comment> \<open>the file does not exist\<close>
  "txt_no_file = gbk [214, 184, 182, 168, 206, 196, 188, 254, 178, 187, 180, 230, 212, 218]"
definition txt_race_menu :: string where \<comment> \<open>start, create\<close>
  "txt_race_menu = gbk [183, 162, 198, 240, 10, 180, 180, 189, 168]"
definition txt_select_team :: string where \<comment> \<open>select a team\<close>
  "txt_select_team = gbk [209, 161, 212, 241, 213, 243, 211, 170]"
definition txt_ok :: string where \<comment> \<open>OK\<close>
  "txt_ok = gbk [200, 183, 182, 168]"
definition txt_select_role :: string where \<comment> \<open>select a role\<close>
  "txt_select_role = gbk [209, 161, 212, 241, 214, 176, 210, 181]"
definition txt_register :: string where \<comment> \<open>register\<close>
  "txt_register = gbk [215, 162, 178, 225]"
definition txt_password_empty :: string where \<comment> \<open>the password cannot be empty\<close>
  "txt_password_empty = gbk [195, 220, 194, 235, 178, 187, 196, 220, 206, 170, 191, 213]"
definition txt_registered :: string where \<comment> \<open>registered\<close>
  "txt_registered = gbk [215, 162, 178, 225, 179, 201, 185, 166]"
definition txt_register_failed :: string where \<comment> \<open>registration failed for an unknown reason\<close>
  "txt_register_failed = gbk [211, 201, 211, 218, 206, 180, 214, 170, 212, 173, 210, 242, 215, 162, 178, 225, 202, 167, 176, 220,
    44, 32, 199, 235, 193, 170, 207, 181, 183, 254, 206, 241, 198, 247, 185, 220, 192, 237, 212, 177]"
definition txt_enter_password :: string where \<comment> \<open>enter your password\<close>
  "txt_enter_password = gbk [199, 235, 202, 228, 200, 235, 196, 250, 181, 196, 195, 220, 194, 235]"
definition txt_login :: string where \<comment> \<open>sign in\<close>
  "txt_login = gbk [181, 199, 194, 188]"
definition txt_wrong_password :: string where \<comment> \<open>wrong password\<close>
  "txt_wrong_password = gbk [195, 220, 194, 235, 180, 237, 206, 243]"
definition txt_logged_in :: string where \<comment> \<open>signed in\<close>
  "txt_logged_in = gbk [181, 199, 194, 188, 179, 201, 185, 166]"
definition txt_select_spawn :: string where \<comment> \<open>select where to spawn\<close>
  "txt_select_spawn = gbk [209, 161, 212, 241, 179, 246, 201, 250, 181, 216, 199, 248]"
definition txt_cancel :: string where \<comment> \<open>cancel\<close>
  "txt_cancel = gbk [200, 161, 207, 251]"
definition txt_not_leader :: string where \<comment> \<open>you are not the leader of the team\<close>
  "txt_not_leader = gbk [196, 227, 178, 187, 202, 199, 205, 197, 182, 211, 202, 215, 193, 236]"
definition txt_already_creating :: string where \<comment> \<open>already creating a zone\<close>
  "txt_already_creating = gbk [210, 209, 190, 173, 212, 218, 180, 180, 189, 168, 189, 248, 179, 204, 214, 208]"
definition txt_give_name :: string where \<comment> \<open>give a name\<close>
  "txt_give_name = gbk [214, 184, 182, 168, 210, 187, 184, 246, 195, 251, 179, 198]"
definition txt_create_gz :: string where \<comment> \<open>create a zone\<close>
  "txt_create_gz = gbk [180, 180, 189, 168, 32, 71, 97, 110, 103, 90, 111, 110, 101]"
definition txt_name_empty :: string where \<comment> \<open>the name cannot be empty\<close>
  "txt_name_empty = gbk [195, 251, 179, 198, 178, 187, 196, 220, 206, 170, 191, 213]"
definition txt_place_marker :: string where \<comment> \<open>mark the range of the zone on the map\<close>
  "txt_place_marker = gbk [199, 235, 32, 69, 83, 67, 45, 62, 77, 65, 80, 32, 211, 195, 211, 210, 188, 252, 183, 197, 214, 195,
    177, 234, 188, 199, 192, 180, 200, 183, 182, 168, 32, 71, 97, 110, 103, 90, 111, 110, 101, 32, 181,
    196, 183, 182, 206, 167]"
definition txt_use_gzc :: string where \<comment> \<open>continue with /gzc\<close>
  "txt_use_gzc = gbk [202, 185, 211, 195, 32, 47, 103, 122, 99, 32, 192, 180, 205, 234, 179, 201, 186, 243, 208, 248, 185,
    164, 215, 247]"
definition txt_unfinished :: string where \<comment> \<open>settings are missing\<close>
  "txt_unfinished = gbk [201, 208, 211, 208, 206, 180, 205, 234, 179, 201, 181, 196, 201, 232, 214, 195]"
definition txt_gz_created :: string where \<comment> \<open>the zone was created\<close>
  "txt_gz_created = gbk [181, 216, 197, 204, 180, 180, 189, 168, 179, 201, 185, 166]"
definition txt_select_gz_remove :: string where \<comment> \<open>select the zone to delete\<close>
  "txt_select_gz_remove = gbk [209, 161, 212, 241, 208, 232, 210, 170, 201, 190, 179, 253, 181, 196, 32, 71, 97, 110, 103, 90, 111,
    110, 101]"
definition txt_delete :: string where \<comment> \<open>delete\<close>
  "txt_delete = gbk [201, 190, 179, 253]"
definition txt_gz_removed :: string where \<comment> \<open>the zone was deleted\<close>
  "txt_gz_removed = gbk [214, 184, 182, 168, 32, 71, 97, 110, 103, 90, 111, 110, 101, 32, 210, 209, 210, 198, 179, 253]"
definition txt_teleport :: string where \<comment> \<open>teleport\<close>
  "txt_teleport = gbk [180, 171, 203, 205]"
definition txt_name_waypoint :: string where \<comment> \<open>name the waypoint\<close>
  "txt_name_waypoint = gbk [206, 170, 180, 171, 203, 205, 181, 227, 195, 252, 195, 251]"
definition txt_waypoint_name :: string where \<comment> \<open>name of the waypoint\<close>
  "txt_waypoint_name = gbk [180, 171, 203, 205, 181, 227, 181, 196, 195, 251, 179, 198]"
definition txt_create_waypoint :: string where \<comment> \<open>create a waypoint\<close>
  "txt_create_waypoint = gbk [180, 180, 189, 168, 180, 171, 203, 205, 181, 227]"
definition txt_waypoint_created :: string where \<comment> \<open>created the waypoint\<close>
  "txt_waypoint_created = gbk [210, 209, 180, 180, 189, 168, 180, 171, 203, 205, 181, 227, 32]"
definition txt_teleport_to :: string where \<comment> \<open>teleport to\<close>
  "txt_teleport_to = gbk [180, 171, 203, 205, 181, 189]"
definition txt_view_nearby :: string where \<comment> \<open>waypoints nearby\<close>
  "txt_view_nearby = gbk [178, 233, 191, 180, 184, 189, 189, 252, 181, 196, 180, 171, 203, 205, 181, 227]"
definition txt_create_trigger :: string where \<comment> \<open>create a teleport trigger\<close>
  "txt_create_trigger = gbk [180, 180, 189, 168, 180, 171, 203, 205, 177, 234, 188, 199]"
definition txt_trigger_created :: string where \<comment> \<open>created a trigger to\<close>
  "txt_trigger_created = gbk [210, 209, 180, 180, 189, 168, 181, 189, 32]"
definition txt_trigger_created2 :: string where
  "txt_trigger_created2 = gbk [32, 181, 196, 180, 171, 203, 205, 177, 234, 188, 199]"
definition txt_manage_server :: string where \<comment> \<open>manage the server\<close>
  "txt_manage_server = gbk [185, 220, 192, 237, 183, 254, 206, 241, 198, 247]"
definition txt_player :: string where \<comment> \<open>player\<close>
  "txt_player = gbk [205, 230, 188, 210]"
definition txt_to_player :: string where \<comment> \<open>to\<close>
  "txt_to_player = gbk [207, 242, 32]"
definition txt_send_message_to :: string where \<comment> \<open>send a message\<close>
  "txt_send_message_to = gbk [32, 183, 162, 203, 205, 207, 251, 207, 162]"
definition txt_send_message :: string where \<comment> \<open>send a message\<close>
  "txt_send_message = gbk [183, 162, 203, 205, 207, 251, 207, 162]"
definition txt_send :: string where \<comment> \<open>send\<close>
  "txt_send = gbk [183, 162, 203, 205]"
definition txt_from_player :: string where \<comment> \<open>from\<close>
  "txt_from_player = gbk [192, 180, 215, 212, 32]"
definition txt_message_of :: string where \<comment> \<open>message\<close>
  "txt_message_of = gbk [32, 181, 196, 207, 251, 207, 162, 58, 32]"
definition txt_message_sent :: string where \<comment> \<open>the message was sent\<close>
  "txt_message_sent = gbk [207, 251, 207, 162, 210, 209, 183, 162, 203, 205]"
definition txt_settings :: string where \<comment> \<open>personal settings\<close>
  "txt_settings = gbk [184, 246, 200, 203, 201, 232, 214, 195]"
definition txt_enter_nickname :: string where \<comment> \<open>enter a nickname\<close>
  "txt_enter_nickname = gbk [202, 228, 200, 235, 208, 194, 234, 199, 179, 198]"
definition txt_synced :: string where \<comment> \<open>synchronised\<close>
  "txt_synced = gbk [202, 253, 190, 221, 210, 209, 205, 172, 178, 189]"
definition txt_change_nickname :: string where \<comment> \<open>change the nickname\<close>
  "txt_change_nickname = gbk [184, 252, 184, 196, 234, 199, 179, 198]"
definition txt_nickname_empty :: string where \<comment> \<open>the nickname cannot be empty\<close>
  "txt_nickname_empty = gbk [234, 199, 179, 198, 178, 187, 196, 220, 206, 170, 191, 213]"
definition txt_nickname_changed :: string where \<comment> \<open>the nickname is now\<close>
  "txt_nickname_changed = gbk [234, 199, 179, 198, 184, 252, 184, 196, 206, 170]"
definition txt_property :: string where \<comment> \<open>property\<close>
  "txt_property = gbk [178, 250, 210, 181]"
definition txt_purchase :: string where \<comment> \<open>buy\<close>
  "txt_purchase = gbk [185, 186, 194, 242]"
definition txt_purchased :: string where \<comment> \<open>bought\<close>
  "txt_purchased = gbk [185, 186, 194, 242, 179, 201, 185, 166]"
definition txt_property_name :: string where \<comment> \<open>name of the property\<close>
  "txt_property_name = gbk [178, 250, 210, 181, 195, 251, 179, 198]"
definition txt_create_property :: string where \<comment> \<open>create a property\<close>
  "txt_create_property = gbk [180, 180, 189, 168, 178, 250, 210, 181]"
definition txt_property_value :: string where \<comment> \<open>value of the property\<close>
  "txt_property_value = gbk [178, 250, 210, 181, 188, 219, 214, 181]"
definition txt_property_profit :: string where \<comment> \<open>profit of the property\<close>
  "txt_property_profit = gbk [178, 250, 210, 181, 202, 213, 210, 230]"
definition txt_finish :: string where \<comment> \<open>finish\<close>
  "txt_finish = gbk [205, 234, 179, 201]"
definition txt_racing :: string where \<comment> \<open>race\<close>
  "txt_racing = gbk [190, 186, 200, 252]"
definition txt_track_name :: string where \<comment> \<open>name of the track\<close>
  "txt_track_name = gbk [200, 252, 181, 192, 195, 251, 179, 198]"
definition txt_start_race :: string where \<comment> \<open>start a race\<close>
  "txt_start_race = gbk [183, 162, 198, 240, 190, 186, 200, 252]"
definition txt_create_track :: string where \<comment> \<open>create a track\<close>
  "txt_create_track = gbk [180, 180, 189, 168, 200, 252, 181, 192]"
definition txt_in_other_race :: string where \<comment> \<open>already in another race\<close>
  "txt_in_other_race = gbk [210, 209, 190, 173, 178, 206, 188, 211, 193, 203, 177, 240, 181, 196, 190, 186, 200, 252]"
definition txt_unknown_error :: string where \<comment> \<open>an unknown error\<close>
  "txt_unknown_error = gbk [183, 162, 201, 250, 206, 180, 214, 170, 180, 237, 206, 243]"
definition txt_banned :: string where \<comment> \<open>you are banned\<close>
  "txt_banned = gbk [196, 227, 210, 209, 190, 173, 177, 187, 183, 254, 206, 241, 198, 247, 183, 226, 189, 251]"
definition txt_welcome_back :: string where \<comment> \<open>welcome back, enter your password\<close>
  "txt_welcome_back = gbk [187, 182, 211, 173, 185, 233, 192, 180, 44, 32, 199, 235, 202, 228, 200, 235, 196, 250, 181, 196,
    195, 220, 194, 235, 210, 212, 181, 199, 194, 188]"
definition txt_enters :: string where \<comment> \<open>enters the server\<close>
  "txt_enters = gbk [32, 189, 248, 200, 235, 183, 254, 206, 241, 198, 247]"
definition txt_connect_error :: string where \<comment> \<open>error while initialising the player data\<close>
  "txt_connect_error = gbk [179, 245, 202, 188, 187, 175, 205, 230, 188, 210, 202, 253, 190, 221, 202, 177, 183, 162, 201, 250,
    180, 237, 206, 243, 44, 32, 199, 235, 193, 170, 207, 181, 183, 254, 206, 241, 198, 247, 185, 220,
    192, 237, 212, 177]"
definition txt_leaves :: string where \<comment> \<open>leaves the server\<close>
  "txt_leaves = gbk [32, 192, 235, 191, 170, 183, 254, 206, 241, 198, 247]"
definition txt_command_error :: string where \<comment> \<open>unknown error in a command\<close>
  "txt_command_error = gbk [180, 166, 192, 237, 195, 252, 193, 238, 202, 177, 183, 162, 201, 250, 206, 180, 214, 170, 180, 237,
    206, 243, 44, 32, 199, 235, 193, 170, 207, 181, 183, 254, 206, 241, 198, 247, 185, 220, 192, 237,
    212, 177]"
definition txt_skill_target :: string where \<comment> \<open>the skill needs a target\<close>
  "txt_skill_target = gbk [184, 195, 188, 188, 196, 220, 177, 216, 208, 235, 211, 208, 202, 169, 183, 197, 182, 212, 207, 243]"
definition txt_skill_done :: string where \<comment> \<open>the skill was performed\<close>
  "txt_skill_done = gbk [188, 188, 196, 220, 202, 169, 183, 197, 179, 201, 185, 166]"
definition txt_skill_cooling :: string where \<comment> \<open>the skill is cooling down\<close>
  "txt_skill_cooling = gbk [188, 188, 196, 220, 201, 208, 212, 218, 192, 228, 200, 180]"
definition txt_key_error :: string where \<comment> \<open>unknown error in a key\<close>
  "txt_key_error = gbk [180, 166, 192, 237, 176, 180, 188, 252, 202, 177, 183, 162, 201, 250, 206, 180, 214, 170, 180, 237,
    206, 243, 44, 32, 199, 235, 193, 170, 207, 181, 183, 254, 206, 241, 198, 247, 185, 220, 192, 237,
    212, 177]"
definition txt_dialog_error :: string where \<comment> \<open>unknown error in a dialog\<close>
  "txt_dialog_error = gbk [180, 166, 192, 237, 182, 212, 187, 176, 191, 242, 202, 177, 183, 162, 201, 250, 206, 180, 214, 170,
    180, 237, 206, 243, 44, 32, 199, 235, 193, 170, 207, 181, 183, 254, 206, 241, 198, 247, 185, 220,
    192, 237, 212, 177]"
definition txt_death_error :: string where \<comment> \<open>unknown error in a kill\<close>
  "txt_death_error = gbk [180, 166, 192, 237, 201, 177, 181, 208, 208, 197, 207, 162, 202, 177, 183, 162, 201, 250, 206, 180,
    214, 170, 180, 237, 206, 243, 44, 32, 199, 235, 193, 170, 207, 181, 183, 254, 206, 241, 198, 247,
    185, 220, 192, 237, 212, 177]"
definition txt_spawn_error :: string where \<comment> \<open>cannot spawn at the team's spawn point\<close>
  "txt_spawn_error = gbk [206, 222, 183, 168, 179, 246, 201, 250, 212, 218, 205, 197, 182, 211, 179, 246, 201, 250, 181, 227]"
definition txt_enter_area_error :: string where \<comment> \<open>error\<close>
  "txt_enter_area_error = gbk [79, 110, 80, 108, 97, 121, 101, 114, 69, 110, 116, 101, 114, 68, 121, 110, 97, 109, 105, 99, 65, 114,
    101, 97, 32, 183, 162, 201, 250, 180, 237, 206, 243]"
definition txt_leave_area_error :: string where \<comment> \<open>error\<close>
  "txt_leave_area_error = gbk [79, 110, 80, 108, 97, 121, 101, 114, 76, 101, 97, 118, 101, 68, 121, 110, 97, 109, 105, 99, 65, 114,
    101, 97, 32, 183, 162, 201, 250, 180, 237, 206, 243]"
definition txt_pickup_error :: string where \<comment> \<open>error in a pickup\<close>
  "txt_pickup_error = gbk [180, 166, 192, 237, 32, 80, 105, 99, 107, 117, 112, 32, 202, 177, 183, 162, 201, 250, 180, 237, 206,
    243]"
definition txt_range_done :: string where \<comment> \<open>the range of the zone is set\<close>
  "txt_range_done = gbk [210, 209, 200, 183, 182, 168, 32, 71, 97, 110, 103, 90, 111, 110, 101, 32, 183, 182, 206, 167]"
definition txt_clickmap_error :: string where \<comment> \<open>error\<close>
  "txt_clickmap_error = gbk [79, 110, 80, 108, 97, 121, 101, 114, 67, 108, 105, 99, 107, 77, 97, 112, 32, 183, 162, 201, 250, 180,
    237, 206, 243]"
definition txt_message_menu :: string where \<comment> \<open>send a message\<close>
  "txt_message_menu = gbk [183, 162, 203, 205, 207, 251, 207, 162]"
definition txt_settings_menu :: string where \<comment> \<open>nickname, synchronise, change team, suicide\<close>
  "txt_settings_menu = gbk [201, 232, 214, 195, 234, 199, 179, 198, 10, 205, 172, 178, 189, 202, 253, 190, 221, 10, 184, 252,
    187, 187, 182, 211, 206, 233, 10, 215, 212, 201, 177]"
definition txt_clickplayer_error :: string where \<comment> \<open>error\<close>
  "txt_clickplayer_error = gbk [79, 110, 80, 108, 97, 121, 101, 114, 67, 108, 105, 99, 107, 80, 108, 97, 121, 101, 114, 32, 183, 162,
    201, 250, 180, 237, 206, 243]"
definition txt_racecp_error :: string where \<comment> \<open>error\<close>
  "txt_racecp_error = gbk [79, 110, 80, 108, 97, 121, 101, 114, 69, 110, 116, 101, 114, 82, 97, 99, 101, 67, 104, 101, 99, 107,
    112, 111, 105, 110, 116, 32, 183, 162, 201, 250, 180, 237, 206, 243]"
definition txt_countdown_starts :: string where \<comment> \<open>the countdown starts\<close>
  "txt_countdown_starts = gbk [177, 200, 200, 252, 191, 170, 202, 188, 181, 185, 188, 198, 202, 177]"
definition txt_countdown :: string where \<comment> \<open>countdown\<close>
  "txt_countdown = gbk [181, 185, 188, 198, 202, 177, 32]"
definition txt_seconds :: string where \<comment> \<open>seconds\<close>
  "txt_seconds = gbk [32, 195, 235]"
definition txt_race_starts :: string where \<comment> \<open>the race starts\<close>
  "txt_race_starts = gbk [177, 200, 200, 252, 191, 170, 202, 188]"
definition txt_you_finished :: string where \<comment> \<open>you finished in\<close>
  "txt_you_finished = gbk [196, 227, 212, 218, 32]"
definition txt_rank :: string where \<comment> \<open>seconds, rank\<close>
  "txt_rank = gbk [32, 195, 235, 196, 218, 205, 234, 179, 201, 193, 203, 177, 200, 200, 252, 32, 197, 197, 195, 251, 32]"
definition txt_race_ends :: string where \<comment> \<open>the race ends\<close>
  "txt_race_ends = gbk [177, 200, 200, 252, 189, 225, 202, 248]"
definition txt_assault_hint :: string where \<comment> \<open>assault\<close>
  "txt_assault_hint = gbk [196, 227, 181, 196, 214, 176, 210, 181, 206, 170, 91, 205, 187, 187, 247, 182, 211, 212, 177, 93, 44,
    32, 195, 233, 215, 188, 196, 191, 177, 234, 176, 180, 207, 194, 126, 107, 126, 126, 67, 79, 78, 86,
    69, 82, 83, 65, 84, 73, 79, 78, 95, 78, 79, 126, 188, 252, 191, 201, 189, 171, 182, 212, 183, 189,
    215, 165, 181, 189, 195, 230, 199, 176, 44, 32, 202, 169, 183, 197, 188, 228, 184, 244, 49, 183, 214,
    214, 211]"
definition txt_captured :: string where \<comment> \<open>you were captured\<close>
  "txt_captured = gbk [196, 227, 210, 209, 177, 187, 32, 65, 115, 115, 97, 117, 108, 116, 32, 178, 182, 187, 241, 44, 32,
    178, 187, 210, 170, 179, 162, 202, 212, 206, 222, 206, 189, 181, 196, 213, 245, 205, 209, 33]"
definition txt_medic_hint :: string where \<comment> \<open>medic\<close>
  "txt_medic_hint = gbk [196, 227, 181, 196, 214, 176, 210, 181, 206, 170, 91, 210, 189, 202, 166, 93, 44, 32, 195, 233, 215,
    188, 196, 191, 177, 234, 176, 180, 207, 194, 126, 107, 126, 126, 67, 79, 78, 86, 69, 82, 83, 65, 84,
    73, 79, 78, 95, 78, 79, 126, 188, 252, 191, 201, 214, 206, 211, 250, 182, 212, 183, 189, 53, 48, 181,
    227, 209, 170, 44, 32, 202, 169, 183, 197, 188, 228, 184, 244, 49, 183, 214, 214, 211]"
definition txt_mechanic_hint :: string where \<comment> \<open>mechanic\<close>
  "txt_mechanic_hint = gbk [196, 227, 181, 196, 214, 176, 210, 181, 206, 170, 91, 187, 250, 208, 222, 185, 164, 93, 44, 32, 212,
    218, 179, 181, 196, 218, 176, 180, 207, 194, 126, 107, 126, 126, 67, 79, 78, 86, 69, 82, 83, 65, 84,
    73, 79, 78, 95, 78, 79, 126, 188, 252, 191, 201, 208, 222, 184, 180, 215, 212, 188, 186, 203, 249,
    179, 203, 179, 181, 193, 190, 44, 32, 202, 169, 183, 197, 188, 228, 184, 244, 51, 183, 214, 214, 211]"
definition txt_repair_in_vehicle :: string where \<comment> \<open>repairs only inside a vehicle\<close>
  "txt_repair_in_vehicle = gbk [177, 216, 208, 235, 212, 218, 179, 181, 196, 218, 178, 197, 196, 220, 189, 248, 208, 208, 206, 172,
    208, 222]"
definition txt_engineer_hint :: string where \<comment> \<open>engineer\<close>
  "txt_engineer_hint = gbk [196, 227, 181, 196, 214, 176, 210, 181, 206, 170, 91, 185, 164, 179, 204, 202, 166, 93, 44, 32, 205,
    189, 178, 189, 202, 177, 176, 180, 207, 194, 126, 107, 126, 126, 67, 79, 78, 86, 69, 82, 83, 65, 84,
    73, 79, 78, 95, 78, 79, 126, 188, 252, 191, 201, 212, 218, 195, 230, 199, 176, 208, 222, 189, 168,
    201, 218, 203, 254, 210, 187, 215, 249, 178, 162, 187, 225, 199, 229, 179, 253, 201, 207, 180, 206,
    181, 196, 189, 168, 214, 254, 44, 32, 202, 169, 183, 197, 188, 228, 184, 244, 49, 183, 214, 214, 211]"
definition txt_build_on_foot :: string where \<comment> \<open>no building inside a vehicle\<close>
  "txt_build_on_foot = gbk [178, 187, 196, 220, 212, 218, 179, 181, 196, 218, 189, 248, 208, 208, 189, 168, 201, 232]"

end
