(* ===== verification/Streamer.thy ===== *)
theory Streamer
  imports Host
begin

text \<open>
  The item streamer (\<^verbatim>\<open>src/freshcity.dependency.streamer/src\<close>): its tables of areas, checkpoints, map icons, objects, pickups,
  race checkpoints and text labels, the grid of cells that finds the items near a player, the natives that
  create and destroy items (\<^verbatim>\<open>Natives.cpp\<close>, \<^verbatim>\<open>Utility.cpp\<close>) and the events the game mode forwards
  (\<^verbatim>\<open>Events.cpp\<close>). The seven item types share one record; what differs is the \<open>body\<close>. Cells and sets hold ids:
  the tables keep one item per id.
\<close>

unbundle bit_operations_syntax

section \<open>Items\<close>

datatype kind = KObject | KPickup | KCheckpoint | KRaceCheckpoint | KMapIcon | KTextLabel | KArea

definition kind_of :: "int \<Rightarrow> kind option" where
  "kind_of t = (if t = 0 then Some KObject else if t = 1 then Some KPickup else if t = 2 then Some KCheckpoint
     else if t = 3 then Some KRaceCheckpoint else if t = 4 then Some KMapIcon else if t = 5 then Some KTextLabel
     else if t = 6 then Some KArea else None)"

datatype shape = Circle vec2 | Rectangle "vec2 \<times> vec2" | Sphere vec3 | Cube "vec3 \<times> vec3"

datatype body =
    Area shape
  | Checkpoint vec3
  | MapIcon vec3 int cint int             \<comment> \<open>position, type, colour, style\<close>
  | Obj vec3 vec3 int flt                 \<comment> \<open>position, rotation, model, draw distance\<close>
  | Pickup vec3 int int int               \<comment> \<open>position, model, type, world\<close>
  | RaceCheckpoint vec3 vec3 int          \<comment> \<open>position, next, type\<close>
  | TextLabel vec3 string cint flt bool   \<comment> \<open>position, text, colour, draw distance, line of sight\<close>

text \<open>What an item is attached to. \<open>at_object\<close> is used by areas (id, type, player), \<open>at_offset\<close> and \<open>at_rotation\<close> by objects.
  A position of \<open>None\<close> is the one filled with infinity.\<close>

record attachment =
  at_object :: "int \<times> int \<times> int"
  at_player :: int
  at_vehicle :: int
  at_position :: "vec3 option"
  at_offset :: vec3
  at_rotation :: vec3

text \<open>The movement of an object: target, start and change per millisecond, of the position and of the rotation.\<close>

record movement =
  mv_duration :: int
  mv_position :: "vec3 \<times> vec3 \<times> vec3"
  mv_rotation :: "vec3 \<times> vec3 \<times> vec3"
  mv_speed :: flt
  mv_time :: int

record material_main =
  mm_color :: cint
  mm_modelID :: int
  mm_textureName :: string
  mm_txdFileName :: string

record material_text =
  mt_backColor :: cint
  mt_bold :: bool
  mt_fontColor :: cint
  mt_fontFace :: string
  mt_fontSize :: int
  mt_size :: int
  mt_text :: string
  mt_alignment :: int

record material =
  mat_main :: "material_main option"
  mat_text :: "material_text option"

type_synonym playerset = "500 word"  \<comment> \<open>\<^verbatim>\<open>std::bitset<MAX_PLAYERS>\<close>\<close>
type_synonym cellid = "int \<times> int"

record element =
  e_body :: body
  e_cell :: "cellid option"
  e_extraID :: int
  e_size :: flt
  e_streamDistance :: flt
  e_attach :: "attachment option"
  e_move :: "movement option"
  e_materials :: "(int, material) members"
  e_interiors :: "int set"
  e_players :: playerset
  e_worlds :: "int set"

section \<open>Containers\<close>

definition addToContainer :: "int set \<Rightarrow> int \<Rightarrow> bool \<times> int set" where
  "addToContainer c v = (if 0 \<le> v then (True, insert v c) else (False, {}))"

definition addToBitset :: "playerset \<Rightarrow> int \<Rightarrow> bool \<times> playerset" where
  "addToBitset c v = (if 0 \<le> v \<and> v < 500 then (True, set_bit (nat v) c) else (False, NOT 0))"

definition isInContainer :: "int set \<Rightarrow> int \<Rightarrow> bool" where
  "isInContainer c v = (if 0 \<le> v then v \<in> c else c = {})"

definition isInBitset :: "playerset \<Rightarrow> int \<Rightarrow> bool" where
  "isInBitset c v = (if 0 \<le> v \<and> v < 500 then bit c (nat v) else c = NOT 0)"

definition removeFromContainer :: "int set \<Rightarrow> int \<Rightarrow> bool \<times> int set" where
  "removeFromContainer c v = (if 0 \<le> v then (True, c - {v}) else (False, {}))"

definition removeFromBitset :: "playerset \<Rightarrow> int \<Rightarrow> bool \<times> playerset" where
  "removeFromBitset c v = (if 0 \<le> v \<and> v < 500 then (True, unset_bit (nat v) c) else (False, 0))"

section \<open>The state\<close>

text \<open>
  Players' visible cells share items with the tables. \<open>Live\<close> stands for the item of the table with the entry's id,
  \<open>Gone\<close> for one that has left the table and lives on in the cell.
\<close>

datatype visref = Live | Gone element

type_synonym vcell = "kind \<Rightarrow> (int \<times> visref) list"

record splayer =
  sp_activeCheckpoint :: int
  sp_activeRaceCheckpoint :: int
  sp_idleUpdate :: bool
  sp_interiorID :: cint
  sp_playerID :: int
  sp_position :: vec3
  sp_visibleCheckpoint :: int
  sp_visibleRaceCheckpoint :: int
  sp_visibleObjects :: nat
  sp_visibleTextLabels :: nat
  sp_worldID :: cint
  sp_disabledAreas :: "int list"
  sp_disabledCheckpoints :: "int list"
  sp_disabledRaceCheckpoints :: "int list"
  sp_internalAreas :: "int list"
  sp_internalMapIcons :: "(int \<times> int) list"
  sp_internalObjects :: "(int \<times> int) list"
  sp_internalTextLabels :: "(int \<times> int) list"
  sp_mapIconIdentifier :: ident
  sp_visibleCell :: vcell

type_synonym cell = "kind \<Rightarrow> int list"

record streamer = host +
  s_maxItems :: "kind \<Rightarrow> nat"
  s_ids :: "kind \<Rightarrow> ident"
  s_items :: "kind \<Rightarrow> (int, element) members"
  s_players :: "(playerid, splayer) members"
  s_cells :: "(cellid, cell) members"
  s_globalCell :: cell
  s_cellDistance :: flt
  s_cellSize :: flt
  s_attached :: "kind \<Rightarrow> int list"
  s_moving :: "int list"
  s_internalPickups :: "(int \<times> int) list"
  s_tickRate :: nat
  s_visible :: "kind \<Rightarrow> nat"
  s_tickCount :: nat
  s_averageUpdateTime :: flt
  s_processingFinalPlayer :: bool
  s_lastRecordedTime :: int
  s_recordedTimes :: "flt list"
  s_discoveredPickups :: "(int \<times> element) list"

type_synonym ('w, 'a) st = "('w streamer_scheme, 'a) prog"

definition empty_cell :: cell where
  "empty_cell = (\<lambda>k. [])"

subsection \<open>Limits\<close>

definition getMaxItems :: "int \<Rightarrow> 'w streamer_scheme \<Rightarrow> nat" where
  "getMaxItems t w = (case kind_of t of Some k \<Rightarrow> s_maxItems w k | None \<Rightarrow> 0)"

definition setMaxItems :: "int \<Rightarrow> nat \<Rightarrow> ('w, bool) st" where
  "setMaxItems t v w = (case kind_of t of
     Some k \<Rightarrow> (Inr True, w\<lparr>s_maxItems := (s_maxItems w)(k := v)\<rparr>) | None \<Rightarrow> (Inr False, w))"

definition setTickRate :: "nat \<Rightarrow> ('w, bool) st" where
  "setTickRate v w = (if 0 < v then (Inr True, w\<lparr>s_tickRate := v\<rparr>) else (Inr False, w))"

definition streamed_kind :: "int \<Rightarrow> kind option" where
  "streamed_kind t = (case kind_of t of Some k \<Rightarrow> if k \<in> {KObject, KPickup, KMapIcon, KTextLabel} then Some k else None
     | None \<Rightarrow> None)"

definition getVisibleItems :: "int \<Rightarrow> 'w streamer_scheme \<Rightarrow> nat" where
  "getVisibleItems t w = (case streamed_kind t of Some k \<Rightarrow> s_visible w k | None \<Rightarrow> 0)"

definition setVisibleItems :: "int \<Rightarrow> nat \<Rightarrow> ('w, bool) st" where
  "setVisibleItems t v w = (case streamed_kind t of
     Some k \<Rightarrow> (Inr True, w\<lparr>s_visible := (s_visible w)(k := v)\<rparr>) | None \<Rightarrow> (Inr False, w))"

section \<open>The grid\<close>

definition getCell :: "cellid \<Rightarrow> 'w streamer_scheme \<Rightarrow> cell option" where
  "getCell c w = map_of (s_cells w) c"

text \<open>The id of the cell of a position: the centre of its square, truncated.\<close>

definition cellID :: "'w streamer_scheme \<Rightarrow> vec2 \<Rightarrow> cellid" where
  "cellID w p =
     (let cs = s_cellSize w;
          minx = fl32 (of_int \<lfloor>fl32 (fst p / cs)\<rfloor> * cs); maxx = fl32 (minx + cs);
          miny = fl32 (of_int \<lfloor>fl32 (snd p / cs)\<rfloor> * cs); maxy = fl32 (miny + cs);
          c = g_centroid2 (geo (env w)) ((minx, miny), (maxx, maxy))
      in (trunc (fst c), trunc (snd c)))"

text \<open>The id for a position that may be infinite.\<close>

definition cellID_opt :: "'w streamer_scheme \<Rightarrow> vec2 option \<Rightarrow> cellid" where
  "cellID_opt w p = (case p of Some p \<Rightarrow> cellID w p | None \<Rightarrow> cell_infinite (env w))"

definition getCellID :: "vec2 option \<Rightarrow> bool \<Rightarrow> ('w, cellid) st" where
  "getCellID p ins w = (let c = cellID_opt w p in
     (Inr c, if ins \<and> getCell c w = None then w\<lparr>s_cells := s_cells w @ [(c, empty_cell)]\<rparr> else w))"

definition plane_of :: "vec3 \<Rightarrow> vec2" where
  "plane_of p = (fst p, fst (snd p))"

text \<open>The position by which an item is put into a cell, and the size that is compared with the cell distance.\<close>

definition attached_position :: "element \<Rightarrow> vec2 \<Rightarrow> vec2 option" where
  "attached_position e p = (case e_attach e of Some a \<Rightarrow> map_option plane_of (at_position a) | None \<Rightarrow> Some p)"

definition grid_position :: "geometry \<Rightarrow> element \<Rightarrow> vec2 option" where
  "grid_position g e = (case e_body e of
     Area (Circle c) \<Rightarrow> attached_position e c
   | Area (Rectangle b) \<Rightarrow> Some (g_centroid2 g b)
   | Area (Sphere c) \<Rightarrow> attached_position e (plane_of c)
   | Area (Cube b) \<Rightarrow> Some (plane_of (g_centroid3 g b))
   | Checkpoint p \<Rightarrow> Some (plane_of p)
   | MapIcon p _ _ _ \<Rightarrow> Some (plane_of p)
   | Obj p _ _ _ \<Rightarrow> attached_position e (plane_of p)
   | Pickup p _ _ _ \<Rightarrow> Some (plane_of p)
   | RaceCheckpoint p _ _ \<Rightarrow> Some (plane_of p)
   | TextLabel p _ _ _ _ \<Rightarrow> attached_position e (plane_of p))"

definition grid_extent :: "element \<Rightarrow> flt" where
  "grid_extent e = (case e_body e of Area _ \<Rightarrow> e_size e | _ \<Rightarrow> e_streamDistance e)"

definition cell_insert :: "kind \<Rightarrow> int \<Rightarrow> cell \<Rightarrow> cell" where
  "cell_insert k i c = (if i \<in> set (c k) then c else c(k := c k @ [i]))"

definition cell_erase :: "kind \<Rightarrow> int \<Rightarrow> cell \<Rightarrow> cell" where
  "cell_erase k i c = c(k := removeAll i (c k))"

definition cell_empty :: "cell \<Rightarrow> bool" where
  "cell_empty c \<longleftrightarrow> c KArea = [] \<and> c KCheckpoint = [] \<and> c KMapIcon = [] \<and> c KObject = [] \<and> c KPickup = []
     \<and> c KRaceCheckpoint = [] \<and> c KTextLabel = []"

text \<open>\<^verbatim>\<open>addArea\<close>, \<^verbatim>\<open>addCheckpoint\<close> and so on: the item with its cell set.\<close>

definition gridAdd :: "kind \<Rightarrow> int \<Rightarrow> element \<Rightarrow> ('w, element) st" where
  "gridAdd k i e w =
     (if s_cellDistance w < grid_extent e then
        (Inr (e\<lparr>e_cell := None\<rparr>), w\<lparr>s_globalCell := cell_insert k i (s_globalCell w)\<rparr>)
      else seq (getCellID (grid_position (geo (env w)) e) True) (\<lambda>c w.
        (Inr (e\<lparr>e_cell := Some c\<rparr>),
         case getCell c w of Some cell \<Rightarrow> w\<lparr>s_cells := setMember c (cell_insert k i cell) (s_cells w)\<rparr> | None \<Rightarrow> w)) w)"

definition addArea :: "int \<Rightarrow> element \<Rightarrow> ('w, element) st" where "addArea = gridAdd KArea"
definition addCheckpoint :: "int \<Rightarrow> element \<Rightarrow> ('w, element) st" where "addCheckpoint = gridAdd KCheckpoint"
definition addMapIcon :: "int \<Rightarrow> element \<Rightarrow> ('w, element) st" where "addMapIcon = gridAdd KMapIcon"
definition addObject :: "int \<Rightarrow> element \<Rightarrow> ('w, element) st" where "addObject = gridAdd KObject"
definition addPickup :: "int \<Rightarrow> element \<Rightarrow> ('w, element) st" where "addPickup = gridAdd KPickup"
definition addRaceCheckpoint :: "int \<Rightarrow> element \<Rightarrow> ('w, element) st" where "addRaceCheckpoint = gridAdd KRaceCheckpoint"
definition addTextLabel :: "int \<Rightarrow> element \<Rightarrow> ('w, element) st" where "addTextLabel = gridAdd KTextLabel"

definition eraseCellIfEmpty :: "cellid \<Rightarrow> 'w streamer_scheme \<Rightarrow> 'w streamer_scheme" where
  "eraseCellIfEmpty c w = (case getCell c w of
     Some cell \<Rightarrow> if cell_empty cell then w\<lparr>s_cells := snd (Remove c (s_cells w))\<rparr> else w | None \<Rightarrow> w)"

text \<open>The first half of \<^verbatim>\<open>removeArea\<close>, \<^verbatim>\<open>removeCheckpoint\<close> and so on: was the item found in its cell?\<close>

definition gridFind :: "kind \<Rightarrow> int \<Rightarrow> element \<Rightarrow> 'w streamer_scheme \<Rightarrow> bool \<times> 'w streamer_scheme" where
  "gridFind k i e w = (case e_cell e of
     Some c \<Rightarrow> (case getCell c w of
         Some cell \<Rightarrow> if i \<in> set (cell k)
           then (True, eraseCellIfEmpty c (w\<lparr>s_cells := setMember c (cell_erase k i cell) (s_cells w)\<rparr>)) else (False, w)
       | None \<Rightarrow> (False, w))
   | None \<Rightarrow> if i \<in> set (s_globalCell w k)
       then (True, w\<lparr>s_globalCell := cell_erase k i (s_globalCell w)\<rparr>) else (False, w))"

definition detach :: "kind \<Rightarrow> int \<Rightarrow> element \<Rightarrow> 'w streamer_scheme \<Rightarrow> 'w streamer_scheme" where
  "detach k i e w =
     (let w = (if e_attach e \<noteq> None then w\<lparr>s_attached := (s_attached w)(k := removeAll i (s_attached w k))\<rparr> else w)
      in if e_move e \<noteq> None then w\<lparr>s_moving := removeAll i (s_moving w)\<rparr> else w)"

definition gridRemove :: "kind \<Rightarrow> int \<Rightarrow> element \<Rightarrow> bool \<Rightarrow> ('w, element) st" where
  "gridRemove k i e reassign w = (let (found, w) = gridFind k i e w in
     if found \<and> reassign then gridAdd k i e w
     else (Inr e, if found then detach k i e w else w))"

definition removeArea :: "int \<Rightarrow> element \<Rightarrow> bool \<Rightarrow> ('w, element) st" where "removeArea = gridRemove KArea"
definition removeCheckpoint :: "int \<Rightarrow> element \<Rightarrow> bool \<Rightarrow> ('w, element) st" where "removeCheckpoint = gridRemove KCheckpoint"
definition removeMapIcon :: "int \<Rightarrow> element \<Rightarrow> bool \<Rightarrow> ('w, element) st" where "removeMapIcon = gridRemove KMapIcon"
definition removeObject :: "int \<Rightarrow> element \<Rightarrow> bool \<Rightarrow> ('w, element) st" where "removeObject = gridRemove KObject"
definition removePickup :: "int \<Rightarrow> element \<Rightarrow> bool \<Rightarrow> ('w, element) st" where "removePickup = gridRemove KPickup"
definition removeRaceCheckpoint :: "int \<Rightarrow> element \<Rightarrow> bool \<Rightarrow> ('w, element) st" where
  "removeRaceCheckpoint = gridRemove KRaceCheckpoint"
definition removeTextLabel :: "int \<Rightarrow> element \<Rightarrow> bool \<Rightarrow> ('w, element) st" where "removeTextLabel = gridRemove KTextLabel"

definition eraseAllItems :: "kind \<Rightarrow> 'w streamer_scheme \<Rightarrow> 'w streamer_scheme" where
  "eraseAllItems k w = w\<lparr>s_globalCell := (s_globalCell w)(k := []),
     s_cells := filter (\<lambda>(c, cell). \<not> cell_empty cell) (map (\<lambda>(c, cell). (c, cell(k := []))) (s_cells w))\<rparr>"

definition setItem :: "kind \<Rightarrow> int \<Rightarrow> element \<Rightarrow> 'w streamer_scheme \<Rightarrow> 'w streamer_scheme" where
  "setItem k i e w = w\<lparr>s_items := (s_items w)(k := setMember i e (s_items w k))\<rparr>"

definition rebuildGrid :: "('w, unit) st" where
  "rebuildGrid = andthen (modify (\<lambda>w. w\<lparr>s_cells := [], s_globalCell := empty_cell\<rparr>))
     (forEach [KArea, KCheckpoint, KMapIcon, KObject, KPickup, KRaceCheckpoint, KTextLabel] (\<lambda>k.
        seq (gets (\<lambda>w. s_items w k)) (\<lambda>is. forEach is (\<lambda>(i, e).
          seq (gridAdd k i e) (\<lambda>e. modify (setItem k i e))))))"

text \<open>The nine squares around a player.\<close>

definition translationMatrix :: "flt \<Rightarrow> vec2 list" where
  "translationMatrix cs = [(0, 0), (0, cs), (cs, 0), (cs, cs), (- cs, 0), (0, - cs), (- cs, cs), (cs, - cs), (- cs, - cs)]"

section \<open>Creating items\<close>

definition sq :: "flt \<Rightarrow> flt" where
  "sq d = fl32 (d * d)"

definition new_element :: "body \<Rightarrow> flt \<Rightarrow> flt \<Rightarrow> int \<Rightarrow> int \<Rightarrow> int \<Rightarrow> element" where
  "new_element b size' distance world int' player =
     \<lparr>e_body = b, e_cell = None, e_extraID = 0, e_size = size', e_streamDistance = distance, e_attach = None, e_move = None, e_materials = [],
      e_interiors = snd (addToContainer {} int'), e_players = snd (addToBitset 0 player),
      e_worlds = snd (addToContainer {} world)\<rparr>"

text \<open>What all creating natives do: nothing (and 0) at the limit, otherwise a new id, a place in the grid and one in the table.\<close>

definition createItem :: "kind \<Rightarrow> element \<Rightarrow> ('w, int) st" where
  "createItem k e w =
     (if s_maxItems w k = length (s_items w k) then (Inr 0, w)
      else let (i, ids) = ident_get (s_ids w k) in
        seq (gridAdd k i e) (\<lambda>e. andthen (modify (setItem k i e)) (ret i)) (w\<lparr>s_ids := (s_ids w)(k := ids)\<rparr>))"

definition CreateDynamicObject :: "int \<Rightarrow> vec3 \<Rightarrow> vec3 \<Rightarrow> int \<Rightarrow> int \<Rightarrow> int \<Rightarrow> flt \<Rightarrow> ('w, int) st" where
  "CreateDynamicObject model p r world int' player d =
     createItem KObject (new_element (Obj p r model 0) 0 (sq d) world int' player)"

definition CreateDynamicPickup :: "int \<Rightarrow> int \<Rightarrow> vec3 \<Rightarrow> int \<Rightarrow> int \<Rightarrow> int \<Rightarrow> flt \<Rightarrow> ('w, int) st" where
  "CreateDynamicPickup model t p world int' player d =
     createItem KPickup (new_element (Pickup p model t 0) 0 (sq d) world int' player)"

definition CreateDynamicCP :: "vec3 \<Rightarrow> flt \<Rightarrow> int \<Rightarrow> int \<Rightarrow> int \<Rightarrow> flt \<Rightarrow> ('w, int) st" where
  "CreateDynamicCP p size' world int' player d =
     createItem KCheckpoint (new_element (Checkpoint p) size' (sq d) world int' player)"

definition CreateDynamicRaceCP :: "int \<Rightarrow> vec3 \<Rightarrow> vec3 \<Rightarrow> flt \<Rightarrow> int \<Rightarrow> int \<Rightarrow> int \<Rightarrow> flt \<Rightarrow> ('w, int) st" where
  "CreateDynamicRaceCP t p next' size' world int' player d =
     createItem KRaceCheckpoint (new_element (RaceCheckpoint p next' t) size' (sq d) world int' player)"

definition CreateDynamicMapIcon :: "vec3 \<Rightarrow> int \<Rightarrow> cint \<Rightarrow> int \<Rightarrow> int \<Rightarrow> int \<Rightarrow> flt \<Rightarrow> ('w, int) st" where
  "CreateDynamicMapIcon p t color world int' player d =
     createItem KMapIcon (new_element (MapIcon p t color 0) 0 (sq d) world int' player)"

definition INVALID_GENERIC_ID :: int where "INVALID_GENERIC_ID = 0xFFFF"

text \<open>A new attachment: its position is not initialised.\<close>

definition new_attachment :: "cenv \<Rightarrow> int \<times> int \<times> int \<Rightarrow> int \<Rightarrow> int \<Rightarrow> attachment" where
  "new_attachment e obj player vehicle = \<lparr>at_object = obj, at_player = player, at_vehicle = vehicle,
     at_position = Some (uninitialised3 e), at_offset = uninitialised3 e, at_rotation = uninitialised3 e\<rparr>"

definition CreateDynamic3DTextLabel ::
  "string \<Rightarrow> cint \<Rightarrow> vec3 \<Rightarrow> flt \<Rightarrow> int \<Rightarrow> int \<Rightarrow> bool \<Rightarrow> int \<Rightarrow> int \<Rightarrow> int \<Rightarrow> flt \<Rightarrow> ('w, int) st" where
  "CreateDynamic3DTextLabel text color p drawdistance player' vehicle los world int' player d w =
     (let attach = player' \<noteq> INVALID_GENERIC_ID \<or> vehicle \<noteq> INVALID_GENERIC_ID;
          far = 50 < max \<bar>fst p\<bar> (max \<bar>fst (snd p)\<bar> \<bar>snd (snd p)\<bar>);
          p' = (if attach \<and> far then (0, 0, 0) else p);
          e = new_element (TextLabel p' text color drawdistance los) 0 (sq d) world int' player;
          e' = (if attach then e\<lparr>e_attach := Some (new_attachment (env w) (0, 0, 0) player' vehicle)\<rparr> else e);
          full = s_maxItems w KTextLabel = length (s_items w KTextLabel)
      in seq (createItem KTextLabel e') (\<lambda>i.
        andthen (whenP (attach \<and> \<not> full) (modify (\<lambda>w. w\<lparr>s_attached := (s_attached w)(KTextLabel := s_attached w KTextLabel @ [i])\<rparr>)))
          (ret i)) w)"

definition area_element :: "shape \<Rightarrow> flt \<Rightarrow> int \<Rightarrow> int \<Rightarrow> int \<Rightarrow> element" where
  "area_element s size' world int' player = new_element (Area s) size' 0 world int' player"

definition CreateDynamicCircle :: "vec2 \<Rightarrow> flt \<Rightarrow> int \<Rightarrow> int \<Rightarrow> int \<Rightarrow> ('w, int) st" where
  "CreateDynamicCircle c size' world int' player =
     createItem KArea (area_element (Circle c) (sq size') world int' player)"

definition CreateDynamicRectangle :: "vec2 \<Rightarrow> vec2 \<Rightarrow> int \<Rightarrow> int \<Rightarrow> int \<Rightarrow> ('w, int) st" where
  "CreateDynamicRectangle lo hi world int' player w =
     (let g = geo (env w); b = g_correct2 g (lo, hi) in
      createItem KArea (area_element (Rectangle b) (fl32 (g_dist2 g (fst b) (snd b))) world int' player) w)"

definition CreateDynamicSphere :: "vec3 \<Rightarrow> flt \<Rightarrow> int \<Rightarrow> int \<Rightarrow> int \<Rightarrow> ('w, int) st" where
  "CreateDynamicSphere c size' world int' player =
     createItem KArea (area_element (Sphere c) (sq size') world int' player)"

definition CreateDynamicCube :: "vec3 \<Rightarrow> vec3 \<Rightarrow> int \<Rightarrow> int \<Rightarrow> int \<Rightarrow> ('w, int) st" where
  "CreateDynamicCube lo hi world int' player w =
     (let g = geo (env w); b = g_correct3 g (lo, hi) in
      createItem KArea (area_element (Cube b) (fl32 (g_dist2 g (plane_of (fst b)) (plane_of (snd b)))) world int' player) w)"

section \<open>Destroying items\<close>

text \<open>What a player's record and screen lose when an item goes.\<close>

definition unsee :: "kind \<Rightarrow> int \<Rightarrow> splayer \<Rightarrow> splayer" where
  "unsee k i p = p\<lparr>sp_visibleCell := (sp_visibleCell p)(k := AList.delete i (sp_visibleCell p k))\<rparr>"

definition forgetArea :: "int \<Rightarrow> playerid \<Rightarrow> splayer \<Rightarrow> native list \<times> splayer" where
  "forgetArea i q p = ([], unsee KArea i (p\<lparr>sp_disabledAreas := removeAll i (sp_disabledAreas p),
     sp_internalAreas := removeAll i (sp_internalAreas p)\<rparr>))"

definition forgetCheckpoint :: "int \<Rightarrow> playerid \<Rightarrow> splayer \<Rightarrow> native list \<times> splayer" where
  "forgetCheckpoint i q p =
     (let seen = sp_visibleCheckpoint p = i;
          p = (if seen then p\<lparr>sp_activeCheckpoint := 0, sp_visibleCheckpoint := 0\<rparr> else p)
      in (if seen then [DisablePlayerCheckpoint q] else [],
          unsee KCheckpoint i (p\<lparr>sp_disabledCheckpoints := removeAll i (sp_disabledCheckpoints p)\<rparr>)))"

definition forgetMapIcon :: "int \<Rightarrow> playerid \<Rightarrow> splayer \<Rightarrow> native list \<times> splayer" where
  "forgetMapIcon i q p = (case map_of (sp_internalMapIcons p) i of
     Some n \<Rightarrow> ([RemovePlayerMapIcon q n],
        unsee KMapIcon i (p\<lparr>sp_mapIconIdentifier := ident_remove n (length (sp_internalMapIcons p)) (sp_mapIconIdentifier p),
          sp_internalMapIcons := AList.delete i (sp_internalMapIcons p)\<rparr>))
   | None \<Rightarrow> ([], unsee KMapIcon i p))"

definition forgetObject :: "int \<Rightarrow> playerid \<Rightarrow> splayer \<Rightarrow> native list \<times> splayer" where
  "forgetObject i q p = (case map_of (sp_internalObjects p) i of
     Some n \<Rightarrow> ([DestroyPlayerObject q n], unsee KObject i (p\<lparr>sp_internalObjects := AList.delete i (sp_internalObjects p)\<rparr>))
   | None \<Rightarrow> ([], unsee KObject i p))"

definition forgetRaceCheckpoint :: "int \<Rightarrow> playerid \<Rightarrow> splayer \<Rightarrow> native list \<times> splayer" where
  "forgetRaceCheckpoint i q p =
     (let seen = sp_visibleRaceCheckpoint p = i;
          p = (if seen then p\<lparr>sp_activeRaceCheckpoint := 0, sp_visibleRaceCheckpoint := 0\<rparr> else p)
      in (if seen then [DisablePlayerRaceCheckpoint q] else [],
          unsee KRaceCheckpoint i (p\<lparr>sp_disabledRaceCheckpoints := removeAll i (sp_disabledRaceCheckpoints p)\<rparr>)))"

definition forgetTextLabel :: "int \<Rightarrow> playerid \<Rightarrow> splayer \<Rightarrow> native list \<times> splayer" where
  "forgetTextLabel i q p = (case map_of (sp_internalTextLabels p) i of
     Some n \<Rightarrow> ([DeletePlayer3DTextLabel q n], unsee KTextLabel i (p\<lparr>sp_internalTextLabels := AList.delete i (sp_internalTextLabels p)\<rparr>))
   | None \<Rightarrow> ([], unsee KTextLabel i p))"

definition forAllPlayers :: "(playerid \<Rightarrow> splayer \<Rightarrow> native list \<times> splayer) \<Rightarrow> 'w streamer_scheme \<Rightarrow> 'w streamer_scheme" where
  "forAllPlayers f w = w\<lparr>out := rev (concat (map (\<lambda>(q, p). fst (f q p)) (s_players w))) @ out w,
     s_players := map (\<lambda>(q, p). (q, snd (f q p))) (s_players w)\<rparr>"

definition forgetPickup :: "int \<Rightarrow> 'w streamer_scheme \<Rightarrow> 'w streamer_scheme" where
  "forgetPickup i w = (case map_of (s_internalPickups w) i of
     Some n \<Rightarrow> w\<lparr>out := DestroyPickup n # out w, s_internalPickups := AList.delete i (s_internalPickups w)\<rparr> | None \<Rightarrow> w)"

text \<open>The id goes back to the allocator, told how many items there are; the players and the grid forget the item; the table entry goes.\<close>

definition destroyItem :: "kind \<Rightarrow> ('w streamer_scheme \<Rightarrow> 'w streamer_scheme) \<Rightarrow> int \<Rightarrow> element \<Rightarrow> 'w streamer_scheme \<Rightarrow> 'w streamer_scheme" where
  "destroyItem k forget i e w =
     (let w = forget (w\<lparr>s_ids := (s_ids w)(k := ident_remove i (length (s_items w k)) (s_ids w k))\<rparr>);
          w = snd (gridRemove k i e False w)
      in w\<lparr>s_items := (s_items w)(k := snd (Remove i (s_items w k)))\<rparr>)"

definition destroyArea :: "int \<Rightarrow> element \<Rightarrow> 'w streamer_scheme \<Rightarrow> 'w streamer_scheme" where
  "destroyArea i = destroyItem KArea (forAllPlayers (forgetArea i)) i"
definition destroyCheckpoint :: "int \<Rightarrow> element \<Rightarrow> 'w streamer_scheme \<Rightarrow> 'w streamer_scheme" where
  "destroyCheckpoint i = destroyItem KCheckpoint (forAllPlayers (forgetCheckpoint i)) i"
definition destroyMapIcon :: "int \<Rightarrow> element \<Rightarrow> 'w streamer_scheme \<Rightarrow> 'w streamer_scheme" where
  "destroyMapIcon i = destroyItem KMapIcon (forAllPlayers (forgetMapIcon i)) i"
definition destroyObject :: "int \<Rightarrow> element \<Rightarrow> 'w streamer_scheme \<Rightarrow> 'w streamer_scheme" where
  "destroyObject i = destroyItem KObject (forAllPlayers (forgetObject i)) i"
definition destroyPickup :: "int \<Rightarrow> element \<Rightarrow> 'w streamer_scheme \<Rightarrow> 'w streamer_scheme" where
  "destroyPickup i = destroyItem KPickup (forgetPickup i) i"
definition destroyRaceCheckpoint :: "int \<Rightarrow> element \<Rightarrow> 'w streamer_scheme \<Rightarrow> 'w streamer_scheme" where
  "destroyRaceCheckpoint i = destroyItem KRaceCheckpoint (forAllPlayers (forgetRaceCheckpoint i)) i"
definition destroyTextLabel :: "int \<Rightarrow> element \<Rightarrow> 'w streamer_scheme \<Rightarrow> 'w streamer_scheme" where
  "destroyTextLabel i = destroyItem KTextLabel (forAllPlayers (forgetTextLabel i)) i"

definition destroyIfValid :: "kind \<Rightarrow> (int \<Rightarrow> element \<Rightarrow> 'w streamer_scheme \<Rightarrow> 'w streamer_scheme) \<Rightarrow> int \<Rightarrow> ('w, bool) st" where
  "destroyIfValid k d i w = (case map_of (s_items w k) i of Some e \<Rightarrow> (Inr True, d i e w) | None \<Rightarrow> (Inr False, w))"

definition DestroyDynamicObject :: "int \<Rightarrow> ('w, bool) st" where "DestroyDynamicObject = destroyIfValid KObject destroyObject"
definition DestroyDynamicPickup :: "int \<Rightarrow> ('w, bool) st" where "DestroyDynamicPickup = destroyIfValid KPickup destroyPickup"
definition DestroyDynamicCP :: "int \<Rightarrow> ('w, bool) st" where "DestroyDynamicCP = destroyIfValid KCheckpoint destroyCheckpoint"
definition DestroyDynamicRaceCP :: "int \<Rightarrow> ('w, bool) st" where
  "DestroyDynamicRaceCP = destroyIfValid KRaceCheckpoint destroyRaceCheckpoint"
definition DestroyDynamicMapIcon :: "int \<Rightarrow> ('w, bool) st" where "DestroyDynamicMapIcon = destroyIfValid KMapIcon destroyMapIcon"
definition DestroyDynamic3DTextLabel :: "int \<Rightarrow> ('w, bool) st" where
  "DestroyDynamic3DTextLabel = destroyIfValid KTextLabel destroyTextLabel"
definition DestroyDynamicArea :: "int \<Rightarrow> ('w, bool) st" where "DestroyDynamicArea = destroyIfValid KArea destroyArea"

definition isValid :: "kind \<Rightarrow> int \<Rightarrow> 'w streamer_scheme \<Rightarrow> bool" where
  "isValid k i w \<longleftrightarrow> IsExist i (s_items w k)"

section \<open>Areas and players\<close>

text \<open>\<^verbatim>\<open>Utility::isPointInArea\<close>; the polygon case is left out: no native of this version creates one.\<close>

definition isPointInArea :: "geometry \<Rightarrow> vec3 \<Rightarrow> element \<Rightarrow> bool" where
  "isPointInArea g p e = (case e_body e of
     Area (Circle c) \<Rightarrow> (case attached_position e c of Some q \<Rightarrow> g_dist2 g (plane_of p) q \<le> e_size e | None \<Rightarrow> False)
   | Area (Rectangle b) \<Rightarrow> g_within2 g (plane_of p) b
   | Area (Sphere c) \<Rightarrow> (case (case e_attach e of Some a \<Rightarrow> at_position a | None \<Rightarrow> Some c) of
        Some q \<Rightarrow> g_dist3 g p q \<le> e_size e | None \<Rightarrow> False)
   | Area (Cube b) \<Rightarrow> g_within3 g p b
   | _ \<Rightarrow> False)"

definition IsPointInDynamicArea :: "int \<Rightarrow> vec3 \<Rightarrow> 'w streamer_scheme \<Rightarrow> bool" where
  "IsPointInDynamicArea i p w = (case map_of (s_items w KArea) i of Some e \<Rightarrow> isPointInArea (geo (env w)) p e | None \<Rightarrow> False)"

definition IsPointInAnyDynamicArea :: "vec3 \<Rightarrow> 'w streamer_scheme \<Rightarrow> bool" where
  "IsPointInAnyDynamicArea p w \<longleftrightarrow> (\<exists>(i, e) \<in> set (s_items w KArea). isPointInArea (geo (env w)) p e)"

definition IsPlayerInDynamicArea :: "playerid \<Rightarrow> int \<Rightarrow> 'w streamer_scheme \<Rightarrow> bool" where
  "IsPlayerInDynamicArea q i w = (case map_of (s_players w) q of Some p \<Rightarrow> i \<in> set (sp_internalAreas p) | None \<Rightarrow> False)"

definition IsPlayerInAnyDynamicArea :: "playerid \<Rightarrow> 'w streamer_scheme \<Rightarrow> bool" where
  "IsPlayerInAnyDynamicArea q w = (case map_of (s_players w) q of Some p \<Rightarrow> sp_internalAreas p \<noteq> [] | None \<Rightarrow> False)"

definition onPlayer :: "playerid \<Rightarrow> (splayer \<Rightarrow> 'a \<times> splayer) \<Rightarrow> 'a \<Rightarrow> ('w, 'a) st" where
  "onPlayer q f none w = (case map_of (s_players w) q of
     Some p \<Rightarrow> (let (r, p) = f p in (Inr r, w\<lparr>s_players := setMember q p (s_players w)\<rparr>)) | None \<Rightarrow> (Inr none, w))"

definition TogglePlayerDynamicArea :: "playerid \<Rightarrow> int \<Rightarrow> bool \<Rightarrow> ('w, bool) st" where
  "TogglePlayerDynamicArea q i toggle = onPlayer q (\<lambda>p.
     if toggle then (if i \<in> set (sp_disabledAreas p)
         then (True, p\<lparr>sp_disabledAreas := removeAll i (sp_disabledAreas p)\<rparr>) else (False, p))
     else if i \<notin> set (sp_disabledAreas p)
       then (True, p\<lparr>sp_disabledAreas := sp_disabledAreas p @ [i], sp_internalAreas := removeAll i (sp_internalAreas p)\<rparr>)
       else (False, p)) False"

definition TogglePlayerAllDynamicAreas :: "playerid \<Rightarrow> bool \<Rightarrow> ('w, bool) st" where
  "TogglePlayerAllDynamicAreas q toggle w = onPlayer q (\<lambda>p.
     (True, if toggle then p\<lparr>sp_disabledAreas := []\<rparr>
            else p\<lparr>sp_disabledAreas := map fst (s_items w KArea), sp_internalAreas := []\<rparr>)) False w"

definition ToggleIdleUpdate :: "playerid \<Rightarrow> int \<Rightarrow> ('w, bool) st" where
  "ToggleIdleUpdate q toggle = onPlayer q (\<lambda>p. (True, p\<lparr>sp_idleUpdate := (toggle \<noteq> 0)\<rparr>)) False"

section \<open>Events\<close>

definition new_splayer :: "playerid \<Rightarrow> 'w streamer_scheme \<Rightarrow> splayer" where
  "new_splayer q w =
     \<lparr>sp_activeCheckpoint = 0, sp_activeRaceCheckpoint = 0, sp_idleUpdate = False, sp_interiorID = 0, sp_playerID = q,
      sp_position = (0, 0, 0), sp_visibleCheckpoint = 0, sp_visibleRaceCheckpoint = 0, sp_visibleObjects = s_visible w KObject,
      sp_visibleTextLabels = s_visible w KTextLabel, sp_worldID = 0, sp_disabledAreas = [], sp_disabledCheckpoints = [],
      sp_disabledRaceCheckpoints = [], sp_internalAreas = [], sp_internalMapIcons = [], sp_internalObjects = [],
      sp_internalTextLabels = [], sp_mapIconIdentifier = ident_new, sp_visibleCell = (\<lambda>k. [])\<rparr>"

definition Streamer_OnPlayerConnect :: "playerid \<Rightarrow> ('w, bool) st" where
  "Streamer_OnPlayerConnect q w =
     (Inr True, if 0 \<le> q \<and> q < 500 then w\<lparr>s_players := snd (Add q (new_splayer q w) (s_players w))\<rparr> else w)"

definition Streamer_OnPlayerDisconnect :: "playerid \<Rightarrow> int \<Rightarrow> ('w, bool) st" where
  "Streamer_OnPlayerDisconnect q reason w = (Inr True, w\<lparr>s_players := snd (Remove q (s_players w))\<rparr>)"

definition Streamer_OnPlayerEditObject :: "playerid \<Rightarrow> int \<Rightarrow> 'w streamer_scheme \<Rightarrow> int" where
  "Streamer_OnPlayerEditObject q n w = (case map_of (s_players w) q of
     Some p \<Rightarrow> (case find (\<lambda>(i, m). m = n) (sp_internalObjects p) of Some (i, _) \<Rightarrow> i | None \<Rightarrow> 0) | None \<Rightarrow> 0)"

definition Streamer_OnPlayerSelectObject :: "playerid \<Rightarrow> int \<Rightarrow> 'w streamer_scheme \<Rightarrow> int" where
  "Streamer_OnPlayerSelectObject = Streamer_OnPlayerEditObject"

text \<open>The streamer's id of a server pickup.\<close>

definition Streamer_OnPlayerPickUpPickup :: "playerid \<Rightarrow> int \<Rightarrow> 'w streamer_scheme \<Rightarrow> int" where
  "Streamer_OnPlayerPickUpPickup q n w = (case find (\<lambda>(i, m). m = n) (s_internalPickups w) of Some (i, _) \<Rightarrow> i | None \<Rightarrow> 0)"

definition OnPlayerEnterCheckpoint :: "playerid \<Rightarrow> ('w, int) st" where
  "OnPlayerEnterCheckpoint q = onPlayer q (\<lambda>p. if sp_activeCheckpoint p \<noteq> sp_visibleCheckpoint p
     then (sp_visibleCheckpoint p, p\<lparr>sp_activeCheckpoint := sp_visibleCheckpoint p\<rparr>) else (0, p)) 0"

definition OnPlayerLeaveCheckpoint :: "playerid \<Rightarrow> ('w, int) st" where
  "OnPlayerLeaveCheckpoint q = onPlayer q (\<lambda>p. if sp_activeCheckpoint p = sp_visibleCheckpoint p
     then (sp_activeCheckpoint p, p\<lparr>sp_activeCheckpoint := 0\<rparr>) else (0, p)) 0"

definition OnPlayerEnterRaceCheckpoint :: "playerid \<Rightarrow> ('w, int) st" where
  "OnPlayerEnterRaceCheckpoint q = onPlayer q (\<lambda>p. if sp_activeRaceCheckpoint p \<noteq> sp_visibleRaceCheckpoint p
     then (sp_visibleRaceCheckpoint p, p\<lparr>sp_activeRaceCheckpoint := sp_visibleRaceCheckpoint p\<rparr>) else (0, p)) 0"

definition OnPlayerLeaveRaceCheckpoint :: "playerid \<Rightarrow> ('w, int) st" where
  "OnPlayerLeaveRaceCheckpoint q = onPlayer q (\<lambda>p. if sp_activeRaceCheckpoint p = sp_visibleRaceCheckpoint p
     then (sp_activeRaceCheckpoint p, p\<lparr>sp_activeRaceCheckpoint := 0\<rparr>) else (0, p)) 0"

section \<open>Who sees an item\<close>

definition checkPlayer :: "playerset \<Rightarrow> nat \<Rightarrow> int set \<Rightarrow> int \<Rightarrow> int set \<Rightarrow> int \<Rightarrow> bool" where
  "checkPlayer a b c d e f \<longleftrightarrow> bit a b \<and> (c = {} \<or> d \<in> c) \<and> (e = {} \<or> f \<in> e)"

section \<open>The start\<close>

text \<open>\<^verbatim>\<open>Data::Data\<close>, \<^verbatim>\<open>Grid::Grid\<close>, \<^verbatim>\<open>Streamer::Streamer\<close> and the static identifiers.\<close>

definition streamer_init :: "host \<Rightarrow> streamer" where
  "streamer_init h = host.extend h
     (streamer.fields (\<lambda>k. 2 ^ 31 - 1) (\<lambda>k. ident_new) (\<lambda>k. []) [] [] empty_cell 360000 300 (\<lambda>k. []) [] [] 50
       (\<lambda>k. if k = KMapIcon then 100 else if k = KObject then 500 else if k = KPickup then 4096 else 1024)
       0 0 False 0 (replicate 5 0) [])"

end
