(* ===== verification/StreamerNatives.thy ===== *)
theory StreamerNatives
  imports Streamer
begin

text \<open>
  The other natives of the streamer (\<^verbatim>\<open>src/freshcity.dependency.streamer/src/Natives.cpp\<close>): settings, moving, turning and
  attaching objects, their materials, disabled checkpoints, the text of labels, attached areas, and the natives that
  destroy all items of a kind.
\<close>

section \<open>Settings\<close>

text \<open>An \<^verbatim>\<open>int\<close> given as a \<^verbatim>\<open>size_t\<close>.\<close>

definition as_size :: "int \<Rightarrow> nat" where
  "as_size i = nat (i mod 2 ^ 32)"

definition Streamer_SetTickRate :: "int \<Rightarrow> ('w, bool) st" where
  "Streamer_SetTickRate rate = setTickRate (as_size rate)"

definition Streamer_SetMaxItems :: "int \<Rightarrow> int \<Rightarrow> ('w, bool) st" where
  "Streamer_SetMaxItems t items = setMaxItems t (as_size items)"

definition Streamer_SetVisibleItems :: "int \<Rightarrow> int \<Rightarrow> ('w, bool) st" where
  "Streamer_SetVisibleItems t items = setVisibleItems t (as_size items)"

definition Streamer_SetCellDistance :: "flt \<Rightarrow> ('w, unit) st" where
  "Streamer_SetCellDistance d = andthen (modify (\<lambda>w. w\<lparr>s_cellDistance := sq d\<rparr>)) rebuildGrid"

definition Streamer_SetCellSize :: "flt \<Rightarrow> ('w, unit) st" where
  "Streamer_SetCellSize c = andthen (modify (\<lambda>w. w\<lparr>s_cellSize := c\<rparr>)) rebuildGrid"

section \<open>Vectors of floats\<close>

definition zip3 :: "('a \<Rightarrow> 'b \<Rightarrow> 'c) \<Rightarrow> 'a \<times> 'a \<times> 'a \<Rightarrow> 'b \<times> 'b \<times> 'b \<Rightarrow> 'c \<times> 'c \<times> 'c" where
  "zip3 f a b = (f (fst a) (fst b), f (fst (snd a)) (fst (snd b)), f (snd (snd a)) (snd (snd b)))"

definition vadd :: "vec3 \<Rightarrow> vec3 \<Rightarrow> vec3" where "vadd = zip3 (\<lambda>x y. fl32 (x + y))"
definition vsub :: "vec3 \<Rightarrow> vec3 \<Rightarrow> vec3" where "vsub = zip3 (\<lambda>x y. fl32 (x - y))"
definition vscale :: "vec3 \<Rightarrow> flt \<Rightarrow> vec3" where "vscale v t = zip3 (\<lambda>x y. fl32 (x * y)) v (t, t, t)"
definition vdiv :: "vec3 \<Rightarrow> flt \<Rightarrow> vec3" where "vdiv v t = zip3 (\<lambda>x y. fl32 (x / y)) v (t, t, t)"

section \<open>Objects\<close>

definition obj_pos :: "element \<Rightarrow> vec3" where
  "obj_pos e = (case e_body e of Obj p _ _ _ \<Rightarrow> p | _ \<Rightarrow> (0, 0, 0))"

definition obj_rot :: "element \<Rightarrow> vec3" where
  "obj_rot e = (case e_body e of Obj _ r _ _ \<Rightarrow> r | _ \<Rightarrow> (0, 0, 0))"

definition set_obj_pos :: "vec3 \<Rightarrow> element \<Rightarrow> element" where
  "set_obj_pos q e = (case e_body e of Obj p r m d \<Rightarrow> e\<lparr>e_body := Obj q r m d\<rparr> | _ \<Rightarrow> e)"

definition set_obj_rot :: "vec3 \<Rightarrow> element \<Rightarrow> element" where
  "set_obj_rot q e = (case e_body e of Obj p r m d \<Rightarrow> e\<lparr>e_body := Obj p q m d\<rparr> | _ \<Rightarrow> e)"

text \<open>The loop over the players that are shown the item \<open>i\<close>.\<close>

definition tellViewers :: "(splayer \<Rightarrow> (int \<times> int) list) \<Rightarrow> int \<Rightarrow> (playerid \<Rightarrow> int \<Rightarrow> native list) \<Rightarrow> 'w streamer_scheme \<Rightarrow> 'w streamer_scheme" where
  "tellViewers shown i f w = w\<lparr>out := rev (concat (map (\<lambda>(q, p). case map_of (shown p) i of Some n \<Rightarrow> f q n | None \<Rightarrow> []) (s_players w))) @ out w\<rparr>"

text \<open>\<^verbatim>\<open>removeObject(o, true)\<close> and so on, for an item of the table.\<close>

definition regrid :: "kind \<Rightarrow> int \<Rightarrow> element \<Rightarrow> ('w, unit) st" where
  "regrid k i e = seq (gridRemove k i e True) (\<lambda>e. modify (setItem k i e))"

definition onItem :: "kind \<Rightarrow> int \<Rightarrow> (element \<Rightarrow> ('w, 'a) st) \<Rightarrow> 'a \<Rightarrow> ('w, 'a) st" where
  "onItem k i f none w = (case map_of (s_items w k) i of Some e \<Rightarrow> f e w | None \<Rightarrow> (Inr none, w))"

text \<open>\<^verbatim>\<open>static_cast<int>((distance(p, q) / speed) * 1000.0f)\<close>\<close>

definition move_duration :: "geometry \<Rightarrow> vec3 \<Rightarrow> vec3 \<Rightarrow> flt \<Rightarrow> int" where
  "move_duration g p q speed = trunc (fl64 (fl64 (g_distance3 g p q / speed) * 1000))"

definition turns :: "vec3 \<Rightarrow> bool" where
  "turns r \<longleftrightarrow> - 1000 < max (fst r) (max (fst (snd r)) (snd (snd r)))"

text \<open>A movement to \<open>p\<close> and \<open>r\<close> that starts where the object is now. With a duration of 0 the changes are not numbers; they are not used then.\<close>

definition movement_from :: "cenv \<Rightarrow> element \<Rightarrow> vec3 \<Rightarrow> vec3 \<Rightarrow> vec3 \<times> vec3 \<Rightarrow> flt \<Rightarrow> movement" where
  "movement_from ev e p r old speed = (let d = move_duration (geo ev) p (obj_pos e) speed; n = fl32 (of_int d) in
     \<lparr>mv_duration = d, mv_position = (p, obj_pos e, vdiv (vsub p (obj_pos e)) n),
      mv_rotation = (r, if turns r then (obj_rot e, vdiv (vsub r (obj_rot e)) n) else old),
      mv_speed = speed, mv_time = steady ev\<rparr>)"

definition SetDynamicObjectPos :: "int \<Rightarrow> vec3 \<Rightarrow> ('w, bool) st" where
  "SetDynamicObjectPos i p = onItem KObject i (\<lambda>e0.
     let e = set_obj_pos p e0; moved = plane_of (obj_pos e0) \<noteq> plane_of p in
     andthen (modify (setItem KObject i e))
    (andthen (modify (tellViewers sp_internalObjects i (\<lambda>q n. [SetPlayerObjectPos q n (fst p) (fst (snd p)) (snd (snd p))])))
    (andthen (whenP (moved \<and> e_cell e \<noteq> None) (regrid KObject i e))
    (andthen (onItem KObject i (\<lambda>e. case e_move e of None \<Rightarrow> ret ()
       | Some m \<Rightarrow> modify (\<lambda>w. setItem KObject i (e\<lparr>e_move := Some (movement_from (env w) e (fst (mv_position m)) (fst (mv_rotation m))
           (snd (mv_rotation m)) (mv_speed m))\<rparr>) w)) ())
     (ret True))))) False"

definition GetDynamicObjectPos :: "int \<Rightarrow> 'w streamer_scheme \<Rightarrow> vec3 option" where
  "GetDynamicObjectPos i w = map_option obj_pos (map_of (s_items w KObject) i)"

definition SetDynamicObjectRot :: "int \<Rightarrow> vec3 \<Rightarrow> ('w, bool) st" where
  "SetDynamicObjectRot i r = onItem KObject i (\<lambda>e. if e_move e \<noteq> None then ret False
     else andthen (modify (setItem KObject i (set_obj_rot r e)))
       (andthen (modify (tellViewers sp_internalObjects i (\<lambda>q n. [SetPlayerObjectRot q n (fst r) (fst (snd r)) (snd (snd r))]))) (ret True))) False"

definition GetDynamicObjectRot :: "int \<Rightarrow> 'w streamer_scheme \<Rightarrow> vec3 option" where
  "GetDynamicObjectRot i w = map_option obj_rot (map_of (s_items w KObject) i)"

definition move_native :: "playerid \<Rightarrow> int \<Rightarrow> movement \<Rightarrow> native" where
  "move_native q n m = (let p = fst (mv_position m); r = fst (mv_rotation m) in
     MovePlayerObject q n (fst p) (fst (snd p)) (snd (snd p)) (mv_speed m) (fst r) (fst (snd r)) (snd (snd r)))"

definition add_id :: "int \<Rightarrow> int list \<Rightarrow> int list" where
  "add_id i is = (if i \<in> set is then is else is @ [i])"

definition MoveDynamicObject :: "int \<Rightarrow> vec3 \<Rightarrow> flt \<Rightarrow> vec3 \<Rightarrow> ('w, int) st" where
  "MoveDynamicObject i p speed r = (if speed = 0 then ret 0 else onItem KObject i (\<lambda>e.
     if e_attach e \<noteq> None then throw (RuntimeError ''MoveDynamicObject: Object is currently attached and cannot be moved'')
     else seq (gets (\<lambda>w. movement_from (env w) e p r (uninitialised3 (env w), uninitialised3 (env w)) speed)) (\<lambda>m.
       andthen (modify (setItem KObject i (e\<lparr>e_move := Some m\<rparr>)))
      (andthen (modify (tellViewers sp_internalObjects i (\<lambda>q n. [StopPlayerObject q n, move_native q n m])))
      (andthen (modify (s_moving_update (add_id i))) (ret (mv_duration m)))))) 0)"

definition StopDynamicObject :: "int \<Rightarrow> ('w, bool) st" where
  "StopDynamicObject i = onItem KObject i (\<lambda>e. if e_move e = None then ret False
     else andthen (modify (tellViewers sp_internalObjects i (\<lambda>q n. [StopPlayerObject q n])))
      (andthen (modify (setItem KObject i (e\<lparr>e_move := None\<rparr>)))
      (andthen (modify (s_moving_update (removeAll i))) (ret True)))) False"

definition IsDynamicObjectMoving :: "int \<Rightarrow> 'w streamer_scheme \<Rightarrow> bool" where
  "IsDynamicObjectMoving i w = (case map_of (s_items w KObject) i of Some e \<Rightarrow> e_move e \<noteq> None | None \<Rightarrow> False)"

text \<open>What a player can do with an object only while it is shown to him.\<close>

definition onShownObject :: "playerid \<Rightarrow> int \<Rightarrow> (int \<Rightarrow> native) \<Rightarrow> ('w, bool) st" where
  "onShownObject q i f w = (case map_of (s_players w) q of None \<Rightarrow> (Inr False, w)
     | Some p \<Rightarrow> (case map_of (sp_internalObjects p) i of None \<Rightarrow> (Inr False, w)
         | Some n \<Rightarrow> (Inr True, w\<lparr>out := f n # out w\<rparr>)))"

definition AttachCameraToDynamicObject :: "playerid \<Rightarrow> int \<Rightarrow> ('w, bool) st" where
  "AttachCameraToDynamicObject q i = onShownObject q i (AttachCameraToPlayerObject q)"

definition EditDynamicObject :: "playerid \<Rightarrow> int \<Rightarrow> ('w, bool) st" where
  "EditDynamicObject q i = onShownObject q i (EditPlayerObject q)"

definition attach_native :: "playerid \<Rightarrow> int \<Rightarrow> attachment \<Rightarrow> native" where
  "attach_native q n a = (let f = at_offset a; r = at_rotation a in
     AttachPlayerObjectToVehicle q n (at_vehicle a) (fst f) (fst (snd f)) (snd (snd f)) (fst r) (fst (snd r)) (snd (snd r)))"

definition attached_update :: "kind \<Rightarrow> (int list \<Rightarrow> int list) \<Rightarrow> 'w streamer_scheme \<Rightarrow> 'w streamer_scheme" where
  "attached_update k f w = w\<lparr>s_attached := (s_attached w)(k := f (s_attached w k))\<rparr>"

definition AttachDynamicObjectToVehicle :: "int \<Rightarrow> int \<Rightarrow> vec3 \<Rightarrow> vec3 \<Rightarrow> ('w, bool) st" where
  "AttachDynamicObjectToVehicle i vehicle offset r = onItem KObject i (\<lambda>e.
     if e_move e \<noteq> None then throw (RuntimeError ''AttachDynamicObjectToVehicle: Object is currently moving and cannot be attached'')
     else seq (gets (\<lambda>w. (new_attachment (env w) (0, 0, 0) 0 vehicle)\<lparr>at_offset := offset, at_rotation := r\<rparr>)) (\<lambda>a.
       andthen (modify (setItem KObject i (e\<lparr>e_attach := Some a\<rparr>)))
      (andthen (modify (tellViewers sp_internalObjects i (\<lambda>q n. [attach_native q n a])))
      (andthen (if vehicle \<noteq> INVALID_GENERIC_ID then modify (attached_update KObject (add_id i))
        else andthen (modify (attached_update KObject (removeAll i))) (regrid KObject i (e\<lparr>e_attach := None\<rparr>)))
       (ret True))))) False"

subsection \<open>Materials\<close>

definition material_of :: "int \<Rightarrow> int \<Rightarrow> 'w streamer_scheme \<Rightarrow> material option" where
  "material_of i index w = (case map_of (s_items w KObject) i of Some e \<Rightarrow> map_of (e_materials e) index | None \<Rightarrow> None)"

definition GetDynamicObjectMaterial :: "int \<Rightarrow> int \<Rightarrow> 'w streamer_scheme \<Rightarrow> material_main option" where
  "GetDynamicObjectMaterial i index w = (case material_of i index w of Some m \<Rightarrow> mat_main m | None \<Rightarrow> None)"

definition GetDynamicObjectMaterialText :: "int \<Rightarrow> int \<Rightarrow> 'w streamer_scheme \<Rightarrow> material_text option" where
  "GetDynamicObjectMaterialText i index w = (case material_of i index w of Some m \<Rightarrow> mat_text m | None \<Rightarrow> None)"

definition main_native :: "playerid \<Rightarrow> int \<Rightarrow> int \<Rightarrow> material_main \<Rightarrow> native" where
  "main_native q n index m = SetPlayerObjectMaterial q n index (mm_modelID m) (mm_txdFileName m) (mm_textureName m) (mm_color m)"

definition text_native :: "playerid \<Rightarrow> int \<Rightarrow> int \<Rightarrow> material_text \<Rightarrow> native" where
  "text_native q n index m = SetPlayerObjectMaterialText q n (mt_text m) index (mt_size m) (mt_fontFace m) (mt_fontSize m) (mt_bold m)
     (mt_fontColor m) (mt_backColor m) (mt_alignment m)"

definition setMaterial :: "int \<Rightarrow> int \<Rightarrow> material \<Rightarrow> (playerid \<Rightarrow> int \<Rightarrow> native) \<Rightarrow> ('w, bool) st" where
  "setMaterial i index m f = onItem KObject i (\<lambda>e.
     andthen (modify (tellViewers sp_internalObjects i (\<lambda>q n. [f q n])))
    (andthen (modify (setItem KObject i (e\<lparr>e_materials := AList.update index m (e_materials e)\<rparr>))) (ret True))) False"

definition SetDynamicObjectMaterial :: "int \<Rightarrow> int \<Rightarrow> material_main \<Rightarrow> ('w, bool) st" where
  "SetDynamicObjectMaterial i index m = setMaterial i index \<lparr>mat_main = Some m, mat_text = None\<rparr> (\<lambda>q n. main_native q n index m)"

definition SetDynamicObjectMaterialText :: "int \<Rightarrow> int \<Rightarrow> material_text \<Rightarrow> ('w, bool) st" where
  "SetDynamicObjectMaterialText i index m = setMaterial i index \<lparr>mat_main = None, mat_text = Some m\<rparr> (\<lambda>q n. text_native q n index m)"

section \<open>Text labels\<close>

definition GetDynamic3DTextLabelText :: "int \<Rightarrow> 'w streamer_scheme \<Rightarrow> string option" where
  "GetDynamic3DTextLabelText i w = (case map_of (s_items w KTextLabel) i of
     Some e \<Rightarrow> (case e_body e of TextLabel _ text _ _ _ \<Rightarrow> Some text | _ \<Rightarrow> None) | None \<Rightarrow> None)"

definition UpdateDynamic3DTextLabelText :: "int \<Rightarrow> cint \<Rightarrow> string \<Rightarrow> ('w, bool) st" where
  "UpdateDynamic3DTextLabelText i color text = onItem KTextLabel i (\<lambda>e.
     andthen (modify (setItem KTextLabel i (case e_body e of TextLabel p _ _ d los \<Rightarrow> e\<lparr>e_body := TextLabel p text color d los\<rparr> | _ \<Rightarrow> e)))
    (andthen (modify (tellViewers sp_internalTextLabels i (\<lambda>q n. [UpdatePlayer3DTextLabelText q n color text]))) (ret True))) False"

section \<open>Checkpoints\<close>

text \<open>Like \<open>onPlayer\<close>, with native calls.\<close>

definition onPlayerOut :: "playerid \<Rightarrow> (splayer \<Rightarrow> 'a \<times> native list \<times> splayer) \<Rightarrow> 'a \<Rightarrow> ('w, 'a) st" where
  "onPlayerOut q f none w = (case map_of (s_players w) q of
     Some p \<Rightarrow> (let (r, ns, p) = f p in (Inr r, w\<lparr>out := rev ns @ out w, s_players := setMember q p (s_players w)\<rparr>)) | None \<Rightarrow> (Inr none, w))"

definition hideCheckpoint :: "playerid \<Rightarrow> splayer \<Rightarrow> native list \<times> splayer" where
  "hideCheckpoint q p = ([DisablePlayerCheckpoint q], p\<lparr>sp_activeCheckpoint := 0, sp_visibleCheckpoint := 0\<rparr>)"

definition hideRaceCheckpoint :: "playerid \<Rightarrow> splayer \<Rightarrow> native list \<times> splayer" where
  "hideRaceCheckpoint q p = ([DisablePlayerRaceCheckpoint q], p\<lparr>sp_activeRaceCheckpoint := 0, sp_visibleRaceCheckpoint := 0\<rparr>)"

definition TogglePlayerDynamicCP :: "playerid \<Rightarrow> int \<Rightarrow> bool \<Rightarrow> ('w, bool) st" where
  "TogglePlayerDynamicCP q i toggle = onPlayerOut q (\<lambda>p.
     if toggle then (if i \<in> set (sp_disabledCheckpoints p)
         then (True, [], p\<lparr>sp_disabledCheckpoints := removeAll i (sp_disabledCheckpoints p)\<rparr>) else (False, [], p))
     else if i \<notin> set (sp_disabledCheckpoints p)
       then (let (ns, p) = (if sp_visibleCheckpoint p = i then hideCheckpoint q p else ([], p))
             in (True, ns, p\<lparr>sp_disabledCheckpoints := sp_disabledCheckpoints p @ [i]\<rparr>))
       else (False, [], p)) False"

definition TogglePlayerDynamicRaceCP :: "playerid \<Rightarrow> int \<Rightarrow> bool \<Rightarrow> ('w, bool) st" where
  "TogglePlayerDynamicRaceCP q i toggle = onPlayerOut q (\<lambda>p.
     if toggle then (if i \<in> set (sp_disabledRaceCheckpoints p)
         then (True, [], p\<lparr>sp_disabledRaceCheckpoints := removeAll i (sp_disabledRaceCheckpoints p)\<rparr>) else (False, [], p))
     else if i \<notin> set (sp_disabledRaceCheckpoints p)
       then (let (ns, p) = (if sp_visibleRaceCheckpoint p = i then hideRaceCheckpoint q p else ([], p))
             in (True, ns, p\<lparr>sp_disabledRaceCheckpoints := sp_disabledRaceCheckpoints p @ [i]\<rparr>))
       else (False, [], p)) False"

text \<open>The condition on \<open>toggle\<close> is the opposite of the one for race checkpoints.\<close>

definition TogglePlayerAllDynamicCPs :: "playerid \<Rightarrow> bool \<Rightarrow> ('w, bool) st" where
  "TogglePlayerAllDynamicCPs q toggle w = onPlayerOut q (\<lambda>p.
     if toggle then (let (ns, p) = (if sp_visibleCheckpoint p \<noteq> 0 then hideCheckpoint q p else ([], p))
                     in (True, ns, p\<lparr>sp_disabledCheckpoints := map fst (s_items w KCheckpoint)\<rparr>))
     else (True, [], p\<lparr>sp_disabledCheckpoints := []\<rparr>)) False w"

definition TogglePlayerAllDynamicRaceCPs :: "playerid \<Rightarrow> bool \<Rightarrow> ('w, bool) st" where
  "TogglePlayerAllDynamicRaceCPs q toggle w = onPlayerOut q (\<lambda>p.
     if \<not> toggle then (let (ns, p) = (if sp_visibleRaceCheckpoint p \<noteq> 0 then hideRaceCheckpoint q p else ([], p))
                       in (True, ns, p\<lparr>sp_disabledRaceCheckpoints := map fst (s_items w KRaceCheckpoint)\<rparr>))
     else (True, [], p\<lparr>sp_disabledRaceCheckpoints := []\<rparr>)) False w"

definition IsPlayerInDynamicCP :: "playerid \<Rightarrow> int \<Rightarrow> 'w streamer_scheme \<Rightarrow> bool" where
  "IsPlayerInDynamicCP q i w = (case map_of (s_players w) q of Some p \<Rightarrow> sp_activeCheckpoint p = i | None \<Rightarrow> False)"

definition IsPlayerInDynamicRaceCP :: "playerid \<Rightarrow> int \<Rightarrow> 'w streamer_scheme \<Rightarrow> bool" where
  "IsPlayerInDynamicRaceCP q i w = (case map_of (s_players w) q of Some p \<Rightarrow> sp_activeRaceCheckpoint p = i | None \<Rightarrow> False)"

definition GetPlayerVisibleDynamicCP :: "playerid \<Rightarrow> 'w streamer_scheme \<Rightarrow> int" where
  "GetPlayerVisibleDynamicCP q w = (case map_of (s_players w) q of Some p \<Rightarrow> sp_visibleCheckpoint p | None \<Rightarrow> 0)"

definition GetPlayerVisibleDynamicRaceCP :: "playerid \<Rightarrow> 'w streamer_scheme \<Rightarrow> int" where
  "GetPlayerVisibleDynamicRaceCP q w = (case map_of (s_players w) q of Some p \<Rightarrow> sp_visibleRaceCheckpoint p | None \<Rightarrow> 0)"

section \<open>Attached areas\<close>

definition round_area :: "element \<Rightarrow> bool" where
  "round_area e = (case e_body e of Area (Circle _) \<Rightarrow> True | Area (Sphere _) \<Rightarrow> True | _ \<Rightarrow> False)"

text \<open>The three natives differ in the part of the attachment they set, and detach what was attached by the same part.\<close>

definition attachArea :: "string \<Rightarrow> int \<Rightarrow> int \<Rightarrow> (cenv \<Rightarrow> attachment) \<Rightarrow> (attachment \<Rightarrow> int) \<Rightarrow> ('w, bool) st" where
  "attachArea msg i target new part = onItem KArea i (\<lambda>e.
     if \<not> round_area e then throw (RuntimeError msg)
     else andthen (if target \<noteq> INVALID_GENERIC_ID then
         andthen (modify (\<lambda>w. setItem KArea i (e\<lparr>e_attach := Some (new (env w))\<rparr>) w)) (modify (attached_update KArea (add_id i)))
       else (case e_attach e of None \<Rightarrow> ret ()
         | Some a \<Rightarrow> whenP (part a \<noteq> INVALID_GENERIC_ID)
             (andthen (modify (attached_update KArea (removeAll i))) (regrid KArea i (e\<lparr>e_attach := None\<rparr>)))))
       (ret True)) False"

definition AttachDynamicAreaToObject :: "int \<Rightarrow> int \<Rightarrow> int \<Rightarrow> playerid \<Rightarrow> ('w, bool) st" where
  "AttachDynamicAreaToObject i object t player =
     attachArea ''*** AttachDynamicAreaToObject: Only circles and spheres may be attached to objects'' i object
       (\<lambda>ev. new_attachment ev (object, t, player) INVALID_GENERIC_ID INVALID_GENERIC_ID) (\<lambda>a. fst (at_object a))"

definition AttachDynamicAreaToPlayer :: "int \<Rightarrow> playerid \<Rightarrow> ('w, bool) st" where
  "AttachDynamicAreaToPlayer i player =
     attachArea ''*** AttachDynamicAreaToPlayer: Only circles and spheres may be attached to players'' i player
       (\<lambda>ev. new_attachment ev (INVALID_GENERIC_ID, 0, 0) player INVALID_GENERIC_ID) at_player"

definition AttachDynamicAreaToVehicle :: "int \<Rightarrow> int \<Rightarrow> ('w, bool) st" where
  "AttachDynamicAreaToVehicle i vehicle =
     attachArea ''*** AttachDynamicAreaToVehicle: Only circles and spheres may be attached to vehicles'' i vehicle
       (\<lambda>ev. new_attachment ev (INVALID_GENERIC_ID, 0, 0) INVALID_GENERIC_ID vehicle) at_vehicle"

section \<open>Destroying everything of a kind, counting\<close>

definition resetIds :: "kind \<Rightarrow> 'w streamer_scheme \<Rightarrow> 'w streamer_scheme" where
  "resetIds k w = w\<lparr>s_ids := (s_ids w)(k := ident_reset (s_ids w k))\<rparr>"

text \<open>The table is emptied. The visible cells are not: their items live on in them.\<close>

definition detachVisible :: "kind \<Rightarrow> (int, element) members \<Rightarrow> splayer \<Rightarrow> splayer" where
  "detachVisible k is p = p\<lparr>sp_visibleCell := (sp_visibleCell p)(k := map (\<lambda>(i, r).
     (i, case r of Live \<Rightarrow> (case map_of is i of Some e \<Rightarrow> Gone e | None \<Rightarrow> Live) | Gone e \<Rightarrow> Gone e)) (sp_visibleCell p k))\<rparr>"

definition clearItems :: "kind \<Rightarrow> 'w streamer_scheme \<Rightarrow> 'w streamer_scheme" where
  "clearItems k w = w\<lparr>s_players := map (\<lambda>(q, p). (q, detachVisible k (s_items w k) p)) (s_players w),
     s_items := (s_items w)(k := [])\<rparr>"

definition DestroyAllDynamicObjects :: "('w, unit) st" where
  "DestroyAllDynamicObjects = modify (\<lambda>w. clearItems KObject (s_moving_update (\<lambda>_. []) (attached_update KObject (\<lambda>_. [])
     (eraseAllItems KObject (forAllPlayers (\<lambda>q p. (map (\<lambda>(i, n). DestroyPlayerObject q n) (sp_internalObjects p), p\<lparr>sp_internalObjects := []\<rparr>))
       (resetIds KObject w))))))"

definition DestroyAllDynamicPickups :: "('w, unit) st" where
  "DestroyAllDynamicPickups = modify (\<lambda>w. clearItems KPickup (eraseAllItems KPickup
     ((resetIds KPickup w)\<lparr>out := rev (map (\<lambda>(i, n). DestroyPickup n) (s_internalPickups w)) @ out w, s_internalPickups := []\<rparr>)))"

definition DestroyAllDynamicCPs :: "('w, unit) st" where
  "DestroyAllDynamicCPs = modify (\<lambda>w. clearItems KCheckpoint (eraseAllItems KCheckpoint (forAllPlayers (\<lambda>q p.
     let p = p\<lparr>sp_disabledCheckpoints := []\<rparr> in if sp_visibleCheckpoint p \<noteq> 0 then hideCheckpoint q p else ([], p))
     (resetIds KCheckpoint w))))"

definition DestroyAllDynamicRaceCPs :: "('w, unit) st" where
  "DestroyAllDynamicRaceCPs = modify (\<lambda>w. clearItems KRaceCheckpoint (eraseAllItems KRaceCheckpoint (forAllPlayers (\<lambda>q p.
     let p = p\<lparr>sp_disabledRaceCheckpoints := []\<rparr> in if sp_visibleRaceCheckpoint p \<noteq> 0 then hideRaceCheckpoint q p else ([], p))
     (resetIds KRaceCheckpoint w))))"

definition DestroyAllDynamicMapIcons :: "('w, unit) st" where
  "DestroyAllDynamicMapIcons = modify (\<lambda>w. clearItems KMapIcon (eraseAllItems KMapIcon (forAllPlayers (\<lambda>q p.
     (map (\<lambda>(i, n). RemovePlayerMapIcon q n) (sp_internalMapIcons p),
      p\<lparr>sp_mapIconIdentifier := ident_reset (sp_mapIconIdentifier p), sp_internalMapIcons := []\<rparr>)) (resetIds KMapIcon w))))"

definition DestroyAllDynamic3DTextLabels :: "('w, unit) st" where
  "DestroyAllDynamic3DTextLabels = modify (\<lambda>w. clearItems KTextLabel (attached_update KTextLabel (\<lambda>_. []) (eraseAllItems KTextLabel
     (forAllPlayers (\<lambda>q p. (map (\<lambda>(i, n). DeletePlayer3DTextLabel q n) (sp_internalTextLabels p), p\<lparr>sp_internalTextLabels := []\<rparr>))
       (resetIds KTextLabel w)))))"

definition DestroyAllDynamicAreas :: "('w, unit) st" where
  "DestroyAllDynamicAreas = modify (\<lambda>w. clearItems KArea (attached_update KArea (\<lambda>_. []) (eraseAllItems KArea
     (forAllPlayers (\<lambda>q p. ([], p\<lparr>sp_disabledAreas := [], sp_internalAreas := []\<rparr>)) (resetIds KArea w)))))"

text \<open>\<^verbatim>\<open>CountDynamicObjects\<close>, \<^verbatim>\<open>CountDynamicPickups\<close> and so on.\<close>

definition countItems :: "kind \<Rightarrow> 'w streamer_scheme \<Rightarrow> nat" where
  "countItems k w = length (s_items w k)"

end
