(* ===== verification/Streaming.thy ===== *)
theory Streaming
  imports StreamerNatives
begin

text \<open>
  The update loop of the streamer (\<^verbatim>\<open>Streamer.cpp\<close> and the searching part of \<^verbatim>\<open>Grid.cpp\<close>): at every tick the active items move,
  then each player is shown the items of the cells around him, loses those that are out of reach, and enters and leaves
  areas. The three callbacks of the game mode are parameters: they run in the middle of an update and may call any native.
\<close>

section \<open>The cells of a player\<close>

text \<open>The cells that \<^verbatim>\<open>findAllCells\<close> collects are shared with the grid: their contents are read when they are used. The player's former
  visible cell belongs to nobody else.\<close>

datatype cellref = GridCell cellid | GlobalCell | FormerVisible vcell

definition live_cell :: "cell \<Rightarrow> vcell" where
  "live_cell c = (\<lambda>k. map (\<lambda>i. (i, Live)) (c k))"

definition cell_content :: "'w streamer_scheme \<Rightarrow> cellref \<Rightarrow> vcell" where
  "cell_content w r = (case r of
     GridCell c \<Rightarrow> (case getCell c w of Some cell \<Rightarrow> live_cell cell | None \<Rightarrow> (\<lambda>k. []))
   | GlobalCell \<Rightarrow> live_cell (s_globalCell w)
   | FormerVisible vc \<Rightarrow> vc)"

definition item_of :: "'w streamer_scheme \<Rightarrow> kind \<Rightarrow> int \<times> visref \<Rightarrow> element option" where
  "item_of w k r = (case snd r of Live \<Rightarrow> map_of (s_items w k) (fst r) | Gone e \<Rightarrow> Some e)"

type_synonym found = "int \<times> visref \<times> element"

text \<open>The items of a kind in some cells, in the order the loops meet them.\<close>

definition cell_entries :: "kind \<Rightarrow> cellref list \<Rightarrow> 'w streamer_scheme \<Rightarrow> found list" where
  "cell_entries k cs w = List.map_filter (\<lambda>r. map_option (\<lambda>e. (fst r, snd r, e)) (item_of w k r)) (concat (map (\<lambda>c. cell_content w c k) cs))"

definition all_kinds :: "kind list" where
  "all_kinds = [KArea, KCheckpoint, KMapIcon, KObject, KRaceCheckpoint, KPickup, KTextLabel]"

text \<open>An item without a cell in a visible cell: a null pointer is dereferenced.\<close>

definition cell_known :: "'w streamer_scheme \<Rightarrow> kind \<Rightarrow> int \<times> visref \<Rightarrow> bool" where
  "cell_known w k r = (case item_of w k r of Some e \<Rightarrow> e_cell e \<noteq> None | None \<Rightarrow> True)"

definition cell_discovered :: "'w streamer_scheme \<Rightarrow> cellid list \<Rightarrow> kind \<Rightarrow> int \<times> visref \<Rightarrow> bool" where
  "cell_discovered w ds k r = (case item_of w k r of Some e \<Rightarrow> e_cell e \<in> Some ` set ds | None \<Rightarrow> False)"

definition cleanVisibleCell :: "vcell \<Rightarrow> cellid list \<Rightarrow> ('w, vcell) st" where
  "cleanVisibleCell vc ds w =
     (if list_all (\<lambda>k. list_all (cell_known w k) (vc k)) all_kinds
      then (Inr (\<lambda>k. filter (\<lambda>r. \<not> cell_discovered w ds k r) (vc k)), w) else (Inl Undefined, w))"

text \<open>The cells around a player that exist.\<close>

definition cells_around :: "splayer \<Rightarrow> 'w streamer_scheme \<Rightarrow> cellid list" where
  "cells_around p w = filter (\<lambda>c. getCell c w \<noteq> None)
     (map (\<lambda>t. cellID w (fl32 (fst (sp_position p) + fst t), fl32 (fst (snd (sp_position p)) + snd t))) (translationMatrix (s_cellSize w)))"

text \<open>The player of an update is a reference into the table of players.\<close>

definition withPlayer :: "playerid \<Rightarrow> (splayer \<Rightarrow> ('w, 'a) st) \<Rightarrow> ('w, 'a) st" where
  "withPlayer q f w = (case map_of (s_players w) q of Some p \<Rightarrow> f p w | None \<Rightarrow> (Inl Undefined, w))"

definition setPlayer :: "playerid \<Rightarrow> splayer \<Rightarrow> ('w, unit) st" where
  "setPlayer q p = modify (\<lambda>w. w\<lparr>s_players := setMember q p (s_players w)\<rparr>)"

definition updatePlayer :: "playerid \<Rightarrow> (splayer \<Rightarrow> splayer) \<Rightarrow> ('w, unit) st" where
  "updatePlayer q f = withPlayer q (\<lambda>p. setPlayer q (f p))"

definition findAllCells :: "playerid \<Rightarrow> ('w, cellref list) st" where
  "findAllCells q = withPlayer q (\<lambda>p. seq (gets (cells_around p)) (\<lambda>ds.
     seq (cleanVisibleCell (sp_visibleCell p) ds) (\<lambda>vc.
     andthen (setPlayer q (p\<lparr>sp_visibleCell := \<lambda>k. []\<rparr>)) (ret (map GridCell ds @ [GlobalCell, FormerVisible vc])))))"

definition findMinimalCells :: "playerid \<Rightarrow> ('w, cellref list) st" where
  "findMinimalCells q = withPlayer q (\<lambda>p. seq (gets (cells_around p)) (\<lambda>ds. ret (map GridCell ds @ [GlobalCell])))"

section \<open>Who sees what\<close>

definition admits :: "splayer \<Rightarrow> element \<Rightarrow> bool" where
  "admits p e \<longleftrightarrow> checkPlayer (e_players e) (nat (sp_playerID p)) (e_interiors e) (sint (sp_interiorID p)) (e_worlds e) (sint (sp_worldID p))"

text \<open>The position from which the distance of an item is taken.\<close>

definition stream_position :: "element \<Rightarrow> vec3 option" where
  "stream_position e = (case e_body e of
     Area _ \<Rightarrow> None
   | Checkpoint p \<Rightarrow> Some p
   | MapIcon p _ _ _ \<Rightarrow> Some p
   | Obj p _ _ _ \<Rightarrow> (case e_attach e of Some a \<Rightarrow> at_position a | None \<Rightarrow> Some p)
   | Pickup p _ _ _ \<Rightarrow> Some p
   | RaceCheckpoint p _ _ \<Rightarrow> Some p
   | TextLabel p _ _ _ _ \<Rightarrow> (case e_attach e of Some a \<Rightarrow> at_position a | None \<Rightarrow> Some p))"

definition disabled_for :: "kind \<Rightarrow> int \<Rightarrow> splayer \<Rightarrow> bool" where
  "disabled_for k i p = (case k of KArea \<Rightarrow> i \<in> set (sp_disabledAreas p) | KCheckpoint \<Rightarrow> i \<in> set (sp_disabledCheckpoints p)
     | KRaceCheckpoint \<Rightarrow> i \<in> set (sp_disabledRaceCheckpoints p) | _ \<Rightarrow> False)"

text \<open>The distance of an item for a player; \<open>None\<close> is infinity.\<close>

definition distance_of :: "geometry \<Rightarrow> kind \<Rightarrow> splayer \<Rightarrow> int \<Rightarrow> element \<Rightarrow> flt option" where
  "distance_of g k p i e = (if admits p e \<and> \<not> disabled_for k i p
     then map_option (\<lambda>x. fl32 (g_dist3 g (sp_position p) x)) (stream_position e) else None)"

definition within_reach :: "flt option \<Rightarrow> element \<Rightarrow> bool" where
  "within_reach d e = (case d of Some x \<Rightarrow> x \<le> e_streamDistance e | None \<Rightarrow> False)"

definition see_item :: "kind \<Rightarrow> found \<Rightarrow> splayer \<Rightarrow> splayer" where
  "see_item k f p = (case f of (i, r, e) \<Rightarrow>
     if e_cell e \<noteq> None \<and> i \<notin> fst ` set (sp_visibleCell p k)
     then p\<lparr>sp_visibleCell := (sp_visibleCell p)(k := sp_visibleCell p k @ [(i, r)])\<rparr> else p)"

section \<open>Areas\<close>

text \<open>The changes are collected and reported at the end: first the areas left, then the areas entered.\<close>

definition inside_area :: "geometry \<Rightarrow> splayer \<Rightarrow> int \<Rightarrow> element \<Rightarrow> bool" where
  "inside_area g p i e \<longleftrightarrow> admits p e \<and> i \<notin> set (sp_disabledAreas p) \<and> isPointInArea g (sp_position p) e"

definition visitArea :: "geometry \<Rightarrow> found \<Rightarrow> splayer \<Rightarrow> splayer \<times> (bool \<times> int) list" where
  "visitArea g f p = (case f of (i, r, e) \<Rightarrow>
     if inside_area g p i e then
       see_item KArea f (if i \<in> set (sp_internalAreas p) then p else p\<lparr>sp_internalAreas := sp_internalAreas p @ [i]\<rparr>)
     else if i \<in> set (sp_internalAreas p) then p\<lparr>sp_internalAreas := removeAll i (sp_internalAreas p)\<rparr> else p,
     case f of (i, r, e) \<Rightarrow> if inside_area g p i e \<noteq> (i \<in> set (sp_internalAreas p)) then [(inside_area g p i e, i)] else [])"

fun visitAreas :: "geometry \<Rightarrow> found list \<Rightarrow> splayer \<Rightarrow> splayer \<times> (bool \<times> int) list" where
  "visitAreas g [] p = (p, [])"
| "visitAreas g (f # fs) p = (let (p, xs) = visitArea g f p; (p, ys) = visitAreas g fs p in (p, xs @ ys))"

definition processAreas ::
  "(playerid \<Rightarrow> int \<Rightarrow> ('w, unit) st) \<Rightarrow> (playerid \<Rightarrow> int \<Rightarrow> ('w, unit) st) \<Rightarrow> playerid \<Rightarrow> cellref list \<Rightarrow> ('w, unit) st" where
  "processAreas enter leave q cs = withPlayer q (\<lambda>p. seq (gets (\<lambda>w. visitAreas (geo (env w)) (cell_entries KArea cs w) p)) (\<lambda>(p, xs).
     andthen (setPlayer q p)
       (forEach (filter (\<lambda>x. \<not> fst x) xs @ filter fst xs) (\<lambda>(entered, i). if entered then enter q i else leave q i))))"

section \<open>Checkpoints\<close>

text \<open>Checkpoints and race checkpoints differ in the members of the player and the natives.\<close>

definition cp_visible :: "kind \<Rightarrow> splayer \<Rightarrow> int" where
  "cp_visible k p = (if k = KCheckpoint then sp_visibleCheckpoint p else sp_visibleRaceCheckpoint p)"

definition cp_hide :: "kind \<Rightarrow> playerid \<Rightarrow> splayer \<Rightarrow> native list \<times> splayer" where
  "cp_hide k = (if k = KCheckpoint then hideCheckpoint else hideRaceCheckpoint)"

definition cp_deactivate :: "kind \<Rightarrow> splayer \<Rightarrow> splayer" where
  "cp_deactivate k p = (if k = KCheckpoint then p\<lparr>sp_activeCheckpoint := 0\<rparr> else p\<lparr>sp_activeRaceCheckpoint := 0\<rparr>)"

definition cp_setVisible :: "kind \<Rightarrow> int \<Rightarrow> splayer \<Rightarrow> splayer" where
  "cp_setVisible k i p = (if k = KCheckpoint then p\<lparr>sp_visibleCheckpoint := i\<rparr> else p\<lparr>sp_visibleRaceCheckpoint := i\<rparr>)"

definition cp_native :: "playerid \<Rightarrow> element \<Rightarrow> native list" where
  "cp_native q e = (case e_body e of
     Checkpoint p \<Rightarrow> [SetPlayerCheckpoint q (fst p) (fst (snd p)) (snd (snd p)) (e_size e)]
   | RaceCheckpoint p n t \<Rightarrow> [SetPlayerRaceCheckpoint q t (fst p) (fst (snd p)) (snd (snd p)) (fst n) (fst (snd n)) (snd (snd n)) (e_size e)]
   | _ \<Rightarrow> [])"

text \<open>A checkpoint out of reach is taken away; the rest are candidates, with their distances.\<close>

fun scanCPs :: "geometry \<Rightarrow> kind \<Rightarrow> playerid \<Rightarrow> found list \<Rightarrow> splayer \<Rightarrow> native list \<times> splayer \<times> (flt \<times> found) list" where
  "scanCPs g k q [] p = ([], p, [])"
| "scanCPs g k q ((i, r, e) # fs) p =
     (let d = distance_of g k p i e;
          (ns, p') = (if \<not> within_reach d e \<and> i = cp_visible k p then cp_hide k q p else ([], p));
          (ms, p'', xs) = scanCPs g k q fs p'
      in (ns @ ms, p'', (if within_reach d e then [(the d, (i, r, e))] else []) @ xs))"

text \<open>The nearest candidate is the one the player has.\<close>

definition chooseCP :: "kind \<Rightarrow> playerid \<Rightarrow> (flt \<times> found) list \<Rightarrow> splayer \<Rightarrow> native list \<times> splayer" where
  "chooseCP k q xs p = (case sort_key fst xs of [] \<Rightarrow> ([], p)
     | (d, (i, r, e)) # _ \<Rightarrow>
        (let (ns, p) = (if i = cp_visible k p then ([], p)
               else let (ns, p) = (if cp_visible k p \<noteq> 0 then (fst (cp_hide k q p), cp_deactivate k p) else ([], p))
                    in (ns @ cp_native q e, cp_setVisible k i p))
         in (ns, see_item k (i, r, e) p)))"

definition processCPs :: "kind \<Rightarrow> playerid \<Rightarrow> cellref list \<Rightarrow> ('w, unit) st" where
  "processCPs k q cs = withPlayer q (\<lambda>p. seq (gets (\<lambda>w. scanCPs (geo (env w)) k q (cell_entries k cs w) p)) (\<lambda>(ns, p, xs).
     (let (ms, p) = chooseCP k q xs p in
      andthen (setPlayer q p) (modify (\<lambda>w. w\<lparr>out := rev (ns @ ms) @ out w\<rparr>)))))"

definition processCheckpoints :: "playerid \<Rightarrow> cellref list \<Rightarrow> ('w, unit) st" where
  "processCheckpoints = processCPs KCheckpoint"

definition processRaceCheckpoints :: "playerid \<Rightarrow> cellref list \<Rightarrow> ('w, unit) st" where
  "processRaceCheckpoints = processCPs KRaceCheckpoint"

section \<open>Map icons, objects and text labels\<close>

text \<open>The three differ in the member that maps shown items to the server's ids, the natives and the limits.\<close>

definition shown_items :: "kind \<Rightarrow> splayer \<Rightarrow> (int \<times> int) list" where
  "shown_items k p = (if k = KMapIcon then sp_internalMapIcons p else if k = KObject then sp_internalObjects p else sp_internalTextLabels p)"

definition setShown :: "kind \<Rightarrow> (int \<times> int) list \<Rightarrow> splayer \<Rightarrow> splayer" where
  "setShown k xs p = (if k = KMapIcon then p\<lparr>sp_internalMapIcons := xs\<rparr> else if k = KObject then p\<lparr>sp_internalObjects := xs\<rparr>
     else p\<lparr>sp_internalTextLabels := xs\<rparr>)"

definition hide_native :: "kind \<Rightarrow> playerid \<Rightarrow> int \<Rightarrow> native" where
  "hide_native k q n = (if k = KMapIcon then RemovePlayerMapIcon q n else if k = KObject then DestroyPlayerObject q n
     else DeletePlayer3DTextLabel q n)"

text \<open>An item leaves the player's screen. The ids of map icons are the player's own.\<close>

definition hideItem :: "kind \<Rightarrow> playerid \<Rightarrow> int \<Rightarrow> splayer \<Rightarrow> native list \<times> splayer" where
  "hideItem k q i p = (case map_of (shown_items k p) i of None \<Rightarrow> ([], p)
     | Some n \<Rightarrow> (let p = (if k = KMapIcon then p\<lparr>sp_mapIconIdentifier := ident_remove n (length (shown_items k p)) (sp_mapIconIdentifier p)\<rparr> else p)
                 in ([hide_native k q n], setShown k (AList.delete i (shown_items k p)) p)))"

record scan =
  sc_natives :: "native list"
  sc_player :: splayer
  sc_new :: "(flt \<times> found) list"
  sc_existing :: "(flt \<times> found) list"

definition scanItem :: "geometry \<Rightarrow> kind \<Rightarrow> playerid \<Rightarrow> scan \<Rightarrow> found \<Rightarrow> scan" where
  "scanItem g k q s f = (case f of (i, r, e) \<Rightarrow>
     (let p = sc_player s; d = distance_of g k p i e in
      if within_reach d e then
        if map_of (shown_items k p) i = None then s\<lparr>sc_new := sc_new s @ [(the d, f)]\<rparr>
        else s\<lparr>sc_player := see_item k f p, sc_existing := sc_existing s @ [(the d, f)]\<rparr>
      else (let (ns, p) = hideItem k q i p in s\<lparr>sc_natives := sc_natives s @ ns, sc_player := p\<rparr>)))"

definition scanItems :: "geometry \<Rightarrow> kind \<Rightarrow> playerid \<Rightarrow> found list \<Rightarrow> splayer \<Rightarrow> scan" where
  "scanItems g k q fs p = foldl (scanItem g k q) \<lparr>sc_natives = [], sc_player = p, sc_new = [], sc_existing = []\<rparr> fs"

definition show_limit :: "kind \<Rightarrow> splayer \<Rightarrow> 'w streamer_scheme \<Rightarrow> nat" where
  "show_limit k p w = (if k = KObject then sp_visibleObjects p else if k = KTextLabel then sp_visibleTextLabels p else s_visible w k)"

text \<open>At the player's limit the farthest item gives way to a nearer one.\<close>

definition evict :: "kind \<Rightarrow> playerid \<Rightarrow> flt \<Rightarrow> (flt \<times> found) list \<Rightarrow> splayer \<Rightarrow> native list \<times> (flt \<times> found) list \<times> splayer" where
  "evict k q d ex p = (if ex = [] then ([], ex, p) else case last ex of (d', (i, r, e)) \<Rightarrow>
     if d < d' then (let (ns, p) = hideItem k q i p in (ns, butlast ex, if e_cell e \<noteq> None then unsee k i p else p))
     else ([], ex, p))"

definition noteLimit :: "kind \<Rightarrow> splayer \<Rightarrow> splayer" where
  "noteLimit k p = (if k = KObject then p\<lparr>sp_visibleObjects := length (shown_items k p)\<rparr>
     else if k = KTextLabel then p\<lparr>sp_visibleTextLabels := length (shown_items k p)\<rparr> else p)"

definition material_natives :: "playerid \<Rightarrow> int \<Rightarrow> element \<Rightarrow> native list" where
  "material_natives q n e = concat (map (\<lambda>(index, m). case mat_main m of Some x \<Rightarrow> [main_native q n index x]
     | None \<Rightarrow> (case mat_text m of Some x \<Rightarrow> [text_native q n index x] | None \<Rightarrow> [])) (e_materials e))"

text \<open>The natives that show an item, and the server's id for it, when there is one.\<close>

definition create_native :: "playerid \<Rightarrow> int \<Rightarrow> element \<Rightarrow> native list" where
  "create_native q n e = (case e_body e of
     MapIcon p t c s \<Rightarrow> [SetPlayerMapIcon q n (fst p) (fst (snd p)) (snd (snd p)) t c s]
   | Obj p r m d \<Rightarrow> [CreatePlayerObject q m (fst p) (fst (snd p)) (snd (snd p)) (fst r) (fst (snd r)) (snd (snd r)) d]
   | TextLabel p text c d los \<Rightarrow> [CreatePlayer3DTextLabel q text c (fst p) (fst (snd p)) (snd (snd p)) d
       (case e_attach e of Some a \<Rightarrow> at_player a | None \<Rightarrow> INVALID_GENERIC_ID)
       (case e_attach e of Some a \<Rightarrow> at_vehicle a | None \<Rightarrow> INVALID_GENERIC_ID) los]
   | _ \<Rightarrow> [])"

definition dress_natives :: "kind \<Rightarrow> playerid \<Rightarrow> int \<Rightarrow> element \<Rightarrow> native list" where
  "dress_natives k q n e = (if k = KObject then
       (case e_attach e of Some a \<Rightarrow> [attach_native q n a]
        | None \<Rightarrow> (case e_move e of Some m \<Rightarrow> [move_native q n m] | None \<Rightarrow> [])) @ material_natives q n e
     else [])"

definition showItem :: "kind \<Rightarrow> playerid \<Rightarrow> element \<Rightarrow> splayer \<Rightarrow> ('w, int option \<times> splayer) st" where
  "showItem k q e p = (if k = KMapIcon then
       (let (n, ids) = ident_get (sp_mapIconIdentifier p) in
        andthen (modify (\<lambda>w. w\<lparr>out := rev (create_native q n e) @ out w\<rparr>)) (ret (Some n, p\<lparr>sp_mapIconIdentifier := ids\<rparr>)))
     else seq (ask (if k = KObject then q_newplayerobject else q_newplayerlabel)) (\<lambda>n.
       andthen (modify (\<lambda>w. w\<lparr>out := rev (create_native q n e) @ out w\<rparr>))
        (if n = INVALID_GENERIC_ID then ret (None, p)
         else andthen (modify (\<lambda>w. w\<lparr>out := rev (dress_natives k q n e) @ out w\<rparr>)) (ret (Some n, p)))))"

primrec showItems :: "kind \<Rightarrow> playerid \<Rightarrow> (flt \<times> found) list \<Rightarrow> (flt \<times> found) list \<Rightarrow> splayer \<Rightarrow> ('w, splayer) st" where
  "showItems k q [] ex p = ret p"
| "showItems k q (x # xs) ex p = (case x of (d, (i, r, e)) \<Rightarrow>
     seq (gets (show_limit k p)) (\<lambda>m.
       let (ns, ex, p) = (if length (shown_items k p) = m then evict k q d ex p else ([], ex, p)) in
     andthen (modify (\<lambda>w. w\<lparr>out := rev ns @ out w\<rparr>))
    (seq (gets (\<lambda>w. s_visible w k)) (\<lambda>m.
     if length (shown_items k p) = m then ret (noteLimit k p)
     else seq (showItem k q e p) (\<lambda>(n, p). case n of None \<Rightarrow> ret (noteLimit k p)
       | Some n \<Rightarrow> showItems k q xs ex (see_item k (i, r, e) (setShown k (snd (Add i n (shown_items k p))) p)))))))"

definition processItems :: "kind \<Rightarrow> playerid \<Rightarrow> cellref list \<Rightarrow> ('w, unit) st" where
  "processItems k q cs = withPlayer q (\<lambda>p. seq (gets (\<lambda>w. scanItems (geo (env w)) k q (cell_entries k cs w) p)) (\<lambda>s.
     andthen (modify (\<lambda>w. w\<lparr>out := rev (sc_natives s) @ out w\<rparr>))
    (seq (showItems k q (sort_key fst (sc_new s)) (sort_key fst (sc_existing s)) (sc_player s)) (setPlayer q))))"

definition processMapIcons :: "playerid \<Rightarrow> cellref list \<Rightarrow> ('w, unit) st" where "processMapIcons = processItems KMapIcon"
definition processObjects :: "playerid \<Rightarrow> cellref list \<Rightarrow> ('w, unit) st" where "processObjects = processItems KObject"
definition processTextLabels :: "playerid \<Rightarrow> cellref list \<Rightarrow> ('w, unit) st" where "processTextLabels = processItems KTextLabel"

section \<open>Pickups\<close>

text \<open>Pickups are shown to all players at once: every player's update collects those near him, the last player's update makes the server's
  pickups agree. The collection is a static variable.\<close>

definition pickup_world :: "splayer \<Rightarrow> element \<Rightarrow> element" where
  "pickup_world p e = (case e_body e of
     Pickup x m t _ \<Rightarrow> e\<lparr>e_body := Pickup x m t (if e_worlds e \<noteq> {} then sint (sp_worldID p) else - 1)\<rparr> | _ \<Rightarrow> e)"

definition discoverPickup :: "splayer \<Rightarrow> found \<Rightarrow> 'w streamer_scheme \<Rightarrow> 'w streamer_scheme" where
  "discoverPickup p f w = (case f of (i, r, e) \<Rightarrow>
     if map_of (s_discoveredPickups w) i = None \<and> admits p e
        \<and> (case stream_position e of Some x \<Rightarrow> g_dist3 (geo (env w)) (sp_position p) x \<le> e_streamDistance e | None \<Rightarrow> False)
     then let e = (if map_of (s_internalPickups w) i = None then pickup_world p e else e);
              w = (if r = Live then setItem KPickup i e w else w)
          in w\<lparr>s_discoveredPickups := s_discoveredPickups w @ [(i, e)]\<rparr>
     else w)"

text \<open>Server pickups that nobody is near are destroyed, those already there leave the collection.\<close>

definition keepPickup :: "int \<times> int \<Rightarrow> 'w streamer_scheme \<Rightarrow> 'w streamer_scheme" where
  "keepPickup x w = (case x of (i, n) \<Rightarrow>
     if map_of (s_discoveredPickups w) i = None
     then w\<lparr>out := DestroyPickup n # out w, s_internalPickups := AList.delete i (s_internalPickups w)\<rparr>
     else w\<lparr>s_discoveredPickups := AList.delete i (s_discoveredPickups w)\<rparr>)"

definition pickup_native :: "element \<Rightarrow> native list" where
  "pickup_native e = (case e_body e of Pickup x m t v \<Rightarrow> [CreatePickup m t (fst x) (fst (snd x)) (snd (snd x)) v] | _ \<Rightarrow> [])"

definition INVALID_ALTERNATE_ID :: int where "INVALID_ALTERNATE_ID = - 1"

primrec createPickups :: "(int \<times> element) list \<Rightarrow> ('w, unit) st" where
  "createPickups [] = ret ()"
| "createPickups (x # xs) = (case x of (i, e) \<Rightarrow> seq (gets (\<lambda>w. length (s_internalPickups w) = s_visible w KPickup)) (\<lambda>full.
     if full then ret ()
     else seq (ask q_newpickup) (\<lambda>n. andthen (modify (\<lambda>w. w\<lparr>out := rev (pickup_native e) @ out w\<rparr>))
       (if n = INVALID_ALTERNATE_ID then ret ()
        else andthen (modify (\<lambda>w. w\<lparr>s_internalPickups := snd (Add i n (s_internalPickups w))\<rparr>)) (createPickups xs)))))"

definition settlePickups :: "('w, unit) st" where
  "settlePickups = seq (gets s_internalPickups) (\<lambda>is. andthen (forEach is (\<lambda>x. modify (keepPickup x)))
     (seq (gets s_discoveredPickups) (\<lambda>ds. andthen (createPickups ds) (modify (s_discoveredPickups_update (\<lambda>_. []))))))"

definition processPickups :: "playerid \<Rightarrow> cellref list \<Rightarrow> ('w, unit) st" where
  "processPickups q cs = withPlayer q (\<lambda>p. seq (gets (cell_entries KPickup cs)) (\<lambda>fs.
     andthen (forEach fs (\<lambda>f. modify (discoverPickup p f)))
       (seq (gets s_processingFinalPlayer) (\<lambda>final. whenP final settlePickups))))"

section \<open>Active items\<close>

text \<open>The time since \<open>t\<close> in \<^verbatim>\<open>float\<close> milliseconds.\<close>

definition elapsed_ms :: "cenv \<Rightarrow> int \<Rightarrow> flt" where
  "elapsed_ms ev t = fl32 (fl32 (of_int (steady ev - t)) / 1000000)"

text \<open>One step of a movement; \<open>None\<close> for the movement when it is over.\<close>

definition moveStep :: "cenv \<Rightarrow> movement \<Rightarrow> element \<Rightarrow> element" where
  "moveStep ev m e = (let t = elapsed_ms ev (mv_time m); r = mv_rotation m; p = mv_position m in
     if t < fl32 (of_int (mv_duration m)) then
       let e = set_obj_pos (vadd (fst (snd p)) (vscale (snd (snd p)) t)) e in
       if turns (fst r) then set_obj_rot (vadd (fst (snd r)) (vscale (snd (snd r)) t)) e else e
     else
       let e = set_obj_pos (fst p) e; e = (if turns (fst r) then set_obj_rot (fst r) e else e) in e\<lparr>e_move := None\<rparr>)"

definition moveObject :: "int \<Rightarrow> ('w, int list) st" where
  "moveObject i = onItem KObject i (\<lambda>e. case e_move e of None \<Rightarrow> ret []
     | Some m \<Rightarrow> seq (gets (\<lambda>w. moveStep (env w) m e)) (\<lambda>e.
         andthen (modify (setItem KObject i e)) (andthen (whenP (e_cell e \<noteq> None) (regrid KObject i e))
           (if e_move e = None then andthen (modify (s_moving_update (removeAll i))) (ret [i]) else ret [])))) []"

primrec collect_all :: "'a list \<Rightarrow> ('a \<Rightarrow> ('w, 'b list) st) \<Rightarrow> ('w, 'b list) st" where
  "collect_all [] f = ret []"
| "collect_all (x # xs) f = seq (f x) (\<lambda>ys. seq (collect_all xs f) (\<lambda>zs. ret (ys @ zs)))"

definition processMovingObjects :: "(int \<Rightarrow> ('w, unit) st) \<Rightarrow> ('w, unit) st" where
  "processMovingObjects moved = seq (gets s_moving) (\<lambda>is. seq (collect_all is moveObject) (\<lambda>is. forEach is moved))"

text \<open>Where the thing is to which an item is attached; \<open>None\<close> when the server does not know it.\<close>

definition player_place :: "playerid \<Rightarrow> 'w streamer_scheme \<Rightarrow> vec3 option" where
  "player_place q w = (let s = samp (env w) (out w) in if q_connected s q then Some (q_pos s q) else None)"

definition vehicle_place :: "int \<Rightarrow> 'w streamer_scheme \<Rightarrow> vec3 option" where
  "vehicle_place v w = q_vehiclepos (samp (env w) (out w)) v"

definition area_place :: "attachment \<Rightarrow> 'w streamer_scheme \<Rightarrow> vec3 option" where
  "area_place a w = (case at_object a of (object, t, player) \<Rightarrow>
     if object \<noteq> INVALID_GENERIC_ID then
       (if t = 0 then q_objectpos (samp (env w) (out w)) object
        else if t = 1 then q_playerobjectpos (samp (env w) (out w)) player object
        else if t = 2 then map_option obj_pos (map_of (s_items w KObject) object)
        else None)
     else if at_player a \<noteq> INVALID_GENERIC_ID then player_place (at_player a) w
     else if at_vehicle a \<noteq> INVALID_GENERIC_ID then vehicle_place (at_vehicle a) w
     else None)"

definition object_place :: "attachment \<Rightarrow> 'w streamer_scheme \<Rightarrow> vec3 option" where
  "object_place a w = (if at_vehicle a \<noteq> INVALID_GENERIC_ID then vehicle_place (at_vehicle a) w else None)"

definition label_place :: "attachment \<Rightarrow> 'w streamer_scheme \<Rightarrow> vec3 option" where
  "label_place a w = (if at_player a \<noteq> INVALID_GENERIC_ID then player_place (at_player a) w
     else if at_vehicle a \<noteq> INVALID_GENERIC_ID then vehicle_place (at_vehicle a) w else None)"

definition followItem :: "kind \<Rightarrow> (attachment \<Rightarrow> 'w streamer_scheme \<Rightarrow> vec3 option) \<Rightarrow> int \<Rightarrow> ('w, unit) st" where
  "followItem k place i = onItem k i (\<lambda>e. case e_attach e of None \<Rightarrow> ret ()
     | Some a \<Rightarrow> seq (gets (place a)) (\<lambda>pos.
         let e = e\<lparr>e_attach := Some (a\<lparr>at_position := pos\<rparr>)\<rparr> in
         andthen (modify (setItem k i e)) (whenP (pos \<noteq> None \<and> e_cell e \<noteq> None) (regrid k i e)))) ()"

definition processAttached :: "kind \<Rightarrow> (attachment \<Rightarrow> 'w streamer_scheme \<Rightarrow> vec3 option) \<Rightarrow> ('w, unit) st" where
  "processAttached k place = seq (gets (\<lambda>w. s_attached w k)) (\<lambda>is. forEach is (followItem k place))"

definition processAttachedAreas :: "('w, unit) st" where "processAttachedAreas = processAttached KArea area_place"
definition processAttachedObjects :: "('w, unit) st" where "processAttachedObjects = processAttached KObject object_place"
definition processAttachedTextLabels :: "('w, unit) st" where "processAttachedTextLabels = processAttached KTextLabel label_place"

definition processActiveItems :: "(int \<Rightarrow> ('w, unit) st) \<Rightarrow> ('w, unit) st" where
  "processActiveItems moved = andthen (processMovingObjects moved)
     (andthen processAttachedAreas (andthen processAttachedObjects processAttachedTextLabels))"

section \<open>Updates\<close>

text \<open>The sums are those of the Eigen headers, which halve what they add.\<close>

definition squaredNorm :: "vec3 \<Rightarrow> flt" where
  "squaredNorm v = (case v of (x, y, z) \<Rightarrow> fl32 (fl32 (x * x) + fl32 (fl32 (y * y) + fl32 (z * z))))"

definition mean5 :: "flt list \<Rightarrow> flt" where
  "mean5 xs = fl32 (fl32 (fl32 (xs ! 0 + xs ! 1) + fl32 (xs ! 2 + fl32 (xs ! 3 + xs ! 4))) / 5)"

definition calculateAverageUpdateTime :: "'w streamer_scheme \<Rightarrow> 'w streamer_scheme" where
  "calculateAverageUpdateTime w =
     (let cur = steady (env w); prev = s_lastRecordedTime w; ts = s_recordedTimes w;
          w = (if prev = 0 then w
               else if \<not> list_all (\<lambda>t. 0 < t) ts then
                 w\<lparr>s_recordedTimes := ts[length (filter (\<lambda>t. 0 < t) ts) := fl32 (fl32 (of_int (cur - prev)) / 1000000000)]\<rparr>
               else w\<lparr>s_averageUpdateTime := fl32 (mean5 ts * 50), s_recordedTimes := replicate 5 0\<rparr>)
      in w\<lparr>s_lastRecordedTime := cur\<rparr>)"

definition PLAYER_STATE_NONE :: int where "PLAYER_STATE_NONE = 0"
definition PLAYER_STATE_ONFOOT :: int where "PLAYER_STATE_ONFOOT = 1"
definition PLAYER_STATE_DRIVER :: int where "PLAYER_STATE_DRIVER = 2"
definition PLAYER_STATE_PASSENGER :: int where "PLAYER_STATE_PASSENGER = 3"
definition PLAYER_STATE_WASTED :: int where "PLAYER_STATE_WASTED = 7"

definition player_velocity :: "samp \<Rightarrow> playerid \<Rightarrow> vec3" where
  "player_velocity s q = (if q_state s q = PLAYER_STATE_ONFOOT then q_velocity s q
     else if q_state s q = PLAYER_STATE_DRIVER \<or> q_state s q = PLAYER_STATE_PASSENGER then q_vehiclevelocity s (q_vehicle s q)
     else (0, 0, 0))"

text \<open>The first part of an automatic update: where the player is, where he is heading (that is where the update looks), whether he
  is idle, and the position to go back to afterwards.\<close>

definition locate_player :: "samp \<Rightarrow> flt \<Rightarrow> splayer \<Rightarrow> splayer \<times> bool \<times> vec3" where
  "locate_player s avg p =
     (let q = sp_playerID p; old = sp_position p;
          p = p\<lparr>sp_interiorID := q_interior s q, sp_worldID := q_world s q, sp_position := if q_connected s q then q_pos s q else old\<rparr>
      in if q_state s q \<noteq> PLAYER_STATE_NONE \<and> q_state s q \<noteq> PLAYER_STATE_WASTED then
           if sp_position p \<noteq> old then
             (let v = player_velocity s q; n = squaredNorm v; here = sp_position p in
              (if 1 / 4 \<le> n \<and> n \<le> 25 then p\<lparr>sp_position := vadd here (vscale v avg)\<rparr> else p, False, here))
           else (p, \<not> sp_idleUpdate p, old)
         else (p, True, old))"

definition unlessEmpty :: "kind \<Rightarrow> ('w, unit) st \<Rightarrow> ('w, unit) st" where
  "unlessEmpty k m = seq (gets (\<lambda>w. s_items w k = [])) (\<lambda>empty. whenP (\<not> empty) m)"

text \<open>The cells of \<^verbatim>\<open>findAllCells\<close> are never none: the global one is among them.\<close>

definition streamAround ::
  "(playerid \<Rightarrow> int \<Rightarrow> ('w, unit) st) \<Rightarrow> (playerid \<Rightarrow> int \<Rightarrow> ('w, unit) st) \<Rightarrow> playerid \<Rightarrow> ('w, cellref list) st" where
  "streamAround enter leave q = seq (findAllCells q) (\<lambda>cs.
     andthen (unlessEmpty KObject (processObjects q cs))
    (andthen (unlessEmpty KCheckpoint (processCheckpoints q cs))
    (andthen (unlessEmpty KRaceCheckpoint (processRaceCheckpoints q cs))
    (andthen (unlessEmpty KMapIcon (processMapIcons q cs))
    (andthen (unlessEmpty KTextLabel (processTextLabels q cs))
    (andthen (unlessEmpty KArea (processAreas enter leave q cs)) (ret cs)))))))"

definition performPlayerUpdate ::
  "(playerid \<Rightarrow> int \<Rightarrow> ('w, unit) st) \<Rightarrow> (playerid \<Rightarrow> int \<Rightarrow> ('w, unit) st) \<Rightarrow> playerid \<Rightarrow> bool \<Rightarrow> ('w, unit) st" where
  "performPlayerUpdate enter leave q automatic =
     (if automatic then withPlayer q (\<lambda>p. seq (gets (\<lambda>w. locate_player (samp (env w) (out w)) (s_averageUpdateTime w) p)) (\<lambda>(p, idle, here).
        andthen (setPlayer q p)
       (seq (if idle then ret [] else streamAround enter leave q) (\<lambda>cs.
        andthen (unlessEmpty KPickup (seq (if idle then findMinimalCells q else ret cs) (processPickups q)))
          (updatePlayer q (sp_position_update (\<lambda>_. here)))))))
      else seq (streamAround enter leave q) (\<lambda>_. ret ()))"

definition startManualUpdate ::
  "(playerid \<Rightarrow> int \<Rightarrow> ('w, unit) st) \<Rightarrow> (playerid \<Rightarrow> int \<Rightarrow> ('w, unit) st) \<Rightarrow> (int \<Rightarrow> ('w, unit) st) \<Rightarrow> playerid \<Rightarrow> ('w, unit) st" where
  "startManualUpdate enter leave moved q = andthen (processActiveItems moved) (performPlayerUpdate enter leave q False)"

definition isLastPlayer :: "playerid \<Rightarrow> (playerid, splayer) members \<Rightarrow> bool" where
  "isLastPlayer q ps \<longleftrightarrow> ps \<noteq> [] \<and> fst (last ps) = q"

definition startAutomaticUpdate ::
  "(playerid \<Rightarrow> int \<Rightarrow> ('w, unit) st) \<Rightarrow> (playerid \<Rightarrow> int \<Rightarrow> ('w, unit) st) \<Rightarrow> (int \<Rightarrow> ('w, unit) st) \<Rightarrow> ('w, unit) st" where
  "startAutomaticUpdate enter leave moved = seq (gets (\<lambda>w. s_tickRate w \<le> s_tickCount w)) (\<lambda>due.
     andthen (whenP due
       (andthen (modify calculateAverageUpdateTime)
       (andthen (processActiveItems moved)
       (seq (gets (\<lambda>w. map fst (s_players w))) (\<lambda>qs.
        andthen (forEach qs (\<lambda>q. andthen (modify (\<lambda>w. w\<lparr>s_processingFinalPlayer := isLastPlayer q (s_players w)\<rparr>))
                                   (performPlayerUpdate enter leave q True)))
          (modify (\<lambda>w. w\<lparr>s_processingFinalPlayer := False, s_tickCount := 0\<rparr>)))))))
      (modify (s_tickCount_update Suc)))"

section \<open>The natives that update\<close>

definition Streamer_ProcessTick ::
  "(playerid \<Rightarrow> int \<Rightarrow> ('w, unit) st) \<Rightarrow> (playerid \<Rightarrow> int \<Rightarrow> ('w, unit) st) \<Rightarrow> (int \<Rightarrow> ('w, unit) st) \<Rightarrow> ('w, unit) st" where
  "Streamer_ProcessTick = startAutomaticUpdate"

definition Streamer_ProcessActiveItems :: "(int \<Rightarrow> ('w, unit) st) \<Rightarrow> ('w, unit) st" where
  "Streamer_ProcessActiveItems = processActiveItems"

definition manualUpdate ::
  "(playerid \<Rightarrow> int \<Rightarrow> ('w, unit) st) \<Rightarrow> (playerid \<Rightarrow> int \<Rightarrow> ('w, unit) st) \<Rightarrow> (int \<Rightarrow> ('w, unit) st) \<Rightarrow> playerid
    \<Rightarrow> (samp \<Rightarrow> splayer \<Rightarrow> splayer) \<Rightarrow> ('w, bool) st" where
  "manualUpdate enter leave moved q f w = (case map_of (s_players w) q of None \<Rightarrow> (Inr False, w)
     | Some p \<Rightarrow> andthen (setPlayer q (f (samp (env w) (out w)) p)) (andthen (startManualUpdate enter leave moved q) (ret True)) w)"

definition Streamer_Update ::
  "(playerid \<Rightarrow> int \<Rightarrow> ('w, unit) st) \<Rightarrow> (playerid \<Rightarrow> int \<Rightarrow> ('w, unit) st) \<Rightarrow> (int \<Rightarrow> ('w, unit) st) \<Rightarrow> playerid \<Rightarrow> ('w, bool) st" where
  "Streamer_Update enter leave moved q = manualUpdate enter leave moved q (\<lambda>s p.
     p\<lparr>sp_interiorID := q_interior s q, sp_worldID := q_world s q, sp_position := if q_connected s q then q_pos s q else sp_position p\<rparr>)"

definition Streamer_UpdateEx ::
  "(playerid \<Rightarrow> int \<Rightarrow> ('w, unit) st) \<Rightarrow> (playerid \<Rightarrow> int \<Rightarrow> ('w, unit) st) \<Rightarrow> (int \<Rightarrow> ('w, unit) st) \<Rightarrow> playerid
    \<Rightarrow> vec3 \<Rightarrow> cint \<Rightarrow> cint \<Rightarrow> ('w, bool) st" where
  "Streamer_UpdateEx enter leave moved q pos world' int' = manualUpdate enter leave moved q (\<lambda>s p.
     p\<lparr>sp_position := pos, sp_worldID := if 0 \<le> sint world' then world' else q_world s q,
       sp_interiorID := if 0 \<le> sint int' then int' else q_interior s q\<rparr>)"

end
