(* ===== verification/Streamer_Correct.thy ===== *)
theory Streamer_Correct
  imports Streaming
begin

text \<open>
  The tables, the allocators and the grid of the streamer agree: every item is in exactly the cell it
  names, cells hold nothing else, and ids are handed out densely. Proved for every native, for all item types at once, from the
  allocator's contract, and for the update loop from a contract on what its callbacks keep.
\<close>

section \<open>Which items are in which cell\<close>

definition incell :: "'w streamer_scheme \<Rightarrow> kind \<Rightarrow> int \<Rightarrow> cellid option \<Rightarrow> bool" where
  "incell w k i c = (case c of None \<Rightarrow> i \<in> set (s_globalCell w k)
     | Some c \<Rightarrow> (case getCell c w of Some cell \<Rightarrow> i \<in> set (cell k) | None \<Rightarrow> False))"

definition streamer_ok :: "'w streamer_scheme \<Rightarrow> bool" where
  "streamer_ok w \<longleftrightarrow> distinct (map fst (s_cells w))
     \<and> (\<forall>k. distinct (map fst (s_items w k)) \<and> ident_inv (s_ids w k) (fst ` set (s_items w k)))
     \<and> (\<forall>k i c. incell w k i c \<longleftrightarrow> (\<exists>e. map_of (s_items w k) i = Some e \<and> e_cell e = c))"

lemma map_of_update: "map_of (AList.update k v m) = (map_of m)(k \<mapsto> v)"
  by (simp add: update_conv')

lemma map_of_delete: "map_of (AList.delete k m) = (map_of m)(k := None)"
  by (simp add: delete_conv')

lemma set_cell_insert: "x \<in> set (cell_insert k i c k') \<longleftrightarrow> x \<in> set (c k') \<or> (k' = k \<and> x = i)"
  by (auto simp: cell_insert_def)

lemma set_cell_erase: "x \<in> set (cell_erase k i c k') \<longleftrightarrow> x \<in> set (c k') \<and> \<not> (k' = k \<and> x = i)"
  by (auto simp add: cell_erase_def)

lemma cell_empty_iff: "cell_empty c \<longleftrightarrow> (\<forall>k. c k = [])"
proof
  assume "cell_empty c"
  then have "c k = []" for k by (cases k) (simp_all add: cell_empty_def)
  then show "\<forall>k. c k = []" by simp
qed (simp add: cell_empty_def)

lemma getCell_setMember:
  "getCell c (w\<lparr>s_cells := setMember c' cell (s_cells w)\<rparr>) = (if c = c' then Some cell else getCell c w)"
  by (simp add: getCell_def setMember_def map_of_update)

subsection \<open>Adding\<close>

lemma gridAdd_spec:
  assumes "gridAdd k i e w = (r, w')"
  shows "\<exists>c. r = Inr (e\<lparr>e_cell := c\<rparr>) \<and> (\<forall>k' i' c'. incell w' k' i' c' \<longleftrightarrow> incell w k' i' c' \<or> (k' = k \<and> i' = i \<and> c' = c))
    \<and> s_items w' = s_items w \<and> s_ids w' = s_ids w \<and> (distinct (map fst (s_cells w)) \<longrightarrow> distinct (map fst (s_cells w')))"
proof (cases "s_cellDistance w < grid_extent e")
  case True
  with assms show ?thesis
    by (intro exI [of _ None])
      (auto simp: gridAdd_def incell_def set_cell_insert getCell_def split: option.splits)
next
  case False
  let ?c = "cellID_opt w (grid_position (geo (env w)) e)"
  show ?thesis
  proof (cases "getCell ?c w")
    case None
    with assms False have eq: "r = Inr (e\<lparr>e_cell := Some ?c\<rparr>)"
      "w' = w\<lparr>s_cells := setMember ?c (cell_insert k i empty_cell) (s_cells w @ [(?c, empty_cell)])\<rparr>"
      by (auto simp: gridAdd_def seq_def getCellID_def Let_def getCell_def map_of_snoc_fresh map_of_None_iff simp del: map_of_append)
    have cell: "getCell c w' = (if c = ?c then Some (cell_insert k i empty_cell) else getCell c w)" for c
      using None by (simp add: eq getCell_def setMember_def map_of_update map_of_snoc_fresh map_of_None_iff del: map_of_append)
    have "distinct (map fst (s_cells w)) \<Longrightarrow> distinct (map fst (s_cells w'))"
      using None by (simp add: eq setMember_def getCell_def map_of_None_iff)
    with None show ?thesis
      by (intro exI [of _ "Some ?c"])
        (auto simp: eq(1) incell_def cell set_cell_insert empty_cell_def split: option.splits, simp_all add: eq)
  next
    case (Some cell)
    with assms False have eq: "r = Inr (e\<lparr>e_cell := Some ?c\<rparr>)"
      "w' = w\<lparr>s_cells := setMember ?c (cell_insert k i cell) (s_cells w)\<rparr>"
      by (auto simp: gridAdd_def seq_def getCellID_def Let_def)
    have cell: "getCell c w' = (if c = ?c then Some (cell_insert k i cell) else getCell c w)" for c
      by (simp add: eq getCell_setMember)
    have "distinct (map fst (s_cells w)) \<Longrightarrow> distinct (map fst (s_cells w'))"
      by (simp add: eq setMember_def)
    with Some show ?thesis
      by (intro exI [of _ "Some ?c"])
        (auto simp: eq(1) incell_def cell set_cell_insert split: option.splits, simp_all add: eq)
  qed
qed

subsection \<open>Removing\<close>

lemma eraseCellIfEmpty_spec:
  assumes "distinct (map fst (s_cells w))"
  shows "incell (eraseCellIfEmpty c w) k i c' = incell w k i c'"
    and "s_items (eraseCellIfEmpty c w) = s_items w" "s_ids (eraseCellIfEmpty c w) = s_ids w"
    and "distinct (map fst (s_cells (eraseCellIfEmpty c w)))"
proof -
  have "incell (eraseCellIfEmpty c w) k i c' = incell w k i c' \<and> s_items (eraseCellIfEmpty c w) = s_items w
    \<and> s_ids (eraseCellIfEmpty c w) = s_ids w \<and> distinct (map fst (s_cells (eraseCellIfEmpty c w)))"
  proof (cases "\<exists>cell. getCell c w = Some cell \<and> cell_empty cell")
    case True
    then obtain cell where cell: "getCell c w = Some cell" "\<And>k. cell k = []" by (auto simp: cell_empty_iff)
    with True have eq: "eraseCellIfEmpty c w = w\<lparr>s_cells := AList.delete c (s_cells w)\<rparr>"
      by (auto simp: eraseCellIfEmpty_def Remove_def)
    have "getCell c'' (w\<lparr>s_cells := AList.delete c (s_cells w)\<rparr>) = (if c'' = c then None else getCell c'' w)" for c''
      by (simp add: getCell_def map_of_delete)
    with cell assms show ?thesis by (simp add: eq incell_def split: option.split)
  next
    case False
    with assms show ?thesis by (auto simp: eraseCellIfEmpty_def split: option.split)
  qed
  then show "incell (eraseCellIfEmpty c w) k i c' = incell w k i c'"
    and "s_items (eraseCellIfEmpty c w) = s_items w" "s_ids (eraseCellIfEmpty c w) = s_ids w"
    and "distinct (map fst (s_cells (eraseCellIfEmpty c w)))" by blast+
qed

lemma gridFind_spec:
  assumes "incell w k i (e_cell e)" and "distinct (map fst (s_cells w))"
  shows "\<exists>w'. gridFind k i e w = (True, w') \<and> s_items w' = s_items w \<and> s_ids w' = s_ids w
    \<and> distinct (map fst (s_cells w'))
    \<and> (\<forall>k' i' c'. incell w' k' i' c' \<longleftrightarrow> incell w k' i' c' \<and> \<not> (k' = k \<and> i' = i \<and> c' = e_cell e))"
proof (cases "e_cell e")
  case None
  with assms show ?thesis
    by (auto simp: gridFind_def incell_def set_cell_erase getCell_def split: option.splits)
next
  case (Some c)
  with assms obtain cell where cell: "getCell c w = Some cell" "i \<in> set (cell k)"
    by (auto simp: incell_def split: option.splits)
  let ?w = "w\<lparr>s_cells := setMember c (cell_erase k i cell) (s_cells w)\<rparr>"
  have d: "distinct (map fst (s_cells ?w))" using assms(2) by (simp add: setMember_def)
  have "incell ?w k' i' c' \<longleftrightarrow> incell w k' i' c' \<and> \<not> (k' = k \<and> i' = i \<and> c' = Some c)" for k' i' c'
    using cell by (auto simp: incell_def getCell_setMember set_cell_erase split: option.splits)
  with Some cell eraseCellIfEmpty_spec [OF d] show ?thesis
    by (simp add: gridFind_def)
qed

lemma detach_frame [simp]:
  "incell (detach k i e w) k' i' c = incell w k' i' c" "s_items (detach k i e w) = s_items w"
  "s_ids (detach k i e w) = s_ids w" "s_cells (detach k i e w) = s_cells w"
  by (auto simp: detach_def incell_def getCell_def Let_def split: option.splits)

section \<open>The natives keep the tables and the grid consistent\<close>

lemma incell_update [simp]:
  "incell (w\<lparr>s_items := is, s_ids := ids\<rparr>) = incell w" "incell (w\<lparr>s_items := is\<rparr>) = incell w"
  "incell (w\<lparr>s_ids := ids\<rparr>) = incell w" "incell (w\<lparr>out := ns\<rparr>) = incell w" "incell (w\<lparr>s_players := ps\<rparr>) = incell w"
  "incell (w\<lparr>s_internalPickups := ip\<rparr>) = incell w" "incell (w\<lparr>s_attached := att\<rparr>) = incell w"
  by (auto simp: incell_def getCell_def fun_eq_iff split: option.splits)

lemma keys_setItem: "fst ` set (s_items (setItem k i e w) k') = (if k' = k then insert i (fst ` set (s_items w k)) else fst ` set (s_items w k'))"
  by (simp add: setItem_def setMember_def dom_update)

lemma createItem_spec:
  assumes "streamer_ok w" and "createItem k e w = (r, w')" and "s_maxItems w k \<noteq> length (s_items w k)"
  shows "\<exists>i c. r = Inr i \<and> i = (LEAST j. 0 < j \<and> map_of (s_items w k) j = None)
    \<and> map_of (s_items w' k) = (map_of (s_items w k))(i \<mapsto> e\<lparr>e_cell := c\<rparr>) \<and> (\<forall>k'. k' \<noteq> k \<longrightarrow> s_items w' k' = s_items w k')
    \<and> streamer_ok w'"
proof -
  obtain i ids where get: "ident_get (s_ids w k) = (i, ids)" by fastforce
  define w1 where "w1 = w\<lparr>s_ids := (s_ids w)(k := ids)\<rparr>"
  obtain r' w2 where add: "gridAdd k i e w1 = (r', w2)" by fastforce
  from gridAdd_spec [OF this] obtain c where
    r': "r' = Inr (e\<lparr>e_cell := c\<rparr>)" and
    cells: "\<And>k' i' c'. incell w2 k' i' c' \<longleftrightarrow> incell w1 k' i' c' \<or> (k' = k \<and> i' = i \<and> c' = c)" and
    frame: "s_items w2 = s_items w1" "s_ids w2 = s_ids w1" "distinct (map fst (s_cells w1)) \<longrightarrow> distinct (map fst (s_cells w2))"
    by blast
  have w': "r = Inr i" "w' = setItem k i (e\<lparr>e_cell := c\<rparr>) w2"
    using assms(2,3) add r' by (simp_all add: createItem_def get w1_def seq_def andthen_def modify_def ret_def)
  have inv: "ident_inv (s_ids w k) (fst ` set (s_items w k))" using assms(1) by (simp add: streamer_ok_def)
  from ident_get_ok [OF this] get have fresh: "i \<notin> fst ` set (s_items w k)"
    and inv': "ident_inv ids (insert i (fst ` set (s_items w k)))" by simp_all
  have "i = (LEAST j. 0 < j \<and> map_of (s_items w k) j = None)"
    using ident.get_is_least [OF inv] get by (simp add: map_of_None_iff)
  moreover have "streamer_ok w'"
    unfolding streamer_ok_def
  proof (intro conjI allI)
    show "distinct (map fst (s_cells w'))" using assms(1) frame(3) by (simp add: w' setItem_def w1_def streamer_ok_def)
    fix k'
    show "distinct (map fst (s_items w' k'))"
      using assms(1) frame by (simp add: w' setItem_def setMember_def w1_def streamer_ok_def)
    show "ident_inv (s_ids w' k') (fst ` set (s_items w' k'))"
      using assms(1) frame inv' by (simp add: w' keys_setItem w1_def streamer_ok_def) (simp add: setItem_def)
    fix i' c'
    have "incell w k' i' c' \<longleftrightarrow> (\<exists>e. map_of (s_items w k') i' = Some e \<and> e_cell e = c')"
      using assms(1) by (simp add: streamer_ok_def)
    with fresh show "incell w' k' i' c' \<longleftrightarrow> (\<exists>e. map_of (s_items w' k') i' = Some e \<and> e_cell e = c')"
      by (auto simp: w' setItem_def cells w1_def frame setMember_def map_of_update map_of_None_iff [symmetric])
  qed
  ultimately show ?thesis
    using w' frame by (auto simp: setItem_def w1_def setMember_def map_of_update)
qed

text \<open>What the natives do for the players does not touch tables, allocators and grid.\<close>

definition player_only :: "('w streamer_scheme \<Rightarrow> 'w streamer_scheme) \<Rightarrow> bool" where
  "player_only f \<longleftrightarrow> (\<forall>w. incell (f w) = incell w \<and> s_items (f w) = s_items w \<and> s_ids (f w) = s_ids w \<and> s_cells (f w) = s_cells w)"

lemma player_only_forget [simp]: "player_only (forAllPlayers f)" "player_only (forgetPickup i)"
  by (auto simp: player_only_def forAllPlayers_def forgetPickup_def split: option.splits)

lemma destroyItem_spec:
  assumes "streamer_ok w" and "map_of (s_items w k) i = Some e" and f: "player_only f"
  shows "map_of (s_items (destroyItem k f i e w) k) = (map_of (s_items w k))(i := None)
    \<and> (\<forall>k'. k' \<noteq> k \<longrightarrow> s_items (destroyItem k f i e w) k' = s_items w k')
    \<and> streamer_ok (destroyItem k f i e w)"
proof -
  define w1 where "w1 = f (w\<lparr>s_ids := (s_ids w)(k := ident_remove i (length (s_items w k)) (s_ids w k))\<rparr>)"
  have w1: "incell w1 = incell w" "s_items w1 = s_items w" "s_cells w1 = s_cells w"
    "s_ids w1 = (s_ids w)(k := ident_remove i (length (s_items w k)) (s_ids w k))"
    using f by (simp_all add: w1_def player_only_def)
  have keys: "distinct (map fst (s_items w k))" using assms(1) by (simp add: streamer_ok_def)
  have ik: "i \<in> fst ` set (s_items w k)" using assms(2) by (metis map_of_None_iff option.distinct(1))
  have "incell w1 k i (e_cell e)" using assms(1,2) by (simp add: w1 streamer_ok_def)
  from gridFind_spec [OF this] assms(1) obtain w2 where
    find: "gridFind k i e w1 = (True, w2)" and frame: "s_items w2 = s_items w1" "s_ids w2 = s_ids w1" "distinct (map fst (s_cells w2))"
    and cells: "\<And>k' i' c'. incell w2 k' i' c' \<longleftrightarrow> incell w1 k' i' c' \<and> \<not> (k' = k \<and> i' = i \<and> c' = e_cell e)"
    by (auto simp: w1 streamer_ok_def)
  define w' where "w' = destroyItem k f i e w"
  have w': "w' = (detach k i e w2)\<lparr>s_items := (s_items w)(k := AList.delete i (s_items w k))\<rparr>"
    by (simp add: w'_def destroyItem_def w1_def [symmetric] gridRemove_def find frame w1 Remove_def Let_def)
  have card: "length (s_items w k) = card (fst ` set (s_items w k))"
    using keys by (metis distinct_card length_map set_map)
  have "streamer_ok w'"
    unfolding streamer_ok_def
  proof (intro conjI allI)
    show "distinct (map fst (s_cells w'))" using frame(3) by (simp add: w')
    fix k'
    show "distinct (map fst (s_items w' k'))" using assms(1) by (simp add: w' streamer_ok_def)
    have "ident_inv (ident_remove i (length (s_items w k)) (s_ids w k)) (fst ` set (s_items w k) - {i})"
      unfolding card using assms(1) ik by (intro ident_remove_ok) (simp_all add: streamer_ok_def)
    moreover have "fst ` set (AList.delete i (s_items w k)) = fst ` set (s_items w k) - {i}"
      by (metis delete_keys list.set_map set_removeAll)
    ultimately show "ident_inv (s_ids w' k') (fst ` set (s_items w' k'))"
      using assms(1) by (simp add: w' frame w1 streamer_ok_def)
    fix i' c'
    have "incell w k' i' c' \<longleftrightarrow> (\<exists>e. map_of (s_items w k') i' = Some e \<and> e_cell e = c')"
      using assms(1) by (simp add: streamer_ok_def)
    with assms(2) show "incell w' k' i' c' \<longleftrightarrow> (\<exists>e. map_of (s_items w' k') i' = Some e \<and> e_cell e = c')"
      by (auto simp: w' cells w1 map_of_delete)
  qed
  then show ?thesis by (simp add: w'_def [symmetric]) (simp add: w' map_of_delete)
qed

section \<open>Every run of the natives\<close>

lemma createItem_ok: "streamer_ok w \<Longrightarrow> streamer_ok (snd (createItem k e w))"
  using createItem_spec [of w k e "fst (createItem k e w)" "snd (createItem k e w)"]
  by (cases "s_maxItems w k = length (s_items w k)") (auto simp: createItem_def)

lemma streamer_ok_cong:
  "s_cells w' = s_cells w \<Longrightarrow> s_items w' = s_items w \<Longrightarrow> s_ids w' = s_ids w \<Longrightarrow> s_globalCell w' = s_globalCell w
    \<Longrightarrow> streamer_ok w' = streamer_ok w"
  by (simp add: streamer_ok_def incell_def getCell_def cong: option.case_cong)

lemma streamer_ok_frame [simp]:
  "streamer_ok (w\<lparr>s_attached := att\<rparr>) = streamer_ok w" "streamer_ok (w\<lparr>s_players := ps\<rparr>) = streamer_ok w"
  "streamer_ok (w\<lparr>s_maxItems := ms\<rparr>) = streamer_ok w"
  by (rule streamer_ok_cong; simp)+

lemma destroyIfValid_ok:
  "streamer_ok w \<Longrightarrow> (\<And>i e w. d i e w = destroyItem k (f i) i e w) \<Longrightarrow> (\<And>i. player_only (f i)) \<Longrightarrow> streamer_ok (snd (destroyIfValid k d i w))"
  using destroyItem_spec [of w k i _ "f i"] by (auto simp: destroyIfValid_def split: option.split)

lemma text_label_ok: "streamer_ok w \<Longrightarrow> streamer_ok (snd (CreateDynamic3DTextLabel t c p dd q v los wd i' pl d w))"
proof -
  assume ok: "streamer_ok w"
  have "streamer_ok (snd (seq (createItem KTextLabel e) (\<lambda>i. andthen (whenP b
      (modify (\<lambda>w. w\<lparr>s_attached := (s_attached w)(KTextLabel := s_attached w KTextLabel @ [i])\<rparr>))) (ret i)) w))" for e b
    using createItem_ok [OF ok, of KTextLabel e]
    by (auto simp: seq_def andthen_def whenP_def modify_def ret_def split: prod.splits sum.splits)
  then show ?thesis by (simp add: CreateDynamic3DTextLabel_def Let_def)
qed

lemma onPlayer_ok: "streamer_ok w \<Longrightarrow> streamer_ok (snd (onPlayer q f r w))"
  by (auto simp: onPlayer_def Let_def split: option.split prod.split)

section \<open>Putting items into the grid anew\<close>

lemma gridRemove_reassign_spec:
  assumes "incell w k i (e_cell e)" and "distinct (map fst (s_cells w))" and "gridRemove k i e True w = (r, w')"
  shows "\<exists>c. r = Inr (e\<lparr>e_cell := c\<rparr>) \<and> s_items w' = s_items w \<and> s_ids w' = s_ids w \<and> distinct (map fst (s_cells w'))
    \<and> (\<forall>k' i' c'. incell w' k' i' c' \<longleftrightarrow> (incell w k' i' c' \<and> \<not> (k' = k \<and> i' = i \<and> c' = e_cell e)) \<or> (k' = k \<and> i' = i \<and> c' = c))"
proof -
  from gridFind_spec [OF assms(1,2)] obtain w1 where
    f: "gridFind k i e w = (True, w1)" "s_items w1 = s_items w" "s_ids w1 = s_ids w" "distinct (map fst (s_cells w1))"
    and cells: "\<And>k' i' c'. incell w1 k' i' c' \<longleftrightarrow> incell w k' i' c' \<and> \<not> (k' = k \<and> i' = i \<and> c' = e_cell e)" by blast
  have "gridAdd k i e w1 = (r, w')" using assms(3) by (simp add: gridRemove_def f(1))
  from gridAdd_spec [OF this] f cells show ?thesis by auto
qed

text \<open>An item of the table gets other contents and is put into the grid anew.\<close>

lemma setItem_ok:
  assumes "streamer_ok w" and "map_of (s_items w k) i = Some e0" and "e_cell e = e_cell e0"
  shows "streamer_ok (setItem k i e w)"
  unfolding streamer_ok_def
proof (intro conjI allI)
  have i: "i \<in> fst ` set (s_items w k)" using assms(2) by (metis map_of_None_iff option.distinct(1))
  show "distinct (map fst (s_cells (setItem k i e w)))" using assms(1) by (simp add: setItem_def streamer_ok_def)
  fix k'
  show "distinct (map fst (s_items (setItem k i e w) k'))" using assms(1) by (simp add: setItem_def setMember_def streamer_ok_def)
  show "ident_inv (s_ids (setItem k i e w) k') (fst ` set (s_items (setItem k i e w) k'))"
    unfolding keys_setItem using assms(1) i by (simp add: setItem_def streamer_ok_def insert_absorb)
  fix i' c'
  have "incell w k' i' c' \<longleftrightarrow> (\<exists>e. map_of (s_items w k') i' = Some e \<and> e_cell e = c')" using assms(1) by (simp add: streamer_ok_def)
  with assms(2,3) show "incell (setItem k i e w) k' i' c' \<longleftrightarrow> (\<exists>a. map_of (s_items (setItem k i e w) k') i' = Some a \<and> e_cell a = c')"
    by (cases "k' = k \<and> i' = i") (auto simp: setItem_def setMember_def map_of_update)
qed

lemma regrid_ok:
  assumes "streamer_ok w" and "map_of (s_items w k) i = Some e0" and "e_cell e = e_cell e0"
  shows "streamer_ok (snd (regrid k i e w))"
proof -
  obtain r w1 where rem: "gridRemove k i e True w = (r, w1)" by fastforce
  have "incell w k i (e_cell e)" using assms by (simp add: streamer_ok_def)
  moreover have "distinct (map fst (s_cells w))" using assms(1) by (simp add: streamer_ok_def)
  ultimately obtain c where r: "r = Inr (e\<lparr>e_cell := c\<rparr>)" and
    f: "s_items w1 = s_items w" "s_ids w1 = s_ids w" "distinct (map fst (s_cells w1))" and
    cells: "\<And>k' i' c'. incell w1 k' i' c' \<longleftrightarrow> (incell w k' i' c' \<and> \<not> (k' = k \<and> i' = i \<and> c' = e_cell e)) \<or> (k' = k \<and> i' = i \<and> c' = c)"
    using gridRemove_reassign_spec [OF _ _ rem] by blast
  define w' where "w' = setItem k i (e\<lparr>e_cell := c\<rparr>) w1"
  have w': "snd (regrid k i e w) = w'" by (simp add: regrid_def seq_def rem r modify_def w'_def)
  have i: "i \<in> fst ` set (s_items w k)" using assms(2) by (metis map_of_None_iff option.distinct(1))
  have "streamer_ok w'"
    unfolding streamer_ok_def
  proof (intro conjI allI)
    show "distinct (map fst (s_cells w'))" using f by (simp add: w'_def setItem_def)
    fix k'
    show "distinct (map fst (s_items w' k'))" using assms(1) f by (simp add: w'_def setItem_def setMember_def streamer_ok_def)
    show "ident_inv (s_ids w' k') (fst ` set (s_items w' k'))"
      unfolding w'_def keys_setItem using assms(1) i f by (simp add: setItem_def streamer_ok_def insert_absorb)
    fix i' c'
    have "incell w k' i' c' \<longleftrightarrow> (\<exists>e. map_of (s_items w k') i' = Some e \<and> e_cell e = c')" using assms(1) by (simp add: streamer_ok_def)
    with assms(2,3) show "incell w' k' i' c' \<longleftrightarrow> (\<exists>a. map_of (s_items w' k') i' = Some a \<and> e_cell a = c')"
      by (cases "k' = k \<and> i' = i") (auto simp: w'_def setItem_def setMember_def map_of_update cells f)
  qed
  then show ?thesis by (simp add: w')
qed

text \<open>Programs that leave tables, allocators and grid alone.\<close>

definition same_grid :: "'w streamer_scheme \<Rightarrow> 'w streamer_scheme \<Rightarrow> bool" where
  "same_grid w w' \<longleftrightarrow> s_cells w' = s_cells w \<and> s_items w' = s_items w \<and> s_ids w' = s_ids w \<and> s_globalCell w' = s_globalCell w"

lemma same_grid_ok: "same_grid w w' \<Longrightarrow> streamer_ok w' = streamer_ok w"
  by (rule streamer_ok_cong; simp add: same_grid_def)

lemma keeps_ok_modify: "(\<And>w. same_grid w (f w)) \<Longrightarrow> keeps streamer_ok (modify f)"
  unfolding keeps_def modify_def using same_grid_ok by fastforce

text \<open>The grid while it is rebuilt: the items of \<open>D\<close> are in it.\<close>

definition grid_of :: "(kind \<times> int) set \<Rightarrow> 'w streamer_scheme \<Rightarrow> bool" where
  "grid_of D w \<longleftrightarrow> distinct (map fst (s_cells w))
     \<and> (\<forall>k. distinct (map fst (s_items w k)) \<and> ident_inv (s_ids w k) (fst ` set (s_items w k)))
     \<and> (\<forall>k i c. incell w k i c \<longleftrightarrow> (k, i) \<in> D \<and> (\<exists>e. map_of (s_items w k) i = Some e \<and> e_cell e = c))"

lemma grid_of_add:
  assumes "grid_of D w" and "i \<in> fst ` set (s_items w k)" and "(k, i) \<notin> D"
  shows "\<exists>w'. seq (gridAdd k i e) (\<lambda>e. modify (setItem k i e)) w = (Inr (), w') \<and> grid_of (insert (k, i) D) w'
    \<and> (\<forall>k'. fst ` set (s_items w' k') = fst ` set (s_items w k'))"
proof -
  obtain r w1 where add: "gridAdd k i e w = (r, w1)" by fastforce
  from gridAdd_spec [OF add] assms(1) obtain c where r: "r = Inr (e\<lparr>e_cell := c\<rparr>)" and
    cells: "\<And>k' i' c'. incell w1 k' i' c' \<longleftrightarrow> incell w k' i' c' \<or> (k' = k \<and> i' = i \<and> c' = c)" and
    f: "s_items w1 = s_items w" "s_ids w1 = s_ids w" "distinct (map fst (s_cells w1))"
    unfolding grid_of_def by blast
  define w' where "w' = setItem k i (e\<lparr>e_cell := c\<rparr>) w1"
  have keys: "fst ` set (s_items w' k') = fst ` set (s_items w k')" for k'
    unfolding w'_def keys_setItem using assms(2) f by auto
  have "grid_of (insert (k, i) D) w'"
    unfolding grid_of_def keys
  proof (intro conjI allI)
    show "distinct (map fst (s_cells w'))" using f by (simp add: w'_def setItem_def)
    fix k'
    show "distinct (map fst (s_items w' k'))" using assms(1) f by (simp add: w'_def setItem_def setMember_def grid_of_def)
    show "ident_inv (s_ids w' k') (fst ` set (s_items w k'))" using assms(1) f by (simp add: w'_def setItem_def grid_of_def)
    fix i' c'
    have "incell w k' i' c' \<longleftrightarrow> (k', i') \<in> D \<and> (\<exists>e. map_of (s_items w k') i' = Some e \<and> e_cell e = c')"
      using assms(1) by (simp add: grid_of_def)
    with assms(3) show "incell w' k' i' c' \<longleftrightarrow> (k', i') \<in> insert (k, i) D \<and> (\<exists>a. map_of (s_items w' k') i' = Some a \<and> e_cell a = c')"
      by (cases "k' = k \<and> i' = i") (auto simp: w'_def setItem_def setMember_def map_of_update cells f)
  qed
  with keys show ?thesis using add r by (auto simp: seq_def modify_def w'_def)
qed

lemma grid_of_items:
  assumes "grid_of D w" and "distinct (map fst xs)" and "fst ` set xs \<subseteq> fst ` set (s_items w k)" and "\<forall>i \<in> fst ` set xs. (k, i) \<notin> D"
  shows "\<exists>w'. forEach xs (\<lambda>(i, e). seq (gridAdd k i e) (\<lambda>e. modify (setItem k i e))) w = (Inr (), w')
    \<and> grid_of (D \<union> {k} \<times> fst ` set xs) w' \<and> (\<forall>k'. fst ` set (s_items w' k') = fst ` set (s_items w k'))"
  using assms
proof (induction xs arbitrary: D w)
  case Nil
  then show ?case by (simp add: ret_def)
next
  case (Cons x xs)
  obtain i e where x: "x = (i, e)" by fastforce
  from Cons.prems grid_of_add [of D w i k e] obtain w1 where
    w1: "seq (gridAdd k i e) (\<lambda>e. modify (setItem k i e)) w = (Inr (), w1)" "grid_of (insert (k, i) D) w1"
      "\<And>k'. fst ` set (s_items w1 k') = fst ` set (s_items w k')"
    by (auto simp: x)
  from Cons.prems have "distinct (map fst xs)" "fst ` set xs \<subseteq> fst ` set (s_items w1 k)"
    "\<forall>j \<in> fst ` set xs. (k, j) \<notin> insert (k, i) D" by (auto simp: x w1(3) rev_image_eqI)
  from Cons.IH [OF w1(2) this] obtain w2 where
    w2: "forEach xs (\<lambda>(i, e). seq (gridAdd k i e) (\<lambda>e. modify (setItem k i e))) w1 = (Inr (), w2)"
      "grid_of (insert (k, i) D \<union> {k} \<times> fst ` set xs) w2" "\<And>k'. fst ` set (s_items w2 k') = fst ` set (s_items w1 k')"
    by blast
  moreover have "D \<union> {k} \<times> fst ` set (x # xs) = insert (k, i) D \<union> {k} \<times> fst ` set xs" by (auto simp: x)
  ultimately show ?case using w1 by (simp add: x andthen_def seq_def [of "seq _ _"])
qed

lemma grid_of_kinds:
  assumes "grid_of {(k, i). k \<in> K \<and> i \<in> fst ` set (s_items w k)} w" and "distinct ks" and "K \<inter> set ks = {}"
  shows "\<exists>w'. forEach ks (\<lambda>k. seq (gets (\<lambda>w. s_items w k)) (\<lambda>is. forEach is (\<lambda>(i, e).
          seq (gridAdd k i e) (\<lambda>e. modify (setItem k i e))))) w = (Inr (), w')
    \<and> grid_of {(k, i). k \<in> K \<union> set ks \<and> i \<in> fst ` set (s_items w' k)} w'"
  using assms
proof (induction ks arbitrary: K w)
  case Nil
  then show ?case by (simp add: ret_def)
next
  case (Cons k ks)
  let ?D = "{(k, i). k \<in> K \<and> i \<in> fst ` set (s_items w k)}"
  have d: "distinct (map fst (s_items w k))" using Cons.prems(1) by (simp add: grid_of_def)
  from Cons.prems(3) have "\<forall>i \<in> fst ` set (s_items w k). (k, i) \<notin> ?D" by auto
  from grid_of_items [OF Cons.prems(1) d subset_refl this] obtain w1 where
    w1: "forEach (s_items w k) (\<lambda>(i, e). seq (gridAdd k i e) (\<lambda>e. modify (setItem k i e))) w = (Inr (), w1)"
      "grid_of (?D \<union> {k} \<times> fst ` set (s_items w k)) w1" "\<And>k'. fst ` set (s_items w1 k') = fst ` set (s_items w k')"
    by blast
  have "?D \<union> {k} \<times> fst ` set (s_items w k) = {(k', i). k' \<in> insert k K \<and> i \<in> fst ` set (s_items w1 k')}"
    by (auto simp: w1(3))
  with w1(2) have "grid_of {(k', i). k' \<in> insert k K \<and> i \<in> fst ` set (s_items w1 k')} w1" by simp
  moreover have "distinct ks" "insert k K \<inter> set ks = {}" using Cons.prems by auto
  ultimately obtain w2 where "forEach ks (\<lambda>k. seq (gets (\<lambda>w. s_items w k)) (\<lambda>is. forEach is (\<lambda>(i, e).
      seq (gridAdd k i e) (\<lambda>e. modify (setItem k i e))))) w1 = (Inr (), w2)"
      "grid_of {(k', i). k' \<in> insert k K \<union> set ks \<and> i \<in> fst ` set (s_items w2 k')} w2"
    using Cons.IH by blast
  with w1(1) show ?case by (simp add: andthen_def seq_def [of "seq _ _"]) (simp add: seq_def gets_def)
qed

lemma andthen_modify: "andthen (modify f) m w = m (f w)"
  by (simp add: andthen_def seq_def modify_def)

lemma rebuildGrid_ok: "streamer_ok w \<Longrightarrow> streamer_ok (snd (rebuildGrid w))"
proof -
  assume ok: "streamer_ok w"
  let ?w = "w\<lparr>s_cells := [], s_globalCell := empty_cell\<rparr>"
  let ?ks = "[KArea, KCheckpoint, KMapIcon, KObject, KPickup, KRaceCheckpoint, KTextLabel]"
  have "incell ?w k i c = False" for k i c by (simp add: incell_def getCell_def empty_cell_def split: option.split)
  with ok have start: "grid_of {(k, i). k \<in> {} \<and> i \<in> fst ` set (s_items ?w k)} ?w" by (simp add: grid_of_def streamer_ok_def)
  have "distinct ?ks" "{} \<inter> set ?ks = {}" by simp_all
  note grid_of_kinds [OF start this]
  then obtain w' where w': "rebuildGrid w = (Inr (), w')" "grid_of {(k, i). k \<in> {} \<union> set ?ks \<and> i \<in> fst ` set (s_items w' k)} w'"
    unfolding rebuildGrid_def andthen_modify by blast
  have "k \<in> {} \<union> set ?ks" for k by (cases k) simp_all
  with w'(2) have "streamer_ok w'" unfolding grid_of_def streamer_ok_def
    by (metis (mono_tags, lifting) case_prodI map_of_None_iff mem_Collect_eq option.distinct(1))
  with w'(1) show ?thesis by simp
qed

section \<open>Destroying all items of a kind\<close>

lemma getCell_filter_map:
  assumes "distinct (map fst cs)"
  shows "map_of (filter (\<lambda>(c, cell). P cell) (map (\<lambda>(c, cell). (c, g cell)) cs)) c
    = (case map_of cs c of Some cell \<Rightarrow> if P (g cell) then Some (g cell) else None | None \<Rightarrow> None)"
  using assms
proof (induction cs)
  case Nil
  then show ?case by simp
next
  case (Cons x cs)
  obtain c' cell where x: "x = (c', cell)" by fastforce
  show ?case
  proof (cases "c = c'")
    case True
    with Cons.prems have "c \<notin> fst ` set cs" by (simp add: x)
    with Cons True show ?thesis by (simp add: x map_of_None_iff [THEN iffD2])
  next
    case False
    with Cons show ?thesis by (simp add: x)
  qed
qed

lemma eraseAllItems_incell:
  assumes "distinct (map fst (s_cells w))"
  shows "incell (eraseAllItems k w) k' i c \<longleftrightarrow> incell w k' i c \<and> k' \<noteq> k"
    and "distinct (map fst (s_cells (eraseAllItems k w)))"
proof -
  show "incell (eraseAllItems k w) k' i c \<longleftrightarrow> incell w k' i c \<and> k' \<noteq> k"
    unfolding incell_def getCell_def eraseAllItems_def using getCell_filter_map [OF assms, of "\<lambda>c. \<not> cell_empty c" "\<lambda>c. c(k := [])"]
    by (auto simp: cell_empty_iff split: option.splits if_splits)
  have "distinct (map fst (map (\<lambda>(c, cell). (c, cell(k := []))) (s_cells w)))" using assms by (simp add: comp_def case_prod_beta')
  then show "distinct (map fst (s_cells (eraseAllItems k w)))"
    by (simp add: eraseAllItems_def distinct_map_filter del: map_map)
qed

text \<open>The natives that destroy all items differ in what they do to players and lists, which is not seen here.\<close>

lemma destroyAll_ok:
  assumes "streamer_ok w" and "s_cells w2 = s_cells (eraseAllItems k w)" and "s_globalCell w2 = s_globalCell (eraseAllItems k w)"
    and "s_items w2 = s_items w" and "s_ids w2 = s_ids (resetIds k w)"
  shows "streamer_ok (clearItems k w2)"
proof -
  have d: "distinct (map fst (s_cells w))" using assms(1) by (simp add: streamer_ok_def)
  have cong: "incell (clearItems k w2) k' i c = incell (eraseAllItems k w) k' i c" for k' i c
    by (simp add: incell_def getCell_def clearItems_def assms cong: option.case_cong)
  show ?thesis
    unfolding streamer_ok_def cong eraseAllItems_incell [OF d]
  proof (intro conjI allI)
    show "distinct (map fst (s_cells (clearItems k w2)))" using eraseAllItems_incell(2) [OF d] by (simp add: clearItems_def assms(2))
    fix k'
    show "distinct (map fst (s_items (clearItems k w2) k'))" using assms(1) by (simp add: clearItems_def assms(4) streamer_ok_def)
    show "ident_inv (s_ids (clearItems k w2) k') (fst ` set (s_items (clearItems k w2) k'))"
      using assms(1) by (simp add: clearItems_def assms(4,5) resetIds_def streamer_ok_def ident_reset_def ident_inv_def)
    fix i c
    show "incell w k' i c \<and> k' \<noteq> k \<longleftrightarrow> (\<exists>e. map_of (s_items (clearItems k w2) k') i = Some e \<and> e_cell e = c)"
      using assms(1) by (auto simp: clearItems_def assms(4) streamer_ok_def)
  qed
qed

lemma destroy_all_ok:
  assumes "streamer_ok w"
  shows "streamer_ok (snd (DestroyAllDynamicObjects w))" "streamer_ok (snd (DestroyAllDynamicPickups w))"
    "streamer_ok (snd (DestroyAllDynamicCPs w))" "streamer_ok (snd (DestroyAllDynamicRaceCPs w))"
    "streamer_ok (snd (DestroyAllDynamicMapIcons w))" "streamer_ok (snd (DestroyAllDynamic3DTextLabels w))"
    "streamer_ok (snd (DestroyAllDynamicAreas w))"
  unfolding DestroyAllDynamicObjects_def DestroyAllDynamicPickups_def DestroyAllDynamicCPs_def DestroyAllDynamicRaceCPs_def
    DestroyAllDynamicMapIcons_def DestroyAllDynamic3DTextLabels_def DestroyAllDynamicAreas_def modify_def snd_conv
  by (rule destroyAll_ok [OF assms]; simp add: forAllPlayers_def resetIds_def attached_update_def eraseAllItems_def)+

section \<open>The other natives\<close>

lemma seq_gets: "seq (gets g) f w = f (g w) w"
  by (simp add: seq_def gets_def)

lemma andthen_whenP: "andthen (whenP b m) n w = (if b then andthen m n w else n w)"
  by (simp add: andthen_def seq_def whenP_def ret_def)

lemma snd_andthen_ret: "snd (andthen m (ret x) w) = snd (m w)"
  by (simp add: andthen_def seq_def ret_def split: prod.split sum.split)

lemma run_app: "modify f w = (Inr (), f w)" "ret x w = (Inr x, w)" "throw e w = (Inl e, w)" "whenP b m w = (if b then m w else (Inr (), w))"
  by (simp_all add: modify_def ret_def throw_def whenP_def)

lemmas run_simps = andthen_modify seq_gets andthen_whenP snd_andthen_ret run_app

lemma onItem_ok:
  "streamer_ok w \<Longrightarrow> (\<And>e. map_of (s_items w k) i = Some e \<Longrightarrow> streamer_ok (snd (f e w))) \<Longrightarrow> streamer_ok (snd (onItem k i f r w))"
  by (simp add: onItem_def split: option.split)

lemma map_of_setItem: "map_of (s_items (setItem k i e w) k) i = Some e"
  by (simp add: setItem_def setMember_def map_of_update)

lemma same_grid_streamer [simp]:
  "same_grid w (tellViewers s i f w)" "same_grid w (attached_update k g w)" "same_grid w (s_moving_update h w)"
  "same_grid w (w\<lparr>s_players := ps\<rparr>)" "same_grid w (w\<lparr>out := ns\<rparr>)" "same_grid w (w\<lparr>out := ns, s_players := ps\<rparr>)"
  "same_grid w (w\<lparr>out := ns, s_internalPickups := ip\<rparr>)" "same_grid w (w\<lparr>s_internalPickups := ip\<rparr>)"
  "same_grid w (w\<lparr>s_discoveredPickups := dp\<rparr>)" "same_grid w (w\<lparr>s_processingFinalPlayer := b\<rparr>)"
  "same_grid w (w\<lparr>s_processingFinalPlayer := b, s_tickCount := n\<rparr>)" "same_grid w (s_tickCount_update n' w)"
  "same_grid w (s_discoveredPickups_update d w)" "same_grid w (calculateAverageUpdateTime w)"
  by (simp_all add: same_grid_def tellViewers_def attached_update_def calculateAverageUpdateTime_def Let_def)

lemma same_grid_streamer_ok [simp]:
  "streamer_ok (tellViewers s i f w) = streamer_ok w" "streamer_ok (attached_update k g w) = streamer_ok w"
  "streamer_ok (s_moving_update h w) = streamer_ok w"
  "streamer_ok (w\<lparr>out := ns\<rparr>) = streamer_ok w" "streamer_ok (w\<lparr>out := ns, s_players := ps\<rparr>) = streamer_ok w"
  "streamer_ok (w\<lparr>out := ns, s_internalPickups := ip\<rparr>) = streamer_ok w" "streamer_ok (w\<lparr>s_discoveredPickups := dp\<rparr>) = streamer_ok w"
  "s_items (tellViewers s i f w) = s_items w" "s_items (attached_update k g w) = s_items w"
  by (simp_all add: same_grid_ok) (simp_all add: tellViewers_def attached_update_def)

lemma e_cell_set_obj [simp]: "e_cell (set_obj_pos p e) = e_cell e" "e_cell (set_obj_rot p e) = e_cell e"
  by (simp_all add: set_obj_pos_def set_obj_rot_def split: body.split)

lemma andthen_ok: "streamer_ok (snd (m w)) \<Longrightarrow> (\<And>w. streamer_ok w \<Longrightarrow> streamer_ok (snd (n w))) \<Longrightarrow> streamer_ok (snd (andthen m n w))"
  by (auto simp: andthen_def seq_def split: prod.split sum.split)

lemma SetDynamicObjectPos_ok: "streamer_ok w \<Longrightarrow> streamer_ok (snd (SetDynamicObjectPos i p w))"
proof -
  assume ok: "streamer_ok w"
  have last: "streamer_ok (snd (andthen (onItem KObject i (\<lambda>e. case e_move e of None \<Rightarrow> ret ()
       | Some m \<Rightarrow> modify (\<lambda>w. setItem KObject i (e\<lparr>e_move := Some (f e m w)\<rparr>) w)) ()) (ret True) w))" if "streamer_ok w"
    for f :: "element \<Rightarrow> movement \<Rightarrow> 'a streamer_scheme \<Rightarrow> movement" and w :: "'a streamer_scheme"
    unfolding snd_andthen_ret using that by (rule onItem_ok) (auto simp: ret_def modify_def that intro: setItem_ok split: option.split)
  show ?thesis
    unfolding SetDynamicObjectPos_def Let_def using ok
  proof (rule onItem_ok)
    fix e0 assume e0: "map_of (s_items w KObject) i = Some e0"
    let ?w = "tellViewers sp_internalObjects i (\<lambda>q n. [SetPlayerObjectPos q n (fst p) (fst (snd p)) (snd (snd p))])
      (setItem KObject i (set_obj_pos p e0) w)"
    have w1: "streamer_ok ?w" using setItem_ok [OF ok e0] by simp
    have item: "map_of (s_items ?w KObject) i = Some (set_obj_pos p e0)" by (simp add: map_of_setItem)
    show "streamer_ok (snd (andthen (modify (setItem KObject i (set_obj_pos p e0)))
        (andthen (modify (tellViewers sp_internalObjects i (\<lambda>q n. [SetPlayerObjectPos q n (fst p) (fst (snd p)) (snd (snd p))])))
        (andthen (whenP (plane_of (obj_pos e0) \<noteq> plane_of p \<and> e_cell (set_obj_pos p e0) \<noteq> None) (regrid KObject i (set_obj_pos p e0)))
        (andthen (onItem KObject i (\<lambda>e. case e_move e of None \<Rightarrow> ret () | Some m \<Rightarrow> modify (\<lambda>w. setItem KObject i
           (e\<lparr>e_move := Some (movement_from (env w) e (fst (mv_position m)) (fst (mv_rotation m)) (snd (mv_rotation m)) (mv_speed m))\<rparr>) w)) ())
         (ret True)))) w))"
      unfolding andthen_modify andthen_whenP using regrid_ok [OF w1 item] last w1 by (auto intro: andthen_ok)
  qed
qed

lemma simple_natives_ok:
  assumes "streamer_ok w"
  shows "streamer_ok (snd (SetDynamicObjectRot i p w))" "streamer_ok (snd (MoveDynamicObject i p sp r w))"
    "streamer_ok (snd (StopDynamicObject i w))" "streamer_ok (snd (setMaterial i idx m f w))"
    "streamer_ok (snd (UpdateDynamic3DTextLabelText i c t w))" "streamer_ok (snd (onShownObject q i g w))"
    "streamer_ok (snd (onPlayerOut q h x w))"
proof -
  show "streamer_ok (snd (SetDynamicObjectRot i p w))"
    unfolding SetDynamicObjectRot_def using assms
    by (rule onItem_ok) (simp add: run_simps assms setItem_ok [OF assms])
  show "streamer_ok (snd (MoveDynamicObject i p sp r w))"
  proof (cases "sp = 0")
    case False
    then have eq: "MoveDynamicObject i p sp r = onItem KObject i (\<lambda>e.
     if e_attach e \<noteq> None then throw (RuntimeError ''MoveDynamicObject: Object is currently attached and cannot be moved'')
     else seq (gets (\<lambda>w. movement_from (env w) e p r (uninitialised3 (env w), uninitialised3 (env w)) sp)) (\<lambda>m.
       andthen (modify (setItem KObject i (e\<lparr>e_move := Some m\<rparr>)))
      (andthen (modify (tellViewers sp_internalObjects i (\<lambda>q n. [StopPlayerObject q n, move_native q n m])))
      (andthen (modify (s_moving_update (add_id i))) (ret (mv_duration m)))))) 0" by (simp add: MoveDynamicObject_def)
    show ?thesis unfolding eq using assms
      by (rule onItem_ok) (simp add: run_simps assms setItem_ok [OF assms])
  qed (simp add: MoveDynamicObject_def ret_def assms)
  show "streamer_ok (snd (StopDynamicObject i w))"
    unfolding StopDynamicObject_def using assms
    by (rule onItem_ok) (auto simp: run_simps assms intro: setItem_ok)
  show "streamer_ok (snd (setMaterial i idx m f w))"
    unfolding setMaterial_def using assms
    by (rule onItem_ok) (auto simp: run_simps assms intro: setItem_ok)
  show "streamer_ok (snd (UpdateDynamic3DTextLabelText i c t w))"
    unfolding UpdateDynamic3DTextLabelText_def using assms
    by (rule onItem_ok) (auto simp: run_simps assms intro: setItem_ok split: body.split)
  show "streamer_ok (snd (onShownObject q i g w))"
    using assms by (auto simp: onShownObject_def same_grid_ok split: option.split)
  show "streamer_ok (snd (onPlayerOut q h x w))"
    using assms by (auto simp: onPlayerOut_def same_grid_ok Let_def split: option.split prod.split)
qed

lemma attach_ok:
  assumes "streamer_ok w"
  shows "streamer_ok (snd (AttachDynamicObjectToVehicle i v o' r w))" "streamer_ok (snd (attachArea msg i target new part w))"
proof -
  show "streamer_ok (snd (AttachDynamicObjectToVehicle i v o' r w))"
    unfolding AttachDynamicObjectToVehicle_def using assms
  proof (rule onItem_ok)
    fix e assume e: "map_of (s_items w KObject) i = Some e"
    have "streamer_ok (snd (regrid KObject i (e\<lparr>e_attach := None\<rparr>) (attached_update KObject f (tellViewers s j g (setItem KObject i (e\<lparr>e_attach := Some a\<rparr>) w)))))"
      for f s j g a
      by (rule regrid_ok [where ?e0.0 = "e\<lparr>e_attach := Some a\<rparr>"]) (simp_all add: setItem_ok [OF assms e] map_of_setItem)
    moreover have "streamer_ok (setItem KObject i (e\<lparr>e_attach := a\<rparr>) w)" for a by (rule setItem_ok [OF assms e]) simp
    ultimately show "streamer_ok (snd ((if e_move e \<noteq> None
        then throw (RuntimeError ''AttachDynamicObjectToVehicle: Object is currently moving and cannot be attached'')
        else seq (gets (\<lambda>w. (new_attachment (env w) (0, 0, 0) 0 v)\<lparr>at_offset := o', at_rotation := r\<rparr>)) (\<lambda>a.
          andthen (modify (setItem KObject i (e\<lparr>e_attach := Some a\<rparr>)))
         (andthen (modify (tellViewers sp_internalObjects i (\<lambda>q n. [attach_native q n a])))
         (andthen (if v \<noteq> INVALID_GENERIC_ID then modify (attached_update KObject (add_id i))
           else andthen (modify (attached_update KObject (removeAll i))) (regrid KObject i (e\<lparr>e_attach := None\<rparr>)))
          (ret True))))) w))"
      by (simp add: run_simps assms)
  qed
  show "streamer_ok (snd (attachArea msg i target new part w))"
    unfolding attachArea_def using assms
  proof (rule onItem_ok)
    fix e assume e: "map_of (s_items w KArea) i = Some e"
    have "streamer_ok (snd (regrid KArea i (e\<lparr>e_attach := None\<rparr>) (attached_update KArea f w)))" for f
      by (rule regrid_ok [where ?e0.0 = e]) (simp_all add: assms e)
    moreover have "streamer_ok (setItem KArea i (e\<lparr>e_attach := a\<rparr>) w)" for a by (rule setItem_ok [OF assms e]) simp
    ultimately show "streamer_ok (snd ((if \<not> round_area e then throw (RuntimeError msg)
        else andthen (if target \<noteq> INVALID_GENERIC_ID then
            andthen (modify (\<lambda>w. setItem KArea i (e\<lparr>e_attach := Some (new (env w))\<rparr>) w)) (modify (attached_update KArea (add_id i)))
          else (case e_attach e of None \<Rightarrow> ret ()
            | Some a \<Rightarrow> whenP (part a \<noteq> INVALID_GENERIC_ID)
                (andthen (modify (attached_update KArea (removeAll i))) (regrid KArea i (e\<lparr>e_attach := None\<rparr>)))))
          (ret True)) w))"
      by (simp add: run_simps assms split: option.split)
  qed
qed

section \<open>The update loop\<close>

named_theorems loop_intros "parts of the update loop that keep an invariant"

text \<open>Updates of what only concerns players, server ids and clocks.\<close>

definition loop_same :: "'w streamer_scheme \<Rightarrow> 'w streamer_scheme \<Rightarrow> bool" where
  "loop_same w w' \<longleftrightarrow> same_grid w w' \<and> streamer.more w' = streamer.more w"

lemma loop_same_simps [simp]:
  "loop_same w (w\<lparr>s_players := ps\<rparr>)" "loop_same w (w\<lparr>out := ns\<rparr>)" "loop_same w (s_moving_update h w)"
  "loop_same w (w\<lparr>out := ns, s_internalPickups := ip\<rparr>)" "loop_same w (w\<lparr>s_internalPickups := ip\<rparr>)"
  "loop_same w (w\<lparr>s_discoveredPickups := dp\<rparr>)" "loop_same w (w\<lparr>s_processingFinalPlayer := b\<rparr>)"
  "loop_same w (w\<lparr>s_processingFinalPlayer := b, s_tickCount := n\<rparr>)" "loop_same w (s_tickCount_update n' w)"
  "loop_same w (s_discoveredPickups_update d w)" "loop_same w (calculateAverageUpdateTime w)" "loop_same w w"
  by (simp_all add: loop_same_def same_grid_def calculateAverageUpdateTime_def Let_def)

lemma loop_same_keepPickup [simp]: "loop_same w (keepPickup x w)"
  by (simp add: keepPickup_def split: prod.split)

text \<open>What an invariant has to keep so that the update loop keeps it: it may speak about tables, allocators, grid and what
  extends the streamer's state, not about players, server ids and clocks.\<close>

lemma keeps_withPlayer [keeps_intros]: "(\<And>p. keeps P (f p)) \<Longrightarrow> keeps P (withPlayer q f)"
  by (simp add: keeps_def withPlayer_def split: option.split)

lemma keeps_asking: "keeps P (ask f)"
  by (simp add: ask_def keeps_gets)

lemma keeps_cleanVisibleCell [keeps_intros]: "keeps P (cleanVisibleCell vc ds)"
  by (simp add: keeps_def cleanVisibleCell_def)

lemma keeps_collect [keeps_intros]: "(\<And>x. keeps P (f x)) \<Longrightarrow> keeps P (collect_all xs f)"
  by (induction xs) (auto intro: keeps_intros)

lemma pickup_world_cell [simp]: "e_cell (pickup_world p e) = e_cell e"
  by (simp add: pickup_world_def split: body.split)

text \<open>While a player's pickups are collected, the items found keep their place in the table.\<close>

definition tabled :: "('w streamer_scheme \<Rightarrow> bool) \<Rightarrow> found list \<Rightarrow> 'w streamer_scheme \<Rightarrow> bool" where
  "tabled P fs w \<longleftrightarrow> P w \<and> (\<forall>i r e. (i, r, e) \<in> set fs \<longrightarrow> r = Live \<longrightarrow>
     (\<exists>e0. map_of (s_items w KPickup) i = Some e0 \<and> e_cell e0 = e_cell e))"

lemma e_cell_moveStep [simp]: "e_cell (moveStep ev m e) = e_cell e"
  by (simp add: moveStep_def Let_def)

locale loop_invariant =
  fixes P :: "'w streamer_scheme \<Rightarrow> bool"
  assumes same: "loop_same w w' \<Longrightarrow> P w \<Longrightarrow> P w'"
    and set_item: "P w \<Longrightarrow> map_of (s_items w k) i = Some e0 \<Longrightarrow> e_cell e = e_cell e0 \<Longrightarrow> P (setItem k i e w)"
    and regrid: "P w \<Longrightarrow> map_of (s_items w k) i = Some e0 \<Longrightarrow> e_cell e = e_cell e0 \<Longrightarrow> P (snd (regrid k i e w))"
begin

lemma loop_modify: "(\<And>w. loop_same w (f w)) \<Longrightarrow> keeps P (modify f)"
  using same by (auto simp: keeps_def modify_def)

lemma loop_andthen: "P (snd (m w)) \<Longrightarrow> (\<And>w. P w \<Longrightarrow> P (snd (n w))) \<Longrightarrow> P (snd (andthen m n w))"
  by (auto simp: andthen_def seq_def split: prod.split sum.split)

lemma loop_onItem: "P w \<Longrightarrow> (\<And>e. map_of (s_items w k) i = Some e \<Longrightarrow> P (snd (f e w))) \<Longrightarrow> P (snd (onItem k i f r w))"
  by (simp add: onItem_def split: option.split)

lemma keeps_setPlayer [loop_intros]: "keeps P (setPlayer q p)"
  by (simp add: setPlayer_def loop_modify)

lemma keeps_updatePlayer [loop_intros]: "keeps P (updatePlayer q f)"
  by (simp add: updatePlayer_def keeps_withPlayer keeps_setPlayer)

lemma keeps_out [loop_intros]: "keeps P (modify (\<lambda>w. w\<lparr>out := f w\<rparr>))"
  by (simp add: loop_modify)

lemma keeps_showItem [loop_intros]: "keeps P (showItem k q e p)"
  by (simp add: showItem_def Let_def split: prod.split) (intro conjI impI allI loop_intros keeps_intros keeps_asking)

lemma keeps_showItems [loop_intros]: "keeps P (showItems k q xs ex p)"
proof (induction xs arbitrary: ex p)
  case Nil
  then show ?case by (simp add: keeps_ret)
next
  case (Cons x xs)
  then show ?case by (simp only: showItems.simps Let_def) (intro loop_intros keeps_intros)
qed

lemma keeps_processItems [loop_intros]: "keeps P (processItems k q cs)"
  unfolding processItems_def by (intro loop_intros keeps_intros)

lemma keeps_processCPs [loop_intros]: "keeps P (processCPs k q cs)"
  unfolding processCPs_def Let_def by (intro loop_intros keeps_intros)

lemma keeps_processAreas [loop_intros]:
  "(\<And>q i. keeps P (enter q i)) \<Longrightarrow> (\<And>q i. keeps P (leave q i)) \<Longrightarrow> keeps P (processAreas enter leave q cs)"
  unfolding processAreas_def by (intro loop_intros keeps_intros)

lemma tabled_entries: "P w \<Longrightarrow> tabled P (cell_entries KPickup cs w) w"
  by (auto simp: tabled_def cell_entries_def item_of_def List.map_filter_def split: visref.splits if_splits)

lemma discoverPickup_tabled: "tabled P fs w \<Longrightarrow> f \<in> set fs \<Longrightarrow> tabled P fs (discoverPickup p f w)"
proof -
  assume t: "tabled P fs w" and f: "f \<in> set fs"
  obtain i r e where ire: "f = (i, r, e)" by (cases f)
  have item: "tabled P fs (setItem KPickup i e' w)" if "r = Live" and e': "e_cell e' = e_cell e" for e'
  proof -
    from t f that obtain e0 where e0: "map_of (s_items w KPickup) i = Some e0" "e_cell e0 = e_cell e"
      by (auto simp: tabled_def ire)
    then have "P (setItem KPickup i e' w)" using t e' set_item [OF _ e0(1)] by (simp add: tabled_def)
    with t e0 e' show ?thesis by (force simp: tabled_def setItem_def setMember_def map_of_update)
  qed
  have disc: "tabled P fs w \<Longrightarrow> tabled P fs (w\<lparr>s_discoveredPickups := d\<rparr>)" for d w
    using same [of w "w\<lparr>s_discoveredPickups := d\<rparr>"] by (simp add: tabled_def)
  show ?thesis using t item by (auto simp: discoverPickup_def ire Let_def intro!: disc)
qed

lemma discoverPickups_ok: "tabled P fs w \<Longrightarrow> set gs \<subseteq> set fs \<Longrightarrow> tabled P fs (snd (forEach gs (\<lambda>f. modify (discoverPickup p f)) w))"
  by (induction gs arbitrary: w) (simp_all add: run_simps discoverPickup_tabled)

lemma keeps_createPickups [loop_intros]: "keeps P (createPickups xs)"
proof (induction xs)
  case Nil
  then show ?case by (simp add: keeps_ret)
next
  case (Cons x xs)
  then show ?case by (simp only: createPickups.simps) (intro loop_intros keeps_intros keeps_asking loop_modify; simp)
qed

lemma keeps_settlePickups [loop_intros]: "keeps P settlePickups"
  unfolding settlePickups_def
  by (intro loop_intros keeps_intros loop_modify) (simp_all)

lemma collectPickups_ok:
  assumes "P w"
  shows "P (snd (andthen (forEach (cell_entries KPickup cs w) (\<lambda>f. modify (discoverPickup p f)))
       (seq (gets s_processingFinalPlayer) (\<lambda>final. whenP final settlePickups)) w))"
proof (rule loop_andthen)
  show "P (snd (forEach (cell_entries KPickup cs w) (\<lambda>f. modify (discoverPickup p f)) w))"
    using discoverPickups_ok [OF tabled_entries [OF assms] subset_refl] by (simp add: tabled_def)
qed (simp add: run_simps keepsD [OF keeps_settlePickups])

lemma keeps_processPickups [loop_intros]: "keeps P (processPickups q cs)"
  unfolding processPickups_def by (intro keeps_withPlayer keepsI) (simp only: seq_gets collectPickups_ok)

lemma keeps_moveObject [loop_intros]: "keeps P (moveObject i)"
proof (rule keepsI)
  fix w assume ok: "P w"
  show "P (snd (moveObject i w))"
    unfolding moveObject_def using ok
  proof (rule loop_onItem)
    fix e assume e: "map_of (s_items w KObject) i = Some e"
    show "P (snd ((case e_move e of None \<Rightarrow> ret []
     | Some m \<Rightarrow> seq (gets (\<lambda>w. moveStep (env w) m e)) (\<lambda>e.
         andthen (modify (setItem KObject i e)) (andthen (whenP (e_cell e \<noteq> None) (regrid KObject i e))
           (if e_move e = None then andthen (modify (s_moving_update (removeAll i))) (ret [i]) else ret [])))) w))"
    proof (cases "e_move e")
      case (Some m)
      let ?e = "moveStep (env w) m e"
      have w1: "P (setItem KObject i ?e w)" by (rule set_item [OF ok e]) simp
      have "P (snd (regrid KObject i ?e (setItem KObject i ?e w)))" by (rule regrid [OF w1 map_of_setItem]) simp
      with w1 Some show ?thesis by (auto simp: run_simps intro!: loop_andthen same [OF loop_same_simps(3)])
    qed (simp add: ret_def ok)
  qed
qed

lemma keeps_followItem [loop_intros]: "keeps P (followItem k place i)"
proof (rule keepsI)
  fix w assume ok: "P w"
  show "P (snd (followItem k place i w))"
    unfolding followItem_def using ok
  proof (rule loop_onItem)
    fix e assume e: "map_of (s_items w k) i = Some e"
    have w1: "P (setItem k i (e\<lparr>e_attach := a\<rparr>) w)" for a by (rule set_item [OF ok e]) simp
    have "P (snd (regrid k i (e\<lparr>e_attach := a\<rparr>) (setItem k i (e\<lparr>e_attach := a\<rparr>) w)))" for a
      by (rule regrid [OF w1 map_of_setItem]) simp
    with w1 ok show "P (snd ((case e_attach e of None \<Rightarrow> ret ()
       | Some a \<Rightarrow> seq (gets (place a)) (\<lambda>pos. let e = e\<lparr>e_attach := Some (a\<lparr>at_position := pos\<rparr>)\<rparr> in
           andthen (modify (setItem k i e)) (whenP (pos \<noteq> None \<and> e_cell e \<noteq> None) (regrid k i e)))) w))"
      by (simp add: run_simps Let_def split: option.split)
  qed
qed

lemma keeps_processActiveItems [loop_intros]:
  "(\<And>i. keeps P (moved i)) \<Longrightarrow> keeps P (processActiveItems moved)"
  unfolding processActiveItems_def processMovingObjects_def processAttachedAreas_def processAttachedObjects_def
    processAttachedTextLabels_def processAttached_def
  by (intro loop_intros keeps_intros)

lemma keeps_findAllCells [loop_intros]: "keeps P (findAllCells q)" "keeps P (findMinimalCells q)"
  unfolding findAllCells_def findMinimalCells_def by (intro loop_intros keeps_intros)+

text \<open>The callbacks of the game mode, with what they have to keep.\<close>

lemma keeps_performPlayerUpdate [loop_intros]:
  assumes "\<And>q i. keeps P (enter q i)" and "\<And>q i. keeps P (leave q i)"
  shows "keeps P (performPlayerUpdate enter leave q automatic)"
  unfolding performPlayerUpdate_def streamAround_def unlessEmpty_def processObjects_def processCheckpoints_def
    processRaceCheckpoints_def processMapIcons_def processTextLabels_def
  by (intro loop_intros keeps_intros assms)

lemma keeps_startAutomaticUpdate:
  assumes "\<And>q i. keeps P (enter q i)" and "\<And>q i. keeps P (leave q i)" and "\<And>i. keeps P (moved i)"
  shows "keeps P (startAutomaticUpdate enter leave moved)"
  unfolding startAutomaticUpdate_def by (intro loop_intros keeps_intros assms loop_modify; simp)

lemma keeps_manualUpdate:
  assumes "\<And>q i. keeps P (enter q i)" and "\<And>q i. keeps P (leave q i)" and "\<And>i. keeps P (moved i)"
  shows "keeps P (manualUpdate enter leave moved q f)"
proof -
  have "keeps P (andthen (setPlayer q p) (andthen (startManualUpdate enter leave moved q) (ret True)))" for p
    unfolding startManualUpdate_def by (intro loop_intros keeps_intros assms)
  then show ?thesis by (simp add: manualUpdate_def keeps_def split: option.split)
qed

end

interpretation grid: loop_invariant streamer_ok
  by unfold_locales (auto simp: loop_same_def setItem_ok regrid_ok dest: same_grid_ok)

section \<open>All calls\<close>

text \<open>The members of the streamer: what only its own functions change.\<close>

definition streamer_part :: "'w streamer_scheme \<Rightarrow> _" where
  "streamer_part w = (s_ids w, s_items w, s_players w, s_cells w, s_globalCell w, s_attached w, s_moving w, s_internalPickups w,
     s_discoveredPickups w)"

text \<open>One call of a native or an event. During an update the callbacks make calls of their own.\<close>

inductive streamer_step :: "'w streamer_scheme \<Rightarrow> 'w streamer_scheme \<Rightarrow> bool" where
  "streamer_step w (snd (CreateDynamicObject model p r world int' player d w))"
| "streamer_step w (snd (CreateDynamicPickup model t p world int' player d w))"
| "streamer_step w (snd (CreateDynamicCP p size' world int' player d w))"
| "streamer_step w (snd (CreateDynamicRaceCP t p next' size' world int' player d w))"
| "streamer_step w (snd (CreateDynamicMapIcon p t color world int' player d w))"
| "streamer_step w (snd (CreateDynamic3DTextLabel text color p dd player' vehicle los world int' player d w))"
| "streamer_step w (snd (CreateDynamicCircle c2 size' world int' player w))"
| "streamer_step w (snd (CreateDynamicRectangle lo2 hi2 world int' player w))"
| "streamer_step w (snd (CreateDynamicSphere p size' world int' player w))"
| "streamer_step w (snd (CreateDynamicCube lo hi world int' player w))"
| "streamer_step w (snd (DestroyDynamicObject i w))"
| "streamer_step w (snd (DestroyDynamicPickup i w))"
| "streamer_step w (snd (DestroyDynamicCP i w))"
| "streamer_step w (snd (DestroyDynamicRaceCP i w))"
| "streamer_step w (snd (DestroyDynamicMapIcon i w))"
| "streamer_step w (snd (DestroyDynamic3DTextLabel i w))"
| "streamer_step w (snd (DestroyDynamicArea i w))"
| "streamer_step w (snd (setMaxItems ty v w))"
| "streamer_step w (snd (TogglePlayerDynamicArea q i toggle w))"
| "streamer_step w (snd (TogglePlayerAllDynamicAreas q toggle w))"
| "streamer_step w (snd (OnPlayerEnterCheckpoint q w))"
| "streamer_step w (snd (OnPlayerLeaveCheckpoint q w))"
| "streamer_step w (snd (OnPlayerEnterRaceCheckpoint q w))"
| "streamer_step w (snd (OnPlayerLeaveRaceCheckpoint q w))"
| "streamer_step w (snd (Streamer_OnPlayerConnect q w))"
| "streamer_step w (snd (Streamer_OnPlayerDisconnect q reason w))"
| "streamer_step w (snd (Streamer_SetTickRate rate w))"
| "streamer_step w (snd (Streamer_SetMaxItems ty items w))"
| "streamer_step w (snd (Streamer_SetVisibleItems ty items w))"
| "streamer_step w (snd (Streamer_SetCellDistance d w))"
| "streamer_step w (snd (Streamer_SetCellSize d w))"
| "streamer_step w (snd (ToggleIdleUpdate q i w))"
| "streamer_step w (snd (SetDynamicObjectPos i p w))"
| "streamer_step w (snd (SetDynamicObjectRot i p w))"
| "streamer_step w (snd (MoveDynamicObject i p d r w))"
| "streamer_step w (snd (StopDynamicObject i w))"
| "streamer_step w (snd (AttachCameraToDynamicObject q i w))"
| "streamer_step w (snd (AttachDynamicObjectToVehicle i v p r w))"
| "streamer_step w (snd (EditDynamicObject q i w))"
| "streamer_step w (snd (SetDynamicObjectMaterial i index m w))"
| "streamer_step w (snd (SetDynamicObjectMaterialText i index mt w))"
| "streamer_step w (snd (UpdateDynamic3DTextLabelText i color text w))"
| "streamer_step w (snd (TogglePlayerDynamicCP q i toggle w))"
| "streamer_step w (snd (TogglePlayerAllDynamicCPs q toggle w))"
| "streamer_step w (snd (TogglePlayerDynamicRaceCP q i toggle w))"
| "streamer_step w (snd (TogglePlayerAllDynamicRaceCPs q toggle w))"
| "streamer_step w (snd (AttachDynamicAreaToObject i i' ty q w))"
| "streamer_step w (snd (AttachDynamicAreaToPlayer i q w))"
| "streamer_step w (snd (AttachDynamicAreaToVehicle i v w))"
| "streamer_step w (snd (DestroyAllDynamicObjects w))"
| "streamer_step w (snd (DestroyAllDynamicPickups w))"
| "streamer_step w (snd (DestroyAllDynamicCPs w))"
| "streamer_step w (snd (DestroyAllDynamicRaceCPs w))"
| "streamer_step w (snd (DestroyAllDynamicMapIcons w))"
| "streamer_step w (snd (DestroyAllDynamic3DTextLabels w))"
| "streamer_step w (snd (DestroyAllDynamicAreas w))"
| elsewhere: "streamer_part w' = streamer_part w \<Longrightarrow> streamer_step w w'"
| active: "(\<And>i w. streamer_step\<^sup>*\<^sup>* w (snd (moved i w))) \<Longrightarrow> streamer_step w (snd (Streamer_ProcessActiveItems moved w))"
| tick: "(\<And>q i w. streamer_step\<^sup>*\<^sup>* w (snd (enter q i w))) \<Longrightarrow> (\<And>q i w. streamer_step\<^sup>*\<^sup>* w (snd (leave q i w)))
    \<Longrightarrow> (\<And>i w. streamer_step\<^sup>*\<^sup>* w (snd (moved i w))) \<Longrightarrow> streamer_step w (snd (Streamer_ProcessTick enter leave moved w))"
| update: "(\<And>q i w. streamer_step\<^sup>*\<^sup>* w (snd (enter q i w))) \<Longrightarrow> (\<And>q i w. streamer_step\<^sup>*\<^sup>* w (snd (leave q i w)))
    \<Longrightarrow> (\<And>i w. streamer_step\<^sup>*\<^sup>* w (snd (moved i w))) \<Longrightarrow> streamer_step w (snd (Streamer_Update enter leave moved q w))"
| updateEx: "(\<And>q i w. streamer_step\<^sup>*\<^sup>* w (snd (enter q i w))) \<Longrightarrow> (\<And>q i w. streamer_step\<^sup>*\<^sup>* w (snd (leave q i w)))
    \<Longrightarrow> (\<And>i w. streamer_step\<^sup>*\<^sup>* w (snd (moved i w))) \<Longrightarrow> streamer_step w (snd (Streamer_UpdateEx enter leave moved q p wd' in' w))"

definition streamer_start :: "'w streamer_scheme \<Rightarrow> bool" where
  "streamer_start w \<longleftrightarrow> (\<forall>k. s_items w k = [] \<and> s_ids w k = ident_new) \<and> s_cells w = [] \<and> s_globalCell w = empty_cell"

lemmas create_natives = CreateDynamicObject_def CreateDynamicPickup_def CreateDynamicCP_def CreateDynamicRaceCP_def
  CreateDynamicMapIcon_def CreateDynamicCircle_def CreateDynamicRectangle_def CreateDynamicSphere_def CreateDynamicCube_def

lemma destroy_natives_ok:
  assumes "streamer_ok w"
  shows "streamer_ok (snd (DestroyDynamicObject i w))" "streamer_ok (snd (DestroyDynamicPickup i w))"
    "streamer_ok (snd (DestroyDynamicCP i w))" "streamer_ok (snd (DestroyDynamicRaceCP i w))"
    "streamer_ok (snd (DestroyDynamicMapIcon i w))" "streamer_ok (snd (DestroyDynamic3DTextLabel i w))"
    "streamer_ok (snd (DestroyDynamicArea i w))"
  unfolding DestroyDynamicObject_def DestroyDynamicPickup_def DestroyDynamicCP_def DestroyDynamicRaceCP_def
    DestroyDynamicMapIcon_def DestroyDynamic3DTextLabel_def DestroyDynamicArea_def
  by (rule destroyIfValid_ok [OF assms]; (rule fun_cong [OF fun_cong], rule destroyObject_def destroyPickup_def destroyCheckpoint_def
    destroyRaceCheckpoint_def destroyMapIcon_def destroyTextLabel_def destroyArea_def | rule player_only_forget))+

lemma run_keeps: "(\<lambda>x y. streamer_step x y \<and> (streamer_ok x \<longrightarrow> streamer_ok y))\<^sup>*\<^sup>* x y \<Longrightarrow> streamer_ok x \<Longrightarrow> streamer_ok y"
  by (induction rule: rtranclp_induct) auto

lemma runs_keep:
  "(\<And>w. (\<lambda>x y. streamer_step x y \<and> (streamer_ok x \<longrightarrow> streamer_ok y))\<^sup>*\<^sup>* w (snd (m w))) \<Longrightarrow> keeps streamer_ok m"
  unfolding keeps_def by (blast intro: run_keeps)

lemma settings_ok:
  assumes "streamer_ok w"
  shows "streamer_ok (snd (setMaxItems ty v w))" "streamer_ok (snd (setTickRate v w))" "streamer_ok (snd (setVisibleItems ty v w))"
    "streamer_ok (snd (Streamer_SetCellDistance d w))" "streamer_ok (snd (Streamer_SetCellSize d w))"
proof -
  have cells: "streamer_ok (w\<lparr>s_cellDistance := x\<rparr>)" "streamer_ok (w\<lparr>s_cellSize := x\<rparr>)" for x
    using assms streamer_ok_cong [of "w\<lparr>s_cellDistance := x\<rparr>" w] streamer_ok_cong [of "w\<lparr>s_cellSize := x\<rparr>" w] by simp_all
  show "streamer_ok (snd (Streamer_SetCellDistance d w))" "streamer_ok (snd (Streamer_SetCellSize d w))"
    by (simp_all add: Streamer_SetCellDistance_def Streamer_SetCellSize_def run_simps rebuildGrid_ok cells)
  have "streamer_ok (w\<lparr>s_tickRate := v\<rparr>)" "streamer_ok (w\<lparr>s_visible := f\<rparr>)" for f
    using assms streamer_ok_cong [of "w\<lparr>s_tickRate := v\<rparr>" w] streamer_ok_cong [of "w\<lparr>s_visible := f\<rparr>" w] by simp_all
  with assms show "streamer_ok (snd (setMaxItems ty v w))" "streamer_ok (snd (setTickRate v w))" "streamer_ok (snd (setVisibleItems ty v w))"
    by (simp_all add: setMaxItems_def setTickRate_def setVisibleItems_def split: option.split)
qed

lemmas step_natives = create_natives TogglePlayerDynamicArea_def TogglePlayerAllDynamicAreas_def OnPlayerEnterCheckpoint_def
  OnPlayerLeaveCheckpoint_def OnPlayerEnterRaceCheckpoint_def OnPlayerLeaveRaceCheckpoint_def Streamer_OnPlayerConnect_def
  Streamer_OnPlayerDisconnect_def Streamer_SetTickRate_def Streamer_SetMaxItems_def Streamer_SetVisibleItems_def ToggleIdleUpdate_def
  AttachCameraToDynamicObject_def EditDynamicObject_def SetDynamicObjectMaterial_def SetDynamicObjectMaterialText_def
  TogglePlayerDynamicCP_def TogglePlayerAllDynamicCPs_def TogglePlayerDynamicRaceCP_def TogglePlayerAllDynamicRaceCPs_def
  AttachDynamicAreaToObject_def AttachDynamicAreaToPlayer_def AttachDynamicAreaToVehicle_def Let_def

lemmas step_oks = createItem_ok text_label_ok destroy_natives_ok onPlayer_ok settings_ok simple_natives_ok SetDynamicObjectPos_ok attach_ok
  destroy_all_ok

lemma streamer_step_ok: "streamer_step w w' \<Longrightarrow> streamer_ok w \<Longrightarrow> streamer_ok w'"
proof (induction rule: streamer_step.induct)
  case (elsewhere w' w)
  then show ?case using streamer_ok_cong [of w' w] by (simp add: streamer_part_def)
next
  case (active moved w)
  have "keeps streamer_ok (processActiveItems moved)" by (intro grid.keeps_processActiveItems runs_keep active(1))
  with active(2) show ?case by (simp add: Streamer_ProcessActiveItems_def keeps_def)
next
  case (tick enter leave moved w)
  have "keeps streamer_ok (startAutomaticUpdate enter leave moved)" by (intro grid.keeps_startAutomaticUpdate runs_keep tick(1-3))
  with tick(4) show ?case by (simp add: Streamer_ProcessTick_def keeps_def)
next
  case (update enter leave moved w q)
  have "keeps streamer_ok (manualUpdate enter leave moved q f)" for f by (intro grid.keeps_manualUpdate runs_keep update(1-3))
  with update(4) show ?case by (simp add: Streamer_Update_def keeps_def)
next
  case (updateEx enter leave moved w q p wd' in')
  have "keeps streamer_ok (manualUpdate enter leave moved q f)" for f by (intro grid.keeps_manualUpdate runs_keep updateEx(1-3))
  with updateEx(4) show ?case by (simp add: Streamer_UpdateEx_def keeps_def)
qed (simp_all add: step_natives step_oks)

lemma streamer_start_ok: "streamer_start w \<Longrightarrow> streamer_ok w"
  by (simp add: streamer_start_def streamer_ok_def incell_def getCell_def empty_cell_def ident.inv_start split: option.split)

lemma streamer_run_ok: "streamer_step\<^sup>*\<^sup>* w w' \<Longrightarrow> streamer_start w \<Longrightarrow> streamer_ok w'"
  by (induction rule: rtranclp_induct) (auto intro: streamer_start_ok streamer_step_ok)

section \<open>Properties\<close>

lemma streamer_init_start: "streamer_start (streamer_init h)"
  by (simp add: streamer_start_def streamer_init_def streamer.defs host.defs)

text \<open>C5. After any sequence of calls of the natives and events, and of updates whose callbacks call natives in turn, item ids are
  unique for each kind, every item
  is in exactly the grid cell it names (the global one when it names none) and no cell holds anything else,
  so the grid never loses an item and never keeps a destroyed one; and the next id given out is the least free one.\<close>

theorem streamer_consistent:
  assumes "streamer_step\<^sup>*\<^sup>* (streamer_init h) w"
  shows "distinct (map fst (s_items w k))
    \<and> (incell w k i c \<longleftrightarrow> (\<exists>e. map_of (s_items w k) i = Some e \<and> e_cell e = c))
    \<and> fst (ident_get (s_ids w k)) = (LEAST j. 0 < j \<and> j \<notin> fst ` set (s_items w k))"
proof -
  have ok: "streamer_ok w" using assms streamer_init_start by (rule streamer_run_ok)
  then have "ident_inv (s_ids w k) (fst ` set (s_items w k))" by (simp add: streamer_ok_def)
  from ident.get_is_least [OF this] ok show ?thesis by (simp add: streamer_ok_def)
qed

theorem streamer_consistent_witness:
  "let w = snd (CreateDynamicPickup 1240 1 (10, 10, 3) (-1) (-1) (-1) 100 (streamer_init demo_host))
   in distinct (map fst (s_items w KPickup)) \<and> fst (ident_get (s_ids w KPickup)) = (LEAST j. 0 < j \<and> j \<notin> fst ` set (s_items w KPickup))"
proof -
  let ?w = "snd (CreateDynamicPickup 1240 1 (10, 10, 3) (-1) (-1) (-1) 100 (streamer_init demo_host))"
  have "streamer_step\<^sup>*\<^sup>* (streamer_init demo_host) ?w"
    by (rule r_into_rtranclp) (rule streamer_step.intros(2))
  from streamer_consistent [OF this, of KPickup] show ?thesis by (simp add: Let_def)
qed

text \<open>Below the limit a new pickup gets the least free id, no other item changes, and destroying it
  restores the table; the streamer stays consistent throughout.\<close>

theorem pickup_create_destroy:
  assumes "streamer_ok w" and "s_maxItems w KPickup \<noteq> length (s_items w KPickup)"
    and "CreateDynamicPickup model t p wd int' player d w = (r, w1)"
  shows "\<exists>i. r = Inr i \<and> map_of (s_items w KPickup) i = None \<and> isValid KPickup i w1 \<and> streamer_ok w1
    \<and> fst (DestroyDynamicPickup i w1) = Inr True \<and> streamer_ok (snd (DestroyDynamicPickup i w1))
    \<and> map_of (s_items (snd (DestroyDynamicPickup i w1)) k) = map_of (s_items w k)"
proof -
  obtain i e where r: "r = Inr i" and i: "i = (LEAST j. 0 < j \<and> map_of (s_items w KPickup) j = None)"
    and items: "map_of (s_items w1 KPickup) = (map_of (s_items w KPickup))(i \<mapsto> e)"
      "\<And>k'. k' \<noteq> KPickup \<Longrightarrow> s_items w1 k' = s_items w k'"
    and ok: "streamer_ok w1"
    using createItem_spec [OF assms(1), of KPickup _ r w1] assms(2,3)
    unfolding CreateDynamicPickup_def by blast
  have "ident_inv (s_ids w KPickup) (fst ` set (s_items w KPickup))" using assms(1) by (simp add: streamer_ok_def)
  from ident_get_ok [OF this] ident.get_is_least [OF this] i have fresh: "map_of (s_items w KPickup) i = None"
    by (simp add: map_of_None_iff)
  have destroy: "DestroyDynamicPickup i w1 = (Inr True, destroyItem KPickup (forgetPickup i) i e w1)"
    using items(1) by (simp add: DestroyDynamicPickup_def destroyIfValid_def destroyPickup_def)
  have "map_of (s_items (destroyItem KPickup (forgetPickup i) i e w1) k) = map_of (s_items w k)"
    using destroyItem_spec [OF ok, of KPickup i e "forgetPickup i"] items fresh by (cases "k = KPickup") auto
  moreover have "streamer_ok (destroyItem KPickup (forgetPickup i) i e w1)"
    using destroyItem_spec [OF ok, of KPickup i e "forgetPickup i"] items by simp
  ultimately show ?thesis using r ok fresh items(1) by (simp add: destroy isValid_def IsExist_def)
qed

theorem pickup_create_destroy_witness:
  "\<exists>i w1. CreateDynamicPickup 1240 1 (10, 10, 3) (-1) (-1) (-1) 100 (streamer_init demo_host) = (Inr i, w1)
     \<and> isValid KPickup i w1"
proof -
  let ?c = "CreateDynamicPickup 1240 1 (10, 10, 3) (-1) (-1) (-1) 100 (streamer_init demo_host)"
  have "s_maxItems (streamer_init demo_host) KPickup \<noteq> length (s_items (streamer_init demo_host) KPickup)"
    by (simp add: streamer_init_def streamer.defs host.defs)
  from pickup_create_destroy [OF streamer_start_ok [OF streamer_init_start] this, of 1240 1 "(10, 10, 3)" "-1" "-1" "-1" 100 "fst ?c" "snd ?c"]
  show ?thesis by (metis prod.collapse)
qed

text \<open>Who may see a new item: for the players 0 to 499, everybody unless a valid player was named, in every
  interior and world unless one (not negative) was named.\<close>

theorem new_item_audience:
  "checkPlayer (e_players (new_element b s d wd int' pl)) (nat q mod 500) (e_interiors (new_element b s d wd int' pl)) i
     (e_worlds (new_element b s d wd int' pl)) v
   = ((if 0 \<le> pl \<and> pl < 500 then nat q mod 500 = nat pl else True) \<and> (if 0 \<le> int' then i = int' else True)
      \<and> (if 0 \<le> wd then v = wd else True))"
  by (auto simp: checkPlayer_def new_element_def addToContainer_def addToBitset_def bit_simps)

end
