(* ===== verification/Sha256_Correct.thy ===== *)
theory Sha256_Correct
  imports Sha256
begin

text \<open>
  A reference SHA-256 after FIPS 180-4 (padding to a multiple of 64 bytes, big-endian words,
  schedule by recursion, rounds on eight variables), and the proof that the code computes it.
\<close>

unbundle bit_operations_syntax

section \<open>The reference\<close>

text \<open>A number in base 16 without leading zeros.\<close>

fun hex_digits :: "nat \<Rightarrow> string" where
  "hex_digits n = (if n = 0 then [] else hex_digits (n div 16) @ [digit_chars ! (n mod 16)])"

declare hex_digits.simps [simp del]

definition be_word :: "bytes \<Rightarrow> uint32" where
  "be_word bs = foldl (\<lambda>w b. push_bit 8 w OR ucast b) 0 bs"

function chunks :: "nat \<Rightarrow> 'a list \<Rightarrow> 'a list list" where
  "chunks n xs = (if xs = [] \<or> n = 0 then [] else take n xs # chunks n (drop n xs))"
  by pat_completeness auto
termination
  by (relation "measure (\<lambda>(n, xs). length xs)") auto

declare chunks.simps [simp del]

definition ref_words :: "bytes \<Rightarrow> uint32 list" where
  "ref_words bs = map be_word (chunks 4 bs)"

definition ref_pad :: "bytes \<Rightarrow> bytes" where
  "ref_pad msg = msg @ [0x80] @ replicate ((119 - length msg mod 64) mod 64) 0
     @ map (\<lambda>i. ucast (drop_bit (8 * (7 - i)) (of_nat (8 * length msg) :: 64 word))) [0..<8]"

fun ref_W :: "uint32 list \<Rightarrow> nat \<Rightarrow> uint32" where
  "ref_W M t = (if t < 16 then M ! t
     else sigma1 (ref_W M (t - 2)) + ref_W M (t - 7) + sigma0 (ref_W M (t - 15)) + ref_W M (t - 16))"

declare ref_W.simps [simp del]

type_synonym vars = "uint32 \<times> uint32 \<times> uint32 \<times> uint32 \<times> uint32 \<times> uint32 \<times> uint32 \<times> uint32"

definition ref_round :: "(nat \<Rightarrow> uint32) \<Rightarrow> nat \<Rightarrow> vars \<Rightarrow> vars" where
  "ref_round W t = (\<lambda>(a, b, c, d, e, f, g, h).
     let t1 = h + (word_rotr 6 e XOR word_rotr 11 e XOR word_rotr 25 e) + ((e AND f) XOR (NOT e AND g))
              + sha_K ! t + W t;
         t2 = (word_rotr 2 a XOR word_rotr 13 a XOR word_rotr 22 a) + ((a AND b) XOR (a AND c) XOR (b AND c))
     in (t1 + t2, a, b, c, d + t1, e, f, g))"

definition ref_block :: "uint32 list \<Rightarrow> vars \<Rightarrow> vars" where
  "ref_block M = (\<lambda>(a0, b0, c0, d0, e0, f0, g0, h0).
     case fold (ref_round (ref_W M)) [0..<64] (a0, b0, c0, d0, e0, f0, g0, h0) of
       (a, b, c, d, e, f, g, h) \<Rightarrow>
         (a + a0, b + b0, c + c0, d + d0, e + e0, f + f0, g + g0, h + h0))"

definition ref_H0 :: vars where
  "ref_H0 = (0x6a09e667, 0xbb67ae85, 0x3c6ef372, 0xa54ff53a, 0x510e527f, 0x9b05688c, 0x1f83d9ab, 0x5be0cd19)"

definition list_of_vars :: "vars \<Rightarrow> uint32 list" where
  "list_of_vars = (\<lambda>(a, b, c, d, e, f, g, h). [a, b, c, d, e, f, g, h])"

definition ref_sha256 :: "bytes \<Rightarrow> uint32 list" where
  "ref_sha256 msg = list_of_vars (fold ref_block (map ref_words (chunks 64 (ref_pad msg))) ref_H0)"

section \<open>Printing\<close>

lemma fromDecimal_loop_hex: "fromDecimal_loop n 16 acc = Some (hex_digits n @ acc)"
proof (induction n arbitrary: acc rule: less_induct)
  case (less n)
  show ?case
  proof (cases "n = 0")
    case True
    then show ?thesis by (simp add: fromDecimal_loop.simps [of 0] hex_digits.simps [of 0])
  next
    case False
    then have "n div 16 < n" by simp
    from less.IH [OF this] False show ?thesis
      by (simp add: fromDecimal_loop.simps [of n] hex_digits.simps [of n] digit_chars_def)
  qed
qed

lemma fromDecimal_hex: "fromDecimal w 16 = Some (hex_digits (unat w))"
  by (simp add: fromDecimal_def fromDecimal_loop_hex)

lemma print_hash_hex: "print_hash hs = Some (concat (map (\<lambda>h. hex_digits (unat h)) hs))"
  by (induction hs) (simp_all add: fromDecimal_hex)

section \<open>Bit operations\<close>

lemma mask_32 [simp]: "x AND 0xFFFFFFFF = (x :: 32 word)"
proof -
  have "(0xFFFFFFFF :: 32 word) = -1" by simp
  then show ?thesis by (simp only: and.right_neutral)
qed

lemma rotr_rotates: "0 < n \<Longrightarrow> n < 32 \<Longrightarrow> rotr x n = word_rotr n x"
proof (rule bit_word_eqI)
  fix k assume n: "0 < n" "n < 32" and "k < LENGTH(32)"
  then have k: "k < 32" by simp
  show "bit (rotr x n) k = bit (word_rotr n x) k"
  proof (cases "n + k < 32")
    case True
    with n k show ?thesis
      by (auto simp: rotr_def shr_def bit_simps add.commute)
  next
    case False
    with n k have "(k + n) mod 32 = k - (32 - n)" by (simp add: mod_if)
    moreover have "\<not> bit x (n + k)" using False by (auto dest: bit_imp_le_length)
    ultimately show ?thesis using False n k
      by (auto simp: rotr_def shr_def bit_simps)
  qed
qed

lemma bit_small: "m < 2 ^ w \<Longrightarrow> bit (m :: nat) i \<Longrightarrow> i < w"
  by (metis bit_take_bit_iff take_bit_nat_eq_self_iff)

lemma byte_of_number:
  assumes "m < 2 ^ 32"
  shows "memory_byte (of_nat m) j = ucast (drop_bit (8 * j) (of_nat m :: 64 word))"
  by (intro bit_word_eqI) (fastforce simp: memory_byte_def bit_simps dest: bit_small [OF assms])

lemma mynum_ref:
  assumes "m < 2 ^ 32"
  shows "mynum (of_nat m) = map (\<lambda>i. ucast (drop_bit (8 * (7 - i)) (of_nat m :: 64 word))) [0..<8]"
proof -
  have "drop_bit k (of_nat m :: 64 word) = 0" if "32 \<le> k" for k
    using bit_small [OF assms] that by (intro bit_word_eqI) (fastforce simp: bit_simps)
  moreover have "replicate 4 (0 :: 8 word) = [0, 0, 0, 0]" by (simp add: eval_nat_numeral)
  ultimately show ?thesis
    using assms by (simp add: mynum_def upt_rec byte_of_number)
qed

section \<open>Padding\<close>

lemma unat_small: "m < 2 ^ 32 \<Longrightarrow> unat (of_nat m :: uint32) = m"
  by (simp add: unsigned_of_nat take_bit_nat_eq_self_iff)

lemma of_nat_2p32: "(of_nat (2 ^ 32 + a) :: uint32) = of_nat a"
proof -
  have "(of_nat (2 ^ 32) :: uint32) = 2 ^ LENGTH(32)" by (simp only: of_nat_power of_nat_numeral) simp
  then have "(of_nat (2 ^ 32) :: uint32) = 0" by (simp only: word_pow_0)
  then show ?thesis by (simp only: of_nat_add add_0)
qed

lemma lens_of_nat:
  assumes "n < 2 ^ 28"
  shows "reqd_len n = of_nat (512 * (n div 64 + 1))" and "cur_len n = of_nat (8 * n + 8)"
proof -
  have "unat ((of_nat (8 * n) :: uint32) div of_nat 512) = 8 * n div 512"
    using assms by (simp add: unat_div_distrib unat_small del: of_nat_mult)
  also have "\<dots> = n div 64" using div_mult_mult1 [of 8 n 64] by simp
  finally have "unat ((of_nat (8 * n) :: uint32) div of_nat 512) = unat (of_nat (n div 64) :: uint32)"
    using assms by (simp add: unat_small)
  then have "(of_nat (8 * n) :: uint32) div of_nat 512 = of_nat (n div 64)"
    by (rule unsigned_word_eqI)
  then have "(of_nat n * 8 :: uint32) div 512 = of_nat (n div 64)"
    by (simp add: mult.commute)
  then show "reqd_len n = of_nat (512 * (n div 64 + 1))"
    by (simp add: reqd_len_def algebra_simps)
  show "cur_len n = of_nat (8 * n + 8)"
    by (simp add: cur_len_def algebra_simps)
qed

lemma pad_len_short:
  assumes "n < 2 ^ 28" and "n mod 64 < 56"
  shows "unat (pad_len n div 8) = 55 - n mod 64"
proof -
  define q r where "q = n div 64" and "r = n mod 64"
  have n: "n = 64 * q + r" and r: "r < 56" using assms(2) by (simp_all add: q_def r_def)
  have "pad_len n = of_nat (512 * (q + 1) - (8 * n + 8) - 64)"
    using lens_of_nat [OF assms(1)] r by (simp add: pad_len_def q_def [symmetric] n of_nat_diff)
  also have "512 * (q + 1) - (8 * n + 8) - 64 = 8 * (55 - r)" using r by (simp add: n)
  finally have "unat (pad_len n div 8) = 55 - r"
    using r by (simp add: unat_div_distrib unat_small del: of_nat_mult)
  then show ?thesis by (simp add: r_def)
qed

lemma pad_len_wraps:
  assumes "n < 2 ^ 28" and "56 \<le> n mod 64"
  shows "unat (pad_len n div 8) = 2 ^ 29 - (n mod 64 - 55)"
proof -
  define q r where "q = n div 64" and "r = n mod 64"
  have n: "n = 64 * q + r" and r: "56 \<le> r" "r < 64" using assms(2) by (simp_all add: q_def r_def)
  have "pad_len n = of_nat (2 ^ 32 + 512 * (q + 1)) - of_nat (8 * n + 8) - of_nat 64"
    unfolding of_nat_2p32 using lens_of_nat [OF assms(1)] by (simp add: pad_len_def q_def [symmetric])
  also have "\<dots> = of_nat (2 ^ 32 + 512 * (q + 1) - (8 * n + 8) - 64)"
    using r by (simp add: n of_nat_diff)
  also have "2 ^ 32 + 512 * (q + 1) - (8 * n + 8) - 64 = 8 * (2 ^ 29 - (r - 55))" using r by (simp add: n)
  finally have "unat (pad_len n div 8) = 2 ^ 29 - (r - 55)"
    using r by (simp add: unat_div_distrib unat_small del: of_nat_mult of_nat_diff)
  then show ?thesis by (simp add: r_def)
qed

lemma padded_ref: "length msg < 2 ^ 28 \<Longrightarrow> length msg mod 64 < 56 \<Longrightarrow> padded msg = ref_pad msg"
proof -
  assume len: "length msg < 2 ^ 28" "length msg mod 64 < 56"
  have "mynum (of_nat (length msg) * 8)
      = map (\<lambda>i. ucast (drop_bit (8 * (7 - i)) (of_nat (8 * length msg) :: 64 word))) [0..<8]"
    using mynum_ref [of "8 * length msg"] len(1) by (simp add: mult.commute)
  moreover have "(119 - m) mod 64 = 55 - m" if "m < 56" for m :: nat
  proof -
    have "119 - m = 64 + (55 - m)" using that by simp
    then show ?thesis by (simp only: mod_add_self1) simp
  qed
  then have "(119 - length msg mod 64) mod 64 = 55 - length msg mod 64" using len(2) by blast
  ultimately show ?thesis
    unfolding padded_def ref_pad_def pad_len_short [OF len] by (simp only:)
qed

lemma length_mynum [simp]: "length (mynum x) = 8"
  by (simp add: mynum_def)

lemma length_padded: "length (padded msg) = length msg + 9 + unat (pad_len (length msg) div 8)"
  by (simp add: padded_def)

lemma length_padded_short:
  "length msg < 2 ^ 28 \<Longrightarrow> length msg mod 64 < 56 \<Longrightarrow> length (padded msg) = 64 * (length msg div 64 + 1)"
proof -
  assume len: "length msg < 2 ^ 28" "length msg mod 64 < 56"
  have "L + 9 + (55 - m) = 64 * (d + 1)" if "L = 64 * d + m" "m < 56" for L d m :: nat
    using that by arith
  from this [of "length msg" "length msg div 64" "length msg mod 64"] len
  show ?thesis by (simp add: length_padded pad_len_short)
qed

lemma length_padded_wraps:
  "length msg < 2 ^ 28 \<Longrightarrow> 56 \<le> length msg mod 64 \<Longrightarrow> length (padded msg) = 2 ^ 29 + 64 * (length msg div 64 + 1)"
proof -
  assume len: "length msg < 2 ^ 28" "56 \<le> length msg mod 64"
  have "L + 9 + (k - (m - 55)) = k + 64 * (d + 1)"
    if "L = 64 * d + m" "56 \<le> m" "m < 64" "9 \<le> k" for L d m k :: nat
    using that by arith
  from this [of "length msg" "length msg div 64" "length msg mod 64" "2 ^ 29"] len
  show ?thesis by (simp add: length_padded pad_len_wraps)
qed

lemma num_blk_small: "n < 2 ^ 29 \<Longrightarrow> num_blk n = n div 64"
proof -
  assume n: "n < 2 ^ 29"
  have "unat ((of_nat (8 * n) :: uint32) div of_nat 512) = 8 * n div 512"
    using n by (simp add: unat_div_distrib unat_small del: of_nat_mult)
  also have "\<dots> = n div 64" using div_mult_mult1 [of 8 n 64] by simp
  finally show ?thesis by (simp add: num_blk_def mult.commute)
qed

lemma num_blk_wraps: "num_blk (2 ^ 29 + n) = num_blk n"
proof -
  have "(of_nat (2 ^ 29 + n) * 8 :: uint32) = of_nat ((2 ^ 29 + n) * 8)"
    by (simp only: of_nat_mult of_nat_numeral)
  also have "(2 ^ 29 + n) * 8 = 2 ^ 32 + n * 8" by simp
  also have "(of_nat (2 ^ 32 + n * 8) :: uint32) = of_nat n * 8"
    by (simp only: of_nat_2p32 of_nat_mult of_nat_numeral)
  finally show ?thesis by (simp only: num_blk_def)
qed

section \<open>Blocks\<close>

lemma chunks_Nil [simp]: "chunks n [] = []"
  by (simp add: chunks.simps)

lemma chunks_step: "xs \<noteq> [] \<Longrightarrow> 0 < n \<Longrightarrow> chunks n xs = take n xs # chunks n (drop n xs)"
  by (subst chunks.simps) simp

lemma ref_words_Nil [simp]: "ref_words [] = []"
  by (simp add: ref_words_def)

lemma ref_words_4 [simp]: "ref_words (a # b # c # d # cs) = be_word [a, b, c, d] # ref_words cs"
  by (simp add: ref_words_def chunks_step)

lemma four_Cons:
  assumes "length cs = 4 * Suc m"
  obtains a b c d cs' where "cs = a # b # c # d # cs'" and "length cs' = 4 * m"
proof -
  have "length cs = Suc (Suc (Suc (Suc (4 * m))))" using assms by simp
  then show thesis using that by (auto simp: length_Suc_conv)
qed

lemma length_ref_words: "length cs = 4 * m \<Longrightarrow> length (ref_words cs) = m"
proof (induction m arbitrary: cs)
  case 0
  then show ?case by simp
next
  case (Suc m)
  from Suc.prems obtain a b c d cs' where "cs = a # b # c # d # cs'" "length cs' = 4 * m"
    by (rule four_Cons)
  with Suc.IH show ?case by simp
qed

lemma makeblock_loop_4:
  "ind < length out \<Longrightarrow>
   makeblock_loop out 0 ind (4 * j) (a # b # c # d # cs) =
   makeblock_loop (out[ind := be_word [a, b, c, d]]) 0 (Suc ind) (4 * Suc j) cs"
proof -
  have "4 * Suc j = Suc (Suc (Suc (Suc (4 * j))))" by simp
  moreover assume "ind < length out"
  ultimately show ?thesis
    by (simp only: makeblock_loop.simps Let_def be_word_def foldl_Cons foldl_Nil) (simp add: mod_Suc)
qed

lemma makeblock_loop_words:
  "length cs = 4 * m \<Longrightarrow> ind + m \<le> length out \<Longrightarrow>
   makeblock_loop out 0 ind (4 * j) cs = take ind out @ ref_words cs @ drop (ind + m) out"
proof (induction m arbitrary: out ind j cs)
  case 0
  then show ?case by simp
next
  case (Suc m)
  from Suc.prems(1) obtain a b c d cs' where cs: "cs = a # b # c # d # cs'" "length cs' = 4 * m"
    by (rule four_Cons)
  let ?out = "out[ind := be_word [a, b, c, d]]"
  have "makeblock_loop out 0 ind (4 * j) cs = makeblock_loop ?out 0 (Suc ind) (4 * Suc j) cs'"
    unfolding cs(1) using Suc.prems by (intro makeblock_loop_4) simp
  also have "\<dots> = take (Suc ind) ?out @ ref_words cs' @ drop (Suc ind + m) ?out"
    using Suc.prems by (intro Suc.IH) (simp_all add: cs)
  finally show ?case
    using Suc.prems by (simp add: cs take_Suc_conv_app_nth)
qed

lemma makeblock_words:
  "length cs = 64 \<Longrightarrow> length out = 16 \<Longrightarrow> makeblock out cs = ref_words cs"
  using makeblock_loop_words [of cs 16 0 out 0] by (simp add: makeblock_def)

lemma split_loop_words:
  "length msg = 64 * n \<Longrightarrow> k + n = length blks \<Longrightarrow> \<forall>b \<in> set blks. length b = 16 \<Longrightarrow>
   split_loop blks k msg = Some (take k blks @ map ref_words (chunks 64 msg))"
proof (induction n arbitrary: blks k msg)
  case 0
  then show ?case by simp
next
  case (Suc n)
  then obtain c cs where msg: "msg = c # cs" by (cases msg) auto
  have len: "length (take 64 msg) = 64" "length (drop 64 msg) = 64 * n" using Suc.prems(1) by simp_all
  have k: "k < length blks" using Suc.prems(2) by simp
  let ?blk = "makeblock (blks ! k) (take 64 msg)"
  have blk: "?blk = ref_words (take 64 msg)"
    using len(1) Suc.prems(3) k by (intro makeblock_words) simp_all
  then have "length ?blk = 16" using len(1) length_ref_words [of _ 16] by simp
  then have "\<forall>b \<in> set (blks[k := ?blk]). length b = 16"
    using Suc.prems(3) set_update_subset_insert by fastforce
  then have "split_loop (blks[k := ?blk]) (Suc k) (drop 64 msg)
      = Some (take (Suc k) (blks[k := ?blk]) @ map ref_words (chunks 64 (drop 64 msg)))"
    using Suc.prems(2) len(2) by (intro Suc.IH) simp_all
  moreover have "split_loop blks k msg = split_loop (blks[k := ?blk]) (Suc k) (drop 64 msg)"
    using k unfolding msg by simp
  moreover have "chunks 64 msg = take 64 msg # chunks 64 (drop 64 msg)"
    by (rule chunks_step) (simp_all add: msg)
  ultimately show ?case
    using k by (simp add: blk take_Suc_conv_app_nth)
qed

lemma split_loop_overrun:
  "64 * (length blks - k) < length msg \<Longrightarrow> k \<le> length blks \<Longrightarrow> split_loop blks k msg = None"
proof (induction blks k msg rule: split_loop.induct)
  case (1 blks k)
  then show ?case by simp
next
  case (2 blks k c cs)
  show ?case
  proof (cases "k < length blks")
    case True
    with 2 show ?thesis by (simp del: drop_Cons) 
  next
    case False
    then show ?thesis by simp
  qed
qed

section \<open>Schedule and rounds\<close>

lemma fold_update_copy:
  assumes "n \<le> length W"
  shows "fold (\<lambda>t W. W[t := f t]) [0..<n] W = map f [0..<n] @ drop n W"
  using assms
proof (induction n)
  case 0
  then show ?case by simp
next
  case (Suc n)
  then have "(map f [0..<n] @ drop n W)[n := f n] = map f [0..<Suc n] @ drop (Suc n) W"
    by (simp add: list_update_append Cons_nth_drop_Suc [symmetric])
  with Suc show ?case by simp
qed

definition sched_step :: "nat \<Rightarrow> uint32 list \<Rightarrow> uint32 list" where
  "sched_step t W = W[t := sigma1 (W ! (t - 2)) + W ! (t - 7) + sigma0 (W ! (t - 15)) + W ! (t - 16)]"

lemma sched_step_ref:
  assumes "16 \<le> n" and "n < 64"
  shows "sched_step n (map (ref_W M) [0..<n] @ replicate (64 - n) 0)
     = map (ref_W M) [0..<Suc n] @ replicate (64 - Suc n) 0"
proof -
  let ?W = "map (ref_W M) [0..<n] @ replicate (64 - n) 0"
  have "?W ! (n - k) = ref_W M (n - k)" if "0 < k" "k \<le> 16" for k
    using that assms by (simp add: nth_append)
  moreover have "ref_W M n = sigma1 (ref_W M (n - 2)) + ref_W M (n - 7) + sigma0 (ref_W M (n - 15)) + ref_W M (n - 16)"
    using assms by (subst ref_W.simps) simp
  moreover have "replicate (64 - n) (0 :: uint32) = 0 # replicate (64 - Suc n) 0"
    using assms(2) by (simp add: Suc_diff_Suc [symmetric] del: replicate_Suc) (simp add: Suc_diff_Suc replicate_Suc [symmetric] del: replicate_Suc)
  ultimately show ?thesis
    by (simp add: sched_step_def list_update_append)
qed

lemma fold_sched_ref:
  assumes "16 \<le> n" and "n \<le> 64"
  shows "fold sched_step [16..<n] (map (ref_W M) [0..<16] @ replicate 48 0)
     = map (ref_W M) [0..<n] @ replicate (64 - n) 0"
  using assms
proof (induction n rule: nat_induct_at_least)
  case base
  then show ?case by simp
next
  case (Suc n)
  then show ?case using sched_step_ref [of n M] by simp
qed

lemma ref_W_start: "t < 16 \<Longrightarrow> ref_W M t = M ! t"
  by (subst ref_W.simps) simp

lemma schedule_ref: "schedule M = map (ref_W M) [0..<64]"
proof -
  have "fold (\<lambda>t W. W[t := M ! t]) [0..<16] (replicate 64 0)
      = map (\<lambda>t. M ! t) [0..<16] @ drop 16 (replicate 64 0)"
    by (rule fold_update_copy) simp
  also have "map (\<lambda>t. M ! t) [0..<16] = map (ref_W M) [0..<16]"
    by (rule map_cong [OF refl]) (simp only: set_upt atLeastLessThan_iff ref_W_start)
  also have "drop 16 (replicate 64 (0 :: uint32)) = replicate 48 0"
    by (simp only: drop_replicate) simp
  finally have "schedule M = fold sched_step [16..<64] (map (ref_W M) [0..<16] @ replicate 48 0)"
    unfolding schedule_def sched_step_def [abs_def] by (simp only:)
  also have "\<dots> = map (ref_W M) [0..<64] @ replicate (64 - 64) 0"
    by (rule fold_sched_ref) simp_all
  finally show ?thesis by (simp only: diff_self_eq_0 replicate_0 append_Nil2)
qed

lemma sha_round_ref:
  assumes "W ! t = w t"
  shows "sha_round W t (list_of_vars v) = list_of_vars (ref_round w t v)"
proof -
  obtain a b c d e f g h where "v = (a, b, c, d, e, f, g, h)" by (metis surj_pair)
  then show ?thesis using assms by (simp add: sha_round_def ref_round_def list_of_vars_def Let_def fn0_def fn1_def
      ch_def maj_def rotr_rotates and.commute xor.commute xor.left_commute add_ac)
qed

lemma fold_round_ref:
  "\<forall>t \<in> set ts. W ! t = w t \<Longrightarrow> fold (sha_round W) ts (list_of_vars v) = list_of_vars (fold (ref_round w) ts v)"
  by (induction ts arbitrary: v) (simp_all add: sha_round_ref)

lemma sha_block_ref: "sha_block M (list_of_vars v) = list_of_vars (ref_block M v)"
proof -
  have "fold (sha_round (schedule M)) [0..<64] (list_of_vars v)
      = list_of_vars (fold (ref_round (ref_W M)) [0..<64] v)"
    by (rule fold_round_ref) (simp add: schedule_ref)
  then show ?thesis
    by (simp add: sha_block_def ref_block_def list_of_vars_def split: prod.split)
qed

lemma fold_block_ref: "fold sha_block Ms (list_of_vars v) = list_of_vars (fold ref_block Ms v)"
  by (induction Ms arbitrary: v) (simp_all add: sha_block_ref)

section \<open>The whole hash\<close>

lemma splitblocks_padded:
  assumes "length msg < 2 ^ 28" and "length msg mod 64 < 56"
  shows "splitblocks (replicate (num_blk (length (padded msg))) (replicate 16 0)) (padded msg)
     = Some (map ref_words (chunks 64 (ref_pad msg)))"
proof -
  let ?n = "length msg div 64 + 1"
  have len: "length (padded msg) = 64 * ?n" using assms by (rule length_padded_short)
  have "64 * ?n < 2 ^ 29" using assms(1) by simp
  then have "num_blk (length (padded msg)) = ?n" unfolding len by (simp add: num_blk_small)
  then show ?thesis
    using len split_loop_words [of "padded msg" ?n 0 "replicate ?n (replicate 16 0)"]
    by (simp add: splitblocks_def padded_ref [OF assms])
qed

lemma sha256_computes:
  assumes "length msg < 2 ^ 28" and "length msg mod 64 < 56"
  shows "sha256 msg = Some (concat (map (\<lambda>h. hex_digits (unat h)) (ref_sha256 msg)))"
proof -
  have "list_of_vars ref_H0 = sha_H0" by (simp add: list_of_vars_def ref_H0_def sha_H0_def)
  then show ?thesis
    using fold_block_ref [of "map ref_words (chunks 64 (ref_pad msg))" ref_H0]
    by (simp add: sha256_def Let_def splitblocks_padded [OF assms] print_hash_hex ref_sha256_def)
qed

lemma sha256_overruns:
  assumes "length msg < 2 ^ 28" and "56 \<le> length msg mod 64"
  shows "num_blk (length (padded msg)) < length (padded msg) div 64" and "sha256 msg = None"
proof -
  let ?n = "length msg div 64 + 1"
  have len: "length (padded msg) = 2 ^ 29 + 64 * ?n" using assms by (rule length_padded_wraps)
  have small: "64 * ?n < 2 ^ 29" using assms(1) by simp
  then have blk: "num_blk (length (padded msg)) = ?n"
    unfolding len num_blk_wraps by (simp add: num_blk_small)
  then show "num_blk (length (padded msg)) < length (padded msg) div 64"
    unfolding len by simp
  have "split_loop (replicate ?n (replicate 16 0)) 0 (padded msg) = None"
    by (rule split_loop_overrun) (simp_all add: len)
  with blk show "sha256 msg = None" by (simp add: sha256_def splitblocks_def)
qed

text \<open>C15. The password hash computes SHA-256: on every message shorter than 256 MB whose length is
  below 56 modulo 64, \<^verbatim>\<open>sha256\<close> returns the eight words of the reference hash, each printed in
  base 16 (upper case, without leading zeros) and concatenated.\<close>

theorem sha256_is_SHA256:
  assumes "length msg < 2 ^ 28" and "length msg mod 64 < 56"
  shows "sha256 msg = Some (concat (map (\<lambda>h. hex_digits (unat h)) (ref_sha256 msg)))"
  using assms by (rule sha256_computes)

text \<open>C36. For the remaining lengths the padding length wraps around modulo \<open>2^32\<close>, the padded message
  has over half a gigabyte but the number of blocks is computed from its bit length modulo
  \<open>2^32\<close>, and \<^verbatim>\<open>split\<close> writes past the vector of blocks: no digest is returned.\<close>

theorem sha256_overruns_blocks:
  assumes "length msg < 2 ^ 28" and "56 \<le> length msg mod 64"
  shows "num_blk (length (padded msg)) < length (padded msg) div 64 \<and> sha256 msg = None"
  using sha256_overruns [OF assms] by simp

theorem sha256_overruns_blocks_witness:
  "length (replicate 56 (0 :: 8 word)) < 2 ^ 28 \<and> 56 \<le> length (replicate 56 (0 :: 8 word)) mod 64
   \<and> sha256 (replicate 56 0) = None"
  using sha256_overruns_blocks [of "replicate 56 0"] by simp

text \<open>The known answer of FIPS 180-4 for the message ``abc'', computed by the code's own schedule and rounds, sixteen at a time.\<close>

definition abc_block :: "uint32 list" where
  "abc_block = [0x61626380, 0, 0, 0, 0, 0, 0, 0, 0, 0, 0, 0, 0, 0, 0, 0x18]"

definition abc_schedule :: "uint32 list" where
  "abc_schedule =
    [0x61626380, 0, 0, 0, 0, 0, 0, 0,
     0, 0, 0, 0, 0, 0, 0, 0x18,
     0x61626380, 0xf0000, 0x7da86405, 0x600003c6, 0x3e9d7b78, 0x183fc00, 0x12dcbfdb, 0xe2e2c38e,
     0xc8215c1a, 0xb73679a2, 0xe5bc3909, 0x32663c5b, 0x9d209d67, 0xec8726cb, 0x702138a4, 0xd3b7973b,
     0x93f5997f, 0x3b68ba73, 0xaff4ffc1, 0xf10a5c62, 0xa8b3996, 0x72af830a, 0x9409e33e, 0x24641522,
     0x9f47bf94, 0xf0a64f5a, 0x3e246a79, 0x27333ba3, 0xc4763f2, 0x840abf27, 0x7a290d5d, 0x65c43da,
     0xfb3e89cb, 0xcc7617db, 0xb9e66c34, 0xa9993667, 0x84badedd, 0xc21462bc, 0x1487472c, 0xb20f7a99,
     0xef57b9cd, 0xebe6b238, 0x9fe3095e, 0x78bc8d4b, 0xa43fcf15, 0x668b2ff8, 0xeeaba2cc, 0x12b1edeb]"

lemma abc_schedule: "schedule abc_block = abc_schedule"
  by code_simp

lemma abc_rounds_1: "fold (sha_round abc_schedule) [0..<16] sha_H0
    = [0xb0fa238e, 0xc0645fde, 0xd932eb16, 0x87912990, 0x7590dcd, 0xb92f20c, 0x745a48de, 0x1e578218]"
  by code_simp

lemma abc_rounds_2: "fold (sha_round abc_schedule) [16..<32] [0xb0fa238e, 0xc0645fde, 0xd932eb16, 0x87912990, 0x7590dcd, 0xb92f20c, 0x745a48de, 0x1e578218]
    = [0x73b33bf5, 0xea992a22, 0xa0060b30, 0x363482c9, 0xba591112, 0x109ab3a, 0xade79437, 0x6112a3b7]"
  by code_simp

lemma abc_rounds_3: "fold (sha_round abc_schedule) [32..<48] [0x73b33bf5, 0xea992a22, 0xa0060b30, 0x363482c9, 0xba591112, 0x109ab3a, 0xade79437, 0x6112a3b7]
    = [0x4172328d, 0xa14c14b0, 0x72ab4b91, 0x26628815, 0xfecf0bc6, 0xd57b94a9, 0xb7755da1, 0xa80f11f0]"
  by code_simp

lemma abc_rounds_4: "fold (sha_round abc_schedule) [48..<64] [0x4172328d, 0xa14c14b0, 0x72ab4b91, 0x26628815, 0xfecf0bc6, 0xd57b94a9, 0xb7755da1, 0xa80f11f0]
    = [0x506e3058, 0xd39a2165, 0x4d24d6c, 0xb85e2ce9, 0x5ef50f24, 0xfb121210, 0x948d25b6, 0x961f4894]"
  by code_simp

lemma abc_padded_block:
  "sha_block abc_block sha_H0 = [0xba7816bf, 0x8f01cfea, 0x414140de, 0x5dae2223, 0xb00361a3, 0x96177a9c, 0xb410ff61, 0xf20015ad]"
proof -
  have "[0..<64] = [0..<16] @ [16..<32] @ [32..<48] @ [48..<64]" by (simp add: upt_rec)
  then have "fold (sha_round abc_schedule) [0..<64] sha_H0 = [0x506e3058, 0xd39a2165, 0x4d24d6c, 0xb85e2ce9, 0x5ef50f24, 0xfb121210, 0x948d25b6, 0x961f4894]"
    by (simp only: fold_append comp_apply abc_rounds_1 abc_rounds_2 abc_rounds_3 abc_rounds_4)
  then show ?thesis by (simp add: sha_block_def abc_schedule sha_H0_def)
qed


lemma sha256_abc:
  "sha256 (map of_char ''abc'') = Some ''BA7816BF8F01CFEA414140DE5DAE2223B00361A396177A9CB410FF61F20015AD''"
proof -
  let ?m = "[0x61, 0x62, 0x63] :: bytes"
  have p: "padded ?m = ?m @ [0x80] @ replicate 52 0 @ [0, 0, 0, 0, 0, 0, 0, 0x18]"
    by (simp add: padded_def pad_len_def reqd_len_def cur_len_def mynum_def memory_byte_def)
      (simp add: eval_nat_numeral)
  have "splitblocks [replicate 16 0] (padded ?m) = Some [abc_block]"
    unfolding p by code_simp
  then have "sha256 ?m = print_hash (sha_block abc_block sha_H0)"
    by (simp add: sha256_def num_blk_def length_padded pad_len_def reqd_len_def cur_len_def)
  also have "\<dots> = Some ''BA7816BF8F01CFEA414140DE5DAE2223B00361A396177A9CB410FF61F20015AD''"
    unfolding abc_padded_block
    by (simp add: print_hash_hex hex_digits.simps digit_chars_def)
  finally show ?thesis by (simp add: of_char_def)
qed

theorem sha256_is_SHA256_witness:
  "length (map of_char ''abc'' :: bytes) < 2 ^ 28 \<and> length (map of_char ''abc'' :: bytes) mod 64 < 56
   \<and> concat (map (\<lambda>h. hex_digits (unat h)) (ref_sha256 (map of_char ''abc'')))
     = ''BA7816BF8F01CFEA414140DE5DAE2223B00361A396177A9CB410FF61F20015AD''"
  using sha256_is_SHA256 [of "map of_char ''abc''"] by (simp add: sha256_abc del: list.map)

section \<open>The digest string\<close>

lemma hex_digits_bound: "n < 16 ^ k \<Longrightarrow> length (hex_digits n) \<le> k"
proof (induction k arbitrary: n)
  case 0
  then show ?case by (simp add: hex_digits.simps)
next
  case (Suc k)
  then have "n div 16 < 16 ^ k" by (simp add: less_mult_imp_div_less mult.commute)
  then show ?case using Suc.IH by (subst hex_digits.simps) simp
qed

lemma hex_digits_lower: "16 ^ k \<le> n \<Longrightarrow> k < length (hex_digits n)"
proof (induction k arbitrary: n)
  case 0
  then show ?case by (subst hex_digits.simps) simp
next
  case (Suc k)
  then have "16 ^ k \<le> n div 16" by (simp add: less_eq_div_iff_mult_less_eq mult.commute)
  then have "k < length (hex_digits (n div 16))" by (rule Suc.IH)
  moreover have "n \<noteq> 0" using Suc.prems by (metis power_eq_0_iff le_zero_eq zero_neq_numeral)
  ultimately show ?case by (subst hex_digits.simps) simp
qed

lemma length_print_hash:
  "print_hash hs = Some d \<Longrightarrow> length d \<le> 8 * length hs \<and>
     (length d = 8 * length hs \<longleftrightarrow> (\<forall>h \<in> set hs. 2 ^ 28 \<le> unat h))"
proof (induction hs arbitrary: d)
  case Nil
  then show ?case by simp
next
  case (Cons h hs)
  from Cons.prems obtain d' where d': "print_hash hs = Some d'" "d = hex_digits (unat h) @ d'"
    by (auto simp: fromDecimal_hex)
  have "unat h < 2 ^ LENGTH(32)" by (rule unsigned_less)
  then have le: "length (hex_digits (unat h)) \<le> 8"
    using hex_digits_bound [of "unat h" 8] by simp
  moreover have "length (hex_digits (unat h)) = 8 \<longleftrightarrow> 2 ^ 28 \<le> unat h"
    using hex_digits_bound [of "unat h" 7] hex_digits_lower [of 7 "unat h"] le by fastforce
  ultimately show ?case using Cons.IH [OF d'(1)] d'(2) by auto
qed

lemma length_sha_block: "length (sha_block M H) = length H"
proof -
  have "length (fold (sha_round W) ts H) = length H" for W ts
    by (induction ts arbitrary: H) (simp_all add: sha_round_def Let_def)
  then show ?thesis by (simp only: sha_block_def Let_def length_map length_zip min.idem)
qed

lemma length_fold_sha_block: "length (fold sha_block Ms H) = length H"
  by (induction Ms arbitrary: H) (simp_all add: length_sha_block)

text \<open>Whatever the message, a digest that is returned has at most 64 characters.\<close>

theorem sha256_digest_length:
  assumes "sha256 msg = Some d"
  shows "length d \<le> 64"
proof -
  from assms obtain M where "print_hash (fold sha_block M sha_H0) = Some d"
    by (auto simp: sha256_def Let_def split: option.splits)
  from length_print_hash [OF this] show ?thesis
    by (simp add: length_fold_sha_block sha_H0_def)
qed

theorem sha256_digest_length_witness:
  "\<exists>d. sha256 (map of_char ''abc'') = Some d \<and> length d \<le> 64"
  using sha256_digest_length [OF sha256_abc] sha256_abc by blast

text \<open>The digest string does not determine the hash: each word is printed without its leading
  zeros, so two different hashes share a digest (which is then shorter than 64 characters).\<close>

theorem digest_is_ambiguous:
  "\<exists>hs hs'. length hs = 8 \<and> length hs' = 8 \<and> hs \<noteq> hs' \<and> print_hash hs = print_hash hs'
     \<and> (\<exists>d. print_hash hs = Some d \<and> length d < 64)"
proof -
  have "print_hash [0x1, 0x23, 0, 0, 0, 0, 0, 0] = Some ''123''"
    and "print_hash [0x12, 0x3, 0, 0, 0, 0, 0, 0] = Some ''123''"
    by (simp_all add: print_hash_hex hex_digits.simps digit_chars_def)
  then show ?thesis
    by (intro exI [of _ "[0x1, 0x23, 0, 0, 0, 0, 0, 0]"] exI [of _ "[0x12, 0x3, 0, 0, 0, 0, 0, 0]"]) simp
qed

end
