(* ===== verification/Algorithms.thy ===== *)
theory Algorithms
  imports Host Sha256_Correct "HOL-Library.Signed_Division"
begin

text \<open>
  \<^verbatim>\<open>application_algorithms.cpp/.h\<close>, \<^verbatim>\<open>application_struct_coordinate.h\<close> and the random
  numbers of \<^verbatim>\<open>basic_algorithm_math.h\<close>: the salted password digest, the point in front of a player, the
  weapon model table, colours embedded in chat text.
\<close>

section \<open>Coordinates\<close>

record CoordinatePlane =
  cx :: flt
  cy :: flt

record Coordinate3D = CoordinatePlane +
  cz :: flt

record Coordinate5D = Coordinate3D +
  facingangle :: flt
  virtualworld :: cint
  interior :: cint

definition plane :: "flt \<Rightarrow> flt \<Rightarrow> CoordinatePlane" where
  "plane x y = \<lparr>cx = x, cy = y\<rparr>"

definition point3 :: "flt \<Rightarrow> flt \<Rightarrow> flt \<Rightarrow> Coordinate3D" where
  "point3 x y z = \<lparr>cx = x, cy = y, cz = z\<rparr>"

definition point5 :: "flt \<Rightarrow> flt \<Rightarrow> flt \<Rightarrow> cint \<Rightarrow> cint \<Rightarrow> flt \<Rightarrow> Coordinate5D" where
  "point5 x y z w i a = \<lparr>cx = x, cy = y, cz = z, facingangle = a, virtualworld = w, interior = i\<rparr>"

section \<open>Passwords\<close>

definition salt1 :: string where
  "salt1 = ''Y5Nz.MM;K?xtQkd80V@l?p*RF)I8mH.6n>o`,;`Rlh!3c.?#FZdWMuFPOvnQi#Da''"

definition salt2 :: string where
  "salt2 = ''~MDf|JN3?/0w%WHWYcK@/ZDv4ci/vF|UIZi# ^?J*k0oh0`Dy8X.].Tagm!#^0Wu''"

definition bytes_of :: "string \<Rightarrow> bytes" where
  "bytes_of s = map of_char s"

definition GetPasswordDigest :: "string \<Rightarrow> string option" where
  "GetPasswordDigest source = sha256 (bytes_of (salt1 @ source @ salt2))"

lemma length_salted: "length (bytes_of (salt1 @ s @ salt2)) = length s + 128"
  by (simp add: bytes_of_def salt1_def salt2_def)

lemma salted_mod: "length (bytes_of (salt1 @ s @ salt2)) mod 64 = length s mod 64"
  unfolding length_salted using mod_mult_self1 [of "length s" 2 64] by simp

section \<open>The point in front of a player\<close>

text \<open>\<^verbatim>\<open>double\<close> arithmetic, \<^verbatim>\<open>3.14\<close> for \<open>\<pi>\<close>.\<close>

definition AngleToRadian :: "flt \<Rightarrow> flt" where
  "AngleToRadian angle = fl64 (fl64 (angle / 180) * fl64 (314 / 100))"

text \<open>\<^verbatim>\<open>x -= (float)(sin(...) * distance)\<close>\<close>

definition offset :: "(flt \<Rightarrow> flt) \<Rightarrow> flt \<Rightarrow> flt \<Rightarrow> flt" where
  "offset f angle distance = fl32 (fl64 (f (AngleToRadian angle) * distance))"

definition GenerateDirectionalPoint ::
  "(flt \<Rightarrow> flt) \<Rightarrow> (flt \<Rightarrow> flt) \<Rightarrow> flt \<Rightarrow> Coordinate3D \<Rightarrow> flt \<Rightarrow> exn + Coordinate3D" where
  "GenerateDirectionalPoint sn cs angle r distance =
     (if 0 < angle \<and> angle < 90 then
        Inr (r\<lparr>cx := fl32 (cx r - offset sn angle distance), cy := fl32 (cy r + offset cs angle distance)\<rparr>)
      else if 90 < angle \<and> angle < 180 then
        let a = fl32 (angle - 90) in
        Inr (r\<lparr>cx := fl32 (cx r - offset cs a distance), cy := fl32 (cy r - offset sn a distance)\<rparr>)
      else if 180 < angle \<and> angle < 270 then
        let a = fl32 (angle - 180) in
        Inr (r\<lparr>cx := fl32 (cx r + offset sn a distance), cy := fl32 (cy r - offset cs a distance)\<rparr>)
      else if 270 < angle \<and> angle < 360 then
        let a = fl32 (angle - 270) in
        Inr (r\<lparr>cx := fl32 (cx r + offset cs a distance), cy := fl32 (cy r + offset sn a distance)\<rparr>)
      else if angle = 0 then Inr (r\<lparr>cy := fl32 (cy r + distance)\<rparr>)
      else if angle = 90 then Inr (r\<lparr>cx := fl32 (cx r - distance)\<rparr>)
      else if angle = 180 then Inr (r\<lparr>cy := fl32 (cy r - distance)\<rparr>)
      else if angle = 270 then Inr (r\<lparr>cx := fl32 (cx r + distance)\<rparr>)
      else Inl (RuntimeError ''Incorrect facing angle''))"

section \<open>Weapon models\<close>

definition WeaponModelToID :: "int list" where
  "WeaponModelToID =
    [0, 331, 333, 334, 335, 336, 337, 338, 339, 341, 321, 322, 323, 324, 325, 326, 342, 343, 344, 0,
     0, 0, 346, 347, 348, 349, 350, 351, 352, 353, 355, 356, 372, 357, 358, 359, 360, 361, 362, 363,
     364, 365, 366, 367, 368, 369, 371]"

text \<open>The first comparison is unsigned: \<^verbatim>\<open>sizeof\<close> makes it so.\<close>

definition ConvertWeaponIDToModelID :: "cint \<Rightarrow> int" where
  "ConvertWeaponIDToModelID weaponid =
     (if of_nat (length WeaponModelToID) - 1 < weaponid \<or> sint weaponid < 0 then 0
      else WeaponModelToID ! unat weaponid)"

section \<open>Colours in chat text\<close>

definition hex_nibble :: "cint \<Rightarrow> nat \<Rightarrow> char" where
  "hex_nibble c i = hexchars ! unat (drop_bit (4 * (7 - i)) c AND 15)"

text \<open>\<^verbatim>\<open>sprintf(dest, "{%08x", color)\<close>, then \<^verbatim>\<open>dest[7] = '}'; dest[8] = 0\<close>.\<close>

definition ColorToEmbeddingString :: "cint \<Rightarrow> string" where
  "ColorToEmbeddingString color =
     (let dest = CHR ''{'' # map (hex_nibble color) [0..<8] in take 8 (dest[7 := CHR ''}'']))"

section \<open>Random numbers\<close>

text \<open>\<^verbatim>\<open>(rand() % (max - min)) + min\<close> with the value of \<^verbatim>\<open>rand()\<close>; \<open>None\<close>: division by zero.\<close>

definition Random :: "nat \<Rightarrow> int \<Rightarrow> int \<Rightarrow> int option" where
  "Random r lo hi = (if hi - lo = 0 then None else Some (int r smod (hi - lo) + lo))"

definition RandomWeather :: "nat \<Rightarrow> int option" where
  "RandomWeather r = Random r 0 22"

section \<open>Properties\<close>

lemma fl64_mono: "x \<le> y \<Longrightarrow> fl64 x \<le> fl64 y"
  by (simp add: fl64_def fl_mono)

lemma fl_zero [simp]: "fl32 0 = 0" "fl64 0 = 0"
  by (simp_all add: fl32_def fl64_def fl_def)

lemma fl_at_least_0: "0 \<le> x \<Longrightarrow> 0 \<le> fl32 x" "0 \<le> x \<Longrightarrow> 0 \<le> fl64 x"
  using fl32_mono [of 0 x] fl64_mono [of 0 x] by simp_all

lemma AngleToRadian_90: "AngleToRadian 90 = 7070651414971679 / 4503599627370496"
  by code_simp

lemma AngleToRadian_range:
  assumes "0 \<le> a" and "a \<le> 90"
  shows "0 \<le> AngleToRadian a \<and> AngleToRadian a \<le> 1.5707"
proof -
  have "0 \<le> fl64 (314 / 100)" by (simp add: fl_at_least_0)
  then have "AngleToRadian a \<le> AngleToRadian 90" "0 \<le> AngleToRadian a"
    using assms unfolding AngleToRadian_def
    by (intro fl64_mono mult_right_mono fl_at_least_0 mult_nonneg_nonneg; simp)+
  then show ?thesis by (simp add: AngleToRadian_90)
qed

text \<open>What the code needs of \<^verbatim>\<open>sin\<close> and \<^verbatim>\<open>cos\<close>: they are not negative in the first quadrant.\<close>

definition first_quadrant :: "(flt \<Rightarrow> flt) \<Rightarrow> bool" where
  "first_quadrant f \<longleftrightarrow> (\<forall>x. 0 \<le> x \<longrightarrow> x \<le> 1.5707 \<longrightarrow> 0 \<le> f x)"

lemma offset_nonneg:
  "first_quadrant f \<Longrightarrow> 0 \<le> a \<Longrightarrow> a \<le> 90 \<Longrightarrow> 0 \<le> d \<Longrightarrow> 0 \<le> offset f a d"
  unfolding offset_def using AngleToRadian_range [of a]
  by (intro fl_at_least_0 mult_nonneg_nonneg) (auto simp: first_quadrant_def)

lemma fl32_step: "is_float x \<Longrightarrow> 0 \<le> d \<Longrightarrow> x \<le> fl32 (x + d)" "is_float x \<Longrightarrow> 0 \<le> d \<Longrightarrow> fl32 (x - d) \<le> x"
  by (auto intro: fl32_ge_float fl32_le_float)

lemma quadrant_angle: "q \<in> {90, 180, 270} \<Longrightarrow> q < a \<Longrightarrow> a < q + 90 \<Longrightarrow> 0 \<le> fl32 (a - q) \<and> fl32 (a - q) \<le> 90"
  using is_float_int [of 90] by (auto intro!: fl_at_least_0 fl32_le_float)

text \<open>C33. The point generated in front of a player lies in the quadrant the player faces (0 is north,
  angles grow to the west), at the same height, for every facing angle from 0 up to but not
  including 360; every other angle is refused.\<close>

theorem point_is_ahead:
  assumes "first_quadrant sn" and "first_quadrant cs" and "0 \<le> d" and "is_float (cx r)" and "is_float (cy r)"
  shows "case GenerateDirectionalPoint sn cs a r d of
      Inl e \<Rightarrow> (a < 0 \<or> 360 \<le> a) \<and> e = RuntimeError ''Incorrect facing angle''
    | Inr p \<Rightarrow> 0 \<le> a \<and> a < 360 \<and> cz p = cz r
        \<and> (if a \<le> 180 then cx p \<le> cx r else cx r \<le> cx p)
        \<and> (if a \<le> 90 \<or> 270 \<le> a then cy r \<le> cy p else cy p \<le> cy r)"
proof -
  note off = offset_nonneg [OF assms(1) _ _ assms(3)] offset_nonneg [OF assms(2) _ _ assms(3)]
  note stepx = fl32_step [OF assms(4)] and stepy = fl32_step [OF assms(5)]
  consider "a < 0 \<or> 360 \<le> a" | "a \<in> {0, 90, 180, 270}" | "0 < a \<and> a < 90" | "90 < a \<and> a < 180"
    | "180 < a \<and> a < 270" | "270 < a \<and> a < 360"
    by fastforce
  then show ?thesis
  proof cases
    case 2
    then show ?thesis using assms(3) stepx stepy by (auto simp: GenerateDirectionalPoint_def)
  next
    case 4
    then show ?thesis using quadrant_angle [of 90 a] off stepx stepy
      by (simp add: GenerateDirectionalPoint_def Let_def)
  next
    case 5
    then show ?thesis using quadrant_angle [of 180 a] off stepx stepy
      by (simp add: GenerateDirectionalPoint_def Let_def)
  next
    case 6
    then show ?thesis using quadrant_angle [of 270 a] off stepx stepy
      by (simp add: GenerateDirectionalPoint_def Let_def)
  qed (use off stepx stepy in \<open>auto simp: GenerateDirectionalPoint_def\<close>)
qed

theorem point_is_ahead_witness:
  "case GenerateDirectionalPoint (\<lambda>x. x / 2) (\<lambda>x. 1 - x / 2) 120 (point3 50 0 1) 1 of
     Inl e \<Rightarrow> False | Inr p \<Rightarrow> cz p = 1 \<and> cx p \<le> 50 \<and> cy p \<le> 0"
  using point_is_ahead [of "\<lambda>x. x / 2" "\<lambda>x. 1 - x / 2" 1 "point3 50 0 1" 120]
  by (simp add: first_quadrant_def point3_def split: sum.splits)

text \<open>A password has a digest exactly when its length is below 56 modulo 64 (the salts take two
  whole blocks); then it is the SHA-256 hash of the salted password.\<close>

theorem password_digest:
  assumes "length s < 2 ^ 28 - 128"
  shows "GetPasswordDigest s =
    (if length s mod 64 < 56 then Some (concat (map (\<lambda>h. hex_digits (unat h)) (ref_sha256 (bytes_of (salt1 @ s @ salt2))))) else None)"
proof -
  have "length (bytes_of (salt1 @ s @ salt2)) < 2 ^ 28" using assms unfolding length_salted by simp
  then show ?thesis
    using sha256_computes [of "bytes_of (salt1 @ s @ salt2)"] sha256_overruns [of "bytes_of (salt1 @ s @ salt2)"]
    unfolding GetPasswordDigest_def salted_mod by simp
qed

theorem password_digest_witness: "GetPasswordDigest (replicate 57 CHR ''a'') = None"
  using password_digest [of "replicate 57 CHR ''a''"] by simp

text \<open>The model of a weapon is looked up inside the table for every integer: ids outside 0 to 46
  give 0.\<close>

theorem weapon_model_in_table:
  "ConvertWeaponIDToModelID w = (if 0 \<le> sint w \<and> sint w < 47 then WeaponModelToID ! nat (sint w) else 0)"
proof -
  have unsigned: "of_nat (length WeaponModelToID) - 1 < w \<longleftrightarrow> 46 < uint w"
    by (simp add: WeaponModelToID_def word_less_def)
  show ?thesis
  proof (cases "0 \<le> sint w")
    case True
    then have "uint w = sint w" by (rule uint_eq_sint)
    moreover have "unat w = nat (uint w)" by simp
    ultimately show ?thesis
      using True by (simp only: ConvertWeaponIDToModelID_def unsigned) (simp del: unsigned_of_int nat_uint_eq)
  qed (simp add: ConvertWeaponIDToModelID_def)
qed

text \<open>An embedded colour is \<open>{rrggbb}\<close>: eight characters, the six upper hexadecimal digits of
  the colour between braces, without its alpha byte.\<close>

theorem embedded_color:
  "ColorToEmbeddingString c = CHR ''{'' # map (hex_nibble c) [0..<6] @ [CHR ''}'']"
  by (simp add: ColorToEmbeddingString_def Let_def upt_rec)

text \<open>A random number between different bounds lies between them, the lower one included and the
  upper one not: no weather above 21 is ever chosen.\<close>

theorem random_range:
  assumes "lo < hi"
  shows "\<exists>x. Random r lo hi = Some x \<and> lo \<le> x \<and> x < hi"
proof -
  define m where "m = int r mod (hi - lo)"
  have "int r smod (hi - lo) = m"
    using assms by (cases "r = 0") (simp_all add: signed_modulo_int_def m_def)
  moreover have "0 \<le> m" "m < hi - lo" using assms by (simp_all add: m_def)
  ultimately show ?thesis by (auto simp: Random_def)
qed

theorem random_range_witness: "\<exists>x. RandomWeather 44 = Some x \<and> 0 \<le> x \<and> x < 22"
  unfolding RandomWeather_def by (rule random_range) simp

end
