(* ===== verification/World.thy ===== *)
theory World
  imports Streamer_Correct Algorithms
begin

text \<open>
  The state of the game mode: the objects of \<^verbatim>\<open>src/freshcity.server.gamemode\<close> with their members, the managers that own
  them, the timers of \<^verbatim>\<open>application_gamemode_callback_timer.cpp\<close> and the system message queue.
  The world extends the streamer's state, so that the streamer's natives run on it.
\<close>

section \<open>Roles and player variables\<close>

datatype rolekind = Assault | Medic | Mechanic | Engineer

record role =
  rl_kind :: rolekind
  rl_skilllastuse :: int
  rl_timelimit :: int
  rl_musthavetarget :: bool
  rl_obj :: "int option"     \<comment> \<open>the engineer's dynamic object\<close>

record GangZoneCreationInfo =
  gc_name :: string
  gc_min :: CoordinatePlane
  gc_max :: CoordinatePlane
  gc_spawnpoint :: Coordinate5D
  gc_trigger :: Coordinate3D
  gc_step :: cint

record PropertyCreateInfo =
  pc_name :: string
  pc_value :: cint
  pc_profit :: cint
  pc_pos :: Coordinate3D

section \<open>Races\<close>

datatype racetype = NORMAL | AIR

datatype racestate = RS_NONE | BUILDING | JOINING | READY | IN_PROGRESS | FINISHED

record RacerInfo =
  ri_currentcp :: int
  ri_usedtime :: int
  ri_sessionrank :: int

record racing = saveable +
  rc_start :: int
  rc_state :: racestate
  rc_countdowntimerid :: int
  rc_waitingplayer :: int
  rc_countdown :: int
  rc_starter :: int
  rc_checkpoints :: "Coordinate3D list"
  rc_racers :: "(playerid, RacerInfo) members"
  rc_creator :: oid
  rc_name :: string
  rc_type :: racetype

text \<open>\<^verbatim>\<open>boost::shared_ptr<void>\<close> in \<^verbatim>\<open>_pvars\<close>: reading a variable as another type than it was set with is undefined.\<close>

datatype pvar = PVInt int | PVTime int | PVOid oid | PVZone GangZoneCreationInfo | PVProp PropertyCreateInfo | PVRacing racing

section \<open>Players, teams, properties, gang zones\<close>

record AuthData =
  au_passwordhash :: string
  au_adminlevel :: cint
  au_deleted :: bool
  au_banned :: bool
  au_signedin :: bool
  au_autosavetimer :: int

record KillCount =
  kc_lastkill :: int
  kc_counter :: int

record GameData =
  gd_nickname :: string
  gd_money :: cint
  gd_score :: cint
  gd_color :: cint

record profile = saveable +
  p_id :: playerid
  p_gamearchive :: doc
  p_team :: oid
  p_auth :: AuthData
  p_killcounter :: KillCount
  p_role :: "role option"
  p_pvars :: "(string, pvar) members"
  p_gamedata :: GameData

record team = saveable +
  t_name :: string
  t_onlineplayers :: "(playerid, oid) members"
  t_ingameteamid :: int
  t_color :: cint
  t_leader :: oid

record property = saveable +
  pr_owner :: oid
  pr_name :: string
  pr_value :: cint
  pr_profit :: cint
  pr_lastdraw :: int
  pr_pickupid :: int
  pr_x :: flt
  pr_y :: flt
  pr_z :: flt
  pr_mapicon :: "int option"

record TurfWarInfo =
  wi_InWar :: bool
  wi_Attacker :: oid
  wi_MemberDeath :: int
  wi_EnemyKill :: int

record gangzone = saveable +
  z_this :: nat          \<comment> \<open>the object's identity, for the pointers held by timers\<close>
  z_zone :: int          \<comment> \<open>id of the server's gang zone\<close>
  z_areaid :: int
  z_triggerid :: int
  z_name :: string
  z_owner :: oid
  z_color :: cint
  z_endtimerid :: int
  z_timeouttimerid :: int
  z_spawnpoint :: oid
  z_warinfo :: TurfWarInfo

section \<open>Pickups and timers\<close>

datatype effect =
    MedicalPickup flt | WealthPickup cint cint | WeaponPickup cint cint | TurfWarTrigger int
  | TeleportTrigger oid | PropertyMarker_OnSale oid | PropertyMarker_Sold oid

datatype tcallback =
    TEndTurfWar nat | TTurfWarWaitTimeout nat | TAutoSaveProfile playerid
  | TChangeWeather | TChangeTime | TRaceCountDown int

record timer =
  tm_callback :: tcallback
  tm_period :: cint
  tm_repeat :: bool
  tm_fired :: bool       \<comment> \<open>a timer that does not repeat stays, fired, until it is deleted\<close>

section \<open>The world\<close>

record world = streamer +
  timers :: "(int, timer) members"
  next_timer :: int
  next_object :: nat
  profiles :: "(playerid, profile) members"
  teams :: "(string, team) members"
  team_idgen :: idalloc
  zones :: "(int, gangzone) members"
  areas :: "(int, int) members"                 \<comment> \<open>\<^verbatim>\<open>GangZoneArea\<close>: area id, zone id\<close>
  pickups :: "(int, effect \<times> bool) members"      \<comment> \<open>effect, disposable\<close>
  properties :: "(string, property) members"
  races :: "(int, racing) members"
  msg_current :: string
  msg_old1st :: string
  worldtime :: int

type_synonym 'a wprog = "(world, 'a) prog"

section \<open>References to members of the managers\<close>

text \<open>A member function of an object that a manager owns. The callers hold a reference; if the object is
  gone it dangles.\<close>

definition onMember ::
  "(world \<Rightarrow> ('k, 'o) members) \<Rightarrow> (('k, 'o) members \<Rightarrow> world \<Rightarrow> world) \<Rightarrow> 'k \<Rightarrow> ('o \<times> dbst, 'a) prog \<Rightarrow> 'a wprog" where
  "onMember get upd k m w = (case map_of (get w) k of None \<Rightarrow> (Inl Undefined, w)
     | Some o' \<Rightarrow> (case m (o', db w) of (r, o1, d) \<Rightarrow> (r, upd (setMember k o1 (get w)) (w\<lparr>db := d\<rparr>))))"

definition readMember :: "(world \<Rightarrow> ('k, 'o) members) \<Rightarrow> 'k \<Rightarrow> ('o \<Rightarrow> 'a) \<Rightarrow> 'a wprog" where
  "readMember get k f w = (case map_of (get w) k of None \<Rightarrow> (Inl Undefined, w) | Some o' \<Rightarrow> (Inr (f o'), w))"

definition modMember ::
  "(world \<Rightarrow> ('k, 'o) members) \<Rightarrow> (('k, 'o) members \<Rightarrow> world \<Rightarrow> world) \<Rightarrow> 'k \<Rightarrow> ('o \<Rightarrow> 'o) \<Rightarrow> unit wprog" where
  "modMember get upd k f w = (case map_of (get w) k of None \<Rightarrow> (Inl Undefined, w)
     | Some o' \<Rightarrow> (Inr (), upd (setMember k (f o') (get w)) w))"

text \<open>\<^verbatim>\<open>Mgr[key]\<close>: the object has to exist.\<close>

definition getRef :: "(world \<Rightarrow> ('k, 'o) members) \<Rightarrow> 'k \<Rightarrow> unit wprog" where
  "getRef get k w = (case Get k (get w) of Inl e \<Rightarrow> (Inl e, w) | Inr _ \<Rightarrow> (Inr (), w))"

abbreviation "set_profiles \<equiv> \<lambda>m. profiles_update (\<lambda>_. m)"
abbreviation "set_teams \<equiv> \<lambda>m. teams_update (\<lambda>_. m)"
abbreviation "set_zones \<equiv> \<lambda>m. zones_update (\<lambda>_. m)"
abbreviation "set_properties \<equiv> \<lambda>m. properties_update (\<lambda>_. m)"
abbreviation "set_races \<equiv> \<lambda>m. races_update (\<lambda>_. m)"

abbreviation "onProfile \<equiv> onMember profiles set_profiles"
abbreviation "pget \<equiv> readMember profiles"
abbreviation "pmod \<equiv> modMember profiles set_profiles"
abbreviation "onTeam \<equiv> onMember teams set_teams"
abbreviation "tget \<equiv> readMember teams"
abbreviation "tmod \<equiv> modMember teams set_teams"
abbreviation "onZone \<equiv> onMember zones set_zones"
abbreviation "zget \<equiv> readMember zones"
abbreviation "zmod \<equiv> modMember zones set_zones"
abbreviation "onProperty \<equiv> onMember properties set_properties"
abbreviation "prget \<equiv> readMember properties"
abbreviation "prmod \<equiv> modMember properties set_properties"
abbreviation "onRace \<equiv> onMember races set_races"
abbreviation "rget \<equiv> readMember races"
abbreviation "rmod \<equiv> modMember races set_races"

section \<open>Timers\<close>

definition CreateTimer :: "tcallback \<Rightarrow> cint \<Rightarrow> bool \<Rightarrow> int wprog" where
  "CreateTimer cb period rep w = (Inr (next_timer w),
     w\<lparr>timers := timers w @ [(next_timer w, \<lparr>tm_callback = cb, tm_period = period, tm_repeat = rep, tm_fired = False\<rparr>)],
       next_timer := next_timer w + 1\<rparr>)"

text \<open>Deleting a handle that is not a timer's is undefined.\<close>

definition DestroyTimer :: "int \<Rightarrow> unit wprog" where
  "DestroyTimer h w = (if IsExist h (timers w) then (Inr (), w\<lparr>timers := snd (Remove h (timers w))\<rparr>) else (Inl Undefined, w))"

section \<open>System messages\<close>

text \<open>The three text draws have the ids 0 (current), 1 and 2 (oldest).\<close>

definition PushMessage :: "string \<Rightarrow> unit wprog" where
  "PushMessage msg w = (Inr (), w\<lparr>
     out := [TextDrawShowForAll 2, TextDrawShowForAll 1, TextDrawShowForAll 0, TextDrawSetString 0 msg,
             TextDrawSetString 1 (msg_current w), TextDrawSetString 2 (msg_old1st w)] @ out w,
     msg_old1st := msg_current w, msg_current := msg\<rparr>)"

section \<open>Evaluation\<close>

lemma map_of_setMember [simp]: "map_of (setMember k v m) k' = (if k' = k then Some v else map_of m k')"
  by (simp add: setMember_def map_of_update)

lemma modMember_eval: "map_of (get w) k = Some o' \<Longrightarrow> modMember get upd k f w = (Inr (), upd (setMember k (f o') (get w)) w)"
  by (simp add: modMember_def)

lemma readMember_eval: "map_of (get w) k = Some o' \<Longrightarrow> readMember get k f w = (Inr (f o'), w)"
  by (simp add: readMember_def)

lemma getRef_eval: "map_of (get w) k = Some o' \<Longrightarrow> getRef get k w = (Inr (), w)"
  by (simp add: getRef_def Get_def)

lemma getRef_missing: "map_of (get w) k = None \<Longrightarrow> getRef get k w = (Inl (RuntimeError ''Object doesn't exist''), w)"
  by (simp add: getRef_def Get_def)

lemmas world_eval = modMember_eval readMember_eval getRef_eval native_def ask_def

text \<open>A member function of \<^verbatim>\<open>SaveableItem\<close> with a plain update that returned: only its object's copy and the
  connection changed, and the request is in the log.\<close>

lemma Update_returns: "Update m False s = (Inr u, s') \<Longrightarrow>
    oid_isSet (sv_uniqueid (fst s)) \<and> fst s' = fst s
    \<and> db_log (snd s') = DbUpdate (sv_collection (fst s)) (sv_uniqueid (fst s)) m # db_log (snd s)"
  unfolding Update_def
  by (auto elim!: seq_returns andthen_returns dest!: requestOrThrow_returns
      simp: gets_def throw_def whenP_def ret_def split: if_splits)

lemma onMember_Update:
  assumes "onMember get upd k (Update m False) w = (r, w')" and "map_of (get w) k = Some o'"
  shows "\<exists>d. w' = upd (setMember k o' (get w)) (w\<lparr>db := d\<rparr>)
    \<and> (r = Inr () \<longrightarrow> db_log d = DbUpdate (sv_collection o') (sv_uniqueid o') m # db_log (db w))"
proof -
  obtain r' o1 d where u: "Update m False (o', db w) = (r', o1, d)" by (metis prod.exhaust)
  have "o1 = o'" using Update_object [of m "(o', db w)"] u by simp
  moreover have "r' = Inr () \<longrightarrow> db_log d = DbUpdate (sv_collection o') (sv_uniqueid o') m # db_log (db w)"
    using Update_returns [of m "(o', db w)" "()" "(o1, d)"] u by auto
  ultimately show ?thesis using assms u by (auto simp: onMember_def)
qed

section \<open>The start, and a world for the examples\<close>

text \<open>The state before \<^verbatim>\<open>OnGameModeInit\<close>: empty managers, the static \<^verbatim>\<open>time\<close> of \<^verbatim>\<open>ChangeTime\<close> at 11.\<close>

definition world_init :: "host \<Rightarrow> world" where
  "world_init h = streamer.extend (streamer_init h)
     (world.fields [] 1 0 [] [] (ia_new 255) [] [] [] [] [] [] [] 11)"

definition demo_world :: world where
  "demo_world = world_init demo_host"

lemmas world_fields = world_init_def world.defs streamer.defs streamer_init_def host.defs demo_host_def

lemma demo_world_simps [simp]:
  "timers demo_world = []" "profiles demo_world = []" "teams demo_world = []" "zones demo_world = []" "pickups demo_world = []"
  "properties demo_world = []" "races demo_world = []" "areas demo_world = []" "out demo_world = []" "db demo_world = demo_db"
  "env demo_world = demo_env" "next_timer demo_world = 1" "s_items demo_world k = []" "s_ids demo_world k = ident_new"
  "s_maxItems demo_world k = 2 ^ 31 - 1" "s_cells demo_world = []" "s_globalCell demo_world = empty_cell"
  "s_cellDistance demo_world = 360000" "s_internalPickups demo_world = []" "team_idgen demo_world = ia_new 255"
  "s_players demo_world = []" "msg_current demo_world = []" "msg_old1st demo_world = []"
  by (simp_all add: demo_world_def world_fields)

end
