(* ===== verification/Profile.thy ===== *)
theory Profile
  imports World
begin

text \<open>
  The class \<^verbatim>\<open>Profile\<close> (\<^verbatim>\<open>application_data_profile.cpp/.h\<close>): a connected player with the stored account, the
  money and score shown in the game, kill streaks, the role and the player variables. Member functions are
  programs on the world for the player's id; those that load or store the document are programs on the object and the
  database connection.
\<close>

section \<open>Loading the document\<close>

text \<open>\<^verbatim>\<open>member = value\<close> where computing the value may throw.\<close>

definition assign :: "(exn + 'a) \<Rightarrow> ('a \<Rightarrow> 'o \<Rightarrow> 'o) \<Rightarrow> ('o \<times> dbst, unit) prog" where
  "assign r f = seq (liftR r) (\<lambda>x. modify (apfst (f x)))"

definition catchUser :: "string \<Rightarrow> ('s, 'a) prog \<Rightarrow> ('s, 'a) prog" where
  "catchUser msg m = tryCatch m (\<lambda>e. if e = UserException then throw (RuntimeError msg) else throw e)"

definition getSub :: "doc \<Rightarrow> string \<Rightarrow> string \<Rightarrow> exn + bson" where
  "getSub d a b = bson_field (getField d a) b"

definition number_int :: "doc \<Rightarrow> string \<Rightarrow> exn + cint" where
  "number_int d f = bindR (bson_Number (getField d f)) (\<lambda>x. Inr (int_of_double x))"

definition number_float :: "doc \<Rightarrow> string \<Rightarrow> exn + flt" where
  "number_float d f = bindR (bson_Number (getField d f)) (\<lambda>x. Inr (fl32 x))"

definition LoadMemberData :: "(string \<Rightarrow> string) \<Rightarrow> (profile \<times> dbst, unit) prog" where
  "LoadMemberData u2g = catchUser ''Invalid player profile'' (seq (gets (sv_rawdata \<circ> fst)) (\<lambda>raw.
     andthen (assign (bindR (getSub raw ''auth'' ''password'') bson_String) (\<lambda>h. p_auth_update (au_passwordhash_update (\<lambda>_. h))))
    (andthen (assign (bindR (getSub raw ''archive'' ''gtasa'') bson_Obj) (\<lambda>d. p_gamearchive_update (\<lambda>_. d)))
    (andthen (assign (bindR (getSub raw ''auth'' ''deleted'') bson_Bool) (\<lambda>b. p_auth_update (au_deleted_update (\<lambda>_. b))))
    (seq (gets (p_gamearchive \<circ> fst)) (\<lambda>arc.
     andthen (assign (bindR (getSub arc ''reginfo'' ''nickname'') bson_String) (\<lambda>s. p_gamedata_update (gd_nickname_update (\<lambda>_. u2g s))))
    (andthen (assign (number_int arc ''mgmtlevel'') (\<lambda>i. p_auth_update (au_adminlevel_update (\<lambda>_. i))))
             (assign (bson_Bool (getField arc ''banned'')) (\<lambda>b. p_auth_update (au_banned_update (\<lambda>_. b))))))))))) "

definition codec :: "(cenv \<Rightarrow> string \<Rightarrow> string) \<Rightarrow> string \<Rightarrow> ('w, string) hprog" where
  "codec f s = gets (\<lambda>w. f (env w) s)"

section \<open>Constructors\<close>

definition new_profile :: "playerid \<Rightarrow> saveable \<Rightarrow> profile" where
  "new_profile pid s = saveable.extend s (profile.fields pid [] oid_clear
     \<lparr>au_passwordhash = [], au_adminlevel = 0, au_deleted = False, au_banned = False, au_signedin = False, au_autosavetimer = 0\<rparr>
     \<lparr>kc_lastkill = 0, kc_counter = 0\<rparr> None [] \<lparr>gd_nickname = [], gd_money = 0, gd_score = 0, gd_color = 0\<rparr>)"

definition loadNew :: "profile \<Rightarrow> profile wprog" where
  "loadNew p = seq (gets (\<lambda>w. UTF8ToGBK (env w))) (\<lambda>u2g.
     seq (onNew p (LoadMemberData u2g)) (\<lambda>(_, p). ret p))"

definition Profile_byID :: "playerid \<Rightarrow> oid \<Rightarrow> profile wprog" where
  "Profile_byID pid u = seq (config cfg_string ''Database.profile'') (\<lambda>c.
     seq (onDB (saveable_byID c u)) (\<lambda>s. loadNew (new_profile pid s)))"

definition Profile_byName :: "playerid \<Rightarrow> string \<Rightarrow> profile wprog" where
  "Profile_byName pid logname = seq (config cfg_string ''Database.profile'') (\<lambda>c.
     seq (codec GBKToUTF8 logname) (\<lambda>n.
     seq (onDB (saveable_byQuery c (''auth.logname'', BStr n))) (\<lambda>s.
       if sv_rawdata s \<noteq> [] then loadNew (new_profile pid s) else ret (new_profile pid s))))"

section \<open>What is shown in the game\<close>

definition SetColor :: "playerid \<Rightarrow> cint \<Rightarrow> unit wprog" where
  "SetColor pid c = andthen (pmod pid (p_gamedata_update (gd_color_update (\<lambda>_. c)))) (native (SetPlayerColor pid c))"

definition GetColor :: "playerid \<Rightarrow> cint wprog" where
  "GetColor pid = pget pid (gd_color \<circ> p_gamedata)"

definition GiveMoney :: "playerid \<Rightarrow> cint \<Rightarrow> unit wprog" where
  "GiveMoney pid m = andthen (pmod pid (p_gamedata_update (gd_money_update (\<lambda>x. x + m))))
     (andthen (native (ResetPlayerMoney pid))
     (seq (pget pid (gd_money \<circ> p_gamedata)) (\<lambda>x. native (GivePlayerMoney pid x))))"

definition GetMoney :: "playerid \<Rightarrow> cint wprog" where
  "GetMoney pid = pget pid (gd_money \<circ> p_gamedata)"

definition SetScore :: "playerid \<Rightarrow> cint \<Rightarrow> unit wprog" where
  "SetScore pid s = andthen (pmod pid (p_gamedata_update (gd_score_update (\<lambda>_. s)))) (native (SetPlayerScore pid s))"

definition GetScore :: "playerid \<Rightarrow> cint wprog" where
  "GetScore pid = pget pid (gd_score \<circ> p_gamedata)"

definition GiveScore :: "playerid \<Rightarrow> cint \<Rightarrow> unit wprog" where
  "GiveScore pid s = seq (GetScore pid) (\<lambda>x. SetScore pid (x + s))"

text \<open>Health is a \<^verbatim>\<open>float\<close>; the sum is limited to 100.\<close>

definition new_health :: "flt \<Rightarrow> flt \<Rightarrow> flt" where
  "new_health h give = (if give < fl32 (100 - h) then fl32 (h + give) else 100)"

definition GiveHealth :: "playerid \<Rightarrow> flt \<Rightarrow> unit wprog" where
  "GiveHealth pid give = seq (ask (\<lambda>s. q_health s pid)) (\<lambda>h. native (SetPlayerHealth pid (new_health h give)))"

definition ApplyDataToPlayer :: "playerid \<Rightarrow> unit wprog" where
  "ApplyDataToPlayer pid = seq (pget pid p_gamearchive) (\<lambda>arc.
     andthen (if arc = [] then seq (gets (\<lambda>w. UTF8ToGBK (env w))) (\<lambda>u2g. onProfile pid (LoadMemberData u2g)) else ret ())
    (seq (pget pid p_gamearchive) (\<lambda>arc. catchUser ''Imcomplete player gaming record''
      (seq (liftR (bson_Obj (getField arc ''attribute''))) (\<lambda>att.
        andthen (seq (liftR (number_int att ''color'')) (SetColor pid))
       (andthen (seq (liftR (number_int att ''fightingstyle'')) (\<lambda>f. native (SetPlayerFightingStyle pid f)))
       (andthen (seq (liftR (number_int att ''money'')) (GiveMoney pid))
                (seq (liftR (number_int att ''score'')) (GiveScore pid)))))))))"

section \<open>The account\<close>

definition digest :: "string \<Rightarrow> ('s, string) prog" where
  "digest s = liftR (case GetPasswordDigest s of Some d \<Rightarrow> Inr d | None \<Rightarrow> Inl Undefined)"

definition IsProfileDeleted :: "playerid \<Rightarrow> bool wprog" where
  "IsProfileDeleted pid = pget pid (au_deleted \<circ> p_auth)"

definition IsBannedForGame :: "playerid \<Rightarrow> bool wprog" where
  "IsBannedForGame pid = pget pid (au_banned \<circ> p_auth)"

definition profile_doc :: "oid \<Rightarrow> string \<Rightarrow> string \<Rightarrow> string \<Rightarrow> string \<Rightarrow> doc" where
  "profile_doc u logname hash ip nick =
     [(''_id'', BOid u),
      (''auth'', BObj [(''logname'', BStr logname), (''password'', BStr hash), (''ip'', BStr ip), (''time'', BDate), (''deleted'', BBool False)]),
      (''archive'', BObj [(''gtasa'', BObj [
         (''reginfo'', BObj [(''nickname'', BStr nick), (''time'', BDate), (''ip'', BStr ip)]),
         (''banned'', BBool False), (''mgmtlevel'', BInt 0)])])]"

definition GetDetailedPos :: "playerid \<Rightarrow> Coordinate5D wprog" where
  "GetDetailedPos pid = ask (\<lambda>s. case q_pos s pid of (x, y, z) \<Rightarrow> point5 x y z (q_world s pid) (q_interior s pid) (q_facing s pid))"

definition GetPos :: "playerid \<Rightarrow> Coordinate3D wprog" where
  "GetPos pid = ask (\<lambda>s. case q_pos s pid of (x, y, z) \<Rightarrow> point3 x y z)"

definition GetPlaneCoordinate :: "playerid \<Rightarrow> CoordinatePlane wprog" where
  "GetPlaneCoordinate pid = ask (\<lambda>s. case q_pos s pid of (x, y, z) \<Rightarrow> plane x y)"

text \<open>The thirteen weapon slots, the empty ones left out.\<close>

definition weapons_doc :: "samp \<Rightarrow> playerid \<Rightarrow> bson list" where
  "weapons_doc s pid = map (\<lambda>i. BObj [(''id'', BInt (fst (q_weapon s pid i))), (''ammo'', BInt (snd (q_weapon s pid i)))])
     (filter (\<lambda>i. fst (q_weapon s pid i) \<noteq> 0) [0..<13])"

definition sync_doc :: "samp \<Rightarrow> profile \<Rightarrow> doc" where
  "sync_doc s p = (let pid = p_id p; g = p_gamedata p; (x, y, z) = q_pos s pid in
     [(''archive.gtasa.attribute.health'', BDbl (q_health s pid)), (''archive.gtasa.attribute.armour'', BDbl (q_armour s pid)),
      (''archive.gtasa.attribute.weapon'', BArr (weapons_doc s pid)), (''archive.gtasa.attribute.skin'', BInt (q_skin s pid)),
      (''archive.gtasa.attribute.color'', BInt (gd_color g)), (''archive.gtasa.attribute.fightingstyle'', BInt (q_fightingstyle s pid)),
      (''archive.gtasa.attribute.money'', BInt (gd_money g)), (''archive.gtasa.attribute.score'', BInt (gd_score g)),
      (''archive.gtasa.geo.coordinate'', BArr [BDbl x, BDbl y]), (''archive.gtasa.geo.height'', BDbl z),
      (''archive.gtasa.geo.direction'', BDbl (q_facing s pid)), (''archive.gtasa.geo.interior'', BInt (q_interior s pid)),
      (''archive.gtasa.geo.world'', BInt (q_world s pid))])"

definition Sync :: "playerid \<Rightarrow> unit wprog" where
  "Sync pid = seq (pget pid id) (\<lambda>p. seq (ask id) (\<lambda>s. seq (gets (\<lambda>w. UTF8ToGBK (env w))) (\<lambda>u2g.
     andthen (onProfile pid (Update (bson_set (sync_doc s p)) True)) (onProfile pid (LoadMemberData u2g)))))"

definition Profile_Create :: "playerid \<Rightarrow> string \<Rightarrow> string \<Rightarrow> unit wprog" where
  "Profile_Create pid logname password =
     seq (onDB genOID) (\<lambda>u. seq (codec GBKToUTF8 password) (\<lambda>pw. seq (digest pw) (\<lambda>hash. seq (codec GBKToUTF8 logname) (\<lambda>nick.
     seq (ask (\<lambda>s. q_ip s pid)) (\<lambda>ip.
       andthen (onProfile pid (Create (profile_doc u logname hash ip nick) True)) (Sync pid))))))"

definition AuthPassword :: "playerid \<Rightarrow> string \<Rightarrow> bool wprog" where
  "AuthPassword pid input = seq (codec GBKToUTF8 input) (\<lambda>pw. seq (digest pw) (\<lambda>d.
     pget pid (\<lambda>p. d = au_passwordhash (p_auth p))))"

definition SetPassword :: "playerid \<Rightarrow> string \<Rightarrow> unit wprog" where
  "SetPassword pid newpassword =
     (if newpassword = [] then throw (RuntimeError ''Password cannot be blank'')
      else seq (codec GBKToUTF8 newpassword) (\<lambda>pw. seq (digest pw) (\<lambda>h.
        andthen (onProfile pid (Update (bson_set [(''auth.password'', BStr h)]) False))
                (pmod pid (p_auth_update (au_passwordhash_update (\<lambda>_. h)))))))"

definition GetNickname :: "playerid \<Rightarrow> string wprog" where
  "GetNickname pid = pget pid (gd_nickname \<circ> p_gamedata)"

definition SetNickname :: "playerid \<Rightarrow> string \<Rightarrow> unit wprog" where
  "SetNickname pid nickname = seq (codec GBKToUTF8 nickname) (\<lambda>nick.
     andthen (onProfile pid (Update (bson_set [(''archive.gtasa.reginfo.nickname'', BStr nick)]) False))
             (pmod pid (p_gamedata_update (gd_nickname_update (\<lambda>_. nick)))))"

definition GetAdminLevel :: "playerid \<Rightarrow> cint wprog" where
  "GetAdminLevel pid = pget pid (au_adminlevel \<circ> p_auth)"

definition SetAdminLevel :: "playerid \<Rightarrow> cint \<Rightarrow> unit wprog" where
  "SetAdminLevel pid level =
     andthen (onProfile pid (Update (bson_set [(''archive.gtasa.mgmtlevel'', BInt level)]) False))
             (pmod pid (p_auth_update (au_adminlevel_update (\<lambda>_. level))))"

definition SetBanned :: "playerid \<Rightarrow> bool \<Rightarrow> unit wprog" where
  "SetBanned pid banned =
     andthen (onProfile pid (Update (bson_set [(''archive.gtasa.banned'', BBool banned)]) False))
             (pmod pid (p_auth_update (au_banned_update (\<lambda>_. banned))))"

definition IsSignedIn :: "playerid \<Rightarrow> bool wprog" where
  "IsSignedIn pid = pget pid (au_signedin \<circ> p_auth)"

definition SetSignedIn :: "playerid \<Rightarrow> bool \<Rightarrow> unit wprog" where
  "SetSignedIn pid signedin =
     andthen (pmod pid (p_auth_update (au_signedin_update (\<lambda>_. signedin))))
    (seq (pget pid (au_autosavetimer \<circ> p_auth)) (\<lambda>t.
       if signedin \<and> t = 0 then
         seq (config cfg_int ''Gaming.autosave'') (\<lambda>m. seq (CreateTimer (TAutoSaveProfile pid) (m * 60000) True) (\<lambda>t.
           pmod pid (p_auth_update (au_autosavetimer_update (\<lambda>_. t)))))
       else ret ()))"

definition GetTeamId :: "playerid \<Rightarrow> oid wprog" where
  "GetTeamId pid = pget pid p_team"

definition SetTeamId :: "playerid \<Rightarrow> oid \<Rightarrow> unit wprog" where
  "SetTeamId pid t = pmod pid (p_team_update (\<lambda>_. t))"

section \<open>Kill streaks, sounds, roles, variables\<close>

definition kill_step :: "int \<Rightarrow> int \<Rightarrow> KillCount \<Rightarrow> KillCount" where
  "kill_step interval t k =
     \<lparr>kc_lastkill = t,
      kc_counter = (if kc_counter k = 0 then kc_counter k + 1
                    else if interval < t - kc_lastkill k then 1 else kc_counter k + 1)\<rparr>"

definition KillCounter :: "playerid \<Rightarrow> int wprog" where
  "KillCounter pid = seq (config cfg_int ''Gaming.killinterval'') (\<lambda>i. seq (gets (\<lambda>w. now (env w))) (\<lambda>t.
     andthen (pmod pid (p_killcounter_update (kill_step (sint i) t))) (pget pid (kc_counter \<circ> p_killcounter))))"

definition PlaySound :: "playerid \<Rightarrow> int \<Rightarrow> unit wprog" where
  "PlaySound pid sound = seq (GetPos pid) (\<lambda>p. native (PlayerPlaySound pid sound (cx p) (cy p) (cz p)))"

definition GetRole :: "playerid \<Rightarrow> role wprog" where
  "GetRole pid = seq (pget pid p_role) (\<lambda>r. case r of Some r \<Rightarrow> ret r
     | None \<Rightarrow> throw (RuntimeError ''Player hasn't chosen a role''))"

definition SetVar :: "playerid \<Rightarrow> string \<Rightarrow> pvar \<Rightarrow> unit wprog" where
  "SetVar pid key v = pmod pid (p_pvars_update (setMember key v))"

definition GetVar :: "playerid \<Rightarrow> string \<Rightarrow> (pvar \<Rightarrow> 'a option) \<Rightarrow> 'a wprog" where
  "GetVar pid key as = seq (pget pid p_pvars) (\<lambda>vs. case map_of vs key of
     None \<Rightarrow> throw (RuntimeError ''Key doesn't exist'')
   | Some v \<Rightarrow> (case as v of Some x \<Rightarrow> ret x | None \<Rightarrow> throw Undefined))"

definition DelVar :: "playerid \<Rightarrow> string \<Rightarrow> bool wprog" where
  "DelVar pid key = seq (pget pid (IsExist key \<circ> p_pvars)) (\<lambda>b.
     andthen (pmod pid (p_pvars_update (\<lambda>vs. snd (Remove key vs)))) (ret b))"

definition HasVar :: "playerid \<Rightarrow> string \<Rightarrow> bool wprog" where
  "HasVar pid key = pget pid (IsExist key \<circ> p_pvars)"

definition asInt :: "pvar \<Rightarrow> int option" where
  "asInt v = (case v of PVInt i \<Rightarrow> Some i | _ \<Rightarrow> None)"
definition asTime :: "pvar \<Rightarrow> int option" where
  "asTime v = (case v of PVTime i \<Rightarrow> Some i | _ \<Rightarrow> None)"
definition asOid :: "pvar \<Rightarrow> oid option" where
  "asOid v = (case v of PVOid i \<Rightarrow> Some i | _ \<Rightarrow> None)"
definition asZone :: "pvar \<Rightarrow> GangZoneCreationInfo option" where
  "asZone v = (case v of PVZone i \<Rightarrow> Some i | _ \<Rightarrow> None)"
definition asProp :: "pvar \<Rightarrow> PropertyCreateInfo option" where
  "asProp v = (case v of PVProp i \<Rightarrow> Some i | _ \<Rightarrow> None)"
definition asRacing :: "pvar \<Rightarrow> racing option" where
  "asRacing v = (case v of PVRacing i \<Rightarrow> Some i | _ \<Rightarrow> None)"

section \<open>The manager of profiles\<close>

definition ProfileMgr_Add :: "playerid \<Rightarrow> bool wprog" where
  "ProfileMgr_Add pid = seq (ask (\<lambda>s. q_name s pid)) (\<lambda>n. seq (Profile_byName pid n) (\<lambda>p. \<lambda>w.
     (Inr (fst (Add pid p (profiles w))), set_profiles (snd (Add pid p (profiles w))) w)))"

text \<open>The destructor: the autosave timer, then the role with the engineer's tower.\<close>

definition Profile_destroy :: "profile \<Rightarrow> unit wprog" where
  "Profile_destroy p =
     andthen (whenP (au_autosavetimer (p_auth p) \<noteq> 0) (DestroyTimer (au_autosavetimer (p_auth p))))
       (case p_role p of Some r \<Rightarrow> (case rl_obj r of Some i \<Rightarrow> seq (DestroyDynamicObject i) (\<lambda>_. ret ()) | None \<Rightarrow> ret ()) | None \<Rightarrow> ret ())"

definition ProfileMgr_Remove :: "playerid \<Rightarrow> bool wprog" where
  "ProfileMgr_Remove pid w = (case map_of (profiles w) pid of
     None \<Rightarrow> (Inr False, w)
   | Some p \<Rightarrow> andthen (Profile_destroy p) (ret True) (set_profiles (snd (Remove pid (profiles w))) w))"

end
