(* ===== verification/Profile_Correct.thy ===== *)
theory Profile_Correct
  imports Profile
begin

text \<open>
  Properties of \<^verbatim>\<open>Profile\<close>: the money on the player's screen, passwords, kill streaks, health, the autosave timer, and
  the round trip of the saved attributes.
\<close>

section \<open>Money\<close>

text \<open>What the player's screen shows after a trace of native calls (latest first).\<close>

fun shown_money :: "playerid \<Rightarrow> native list \<Rightarrow> cint" where
  "shown_money pid [] = 0"
| "shown_money pid (ResetPlayerMoney q # ns) = (if q = pid then 0 else shown_money pid ns)"
| "shown_money pid (GivePlayerMoney q m # ns) = (if q = pid then shown_money pid ns + m else shown_money pid ns)"
| "shown_money pid (_ # ns) = shown_money pid ns"

lemma GiveMoney_eval:
  assumes "map_of (profiles w) pid = Some p"
  shows "GiveMoney pid m w = (Inr (), w\<lparr>
     profiles := setMember pid (p_gamedata_update (gd_money_update (\<lambda>x. x + m)) p) (profiles w),
     out := [GivePlayerMoney pid (gd_money (p_gamedata p) + m), ResetPlayerMoney pid] @ out w\<rparr>)"
  using assms by (simp add: GiveMoney_def prog_defs world_eval)

text \<open>C29. Giving money adds it to the account (modulo \<open>2^32\<close>) and leaves exactly the account on the player's screen,
  whatever the screen showed before; other players' accounts and screens do not change.\<close>

theorem money_shown_is_account:
  assumes "map_of (profiles w) pid = Some p"
  shows "\<exists>w' p'. GiveMoney pid m w = (Inr (), w') \<and> map_of (profiles w') pid = Some p'
    \<and> gd_money (p_gamedata p') = gd_money (p_gamedata p) + m
    \<and> shown_money pid (out w') = gd_money (p_gamedata p')
    \<and> (\<forall>q. q \<noteq> pid \<longrightarrow> map_of (profiles w') q = map_of (profiles w) q \<and> shown_money q (out w') = shown_money q (out w))"
  using GiveMoney_eval [OF assms] by simp

definition demo_profile :: "playerid \<Rightarrow> oid \<Rightarrow> profile" where
  "demo_profile pid u = (new_profile pid (saveable.make ''profile'' [(''_id'', BOid u)] u))
     \<lparr>p_gamedata := \<lparr>gd_nickname = ''Tom'', gd_money = 5000, gd_score = 3, gd_color = 255\<rparr>\<rparr>"

lemma demo_profile_simps [simp]:
  "sv_uniqueid (demo_profile pid u) = u" "sv_collection (demo_profile pid u) = ''profile''" "p_team (demo_profile pid u) = 0"
  "gd_money (p_gamedata (demo_profile pid u)) = 5000" "p_auth (demo_profile pid u) = \<lparr>au_passwordhash = [], au_adminlevel = 0, au_deleted = False, au_banned = False, au_signedin = False, au_autosavetimer = 0\<rparr>"
  "p_killcounter (demo_profile pid u) = \<lparr>kc_lastkill = 0, kc_counter = 0\<rparr>" "p_role (demo_profile pid u) = None"
  "p_pvars (demo_profile pid u) = []" "p_id (demo_profile pid u) = pid" "sv_rawdata (demo_profile pid u) = [(''_id'', BOid u)]"
  by (simp_all add: demo_profile_def new_profile_def saveable.defs profile.defs oid_clear_def)

definition demo_players :: "world" where
  "demo_players = demo_world\<lparr>profiles := [(1, demo_profile 1 11), (2, demo_profile 2 12)]\<rparr>"

theorem money_shown_is_account_witness:
  "\<exists>w'. GiveMoney 1 250 demo_players = (Inr (), w') \<and> shown_money 1 (out w') = 5250 \<and> shown_money 2 (out w') = 0"
  using money_shown_is_account [of demo_players 1 "demo_profile 1 11" 250]
  by (auto simp: demo_players_def)

section \<open>Passwords\<close>

lemma codec_eval: "codec f s w = (Inr (f (env w) s), w)"
  by (simp add: codec_def gets_def)

lemma digest_returns: "digest s w = (Inr d, w') \<longleftrightarrow> GetPasswordDigest s = Some d \<and> w' = w"
  by (auto simp: digest_def liftR_def split: option.splits)

lemma onProfile_Update:
  "onProfile pid (Update m False) w = (Inr u, w1) \<Longrightarrow> map_of (profiles w) pid = Some p \<Longrightarrow>
   \<exists>d. w1 = w\<lparr>db := d, profiles := setMember pid p (profiles w)\<rparr>
     \<and> db_log d = DbUpdate (sv_collection p) (sv_uniqueid p) m # db_log (db w)"
  using onMember_Update [of profiles set_profiles pid m w "Inr ()" w1 p] by auto

lemma SetPassword_returns:
  assumes "SetPassword pid s w = (Inr u, w')" and "map_of (profiles w) pid = Some p"
  shows "\<exists>h d. s \<noteq> [] \<and> GetPasswordDigest (GBKToUTF8 (env w) s) = Some h
    \<and> db_log d = DbUpdate (sv_collection p) (sv_uniqueid p) (bson_set [(''auth.password'', BStr h)]) # db_log (db w)
    \<and> w' = w\<lparr>db := d, profiles := setMember pid (p_auth_update (au_passwordhash_update (\<lambda>_. h)) p)
         (setMember pid p (profiles w))\<rparr>"
  using assms unfolding SetPassword_def
  by (auto split: if_splits simp: throw_def codec_eval digest_returns modMember_def
      elim!: seq_returns andthen_returns dest!: onProfile_Update)

text \<open>C30. After a password was set, the document was updated with its digest once, and an attempt
  to sign in succeeds exactly when the digest of the input is the digest of that password.\<close>

theorem password_set_then_checked:
  assumes "SetPassword pid s w = (Inr u, w')" and "map_of (profiles w) pid = Some p"
    and "GetPasswordDigest (GBKToUTF8 (env w) input) = Some d"
  shows "\<exists>h. GetPasswordDigest (GBKToUTF8 (env w) s) = Some h
    \<and> db_log (db w') = DbUpdate (sv_collection p) (sv_uniqueid p) (bson_set [(''auth.password'', BStr h)]) # db_log (db w)
    \<and> AuthPassword pid input w' = (Inr (d = h), w')
    \<and> AuthPassword pid s w' = (Inr True, w')"
proof -
  from SetPassword_returns [OF assms(1,2)] obtain h d' where
    h: "GetPasswordDigest (GBKToUTF8 (env w) s) = Some h" and
    log: "db_log d' = DbUpdate (sv_collection p) (sv_uniqueid p) (bson_set [(''auth.password'', BStr h)]) # db_log (db w)" and
    w': "w' = w\<lparr>db := d', profiles := setMember pid (p_auth_update (au_passwordhash_update (\<lambda>_. h)) p)
         (setMember pid p (profiles w))\<rparr>"
    by blast
  have "AuthPassword pid x w' = (Inr (e = h), w')" if "GetPasswordDigest (GBKToUTF8 (env w) x) = Some e" for x e
    by (simp add: AuthPassword_def codec_eval seq_def digest_def liftR_def w' that readMember_def)
  with h log assms(3) w' show ?thesis by simp
qed

section \<open>Kill streaks\<close>

text \<open>The kills of a player, latest first: the streak ends where two kills are more than the interval apart.\<close>

fun streak :: "int \<Rightarrow> int list \<Rightarrow> int" where
  "streak interval [] = 0"
| "streak interval [t] = 1"
| "streak interval (t # t' # ts) = (if interval < t - t' then 1 else streak interval (t' # ts) + 1)"

lemma streak_pos: "ts \<noteq> [] \<Longrightarrow> 0 < streak i ts"
  by (induction i ts rule: streak.induct) auto

lemma kill_steps_streak:
  "fold (kill_step i) ts \<lparr>kc_lastkill = t0, kc_counter = 0\<rparr> =
   \<lparr>kc_lastkill = (case rev ts of [] \<Rightarrow> t0 | t # _ \<Rightarrow> t), kc_counter = streak i (rev ts)\<rparr>"
proof (induction ts rule: rev_induct)
  case Nil
  then show ?case by simp
next
  case (snoc t ts)
  show ?case
  proof (cases "rev ts")
    case Nil
    with snoc show ?thesis by (simp add: kill_step_def)
  next
    case (Cons t' ts')
    with snoc streak_pos [of "rev ts" i] show ?thesis by (simp add: kill_step_def)
  qed
qed

text \<open>The counter after any sequence of kills is the length of the streak: the number of last
  kills of which no two neighbours are more than the configured interval apart.\<close>

theorem kill_counter_is_streak:
  "kc_counter (fold (kill_step i) ts \<lparr>kc_lastkill = 0, kc_counter = 0\<rparr>) = streak i (rev ts)"
  by (simp add: kill_steps_streak)

section \<open>Health\<close>

text \<open>Giving health never lowers it and never takes it above 100: the new value is between the old
  one and 100 for every old value up to 100.\<close>

theorem health_limited:
  assumes "is_float h" and "is_float g" and "0 \<le> g" and "h \<le> 100"
  shows "h \<le> new_health h g \<and> new_health h g \<le> 100"
proof (cases "g < fl32 (100 - h)")
  case True
  have "g \<le> 100 - h"
  proof (rule ccontr)
    assume "\<not> g \<le> 100 - h"
    then have "fl32 (100 - h) \<le> g" using assms(2) by (intro fl32_le_float) simp_all
    with True show False by simp
  qed
  then have "fl32 (h + g) \<le> 100" by (intro fl32_le_float) simp_all
  moreover have "h \<le> fl32 (h + g)" using assms by (intro fl32_ge_float) simp_all
  ultimately show ?thesis using True by (simp add: new_health_def)
next
  case False
  with assms(4) show ?thesis by (simp add: new_health_def)
qed

theorem health_limited_witness: "50 \<le> new_health 50 50 \<and> new_health 50 50 \<le> 100"
  using health_limited [of 50 50] by simp

lemma digest_exists: "length s < 56 \<Longrightarrow> \<exists>h. GetPasswordDigest s = Some h"
proof -
  assume "length s < 56"
  then have "length (bytes_of (salt1 @ s @ salt2)) < 2 ^ 28" "length (bytes_of (salt1 @ s @ salt2)) mod 64 < 56"
    unfolding salted_mod by (simp_all add: length_salted)
  from sha256_computes [OF this] show ?thesis by (simp add: GetPasswordDigest_def)
qed

theorem password_set_then_checked_witness:
  "\<exists>w'. SetPassword 1 ''secret'' demo_players = (Inr (), w') \<and> AuthPassword 1 ''secret'' w' = (Inr True, w')"
proof -
  obtain h where h: "GetPasswordDigest ''secret'' = Some h" using digest_exists [of "''secret''"] by auto
  have "\<exists>w'. SetPassword 1 ''secret'' demo_players = (Inr (), w')"
    by (simp add: SetPassword_def codec_eval digest_def h onMember_def modMember_def Update_def demo_players_def
        demo_env_def demo_eval demo_profile_def new_profile_def profile.defs)
  then obtain w' where w': "SetPassword 1 ''secret'' demo_players = (Inr (), w')" ..
  have "map_of (profiles demo_players) 1 = Some (demo_profile 1 11)"
    and "GetPasswordDigest (GBKToUTF8 (env demo_players) ''secret'') = Some h"
    by (simp_all add: demo_players_def demo_env_def h)
  from password_set_then_checked [OF w' this] w' show ?thesis by blast
qed

section \<open>The autosave timer\<close>

definition autosaves :: "playerid \<Rightarrow> world \<Rightarrow> int list" where
  "autosaves pid w = map fst (filter (\<lambda>(h, t). tm_callback t = TAutoSaveProfile pid) (timers w))"

text \<open>The profile's timer member names its only autosave timer, 0 when there is none.\<close>

definition autosave_ok :: "playerid \<Rightarrow> world \<Rightarrow> bool" where
  "autosave_ok pid w \<longleftrightarrow> 0 < next_timer w \<and> (case map_of (profiles w) pid of
     Some p \<Rightarrow> autosaves pid w = (if au_autosavetimer (p_auth p) = 0 then [] else [au_autosavetimer (p_auth p)])
   | None \<Rightarrow> autosaves pid w = [])"

lemma SetSignedIn_eval:
  assumes "map_of (profiles w) pid = Some p"
  shows "SetSignedIn pid b w =
    (let p1 = p_auth_update (au_signedin_update (\<lambda>_. b)) p; w1 = w\<lparr>profiles := setMember pid p1 (profiles w)\<rparr> in
     if b \<and> au_autosavetimer (p_auth p) = 0 then
       (case cfg_int (env w) ''Gaming.autosave'' of None \<Rightarrow> (Inl bad_path, w1)
        | Some m \<Rightarrow> (Inr (), w1\<lparr>profiles := setMember pid (p_auth_update (au_autosavetimer_update (\<lambda>_. next_timer w)) p1) (profiles w1),
            timers := timers w @ [(next_timer w, \<lparr>tm_callback = TAutoSaveProfile pid, tm_period = m * 60000, tm_repeat = True, tm_fired = False\<rparr>)],
            next_timer := next_timer w + 1\<rparr>))
     else (Inr (), w1))"
  using assms by (simp add: SetSignedIn_def prog_defs world_eval config_def CreateTimer_def Let_def split: option.split)

text \<open>A player has at most one autosave timer, the one the profile will delete: signing in creates one when there is
  none, signing in again and signing out create none, also when the configuration cannot be read.\<close>

theorem one_autosave_timer:
  assumes "autosave_ok pid w" and "map_of (profiles w) pid = Some p" and "SetSignedIn pid b w = (r, w')"
  shows "autosave_ok pid w' \<and> (r = Inr () \<longrightarrow> b \<longrightarrow> length (autosaves pid w') = 1)"
proof (cases "b \<and> au_autosavetimer (p_auth p) = 0")
  case True
  from assms(1,2) True have auto: "autosaves pid w = []" "0 < next_timer w" by (simp_all add: autosave_ok_def)
  show ?thesis
  proof (cases "cfg_int (env w) ''Gaming.autosave''")
    case None
    with assms(3) True SetSignedIn_eval [OF assms(2), of b] have
      "r = Inl bad_path" "w' = w\<lparr>profiles := setMember pid (p_auth_update (au_signedin_update (\<lambda>_. b)) p) (profiles w)\<rparr>"
      by (simp_all add: Let_def)
    with auto True show ?thesis by (simp add: autosave_ok_def) (simp add: autosaves_def)
  next
    case (Some m)
    define p' where "p' = p_auth_update (au_autosavetimer_update (\<lambda>_. next_timer w)) (p_auth_update (au_signedin_update (\<lambda>_. b)) p)"
    define tm where "tm = \<lparr>tm_callback = TAutoSaveProfile pid, tm_period = m * 60000, tm_repeat = True, tm_fired = False\<rparr>"
    from Some assms(3) True SetSignedIn_eval [OF assms(2), of b] obtain ps where w':
      "w' = w\<lparr>profiles := setMember pid p' ps, timers := timers w @ [(next_timer w, tm)], next_timer := next_timer w + 1\<rparr>"
      by (simp add: Let_def p'_def tm_def)
    have "autosaves pid w' = [next_timer w]"
      using auto(1) by (simp add: w' autosaves_def tm_def)
    moreover have "map_of (profiles w') pid = Some p'" "au_autosavetimer (p_auth p') = next_timer w"
      by (simp_all add: w' p'_def)
    ultimately show ?thesis using auto(2) by (simp add: autosave_ok_def) (simp add: w')
  qed
next
  case False
  with assms(3) SetSignedIn_eval [OF assms(2), of b] have
    "w' = w\<lparr>profiles := setMember pid (p_auth_update (au_signedin_update (\<lambda>_. b)) p) (profiles w)\<rparr>"
    by (auto simp: Let_def split: if_splits)
  moreover from this have "autosaves pid w' = autosaves pid w" by (simp add: autosaves_def)
  ultimately show ?thesis using False assms(1,2) by (cases b) (auto simp: autosave_ok_def)
qed

theorem one_autosave_timer_witness:
  "\<exists>w'. SetSignedIn 1 True demo_players = (Inr (), w') \<and> length (autosaves 1 w') = 1"
proof -
  have p: "map_of (profiles demo_players) 1 = Some (demo_profile 1 11)" by (simp add: demo_players_def)
  have t: "au_autosavetimer (p_auth (demo_profile 1 11)) = 0"
    by (simp add: demo_profile_def new_profile_def saveable.defs profile.defs)
  have ok: "autosave_ok 1 demo_players"
    using t by (simp add: autosave_ok_def autosaves_def demo_players_def)
  obtain w' where w': "SetSignedIn 1 True demo_players = (Inr (), w')"
    using SetSignedIn_eval [OF p, of True] t by (simp add: Let_def demo_players_def demo_env_def)
  from one_autosave_timer [OF ok p this] w' show ?thesis by blast
qed

section \<open>Saving and restoring\<close>

text \<open>A document to which the \<^verbatim>\<open>$set\<close> of a \<open>Sync\<close> was applied holds what was sent for the attributes.\<close>

definition attributes_saved :: "samp \<Rightarrow> profile \<Rightarrow> doc \<Rightarrow> bool" where
  "attributes_saved s p att \<longleftrightarrow> (\<forall>f \<in> {''color'', ''fightingstyle'', ''money'', ''score''}.
     map_of (sync_doc s p) (''archive.gtasa.attribute.'' @ f) = Some (getField att f))"

lemma number_int_BInt: "getField d f = BInt i \<Longrightarrow> number_int d f = Inr i"
  using int_of_double_of_int [of i] by (simp add: number_int_def bindR_def bson_Number_def)

lemma attributes_savedD:
  assumes "attributes_saved s p att"
  shows "number_int att ''color'' = Inr (gd_color (p_gamedata p))"
    "number_int att ''fightingstyle'' = Inr (q_fightingstyle s (p_id p))"
    "number_int att ''money'' = Inr (gd_money (p_gamedata p))"
    "number_int att ''score'' = Inr (gd_score (p_gamedata p))"
  using assms by (auto intro!: number_int_BInt simp: attributes_saved_def sync_doc_def Let_def split: prod.splits)



end
