(* ===== verification/Team.thy ===== *)
theory Team
  imports Profile_Correct
begin

text \<open>
  Teams (\<^verbatim>\<open>application_data_team.cpp\<close>) and their manager (\<^verbatim>\<open>TeamManager\<close> in \<^verbatim>\<open>application_gamemode_manager_classes.cpp\<close>), keyed by
  the printed object id. The invariant ties the list of players a team has online to the team each player belongs to.
\<close>

section \<open>Team\<close>

definition Team_LoadData :: "(string \<Rightarrow> string) \<Rightarrow> (team \<times> dbst, unit) prog" where
  "Team_LoadData u2g = seq (gets (sv_rawdata \<circ> fst)) (\<lambda>raw.
     andthen (assign (bson_String (getField raw ''name'')) (\<lambda>s. t_name_update (\<lambda>_. u2g s)))
    (andthen (assign (number_int raw ''color'') (\<lambda>c. t_color_update (\<lambda>_. c)))
             (assign (bson_OID (getField raw ''leader'')) (\<lambda>u. t_leader_update (\<lambda>_. u)))))"

definition new_team :: "saveable \<Rightarrow> oid \<Rightarrow> string \<Rightarrow> cint \<Rightarrow> int \<Rightarrow> team" where
  "new_team s leader name color teamid = saveable.extend s (team.fields name [] teamid color leader)"

text \<open>The constructors from the database leave \<open>_color\<close> to \<open>__LoadData\<close>.\<close>

definition Team_byID :: "oid \<Rightarrow> int \<Rightarrow> team wprog" where
  "Team_byID u teamid = seq (config cfg_string ''Database.team'') (\<lambda>c. seq (onDB (saveable_byID c u)) (\<lambda>s.
     seq (gets env) (\<lambda>e. seq (onNew (new_team s oid_clear [] (of_int (uninitialised e)) teamid) (Team_LoadData (UTF8ToGBK e))) (\<lambda>(_, t). ret t))))"

definition Team_byData :: "doc \<Rightarrow> int \<Rightarrow> team wprog" where
  "Team_byData data teamid = seq (config cfg_string ''Database.team'') (\<lambda>c. seq (gets env) (\<lambda>e.
     seq (onNew (new_team (saveable_new c) oid_clear [] (of_int (uninitialised e)) teamid)
       (andthen (InitData data) (Team_LoadData (UTF8ToGBK e)))) (\<lambda>(_, t). ret t)))"

definition Team_new :: "oid \<Rightarrow> string \<Rightarrow> cint \<Rightarrow> int \<Rightarrow> team wprog" where
  "Team_new leader name color teamid = seq (config cfg_string ''Database.team'') (\<lambda>c.
     ret (new_team (saveable_new c) leader name color teamid))"

definition InGame :: "playerid \<Rightarrow> team \<Rightarrow> bool" where
  "InGame pid t \<longleftrightarrow> IsExist pid (t_onlineplayers t)"

definition HasOnlineMember :: "team \<Rightarrow> bool" where
  "HasOnlineMember t \<longleftrightarrow> t_onlineplayers t \<noteq> []"

definition Join :: "string \<Rightarrow> playerid \<Rightarrow> unit wprog" where
  "Join k pid = seq (tget k id) (\<lambda>t.
     if InGame pid t then throw (RuntimeError ''You have already been on this team'')
     else seq (GetTeamId pid) (\<lambda>u.
       if oid_isSet u then throw (RuntimeError ''You have already been on another team'')
       else andthen (native (SetPlayerTeam pid (t_ingameteamid t)))
           (andthen (SetTeamId pid (sv_uniqueid t))
           (andthen (SendChatMessage pid COLOR_SUCC (''You have joined '' @ t_name t))
           (seq (pget pid sv_uniqueid) (\<lambda>pu. tmod k (t_onlineplayers_update (\<lambda>m. snd (Add pid pu m)))))))))"

definition Quit :: "string \<Rightarrow> playerid \<Rightarrow> unit wprog" where
  "Quit k pid = seq (tget k id) (\<lambda>t.
     if \<not> InGame pid t then throw (RuntimeError ''You are not on this team'')
     else andthen (native (SetPlayerTeam pid NO_TEAM))
         (andthen (SetTeamId pid oid_clear)
         (andthen (SendChatMessage pid COLOR_SUCC (''You have quit '' @ t_name t))
                  (tmod k (t_onlineplayers_update (\<lambda>m. snd (Remove pid m)))))))"

definition Team_SetName :: "string \<Rightarrow> string \<Rightarrow> unit wprog" where
  "Team_SetName k name = seq (codec GBKToUTF8 name) (\<lambda>n.
     andthen (onTeam k (Update (bson_set [(''name'', BStr n)]) False)) (tmod k (t_name_update (\<lambda>_. name))))"

definition Team_SetColor :: "string \<Rightarrow> cint \<Rightarrow> unit wprog" where
  "Team_SetColor k color =
     andthen (onTeam k (Update (bson_set [(''color'', BInt color)]) False)) (tmod k (t_color_update (\<lambda>_. color)))"

definition team_doc :: "oid \<Rightarrow> string \<Rightarrow> team \<Rightarrow> doc" where
  "team_doc u name t = [(''_id'', BOid u), (''name'', BStr name), (''leader'', BOid (t_leader t)), (''color'', BInt (t_color t))]"

text \<open>\<^verbatim>\<open>Team::Create\<close> on a team that is being built.\<close>

definition Team_Create :: "team \<Rightarrow> team wprog" where
  "Team_Create t = seq (onDB genOID) (\<lambda>u. seq (codec GBKToUTF8 (t_name t)) (\<lambda>n.
     seq (onNew t (Create (team_doc u n t) False)) (\<lambda>(_, t). ret t)))"

section \<open>TeamManager\<close>

definition team_newid :: "int wprog" where
  "team_newid w = (Inr (fst (ia_Get (team_idgen w))), w\<lparr>team_idgen := snd (ia_Get (team_idgen w))\<rparr>)"

definition TeamMgr_insert :: "team \<Rightarrow> bool wprog" where
  "TeamMgr_insert t w = (let (r, m) = Add (oid_str (sv_uniqueid t)) t (teams w) in (Inr r, w\<lparr>teams := m\<rparr>))"

definition TeamMgr_Add :: "oid \<Rightarrow> string \<Rightarrow> cint \<Rightarrow> bool wprog" where
  "TeamMgr_Add leader name color = seq team_newid (\<lambda>i. seq (Team_new leader name color i) (\<lambda>t.
     seq (Team_Create t) TeamMgr_insert))"

text \<open>\<^verbatim>\<open>iter->second\<close> without a check: removing a team that is not there is undefined.\<close>

definition TeamMgr_Remove :: "oid \<Rightarrow> bool wprog" where
  "TeamMgr_Remove u w = (case map_of (teams w) (oid_str u) of
     None \<Rightarrow> (Inl Undefined, w)
   | Some t \<Rightarrow> (case Remove (oid_str (sv_uniqueid t)) (teams w) of
       (True, m) \<Rightarrow> (Inr True, w\<lparr>teams := m, team_idgen := ia_Return (t_ingameteamid t) (team_idgen w)\<rparr>)
     | (False, m) \<Rightarrow> (Inr False, w\<lparr>teams := m\<rparr>)))"

definition TeamMgr_LoadAll :: "unit wprog" where
  "TeamMgr_LoadAll =
     andthen (modify (\<lambda>w. w\<lparr>team_idgen := fold (\<lambda>(k, t). ia_Return (t_ingameteamid t)) (teams w) (team_idgen w), teams := []\<rparr>))
    (seq (config cfg_string ''Database.team'') (\<lambda>c. seq (onDB (queryAll c)) (\<lambda>ds.
       forEach ds (\<lambda>d. seq team_newid (\<lambda>i. seq (Team_byData d i) (\<lambda>t. seq (TeamMgr_insert t) (\<lambda>_. ret ())))))))"

text \<open>\<^verbatim>\<open>TeamMgr[id]\<close>: the key of an existing team.\<close>

definition TeamMgr_get :: "oid \<Rightarrow> string wprog" where
  "TeamMgr_get u = andthen (getRef teams (oid_str u)) (ret (oid_str u))"

section \<open>Membership\<close>

text \<open>Teams are filed under their ids, ids are set, and a player is in a team's list exactly when the player's team is that team.\<close>

definition teams_ok :: "world \<Rightarrow> bool" where
  "teams_ok w \<longleftrightarrow> (\<forall>k t. map_of (teams w) k = Some t \<longrightarrow>
     k = oid_str (sv_uniqueid t) \<and> oid_isSet (sv_uniqueid t) \<and> distinct (map fst (t_onlineplayers t))
     \<and> (\<forall>q. InGame q t \<longleftrightarrow> (\<exists>p. map_of (profiles w) q = Some p \<and> p_team p = sv_uniqueid t)))"

lemma Join_eval:
  assumes "map_of (teams w) k = Some t" and "map_of (profiles w) pid = Some p"
  shows "Join k pid w =
    (if InGame pid t then (Inl (RuntimeError ''You have already been on this team''), w)
     else if oid_isSet (p_team p) then (Inl (RuntimeError ''You have already been on another team''), w)
     else (Inr (), w\<lparr>out := [SendClientMessage pid COLOR_SUCC (''You have joined '' @ t_name t), SetPlayerTeam pid (t_ingameteamid t)] @ out w,
       profiles := setMember pid (p\<lparr>p_team := sv_uniqueid t\<rparr>) (profiles w),
       teams := setMember k (t_onlineplayers_update (\<lambda>m. snd (Add pid (sv_uniqueid p) m)) t) (teams w)\<rparr>))"
  using assms by (simp add: Join_def prog_defs world_eval GetTeamId_def SetTeamId_def SendChatMessage_def)

lemma Quit_eval:
  assumes "map_of (teams w) k = Some t" and "map_of (profiles w) pid = Some p"
  shows "Quit k pid w =
    (if \<not> InGame pid t then (Inl (RuntimeError ''You are not on this team''), w)
     else (Inr (), w\<lparr>out := [SendClientMessage pid COLOR_SUCC (''You have quit '' @ t_name t), SetPlayerTeam pid NO_TEAM] @ out w,
       profiles := setMember pid (p\<lparr>p_team := 0\<rparr>) (profiles w),
       teams := setMember k (t_onlineplayers_update (\<lambda>m. snd (Remove pid m)) t) (teams w)\<rparr>))"
  using assms by (simp add: Quit_def prog_defs world_eval SetTeamId_def SendChatMessage_def oid_clear_def)

lemma InGame_Add: "InGame q (t_onlineplayers_update (\<lambda>m. snd (Add pid u m)) t) \<longleftrightarrow> q = pid \<or> InGame q t"
  by (auto simp: InGame_def members.exists_content members.add_content)

lemma InGame_Remove:
  "distinct (map fst (t_onlineplayers t)) \<Longrightarrow> InGame q (t_onlineplayers_update (\<lambda>m. snd (Remove pid m)) t) \<longleftrightarrow> q \<noteq> pid \<and> InGame q t"
  by (auto simp: InGame_def members.exists_content members.remove_content members_ok_def)

lemma teams_ok_keys:
  assumes "teams_ok w" and "map_of (teams w) k = Some t" and "map_of (teams w) k' = Some t'" and "k' \<noteq> k"
  shows "sv_uniqueid t' \<noteq> sv_uniqueid t" and "oid_isSet (sv_uniqueid t')"
proof -
  have "k = oid_str (sv_uniqueid t)" "k' = oid_str (sv_uniqueid t')" "oid_isSet (sv_uniqueid t')"
    using assms(1-3) unfolding teams_ok_def by blast+
  with assms(4) show "sv_uniqueid t' \<noteq> sv_uniqueid t" and "oid_isSet (sv_uniqueid t')" by auto
qed

lemma teams_ok_Join:
  assumes "teams_ok w" and "map_of (teams w) k = Some t" and "map_of (profiles w) pid = Some p"
  shows "teams_ok (snd (Join k pid w))"
proof (cases "InGame pid t \<or> oid_isSet (p_team p)")
  case True
  with assms show ?thesis by (auto simp: Join_eval)
next
  case False
  have d: "distinct (map fst (snd (Add pid u m)))" if "distinct (map fst m)" for u and m :: "(playerid \<times> oid) list"
    using members.ok_add [of m pid u] that by (simp add: members_ok_def)
  show ?thesis
    unfolding teams_ok_def
  proof (intro allI impI)
    fix k' t' assume t': "map_of (teams (snd (Join k pid w))) k' = Some t'"
    show "k' = oid_str (sv_uniqueid t') \<and> oid_isSet (sv_uniqueid t') \<and> distinct (map fst (t_onlineplayers t'))
      \<and> (\<forall>q. InGame q t' \<longleftrightarrow> (\<exists>p. map_of (profiles (snd (Join k pid w))) q = Some p \<and> p_team p = sv_uniqueid t'))"
    proof (cases "k' = k")
      case True
      with t' False have "t' = t_onlineplayers_update (\<lambda>m. snd (Add pid (sv_uniqueid p) m)) t"
        by (simp add: Join_eval [OF assms(2,3)])
      then show ?thesis using assms(1,2) False True d by (auto simp: Join_eval [OF assms(2,3)] InGame_Add teams_ok_def)
    next
      case other: False
      with t' False have t'w: "map_of (teams w) k' = Some t'" by (simp add: Join_eval [OF assms(2,3)])
      with teams_ok_keys [OF assms(1,2) _ other] have "sv_uniqueid t' \<noteq> sv_uniqueid t" by blast
      moreover have "\<not> InGame pid t'" using assms(1,3) False t'w by (auto simp: teams_ok_def)
      ultimately show ?thesis using assms(1) t'w False by (auto simp: Join_eval [OF assms(2,3)] teams_ok_def)
    qed
  qed
qed

lemma teams_ok_Quit:
  assumes "teams_ok w" and "map_of (teams w) k = Some t" and "map_of (profiles w) pid = Some p"
  shows "teams_ok (snd (Quit k pid w))"
proof (cases "InGame pid t")
  case False
  with assms show ?thesis by (simp add: Quit_eval)
next
  case True
  have d: "distinct (map fst (snd (Remove pid m)))" if "distinct (map fst m)" for m :: "(playerid \<times> oid) list"
    using members.ok_remove [of m pid] that by (simp add: members_ok_def)
  have team: "p_team p = sv_uniqueid t" "oid_isSet (sv_uniqueid t)"
    using assms True by (auto simp: teams_ok_def)
  show ?thesis
    unfolding teams_ok_def
  proof (intro allI impI)
    fix k' t' assume t': "map_of (teams (snd (Quit k pid w))) k' = Some t'"
    show "k' = oid_str (sv_uniqueid t') \<and> oid_isSet (sv_uniqueid t') \<and> distinct (map fst (t_onlineplayers t'))
      \<and> (\<forall>q. InGame q t' \<longleftrightarrow> (\<exists>p. map_of (profiles (snd (Quit k pid w))) q = Some p \<and> p_team p = sv_uniqueid t'))"
    proof (cases "k' = k")
      case k: True
      with t' True have "t' = t_onlineplayers_update (\<lambda>m. snd (Remove pid m)) t"
        by (simp add: Quit_eval [OF assms(2,3)])
      then show ?thesis using assms(1,2) True k d team
        by (auto simp: Quit_eval [OF assms(2,3)] InGame_Remove teams_ok_def oid_isSet_def)
    next
      case other: False
      with t' True have t'w: "map_of (teams w) k' = Some t'" by (simp add: Quit_eval [OF assms(2,3)])
      with teams_ok_keys [OF assms(1,2) _ other] have "sv_uniqueid t' \<noteq> sv_uniqueid t" "oid_isSet (sv_uniqueid t')" by blast+
      then show ?thesis using assms(1,3) t'w True team
        by (auto simp: Quit_eval [OF assms(2,3)] teams_ok_def oid_isSet_def)
    qed
  qed
qed

section \<open>Every sequence of joins and quits\<close>

datatype team_call = CallJoin string playerid | CallQuit string playerid

definition team_run :: "team_call \<Rightarrow> world \<Rightarrow> world" where
  "team_run c w = (case c of CallJoin k q \<Rightarrow> snd (Join k q w) | CallQuit k q \<Rightarrow> snd (Quit k q w))"

lemma teams_ok_call: "teams_ok w \<Longrightarrow> teams_ok (team_run c w)"
proof (cases c)
  case (CallJoin k q)
  assume ok: "teams_ok w"
  show ?thesis
  proof (cases "map_of (teams w) k")
    case None
    with ok CallJoin show ?thesis by (simp add: team_run_def Join_def prog_defs readMember_def)
  next
    case t: (Some t)
    show ?thesis
    proof (cases "map_of (profiles w) q")
      case None
      with ok t CallJoin show ?thesis by (simp add: team_run_def Join_def prog_defs readMember_def GetTeamId_def)
    next
      case (Some p)
      with ok t CallJoin show ?thesis by (simp add: team_run_def teams_ok_Join)
    qed
  qed
next
  case (CallQuit k q)
  assume ok: "teams_ok w"
  show ?thesis
  proof (cases "map_of (teams w) k")
    case None
    with ok CallQuit show ?thesis by (simp add: team_run_def Quit_def prog_defs readMember_def)
  next
    case t: (Some t)
    show ?thesis
    proof (cases "map_of (profiles w) q")
      case None
      with ok t have "\<not> InGame q t" by (simp add: teams_ok_def)
      with ok t CallQuit show ?thesis by (simp add: team_run_def Quit_def prog_defs readMember_def)
    next
      case (Some p)
      with ok t CallQuit show ?thesis by (simp add: team_run_def teams_ok_Quit)
    qed
  qed
qed


definition demo_team :: "oid \<Rightarrow> int \<Rightarrow> team" where
  "demo_team u i = new_team (saveable.make ''team'' [(''_id'', BOid u)] u) 11 ''Grove'' 0x00FF00FF i"

lemma demo_team_simps [simp]:
  "sv_uniqueid (demo_team u i) = u" "t_onlineplayers (demo_team u i) = []" "t_name (demo_team u i) = ''Grove''"
  "t_ingameteamid (demo_team u i) = i" "t_color (demo_team u i) = 0x00FF00FF" "sv_collection (demo_team u i) = ''team''"
  by (simp_all add: demo_team_def new_team_def saveable.defs team.defs)

definition demo_teams :: world where
  "demo_teams = demo_players\<lparr>teams := [(oid_str 21, demo_team 21 1), (oid_str 22, demo_team 22 2)]\<rparr>"

lemma demo_teams_ok: "teams_ok demo_teams"
  by (auto simp: teams_ok_def demo_teams_def demo_players_def InGame_def IsExist_def oid_isSet_def split: if_splits)


end
