(* ===== verification/Items.thy ===== *)
theory Items
  imports Texts Team
begin

text \<open>
  The items the game mode places in the world and the managers that own them: pickups, map icons and dynamic areas
  (\<^verbatim>\<open>application_gamemode_item_streamed.h\<close>, the constructors in \<^verbatim>\<open>application_gamemode_item_pickup_classes.cpp\<close> and
  \<^verbatim>\<open>application_gamemode_item_dynamicarea_classes.cpp\<close>, \<^verbatim>\<open>PickupManager\<close> and \<^verbatim>\<open>DynamicAreaManager\<close>), and the table of
  dialogs (\<^verbatim>\<open>DialogManager\<close>). An item is the RAII owner of a streamer id: it is created by its constructor and destroyed
  when the manager drops the last pointer.
\<close>

section \<open>Pickups\<close>

text \<open>The model, and whether the pickup is used up, for each class of pickup.\<close>

definition pickup_model :: "effect \<Rightarrow> int" where
  "pickup_model e = (case e of MedicalPickup _ \<Rightarrow> 1240 | WealthPickup _ _ \<Rightarrow> 1550
     | WeaponPickup weapon _ \<Rightarrow> ConvertWeaponIDToModelID weapon | TurfWarTrigger _ \<Rightarrow> 1314 | TeleportTrigger _ \<Rightarrow> 1318
     | PropertyMarker_OnSale _ \<Rightarrow> 1273 | PropertyMarker_Sold _ \<Rightarrow> 1272)"

definition disposable :: "effect \<Rightarrow> bool" where
  "disposable e = (case e of MedicalPickup _ \<Rightarrow> True | WealthPickup _ _ \<Rightarrow> True | WeaponPickup _ _ \<Rightarrow> True
     | TurfWarTrigger _ \<Rightarrow> False | TeleportTrigger _ \<Rightarrow> False | PropertyMarker_OnSale _ \<Rightarrow> False | PropertyMarker_Sold _ \<Rightarrow> False)"

definition Pickup_new :: "effect \<Rightarrow> flt \<Rightarrow> flt \<Rightarrow> flt \<Rightarrow> int wprog" where
  "Pickup_new e x y z = CreateDynamicPickup (pickup_model e) 1 (x, y, z) (-1) (-1) (-1) 100"

definition Pickup_destroy :: "int \<Rightarrow> unit wprog" where
  "Pickup_destroy i = seq (DestroyDynamicPickup i) (\<lambda>_. ret ())"

text \<open>\<^verbatim>\<open>PickupMgr.Add(ptr)\<close>: a pickup that is refused is destroyed with its pointer.\<close>

definition PickupMgr_Add :: "int \<Rightarrow> effect \<Rightarrow> bool wprog" where
  "PickupMgr_Add i e w = (case Add i (e, disposable e) (pickups w) of
     (True, m) \<Rightarrow> (Inr True, w\<lparr>pickups := m\<rparr>)
   | (False, m) \<Rightarrow> andthen (Pickup_destroy i) (ret False) w)"

definition PickupMgr_Remove :: "int \<Rightarrow> bool wprog" where
  "PickupMgr_Remove i w = (case Remove i (pickups w) of
     (True, m) \<Rightarrow> andthen (Pickup_destroy i) (ret True) (w\<lparr>pickups := m\<rparr>)
   | (False, m) \<Rightarrow> (Inr False, w))"

definition PlacePickup :: "effect \<Rightarrow> flt \<Rightarrow> flt \<Rightarrow> flt \<Rightarrow> int wprog" where
  "PlacePickup e x y z = seq (Pickup_new e x y z) (\<lambda>i. seq (PickupMgr_Add i e) (\<lambda>_. ret i))"

section \<open>Map icons and areas\<close>

definition MapIcon_new :: "int \<Rightarrow> cint \<Rightarrow> flt \<Rightarrow> flt \<Rightarrow> flt \<Rightarrow> int \<Rightarrow> int \<Rightarrow> int \<Rightarrow> flt \<Rightarrow> int wprog" where
  "MapIcon_new t color x y z world int' player distance = CreateDynamicMapIcon (x, y, z) t color world int' player distance"

definition MapIcon_destroy :: "int option \<Rightarrow> unit wprog" where
  "MapIcon_destroy i = (case i of None \<Rightarrow> ret () | Some i \<Rightarrow> seq (DestroyDynamicMapIcon i) (\<lambda>_. ret ()))"

text \<open>\<^verbatim>\<open>GangZoneArea\<close>: a rectangle that knows its gang zone.\<close>

definition GangZoneArea_new :: "CoordinatePlane \<Rightarrow> CoordinatePlane \<Rightarrow> int wprog" where
  "GangZoneArea_new lo hi = CreateDynamicRectangle (cx lo, cy lo) (cx hi, cy hi) (-1) (-1) (-1)"

definition DynAreaMgr_Add :: "int \<Rightarrow> int \<Rightarrow> bool wprog" where
  "DynAreaMgr_Add i zone w = (case Add i zone (areas w) of
     (True, m) \<Rightarrow> (Inr True, w\<lparr>areas := m\<rparr>)
   | (False, m) \<Rightarrow> seq (DestroyDynamicArea i) (\<lambda>_. ret False) w)"

definition DynAreaMgr_Remove :: "int \<Rightarrow> bool wprog" where
  "DynAreaMgr_Remove i w = (case Remove i (areas w) of
     (True, m) \<Rightarrow> seq (DestroyDynamicArea i) (\<lambda>_. ret True) (w\<lparr>areas := m\<rparr>)
   | (False, m) \<Rightarrow> (Inr False, w))"

end
