(* ===== verification/Property.thy ===== *)
theory Property
  imports Items
begin

text \<open>
  Properties that players buy, draw profit from and sell (\<^verbatim>\<open>application_data_property.cpp\<close>, \<^verbatim>\<open>PropertyManager\<close> in
  \<^verbatim>\<open>application_gamemode_manager_classes.cpp\<close>), keyed by the printed object id. Each property owns a pickup, its marker, and
  a map icon; both show whether the property is on sale.
\<close>

section \<open>Loading\<close>

text \<open>\<^verbatim>\<open>(float)xs[i].Number()\<close>: a read past the end of a vector is undefined.\<close>

definition array_float :: "bson list \<Rightarrow> nat \<Rightarrow> exn + flt" where
  "array_float xs i = (if i < length xs then bindR (bson_Number (xs ! i)) (\<lambda>x. Inr (fl32 x)) else Inl Undefined)"

definition Property_LoadData :: "(string \<Rightarrow> string) \<Rightarrow> (property \<times> dbst, unit) prog" where
  "Property_LoadData u2g = catchUser ''Invalid property data'' (seq (gets (sv_rawdata \<circ> fst)) (\<lambda>raw.
     seq (liftR (bson_Array (getField raw ''xy''))) (\<lambda>xy.
     andthen (assign (bson_OID (getField raw ''owner'')) (\<lambda>u. pr_owner_update (\<lambda>_. u)))
    (andthen (assign (bson_String (getField raw ''name'')) (\<lambda>s. pr_name_update (\<lambda>_. u2g s)))
    (andthen (assign (number_int raw ''value'') (\<lambda>i. pr_value_update (\<lambda>_. i)))
    (andthen (assign (number_int raw ''profit'') (\<lambda>i. pr_profit_update (\<lambda>_. i)))
    (andthen (assign (bindR (bson_Number (getField raw ''lastdraw'')) (\<lambda>x. Inr (trunc x))) (\<lambda>i. pr_lastdraw_update (\<lambda>_. i)))
    (andthen (assign (array_float xy 0) (\<lambda>x. pr_x_update (\<lambda>_. x)))
    (andthen (assign (array_float xy 1) (\<lambda>x. pr_y_update (\<lambda>_. x)))
             (assign (number_float raw ''z'') (\<lambda>x. pr_z_update (\<lambda>_. x))))))))))))"

section \<open>The marker\<close>

definition marker :: "property \<Rightarrow> effect" where
  "marker p = (if oid_isSet (pr_owner p) then PropertyMarker_Sold (sv_uniqueid p) else PropertyMarker_OnSale (sv_uniqueid p))"

text \<open>\<open>_mapicon.reset(new ...)\<close>: the new icon exists before the old one is destroyed.\<close>

definition ReloadMarker :: "property \<Rightarrow> property wprog" where
  "ReloadMarker p =
     andthen (whenP (pr_pickupid p \<noteq> 0) (seq (PickupMgr_Remove (pr_pickupid p)) (\<lambda>_. ret ())))
    (seq (Pickup_new (marker p) (pr_x p) (pr_y p) (pr_z p)) (\<lambda>i.
     seq (MapIcon_new (if oid_isSet (pr_owner p) then 32 else 31) 0 (pr_x p) (pr_y p) (pr_z p) (-1) (-1) (-1) 500) (\<lambda>icon.
     andthen (MapIcon_destroy (pr_mapicon p))
    (seq (PickupMgr_Add i (marker p)) (\<lambda>_. ret (p\<lparr>pr_pickupid := i, pr_mapicon := Some icon\<rparr>))))))"

section \<open>Constructors and destructor\<close>

text \<open>The members that \<^verbatim>\<open>_LoadData\<close> sets before anything reads them start as 0.\<close>

definition new_property :: "saveable \<Rightarrow> property" where
  "new_property s = saveable.extend s (property.fields oid_clear [] 0 0 0 0 0 0 0 None)"

definition Property_byData :: "doc \<Rightarrow> property wprog" where
  "Property_byData data = seq (config cfg_string ''Database.property'') (\<lambda>c. seq (gets env) (\<lambda>e.
     seq (onNew (new_property (saveable_new c)) (andthen (InitData data) (Property_LoadData (UTF8ToGBK e)))) (\<lambda>(_, p).
     ReloadMarker p)))"

definition property_doc :: "oid \<Rightarrow> string \<Rightarrow> Coordinate3D \<Rightarrow> cint \<Rightarrow> cint \<Rightarrow> int \<Rightarrow> doc" where
  "property_doc u name pos profit value' time =
     [(''_id'', BOid u), (''name'', BStr name), (''owner'', BOid oid_clear), (''profit'', BInt profit), (''value'', BInt value'),
      (''xy'', BArr [BDbl (cx pos), BDbl (cy pos)]), (''z'', BDbl (cz pos)), (''lastdraw'', BLong (word_of_int time))]"

definition Property_new :: "string \<Rightarrow> Coordinate3D \<Rightarrow> cint \<Rightarrow> cint \<Rightarrow> property wprog" where
  "Property_new name pos profit value' = seq (config cfg_string ''Database.property'') (\<lambda>c. seq (onDB genOID) (\<lambda>u.
     seq (codec GBKToUTF8 name) (\<lambda>n. seq (gets env) (\<lambda>e.
     seq (onNew (new_property (saveable_new c))
       (andthen (Create (property_doc u n pos profit value' (now e)) True) (Property_LoadData (UTF8ToGBK e)))) (\<lambda>(_, p).
     ReloadMarker p)))))"

definition Property_destroy :: "property \<Rightarrow> unit wprog" where
  "Property_destroy p = seq (PickupMgr_Remove (pr_pickupid p)) (\<lambda>_. MapIcon_destroy (pr_mapicon p))"

section \<open>Member functions\<close>

definition Property_SetName :: "string \<Rightarrow> string \<Rightarrow> unit wprog" where
  "Property_SetName k name = seq (codec GBKToUTF8 name) (\<lambda>n.
     andthen (onProperty k (Update (bson_set [(''name'', BStr n)]) False)) (prmod k (pr_name_update (\<lambda>_. name))))"

definition Property_SetValue :: "string \<Rightarrow> cint \<Rightarrow> unit wprog" where
  "Property_SetValue k v =
     andthen (onProperty k (Update (bson_set [(''value'', BInt v)]) False)) (prmod k (pr_value_update (\<lambda>_. v)))"

definition Property_SetProfit :: "string \<Rightarrow> cint \<Rightarrow> unit wprog" where
  "Property_SetProfit k v =
     andthen (onProperty k (Update (bson_set [(''profit'', BInt v)]) False)) (prmod k (pr_profit_update (\<lambda>_. v)))"

definition OnSale :: "property \<Rightarrow> bool" where
  "OnSale p \<longleftrightarrow> \<not> oid_isSet (pr_owner p)"

text \<open>The profit of the whole periods of 1440 seconds since the last draw, in \<^verbatim>\<open>int\<close> arithmetic.\<close>

definition earns :: "property \<Rightarrow> int \<Rightarrow> cint" where
  "earns p time = word_of_int ((time - pr_lastdraw p) sdiv 1440) * pr_profit p"

definition Draw :: "string \<Rightarrow> playerid \<Rightarrow> cint wprog" where
  "Draw k pid = seq (prget k id) (\<lambda>p. seq (pget pid sv_uniqueid) (\<lambda>u.
     if u \<noteq> pr_owner p then ret 0
     else seq (gets (\<lambda>w. now (env w))) (\<lambda>time.
       if earns p time = 0 then ret 0
       else andthen (onProperty k (Update (bson_set [(''lastdraw'', BLong (word_of_int time))]) False))
           (andthen (GiveMoney pid (earns p time))
           (andthen (prmod k (pr_lastdraw_update (\<lambda>_. time))) (ret (earns p time)))))))"

definition reload :: "string \<Rightarrow> unit wprog" where
  "reload k = seq (prget k id) (\<lambda>p. seq (ReloadMarker p) (\<lambda>p'. prmod k (\<lambda>_. p')))"

definition Purchase :: "string \<Rightarrow> playerid \<Rightarrow> unit wprog" where
  "Purchase k pid = seq (prget k id) (\<lambda>p.
     if \<not> OnSale p then throw (RuntimeError ''This property is not on sale'')
     else seq (GetMoney pid) (\<lambda>m.
       if sint m < sint (pr_value p) then throw (RuntimeError ''Don't have enough money'')
       else seq (pget pid sv_uniqueid) (\<lambda>u.
         andthen (onProperty k (Update (bson_set [(''owner'', BOid u)]) False))
        (andthen (prmod k (pr_owner_update (\<lambda>_. u)))
        (andthen (GiveMoney pid (pr_value p * -1)) (reload k))))))"

definition Sell :: "string \<Rightarrow> playerid \<Rightarrow> unit wprog" where
  "Sell k pid = seq (prget k id) (\<lambda>p.
     if OnSale p then throw (RuntimeError ''This property has already been on sale'')
     else seq (pget pid sv_uniqueid) (\<lambda>u.
       if u \<noteq> pr_owner p then throw (RuntimeError ''You aren't the owner'')
       else seq (Draw k pid) (\<lambda>_.
         andthen (onProperty k (Update (bson_set [(''owner'', BOid oid_clear)]) False))
        (andthen (prmod k (pr_owner_update (\<lambda>_. oid_clear)))
        (andthen (GiveMoney pid (pr_value p)) (reload k))))))"

section \<open>PropertyManager\<close>

text \<open>A property that is refused is destroyed.\<close>

definition PropertyMgr_Add :: "property \<Rightarrow> bool wprog" where
  "PropertyMgr_Add p w = (case Add (oid_str (sv_uniqueid p)) p (properties w) of
     (True, m) \<Rightarrow> (Inr True, w\<lparr>properties := m\<rparr>)
   | (False, m) \<Rightarrow> andthen (Property_destroy p) (ret False) w)"

definition PropertyMgr_clear :: "unit wprog" where
  "PropertyMgr_clear = seq (gets properties) (\<lambda>m.
     andthen (modify (set_properties [])) (forEach m (\<lambda>(k, p). Property_destroy p)))"

definition PropertyMgr_LoadAll :: "unit wprog" where
  "PropertyMgr_LoadAll = andthen PropertyMgr_clear
     (seq (config cfg_string ''Database.property'') (\<lambda>c. seq (onDB (queryAll c)) (\<lambda>ds.
       forEach ds (\<lambda>d. seq (Property_byData d) (\<lambda>p. seq (PropertyMgr_Add p) (\<lambda>_. ret ()))))))"

definition PropertyMgr_Remove :: "oid \<Rightarrow> bool wprog" where
  "PropertyMgr_Remove u w = (case map_of (properties w) (oid_str u) of
     None \<Rightarrow> (Inr False, w)
   | Some p \<Rightarrow> andthen (Property_destroy p) (ret True) (set_properties (snd (Remove (oid_str u) (properties w))) w))"

text \<open>\<^verbatim>\<open>PropertyMgr[id]\<close>: the key of an existing property.\<close>

definition PropertyMgr_get :: "oid \<Rightarrow> string wprog" where
  "PropertyMgr_get u = andthen (getRef properties (oid_str u)) (ret (oid_str u))"

end
