(* ===== verification/Items_Correct.thy ===== *)
theory Items_Correct
  imports Property
begin

text \<open>
  What the streamer's natives leave alone, and what the pickup manager does to the world: facts shared by the properties of the
  components that place items.
\<close>

section \<open>The frame of the streamer's natives\<close>

text \<open>\<open>frame w w'\<close>: only the streamer's tables (and the trace) changed.\<close>

definition frame :: "'w streamer_scheme \<Rightarrow> 'w streamer_scheme \<Rightarrow> bool" where
  "frame w w' \<longleftrightarrow> streamer.more w' = streamer.more w \<and> env w' = env w \<and> db w' = db w \<and> s_maxItems w' = s_maxItems w"

named_theorems frames "programs that only change the streamer's tables"

lemma frame_refl [frames]: "frame w w" by (simp add: frame_def)

lemma frame_trans [trans]: "frame u v \<Longrightarrow> frame v w \<Longrightarrow> frame u w"
  by (simp add: frame_def)

lemma frame_world:
  assumes "frame w w'"
  shows "pickups w' = pickups w" "properties w' = properties w" "profiles w' = profiles w" "teams w' = teams w"
    "zones w' = zones w" "areas w' = areas w" "races w' = races w" "timers w' = timers w" "next_timer w' = next_timer w"
    "env w' = env w" "db w' = db w" "s_maxItems w' = s_maxItems w" "msg_current w' = msg_current w" "next_object w' = next_object w"
  using assms by (cases w; cases w'; simp add: frame_def)+

lemma frame_erase: "frame w (eraseCellIfEmpty c w)"
  by (auto simp: frame_def eraseCellIfEmpty_def split: option.split)

lemma frame_getCellID: "frame w (snd (getCellID p b w))"
  by (auto simp: frame_def getCellID_def prog_defs Let_def split: option.split)

lemma frame_gridAdd: "frame w (snd (gridAdd k i e w))"
  using frame_getCellID [of w "grid_position (geo (env w)) e" True]
  by (auto simp: frame_def gridAdd_def prog_defs split: option.split prod.split sum.split)

lemma frame_gridFind: "frame w (snd (gridFind k i e w))"
proof -
  have "frame w (eraseCellIfEmpty c (w\<lparr>s_cells := m\<rparr>))" for c m
    using frame_erase [of "w\<lparr>s_cells := m\<rparr>" c] by (simp add: frame_def)
  then show ?thesis by (auto simp: gridFind_def frame_refl frame_def split: option.split)
qed

lemma frame_gridRemove: "frame w (snd (gridRemove k i e b w))"
proof -
  obtain found w1 where f: "gridFind k i e w = (found, w1)" by fastforce
  have "frame w w1" using frame_gridFind [of w k i e] f by simp
  moreover have "frame w1 (snd (gridAdd k i e w1))" by (rule frame_gridAdd)
  ultimately show ?thesis using f by (auto simp: gridRemove_def detach_def frame_def)
qed

lemma frame_setItem [frames]: "frame w (setItem k i e w)"
  by (simp add: frame_def setItem_def)

lemma frame_regrid [frames]: "frame w (snd (regrid k i e w))"
proof -
  obtain r w1 where rem: "gridRemove k i e True w = (r, w1)" by fastforce
  then have f: "frame w w1" using frame_gridRemove [of w k i e True] by simp
  have "frame w (setItem k i e' w1)" for e' by (rule frame_trans [OF f frame_setItem])
  with f show ?thesis by (simp add: regrid_def seq_def modify_def rem split: sum.split)
qed

lemma frame_createItem [frames]: "frame w (snd (createItem k e w))"
proof (cases "s_maxItems w k = length (s_items w k)")
  case True
  then show ?thesis by (simp add: createItem_def frame_refl)
next
  case False
  define ids where "ids = (s_ids w)(k := snd (ident_get (s_ids w k)))"
  obtain r w1 where g: "gridAdd k (fst (ident_get (s_ids w k))) e (w\<lparr>s_ids := ids\<rparr>) = (r, w1)" by fastforce
  have "frame (w\<lparr>s_ids := ids\<rparr>) w1" using frame_gridAdd [of "w\<lparr>s_ids := ids\<rparr>" k "fst (ident_get (s_ids w k))" e] g by simp
  then have "frame w w1" by (simp add: frame_def)
  with False g show ?thesis
    by (cases r) (simp_all add: createItem_def ids_def Let_def split_beta seq_def andthen_def modify_def ret_def setItem_def frame_def)
qed

lemma frame_destroyItem: "(\<And>w. frame w (f w)) \<Longrightarrow> frame w (destroyItem k f i e w)"
proof -
  assume f: "\<And>w. frame w (f w)"
  let ?w1 = "f (w\<lparr>s_ids := (s_ids w)(k := ident_remove i (length (s_items w k)) (s_ids w k))\<rparr>)"
  have "frame w ?w1" using f [of "w\<lparr>s_ids := (s_ids w)(k := ident_remove i (length (s_items w k)) (s_ids w k))\<rparr>"]
    by (simp add: frame_def)
  then have "frame w (snd (gridRemove k i e False ?w1))" by (rule frame_trans) (rule frame_gridRemove)
  then show ?thesis by (simp add: destroyItem_def frame_def Let_def)
qed

lemma frame_forget: "frame w (forgetPickup i w)" "frame w (forAllPlayers g w)"
  by (auto simp: frame_def forgetPickup_def forAllPlayers_def split: option.split)

lemma frame_destroyIfValid:
  "(\<And>i e w. frame w (d i e w)) \<Longrightarrow> frame w (snd (destroyIfValid k d i w))"
  by (auto simp: destroyIfValid_def frame_refl split: option.split)

lemma frame_natives [frames]:
  "frame w (snd (DestroyDynamicPickup i w))" "frame w (snd (DestroyDynamicMapIcon i w))"
  "frame w (snd (DestroyDynamicArea i w))" "frame w (snd (DestroyDynamicObject i w))"
  "frame w (snd (CreateDynamicPickup m t p wd it pl d w))" "frame w (snd (CreateDynamicMapIcon p t' c wd it pl d w))"
  "frame w (snd (CreateDynamicRectangle lo hi wd it pl w))" "frame w (snd (CreateDynamicObject m p r wd it pl d w))"
  unfolding DestroyDynamicPickup_def DestroyDynamicMapIcon_def DestroyDynamicArea_def DestroyDynamicObject_def
    CreateDynamicPickup_def CreateDynamicMapIcon_def CreateDynamicRectangle_def CreateDynamicObject_def Let_def
  by (intro frame_createItem frame_destroyIfValid, (unfold destroyPickup_def destroyMapIcon_def destroyArea_def destroyObject_def)?,
      (intro frame_destroyItem frame_forget)?)+

section \<open>Pickups and their manager\<close>

text \<open>Every pickup of the manager is a pickup of the streamer, whose tables are within the limit.\<close>

definition pickups_ok :: "world \<Rightarrow> bool" where
  "pickups_ok w \<longleftrightarrow> streamer_ok w \<and> distinct (map fst (pickups w)) \<and> length (s_items w KPickup) \<le> s_maxItems w KPickup
     \<and> (\<forall>i. IsExist i (pickups w) \<longrightarrow> isValid KPickup i w)"

lemma length_by_keys: "distinct (map fst xs) \<Longrightarrow> length xs = card (dom (map_of xs))"
  by (metis distinct_card dom_map_of_conv_image_fst length_map list.set_map)

lemma length_after_insert:
  assumes "distinct (map fst xs)" and "distinct (map fst ys)" and "map_of ys = (map_of xs)(k \<mapsto> v)" and "map_of xs k = None"
  shows "length ys = Suc (length xs)"
  using assms by (simp add: length_by_keys finite_dom_map_of domIff)

lemma length_after_delete:
  assumes "distinct (map fst xs)" and "distinct (map fst ys)" and "map_of ys = (map_of xs)(k := None)" and "map_of xs k = Some v"
  shows "length xs = Suc (length ys)"
proof -
  have "k \<in> dom (map_of xs)" using assms(4) by auto
  with assms(1-3) show ?thesis
    using card_Suc_Diff1 [OF finite_dom_map_of, of k xs] by (simp add: length_by_keys)
qed

lemma least_free:
  assumes "streamer_ok w" and i: "i = (LEAST j. 0 < j \<and> map_of (s_items w k) j = None)"
  shows "0 < i \<and> map_of (s_items w k) i = None"
proof -
  have inv: "ident_inv (s_ids w k) (fst ` set (s_items w k))" using assms(1) by (simp add: streamer_ok_def)
  from ident_get_ok [OF this] ident.get_is_least [OF this] i show ?thesis by (simp add: map_of_None_iff)
qed

lemma streamer_ok_items: "streamer_ok w \<Longrightarrow> distinct (map fst (s_items w k))"
  by (simp add: streamer_ok_def)


lemma pickups_okD: "pickups_ok w \<Longrightarrow> map_of (pickups w) i = Some e \<Longrightarrow> \<exists>el. map_of (s_items w KPickup) i = Some el"
  unfolding pickups_ok_def isValid_def IsExist_def by (metis option.distinct(1) option.exhaust)

text \<open>A new pickup.\<close>

lemma Pickup_new_spec:
  assumes ok: "pickups_ok w" and room: "s_maxItems w KPickup \<noteq> length (s_items w KPickup)"
  shows "\<exists>i w1. Pickup_new e x y z w = (Inr i, w1) \<and> pickups_ok w1 \<and> frame w w1 \<and> isValid KPickup i w1
    \<and> 0 < i \<and> map_of (pickups w) i = None"
proof -
  let ?w1 = "snd (Pickup_new e x y z w)" and ?r = "fst (Pickup_new e x y z w)"
  note def = Pickup_new_def CreateDynamicPickup_def
  have s: "streamer_ok w" using ok by (simp add: pickups_ok_def)
  have fr: "frame w ?w1" unfolding Pickup_new_def by (rule frame_natives)
  have eq: "createItem KPickup (new_element (Pickup (x, y, z) (pickup_model e) 1 0) 0 (sq 100) (-1) (-1) (-1)) w = (?r, ?w1)"
    by (simp add: def)
  obtain i el where r: "?r = Inr i" and i: "i = (LEAST j. 0 < j \<and> map_of (s_items w KPickup) j = None)"
    and items: "map_of (s_items ?w1 KPickup) = (map_of (s_items w KPickup))(i \<mapsto> el)" and s1: "streamer_ok ?w1"
    using createItem_spec [OF s eq room] by blast
  have i0: "0 < i \<and> map_of (s_items w KPickup) i = None"
    using s i by (rule least_free)
  then have len: "length (s_items ?w1 KPickup) = Suc (length (s_items w KPickup))"
    using length_after_insert [OF streamer_ok_items [OF s] streamer_ok_items [OF s1] items] by simp
  have "map_of (pickups w) i = None"
    using ok i0 unfolding pickups_ok_def isValid_def IsExist_def by metis
  moreover have "pickups_ok ?w1"
    using ok s1 len room frame_world [OF fr] items by (auto simp: pickups_ok_def isValid_def IsExist_def)
  ultimately show ?thesis
    using r i0 fr items by (intro exI [of _ i] exI [of _ ?w1]) (simp add: prod_eq_iff isValid_def IsExist_def)
qed


text \<open>Other items do not matter to pickups.\<close>

lemma pickups_ok_frame:
  assumes "pickups_ok w" and "frame w w'" and "streamer_ok w'" and "s_items w' KPickup = s_items w KPickup"
  shows "pickups_ok w'"
  using assms frame_world [OF assms(2)] by (simp add: pickups_ok_def isValid_def)

lemma MapIcon_new_spec:
  assumes "pickups_ok w"
  shows "\<exists>i w1. MapIcon_new t c x y z wd it pl d w = (Inr i, w1) \<and> frame w w1 \<and> pickups_ok w1 \<and> s_items w1 KPickup = s_items w KPickup"
proof -
  let ?w1 = "snd (MapIcon_new t c x y z wd it pl d w)" and ?r = "fst (MapIcon_new t c x y z wd it pl d w)"
  have fr: "frame w ?w1" unfolding MapIcon_new_def by (rule frame_natives)
  have s: "streamer_ok w" using assms by (simp add: pickups_ok_def)
  have eq: "createItem KMapIcon (new_element (MapIcon (x, y, z) t c 0) 0 (sq d) wd it pl) w = (?r, ?w1)"
    by (simp add: MapIcon_new_def CreateDynamicMapIcon_def)
  have "\<exists>i. ?r = Inr i \<and> s_items ?w1 KPickup = s_items w KPickup"
  proof (cases "s_maxItems w KMapIcon = length (s_items w KMapIcon)")
    case True
    then have "(?r, ?w1) = (Inr 0, w)" using eq by (simp add: createItem_def)
    then show ?thesis by (metis fst_conv snd_conv)
  next
    case False
    from createItem_spec [OF s eq False] show ?thesis by (metis kind.distinct)
  qed
  moreover have "streamer_ok ?w1" using createItem_ok [OF s] eq by (metis snd_conv)
  ultimately show ?thesis using pickups_ok_frame [OF assms fr] fr by (metis prod.collapse)
qed

lemma MapIcon_destroy_spec:
  assumes "pickups_ok w"
  shows "\<exists>w1. MapIcon_destroy i w = (Inr (), w1) \<and> frame w w1 \<and> pickups_ok w1 \<and> s_items w1 KPickup = s_items w KPickup"
proof (cases i)
  case None
  then show ?thesis using assms by (simp add: MapIcon_destroy_def ret_def frame_refl)
next
  case (Some j)
  let ?w1 = "snd (DestroyDynamicMapIcon j w)"
  have s: "streamer_ok w" using assms by (simp add: pickups_ok_def)
  have fr: "frame w ?w1" by (rule frame_natives)
  have "s_items ?w1 KPickup = s_items w KPickup"
    using destroyItem_spec [OF s, of KMapIcon j _ "forAllPlayers (forgetMapIcon j)"]
    by (auto simp: DestroyDynamicMapIcon_def destroyIfValid_def destroyMapIcon_def split: option.split)
  moreover have "fst (DestroyDynamicMapIcon j w) = Inr True \<or> fst (DestroyDynamicMapIcon j w) = Inr False"
    by (auto simp: DestroyDynamicMapIcon_def destroyIfValid_def split: option.split)
  ultimately show ?thesis
    using Some fr pickups_ok_frame [OF assms fr] destroy_natives_ok(5) [OF s, of j]
    by (cases "DestroyDynamicMapIcon j w") (auto simp: MapIcon_destroy_def seq_def ret_def)
qed

lemma PickupMgr_Remove_spec:
  assumes ok: "pickups_ok w" and i: "map_of (pickups w) i = Some e"
  shows "\<exists>w1. PickupMgr_Remove i w = (Inr True, w1) \<and> frame (w\<lparr>pickups := snd (Remove i (pickups w))\<rparr>) w1 \<and> pickups_ok w1
    \<and> map_of (pickups w1) = (map_of (pickups w))(i := None) \<and> length (s_items w KPickup) = Suc (length (s_items w1 KPickup))
    \<and> \<not> isValid KPickup i w1"
proof -
  define w0 where "w0 = w\<lparr>pickups := snd (Remove i (pickups w))\<rparr>"
  let ?w1 = "snd (DestroyDynamicPickup i w0)"
  have s: "streamer_ok w0" and d: "distinct (map fst (pickups w))" using ok streamer_ok_cong [of w0 w] by (simp_all add: pickups_ok_def w0_def)
  have p: "map_of (pickups w0) = (map_of (pickups w))(i := None)" by (simp add: w0_def Remove_def map_of_delete)
  obtain el where el: "map_of (s_items w0 KPickup) i = Some el"
    using pickups_okD [OF ok i] by (auto simp: w0_def)
  have fr: "frame w0 ?w1" by (rule frame_natives)
  have des: "DestroyDynamicPickup i w0 = (Inr True, destroyItem KPickup (forgetPickup i) i el w0)"
    using el by (simp add: DestroyDynamicPickup_def destroyIfValid_def destroyPickup_def)
  have items: "map_of (s_items ?w1 KPickup) = (map_of (s_items w0 KPickup))(i := None)" and s1: "streamer_ok ?w1"
    using destroyItem_spec [OF s el, of "forgetPickup i"] by (simp_all add: des)
  have len: "length (s_items w0 KPickup) = Suc (length (s_items ?w1 KPickup))"
    using length_after_delete [OF streamer_ok_items [OF s] streamer_ok_items [OF s1] items] el by simp
  have "distinct (map fst (pickups w0))" using d by (simp add: w0_def Remove_def distinct_fst_delete)
  moreover have "\<forall>j. IsExist j (pickups w0) \<longrightarrow> isValid KPickup j ?w1"
    using ok unfolding pickups_ok_def IsExist_def isValid_def p items by (simp add: w0_def)
  ultimately have "pickups_ok ?w1"
    using ok s1 len frame_world [OF fr] by (simp add: pickups_ok_def w0_def)
  moreover have "PickupMgr_Remove i w = (Inr True, ?w1)"
    using i des by (simp add: PickupMgr_Remove_def Remove_def IsExist_def Pickup_destroy_def w0_def prog_defs)
  ultimately show ?thesis
    using fr p len frame_world(1) [OF fr] items by (intro exI [of _ ?w1]) (simp add: w0_def isValid_def IsExist_def)
qed

end
