(* ===== verification/Property_Correct.thy ===== *)
theory Property_Correct
  imports Items_Correct
begin

text \<open>
  Properties stay consistent with what players see and pay: the marker of every property shows who owns it, and buying and
  selling move exactly the price.
\<close>

section \<open>Markers\<close>

definition markers_ok :: "world \<Rightarrow> bool" where
  "markers_ok w \<longleftrightarrow> pickups_ok w \<and> (\<forall>k p. map_of (properties w) k = Some p \<longrightarrow>
     k = oid_str (sv_uniqueid p) \<and> pr_pickupid p \<noteq> 0 \<and> map_of (pickups w) (pr_pickupid p) = Some (marker p, False))"

lemma disposable_marker [simp]: "disposable (marker p) = False"
  by (simp add: marker_def disposable_def)

lemma ReloadMarker_spec:
  assumes ok: "pickups_ok w" and m: "map_of (pickups w) (pr_pickupid p) = Some e" and "pr_pickupid p \<noteq> 0"
  shows "\<exists>i icon w1. ReloadMarker p w = (Inr (p\<lparr>pr_pickupid := i, pr_mapicon := Some icon\<rparr>), w1) \<and> pickups_ok w1
    \<and> map_of (pickups w1) = ((map_of (pickups w))(pr_pickupid p := None))(i \<mapsto> (marker p, False)) \<and> i \<noteq> 0
    \<and> ((map_of (pickups w))(pr_pickupid p := None)) i = None
    \<and> properties w1 = properties w \<and> profiles w1 = profiles w \<and> env w1 = env w \<and> db w1 = db w"
proof -
  obtain w1 where r1: "PickupMgr_Remove (pr_pickupid p) w = (Inr True, w1)"
    and f1: "frame (w\<lparr>pickups := snd (Remove (pr_pickupid p) (pickups w))\<rparr>) w1" and ok1: "pickups_ok w1"
    and p1: "map_of (pickups w1) = (map_of (pickups w))(pr_pickupid p := None)"
    and len: "length (s_items w KPickup) = Suc (length (s_items w1 KPickup))"
    using PickupMgr_Remove_spec [OF ok m] by blast
  have "s_maxItems w1 KPickup \<noteq> length (s_items w1 KPickup)"
    using ok len frame_world(12) [OF f1] by (auto simp: pickups_ok_def)
  then obtain i w2 where r2: "Pickup_new (marker p) (pr_x p) (pr_y p) (pr_z p) w1 = (Inr i, w2)" and ok2: "pickups_ok w2"
    and f2: "frame w1 w2" and v: "isValid KPickup i w2" and i: "0 < i" "map_of (pickups w1) i = None"
    using Pickup_new_spec [OF ok1] by blast
  obtain icon w3 where r3: "MapIcon_new (if oid_isSet (pr_owner p) then 32 else 31) 0 (pr_x p) (pr_y p) (pr_z p) (-1) (-1) (-1) 500 w2 = (Inr icon, w3)"
    and f3: "frame w2 w3" and ok3: "pickups_ok w3" and i3: "s_items w3 KPickup = s_items w2 KPickup"
    using MapIcon_new_spec [OF ok2] by blast
  obtain w4 where r4: "MapIcon_destroy (pr_mapicon p) w3 = (Inr (), w4)"
    and f4: "frame w3 w4" and ok4: "pickups_ok w4" and i4: "s_items w4 KPickup = s_items w3 KPickup"
    using MapIcon_destroy_spec [OF ok3] by blast
  note fs = frame_world [OF f1] frame_world [OF f2] frame_world [OF f3] frame_world [OF f4]
  let ?w5 = "w4\<lparr>pickups := pickups w4 @ [(i, marker p, False)]\<rparr>"
  have free: "map_of (pickups w4) i = None" and v4: "isValid KPickup i w4"
    using i v i3 i4 fs by (simp_all add: isValid_def)
  have r5: "PickupMgr_Add i (marker p) w4 = (Inr True, ?w5)"
    using free by (simp add: PickupMgr_Add_def Add_def IsExist_def)
  have p5: "map_of (pickups ?w5) = ((map_of (pickups w))(pr_pickupid p := None))(i \<mapsto> (marker p, False))"
    using fs(1) fs(15) fs(29) fs(43) p1 map_of_snoc_fresh [OF free [unfolded map_of_None_iff], of "(marker p, False)"]
    by (simp del: map_of_append)
  have "pickups_ok ?w5"
    using ok4 free v4 streamer_ok_cong [of ?w5 w4] unfolding pickups_ok_def
    by (auto simp: IsExist_def isValid_def map_of_snoc_fresh map_of_None_iff)
  moreover have "ReloadMarker p w = (Inr (p\<lparr>pr_pickupid := i, pr_mapicon := Some icon\<rparr>), ?w5)"
    using assms(3) r1 r2 r3 r4 r5 by (simp add: ReloadMarker_def prog_defs)
  moreover have "properties ?w5 = properties w \<and> profiles ?w5 = profiles w \<and> env ?w5 = env w \<and> db ?w5 = db w" using fs by simp
  moreover have "i \<noteq> 0 \<and> ((map_of (pickups w))(pr_pickupid p := None)) i = None" using i p1 by simp
  ultimately show ?thesis using p5 by blast
qed

section \<open>Buying and selling\<close>

lemma onProperty_Update:
  assumes "onProperty k (Update m False) w = (r, w')" and "map_of (properties w) k = Some p"
  shows "\<exists>d. w' = w\<lparr>db := d, properties := setMember k p (properties w)\<rparr>
    \<and> (r = Inr () \<longrightarrow> db_log d = DbUpdate (sv_collection p) (sv_uniqueid p) m # db_log (db w))"
  using onMember_Update [OF assms] by auto

text \<open>A connection that answers every request without an error.\<close>

definition reliable :: "dbst \<Rightarrow> bool" where
  "reliable d \<longleftrightarrow> db_host d \<noteq> None \<and> db_reachable d \<and> db_err d = (\<lambda>log. []) \<and> db_fail d = (\<lambda>log r. None)"

lemma reliable_demo: "reliable demo_db"
  by (simp add: reliable_def demo_db_def)

lemma onProperty_reliable:
  assumes "map_of (properties w) k = Some p" and "oid_isSet (sv_uniqueid p)" and "reliable (db w)"
  shows "\<exists>d. onProperty k (Update m False) w = (Inr (), w\<lparr>db := d, properties := setMember k p (properties w)\<rparr>) \<and> reliable d"
  using assms by (auto simp: reliable_def onMember_def Update_def demo_eval split: option.splits)

lemma markers_okD:
  assumes "markers_ok w" and "map_of (properties w) k = Some p"
  shows "pickups_ok w" "k = oid_str (sv_uniqueid p)" "pr_pickupid p \<noteq> 0" "map_of (pickups w) (pr_pickupid p) = Some (marker p, False)"
  using assms by (auto simp: markers_ok_def)

text \<open>Different properties have different markers.\<close>

lemma markers_apart:
  assumes "markers_ok w" and "map_of (properties w) k = Some p" and "map_of (properties w) k' = Some p'" and "k' \<noteq> k"
  shows "pr_pickupid p' \<noteq> pr_pickupid p"
proof
  assume "pr_pickupid p' = pr_pickupid p"
  then have "marker p' = marker p" using markers_okD(4) [OF assms(1,2)] markers_okD(4) [OF assms(1,3)] by simp
  then have "sv_uniqueid p' = sv_uniqueid p" by (auto simp: marker_def split: if_splits)
  then show False using markers_okD(2) [OF assms(1,2)] markers_okD(2) [OF assms(1,3)] assms(4) by simp
qed

definition same_property :: "property \<Rightarrow> property \<Rightarrow> bool" where
  "same_property p p' \<longleftrightarrow> sv_uniqueid p' = sv_uniqueid p \<and> pr_owner p' = pr_owner p \<and> pr_pickupid p' = pr_pickupid p"

lemma pickups_ok_same:
  assumes "pickups_ok w" and "s_cells w' = s_cells w" "s_items w' = s_items w" "s_ids w' = s_ids w" "s_globalCell w' = s_globalCell w"
    "s_maxItems w' = s_maxItems w" "pickups w' = pickups w"
  shows "pickups_ok w'"
  using assms streamer_ok_cong [OF assms(2-5)] by (simp add: pickups_ok_def isValid_def)

lemma markers_ok_same:
  assumes ok: "markers_ok w" and same: "s_cells w' = s_cells w" "s_items w' = s_items w" "s_ids w' = s_ids w" "s_globalCell w' = s_globalCell w"
    "s_maxItems w' = s_maxItems w" "pickups w' = pickups w"
    and props: "\<And>k p'. map_of (properties w') k = Some p' \<Longrightarrow> \<exists>p. map_of (properties w) k = Some p \<and> same_property p p'"
  shows "markers_ok w'"
  unfolding markers_ok_def
proof (intro conjI allI impI)
  show "pickups_ok w'" using ok same pickups_ok_same [of w w'] by (simp add: markers_ok_def)
next
  fix k p' assume "map_of (properties w') k = Some p'"
  then obtain p where p: "map_of (properties w) k = Some p" "same_property p p'" using props by blast
  then have "marker p' = marker p" by (simp add: marker_def same_property_def)
  then show "k = oid_str (sv_uniqueid p')" "pr_pickupid p' \<noteq> 0" "map_of (pickups w') (pr_pickupid p') = Some (marker p', False)"
    using markers_okD [OF ok p(1)] p(2) same(6) by (simp_all add: same_property_def)
qed

lemma markers_ok_changes:
  assumes "markers_ok w" and "map_of (properties w) k = Some p" and "same_property p p'"
  shows "markers_ok (w\<lparr>db := d, properties := setMember k p' (properties w)\<rparr>)"
    and "markers_ok (w\<lparr>properties := setMember k p' (properties w)\<rparr>)"
  by (rule markers_ok_same [OF assms(1)]; use assms in \<open>auto simp: same_property_def split: if_splits\<close>)+

lemma transfer_spec:
  assumes ok: "markers_ok w" and p: "map_of (properties w) k = Some p" and q: "map_of (profiles w) pid = Some q"
    and run: "andthen (onProperty k (Update (bson_set [(''owner'', BOid u)]) False)) (andthen (prmod k (pr_owner_update (\<lambda>_. u)))
      (andthen (GiveMoney pid m) (reload k))) w = (r, w')"
  shows "markers_ok w' \<and> (if r = Inr () then
       (\<exists>i icon. map_of (properties w') = (map_of (properties w))(k \<mapsto> p\<lparr>pr_owner := u, pr_pickupid := i, pr_mapicon := Some icon\<rparr>))
       \<and> profiles w' = setMember pid (p_gamedata_update (gd_money_update (\<lambda>x. x + m)) q) (profiles w) \<and> env w' = env w
       \<and> db_log (db w') = DbUpdate (sv_collection p) (sv_uniqueid p) (bson_set [(''owner'', BOid u)]) # db_log (db w)
     else map_of (properties w') = map_of (properties w) \<and> profiles w' = profiles w \<and> env w' = env w)
     \<and> (oid_isSet (sv_uniqueid p) \<longrightarrow> reliable (db w) \<longrightarrow> r = Inr () \<and> reliable (db w'))"
proof -
  obtain ru w1 where u: "onProperty k (Update (bson_set [(''owner'', BOid u)]) False) w = (ru, w1)" by fastforce
  from onProperty_Update [OF this p] obtain d where w1: "w1 = w\<lparr>db := d, properties := setMember k p (properties w)\<rparr>"
    and log: "ru = Inr () \<longrightarrow> db_log d = DbUpdate (sv_collection p) (sv_uniqueid p) (bson_set [(''owner'', BOid u)]) # db_log (db w)" by blast
  have ok1: "markers_ok w1" unfolding w1 by (rule markers_ok_changes(1) [OF ok p]) (simp add: same_property_def)
  have rel: "ru = Inr () \<and> reliable (db w1)" if "oid_isSet (sv_uniqueid p)" "reliable (db w)"
    using onProperty_reliable [OF p that, of "bson_set [(''owner'', BOid u)]"] u by auto
  show ?thesis
  proof (cases ru)
    case (Inl e)
    then have "r = Inl e" "w' = w1" using run u by (simp_all add: andthen_def seq_def)
    then show ?thesis using ok1 p rel Inl by (auto simp: w1 fun_eq_iff)
  next
    case (Inr x)
    define p2 where "p2 = p\<lparr>pr_owner := u\<rparr>"
    define w2 where "w2 = w1\<lparr>properties := setMember k p2 (properties w1),
      profiles := setMember pid (p_gamedata_update (gd_money_update (\<lambda>x. x + m)) q) (profiles w),
      out := [GivePlayerMoney pid (gd_money (p_gamedata q) + m), ResetPlayerMoney pid] @ out w1\<rparr>"
    have rest: "reload k w2 = (r, w')"
      using run u q p Inr by (simp add: andthen_def seq_def world_eval GiveMoney_eval w1 w2_def p2_def)
    have items: "s_cells w2 = s_cells w1" "s_items w2 = s_items w1" "s_ids w2 = s_ids w1" "s_globalCell w2 = s_globalCell w1"
      "s_maxItems w2 = s_maxItems w1" "pickups w2 = pickups w1" by (simp_all add: w2_def)
    have pk: "pickups_ok w2" using ok1 pickups_ok_same [OF _ items] by (simp add: markers_ok_def)
    have old: "map_of (pickups w2) (pr_pickupid p2) = Some (marker p, False)" "pr_pickupid p2 \<noteq> 0"
      using markers_okD [OF ok p] items(6) by (simp_all add: p2_def w1)
    from ReloadMarker_spec [OF pk old] obtain i icon w3 where
      r3: "ReloadMarker p2 w2 = (Inr (p2\<lparr>pr_pickupid := i, pr_mapicon := Some icon\<rparr>), w3)" and ok3: "pickups_ok w3"
      and pk3: "map_of (pickups w3) = ((map_of (pickups w2))(pr_pickupid p2 := None))(i \<mapsto> (marker p2, False))"
      and i: "i \<noteq> 0" "((map_of (pickups w2))(pr_pickupid p2 := None)) i = None"
      and same: "properties w3 = properties w2" "profiles w3 = profiles w2" "env w3 = env w2" "db w3 = db w2" by blast
    let ?p3 = "p2\<lparr>pr_pickupid := i, pr_mapicon := Some icon\<rparr>"
    have w': "w' = w3\<lparr>properties := setMember k ?p3 (properties w3)\<rparr>" and r: "r = Inr ()"
      using rest r3 same(1) by (simp_all add: reload_def seq_def world_eval w2_def p2_def)
    have m3: "marker ?p3 = marker p2" by (simp add: marker_def)
    have props: "map_of (properties w') = (map_of (properties w))(k \<mapsto> ?p3)"
      by (auto simp: w' same w2_def w1 fun_eq_iff)
    have "markers_ok w'" unfolding markers_ok_def
    proof (intro conjI allI impI)
      show "pickups_ok w'" by (rule pickups_ok_same [OF ok3]) (simp_all add: w')
    next
      fix k' p' assume p': "map_of (properties w') k' = Some p'"
      have pkw: "pickups w' = pickups w3" by (simp add: w')
      show "k' = oid_str (sv_uniqueid p')"
        using p' markers_okD(2) [OF ok] p by (auto simp: props p2_def split: if_splits)
      show "pr_pickupid p' \<noteq> 0"
        using p' markers_okD(3) [OF ok] i(1) by (auto simp: props split: if_splits)
      show "map_of (pickups w') (pr_pickupid p') = Some (marker p', False)"
      proof (cases "k' = k")
        case True
        then show ?thesis using p' m3 by (auto simp: props pkw pk3)
      next
        case False
        then have p'w: "map_of (properties w) k' = Some p'" using p' by (simp add: props)
        have "map_of (pickups w2) (pr_pickupid p') = Some (marker p', False)" "pr_pickupid p' \<noteq> pr_pickupid p2"
          using markers_okD(4) [OF ok p'w] markers_apart [OF ok p p'w False] items(6) by (simp_all add: w1 p2_def)
        then show ?thesis using i(2) by (auto simp: pkw pk3)
      qed
    qed
    then show ?thesis using r props log Inr rel by (auto simp: w' same w2_def w1 p2_def)
  qed
qed

abbreviation money :: "profile \<Rightarrow> cint" where "money q \<equiv> gd_money (p_gamedata q)"

definition pay :: "cint \<Rightarrow> profile \<Rightarrow> profile" where
  "pay m q = p_gamedata_update (gd_money_update (\<lambda>x. x + m)) q"

lemma pay_simps [simp]: "money (pay m q) = money q + m" "sv_uniqueid (pay m q) = sv_uniqueid q"
  by (simp_all add: pay_def)

lemma Purchase_unfold:
  assumes p: "map_of (properties w) k = Some p" and q: "map_of (profiles w) pid = Some q"
  shows "Purchase k pid w = (if \<not> OnSale p then (Inl (RuntimeError ''This property is not on sale''), w)
    else if sint (money q) < sint (pr_value p) then (Inl (RuntimeError ''Don't have enough money''), w)
    else andthen (onProperty k (Update (bson_set [(''owner'', BOid (sv_uniqueid q))]) False))
      (andthen (prmod k (pr_owner_update (\<lambda>_. sv_uniqueid q))) (andthen (GiveMoney pid (- pr_value p)) (reload k))) w)"
  using assms by (simp add: Purchase_def seq_def world_eval GetMoney_def throw_def)

lemma Draw_spec:
  assumes ok: "markers_ok w" and p: "map_of (properties w) k = Some p" and q: "map_of (profiles w) pid = Some q"
    and run: "Draw k pid w = (r, w')"
  shows "markers_ok w' \<and> env w' = env w \<and> (case r of
      Inl e \<Rightarrow> map_of (properties w') = map_of (properties w) \<and> profiles w' = profiles w
    | Inr m \<Rightarrow> m = (if sv_uniqueid q = pr_owner p then earns p (now (env w)) else 0)
        \<and> map_of (profiles w') = (map_of (profiles w))(pid \<mapsto> pay m q)
        \<and> map_of (properties w') = (map_of (properties w))(k \<mapsto> p\<lparr>pr_lastdraw :=
            if sv_uniqueid q = pr_owner p \<and> earns p (now (env w)) \<noteq> 0 then now (env w) else pr_lastdraw p\<rparr>))
    \<and> (oid_isSet (sv_uniqueid p) \<longrightarrow> reliable (db w) \<longrightarrow> (\<exists>m. r = Inr m) \<and> reliable (db w'))"
proof -
  let ?e = "earns p (now (env w))"
  have same: "map_of (profiles w) = (map_of (profiles w))(pid \<mapsto> pay 0 q)" "map_of (properties w) = (map_of (properties w))(k \<mapsto> p\<lparr>pr_lastdraw := pr_lastdraw p\<rparr>)"
    using p q by (auto simp: fun_eq_iff pay_def)
  show ?thesis
  proof (cases "sv_uniqueid q = pr_owner p \<and> ?e \<noteq> 0")
    case False
    then have "r = Inr 0" "w' = w"
      using run p q by (auto simp: Draw_def seq_def world_eval gets_def ret_def split: if_splits)
    then show ?thesis using False ok same by auto
  next
    case True
    obtain ru w1 where u: "onProperty k (Update (bson_set [(''lastdraw'', BLong (word_of_int (now (env w))))]) False) w = (ru, w1)" by fastforce
    from onProperty_Update [OF this p] obtain d where w1: "w1 = w\<lparr>db := d, properties := setMember k p (properties w)\<rparr>" by blast
    have ok1: "markers_ok w1" unfolding w1 by (rule markers_ok_changes(1) [OF ok p]) (simp add: same_property_def)
    have rel: "ru = Inr () \<and> reliable (db w1)" if "oid_isSet (sv_uniqueid p)" "reliable (db w)"
      using onProperty_reliable [OF p that, of "bson_set [(''lastdraw'', BLong (word_of_int (now (env w))))]"] u by auto
    show ?thesis
    proof (cases ru)
      case (Inl e)
      then have "r = Inl e" "w' = w1" using run u p q True by (auto simp: Draw_def seq_def andthen_def world_eval gets_def)
      then show ?thesis using ok1 p rel Inl by (auto simp: w1 fun_eq_iff)
    next
      case (Inr x)
      let ?w2 = "w1\<lparr>profiles := setMember pid (pay ?e q) (profiles w), out := [GivePlayerMoney pid (money q + ?e), ResetPlayerMoney pid] @ out w1\<rparr>"
      let ?w3 = "?w2\<lparr>properties := setMember k (p\<lparr>pr_lastdraw := now (env w)\<rparr>) (properties w1)\<rparr>"
      have r: "r = Inr ?e" "w' = ?w3"
        using run u p q True Inr by (auto simp: Draw_def seq_def andthen_def world_eval gets_def ret_def GiveMoney_eval w1 pay_def)
      have "markers_ok ?w3"
        by (rule markers_ok_same [OF ok1]) (use p in \<open>auto simp: same_property_def w1 split: if_splits\<close>)
      then show ?thesis using r True rel by (auto simp: w1 fun_eq_iff)
    qed
  qed
qed

lemma Sell_unfold:
  assumes p: "map_of (properties w) k = Some p" and q: "map_of (profiles w) pid = Some q"
  shows "Sell k pid w = (if OnSale p then (Inl (RuntimeError ''This property has already been on sale''), w)
    else if sv_uniqueid q \<noteq> pr_owner p then (Inl (RuntimeError ''You aren't the owner''), w)
    else seq (Draw k pid) (\<lambda>_. andthen (onProperty k (Update (bson_set [(''owner'', BOid oid_clear)]) False))
      (andthen (prmod k (pr_owner_update (\<lambda>_. oid_clear))) (andthen (GiveMoney pid (pr_value p)) (reload k)))) w)"
  using assms by (simp add: Sell_def seq_def world_eval throw_def)

section \<open>Properties\<close>

lemma Purchase_ok: "markers_ok w \<Longrightarrow> markers_ok (snd (Purchase k pid w))"
proof -
  assume ok: "markers_ok w"
  show ?thesis
  proof (cases "map_of (properties w) k")
    case None
    then show ?thesis using ok by (simp add: Purchase_def seq_def readMember_def)
  next
    case p: (Some p)
    show ?thesis
    proof (cases "map_of (profiles w) pid")
      case None
      then show ?thesis using ok p by (simp add: Purchase_def seq_def readMember_def GetMoney_def throw_def)
    next
      case (Some q)
      then show ?thesis
        using ok transfer_spec [OF ok p Some prod.collapse [symmetric], of "sv_uniqueid q" "- pr_value p"]
        by (simp add: Purchase_unfold [OF p Some])
    qed
  qed
qed

lemma Draw_ok: "markers_ok w \<Longrightarrow> markers_ok (snd (Draw k pid w))"
proof -
  assume ok: "markers_ok w"
  show ?thesis
  proof (cases "map_of (properties w) k")
    case None
    then show ?thesis using ok by (simp add: Draw_def seq_def readMember_def)
  next
    case p: (Some p)
    show ?thesis
    proof (cases "map_of (profiles w) pid")
      case None
      then show ?thesis using ok p by (simp add: Draw_def seq_def readMember_def)
    next
      case (Some q)
      then show ?thesis using Draw_spec [OF ok p Some, of "fst (Draw k pid w)" "snd (Draw k pid w)"] by simp
    qed
  qed
qed

lemma Sell_cases:
  assumes ok: "markers_ok w" and p: "map_of (properties w) k = Some p" and q: "map_of (profiles w) pid = Some q"
    and run: "Sell k pid w = (r, w')"
  shows "markers_ok w' \<and> env w' = env w \<and> (if OnSale p then r = Inl (RuntimeError ''This property has already been on sale'') \<and> w' = w
    else if sv_uniqueid q \<noteq> pr_owner p then r = Inl (RuntimeError ''You aren't the owner'') \<and> w' = w
    else r = Inr () \<longrightarrow> map_of (profiles w') = (map_of (profiles w))(pid \<mapsto> pay (pr_value p) (pay (earns p (now (env w))) q))
      \<and> (\<exists>i icon t. map_of (properties w') = (map_of (properties w))(k \<mapsto>
            p\<lparr>pr_lastdraw := t, pr_owner := oid_clear, pr_pickupid := i, pr_mapicon := Some icon\<rparr>)))
    \<and> (oid_isSet (sv_uniqueid p) \<longrightarrow> reliable (db w) \<longrightarrow> \<not> OnSale p \<longrightarrow> sv_uniqueid q = pr_owner p \<longrightarrow> r = Inr () \<and> reliable (db w'))"
proof (cases "OnSale p \<or> sv_uniqueid q \<noteq> pr_owner p")
  case True
  then show ?thesis using ok run p q by (auto simp: Sell_unfold split: if_splits)
next
  case False
  obtain rd w1 where d: "Draw k pid w = (rd, w1)" by fastforce
  note D = Draw_spec [OF ok p q d]
  show ?thesis
  proof (cases rd)
    case (Inl e)
    then have "r = Inl e" "w' = w1" using run d False by (auto simp: Sell_unfold [OF p q] seq_def)
    then show ?thesis using D False Inl by simp
  next
    case (Inr m)
    let ?p1 = "p\<lparr>pr_lastdraw := if sv_uniqueid q = pr_owner p \<and> earns p (now (env w)) \<noteq> 0 then now (env w) else pr_lastdraw p\<rparr>"
    have ok1: "markers_ok w1" and p1: "map_of (properties w1) k = Some ?p1" and q1: "map_of (profiles w1) pid = Some (pay m q)"
      and m: "m = earns p (now (env w))" using D Inr False by simp_all
    have run1: "andthen (onProperty k (Update (bson_set [(''owner'', BOid oid_clear)]) False))
      (andthen (prmod k (pr_owner_update (\<lambda>_. oid_clear))) (andthen (GiveMoney pid (pr_value p)) (reload k))) w1 = (r, w')"
      using run d Inr False by (simp add: Sell_unfold [OF p q] seq_def)
    have map_of_profiles: "map_of (profiles w1) = (map_of (profiles w))(pid \<mapsto> pay m q)" using D Inr by simp
    have map_of_properties: "map_of (properties w1) = (map_of (properties w))(k \<mapsto> ?p1)" using D Inr by simp
    have env1: "env w1 = env w" using D by simp
    note T = transfer_spec [OF ok1 p1 q1 run1]
    show ?thesis
    proof (cases "r = Inr ()")
      case True
      then have pr': "profiles w' = setMember pid (pay (pr_value p) (pay m q)) (profiles w1)" using T by (simp add: pay_def)
      then have "map_of (profiles w') = (map_of (profiles w))(pid \<mapsto> pay (pr_value p) (pay m q))"
        by (auto simp: map_of_profiles fun_eq_iff)
      then show ?thesis using T D True False m env1 by (auto simp: map_of_properties)
    next
      case False
      then show ?thesis using T D \<open>\<not> (OnSale p \<or> sv_uniqueid q \<noteq> pr_owner p)\<close> env1 by simp
    qed
  qed
qed

lemma Sell_ok: "markers_ok w \<Longrightarrow> markers_ok (snd (Sell k pid w))"
proof -
  assume ok: "markers_ok w"
  show ?thesis
  proof (cases "map_of (properties w) k")
    case None
    then show ?thesis using ok by (simp add: Sell_def seq_def readMember_def)
  next
    case p: (Some p)
    show ?thesis
    proof (cases "map_of (profiles w) pid")
      case None
      then show ?thesis using ok p by (simp add: Sell_def seq_def readMember_def throw_def)
    next
      case (Some q)
      then show ?thesis using Sell_cases [OF ok p Some, of "fst (Sell k pid w)" "snd (Sell k pid w)"] by simp
    qed
  qed
qed

text \<open>What players do with properties.\<close>

datatype market_call = Buy string playerid | GiveBack string playerid | TakeProfit string playerid

fun market_run :: "market_call \<Rightarrow> world \<Rightarrow> world" where
  "market_run (Buy k pid) w = snd (Purchase k pid w)"
| "market_run (GiveBack k pid) w = snd (Sell k pid w)"
| "market_run (TakeProfit k pid) w = snd (Draw k pid w)"

lemma market_run_ok: "markers_ok w \<Longrightarrow> markers_ok (fold market_run cs w)"
proof (induction cs arbitrary: w)
  case (Cons c cs)
  then show ?case by (cases c) (simp_all add: Purchase_ok Sell_ok Draw_ok)
qed simp



text \<open>C25. A player who buys a property and sells it at once gets the price back and in between the profit of all the time since
  anybody last drew it, also of the time before the purchase; the property is on sale again.\<close>

theorem buy_and_sell:
  assumes ok: "markers_ok w" and p: "map_of (properties w) k = Some p" and q: "map_of (profiles w) pid = Some q"
    and set: "oid_isSet (sv_uniqueid q)"
    and buy: "Purchase k pid w = (Inr (), w1)" and sell: "Sell k pid w1 = (Inr (), w2)"
  shows "\<exists>q' p'. map_of (profiles w2) pid = Some q' \<and> money q' = money q + earns p (now (env w))
    \<and> map_of (properties w2) k = Some p' \<and> OnSale p'"
proof -
  have sale: "OnSale p \<and> \<not> sint (money q) < sint (pr_value p)"
    using buy by (auto simp: Purchase_unfold [OF p q] split: if_splits)
  then have run: "andthen (onProperty k (Update (bson_set [(''owner'', BOid (sv_uniqueid q))]) False))
      (andthen (prmod k (pr_owner_update (\<lambda>_. sv_uniqueid q))) (andthen (GiveMoney pid (- pr_value p)) (reload k))) w = (Inr (), w1)"
    using buy by (simp add: Purchase_unfold [OF p q])
  note T = transfer_spec [OF ok p q run]
  then obtain i icon where
    p1: "map_of (properties w1) k = Some (p\<lparr>pr_owner := sv_uniqueid q, pr_pickupid := i, pr_mapicon := Some icon\<rparr>)" by auto
  have q1: "map_of (profiles w1) pid = Some (pay (- pr_value p) q)" and ok1: "markers_ok w1" and env1: "env w1 = env w"
    using T by (simp_all add: pay_def)
  show ?thesis
    using Sell_cases [OF ok1 p1 q1 sell] set by (auto simp: OnSale_def env1 earns_def oid_clear_def oid_isSet_def)
qed

section \<open>An example\<close>

definition demo_property :: property where
  "demo_property = (new_property (saveable.make ''property'' [(''_id'', BOid 7)] 7))\<lparr>pr_value := 1000, pr_profit := 50, pr_lastdraw := 97120\<rparr>"

definition demo_market :: world where
  "demo_market = (let w = demo_world\<lparr>profiles := [(1, demo_profile 1 11)]\<rparr> in
     case Pickup_new (marker demo_property) 0 0 0 w of (r, w1) \<Rightarrow> (let i = (case r of Inr i \<Rightarrow> i | Inl e \<Rightarrow> 0) in
       w1\<lparr>pickups := [(i, marker demo_property, False)], properties := [(oid_str 7, demo_property\<lparr>pr_pickupid := i\<rparr>)]\<rparr>))"

lemma pickups_ok_demo: "pickups_ok (demo_world\<lparr>profiles := ps\<rparr>)"
proof -
  have "streamer_ok demo_world"
    by (rule streamer_start_ok) (simp add: streamer_start_def)
  moreover have "streamer_ok (demo_world\<lparr>profiles := ps\<rparr>) = streamer_ok demo_world" by (rule streamer_ok_cong) simp_all
  ultimately show ?thesis by (simp add: pickups_ok_def IsExist_def)
qed

lemma demo_market_spec:
  "\<exists>i. markers_ok demo_market \<and> properties demo_market = [(oid_str 7, demo_property\<lparr>pr_pickupid := i\<rparr>)]
    \<and> profiles demo_market = [(1, demo_profile 1 11)] \<and> db demo_market = demo_db \<and> env demo_market = demo_env"
proof -
  let ?w = "demo_world\<lparr>profiles := [(1, demo_profile 1 11)]\<rparr>"
  have "s_maxItems ?w KPickup \<noteq> length (s_items ?w KPickup)" by simp
  from Pickup_new_spec [OF pickups_ok_demo this, of "marker demo_property" 0 0 0]
  obtain i w1 where r: "Pickup_new (marker demo_property) 0 0 0 ?w = (Inr i, w1)" and ok: "pickups_ok w1" and fr: "frame ?w w1"
    and v: "isValid KPickup i w1" and i: "0 < i" by blast
  let ?p = "demo_property\<lparr>pr_pickupid := i\<rparr>"
  have m: "demo_market = w1\<lparr>pickups := [(i, marker demo_property, False)], properties := [(oid_str 7, ?p)]\<rparr>"
    by (simp add: demo_market_def r Let_def)
  have "streamer_ok demo_market" using ok streamer_ok_cong [of demo_market w1] by (simp add: m pickups_ok_def)
  then have "pickups_ok demo_market" using ok v by (auto simp: m pickups_ok_def IsExist_def isValid_def)
  moreover have "sv_uniqueid ?p = 7" "marker ?p = marker demo_property"
    by (simp_all add: demo_property_def new_property_def saveable.defs property.defs marker_def)
  ultimately have "markers_ok demo_market" using i by (simp add: markers_ok_def) (simp add: m)
  then show ?thesis using frame_world [OF fr] by (intro exI [of _ i]) (simp add: m)
qed

lemma demo_property_simps [simp]:
  "sv_uniqueid demo_property = 7"
  "sv_uniqueid (demo_property\<lparr>pr_pickupid := i\<rparr>) = 7" "pr_owner (demo_property\<lparr>pr_pickupid := i\<rparr>) = 0"
  "pr_value (demo_property\<lparr>pr_pickupid := i\<rparr>) = 1000" "earns (demo_property\<lparr>pr_pickupid := i\<rparr>) 100000 = 100"
  "OnSale (demo_property\<lparr>pr_pickupid := i\<rparr>)" "sv_collection (demo_property\<lparr>pr_pickupid := i\<rparr>) = ''property''"
  by (simp_all add: demo_property_def new_property_def saveable.defs property.defs earns_def OnSale_def oid_clear_def oid_isSet_def)

lemma demo_purchase: "fst (Purchase (oid_str 7) 1 demo_market) = Inr () \<and> reliable (db (snd (Purchase (oid_str 7) 1 demo_market)))"
proof -
  obtain i where ok: "markers_ok demo_market" and p: "map_of (properties demo_market) (oid_str 7) = Some (demo_property\<lparr>pr_pickupid := i\<rparr>)"
    and q: "map_of (profiles demo_market) 1 = Some (demo_profile 1 11)" and db: "reliable (db demo_market)"
    using demo_market_spec reliable_demo by fastforce
  from transfer_spec [OF ok p q prod.collapse [symmetric], of 11 "- 1000"] db show ?thesis
    by (simp add: Purchase_unfold [OF p q] oid_isSet_def)
qed



theorem buy_and_sell_witness:
  "\<exists>w1 w2 q'. Purchase (oid_str 7) 1 demo_market = (Inr (), w1) \<and> Sell (oid_str 7) 1 w1 = (Inr (), w2)
     \<and> map_of (profiles w2) 1 = Some q' \<and> money q' = 5100"
proof -
  obtain i where ok: "markers_ok demo_market" and p: "map_of (properties demo_market) (oid_str 7) = Some (demo_property\<lparr>pr_pickupid := i\<rparr>)"
    and q: "map_of (profiles demo_market) 1 = Some (demo_profile 1 11)" and e: "env demo_market = demo_env"
    using demo_market_spec by fastforce
  obtain w1 where buy: "Purchase (oid_str 7) 1 demo_market = (Inr (), w1)" and db: "reliable (db w1)"
    using demo_purchase by (metis prod.collapse)
  then have run: "andthen (onProperty (oid_str 7) (Update (bson_set [(''owner'', BOid 11)]) False))
      (andthen (prmod (oid_str 7) (pr_owner_update (\<lambda>_. 11))) (andthen (GiveMoney 1 (- 1000)) (reload (oid_str 7)))) demo_market = (Inr (), w1)"
    by (simp add: Purchase_unfold [OF p q])
  note T = transfer_spec [OF ok p q run]
  obtain p1 where p1: "map_of (properties w1) (oid_str 7) = Some p1" and o1: "pr_owner p1 = 11" "sv_uniqueid p1 = 7" using T by auto
  obtain q1 where q1: "map_of (profiles w1) 1 = Some q1" "sv_uniqueid q1 = 11" using T by auto
  have ok1: "markers_ok w1" using T by simp
  obtain w2 where sell: "Sell (oid_str 7) 1 w1 = (Inr (), w2)"
    using Sell_cases [OF ok1 p1 q1(1) prod.collapse [symmetric]] db o1 q1(2) by (auto simp: OnSale_def oid_isSet_def prod_eq_iff)
  from buy_and_sell [OF ok p q _ buy sell] buy sell show ?thesis by (auto simp: oid_isSet_def e demo_env_def)
qed

end
