(* ===== verification/Dialog_Table.thy ===== *)
theory Dialog_Table
  imports Property_Correct
begin

text \<open>
  The dialogs (\<^verbatim>\<open>DialogManager\<close> in \<^verbatim>\<open>application_gamemode_manager_classes.cpp\<close>): their ids
  (\<^verbatim>\<open>application_gamemode_definition_dialog.h\<close>), the cells the \<^verbatim>\<open>DIALOG\<close> macros of
  \<^verbatim>\<open>application_gamemode_callback_dialog.cpp\<close> register before \<^verbatim>\<open>main\<close>, and \<^verbatim>\<open>Show\<close>. The callbacks are in the theory of
  the dialogs.
\<close>

section \<open>Ids\<close>

abbreviation (input) DIALOG_RACING_JOIN :: int where "DIALOG_RACING_JOIN \<equiv> 0"
abbreviation (input) DIALOG_RACING_START_NAME :: int where "DIALOG_RACING_START_NAME \<equiv> 1"
abbreviation (input) DIALOG_RACING_CREATE_NAME :: int where "DIALOG_RACING_CREATE_NAME \<equiv> 2"
abbreviation (input) DIALOG_RACING_MAIN :: int where "DIALOG_RACING_MAIN \<equiv> 3"
abbreviation (input) DIALOG_PROPERTY_CREATE_PROFIT :: int where "DIALOG_PROPERTY_CREATE_PROFIT \<equiv> 4"
abbreviation (input) DIALOG_PROPERTY_CREATE_VALUE :: int where "DIALOG_PROPERTY_CREATE_VALUE \<equiv> 5"
abbreviation (input) DIALOG_PROPERTY_CREATE_NAME :: int where "DIALOG_PROPERTY_CREATE_NAME \<equiv> 6"
abbreviation (input) DIALOG_PROPERTY_MAIN :: int where "DIALOG_PROPERTY_MAIN \<equiv> 7"
abbreviation (input) DIALOG_PROPERTY_INFO :: int where "DIALOG_PROPERTY_INFO \<equiv> 8"
abbreviation (input) DIALOG_PROPERTY_SOLD :: int where "DIALOG_PROPERTY_SOLD \<equiv> 9"
abbreviation (input) DIALOG_PROPERTY_ONSALE :: int where "DIALOG_PROPERTY_ONSALE \<equiv> 10"
abbreviation (input) DIALOG_PLAYER_MESSAGE :: int where "DIALOG_PLAYER_MESSAGE \<equiv> 11"
abbreviation (input) DIALOG_PLAYER_MAIN :: int where "DIALOG_PLAYER_MAIN \<equiv> 12"
abbreviation (input) DIALOG_SERVER_MAIN :: int where "DIALOG_SERVER_MAIN \<equiv> 13"
abbreviation (input) DIALOG_TELEPORT_MAIN :: int where "DIALOG_TELEPORT_MAIN \<equiv> 14"
abbreviation (input) DIALOG_TELEPORT_CREATE :: int where "DIALOG_TELEPORT_CREATE \<equiv> 15"
abbreviation (input) DIALOG_TELEPORT_USE :: int where "DIALOG_TELEPORT_USE \<equiv> 16"
abbreviation (input) DIALOG_TELEPORT_NEARBY :: int where "DIALOG_TELEPORT_NEARBY \<equiv> 17"
abbreviation (input) DIALOG_TELEPORT_CREATETRIGGER :: int where "DIALOG_TELEPORT_CREATETRIGGER \<equiv> 18"
abbreviation (input) DIALOG_GANGZONE_MAIN :: int where "DIALOG_GANGZONE_MAIN \<equiv> 19"
abbreviation (input) DIALOG_GANGZONE_CREATE :: int where "DIALOG_GANGZONE_CREATE \<equiv> 20"
abbreviation (input) DIALOG_GANGZONE_CREATE_PROCESS :: int where "DIALOG_GANGZONE_CREATE_PROCESS \<equiv> 21"
abbreviation (input) DIALOG_GANGZONE_REMOVE :: int where "DIALOG_GANGZONE_REMOVE \<equiv> 22"
abbreviation (input) DIALOG_GANGZONE_CHOOSETOSPAWN :: int where "DIALOG_GANGZONE_CHOOSETOSPAWN \<equiv> 23"
abbreviation (input) DIALOG_TEAM_SELECT :: int where "DIALOG_TEAM_SELECT \<equiv> 24"
abbreviation (input) DIALOG_PROFILE_SETTING_NICKNAME :: int where "DIALOG_PROFILE_SETTING_NICKNAME \<equiv> 25"
abbreviation (input) DIALOG_PROFILE_SETTING :: int where "DIALOG_PROFILE_SETTING \<equiv> 26"
abbreviation (input) DIALOG_PROFILE_REGISTER :: int where "DIALOG_PROFILE_REGISTER \<equiv> 27"
abbreviation (input) DIALOG_PROFILE_LOGIN :: int where "DIALOG_PROFILE_LOGIN \<equiv> 28"
abbreviation (input) DIALOG_ROLE_SELECT :: int where "DIALOG_ROLE_SELECT \<equiv> 29"

section \<open>Registered dialogs\<close>

text \<open>The styles are 0 (message box), 1 (input), 2 (list) and 3 (password).\<close>

record DialogCell =
  dc_style :: int
  dc_caption :: string
  dc_btnOK :: string
  dc_btnCancel :: string
  dc_mustresponse :: bool

definition dialogs :: "(int, DialogCell) members" where
  "dialogs =
    [(DIALOG_TEAM_SELECT, \<lparr>dc_style = 2, dc_caption = txt_select_team, dc_btnOK = txt_ok, dc_btnCancel = [], dc_mustresponse = True\<rparr>),
     (DIALOG_ROLE_SELECT, \<lparr>dc_style = 2, dc_caption = txt_select_role, dc_btnOK = txt_ok, dc_btnCancel = [], dc_mustresponse = True\<rparr>),
     (DIALOG_PROFILE_REGISTER, \<lparr>dc_style = 3, dc_caption = txt_register, dc_btnOK = txt_register, dc_btnCancel = [], dc_mustresponse = True\<rparr>),
     (DIALOG_PROFILE_LOGIN, \<lparr>dc_style = 3, dc_caption = txt_login, dc_btnOK = txt_login, dc_btnCancel = [], dc_mustresponse = True\<rparr>),
     (DIALOG_GANGZONE_CHOOSETOSPAWN, \<lparr>dc_style = 2, dc_caption = txt_select_spawn, dc_btnOK = txt_ok, dc_btnCancel = [], dc_mustresponse = True\<rparr>),
     (DIALOG_GANGZONE_MAIN, \<lparr>dc_style = 2, dc_caption = ''GangZone'', dc_btnOK = txt_ok, dc_btnCancel = txt_cancel, dc_mustresponse = False\<rparr>),
     (DIALOG_GANGZONE_CREATE, \<lparr>dc_style = 1, dc_caption = txt_create_gz, dc_btnOK = txt_ok, dc_btnCancel = txt_cancel, dc_mustresponse = False\<rparr>),
     (DIALOG_GANGZONE_CREATE_PROCESS, \<lparr>dc_style = 2, dc_caption = txt_create_gz, dc_btnOK = txt_ok, dc_btnCancel = txt_cancel, dc_mustresponse = False\<rparr>),
     (DIALOG_GANGZONE_REMOVE, \<lparr>dc_style = 2, dc_caption = txt_select_gz_remove, dc_btnOK = txt_delete, dc_btnCancel = txt_cancel, dc_mustresponse = False\<rparr>),
     (DIALOG_TELEPORT_MAIN, \<lparr>dc_style = 2, dc_caption = txt_teleport, dc_btnOK = txt_ok, dc_btnCancel = txt_cancel, dc_mustresponse = False\<rparr>),
     (DIALOG_TELEPORT_CREATE, \<lparr>dc_style = 1, dc_caption = txt_create_waypoint, dc_btnOK = txt_create, dc_btnCancel = txt_cancel, dc_mustresponse = False\<rparr>),
     (DIALOG_TELEPORT_USE, \<lparr>dc_style = 1, dc_caption = txt_teleport_to, dc_btnOK = txt_teleport, dc_btnCancel = txt_cancel, dc_mustresponse = False\<rparr>),
     (DIALOG_TELEPORT_NEARBY, \<lparr>dc_style = 2, dc_caption = txt_view_nearby, dc_btnOK = txt_teleport, dc_btnCancel = txt_cancel, dc_mustresponse = False\<rparr>),
     (DIALOG_TELEPORT_CREATETRIGGER, \<lparr>dc_style = 1, dc_caption = txt_create_trigger, dc_btnOK = txt_create, dc_btnCancel = txt_cancel, dc_mustresponse = False\<rparr>),
     (DIALOG_SERVER_MAIN, \<lparr>dc_style = 2, dc_caption = txt_manage_server, dc_btnOK = txt_ok, dc_btnCancel = txt_cancel, dc_mustresponse = False\<rparr>),
     (DIALOG_PLAYER_MAIN, \<lparr>dc_style = 2, dc_caption = txt_player, dc_btnOK = txt_ok, dc_btnCancel = txt_cancel, dc_mustresponse = False\<rparr>),
     (DIALOG_PLAYER_MESSAGE, \<lparr>dc_style = 1, dc_caption = txt_message_menu, dc_btnOK = txt_send, dc_btnCancel = txt_cancel, dc_mustresponse = False\<rparr>),
     (DIALOG_PROFILE_SETTING, \<lparr>dc_style = 2, dc_caption = txt_settings, dc_btnOK = txt_ok, dc_btnCancel = txt_cancel, dc_mustresponse = False\<rparr>),
     (DIALOG_PROFILE_SETTING_NICKNAME, \<lparr>dc_style = 1, dc_caption = txt_change_nickname, dc_btnOK = txt_ok, dc_btnCancel = txt_cancel, dc_mustresponse = False\<rparr>),
     (DIALOG_PROPERTY_ONSALE, \<lparr>dc_style = 0, dc_caption = txt_property, dc_btnOK = txt_purchase, dc_btnCancel = txt_cancel, dc_mustresponse = False\<rparr>),
     (DIALOG_PROPERTY_SOLD, \<lparr>dc_style = 2, dc_caption = txt_property, dc_btnOK = txt_ok, dc_btnCancel = txt_cancel, dc_mustresponse = False\<rparr>),
     (DIALOG_PROPERTY_INFO, \<lparr>dc_style = 0, dc_caption = txt_property, dc_btnOK = txt_ok, dc_btnCancel = [], dc_mustresponse = True\<rparr>),
     (DIALOG_PROPERTY_MAIN, \<lparr>dc_style = 2, dc_caption = txt_property, dc_btnOK = txt_ok, dc_btnCancel = [], dc_mustresponse = False\<rparr>),
     (DIALOG_PROPERTY_CREATE_NAME, \<lparr>dc_style = 1, dc_caption = txt_create_property, dc_btnOK = txt_ok, dc_btnCancel = txt_cancel, dc_mustresponse = False\<rparr>),
     (DIALOG_PROPERTY_CREATE_VALUE, \<lparr>dc_style = 1, dc_caption = txt_create_property, dc_btnOK = txt_ok, dc_btnCancel = txt_cancel, dc_mustresponse = False\<rparr>),
     (DIALOG_PROPERTY_CREATE_PROFIT, \<lparr>dc_style = 1, dc_caption = txt_create_property, dc_btnOK = txt_finish, dc_btnCancel = txt_cancel, dc_mustresponse = False\<rparr>),
     (DIALOG_RACING_MAIN, \<lparr>dc_style = 2, dc_caption = txt_racing, dc_btnOK = txt_ok, dc_btnCancel = txt_cancel, dc_mustresponse = False\<rparr>),
     (DIALOG_RACING_START_NAME, \<lparr>dc_style = 1, dc_caption = txt_start_race, dc_btnOK = txt_ok, dc_btnCancel = txt_cancel, dc_mustresponse = False\<rparr>),
     (DIALOG_RACING_CREATE_NAME, \<lparr>dc_style = 1, dc_caption = txt_create_track, dc_btnOK = txt_ok, dc_btnCancel = txt_cancel, dc_mustresponse = False\<rparr>)]"

definition ShowPlayer :: "int \<Rightarrow> DialogCell \<Rightarrow> string \<Rightarrow> playerid \<Rightarrow> unit wprog" where
  "ShowPlayer dialogid c content pid = native (ShowPlayerDialog pid dialogid (dc_style c) (dc_caption c) content (dc_btnOK c)
     (if dc_mustresponse c then [] else dc_btnCancel c))"

definition Show :: "int \<Rightarrow> string \<Rightarrow> playerid \<Rightarrow> bool \<Rightarrow> unit wprog" where
  "Show dialogid content pid showforall = (case map_of dialogs dialogid of
     None \<Rightarrow> throw (RuntimeError ''Unregistered dialog'')
   | Some c \<Rightarrow> if showforall then seq (gets profiles) (\<lambda>m. forEach m (\<lambda>(q, _). ShowPlayer dialogid c content q))
               else ShowPlayer dialogid c content pid)"

end
