(* ===== verification/Waypoint.thy ===== *)
theory Waypoint
  imports Dialog_Table
begin

text \<open>
  Waypoints, stored points players teleport to, and the teleport triggers placed in the world
  (\<^verbatim>\<open>application_data_waypoint.cpp\<close>).
\<close>

record waypoint = saveable +
  wp_point :: Coordinate5D

definition waypoint_point :: "doc \<Rightarrow> exn + Coordinate5D" where
  "waypoint_point raw =
     bindR (bson_Array (getField raw ''xy'')) (\<lambda>c.
     bindR (array_float c 0) (\<lambda>x. bindR (array_float c 1) (\<lambda>y. bindR (number_float raw ''z'') (\<lambda>z.
     bindR (number_int raw ''world'') (\<lambda>v. bindR (number_int raw ''interior'') (\<lambda>i. bindR (number_float raw ''facing'') (\<lambda>a.
       Inr (point5 x y z v i a))))))))"

definition new_waypoint :: "saveable \<Rightarrow> Coordinate5D \<Rightarrow> waypoint" where
  "new_waypoint s p = saveable.extend s (waypoint.fields p)"

definition Waypoint_LoadData :: "saveable \<Rightarrow> waypoint wprog" where
  "Waypoint_LoadData s = catchUser ''Invalid waypoint document''
     (seq (liftR (waypoint_point (sv_rawdata s))) (\<lambda>p. ret (new_waypoint s p)))"

definition Waypoint_byTitle :: "string \<Rightarrow> waypoint wprog" where
  "Waypoint_byTitle title = seq (config cfg_string ''Database.waypoint'') (\<lambda>c. seq (codec GBKToUTF8 title) (\<lambda>t.
     seq (onDB (saveable_byQuery c (''title'', BStr t))) Waypoint_LoadData))"

definition Waypoint_byID :: "oid \<Rightarrow> waypoint wprog" where
  "Waypoint_byID u = seq (config cfg_string ''Database.waypoint'') (\<lambda>c. seq (onDB (saveable_byID c u)) Waypoint_LoadData)"

definition Waypoint_at :: "Coordinate5D \<Rightarrow> waypoint wprog" where
  "Waypoint_at p = seq (config cfg_string ''Database.waypoint'') (\<lambda>c. ret (new_waypoint (saveable_new c) p))"

section \<open>Teleporting\<close>

definition ApplyToPlayer :: "waypoint \<Rightarrow> playerid \<Rightarrow> unit wprog" where
  "ApplyToPlayer wp pid = (let p = wp_point wp in
     andthen (native (SetPlayerVirtualWorld pid (virtualworld p)))
    (andthen (native (SetPlayerInterior pid (interior p)))
    (andthen (native (SetPlayerPos pid (cx p) (cy p) (cz p)))
             (native (SetPlayerFacingAngle pid (facingangle p))))))"

definition ApplyToVehicle :: "waypoint \<Rightarrow> int \<Rightarrow> unit wprog" where
  "ApplyToVehicle wp vid = (let p = wp_point wp in
     andthen (native (SetVehicleVirtualWorld vid (virtualworld p)))
    (andthen (native (LinkVehicleToInterior vid (interior p)))
             (native (SetVehiclePos vid (cx p) (cy p) (cz p)))))"

text \<open>The driver takes the vehicle along.\<close>

definition PerformTeleport :: "waypoint \<Rightarrow> playerid \<Rightarrow> unit wprog" where
  "PerformTeleport wp pid = andthen (ApplyToPlayer wp pid)
     (seq (ask (\<lambda>s. q_seat s pid)) (\<lambda>seat.
       if seat = 0 then seq (ask (\<lambda>s. q_vehicle s pid)) (\<lambda>vid.
         andthen (ApplyToVehicle wp vid) (native (PutPlayerInVehicle pid vid 0)))
       else ret ()))"

section \<open>Creating\<close>

definition waypoint_doc :: "oid \<Rightarrow> string \<Rightarrow> oid \<Rightarrow> Coordinate5D \<Rightarrow> doc" where
  "waypoint_doc u title creator p =
     [(''_id'', BOid u), (''title'', BStr title), (''creator'', BOid creator), (''xy'', BArr [BDbl (cx p), BDbl (cy p)]),
      (''z'', BDbl (cz p)), (''world'', BInt (virtualworld p)), (''interior'', BInt (interior p)), (''facing'', BDbl (facingangle p))]"

definition Waypoint_Create :: "waypoint \<Rightarrow> string \<Rightarrow> oid \<Rightarrow> waypoint wprog" where
  "Waypoint_Create wp title creator = seq (onDB genOID) (\<lambda>u. seq (codec GBKToUTF8 title) (\<lambda>t.
     seq (onNew wp (Create (waypoint_doc u t creator (wp_point wp)) False)) (\<lambda>(_, wp). ret wp)))"

definition CreateTeleportTrigger :: "oid \<Rightarrow> Coordinate3D \<Rightarrow> unit wprog" where
  "CreateTeleportTrigger u p = seq (config cfg_string ''Database.tptrigger'') (\<lambda>c.
     andthen (onDB (request (DbInsert c [(''waypoint'', BOid u), (''xy'', BArr [BDbl (cx p), BDbl (cy p)]), (''z'', BDbl (cz p))])))
       (seq (PlacePickup (TeleportTrigger u) (cx p) (cy p) (cz p)) (\<lambda>_. ret ())))"

definition LoadAllTeleportTriggers :: "unit wprog" where
  "LoadAllTeleportTriggers = seq (config cfg_string ''Database.tptrigger'') (\<lambda>c. seq (onDB (queryAll c)) (\<lambda>ds.
     forEach ds (\<lambda>d. seq (liftR (bson_Array (getField d ''xy''))) (\<lambda>xy.
       seq (liftR (bindR (bson_OID (getField d ''waypoint'')) (\<lambda>u. bindR (array_float xy 0) (\<lambda>x. bindR (array_float xy 1) (\<lambda>y.
         bindR (number_float d ''z'') (\<lambda>z. Inr (u, x, y, z))))))) (\<lambda>(u, x, y, z).
       seq (PlacePickup (TeleportTrigger u) x y z) (\<lambda>_. ret ()))))))"

end
