(* ===== verification/GangZone.thy ===== *)
theory GangZone
  imports Waypoint
begin

text \<open>
  Gang zones and the wars for them (\<^verbatim>\<open>application_data_gangzone.cpp\<close>, \<^verbatim>\<open>GangZoneManager\<close> in
  \<^verbatim>\<open>application_gamemode_manager_classes.cpp\<close>), keyed by the id the server gave to the zone on the map. A zone owns its zone on the map,
  a dynamic area and a trigger. The timers of a war hold a pointer to the zone; \<open>z_this\<close> is the identity they refer to.
\<close>

section \<open>Construction\<close>

definition CreateZone :: "flt \<Rightarrow> flt \<Rightarrow> flt \<Rightarrow> flt \<Rightarrow> int wprog" where
  "CreateZone minx miny maxx maxy = seq (ask q_newzone) (\<lambda>i. andthen (native (GangZoneCreate minx miny maxx maxy)) (ret i))"

text \<open>The members of a zone that is being built; the ints the constructors leave alone hold anything.\<close>

definition new_zone :: "saveable \<Rightarrow> nat \<Rightarrow> int \<Rightarrow> gangzone" where
  "new_zone s this junk = saveable.extend s (gangzone.fields this junk junk junk [] oid_clear (word_of_int junk) junk junk oid_clear
     \<lparr>wi_InWar = False, wi_Attacker = oid_clear, wi_MemberDeath = 0, wi_EnemyKill = 0\<rparr>)"

definition fresh_object :: "nat wprog" where
  "fresh_object w = (Inr (next_object w), w\<lparr>next_object := Suc (next_object w)\<rparr>)"

text \<open>\<^verbatim>\<open>_LoadOwnerData\<close>: the owner has to be a team. The colour is computed with wrap-around.\<close>

definition LoadOwnerData :: "gangzone \<Rightarrow> gangzone wprog" where
  "LoadOwnerData z = catchUser ''Invalid gangzone data'' (seq (gets (\<lambda>w. UTF8ToGBK (env w))) (\<lambda>u2g.
     seq (liftR (bson_String (getField (sv_rawdata z) ''name''))) (\<lambda>n.
     seq (liftR (bson_OID (getField (sv_rawdata z) ''owner''))) (\<lambda>owner.
     seq (TeamMgr_get owner) (\<lambda>k. seq (tget k t_color) (\<lambda>c.
     seq (liftR (bson_OID (getField (sv_rawdata z) ''spawn''))) (\<lambda>sp.
       andthen (native (GangZoneShowForAll (z_zone z) (c - 0x7F)))
         (ret (z\<lparr>z_name := u2g n, z_owner := owner, z_color := c - 0x7F, z_spawnpoint := sp\<rparr>)))))))))"

definition PlaceArea :: "int \<Rightarrow> CoordinatePlane \<Rightarrow> CoordinatePlane \<Rightarrow> int wprog" where
  "PlaceArea zone lo hi = seq (GangZoneArea_new lo hi) (\<lambda>i. seq (DynAreaMgr_Add i zone) (\<lambda>_. ret i))"

definition InitArea :: "gangzone \<Rightarrow> gangzone wprog" where
  "InitArea z = (let raw = sv_rawdata z in
     seq (liftR (number_float raw ''minx'')) (\<lambda>minx. seq (liftR (number_float raw ''miny'')) (\<lambda>miny.
     seq (liftR (number_float raw ''maxx'')) (\<lambda>maxx. seq (liftR (number_float raw ''maxy'')) (\<lambda>maxy.
     seq (liftR (bson_Obj (getField raw ''trigger''))) (\<lambda>m.
     seq (liftR (number_float m ''x'')) (\<lambda>x. seq (liftR (number_float m ''y'')) (\<lambda>y. seq (liftR (number_float m ''z'')) (\<lambda>tz.
     seq (CreateZone minx miny maxx maxy) (\<lambda>zone.
     seq (PlaceArea zone (plane minx miny) (plane maxx maxy)) (\<lambda>area.
     seq (PlacePickup (TurfWarTrigger zone) x y tz) (\<lambda>t.
       ret (z\<lparr>z_zone := zone, z_areaid := area, z_triggerid := t\<rparr>)))))))))))))"

text \<open>When a constructor throws, the members built so far are destroyed: the zone on the map. The area and the trigger stay
  in their managers.\<close>

definition orDestroyZone :: "int \<Rightarrow> 'a wprog \<Rightarrow> 'a wprog" where
  "orDestroyZone zone m = tryCatch m (\<lambda>e. andthen (native (GangZoneDestroy zone)) (throw e))"

definition finish_zone :: "gangzone \<Rightarrow> gangzone wprog" where
  "finish_zone z = seq (InitArea z) (\<lambda>z. orDestroyZone (z_zone z) (LoadOwnerData z))"

definition Zone_byName :: "string \<Rightarrow> gangzone wprog" where
  "Zone_byName name = seq (config cfg_string ''Database.gangzone'') (\<lambda>c. seq (codec GBKToUTF8 name) (\<lambda>n.
     seq (onDB (saveable_byQuery c (''name'', BStr n))) (\<lambda>s. seq fresh_object (\<lambda>this. seq (gets env) (\<lambda>e.
     finish_zone (new_zone s this (uninitialised e)))))))"

definition Zone_byData :: "doc \<Rightarrow> gangzone wprog" where
  "Zone_byData data = seq (config cfg_string ''Database.gangzone'') (\<lambda>c. seq fresh_object (\<lambda>this. seq (gets env) (\<lambda>e.
     seq (onNew (new_zone (saveable_new c) this (uninitialised e)) (InitData data)) (\<lambda>(_, z). finish_zone z))))"

definition zone_doc :: "oid \<Rightarrow> string \<Rightarrow> CoordinatePlane \<Rightarrow> CoordinatePlane \<Rightarrow> oid \<Rightarrow> oid \<Rightarrow> Coordinate3D \<Rightarrow> doc" where
  "zone_doc u name lo hi owner spawn t =
     [(''_id'', BOid u), (''name'', BStr name), (''minx'', BDbl (cx lo)), (''miny'', BDbl (cy lo)), (''maxx'', BDbl (cx hi)),
      (''maxy'', BDbl (cy hi)), (''owner'', BOid owner), (''spawn'', BOid spawn),
      (''trigger'', BObj [(''x'', BDbl (cx t)), (''y'', BDbl (cy t)), (''z'', BDbl (cz t))])]"

definition Zone_new :: "string \<Rightarrow> oid \<Rightarrow> CoordinatePlane \<Rightarrow> CoordinatePlane \<Rightarrow> oid \<Rightarrow> Coordinate3D \<Rightarrow> gangzone wprog" where
  "Zone_new name owner lo hi spawn t = seq (config cfg_string ''Database.gangzone'') (\<lambda>c. seq fresh_object (\<lambda>this. seq (gets env) (\<lambda>e.
     seq (CreateZone (cx lo) (cy lo) (cx hi) (cy hi)) (\<lambda>zone. orDestroyZone zone (
       seq (onDB genOID) (\<lambda>u. seq (codec GBKToUTF8 name) (\<lambda>n.
       seq (onNew ((new_zone (saveable_new c) this (uninitialised e))\<lparr>z_zone := zone\<rparr>) (Create (zone_doc u n lo hi owner spawn t) True)) (\<lambda>(_, z).
       seq (LoadOwnerData z) (\<lambda>z.
       seq (PlaceArea zone lo hi) (\<lambda>area.
       seq (PlacePickup (TurfWarTrigger zone) (cx t) (cy t) (cz t)) (\<lambda>tr.
         ret (z\<lparr>z_areaid := area, z_triggerid := tr\<rparr>)))))))))))) "

definition Zone_destroy :: "gangzone \<Rightarrow> unit wprog" where
  "Zone_destroy z = seq (DynAreaMgr_Remove (z_areaid z)) (\<lambda>_. seq (PickupMgr_Remove (z_triggerid z)) (\<lambda>_. native (GangZoneDestroy (z_zone z))))"

section \<open>Member functions\<close>

definition Zone_SetName :: "int \<Rightarrow> string \<Rightarrow> unit wprog" where
  "Zone_SetName k name = seq (codec GBKToUTF8 name) (\<lambda>n.
     andthen (onZone k (Update (bson_set [(''name'', BStr n)]) False)) (zmod k (z_name_update (\<lambda>_. name))))"

definition SetOwner :: "int \<Rightarrow> oid \<Rightarrow> unit wprog" where
  "SetOwner k owner = andthen (onZone k (Update (bson_set [(''owner'', BOid owner)]) False)) (zmod k (z_owner_update (\<lambda>_. owner)))"

definition SetSpawnPoint :: "int \<Rightarrow> oid \<Rightarrow> unit wprog" where
  "SetSpawnPoint k u = andthen (onZone k (Update (bson_set [(''spawn'', BOid u)]) False)) (zmod k (z_spawnpoint_update (\<lambda>_. u)))"

definition Redraw :: "int \<Rightarrow> unit wprog" where
  "Redraw k = seq (zget k id) (\<lambda>z. if wi_InWar (z_warinfo z) then native (GangZoneFlashForAll (z_zone z) (COLOR_RED - 0x7F))
     else native (GangZoneShowForAll (z_zone z) (z_color z)))"

definition zonewar :: "int \<Rightarrow> (TurfWarInfo \<Rightarrow> TurfWarInfo) \<Rightarrow> unit wprog" where
  "zonewar k f = zmod k (z_warinfo_update f)"

definition CountEnemyKill :: "int \<Rightarrow> unit wprog" where
  "CountEnemyKill k = zonewar k (\<lambda>i. if wi_InWar i then i\<lparr>wi_EnemyKill := wi_EnemyKill i + 1\<rparr> else i)"

definition CountMemberDeath :: "int \<Rightarrow> unit wprog" where
  "CountMemberDeath k = zonewar k (\<lambda>i. if wi_InWar i then i\<lparr>wi_MemberDeath := wi_MemberDeath i + 1\<rparr> else i)"

definition teamName :: "oid \<Rightarrow> string wprog" where
  "teamName u = seq (TeamMgr_get u) (\<lambda>k. tget k t_name)"

definition EndWar :: "int \<Rightarrow> bool \<Rightarrow> bool wprog" where
  "EndWar k causedbytimeout = seq (zget k id) (\<lambda>z. let i = z_warinfo z in
     if \<not> wi_InWar i then ret False
     else andthen (whenP causedbytimeout (DestroyTimer (z_endtimerid z)))
         (seq (if causedbytimeout \<or> wi_EnemyKill i < wi_MemberDeath i then
                 seq (teamName (wi_Attacker i)) (\<lambda>n. andthen (PushMessage (n @ '' has won the turfwar''))
                   (andthen (SetOwner k (wi_Attacker i)) (ret True)))
               else seq (teamName (z_owner z)) (\<lambda>n. andthen (PushMessage (n @ '' has won the turfwar'')) (ret False)))
           (\<lambda>won. andthen (zonewar k (\<lambda>i. i\<lparr>wi_EnemyKill := 0, wi_MemberDeath := 0, wi_Attacker := oid_clear, wi_InWar := False\<rparr>))
              (andthen (Redraw k) (ret won)))))"

definition MemberArrived :: "int \<Rightarrow> unit wprog" where
  "MemberArrived k = seq (zget k z_timeouttimerid) (\<lambda>t.
     if t \<noteq> 0 then andthen (DestroyTimer t) (zmod k (z_timeouttimerid_update (\<lambda>_. 0))) else ret ())"

section \<open>GangZoneManager\<close>

primrec zoneSearch :: "(int \<times> gangzone) list \<Rightarrow> Coordinate3D \<Rightarrow> int wprog" where
  "zoneSearch [] p = ret (-1)"
| "zoneSearch (kz # zs) p = andthen (getRef areas (z_areaid (snd kz)))
     (seq (gets (IsPointInDynamicArea (z_areaid (snd kz)) (cx p, cy p, cz p))) (\<lambda>inside.
       if inside then ret (fst kz) else zoneSearch zs p))"

definition GetPointInWhichZone :: "Coordinate3D \<Rightarrow> int wprog" where
  "GetPointInWhichZone p = seq (gets zones) (\<lambda>zs. zoneSearch zs p)"

definition ZoneMgr_Add :: "gangzone \<Rightarrow> bool wprog" where
  "ZoneMgr_Add z w = (case Add (z_zone z) z (zones w) of
     (True, m) \<Rightarrow> (Inr True, w\<lparr>zones := m\<rparr>)
   | (False, m) \<Rightarrow> andthen (Zone_destroy z) (ret False) w)"

definition ZoneMgr_Remove :: "int \<Rightarrow> bool wprog" where
  "ZoneMgr_Remove k w = (case map_of (zones w) k of
     None \<Rightarrow> (Inr False, w)
   | Some z \<Rightarrow> andthen (Zone_destroy z) (ret True) (set_zones (snd (Remove k (zones w))) w))"

definition ZoneMgr_LoadAll :: "unit wprog" where
  "ZoneMgr_LoadAll = seq (gets zones) (\<lambda>m.
     andthen (modify (set_zones [])) (andthen (forEach m (\<lambda>(k, z). Zone_destroy z))
     (seq (config cfg_string ''Database.gangzone'') (\<lambda>c. seq (onDB (queryAll c)) (\<lambda>ds.
       forEach ds (\<lambda>d. seq (Zone_byData d) (\<lambda>z. seq (ZoneMgr_Add z) (\<lambda>_. ret ()))))))))"

section \<open>Starting a war\<close>

primrec memberInZone :: "(playerid \<times> oid) list \<Rightarrow> int \<Rightarrow> bool wprog" where
  "memberInZone [] zone = ret False"
| "memberInZone (m # ms) zone = andthen (getRef profiles (fst m)) (seq (GetPos (fst m)) (\<lambda>p. seq (GetPointInWhichZone p) (\<lambda>z.
     if z = zone then ret True else memberInZone ms zone)))"

definition StartWar :: "int \<Rightarrow> playerid \<Rightarrow> bool wprog" where
  "StartWar k attacker = seq (zget k id) (\<lambda>z.
     if wi_InWar (z_warinfo z) then ret False
     else seq (GetTeamId attacker) (\<lambda>team.
       if team = z_owner z then ret False
       else seq (teamName team) (\<lambda>n.
         andthen (PushMessage (n @ '' has started a turfwar''))
        (andthen (zonewar k (wi_Attacker_update (\<lambda>_. team)))
        (seq (config cfg_int ''Gaming.turfwarlast'') (\<lambda>m.
         seq (CreateTimer (TEndTurfWar (z_this z)) (m * 60000) False) (\<lambda>t.
         andthen (zmod k (z_endtimerid_update (\<lambda>_. t)))
        (seq (TeamMgr_get (z_owner z)) (\<lambda>ok. seq (tget ok t_onlineplayers) (\<lambda>members.
         seq (memberInZone members (z_zone z)) (\<lambda>inzone.
         andthen (if inzone then ret () else
           seq (config cfg_int ''Gaming.turfwartimeout'') (\<lambda>m.
           seq (CreateTimer (TTurfWarWaitTimeout (z_this z)) (m * 60000) False) (\<lambda>t.
             zmod k (z_timeouttimerid_update (\<lambda>_. t)))))
        (andthen (zonewar k (wi_InWar_update (\<lambda>_. True))) (andthen (Redraw k) (ret True))))))))))))))"

text \<open>The zone a timer's pointer refers to; it dangles when the zone is gone.\<close>

definition zone_of :: "nat \<Rightarrow> world \<Rightarrow> int option" where
  "zone_of this w = map_option fst (find (\<lambda>(k, z). z_this z = this) (zones w))"

definition TimerCallback_EndTurfWar :: "nat \<Rightarrow> unit wprog" where
  "TimerCallback_EndTurfWar this w = (case zone_of this w of None \<Rightarrow> (Inl Undefined, w)
     | Some k \<Rightarrow> seq (EndWar k False) (\<lambda>_. ret ()) w)"

definition TimerCallback_TurfWarWaitTimeout :: "nat \<Rightarrow> unit wprog" where
  "TimerCallback_TurfWarWaitTimeout this w = (case zone_of this w of None \<Rightarrow> (Inl Undefined, w)
     | Some k \<Rightarrow> seq (EndWar k True) (\<lambda>_. ret ()) w)"

section \<open>GangZoneArea\<close>

definition areaMessage :: "string \<Rightarrow> int \<Rightarrow> playerid \<Rightarrow> unit wprog" where
  "areaMessage verb zone pid = andthen (getRef zones zone) (seq (zget zone z_owner) (\<lambda>owner. seq (TeamMgr_get owner) (\<lambda>k.
     seq (tget k t_color) (\<lambda>c. seq (zget zone z_name) (\<lambda>n.
       SendChatMessage pid COLOR_INFO (verb @ ColorToEmbeddingString c @ n))))))"

definition Area_OnPlayerEnter :: "int \<Rightarrow> playerid \<Rightarrow> unit wprog" where
  "Area_OnPlayerEnter zone pid = andthen (areaMessage ''Entered '' zone pid)
     (seq (zget zone id) (\<lambda>z. seq (GetTeamId pid) (\<lambda>t.
       whenP (wi_InWar (z_warinfo z) \<and> t = z_owner z) (MemberArrived zone))))"

definition Area_OnPlayerExit :: "int \<Rightarrow> playerid \<Rightarrow> unit wprog" where
  "Area_OnPlayerExit zone pid = areaMessage ''Left '' zone pid"

end
