(* ===== verification/Racing.thy ===== *)
theory Racing
  imports GangZone
begin

text \<open>
  Races (\<^verbatim>\<open>application_data_racing.cpp\<close>). A race is built checkpoint by checkpoint in a player variable of its creator, or
  loaded by name and kept in \<^verbatim>\<open>RacingMgr\<close> under the id of the player who started it. The member functions are programs on the
  race and the world; \<open>inRace\<close> runs one on a race of the manager, which may be gone afterwards.
\<close>

section \<open>Programs on a race\<close>

type_synonym 'a rprog = "(racing \<times> world, 'a) prog"

definition onW :: "'a wprog \<Rightarrow> 'a rprog" where
  "onW m = (\<lambda>(r, w). case m w of (x, w') \<Rightarrow> (x, (r, w')))"

definition onItem :: "(racing \<times> dbst, 'a) prog \<Rightarrow> 'a rprog" where
  "onItem m = (\<lambda>(r, w). case m (r, db w) of (x, (r', d)) \<Rightarrow> (x, (r', w\<lparr>db := d\<rparr>)))"

definition race :: "(racing \<Rightarrow> 'a) \<Rightarrow> 'a rprog" where
  "race f = gets (\<lambda>(r, w). f r)"

definition modRace :: "(racing \<Rightarrow> racing) \<Rightarrow> unit rprog" where
  "modRace f = modify (apfst f)"

definition inRace :: "int \<Rightarrow> 'a rprog \<Rightarrow> 'a wprog" where
  "inRace k m w = (case map_of (races w) k of None \<Rightarrow> (Inl (RuntimeError ''Object doesn't exist''), w)
     | Some r \<Rightarrow> (case m (r, w) of (x, (r', w')) \<Rightarrow>
         (x, if IsExist k (races w') then set_races (setMember k r' (races w')) w' else w')))"

definition racersDo :: "(playerid \<Rightarrow> unit rprog) \<Rightarrow> unit rprog" where
  "racersDo f = seq (race rc_racers) (\<lambda>m. forEach m (\<lambda>(q, _). f q))"

section \<open>Construction\<close>

definition new_racing :: "saveable \<Rightarrow> racing" where
  "new_racing s = saveable.extend s (racing.fields 0 RS_NONE 0 0 5 (-1) [] [] oid_clear [] NORMAL)"

definition checkpoint_of :: "bson \<Rightarrow> exn + Coordinate3D" where
  "checkpoint_of e = bindR (bson_Obj e) (\<lambda>single. bindR (number_float single ''0'') (\<lambda>x. bindR (number_float single ''1'') (\<lambda>y.
     bindR (number_float single ''2'') (\<lambda>z. Inr (point3 x y z)))))"

primrec checkpoints_of :: "bson list \<Rightarrow> exn + Coordinate3D list" where
  "checkpoints_of [] = Inr []"
| "checkpoints_of (e # es) = bindR (checkpoint_of e) (\<lambda>c. bindR (checkpoints_of es) (\<lambda>cs. Inr (c # cs)))"

text \<open>Of the type only whether it is \<^verbatim>\<open>AIR\<close> is ever asked of a loaded race.\<close>

definition Racing_LoadData :: "(string \<Rightarrow> string) \<Rightarrow> (racing \<times> dbst, unit) prog" where
  "Racing_LoadData u2g = catchUser ''Invalid racing document'' (seq (gets (sv_rawdata \<circ> fst)) (\<lambda>raw.
     andthen (assign (bson_String (getField raw ''name'')) (\<lambda>s. rc_name_update (\<lambda>_. u2g s)))
    (andthen (assign (bson_OID (getField raw ''creator'')) (\<lambda>u. rc_creator_update (\<lambda>_. u)))
    (andthen (assign (number_int raw ''type'') (\<lambda>t. rc_type_update (\<lambda>_. if t = 1 then AIR else NORMAL)))
    (seq (liftR (bson_Array (getField raw ''checkpoint''))) (\<lambda>cps.
       assign (checkpoints_of cps) (\<lambda>cs. rc_checkpoints_update (\<lambda>old. old @ cs))))))))"

definition Racing_byName :: "string \<Rightarrow> playerid \<Rightarrow> racing wprog" where
  "Racing_byName name starter = seq (config cfg_string ''Database.racing'') (\<lambda>c. seq (codec GBKToUTF8 name) (\<lambda>n.
     seq (onDB (saveable_byQuery c (''name'', BStr n))) (\<lambda>s. seq (gets env) (\<lambda>e.
     seq (onNew (new_racing s) (Racing_LoadData (UTF8ToGBK e))) (\<lambda>(_, r).
       ret (r\<lparr>rc_state := JOINING, rc_starter := starter\<rparr>))))))"

definition Racing_new :: "string \<Rightarrow> playerid \<Rightarrow> racetype \<Rightarrow> oid \<Rightarrow> racing wprog" where
  "Racing_new name starter t creator = seq (config cfg_string ''Database.racing'') (\<lambda>c.
     ret ((new_racing (saveable_new c))\<lparr>rc_name := name, rc_creator := creator, rc_type := t, rc_state := BUILDING, rc_starter := starter\<rparr>))"

text \<open>The destructor. An exception that leaves it (a racer who is gone) is undefined behaviour.\<close>

definition Racing_destroy :: "racing \<Rightarrow> unit wprog" where
  "Racing_destroy r =
     andthen (whenP (rc_countdowntimerid r \<noteq> 0) (DestroyTimer (rc_countdowntimerid r)))
       (forEach (rc_racers r) (\<lambda>(q, _). andthen (native (TogglePlayerControllable q True))
         (andthen (native (DisablePlayerRaceCheckpoint q))
         (andthen (tryCatch (getRef profiles q) (\<lambda>_. throw Undefined)) (seq (DelVar q ''race_joined'') (\<lambda>_. ret ()))))))"

section \<open>Building\<close>

definition AppendCheckpoint :: "Coordinate3D \<Rightarrow> unit rprog" where
  "AppendCheckpoint p = seq (race rc_state) (\<lambda>s. if s \<noteq> BUILDING then throw (RuntimeError ''Not in building progress'')
     else modRace (rc_checkpoints_update (\<lambda>cs. cs @ [p])))"

definition racing_doc :: "oid \<Rightarrow> string \<Rightarrow> racing \<Rightarrow> doc" where
  "racing_doc u name r =
     [(''_id'', BOid u), (''name'', BStr name), (''creator'', BOid (rc_creator r)), (''type'', BInt (if rc_type r = AIR then 1 else 0)),
      (''checkpoint'', BArr (map (\<lambda>p. BArr [BDbl (cx p), BDbl (cy p), BDbl (cz p)]) (rc_checkpoints r)))]"

definition Racing_Create :: "unit rprog" where
  "Racing_Create = seq (race id) (\<lambda>r.
     if rc_state r \<noteq> BUILDING then throw (RuntimeError ''Not in building progress'')
     else if length (rc_checkpoints r) < 2 then throw (RuntimeError ''Checkpoints are less than 2'')
     else seq (onW (onDB genOID)) (\<lambda>u. seq (onW (codec GBKToUTF8 (rc_name r))) (\<lambda>n.
       andthen (onItem (Create (racing_doc u n r) False)) (modRace (rc_state_update (\<lambda>_. JOINING))))))"

section \<open>Joining and leaving\<close>

definition SetRaceCheckpoint :: "playerid \<Rightarrow> int \<Rightarrow> flt \<Rightarrow> flt \<Rightarrow> flt \<Rightarrow> flt \<Rightarrow> flt \<Rightarrow> flt \<Rightarrow> unit rprog" where
  "SetRaceCheckpoint q t x y z nx ny nz = onW (native (SetPlayerRaceCheckpoint q t x y z nx ny nz 10))"

text \<open>Reading \<^verbatim>\<open>_checkpoints[0]\<close> and \<^verbatim>\<open>_checkpoints[1]\<close> of a shorter vector is undefined. The height of the first
  checkpoint shown is the second's (\<^verbatim>\<open>nextcp.z\<close>).\<close>

definition Racing_Join :: "playerid \<Rightarrow> unit rprog" where
  "Racing_Join q = seq (race id) (\<lambda>r.
     if rc_state r \<noteq> JOINING then throw (RuntimeError ''Race is not ready to join'')
     else seq (onW (HasVar q ''race_joined'')) (\<lambda>joined.
       if joined then throw (RuntimeError ''You have already been in a race'')
       else andthen (modRace (rc_racers_update (\<lambda>m. snd (Add q \<lparr>ri_currentcp = 0, ri_usedtime = 0, ri_sessionrank = 0\<rparr> m))))
           (andthen (onW (SetVar q ''race_joined'' (PVInt (rc_starter r))))
             (case rc_checkpoints r of
               startcp # nextcp # _ \<Rightarrow>
                 seq (onW (Waypoint_at (point5 (cx startcp) (cy startcp) (cz startcp) 0 0 0))) (\<lambda>wp.
                 andthen (SetRaceCheckpoint q (if rc_type r \<noteq> AIR then 0 else 3) (cx startcp) (cy startcp) (cz nextcp) (cx nextcp) (cy nextcp) (cz nextcp))
                   (onW (PerformTeleport wp q)))
             | _ \<Rightarrow> throw Undefined))))"

definition Racing_Quit :: "playerid \<Rightarrow> unit rprog" where
  "Racing_Quit q = seq (race rc_racers) (\<lambda>m.
     if \<not> IsExist q m then throw (RuntimeError ''You are not in the race'')
     else andthen (modRace (rc_racers_update (\<lambda>m. snd (Remove q m))))
         (andthen (seq (onW (DelVar q ''race_joined'')) (\<lambda>_. ret ()))
         (andthen (onW (native (DisablePlayerRaceCheckpoint q)))
           (modRace (rc_waitingplayer_update (\<lambda>n. n - 1))))))"

definition IsPlayerIn :: "playerid \<Rightarrow> racing \<Rightarrow> bool" where
  "IsPlayerIn q r \<longleftrightarrow> IsExist q (rc_racers r)"

section \<open>The race\<close>

definition Ready :: "unit rprog" where
  "Ready = seq (race id) (\<lambda>r.
     if rc_state r \<noteq> JOINING then throw (RuntimeError ''Race is not ready to start'')
     else andthen (racersDo (\<lambda>q. andthen (onW (native (SendClientMessage q COLOR_WARN txt_countdown_starts)))
                                         (onW (native (TogglePlayerControllable q False)))))
         (seq (onW (CreateTimer (TRaceCountDown (rc_starter r)) 1000 True)) (\<lambda>t.
           modRace (\<lambda>r. r\<lparr>rc_countdowntimerid := t, rc_state := READY\<rparr>))))"

definition Finish :: "unit rprog" where
  "Finish = seq (race id) (\<lambda>r. if rc_state r \<noteq> IN_PROGRESS then ret ()
     else andthen (racersDo (\<lambda>q. onW (native (SendClientMessage q COLOR_WARN txt_race_ends))))
       (seq (onW (gets races)) (\<lambda>m. if IsExist (rc_starter r) m
         then andthen (onW (modify (set_races (snd (Remove (rc_starter r) m))))) (onW (Racing_destroy r)) else ret ())))"

definition PlayerFinish :: "playerid \<Rightarrow> unit rprog" where
  "PlayerFinish q = seq (race rc_state) (\<lambda>s. if s \<noteq> IN_PROGRESS then ret ()
     else andthen (modRace (rc_waitingplayer_update (\<lambda>n. n - 1)))
         (seq (race id) (\<lambda>r. seq (onW (gets (\<lambda>w. now (env w)))) (\<lambda>t.
           case map_of (rc_racers r) q of None \<Rightarrow> throw Undefined
           | Some i \<Rightarrow> (let used = t - rc_start r; rank = int (length (rc_racers r)) - rc_waitingplayer r in
               andthen (modRace (rc_racers_update (setMember q (i\<lparr>ri_usedtime := used, ri_sessionrank := rank\<rparr>))))
              (andthen (onW (native (DisablePlayerRaceCheckpoint q)))
              (andthen (onW (native (SendClientMessage q COLOR_SUCC (txt_you_finished @ int_str used @ txt_rank @ int_str rank))))
                (if rc_waitingplayer r = 0 then Finish else ret ()))))))))"

definition PlayerReachCheckpoint :: "playerid \<Rightarrow> unit rprog" where
  "PlayerReachCheckpoint q = seq (race id) (\<lambda>r. if rc_state r \<noteq> IN_PROGRESS then ret ()
     else (case map_of (rc_racers r) q of None \<Rightarrow> throw (RuntimeError ''You are not in the race'')
       | Some i \<Rightarrow> (let cp = ri_currentcp i + 1; n = int (length (rc_checkpoints r)) in
           andthen (modRace (rc_racers_update (setMember q (i\<lparr>ri_currentcp := cp\<rparr>))))
             (if cp = n then PlayerFinish q
              else if n < cp then throw Undefined
              else (let c = rc_checkpoints r ! nat cp in
                if cp = n - 1 then SetRaceCheckpoint q (if rc_type r \<noteq> AIR then 1 else 4) (cx c) (cy c) (cz c) 0 0 0
                else (let c' = rc_checkpoints r ! nat (cp + 1) in
                  SetRaceCheckpoint q (if rc_type r \<noteq> AIR then 0 else 3) (cx c) (cy c) (cz c) (cx c') (cy c') (cz c')))))))"

definition Start :: "unit rprog" where
  "Start = seq (race rc_state) (\<lambda>s.
     if s \<noteq> READY then throw (RuntimeError ''Race is not ready to start'')
     else andthen (modRace (rc_state_update (\<lambda>_. IN_PROGRESS)))
         (andthen (racersDo (\<lambda>q. andthen (onW (native (SendClientMessage q COLOR_WARN txt_race_starts)))
             (andthen (PlayerReachCheckpoint q) (onW (native (TogglePlayerControllable q True))))))
         (seq (onW (gets (\<lambda>w. now (env w)))) (\<lambda>t.
           modRace (\<lambda>r. r\<lparr>rc_start := t, rc_waitingplayer := int (length (rc_racers r))\<rparr>)))))"

definition CountDown :: "unit rprog" where
  "CountDown = seq (race id) (\<lambda>r.
     if rc_state r \<noteq> READY then throw (RuntimeError ''Race is not ready to start'')
     else if rc_countdown r = 0 then
       andthen (whenP (rc_countdowntimerid r \<noteq> 0) (onW (DestroyTimer (rc_countdowntimerid r))))
      (andthen (modRace (rc_countdowntimerid_update (\<lambda>_. 0))) Start)
     else andthen (racersDo (\<lambda>q. onW (native (SendClientMessage q COLOR_WARN (txt_countdown @ int_str (rc_countdown r) @ txt_seconds)))))
       (modRace (rc_countdown_update (\<lambda>n. n - 1))))"

definition TimerCallback_RaceCountDown :: "int \<Rightarrow> unit wprog" where
  "TimerCallback_RaceCountDown starter w = (if IsExist starter (races w) then inRace starter CountDown w else (Inl Undefined, w))"

text \<open>\<^verbatim>\<open>RacingMgr.Add\<close>: a session that is refused is destroyed.\<close>

definition RacingMgr_Add :: "int \<Rightarrow> racing \<Rightarrow> bool wprog" where
  "RacingMgr_Add k r w = (case Add k r (races w) of
     (True, m) \<Rightarrow> (Inr True, w\<lparr>races := m\<rparr>)
   | (False, m) \<Rightarrow> andthen (Racing_destroy r) (ret False) w)"

end
