(* ===== verification/Roles.thy ===== *)
theory Roles
  imports Racing
begin

text \<open>
  The four roles a player can take (\<^verbatim>\<open>application_gamemode_role_classes.cpp\<close>, \<^verbatim>\<open>Profile::Role\<close> in
  \<^verbatim>\<open>application_data_profile.cpp\<close>): what they get when they spawn, their skill and its cool-down, and the tower an engineer owns.
\<close>

definition new_role :: "rolekind \<Rightarrow> role" where
  "new_role k = \<lparr>rl_kind = k, rl_skilllastuse = 0, rl_timelimit = (case k of Mechanic \<Rightarrow> 180 | _ \<Rightarrow> 60),
     rl_musthavetarget = (k = Assault \<or> k = Medic), rl_obj = None\<rparr>"

definition Tower_destroy :: "int option \<Rightarrow> unit wprog" where
  "Tower_destroy i = (case i of None \<Rightarrow> ret () | Some i \<Rightarrow> seq (DestroyDynamicObject i) (\<lambda>_. ret ()))"

definition modRole :: "playerid \<Rightarrow> (role \<Rightarrow> role) \<Rightarrow> unit wprog" where
  "modRole pid f = pmod pid (p_role_update (map_option f))"

text \<open>The role before goes, and with it an engineer's tower.\<close>

definition SetRole :: "playerid \<Rightarrow> role \<Rightarrow> unit wprog" where
  "SetRole pid r = seq (pget pid p_role) (\<lambda>old. andthen (pmod pid (p_role_update (\<lambda>_. Some r)))
     (case old of None \<Rightarrow> ret () | Some o' \<Rightarrow> Tower_destroy (rl_obj o')))"

definition CanPerformSkill :: "playerid \<Rightarrow> bool wprog" where
  "CanPerformSkill pid = seq (GetRole pid) (\<lambda>r. gets (\<lambda>w. rl_timelimit r \<le> now (env w) - rl_skilllastuse r))"

definition MustHaveTarget :: "playerid \<Rightarrow> bool wprog" where
  "MustHaveTarget pid = seq (GetRole pid) (\<lambda>r. ret (rl_musthavetarget r))"

definition DirectionalPoint :: "playerid \<Rightarrow> flt \<Rightarrow> Coordinate3D wprog" where
  "DirectionalPoint pid distance = seq (ask (\<lambda>s. q_facing s pid)) (\<lambda>a. seq (GetPos pid) (\<lambda>p. seq (gets env) (\<lambda>e.
     liftR (GenerateDirectionalPoint (lib_sin e) (lib_cos e) a p distance))))"

definition equip :: "playerid \<Rightarrow> string \<Rightarrow> flt \<Rightarrow> (cint \<times> cint) list \<Rightarrow> unit wprog" where
  "equip pid hint armour weapons = andthen (SendChatMessage pid COLOR_CYAN hint)
     (andthen (native (SetPlayerHealth pid 100)) (andthen (native (SetPlayerArmour pid armour))
       (forEach weapons (\<lambda>(i, ammo). native (GivePlayerWeapon pid i ammo)))))"

definition Role_OnSpawn :: "playerid \<Rightarrow> unit wprog" where
  "Role_OnSpawn pid = seq (GetRole pid) (\<lambda>r. case rl_kind r of
     Assault \<Rightarrow> equip pid txt_assault_hint 100 [(24, 100), (25, 100), (29, 100)]
   | Medic \<Rightarrow> equip pid txt_medic_hint 0 [(23, 100), (32, 100)]
   | Mechanic \<Rightarrow> equip pid txt_mechanic_hint 0 [(9, 1), (25, 100), (28, 100)]
   | Engineer \<Rightarrow> equip pid txt_engineer_hint 0 [(16, 3), (25, 100), (22, 100)])"

text \<open>Only the engineer does something: the tower goes.\<close>

definition Role_OnDeath :: "playerid \<Rightarrow> unit wprog" where
  "Role_OnDeath pid = seq (GetRole pid) (\<lambda>r. case rl_kind r of
     Engineer \<Rightarrow> andthen (modRole pid (rl_obj_update (\<lambda>_. None))) (Tower_destroy (rl_obj r))
   | _ \<Rightarrow> ret ())"

definition used_skill :: "playerid \<Rightarrow> unit wprog" where
  "used_skill pid = seq (gets (\<lambda>w. now (env w))) (\<lambda>t. modRole pid (rl_skilllastuse_update (\<lambda>_. t)))"

definition BuildTower :: "playerid \<Rightarrow> unit wprog" where
  "BuildTower pid = seq (DirectionalPoint pid 10) (\<lambda>p.
     seq (CreateDynamicObject 3279 (cx p, cy p, fl32 (cz p - 1)) (0, 0, 0) (-1) (-1) (-1) 100) (\<lambda>i.
     seq (GetRole pid) (\<lambda>r. andthen (modRole pid (rl_obj_update (\<lambda>_. Some i))) (Tower_destroy (rl_obj r)))))"

definition PerformSpecialSkill :: "playerid \<Rightarrow> playerid \<Rightarrow> unit wprog" where
  "PerformSpecialSkill pid target = seq (GetRole pid) (\<lambda>r. case rl_kind r of
     Assault \<Rightarrow> seq (DirectionalPoint pid (5 / 2)) (\<lambda>p. andthen (native (SetPlayerPos target (cx p) (cy p) (cz p)))
       (andthen (SendChatMessage target COLOR_WARN txt_captured) (used_skill pid)))
   | Medic \<Rightarrow> andthen (GiveHealth target 50) (used_skill pid)
   | Mechanic \<Rightarrow> seq (ask (\<lambda>s. q_invehicle s pid)) (\<lambda>b.
       if \<not> b then throw (RuntimeError txt_repair_in_vehicle)
       else andthen (seq (ask (\<lambda>s. q_vehicle s pid)) (\<lambda>v. native (RepairVehicle v))) (used_skill pid))
   | Engineer \<Rightarrow> seq (ask (\<lambda>s. q_invehicle s pid)) (\<lambda>b.
       if b then throw (RuntimeError txt_build_on_foot)
       else andthen (BuildTower pid) (used_skill pid)))"

end
