(* ===== verification/Effects.thy ===== *)
theory Effects
  imports Roles
begin

text \<open>
  What a pickup does to the player who picks it up (\<^verbatim>\<open>Effect\<close> of the classes in
  \<^verbatim>\<open>application_gamemode_item_pickup_classes.cpp\<close>) and \<^verbatim>\<open>PickupManager::Exec\<close>.
\<close>

definition MedicalEffect :: "flt \<Rightarrow> playerid \<Rightarrow> unit wprog" where
  "MedicalEffect health pid = andthen (GiveHealth pid health) (PlaySound pid 5201)"

definition WealthEffect :: "cint \<Rightarrow> cint \<Rightarrow> playerid \<Rightarrow> unit wprog" where
  "WealthEffect amount score pid = andthen (GiveMoney pid amount) (andthen (GiveScore pid score) (PlaySound pid 5201))"

definition WeaponEffect :: "cint \<Rightarrow> cint \<Rightarrow> playerid \<Rightarrow> unit wprog" where
  "WeaponEffect weapon ammo pid = andthen (native (GivePlayerWeapon pid weapon ammo)) (PlaySound pid 5201)"

definition TurfWarEffect :: "int \<Rightarrow> playerid \<Rightarrow> unit wprog" where
  "TurfWarEffect zone pid = andthen (getRef zones zone) (seq (zget zone z_owner) (\<lambda>owner. seq (GetTeamId pid) (\<lambda>t.
     if t \<noteq> owner then
       seq (TeamMgr_get owner) (\<lambda>k. seq (tget k HasOnlineMember) (\<lambda>online.
         if \<not> online then SendChatMessage pid COLOR_ERROR txt_owner_absent else seq (StartWar zone pid) (\<lambda>_. ret ())))
     else ret ())))"

definition TeleportEffect :: "oid \<Rightarrow> playerid \<Rightarrow> unit wprog" where
  "TeleportEffect u pid = seq (Waypoint_byID u) (\<lambda>wp. PerformTeleport wp pid)"

text \<open>A marker shows its dialog at most every five seconds.\<close>

definition viewed_recently :: "playerid \<Rightarrow> bool wprog" where
  "viewed_recently pid = seq (HasVar pid ''property_lastviewtime'') (\<lambda>b.
     if \<not> b then ret False
     else seq (gets (\<lambda>w. now (env w))) (\<lambda>t. seq (GetVar pid ''property_lastviewtime'' asTime) (\<lambda>last. ret (t - last < 5))))"

definition remember_view :: "oid \<Rightarrow> playerid \<Rightarrow> unit wprog" where
  "remember_view u pid = andthen (seq (gets (\<lambda>w. now (env w))) (\<lambda>t. SetVar pid ''property_lastviewtime'' (PVTime t)))
     (SetVar pid ''property_lastviewed'' (PVOid u))"

definition property_info :: "property \<Rightarrow> string" where
  "property_info p = pr_name p @ txt_price @ cint_str (pr_value p) @ txt_profit @ cint_str (pr_profit p)"

definition OnSaleEffect :: "oid \<Rightarrow> playerid \<Rightarrow> unit wprog" where
  "OnSaleEffect u pid = seq (viewed_recently pid) (\<lambda>b. if b then ret () else andthen (remember_view u pid)
     (seq (PropertyMgr_get u) (\<lambda>k. seq (prget k id) (\<lambda>p. Show DIALOG_PROPERTY_ONSALE (property_info p) pid False))))"

definition SoldEffect :: "oid \<Rightarrow> playerid \<Rightarrow> unit wprog" where
  "SoldEffect u pid = seq (viewed_recently pid) (\<lambda>b. if b then ret () else andthen (remember_view u pid)
     (seq (PropertyMgr_get u) (\<lambda>k. seq (prget k id) (\<lambda>p. seq (pget pid sv_uniqueid) (\<lambda>me.
       if pr_owner p = me then Show DIALOG_PROPERTY_SOLD (txt_draw_or_sell @ property_info p) pid False
       else Show DIALOG_PROPERTY_INFO (property_info p) pid False)))))"

definition Effect :: "effect \<Rightarrow> playerid \<Rightarrow> unit wprog" where
  "Effect e pid = (case e of MedicalPickup h \<Rightarrow> MedicalEffect h pid | WealthPickup m s \<Rightarrow> WealthEffect m s pid
     | WeaponPickup i a \<Rightarrow> WeaponEffect i a pid | TurfWarTrigger z \<Rightarrow> TurfWarEffect z pid | TeleportTrigger u \<Rightarrow> TeleportEffect u pid
     | PropertyMarker_OnSale u \<Rightarrow> OnSaleEffect u pid | PropertyMarker_Sold u \<Rightarrow> SoldEffect u pid)"

text \<open>\<^verbatim>\<open>_members.erase(iter)\<close> destroys a disposable pickup once its effect has returned.\<close>

definition PickupMgr_Exec :: "playerid \<Rightarrow> int \<Rightarrow> unit wprog" where
  "PickupMgr_Exec pid i = seq (gets (\<lambda>w. map_of (pickups w) i)) (\<lambda>m. case m of
     None \<Rightarrow> throw (RuntimeError ''Invalid object id'')
   | Some (e, once) \<Rightarrow> andthen (getRef profiles pid) (andthen (Effect e pid)
       (if once then seq (PickupMgr_Remove i) (\<lambda>_. ret ()) else ret ())))"

end
