(* ===== verification/Commands.thy ===== *)
theory Commands
  imports Effects
begin

text \<open>
  Chat commands (\<^verbatim>\<open>application_gamemode_callback_command.cpp\<close>) and \<^verbatim>\<open>CommandManager\<close>: each command is registered with the
  admin level and the flags it requires, \<open>Exec\<close> checks them and runs it.
\<close>

section \<open>The commands\<close>

text \<open>\<^verbatim>\<open>int x(-1); sscanf(cmdline, "%d", &x)\<close>\<close>

definition scan_arg :: "string \<Rightarrow> int" where
  "scan_arg s = (case scan_int s of Some i \<Rightarrow> i | None \<Rightarrow> -1)"

definition CmdGetVehicle :: "playerid \<Rightarrow> string \<Rightarrow> unit wprog" where
  "CmdGetVehicle pid line = seq (GetPos pid) (\<lambda>p. seq (ask (\<lambda>s. (q_facing s pid, q_newvehicle s))) (\<lambda>(a, vid).
     andthen (native (CreateVehicle (word_of_int (scan_arg line)) (cx p) (cy p) (fl32 (cz p + 1 / 2)) a))
    (andthen (seq (ask (\<lambda>s. q_interior s pid)) (\<lambda>i. native (LinkVehicleToInterior vid i)))
    (andthen (seq (ask (\<lambda>s. q_world s pid)) (\<lambda>v. native (SetVehicleVirtualWorld vid v)))
             (native (PutPlayerInVehicle pid vid 0))))))"

definition CmdTeleportMain :: "playerid \<Rightarrow> string \<Rightarrow> unit wprog" where
  "CmdTeleportMain pid line = (if line \<noteq> [] then seq (Waypoint_byTitle line) (\<lambda>wp. PerformTeleport wp pid)
     else Show DIALOG_TELEPORT_MAIN txt_tp_menu pid False)"

definition CmdGoToPlayer :: "playerid \<Rightarrow> string \<Rightarrow> unit wprog" where
  "CmdGoToPlayer pid line = (let target = scan_arg line in seq (ask (\<lambda>s. q_connected s target)) (\<lambda>b.
     if \<not> b then throw (RuntimeError txt_goto_usage)
     else andthen (getRef profiles target) (seq (GetDetailedPos target) (\<lambda>p. seq (Waypoint_at p) (\<lambda>wp. PerformTeleport wp pid)))))"

definition CmdGetPlayer :: "playerid \<Rightarrow> string \<Rightarrow> unit wprog" where
  "CmdGetPlayer pid line = (let target = scan_arg line in seq (ask (\<lambda>s. q_connected s target)) (\<lambda>b.
     if \<not> b then throw (RuntimeError txt_get_usage)
     else seq (GetDetailedPos pid) (\<lambda>p. seq (Waypoint_at p) (\<lambda>wp. PerformTeleport wp target))))"

definition CmdServerMgmt :: "playerid \<Rightarrow> string \<Rightarrow> unit wprog" where
  "CmdServerMgmt pid line = Show DIALOG_SERVER_MAIN txt_server_menu pid False"

definition CmdGangZoneMain :: "playerid \<Rightarrow> string \<Rightarrow> unit wprog" where
  "CmdGangZoneMain pid line = Show DIALOG_GANGZONE_MAIN txt_gz_menu pid False"

definition CmdCreateGangZone :: "playerid \<Rightarrow> string \<Rightarrow> unit wprog" where
  "CmdCreateGangZone pid line = seq (HasVar pid ''gz_create'') (\<lambda>b. if \<not> b then throw (RuntimeError txt_not_creating)
     else Show DIALOG_GANGZONE_CREATE_PROCESS txt_gzc_menu pid False)"

definition CmdPropertyMain :: "playerid \<Rightarrow> string \<Rightarrow> unit wprog" where
  "CmdPropertyMain pid line = Show DIALOG_PROPERTY_MAIN txt_create pid False"

text \<open>\<^verbatim>\<open>boost::tokenizer\<close> with a separator drops empty tokens; reading past the last one is undefined.\<close>

fun split_commas :: "string \<Rightarrow> string \<Rightarrow> string list" where
  "split_commas acc [] = [rev acc]"
| "split_commas acc (c # cs) = (if c = CHR '','' then rev acc # split_commas [] cs else split_commas (c # acc) cs)"

definition tokens :: "string \<Rightarrow> string list" where
  "tokens line = filter (\<lambda>t. t \<noteq> []) (split_commas [] line)"

definition token :: "string list \<Rightarrow> nat \<Rightarrow> string wprog" where
  "token ts i = (if i < length ts then ret (ts ! i) else throw Undefined)"

definition castFloat :: "string \<Rightarrow> flt wprog" where
  "castFloat s = seq (gets (\<lambda>w. lib_float (env w) s)) (\<lambda>r. case r of Some x \<Rightarrow> ret x | None \<Rightarrow> throw BadLexicalCast)"

definition ImportLine :: "string \<Rightarrow> unit wprog" where
  "ImportLine line = (let ts = tokens line in
     seq (seq (token ts 0) castFloat) (\<lambda>x. seq (seq (token ts 1) castFloat) (\<lambda>y. seq (seq (token ts 2) castFloat) (\<lambda>z.
     seq (seq (token ts 3) (\<lambda>s. liftR (lexical_cast_int s))) (\<lambda>i.
       if i \<noteq> 0 then ret ()
       else seq (token ts 4) (\<lambda>name. seq (seq (token ts 5) (\<lambda>s. liftR (lexical_cast_int s))) (\<lambda>value'.
         seq (seq (token ts 6) (\<lambda>s. liftR (lexical_cast_int s))) (\<lambda>profit.
         seq (Property_new name (point3 x y z) profit value') (\<lambda>p. seq (PropertyMgr_Add p) (\<lambda>_. ret ()))))))))))"

definition CmdImportProperty :: "playerid \<Rightarrow> string \<Rightarrow> unit wprog" where
  "CmdImportProperty pid line = seq (gets (\<lambda>w. read_file (env w) line)) (\<lambda>f. case f of
     None \<Rightarrow> throw (RuntimeError txt_no_file) | Some ls \<Rightarrow> forEach ls ImportLine)"

definition CmdRacingMain :: "playerid \<Rightarrow> string \<Rightarrow> unit wprog" where
  "CmdRacingMain pid line = Show DIALOG_RACING_MAIN txt_race_menu pid False"

text \<open>A member function of the race in the variable \<^verbatim>\<open>race_create\<close>.\<close>

definition onCreatedRace :: "playerid \<Rightarrow> unit rprog \<Rightarrow> unit wprog" where
  "onCreatedRace pid m = seq (GetVar pid ''race_create'' asRacing) (\<lambda>r w. case m (r, w) of (x, (r', w')) \<Rightarrow>
     andthen (SetVar pid ''race_create'' (PVRacing r')) (liftR x) w')"

definition CmdCreateRaceAppendCP :: "playerid \<Rightarrow> string \<Rightarrow> unit wprog" where
  "CmdCreateRaceAppendCP pid line = seq (GetPos pid) (\<lambda>p. onCreatedRace pid (AppendCheckpoint p))"

definition CmdCreateRaceDone :: "playerid \<Rightarrow> string \<Rightarrow> unit wprog" where
  "CmdCreateRaceDone pid line = andthen (onCreatedRace pid Racing_Create) (seq (DelVar pid ''race_create'') (\<lambda>_. ret ()))"

definition CmdRaceStart :: "playerid \<Rightarrow> string \<Rightarrow> unit wprog" where
  "CmdRaceStart pid line = inRace pid Ready"

definition CmdRaceJoin :: "playerid \<Rightarrow> string \<Rightarrow> unit wprog" where
  "CmdRaceJoin pid line = inRace (scan_arg line) (Racing_Join pid)"

section \<open>CommandManager\<close>

abbreviation (input) NEED_REGISTERED :: nat where "NEED_REGISTERED \<equiv> 1"
abbreviation (input) NEED_SIGNED_IN :: nat where "NEED_SIGNED_IN \<equiv> 2"
abbreviation (input) DONOT_REGISTERED :: nat where "DONOT_REGISTERED \<equiv> 4"
abbreviation (input) DONOT_SIGNED_IN :: nat where "DONOT_SIGNED_IN \<equiv> 8"

record CommandCallbackCell =
  cc_ptr :: "playerid \<Rightarrow> string \<Rightarrow> unit wprog"
  cc_reqlevel :: int
  cc_flags :: nat

definition commands :: "(string, CommandCallbackCell) members" where
  "commands =
    [(''v'', \<lparr>cc_ptr = CmdGetVehicle, cc_reqlevel = 0, cc_flags = 0\<rparr>),
     (''tp'', \<lparr>cc_ptr = CmdTeleportMain, cc_reqlevel = 0, cc_flags = NEED_SIGNED_IN\<rparr>),
     (''goto'', \<lparr>cc_ptr = CmdGoToPlayer, cc_reqlevel = 0, cc_flags = 0\<rparr>),
     (''get'', \<lparr>cc_ptr = CmdGetPlayer, cc_reqlevel = 1, cc_flags = NEED_SIGNED_IN\<rparr>),
     (''s'', \<lparr>cc_ptr = CmdServerMgmt, cc_reqlevel = 65535, cc_flags = NEED_SIGNED_IN\<rparr>),
     (''gz'', \<lparr>cc_ptr = CmdGangZoneMain, cc_reqlevel = 65535, cc_flags = NEED_SIGNED_IN\<rparr>),
     (''gzc'', \<lparr>cc_ptr = CmdCreateGangZone, cc_reqlevel = 65535, cc_flags = NEED_SIGNED_IN\<rparr>),
     (''p'', \<lparr>cc_ptr = CmdPropertyMain, cc_reqlevel = 65535, cc_flags = NEED_SIGNED_IN\<rparr>),
     (''importprop'', \<lparr>cc_ptr = CmdImportProperty, cc_reqlevel = 65535, cc_flags = NEED_SIGNED_IN\<rparr>),
     (''r'', \<lparr>cc_ptr = CmdRacingMain, cc_reqlevel = 0, cc_flags = NEED_SIGNED_IN\<rparr>),
     (''rcacp'', \<lparr>cc_ptr = CmdCreateRaceAppendCP, cc_reqlevel = 65535, cc_flags = NEED_SIGNED_IN\<rparr>),
     (''rcf'', \<lparr>cc_ptr = CmdCreateRaceDone, cc_reqlevel = 65535, cc_flags = NEED_SIGNED_IN\<rparr>),
     (''rstart'', \<lparr>cc_ptr = CmdRaceStart, cc_reqlevel = 65535, cc_flags = NEED_SIGNED_IN\<rparr>),
     (''rjoin'', \<lparr>cc_ptr = CmdRaceJoin, cc_reqlevel = 0, cc_flags = NEED_SIGNED_IN\<rparr>)]"

definition MATCHREQ :: "nat \<Rightarrow> nat \<Rightarrow> bool" where
  "MATCHREQ flags req \<longleftrightarrow> odd (flags div req)"

text \<open>The registration requirements and the level; the first one missed is reported.\<close>

definition refusal :: "CommandCallbackCell \<Rightarrow> profile \<Rightarrow> string option" where
  "refusal c p = (let f = MATCHREQ (cc_flags c) in
     if f NEED_REGISTERED \<and> IsEmpty p then Some txt_need_registered
     else if f NEED_SIGNED_IN \<and> \<not> au_signedin (p_auth p) then Some txt_need_signed_in
     else if f DONOT_REGISTERED \<and> \<not> IsEmpty p then Some txt_do_not_registered
     else if f DONOT_SIGNED_IN \<and> au_signedin (p_auth p) then Some txt_do_not_signed_in
     else if sint (au_adminlevel (p_auth p)) < cc_reqlevel c then Some (txt_you_need_level @ int_str (cc_reqlevel c) @ txt_to_run_this)
     else None)"

definition CmdMgr_Exec :: "playerid \<Rightarrow> string \<Rightarrow> string \<Rightarrow> unit wprog" where
  "CmdMgr_Exec pid cmd line = (case map_of commands cmd of
     None \<Rightarrow> throw (RuntimeError ''Unregistered command'')
   | Some c \<Rightarrow> andthen (getRef profiles pid) (seq (pget pid (refusal c)) (\<lambda>no. case no of
       Some msg \<Rightarrow> throw (RuntimeError msg) | None \<Rightarrow> cc_ptr c pid line)))"

end
