(* ===== verification/Dialogs.thy ===== *)
theory Dialogs
  imports Commands
begin

text \<open>
  The callbacks of the dialogs (\<^verbatim>\<open>application_gamemode_callback_dialog.cpp\<close>) and \<^verbatim>\<open>DialogManager::Exec\<close>. A callback gets the
  player, the chosen row of a list and the text typed or shown in that row. The text is a C string: a read past its
  end is undefined.
\<close>

section \<open>Answers\<close>

abbreviation tab :: char where "tab \<equiv> CHR 0x09"
abbreviation newline :: char where "newline \<equiv> CHR 0x0A"

text \<open>\<^verbatim>\<open>std::string id(inputtext, 24)\<close>, made an object id.\<close>

definition picked_oid :: "string \<Rightarrow> oid wprog" where
  "picked_oid s = (if length s < 23 then throw Undefined else liftR (oid_init (take 24 (s @ [CHR 0x00]))))"

text \<open>\<^verbatim>\<open>int x; sscanf(inputtext, "%d", &x)\<close>\<close>

definition scanned :: "string \<Rightarrow> int wprog" where
  "scanned s = gets (\<lambda>w. case scan_int s of Some i \<Rightarrow> i | None \<Rightarrow> uninitialised (env w))"

text \<open>\<^verbatim>\<open>try { m } catch(std::runtime_error& e) { h(e.what()) } catch(...) { h(other) }\<close>\<close>

definition caught :: "(string \<Rightarrow> 'a wprog) \<Rightarrow> string \<Rightarrow> 'a wprog \<Rightarrow> 'a wprog" where
  "caught h other m = tryCatch m (\<lambda>e. case e of RuntimeError msg \<Rightarrow> h msg | Undefined \<Rightarrow> throw Undefined | _ \<Rightarrow> h other)"

text \<open>The rows of a list: a key, a tab and a name each.\<close>

definition rows :: "(string \<times> string) list \<Rightarrow> string" where
  "rows ks = concat (map (\<lambda>(k, n). k @ [tab] @ n @ [newline]) ks)"

section \<open>Teams, roles, accounts\<close>

definition DlgTeamSelect :: "playerid \<Rightarrow> string \<Rightarrow> unit wprog" where
  "DlgTeamSelect pid text' = seq (GetTeamId pid) (\<lambda>ptid. seq (picked_oid text') (\<lambda>u.
     andthen (if ptid \<noteq> u then
         andthen (whenP (oid_isSet ptid) (seq (TeamMgr_get ptid) (\<lambda>k. Quit k pid))) (seq (TeamMgr_get u) (\<lambda>k. Join k pid))
       else ret ())
       (Show DIALOG_ROLE_SELECT (''Assault'' @ [newline] @ ''Medic'' @ [newline] @ ''Mechanic'' @ [newline] @ ''Engineer'') pid False)))"

definition DlgRoleSelect :: "playerid \<Rightarrow> int \<Rightarrow> unit wprog" where
  "DlgRoleSelect pid item =
     andthen (if item = 0 then SetRole pid (new_role Assault) else if item = 1 then SetRole pid (new_role Medic)
       else if item = 2 then SetRole pid (new_role Mechanic) else if item = 3 then SetRole pid (new_role Engineer) else ret ())
       (native (SpawnPlayer pid))"

definition DlgRegister :: "playerid \<Rightarrow> string \<Rightarrow> unit wprog" where
  "DlgRegister pid text' =
     seq (if text' = [] then andthen (SendChatMessage pid COLOR_ERROR txt_password_empty) (ret False)
          else caught (\<lambda>msg. andthen (SendChatMessage pid COLOR_ERROR msg) (ret False)) txt_register_failed
            (seq (ask (\<lambda>s. q_name s pid)) (\<lambda>n. andthen (Profile_Create pid n text')
              (andthen (SendChatMessage pid COLOR_SUCC txt_registered) (andthen (SetSignedIn pid True) (ret True))))))
       (\<lambda>done. if done then ret () else Show DIALOG_PROFILE_REGISTER txt_enter_password pid False)"

definition DlgLogin :: "playerid \<Rightarrow> string \<Rightarrow> unit wprog" where
  "DlgLogin pid text' = seq (AuthPassword pid text') (\<lambda>ok.
     if \<not> ok then andthen (Show DIALOG_PROFILE_LOGIN txt_enter_password pid False) (throw (RuntimeError txt_wrong_password))
     else andthen (SetSignedIn pid True) (andthen (ApplyDataToPlayer pid) (SendChatMessage pid COLOR_SUCC txt_logged_in)))"

definition DlgProfileSetting :: "playerid \<Rightarrow> int \<Rightarrow> unit wprog" where
  "DlgProfileSetting pid item =
     (if item = 0 then Show DIALOG_PROFILE_SETTING_NICKNAME txt_enter_nickname pid False
      else if item = 1 then andthen (Sync pid) (SendChatMessage pid COLOR_SUCC txt_synced)
      else if item = 2 then andthen (native (ForceClassSelection pid))
        (andthen (native (TogglePlayerSpectating pid True)) (native (TogglePlayerSpectating pid False)))
      else if item = 3 then native (SetPlayerHealth pid 0) else ret ())"

definition DlgNickname :: "playerid \<Rightarrow> string \<Rightarrow> unit wprog" where
  "DlgNickname pid text' = (if text' = [] then throw (RuntimeError txt_nickname_empty)
     else andthen (SetNickname pid text') (SendChatMessage pid COLOR_SUCC (txt_nickname_changed @ text')))"

definition DlgPlayerMain :: "playerid \<Rightarrow> int \<Rightarrow> unit wprog" where
  "DlgPlayerMain pid item = seq (GetVar pid ''player_lastclicked'' asInt) (\<lambda>target.
     if item = 0 then andthen (getRef profiles target) (seq (ask (\<lambda>s. q_name s target)) (\<lambda>n.
       Show DIALOG_PLAYER_MESSAGE (txt_to_player @ n @ txt_send_message_to) pid False)) else ret ())"

definition DlgPlayerMessage :: "playerid \<Rightarrow> string \<Rightarrow> unit wprog" where
  "DlgPlayerMessage pid text' = seq (GetVar pid ''player_lastclicked'' asInt) (\<lambda>target.
     andthen (getRef profiles target) (seq (ask (\<lambda>s. q_name s pid)) (\<lambda>n.
       andthen (SendChatMessage target COLOR_SUCC (txt_from_player @ n @ txt_message_of @ text'))
         (SendChatMessage pid COLOR_SUCC txt_message_sent))))"

section \<open>Gang zones\<close>

definition DlgChooseToSpawn :: "playerid \<Rightarrow> string \<Rightarrow> unit wprog" where
  "DlgChooseToSpawn pid text' = seq (scanned text') (\<lambda>k. andthen (getRef zones k) (seq (zget k z_spawnpoint) (\<lambda>u.
     seq (Waypoint_byID u) (\<lambda>wp. PerformTeleport wp pid))))"

definition DlgGangZoneMain :: "playerid \<Rightarrow> int \<Rightarrow> unit wprog" where
  "DlgGangZoneMain pid item =
     (if item = 0 then seq (GetTeamId pid) (\<lambda>t. seq (TeamMgr_get t) (\<lambda>k. seq (tget k t_leader) (\<lambda>leader. seq (pget pid sv_uniqueid) (\<lambda>u.
        if leader \<noteq> u then throw (RuntimeError txt_not_leader)
        else seq (HasVar pid ''gz_create'') (\<lambda>b. if b then throw (RuntimeError txt_already_creating)
          else Show DIALOG_GANGZONE_CREATE txt_give_name pid False)))))
      else if item = 1 then seq (gets zones) (\<lambda>zs.
        Show DIALOG_GANGZONE_REMOVE (rows (map (\<lambda>(k, z). (int_str k, z_name z)) zs)) pid False)
      else ret ())"

definition new_zone_info :: "string \<Rightarrow> GangZoneCreationInfo" where
  "new_zone_info name = \<lparr>gc_name = name, gc_min = plane 0 0, gc_max = plane 0 0, gc_spawnpoint = point5 0 0 0 0 0 0,
     gc_trigger = point3 0 0 0, gc_step = 0\<rparr>"

definition DlgGangZoneCreate :: "playerid \<Rightarrow> string \<Rightarrow> unit wprog" where
  "DlgGangZoneCreate pid text' = (if text' = [] then throw (RuntimeError txt_name_empty)
     else andthen (SetVar pid ''gz_create'' (PVZone (new_zone_info text')))
       (andthen (SendChatMessage pid COLOR_WARN txt_place_marker) (SendChatMessage pid COLOR_WARN txt_use_gzc)))"

abbreviation (input) GANGZONE_CREATE_MIN :: cint where "GANGZONE_CREATE_MIN \<equiv> 1"
abbreviation (input) GANGZONE_CREATE_MAX :: cint where "GANGZONE_CREATE_MAX \<equiv> 2"
abbreviation (input) GANGZONE_CREATE_SPAWNPOINT :: cint where "GANGZONE_CREATE_SPAWNPOINT \<equiv> 4"
abbreviation (input) GANGZONE_CREATE_TRIGGER :: cint where "GANGZONE_CREATE_TRIGGER \<equiv> 8"

definition gz_lo :: "GangZoneCreationInfo \<Rightarrow> CoordinatePlane" where
  "gz_lo d = plane (if cx (gc_max d) < cx (gc_min d) then cx (gc_max d) else cx (gc_min d))
     (if cy (gc_max d) < cy (gc_min d) then cy (gc_max d) else cy (gc_min d))"

definition gz_hi :: "GangZoneCreationInfo \<Rightarrow> CoordinatePlane" where
  "gz_hi d = plane (if cx (gc_min d) < cx (gc_max d) then cx (gc_max d) else cx (gc_min d))
     (if cy (gc_min d) < cy (gc_max d) then cy (gc_max d) else cy (gc_min d))"

definition gz_step :: "playerid \<Rightarrow> (GangZoneCreationInfo \<Rightarrow> GangZoneCreationInfo) \<Rightarrow> cint \<Rightarrow> unit wprog" where
  "gz_step pid f flag = seq (GetVar pid ''gz_create'' asZone) (\<lambda>d.
     SetVar pid ''gz_create'' (PVZone (gc_step_update (\<lambda>s. or s flag) (f d))))"

definition gz_finish :: "playerid \<Rightarrow> GangZoneCreationInfo \<Rightarrow> unit wprog" where
  "gz_finish pid d = (if gc_step d \<noteq> 15 then throw (RuntimeError txt_unfinished)
     else seq (Waypoint_at (gc_spawnpoint d)) (\<lambda>sp. seq (onDB genOID) (\<lambda>g. seq (pget pid sv_uniqueid) (\<lambda>me.
       seq (Waypoint_Create sp (''_gz_sp_'' @ oid_str g) me) (\<lambda>sp. seq (GetTeamId pid) (\<lambda>team.
       seq (Zone_new (gc_name d) team (gz_lo d) (gz_hi d) (sv_uniqueid sp) (gc_trigger d)) (\<lambda>z. seq (ZoneMgr_Add z) (\<lambda>_.
       seq (DelVar pid ''gz_create'') (\<lambda>_. SendChatMessage pid COLOR_SUCC txt_gz_created)))))))))"

definition DlgGangZoneProcess :: "playerid \<Rightarrow> int \<Rightarrow> unit wprog" where
  "DlgGangZoneProcess pid item = seq (GetVar pid ''gz_create'' asZone) (\<lambda>d.
     if item = 0 then seq (GetDetailedPos pid) (\<lambda>p. gz_step pid (gc_spawnpoint_update (\<lambda>_. p)) GANGZONE_CREATE_SPAWNPOINT)
     else if item = 1 then seq (GetPos pid) (\<lambda>p. gz_step pid (gc_trigger_update (\<lambda>_. p)) GANGZONE_CREATE_TRIGGER)
     else if item = 2 then gz_finish pid d
     else if item = 3 then seq (DelVar pid ''gz_create'') (\<lambda>_. ret ())
     else ret ())"

definition DlgGangZoneRemove :: "playerid \<Rightarrow> string \<Rightarrow> unit wprog" where
  "DlgGangZoneRemove pid text' = seq (scanned text') (\<lambda>k. andthen (getRef zones k) (andthen (onZone k Destroy)
     (seq (ZoneMgr_Remove k) (\<lambda>_. SendChatMessage pid COLOR_SUCC txt_gz_removed))))"

section \<open>Waypoints\<close>

definition nearby_row :: "doc \<Rightarrow> exn + string \<times> string" where
  "nearby_row d = bindR (bson_OID (getField d ''_id'')) (\<lambda>u. bindR (bson_String (getField d ''title'')) (\<lambda>t. Inr (oid_str u, t)))"

primrec nearby_rows :: "doc list \<Rightarrow> exn + (string \<times> string) list" where
  "nearby_rows [] = Inr []"
| "nearby_rows (d # ds) = bindR (nearby_row d) (\<lambda>r. bindR (nearby_rows ds) (\<lambda>rs. Inr (r # rs)))"

definition DlgTeleportMain :: "playerid \<Rightarrow> int \<Rightarrow> unit wprog" where
  "DlgTeleportMain pid item =
     (if item = 0 then Show DIALOG_TELEPORT_CREATE txt_name_waypoint pid False
      else if item = 1 then Show DIALOG_TELEPORT_USE txt_waypoint_name pid False
      else if item = 2 then seq (GetPlaneCoordinate pid) (\<lambda>p. seq (config cfg_string ''Database.waypoint'') (\<lambda>c.
        seq (onDB (queryNear c (cx p, cy p) 16)) (\<lambda>ds. seq (liftR (nearby_rows ds)) (\<lambda>rs.
          Show DIALOG_TELEPORT_NEARBY (rows rs) pid False))))
      else if item = 3 then Show DIALOG_TELEPORT_CREATETRIGGER txt_waypoint_name pid False
      else ret ())"

definition DlgTeleportCreate :: "playerid \<Rightarrow> string \<Rightarrow> unit wprog" where
  "DlgTeleportCreate pid text' = (if text' = [] then Show DIALOG_TELEPORT_CREATE txt_name_empty pid False
     else seq (GetDetailedPos pid) (\<lambda>p. seq (Waypoint_at p) (\<lambda>wp. seq (pget pid sv_uniqueid) (\<lambda>me.
       seq (Waypoint_Create wp text' me) (\<lambda>_. SendChatMessage pid COLOR_SUCC (txt_waypoint_created @ text'))))))"

definition DlgTeleportUse :: "playerid \<Rightarrow> string \<Rightarrow> unit wprog" where
  "DlgTeleportUse pid text' = (if text' = [] then Show DIALOG_TELEPORT_USE txt_name_empty pid False
     else seq (Waypoint_byTitle text') (\<lambda>wp. PerformTeleport wp pid))"

definition DlgTeleportNearby :: "playerid \<Rightarrow> string \<Rightarrow> unit wprog" where
  "DlgTeleportNearby pid text' = seq (picked_oid text') (\<lambda>u. seq (Waypoint_byID u) (\<lambda>wp. PerformTeleport wp pid))"

definition DlgTeleportTrigger :: "playerid \<Rightarrow> string \<Rightarrow> unit wprog" where
  "DlgTeleportTrigger pid text' = seq (Waypoint_byTitle text') (\<lambda>wp. seq (GetPos pid) (\<lambda>p.
     andthen (CreateTeleportTrigger (sv_uniqueid wp) p)
       (SendChatMessage pid COLOR_SUCC (txt_trigger_created @ text' @ txt_trigger_created2))))"

section \<open>The server\<close>

definition DlgServerMain :: "int \<Rightarrow> unit wprog" where
  "DlgServerMain item = (if item = 0 then TeamMgr_LoadAll else if item = 1 then ZoneMgr_LoadAll
     else if item = 2 then ReloadConfig else if item = 3 then PropertyMgr_LoadAll else ret ())"

section \<open>Properties\<close>

definition DlgPropertyOnSale :: "playerid \<Rightarrow> unit wprog" where
  "DlgPropertyOnSale pid = seq (GetVar pid ''property_lastviewed'' asOid) (\<lambda>u. seq (PropertyMgr_get u) (\<lambda>k.
     andthen (Purchase k pid) (SendChatMessage pid COLOR_SUCC txt_purchased)))"

definition DlgPropertySold :: "playerid \<Rightarrow> int \<Rightarrow> unit wprog" where
  "DlgPropertySold pid item = seq (GetVar pid ''property_lastviewed'' asOid) (\<lambda>u. seq (PropertyMgr_get u) (\<lambda>k.
     if item = 0 then seq (Draw k pid) (\<lambda>_. ret ()) else if item = 1 then Sell k pid else ret ()))"

definition DlgPropertyMain :: "playerid \<Rightarrow> int \<Rightarrow> unit wprog" where
  "DlgPropertyMain pid item = (if item = 0 then seq (GetPos pid) (\<lambda>p. seq (gets (\<lambda>w. word_of_int (uninitialised (env w)))) (\<lambda>junk.
       andthen (SetVar pid ''property_creation'' (PVProp \<lparr>pc_name = [], pc_value = junk, pc_profit = junk, pc_pos = p\<rparr>))
         (Show DIALOG_PROPERTY_CREATE_NAME txt_property_name pid False))) else ret ())"

text \<open>A change of the variable through the reference \<^verbatim>\<open>GetVar\<close> returns. C++ leaves open whether the reference or the number is
  computed first; where both fail the model reports the missing variable.\<close>

definition onCreation :: "playerid \<Rightarrow> (PropertyCreateInfo \<Rightarrow> exn + PropertyCreateInfo) \<Rightarrow> PropertyCreateInfo wprog" where
  "onCreation pid f = seq (GetVar pid ''property_creation'' asProp) (\<lambda>d. seq (liftR (f d)) (\<lambda>d.
     andthen (SetVar pid ''property_creation'' (PVProp d)) (ret d)))"

definition DlgPropertyName :: "playerid \<Rightarrow> string \<Rightarrow> unit wprog" where
  "DlgPropertyName pid text' = seq (onCreation pid (\<lambda>d. Inr (d\<lparr>pc_name := text'\<rparr>))) (\<lambda>_.
     Show DIALOG_PROPERTY_CREATE_VALUE txt_property_value pid False)"

definition DlgPropertyValue :: "playerid \<Rightarrow> string \<Rightarrow> unit wprog" where
  "DlgPropertyValue pid text' = seq (onCreation pid (\<lambda>d. bindR (lexical_cast_int text') (\<lambda>v. Inr (d\<lparr>pc_value := v\<rparr>)))) (\<lambda>_.
     Show DIALOG_PROPERTY_CREATE_PROFIT txt_property_profit pid False)"

definition DlgPropertyProfit :: "playerid \<Rightarrow> string \<Rightarrow> unit wprog" where
  "DlgPropertyProfit pid text' = seq (onCreation pid (\<lambda>d. bindR (lexical_cast_int text') (\<lambda>v. Inr (d\<lparr>pc_profit := v\<rparr>)))) (\<lambda>d.
     seq (Property_new (pc_name d) (pc_pos d) (pc_profit d) (pc_value d)) (\<lambda>p. seq (PropertyMgr_Add p) (\<lambda>_. ret ())))"

section \<open>Races\<close>

definition DlgRacingMain :: "playerid \<Rightarrow> int \<Rightarrow> unit wprog" where
  "DlgRacingMain pid item = (if item = 0 then Show DIALOG_RACING_START_NAME txt_track_name pid False
     else if item = 1 then Show DIALOG_RACING_CREATE_NAME txt_track_name pid False else ret ())"

text \<open>A member function of a session that is not yet in the manager; an exception destroys the session.\<close>

definition onSession :: "racing \<Rightarrow> unit rprog \<Rightarrow> racing wprog" where
  "onSession r m w = (case m (r, w) of
     (Inl e, (r', w')) \<Rightarrow> andthen (Racing_destroy r') (throw e) w'
   | (Inr _, (r', w')) \<Rightarrow> (Inr r', w'))"

definition DlgRacingStart :: "playerid \<Rightarrow> string \<Rightarrow> unit wprog" where
  "DlgRacingStart pid text' = seq (Racing_byName text' pid) (\<lambda>r. seq (onSession r (Racing_Join pid)) (\<lambda>r.
     seq (RacingMgr_Add pid r) (\<lambda>_. ret ())))"

definition DlgRacingCreate :: "playerid \<Rightarrow> string \<Rightarrow> unit wprog" where
  "DlgRacingCreate pid text' = seq (HasVar pid ''race_joined'') (\<lambda>b. if b then throw (RuntimeError txt_in_other_race)
     else seq (pget pid sv_uniqueid) (\<lambda>me. seq (Racing_new text' pid NORMAL me) (\<lambda>r. SetVar pid ''race_create'' (PVRacing r))))"

section \<open>DialogManager::Exec\<close>

definition dialog_callback :: "int \<Rightarrow> playerid \<Rightarrow> int \<Rightarrow> string \<Rightarrow> unit wprog" where
  "dialog_callback d pid item text' =
    (if d = DIALOG_TEAM_SELECT then DlgTeamSelect pid text'
     else if d = DIALOG_ROLE_SELECT then DlgRoleSelect pid item
     else if d = DIALOG_PROFILE_REGISTER then DlgRegister pid text'
     else if d = DIALOG_PROFILE_LOGIN then DlgLogin pid text'
     else if d = DIALOG_GANGZONE_CHOOSETOSPAWN then DlgChooseToSpawn pid text'
     else if d = DIALOG_GANGZONE_MAIN then DlgGangZoneMain pid item
     else if d = DIALOG_GANGZONE_CREATE then DlgGangZoneCreate pid text'
     else if d = DIALOG_GANGZONE_CREATE_PROCESS then DlgGangZoneProcess pid item
     else if d = DIALOG_GANGZONE_REMOVE then DlgGangZoneRemove pid text'
     else if d = DIALOG_TELEPORT_MAIN then DlgTeleportMain pid item
     else if d = DIALOG_TELEPORT_CREATE then DlgTeleportCreate pid text'
     else if d = DIALOG_TELEPORT_USE then DlgTeleportUse pid text'
     else if d = DIALOG_TELEPORT_NEARBY then DlgTeleportNearby pid text'
     else if d = DIALOG_TELEPORT_CREATETRIGGER then DlgTeleportTrigger pid text'
     else if d = DIALOG_SERVER_MAIN then DlgServerMain item
     else if d = DIALOG_PLAYER_MAIN then DlgPlayerMain pid item
     else if d = DIALOG_PLAYER_MESSAGE then DlgPlayerMessage pid text'
     else if d = DIALOG_PROFILE_SETTING then DlgProfileSetting pid item
     else if d = DIALOG_PROFILE_SETTING_NICKNAME then DlgNickname pid text'
     else if d = DIALOG_PROPERTY_ONSALE then DlgPropertyOnSale pid
     else if d = DIALOG_PROPERTY_SOLD then DlgPropertySold pid item
     else if d = DIALOG_PROPERTY_INFO then ret ()
     else if d = DIALOG_PROPERTY_MAIN then DlgPropertyMain pid item
     else if d = DIALOG_PROPERTY_CREATE_NAME then DlgPropertyName pid text'
     else if d = DIALOG_PROPERTY_CREATE_VALUE then DlgPropertyValue pid text'
     else if d = DIALOG_PROPERTY_CREATE_PROFIT then DlgPropertyProfit pid text'
     else if d = DIALOG_RACING_MAIN then DlgRacingMain pid item
     else if d = DIALOG_RACING_START_NAME then DlgRacingStart pid text'
     else if d = DIALOG_RACING_CREATE_NAME then DlgRacingCreate pid text'
     else throw Undefined)"

definition DlgMgr_Exec :: "playerid \<Rightarrow> bool \<Rightarrow> int \<Rightarrow> int \<Rightarrow> string \<Rightarrow> unit wprog" where
  "DlgMgr_Exec pid response d item text' = (case map_of dialogs d of
     None \<Rightarrow> throw (RuntimeError ''Unregistered dialog'')
   | Some c \<Rightarrow> if \<not> dc_mustresponse c \<and> \<not> response then ret ()
               else andthen (getRef profiles pid) (dialog_callback d pid item text'))"

end
