(* ===== verification/Callbacks.thy ===== *)
theory Callbacks
  imports Dialogs
begin

text \<open>
  The events of the server (\<^verbatim>\<open>application_gamemode_main.cpp\<close>) and of the timer queue
  (\<^verbatim>\<open>application_gamemode_callback_timer.cpp\<close>): what the game mode does when the server calls it. \<open>handle\<close> is the whole program
  as one function of the event.
\<close>

section \<open>Handlers\<close>

text \<open>\<^verbatim>\<open>catch(std::runtime_error& e) { SendClientMessage(..., e.what()); } catch(...) { SendClientMessage(..., other); }\<close>\<close>

definition reported :: "playerid \<Rightarrow> string \<Rightarrow> unit wprog \<Rightarrow> unit wprog" where
  "reported pid other m = caught (\<lambda>msg. native (SendClientMessage pid COLOR_ERROR msg)) other m"

text \<open>\<^verbatim>\<open>catch(...) { h }\<close>\<close>

definition catchAll :: "'a wprog \<Rightarrow> 'a wprog \<Rightarrow> 'a wprog" where
  "catchAll h m = tryCatch m (\<lambda>e. if e = Undefined then throw Undefined else h)"

section \<open>Start\<close>

definition OnGameModeInit :: "unit wprog" where
  "OnGameModeInit =
     andthen (native (SetGameModeText ''ShadowBlue''))
    (andthen (forEach [1..298] (\<lambda>i. native (AddPlayerClass i)))
    (catchAll (ret ())
      (andthen TeamMgr_LoadAll (andthen ZoneMgr_LoadAll (andthen LoadAllTeleportTriggers (andthen PropertyMgr_LoadAll
      (seq (ProfileMgr_Add (-1)) (\<lambda>_. seq (CreateTimer TChangeWeather 300000 True) (\<lambda>_.
       seq (CreateTimer TChangeTime 60000 True) (\<lambda>_. ret ()))))))))))"

section \<open>Players come and go\<close>

definition greet :: "playerid \<Rightarrow> unit wprog" where
  "greet pid = seq (pget pid IsEmpty) (\<lambda>empty.
     if empty then andthen (seq (gets (\<lambda>w. random_color (env w))) (SetColor pid))
                     (Show DIALOG_PROFILE_REGISTER txt_enter_password pid False)
     else seq (IsBannedForGame pid) (\<lambda>banned.
       if banned then andthen (SendChatMessage pid COLOR_ERROR txt_banned) (native (Kick pid))
       else Show DIALOG_PROFILE_LOGIN txt_welcome_back pid False))"

definition OnPlayerConnect :: "playerid \<Rightarrow> bool wprog" where
  "OnPlayerConnect pid = catchAll (andthen (native (SendClientMessage pid COLOR_ERROR txt_connect_error)) (ret False))
     (seq (Streamer_OnPlayerConnect pid) (\<lambda>_.
      andthen (native (SendClientMessage pid COLOR_INFO ''TennenColl's Teststation''))
     (seq (ProfileMgr_Add pid) (\<lambda>_. andthen (getRef profiles pid) (andthen (SetSignedIn pid False) (andthen (greet pid)
     (andthen (native (SetPlayerTeam pid NO_TEAM))
     (seq (ask (\<lambda>s. q_name s pid)) (\<lambda>n. andthen (native (SendClientMessageToAll COLOR_INFO (n @ txt_enters)))
     (andthen (native (SendDeathMessage INVALID_PLAYER_ID pid 200)) (ret True)))))))))))"

definition OnPlayerDisconnect :: "playerid \<Rightarrow> int \<Rightarrow> bool wprog" where
  "OnPlayerDisconnect pid reason = catchAll (ret False)
     (seq (Streamer_OnPlayerDisconnect pid reason) (\<lambda>_.
      andthen (getRef profiles pid)
     (seq (IsSignedIn pid) (\<lambda>signed. andthen (whenP (reason \<noteq> 0 \<and> signed) (Sync pid))
     (seq (GetTeamId pid) (\<lambda>t. andthen (whenP (oid_isSet t) (seq (TeamMgr_get t) (\<lambda>k. Quit k pid)))
     (seq (ask (\<lambda>s. q_name s pid)) (\<lambda>n. andthen (native (SendClientMessageToAll COLOR_INFO (n @ txt_leaves)))
     (andthen (native (SendDeathMessage INVALID_PLAYER_ID pid 201))
     (seq (ProfileMgr_Remove pid) (\<lambda>_. ret True)))))))))))"

definition OnPlayerRequestClass :: "playerid \<Rightarrow> unit wprog" where
  "OnPlayerRequestClass pid =
     andthen (native (SetPlayerPos pid (fl32 (149707 / 100)) (fl32 (- 689485 / 1000)) (fl32 (94956 / 1000))))
    (andthen (native (SetPlayerFacingAngle pid (fl32 (18086 / 100))))
    (andthen (native (SetPlayerCameraPos pid (fl32 (149781 / 100)) (fl32 (- 70783 / 100)) (fl32 (9969 / 100))))
             (native (SetPlayerCameraLookAt pid (fl32 (149339 / 100)) (fl32 (- 68697 / 100)) (fl32 (9835 / 100))))))"

definition OnPlayerRequestSpawn :: "playerid \<Rightarrow> unit wprog" where
  "OnPlayerRequestSpawn pid = seq (gets teams) (\<lambda>ts. Show DIALOG_TEAM_SELECT (rows (map (\<lambda>(k, t). (k, t_name t)) ts)) pid False)"

definition OnPlayerSpawn :: "playerid \<Rightarrow> unit wprog" where
  "OnPlayerSpawn pid = reported pid txt_spawn_error (andthen (getRef profiles pid) (andthen (Role_OnSpawn pid)
     (seq (gets zones) (\<lambda>zs. andthen (forEach zs (\<lambda>(k, _). Redraw k))
       (Show DIALOG_GANGZONE_CHOOSETOSPAWN (rows (map (\<lambda>(k, z). (int_str k, z_name z)) zs)) pid False)))))"

section \<open>Text, commands, dialogs, keys\<close>

text \<open>No handler: an exception leaves the callback.\<close>

definition OnPlayerText :: "playerid \<Rightarrow> string \<Rightarrow> unit wprog" where
  "OnPlayerText pid text' =
     andthen (seq (ask (\<lambda>s. q_color s pid)) (\<lambda>c. native (SetPlayerChatBubble pid text' c 100 5000)))
    (andthen (getRef profiles pid) (seq (GetTeamId pid) (\<lambda>u. seq (TeamMgr_get u) (\<lambda>k. seq (tget k id) (\<lambda>t.
     seq (GetColor pid) (\<lambda>c. seq (GetNickname pid) (\<lambda>nick.
       native (SendClientMessageToAll COLOR_WHITE (ColorToEmbeddingString (t_color t) @ ''['' @ t_name t @ '']''
         @ ColorToEmbeddingString c @ nick @ ''{ffffff}: '' @ text')))))))))"

text \<open>\<^verbatim>\<open>sscanf(cmdtext, "%s%*[ ]%[^\0]", cmdname, cmdline)\<close>: the name up to a space, and the rest after the spaces. Each
  goes to a buffer of 128 bytes.\<close>

definition parse_command :: "string \<Rightarrow> string \<times> string" where
  "parse_command text' = (let s = dropWhile is_space text'; r = dropWhile (\<lambda>c. \<not> is_space c) s in
     (takeWhile (\<lambda>c. \<not> is_space c) s,
      if r \<noteq> [] \<and> hd r = CHR '' '' then dropWhile (\<lambda>c. c = CHR '' '') r else []))"

definition to_lower :: "char \<Rightarrow> char" where
  "to_lower c = (if 65 \<le> (of_char c :: nat) \<and> (of_char c :: nat) \<le> 90 then char_of (of_char c + 32 :: nat) else c)"

definition OnPlayerCommandText :: "playerid \<Rightarrow> string \<Rightarrow> unit wprog" where
  "OnPlayerCommandText pid text' = (let (name, line) = parse_command text' in
     if 128 \<le> length name \<or> 128 \<le> length line then throw Undefined
     else reported pid txt_command_error (CmdMgr_Exec pid (map to_lower (drop 1 name)) line))"

definition OnDialogResponse :: "playerid \<Rightarrow> int \<Rightarrow> int \<Rightarrow> int \<Rightarrow> string \<Rightarrow> unit wprog" where
  "OnDialogResponse pid d response item text' = reported pid txt_dialog_error (DlgMgr_Exec pid (response = 1) d item text')"

abbreviation (input) KEY_ACTION :: cint where "KEY_ACTION \<equiv> 1"
abbreviation (input) KEY_FIRE :: cint where "KEY_FIRE \<equiv> 4"
abbreviation (input) KEY_NO :: cint where "KEY_NO \<equiv> 131072"

definition KEY_PRESSED :: "cint \<Rightarrow> cint \<Rightarrow> cint \<Rightarrow> bool" where
  "KEY_PRESSED newkeys oldkeys x \<longleftrightarrow> and newkeys x = x \<and> and oldkeys x \<noteq> x"

definition use_skill :: "playerid \<Rightarrow> unit wprog" where
  "use_skill pid = seq (ask (\<lambda>s. q_target s pid)) (\<lambda>target. seq (CanPerformSkill pid) (\<lambda>can.
     if can then
       andthen (seq (MustHaveTarget pid) (\<lambda>must.
         if must then
           (if target \<noteq> INVALID_PLAYER_ID then andthen (getRef profiles target) (PerformSpecialSkill pid target)
            else throw (RuntimeError txt_skill_target))
         else PerformSpecialSkill pid pid))
         (SendChatMessage pid COLOR_SUCC txt_skill_done)
     else throw (RuntimeError txt_skill_cooling)))"

definition OnPlayerKeyStateChange :: "playerid \<Rightarrow> cint \<Rightarrow> cint \<Rightarrow> unit wprog" where
  "OnPlayerKeyStateChange pid newkeys oldkeys = reported pid txt_key_error (andthen (getRef profiles pid)
     (seq (ask (\<lambda>s. (q_invehicle s pid, q_vehicle s pid))) (\<lambda>(inv, vid).
      andthen (whenP ((KEY_PRESSED newkeys oldkeys KEY_FIRE \<or> KEY_PRESSED newkeys oldkeys KEY_ACTION) \<and> inv)
                (native (AddVehicleComponent vid 1010)))
        (whenP (KEY_PRESSED newkeys oldkeys KEY_NO) (use_skill pid)))))"

section \<open>Death\<close>

text \<open>Each weapon falls at a random place around the body. \<open>k\<close> counts the random numbers drawn; which of the two
  coordinates draws first C++ leaves open.\<close>

primrec dropWeapons :: "nat list \<Rightarrow> nat \<Rightarrow> playerid \<Rightarrow> Coordinate3D \<Rightarrow> flt \<Rightarrow> unit wprog" where
  "dropWeapons [] k pid p radius = ret ()"
| "dropWeapons (i # slots) k pid p radius = seq (ask (\<lambda>s. q_weapon s pid i)) (\<lambda>(weapon, ammo).
     if weapon \<noteq> 0 then seq (gets (\<lambda>w. random_offset (env w) radius)) (\<lambda>off.
       seq (PlacePickup (WeaponPickup weapon ammo) (fl32 (cx p + off k)) (fl32 (cy p + off (k + 1))) (cz p)) (\<lambda>_.
         dropWeapons slots (k + 2) pid p radius))
     else dropWeapons slots k pid p radius)"

text \<open>The pickup of a kill streak. Only the local pointer owns it.\<close>

definition reward :: "int \<Rightarrow> Coordinate3D \<Rightarrow> int option wprog" where
  "reward kills p =
    (if kills = 1 then ret None
     else seq (if kills = 2 then seq (config cfg_float ''EffectiveItem.medicalpickup'') (\<lambda>h. ret (MedicalPickup h))
               else if kills = 3 then ret (WeaponPickup 16 3)
               else if kills = 4 then seq (config cfg_int ''EffectiveItem.wealthpickupmoney'') (\<lambda>m.
                 seq (config cfg_int ''EffectiveItem.wealthpickupscore'') (\<lambda>s. ret (WealthPickup m s)))
               else ret (WeaponPickup 38 15))
       (\<lambda>e. seq (Pickup_new e (cx p) (cy p) (cz p)) (\<lambda>i. ret (Some i))))"

definition streak :: "int \<Rightarrow> string" where
  "streak kills = (if kills = 1 then [] else if kills = 2 then '' double kill'' else if kills = 3 then '' triple kill''
     else if kills = 4 then '' quadra kill'' else if kills = 5 then '' penta kill'' else '' kills '' @ int_str kills @ '' in a row'')"

text \<open>A \<^verbatim>\<open>stringstream\<close> made with a text is written from its start.\<close>

definition killmsg :: "string \<Rightarrow> int \<Rightarrow> string" where
  "killmsg name kills = streak kills @ drop (length (streak kills)) name"

text \<open>\<open>m\<close> in the scope of the pointer, which is destroyed when it is left in any way.\<close>

definition owning :: "int option \<Rightarrow> unit wprog \<Rightarrow> unit wprog" where
  "owning i m = (let d = (case i of None \<Rightarrow> ret () | Some i \<Rightarrow> Pickup_destroy i) in
     andthen (tryCatch m (\<lambda>e. andthen d (throw e))) d)"

definition turfwar_counter :: "playerid \<Rightarrow> playerid \<Rightarrow> unit wprog" where
  "turfwar_counter pid killer = seq (gets (IsPlayerInAnyDynamicArea pid)) (\<lambda>inarea.
     if \<not> inarea then ret ()
     else seq (GetPos pid) (\<lambda>p. seq (GetPointInWhichZone p) (\<lambda>k. if k = -1 then ret ()
       else andthen (getRef zones k) (seq (GetTeamId pid) (\<lambda>t. seq (GetTeamId killer) (\<lambda>t'. seq (zget k id) (\<lambda>z.
         andthen (whenP (t = z_owner z \<and> t' = wi_Attacker (z_warinfo z)) (CountMemberDeath k))
                 (whenP (t = wi_Attacker (z_warinfo z) \<and> t' = z_owner z) (CountEnemyKill k)))))))))"

definition killer_rewards :: "playerid \<Rightarrow> playerid \<Rightarrow> unit wprog" where
  "killer_rewards pid killer = andthen (getRef profiles killer)
     (andthen (GiveScore killer 1) (andthen (GiveMoney killer 1000)
     (seq (config cfg_float ''EffectiveItem.distance'') (\<lambda>d. seq (DirectionalPoint killer d) (\<lambda>p.
      seq (KillCounter killer) (\<lambda>kills. seq (ask (\<lambda>s. q_name s killer)) (\<lambda>n.
      seq (reward kills p) (\<lambda>ptr. owning ptr
        (andthen (whenP (1 < kills) (PushMessage (killmsg n kills))) (turfwar_counter pid killer))))))))))"

definition OnPlayerDeath :: "playerid \<Rightarrow> playerid \<Rightarrow> int \<Rightarrow> unit wprog" where
  "OnPlayerDeath pid killer reason =
     andthen (native (GivePlayerMoney pid (-500))) (andthen (native (SendDeathMessage killer pid reason))
    (reported pid txt_death_error (andthen (getRef profiles pid) (andthen (Role_OnDeath pid)
      (seq (GetPos pid) (\<lambda>p. seq (config cfg_float ''EffectiveItem.weapondropradius'') (\<lambda>radius.
        andthen (dropWeapons [0..<13] 0 pid p radius)
          (if killer \<noteq> INVALID_PLAYER_ID then killer_rewards pid killer else ret ()))))))))"

section \<open>Areas, pickups, clicks, checkpoints\<close>

definition OnPlayerEnterDynamicArea :: "playerid \<Rightarrow> int \<Rightarrow> unit wprog" where
  "OnPlayerEnterDynamicArea pid area = reported pid txt_enter_area_error (andthen (getRef areas area) (andthen (getRef profiles pid)
     (seq (readMember areas area id) (\<lambda>zone. Area_OnPlayerEnter zone pid))))"

definition OnPlayerLeaveDynamicArea :: "playerid \<Rightarrow> int \<Rightarrow> unit wprog" where
  "OnPlayerLeaveDynamicArea pid area = reported pid txt_leave_area_error (andthen (getRef areas area) (andthen (getRef profiles pid)
     (seq (readMember areas area id) (\<lambda>zone. Area_OnPlayerExit zone pid))))"

definition OnDynamicObjectMoved :: "int \<Rightarrow> unit wprog" where
  "OnDynamicObjectMoved i = ret ()"

text \<open>The tick of the server: the streamer's update, which calls back when players enter and leave areas.\<close>

definition ProcessTick :: "unit wprog" where
  "ProcessTick = Streamer_ProcessTick OnPlayerEnterDynamicArea OnPlayerLeaveDynamicArea OnDynamicObjectMoved"

definition OnPlayerPickUpPickup :: "playerid \<Rightarrow> int \<Rightarrow> unit wprog" where
  "OnPlayerPickUpPickup pid pickupid = reported pid txt_pickup_error (seq (gets (Streamer_OnPlayerPickUpPickup pid pickupid)) (\<lambda>i.
     if i \<noteq> 0 then PickupMgr_Exec pid i else ret ()))"

definition OnPlayerClickMap :: "playerid \<Rightarrow> flt \<Rightarrow> flt \<Rightarrow> unit wprog" where
  "OnPlayerClickMap pid x y = reported pid txt_clickmap_error (andthen (getRef profiles pid) (seq (HasVar pid ''gz_create'') (\<lambda>b.
     if \<not> b then ret ()
     else seq (GetVar pid ''gz_create'' asZone) (\<lambda>d.
       if and (gc_step d) GANGZONE_CREATE_MIN \<noteq> GANGZONE_CREATE_MIN then gz_step pid (gc_min_update (\<lambda>_. plane x y)) GANGZONE_CREATE_MIN
       else if and (gc_step d) GANGZONE_CREATE_MAX \<noteq> GANGZONE_CREATE_MAX then
         andthen (gz_step pid (gc_max_update (\<lambda>_. plane x y)) GANGZONE_CREATE_MAX) (SendChatMessage pid COLOR_SUCC txt_range_done)
       else ret ()))))"

definition OnPlayerClickPlayer :: "playerid \<Rightarrow> playerid \<Rightarrow> unit wprog" where
  "OnPlayerClickPlayer pid clicked = reported pid txt_clickplayer_error (andthen (getRef profiles pid)
     (andthen (SetVar pid ''player_lastclicked'' (PVInt clicked))
       (if pid \<noteq> clicked then Show DIALOG_PLAYER_MAIN txt_message_menu pid False
        else Show DIALOG_PROFILE_SETTING txt_settings_menu pid False)))"

definition OnPlayerReachRaceCheckpoint :: "playerid \<Rightarrow> unit wprog" where
  "OnPlayerReachRaceCheckpoint pid = reported pid txt_racecp_error (andthen (getRef profiles pid) (seq (HasVar pid ''race_joined'') (\<lambda>b.
     if \<not> b then ret () else seq (GetVar pid ''race_joined'' asInt) (\<lambda>k. inRace k (PlayerReachCheckpoint pid)))))"

section \<open>Timers\<close>

definition TimerCallback_AutoSaveProfile :: "playerid \<Rightarrow> unit wprog" where
  "TimerCallback_AutoSaveProfile pid = andthen (Sync pid) (SendChatMessage pid COLOR_SUCC ''Profile synchronized'')"

definition TimerCallback_ChangeWeather :: "unit wprog" where
  "TimerCallback_ChangeWeather = seq (gets (\<lambda>w. RandomWeather (lib_rand (env w)))) (\<lambda>r. case r of
     Some x \<Rightarrow> native (SetWeather (word_of_int x)) | None \<Rightarrow> throw Undefined)"

definition TimerCallback_ChangeTime :: "unit wprog" where
  "TimerCallback_ChangeTime = andthen (modify (worldtime_update (\<lambda>t. t + 1)))
     (seq (gets worldtime) (\<lambda>t. native (SetWorldTime (t smod 24))))"

definition timer_callback :: "tcallback \<Rightarrow> unit wprog" where
  "timer_callback cb = (case cb of TEndTurfWar z \<Rightarrow> TimerCallback_EndTurfWar z
     | TTurfWarWaitTimeout z \<Rightarrow> TimerCallback_TurfWarWaitTimeout z | TAutoSaveProfile pid \<Rightarrow> TimerCallback_AutoSaveProfile pid
     | TChangeWeather \<Rightarrow> TimerCallback_ChangeWeather | TChangeTime \<Rightarrow> TimerCallback_ChangeTime
     | TRaceCountDown k \<Rightarrow> TimerCallback_RaceCountDown k)"

text \<open>The timer queue runs a timer; one that does not repeat runs once.\<close>

definition fire :: "int \<Rightarrow> unit wprog" where
  "fire h w = (case map_of (timers w) h of None \<Rightarrow> (Inr (), w)
     | Some t \<Rightarrow> if tm_fired t \<and> \<not> tm_repeat t then (Inr (), w)
                 else timer_callback (tm_callback t) (w\<lparr>timers := setMember h (t\<lparr>tm_fired := True\<rparr>) (timers w)\<rparr>))"

section \<open>All events\<close>

text \<open>\<open>EnterArea\<close> and \<open>LeaveArea\<close> are what the streamer reports during a \<open>Tick\<close>; as events of their own they may also come at any other time.\<close>

datatype event =
    GameModeInit | Connect playerid | Disconnect playerid int | RequestClass playerid | RequestSpawn playerid | SpawnEvent playerid
  | Chat playerid string | CommandText playerid string | DialogResponse playerid int int int string
  | KeyStateChange playerid cint cint | Death playerid playerid int | EnterArea playerid int | LeaveArea playerid int
  | PickUp playerid int | ClickMap playerid flt flt | ClickPlayer playerid playerid | RaceCheckpoint playerid | Timer int | Tick

definition handle :: "event \<Rightarrow> unit wprog" where
  "handle ev = (case ev of
     GameModeInit \<Rightarrow> OnGameModeInit
   | Connect pid \<Rightarrow> seq (OnPlayerConnect pid) (\<lambda>_. ret ())
   | Disconnect pid reason \<Rightarrow> seq (OnPlayerDisconnect pid reason) (\<lambda>_. ret ())
   | RequestClass pid \<Rightarrow> OnPlayerRequestClass pid
   | RequestSpawn pid \<Rightarrow> OnPlayerRequestSpawn pid
   | SpawnEvent pid \<Rightarrow> OnPlayerSpawn pid
   | Chat pid text' \<Rightarrow> OnPlayerText pid text'
   | CommandText pid text' \<Rightarrow> OnPlayerCommandText pid text'
   | DialogResponse pid d r item text' \<Rightarrow> OnDialogResponse pid d r item text'
   | KeyStateChange pid n o' \<Rightarrow> OnPlayerKeyStateChange pid n o'
   | Death pid killer reason \<Rightarrow> OnPlayerDeath pid killer reason
   | EnterArea pid a \<Rightarrow> OnPlayerEnterDynamicArea pid a
   | LeaveArea pid a \<Rightarrow> OnPlayerLeaveDynamicArea pid a
   | PickUp pid i \<Rightarrow> OnPlayerPickUpPickup pid i
   | ClickMap pid x y \<Rightarrow> OnPlayerClickMap pid x y
   | ClickPlayer pid q \<Rightarrow> OnPlayerClickPlayer pid q
   | RaceCheckpoint pid \<Rightarrow> OnPlayerReachRaceCheckpoint pid
   | Timer h \<Rightarrow> fire h
   | Tick \<Rightarrow> ProcessTick)"

text \<open>A run of the server: before each event its surroundings may change. An event that ends in an exception the game mode
  does not catch still leaves its effects; after undefined behaviour there is no next step.\<close>

inductive reachable :: "world \<Rightarrow> bool" where
  start: "reachable (world_init h)"
| event: "reachable w \<Longrightarrow> handle ev (w\<lparr>env := e\<rparr>) = (r, w') \<Longrightarrow> r \<noteq> Inl Undefined \<Longrightarrow> reachable w'"

end
