(* ===== verification/Racing_Correct.thy ===== *)
theory Racing_Correct
  imports Callbacks
begin

text \<open>
  Races from the closing of the entries to the last racer: the countdown, the start, and the checkpoint events of the
  server in any interleaving, until the race leaves its manager.
\<close>

lemmas race_defs = race_def modRace_def onW_def prog_defs

lemma onW_apply: "onW m (r, w) = (case m w of (x, w') \<Rightarrow> (x, (r, w')))"
  by (simp add: onW_def)

text \<open>The checkpoint a racer is shown on the way to checkpoint \<open>cp\<close>.\<close>

definition shown_checkpoint :: "racing \<Rightarrow> playerid \<Rightarrow> int \<Rightarrow> native" where
  "shown_checkpoint r q cp = (let n = int (length (rc_checkpoints r)); c = rc_checkpoints r ! nat cp; c' = rc_checkpoints r ! nat (cp + 1) in
     if cp = n - 1 then SetPlayerRaceCheckpoint q (if rc_type r \<noteq> AIR then 1 else 4) (cx c) (cy c) (cz c) 0 0 0 10
     else SetPlayerRaceCheckpoint q (if rc_type r \<noteq> AIR then 0 else 3) (cx c) (cy c) (cz c) (cx c') (cy c') (cz c') 10)"

definition advance :: "playerid \<Rightarrow> racing \<Rightarrow> racing" where
  "advance q r = rc_racers_update (\<lambda>m. case map_of m q of None \<Rightarrow> m
     | Some i \<Rightarrow> setMember q (i\<lparr>ri_currentcp := ri_currentcp i + 1\<rparr>) m) r"

lemma setMember_twice [simp]: "setMember k v (setMember k u m) = setMember k v m"
  by (induction m) (auto simp: setMember_def)

lemma length_setMember: "map_of m k = Some u \<Longrightarrow> length (setMember k v m) = length m"
  by (induction m) (auto simp: setMember_def)

lemma keys_setMember: "map_of m k = Some u \<Longrightarrow> map fst (setMember k v m) = map fst m"
  by (induction m) (auto simp: setMember_def)

lemma reach_eval:
  assumes "rc_state r = IN_PROGRESS" and "map_of (rc_racers r) q = Some i"
    and "ri_currentcp i + 1 < int (length (rc_checkpoints r))"
  shows "PlayerReachCheckpoint q (r, w) =
    (Inr (), (advance q r, w\<lparr>out := shown_checkpoint r q (ri_currentcp i + 1) # out w\<rparr>))"
  using assms
  by (simp add: PlayerReachCheckpoint_def race_defs Let_def SetRaceCheckpoint_def native_def shown_checkpoint_def advance_def)

text \<open>A racer who is through.\<close>

definition finish_racer :: "playerid \<Rightarrow> int \<Rightarrow> racing \<Rightarrow> racing" where
  "finish_racer q t r = r\<lparr>rc_waitingplayer := rc_waitingplayer r - 1,
     rc_racers := (case map_of (rc_racers r) q of None \<Rightarrow> rc_racers r
       | Some i \<Rightarrow> setMember q (i\<lparr>ri_currentcp := ri_currentcp i + 1, ri_usedtime := t - rc_start r,
           ri_sessionrank := int (length (rc_racers r)) - (rc_waitingplayer r - 1)\<rparr>) (rc_racers r))\<rparr>"

definition finish_note :: "playerid \<Rightarrow> int \<Rightarrow> int \<Rightarrow> native" where
  "finish_note q used rank = SendClientMessage q COLOR_SUCC (txt_you_finished @ int_str used @ txt_rank @ int_str rank)"

lemma finish_eval:
  fixes r :: racing and w :: world
  assumes "rc_state r = IN_PROGRESS" and "map_of (rc_racers r) q = Some i"
    and "ri_currentcp i + 1 = int (length (rc_checkpoints r))"
  defines "r1 \<equiv> finish_racer q (now (env w)) r"
    and "w1 \<equiv> w\<lparr>out := finish_note q (now (env w) - rc_start r) (int (length (rc_racers r)) - (rc_waitingplayer r - 1)) #
            DisablePlayerRaceCheckpoint q # out w\<rparr>"
  shows "PlayerReachCheckpoint q (r, w) = (if rc_waitingplayer r = 1 then Finish (r1, w1) else (Inr (), (r1, w1)))"
  unfolding r1_def w1_def using assms(1-3)
  by (cases r) (simp add: PlayerReachCheckpoint_def PlayerFinish_def race_defs Let_def native_def finish_racer_def finish_note_def
      length_setMember)

text \<open>When a race ends every racer is told, the race leaves the manager, and the racers are let go.\<close>

definition note_finish :: "native \<Rightarrow> (playerid \<times> string) list" where
  "note_finish c = (case c of SendClientMessage q col s \<Rightarrow> if col = COLOR_SUCC then [(q, s)] else [] | _ \<Rightarrow> [])"

definition noted :: "native list \<Rightarrow> (playerid \<times> string) list" where
  "noted cs = concat (map note_finish (rev cs))"

lemma noted_simps [simp]: "noted [] = []" "noted (c # cs) = noted cs @ note_finish c" "noted (cs @ ds) = noted ds @ noted cs"
  by (simp_all add: noted_def)

lemma noted_none: "(\<And>c. c \<in> set cs \<Longrightarrow> note_finish c = []) \<Longrightarrow> noted cs = []"
  by (simp add: noted_def)

lemma note_finish_simps [simp]:
  "note_finish (finish_note q u k) = [(q, txt_you_finished @ int_str u @ txt_rank @ int_str k)]"
  "note_finish (shown_checkpoint r q c) = []" "note_finish (DisablePlayerRaceCheckpoint q) = []"
  "note_finish (TogglePlayerControllable q b) = []" "note_finish (SendClientMessage q COLOR_WARN s) = []"
  by (simp_all add: note_finish_def finish_note_def shown_checkpoint_def Let_def COLOR_WARN_def COLOR_SUCC_def)

lemma racers_told:
  "forEach m (\<lambda>(q, _). onW (native (SendClientMessage q COLOR_WARN s))) (r, w)
    = (Inr (), (r, w\<lparr>out := map (\<lambda>(q, _). SendClientMessage q COLOR_WARN s) (rev m) @ out w\<rparr>))"
  by (induction m arbitrary: w) (auto simp: race_defs native_def)

definition let_go :: "world \<Rightarrow> world \<Rightarrow> playerid set \<Rightarrow> bool" where
  "let_go w w' qs \<longleftrightarrow> races w' = races w \<and> (\<forall>q p. map_of (profiles w) q = Some p \<longrightarrow>
     (\<exists>p'. map_of (profiles w') q = Some p' \<and> (\<not> IsExist ''race_joined'' (p_pvars p) \<or> q \<in> qs \<longrightarrow> \<not> IsExist ''race_joined'' (p_pvars p'))))
     \<and> (\<exists>cs. out w' = cs @ out w \<and> noted cs = [])"

lemma let_go_one:
  assumes "map_of (profiles w) q = Some p"
  shows "\<exists>w'. andthen (native (TogglePlayerControllable q True)) (andthen (native (DisablePlayerRaceCheckpoint q))
      (andthen (tryCatch (getRef profiles q) (\<lambda>_. throw Undefined)) (seq (DelVar q ''race_joined'') (\<lambda>_. ret ())))) w = (Inr (), w')
    \<and> let_go w w' {q}"
  using assms
  by (auto simp: prog_defs native_def getRef_def Get_def DelVar_def readMember_def modMember_def let_go_def Remove_def IsExist_def
      delete_conv' split: if_splits)

lemma let_go_trans: "let_go w w1 {q} \<Longrightarrow> let_go w1 w2 qs \<Longrightarrow> let_go w w2 (insert q qs)"
  unfolding let_go_def
  apply (intro conjI)
    apply simp
   apply blast
  apply (elim conjE exE)
  apply (rule_tac x = "csa @ cs" in exI)
  apply simp
  done

lemma destroy_spec:
  assumes "rc_countdowntimerid r = 0" and "\<And>q. q \<in> fst ` set (rc_racers r) \<Longrightarrow> map_of (profiles w) q \<noteq> None"
  shows "\<exists>w'. Racing_destroy r w = (Inr (), w') \<and> let_go w w' (fst ` set (rc_racers r))"
proof -
  let ?f = "\<lambda>(q, _). andthen (native (TogglePlayerControllable q True)) (andthen (native (DisablePlayerRaceCheckpoint q))
      (andthen (tryCatch (getRef profiles q) (\<lambda>_. throw Undefined)) (seq (DelVar q ''race_joined'') (\<lambda>_. ret ()))))"
  have "\<exists>w'. forEach m ?f w = (Inr (), w') \<and> let_go w w' (fst ` set m)"
    if "\<And>q. q \<in> fst ` set m \<Longrightarrow> map_of (profiles w) q \<noteq> None" for m :: "(playerid \<times> RacerInfo) list" and w
    using that
  proof (induction m arbitrary: w)
    case Nil
    show ?case by (auto simp: ret_def let_go_def)
  next
    case (Cons x m)
    obtain p where "map_of (profiles w) (fst x) = Some p" using Cons.prems [of "fst x"] by auto
    from let_go_one [OF this] obtain w1 where w1: "?f x w = (Inr (), w1)" "let_go w w1 {fst x}" by (auto simp: split_beta)
    have "map_of (profiles w1) q \<noteq> None" if q: "q \<in> fst ` set m" for q
      using Cons.prems [of q] q w1(2) unfolding let_go_def by fastforce
    from Cons.IH [OF this] obtain w2 where "forEach m ?f w1 = (Inr (), w2)" "let_go w1 w2 (fst ` set m)" by blast
    then show ?case using w1 let_go_trans [OF w1(2)] by (auto simp: andthen_def seq_def)
  qed
  from this [of "rc_racers r" w] assms show ?thesis
    by (simp add: Racing_destroy_def andthen_def whenP_def ret_def seq_def)
qed

lemma Finish_spec:
  assumes "rc_state r = IN_PROGRESS" and "rc_countdowntimerid r = 0" and "IsExist (rc_starter r) (races w)"
    and "\<And>q. q \<in> fst ` set (rc_racers r) \<Longrightarrow> map_of (profiles w) q \<noteq> None"
  shows "\<exists>w'. Finish (r, w) = (Inr (), (r, w')) \<and> races w' = AList.delete (rc_starter r) (races w)
    \<and> (\<exists>cs. out w' = cs @ out w \<and> noted cs = [])
    \<and> (\<forall>q \<in> fst ` set (rc_racers r). \<exists>p. map_of (profiles w') q = Some p \<and> \<not> IsExist ''race_joined'' (p_pvars p))"
proof -
  define told where "told = map (\<lambda>(q, _). SendClientMessage q COLOR_WARN txt_race_ends) (rev (rc_racers r))"
  define w1 where "w1 = w\<lparr>out := told @ out w, races := AList.delete (rc_starter r) (races w)\<rparr>"
  obtain w' where d: "Racing_destroy r w1 = (Inr (), w')" "let_go w1 w' (fst ` set (rc_racers r))"
    using destroy_spec [OF assms(2), of w1] assms(4) unfolding w1_def by auto
  have "Finish (r, w) = (Inr (), (r, w'))"
    using assms(1,3) d(1)
    by (simp add: Finish_def race_def racersDo_def racers_told prog_defs onW_apply told_def [symmetric] w1_def Remove_def)
  moreover have "noted told = []" by (rule noted_none) (auto simp: told_def)
  ultimately show ?thesis using d(2) assms(4) unfolding let_go_def w1_def by fastforce
qed

section \<open>The course of a race\<close>

definition cp_of :: "racing \<Rightarrow> playerid \<Rightarrow> int" where
  "cp_of r q = (case map_of (rc_racers r) q of Some i \<Rightarrow> ri_currentcp i | None \<Rightarrow> 0)"

definition unfinished :: "racing \<Rightarrow> playerid set" where
  "unfinished r = {q \<in> fst ` set (rc_racers r). cp_of r q < int (length (rc_checkpoints r))}"

definition running :: "int \<Rightarrow> racing \<Rightarrow> world \<Rightarrow> bool" where
  "running k r w \<longleftrightarrow> map_of (races w) k = Some r \<and> distinct (map fst (races w)) \<and> rc_starter r = k \<and> rc_state r = IN_PROGRESS
     \<and> rc_countdowntimerid r = 0 \<and> rc_waitingplayer r = int (card (unfinished r))
     \<and> (\<forall>q \<in> fst ` set (rc_racers r). \<exists>p. map_of (profiles w) q = Some p \<and> map_of (p_pvars p) ''race_joined'' = Some (PVInt k))"

text \<open>Racers reach checkpoints, one after another, at any times.\<close>

definition raceEvents :: "(cenv \<times> playerid) list \<Rightarrow> unit wprog" where
  "raceEvents es = forEach es (\<lambda>(e, q). andthen (modify (env_update (\<lambda>_. e))) (handle (RaceCheckpoint q)))"

text \<open>The last event of each racer, in order, and the notices due to them.\<close>

primrec finishers :: "(cenv \<times> playerid) list \<Rightarrow> (cenv \<times> playerid) list" where
  "finishers [] = []"
| "finishers (x # xs) = (if snd x \<in> snd ` set xs then finishers xs else x # finishers xs)"

primrec results :: "int \<Rightarrow> int \<Rightarrow> (cenv \<times> playerid) list \<Rightarrow> (playerid \<times> string) list" where
  "results start k [] = []"
| "results start k (x # xs) = (snd x, txt_you_finished @ int_str (now (fst x) - start) @ txt_rank @ int_str k) # results start (k + 1) xs"

lemma reach_handled:
  assumes "map_of (races w) k = Some r" and "map_of (profiles w) q = Some p" and "map_of (p_pvars p) ''race_joined'' = Some (PVInt k)"
    and "PlayerReachCheckpoint q (r, w) = (Inr (), (r', w'))"
  shows "handle (RaceCheckpoint q) w = (Inr (), if IsExist k (races w') then set_races (setMember k r' (races w')) w' else w')"
  using assms
  by (simp add: handle_def OnPlayerReachRaceCheckpoint_def reported_def caught_def prog_defs getRef_def Get_def HasVar_def GetVar_def
      asInt_def readMember_def IsExist_def inRace_def)

lemma running_env [simp]: "running k r (w\<lparr>env := e\<rparr>) = running k r w"
  by (simp add: running_def)

lemma cp_of_advance:
  "map_of (rc_racers r) q = Some i \<Longrightarrow> cp_of (advance q r) q' = (if q' = q then cp_of r q + 1 else cp_of r q')"
  by (simp add: cp_of_def advance_def)

lemma cp_of_finish:
  "map_of (rc_racers r) q = Some i \<Longrightarrow> cp_of (finish_racer q t r) q' = (if q' = q then cp_of r q + 1 else cp_of r q')"
  by (simp add: cp_of_def finish_racer_def)

lemma fst_set_setMember [simp]: "fst ` set (setMember k v m) = insert k (fst ` set m)"
  by (simp add: setMember_def dom_update)

lemma mem_racers: "q \<in> fst ` set m \<longleftrightarrow> (\<exists>i. map_of m q = Some i)"
  by (metis map_of_None_iff not_None_eq)

lemma advance_fields [simp]:
  "rc_starter (advance q r) = rc_starter r" "rc_state (advance q r) = rc_state r" "rc_start (advance q r) = rc_start r"
  "rc_countdowntimerid (advance q r) = rc_countdowntimerid r" "rc_waitingplayer (advance q r) = rc_waitingplayer r"
  "rc_checkpoints (advance q r) = rc_checkpoints r" "length (rc_racers (advance q r)) = length (rc_racers r)"
  "fst ` set (rc_racers (advance q r)) = fst ` set (rc_racers r)"
  by (auto simp: advance_def length_setMember mem_racers split: option.splits) 

lemma finish_fields [simp]:
  "rc_starter (finish_racer q t r) = rc_starter r" "rc_state (finish_racer q t r) = rc_state r" "rc_start (finish_racer q t r) = rc_start r"
  "rc_countdowntimerid (finish_racer q t r) = rc_countdowntimerid r"
  "rc_waitingplayer (finish_racer q t r) = rc_waitingplayer r - 1"
  "rc_checkpoints (finish_racer q t r) = rc_checkpoints r" "length (rc_racers (finish_racer q t r)) = length (rc_racers r)"
  "fst ` set (rc_racers (finish_racer q t r)) = fst ` set (rc_racers r)"
  by (auto simp: finish_racer_def length_setMember mem_racers split: option.splits)

lemma runningD:
  assumes "running k r w"
  shows "map_of (races w) k = Some r" "distinct (map fst (races w))" "rc_starter r = k" "rc_state r = IN_PROGRESS"
    "rc_countdowntimerid r = 0" "rc_waitingplayer r = int (card (unfinished r))"
    "q \<in> fst ` set (rc_racers r) \<Longrightarrow> \<exists>p. map_of (profiles w) q = Some p \<and> map_of (p_pvars p) ''race_joined'' = Some (PVInt k)"
  using assms unfolding running_def by blast+

lemma running_step:
  assumes "running k r w" and "rc_starter r' = k" and "rc_state r' = IN_PROGRESS" and "rc_countdowntimerid r' = 0"
    and "fst ` set (rc_racers r') = fst ` set (rc_racers r)" and "rc_waitingplayer r' = int (card (unfinished r'))"
  shows "running k r' (set_races (setMember k r' (races w)) (w\<lparr>out := os\<rparr>))"
proof -
  have "distinct (map fst (setMember k r' (races w)))" using assms(1) by (simp add: running_def setMember_def)
  moreover have "\<forall>q \<in> fst ` set (rc_racers r'). \<exists>p. map_of (profiles w) q = Some p \<and> map_of (p_pvars p) ''race_joined'' = Some (PVInt k)"
    unfolding assms(5) using assms(1) unfolding running_def by blast
  ultimately show ?thesis using assms(2-4,6) unfolding running_def by (simp only: map_of_setMember) simp
qed

lemma finite_unfinished [simp]: "finite (unfinished r)"
  by (simp add: unfinished_def)

text \<open>The three things a checkpoint event can do.\<close>

lemma running_racer:
  assumes "running k r w" and "q \<in> unfinished r"
  obtains i p where "map_of (rc_racers r) q = Some i" "cp_of r q = ri_currentcp i" "ri_currentcp i < int (length (rc_checkpoints r))"
    "map_of (profiles w) q = Some p" "map_of (p_pvars p) ''race_joined'' = Some (PVInt k)"
    "rc_state r = IN_PROGRESS" "map_of (races w) k = Some r"
proof -
  have q: "q \<in> fst ` set (rc_racers r)" "cp_of r q < int (length (rc_checkpoints r))" using assms(2) by (auto simp: unfinished_def)
  from q(1) obtain i where i: "map_of (rc_racers r) q = Some i" unfolding mem_racers by blast
  then have "cp_of r q = ri_currentcp i" by (simp add: cp_of_def)
  with runningD [OF assms(1)] i q that show ?thesis by metis
qed

lemma event_advance:
  assumes "running k r w" and "q \<in> unfinished r" and "cp_of r q + 1 < int (length (rc_checkpoints r))"
  shows "\<exists>w'. handle (RaceCheckpoint q) w = (Inr (), w') \<and> running k (advance q r) w'
    \<and> out w' = shown_checkpoint r q (cp_of r q + 1) # out w \<and> unfinished (advance q r) = unfinished r"
proof -
  obtain i p where i: "map_of (rc_racers r) q = Some i" "cp_of r q = ri_currentcp i" and p: "map_of (profiles w) q = Some p"
      "map_of (p_pvars p) ''race_joined'' = Some (PVInt k)" and s: "rc_state r = IN_PROGRESS" "map_of (races w) k = Some r"
    using running_racer [OF assms(1,2)] by metis
  have un: "unfinished (advance q r) = unfinished r"
    using cp_of_advance [OF i(1)] assms(2,3) by (auto simp: unfinished_def)
  have "handle (RaceCheckpoint q) w = (Inr (), set_races (setMember k (advance q r) (races w))
      (w\<lparr>out := shown_checkpoint r q (cp_of r q + 1) # out w\<rparr>))"
    using reach_handled [OF s(2) p reach_eval [OF s(1) i(1)]] assms(3) i(2) s(2) by (simp add: IsExist_def)
  moreover have "running k (advance q r) (set_races (setMember k (advance q r) (races w)) (w\<lparr>out := os\<rparr>))" for os
    using running_step [OF assms(1), of "advance q r"] un runningD [OF assms(1)] by simp
  ultimately show ?thesis using un by simp
qed

definition rank_now :: "racing \<Rightarrow> int" where
  "rank_now r = int (length (rc_racers r)) - rc_waitingplayer r + 1"

lemma unfinished_finish:
  assumes "map_of (rc_racers r) q = Some i" and "cp_of r q + 1 = int (length (rc_checkpoints r))"
  shows "unfinished (finish_racer q t r) = unfinished r - {q}"
  using cp_of_finish [OF assms(1)] assms(2) by (auto simp: unfinished_def)

lemma event_finish:
  assumes "running k r w" and "q \<in> unfinished r" and "cp_of r q + 1 = int (length (rc_checkpoints r))" and "unfinished r \<noteq> {q}"
  shows "\<exists>w'. handle (RaceCheckpoint q) w = (Inr (), w') \<and> running k (finish_racer q (now (env w)) r) w'
    \<and> out w' = [finish_note q (now (env w) - rc_start r) (rank_now r), DisablePlayerRaceCheckpoint q] @ out w"
proof -
  let ?r = "finish_racer q (now (env w)) r"
  obtain i p where i: "map_of (rc_racers r) q = Some i" "cp_of r q = ri_currentcp i" and p: "map_of (profiles w) q = Some p"
      "map_of (p_pvars p) ''race_joined'' = Some (PVInt k)" and s: "rc_state r = IN_PROGRESS" "map_of (races w) k = Some r"
    using running_racer [OF assms(1,2)] by metis
  have w1: "rc_waitingplayer r \<noteq> 1"
    using runningD(6) [OF assms(1)] assms(2,4) by (metis card_1_singletonE of_nat_eq_1_iff singletonD)
  have waiting: "rc_waitingplayer ?r = int (card (unfinished ?r))"
    using runningD(6) [OF assms(1)] card_Suc_Diff1 [OF finite_unfinished assms(2)] unfinished_finish [OF i(1) assms(3)] by simp
  have "handle (RaceCheckpoint q) w = (Inr (), set_races (setMember k ?r (races w))
      (w\<lparr>out := finish_note q (now (env w) - rc_start r) (rank_now r) # DisablePlayerRaceCheckpoint q # out w\<rparr>))"
    using reach_handled [OF s(2) p] finish_eval [OF s(1) i(1)] assms(3) i(2) s(2) w1 by (simp add: IsExist_def rank_now_def algebra_simps)
  moreover have "running k ?r (set_races (setMember k ?r (races w)) (w\<lparr>out := os\<rparr>))" for os
    using running_step [OF assms(1), of ?r] waiting runningD [OF assms(1)] by simp
  ultimately show ?thesis by simp
qed

lemma event_last:
  assumes "running k r w" and "unfinished r = {q}" and "cp_of r q + 1 = int (length (rc_checkpoints r))"
  shows "\<exists>w' cs. handle (RaceCheckpoint q) w = (Inr (), w') \<and> \<not> IsExist k (races w')
    \<and> (\<forall>q \<in> fst ` set (rc_racers r). \<exists>p. map_of (profiles w') q = Some p \<and> \<not> IsExist ''race_joined'' (p_pvars p))
    \<and> out w' = cs @ [finish_note q (now (env w) - rc_start r) (rank_now r), DisablePlayerRaceCheckpoint q] @ out w \<and> noted cs = []"
proof -
  let ?r = "finish_racer q (now (env w)) r"
  let ?w = "w\<lparr>out := finish_note q (now (env w) - rc_start r) (rank_now r) # DisablePlayerRaceCheckpoint q # out w\<rparr>"
  obtain i p where i: "map_of (rc_racers r) q = Some i" "cp_of r q = ri_currentcp i" and p: "map_of (profiles w) q = Some p"
      "map_of (p_pvars p) ''race_joined'' = Some (PVInt k)" and s: "rc_state r = IN_PROGRESS" "map_of (races w) k = Some r"
    using running_racer [OF assms(1), of q] assms(2) by (metis insertI1)
  have run: "rc_waitingplayer r = 1" "rc_countdowntimerid ?r = 0" "rc_starter ?r = k" "rc_state ?r = IN_PROGRESS"
    using runningD [OF assms(1)] assms(2) by simp_all
  have prof: "map_of (profiles ?w) q' \<noteq> None" if "q' \<in> fst ` set (rc_racers ?r)" for q'
    using runningD(7) [OF assms(1), of q'] that by auto
  obtain w' cs where f: "Finish (?r, ?w) = (Inr (), (?r, w'))" "races w' = AList.delete k (races w)" "out w' = cs @ out ?w" "noted cs = []"
    "\<forall>q \<in> fst ` set (rc_racers ?r). \<exists>p. map_of (profiles w') q = Some p \<and> \<not> IsExist ''race_joined'' (p_pvars p)"
    using Finish_spec [OF run(4,2) _ prof] s(2) run(3) by (auto simp: IsExist_def)
  have gone: "\<not> IsExist k (races w')" by (simp add: f(2) IsExist_def delete_conv')
  have "handle (RaceCheckpoint q) w = (Inr (), w')"
    using reach_handled [OF s(2) p] finish_eval [OF s(1) i(1)] assms(3) i(2) run(1) f(1) gone by (simp add: rank_now_def algebra_simps)
  then show ?thesis using f gone by simp
qed

definition free_racers :: "racing \<Rightarrow> world \<Rightarrow> bool" where
  "free_racers r w \<longleftrightarrow> (\<forall>q \<in> fst ` set (rc_racers r). \<exists>p. map_of (profiles w) q = Some p \<and> \<not> IsExist ''race_joined'' (p_pvars p))"

lemma raceEvents_Cons:
  "raceEvents ((e, q) # es) w = andthen (handle (RaceCheckpoint q)) (raceEvents es) (w\<lparr>env := e\<rparr>)"
  by (simp add: raceEvents_def andthen_def seq_def modify_def)

lemma raceEvents_Nil: "raceEvents [] w = (Inr (), w)"
  by (simp add: raceEvents_def ret_def)

lemma race_run:
  assumes "running k r w" and "unfinished r \<noteq> {}" and "snd ` set es \<subseteq> unfinished r"
    and "\<And>q. q \<in> unfinished r \<Longrightarrow> int (count_list (map snd es) q) = int (length (rc_checkpoints r)) - cp_of r q"
  shows "\<exists>w' cs. raceEvents es w = (Inr (), w') \<and> \<not> IsExist k (races w') \<and> free_racers r w'
    \<and> out w' = cs @ out w \<and> noted cs = results (rc_start r) (rank_now r) (finishers es)"
  using assms
proof (induction es arbitrary: w r)
  case Nil
  then obtain q where "q \<in> unfinished r" by blast
  with Nil.prems(4) [of q] show ?case by (simp add: unfinished_def)
next
  case (Cons x es)
  obtain e q where x: "x = (e, q)" by fastforce
  let ?n = "int (length (rc_checkpoints r))" and ?w = "w\<lparr>env := e\<rparr>"
  have q: "q \<in> unfinished r" using Cons.prems(3) x by auto
  have run: "running k r ?w" using Cons.prems(1) by simp
  obtain i where i: "map_of (rc_racers r) q = Some i" using running_racer [OF run q] by metis
  have count: "int (count_list (map snd es) q) + 1 = ?n - cp_of r q" using Cons.prems(4) [OF q] x by simp
  have others: "int (count_list (map snd es) q') = ?n - cp_of r q'" if "q' \<in> unfinished r" "q' \<noteq> q" for q'
    using Cons.prems(4) [OF that(1)] x that(2) by simp
  have member: "q \<in> snd ` set es \<longleftrightarrow> cp_of r q + 1 \<noteq> ?n" using count count_list_0_iff [of "map snd es" q] by auto
  show ?case
  proof (cases "cp_of r q + 1 = ?n")
    case False
    let ?r = "advance q r"
    obtain w1 where w1: "handle (RaceCheckpoint q) ?w = (Inr (), w1)" "running k ?r w1"
        "out w1 = shown_checkpoint r q (cp_of r q + 1) # out w" and un: "unfinished ?r = unfinished r"
      using event_advance [OF run q] count False by force
    have "int (count_list (map snd es) q') = int (length (rc_checkpoints ?r)) - cp_of ?r q'" if "q' \<in> unfinished ?r" for q'
      using that un count others cp_of_advance [OF i, of q'] by (cases "q' = q") auto
    from Cons.IH [OF w1(2) _ _ this] un Cons.prems(3) q obtain w' cs where "raceEvents es w1 = (Inr (), w')"
        "\<not> IsExist k (races w')" "free_racers ?r w'" "out w' = cs @ out w1"
        "noted cs = results (rc_start ?r) (rank_now ?r) (finishers es)"
      by (metis empty_iff insert_subset image_insert list.simps(15))
    moreover have "finishers (x # es) = finishers es" using member False by (simp add: x)
    ultimately show ?thesis using w1(1,3)
      by (intro exI [of _ w'] exI [of _ "cs @ [shown_checkpoint r q (cp_of r q + 1)]"])
        (simp add: x raceEvents_Cons andthen_def seq_def free_racers_def rank_now_def)
  next
    case True
    let ?r = "finish_racer q (now e) r" and ?c = "[finish_note q (now e - rc_start r) (rank_now r), DisablePlayerRaceCheckpoint q]"
    have notin: "q \<notin> snd ` set es" using member True by simp
    then have fin: "finishers (x # es) = x # finishers es" by (simp add: x)
    show ?thesis
    proof (cases "unfinished r = {q}")
      case last: True
      then have "es = []" using Cons.prems(3) notin x by (cases es) auto
      moreover obtain w' cs where "handle (RaceCheckpoint q) ?w = (Inr (), w')" "\<not> IsExist k (races w')" "free_racers r w'"
          "out w' = cs @ ?c @ out w" "noted cs = []"
        using event_last [OF run last True] by (auto simp: free_racers_def)
      ultimately show ?thesis
        by (intro exI [of _ w'] exI [of _ "cs @ ?c"]) (simp add: x raceEvents_Cons raceEvents_Nil andthen_def seq_def)
    next
      case False
      obtain w1 where w1: "handle (RaceCheckpoint q) ?w = (Inr (), w1)" "running k ?r w1" "out w1 = ?c @ out w"
        using event_finish [OF run q True False] by auto
      have un: "unfinished ?r = unfinished r - {q}" by (rule unfinished_finish [OF i True])
      have cnt: "int (count_list (map snd es) q') = int (length (rc_checkpoints ?r)) - cp_of ?r q'" if "q' \<in> unfinished ?r" for q'
        using that un others cp_of_finish [OF i, of "now e" q'] by auto
      have "unfinished ?r \<noteq> {}" "snd ` set es \<subseteq> unfinished ?r" using un Cons.prems(3) notin q False x by auto
      from Cons.IH [OF w1(2) this cnt] obtain w' cs where "raceEvents es w1 = (Inr (), w')"
          "\<not> IsExist k (races w')" "free_racers ?r w'" "out w' = cs @ out w1"
          "noted cs = results (rc_start ?r) (rank_now ?r) (finishers es)"
        by blast
      then show ?thesis using w1(1,3) fin
        by (intro exI [of _ w'] exI [of _ "cs @ ?c"])
          (simp add: x raceEvents_Cons andthen_def seq_def free_racers_def rank_now_def)
    qed
  qed
qed

section \<open>The start of a race\<close>

definition entered :: "int \<Rightarrow> racing \<Rightarrow> world \<Rightarrow> bool" where
  "entered k r w \<longleftrightarrow> map_of (races w) k = Some r \<and> distinct (map fst (races w)) \<and> rc_starter r = k
     \<and> 2 \<le> length (rc_checkpoints r) \<and> distinct (map fst (rc_racers r)) \<and> (\<forall>q. cp_of r q = 0)
     \<and> (\<forall>q \<in> fst ` set (rc_racers r). \<exists>p. map_of (profiles w) q = Some p \<and> map_of (p_pvars p) ''race_joined'' = Some (PVInt k))"

lemma enteredD:
  assumes "entered k r w"
  shows "map_of (races w) k = Some r" "distinct (map fst (races w))" "rc_starter r = k" "2 \<le> length (rc_checkpoints r)"
    "distinct (map fst (rc_racers r))" "cp_of r q = 0"
    "q \<in> fst ` set (rc_racers r) \<Longrightarrow> \<exists>p. map_of (profiles w) q = Some p \<and> map_of (p_pvars p) ''race_joined'' = Some (PVInt k)"
  using assms unfolding entered_def by blast+

definition ticks :: "int \<Rightarrow> cenv list \<Rightarrow> unit wprog" where
  "ticks h es = forEach es (\<lambda>e. andthen (modify (env_update (\<lambda>_. e))) (handle (Timer h)))"

text \<open>The countdown stands at \<open>c\<close>, and the timer \<open>h\<close> counts it down.\<close>

definition counting :: "int \<Rightarrow> int \<Rightarrow> int \<Rightarrow> racing \<Rightarrow> world \<Rightarrow> bool" where
  "counting k h c r w \<longleftrightarrow> entered k r w \<and> rc_state r = READY \<and> rc_countdown r = c \<and> rc_countdowntimerid r = h \<and> h \<noteq> 0
     \<and> (\<exists>t. map_of (timers w) h = Some t \<and> tm_callback t = TRaceCountDown k \<and> tm_repeat t)"

lemma counting_env [simp]: "counting k h c r (w\<lparr>env := e\<rparr>) = counting k h c r w"
  by (simp add: counting_def entered_def)

lemma racers_warned:
  "forEach m (\<lambda>(q, _). onW (native (SendClientMessage q COLOR_WARN (f q)))) (r, w)
    = (Inr (), (r, w\<lparr>out := map (\<lambda>(q, _). SendClientMessage q COLOR_WARN (f q)) (rev m) @ out w\<rparr>))"
  by (induction m arbitrary: w) (auto simp: race_defs native_def)

lemma fire_countdown:
  assumes "map_of (timers w) h = Some t" and "tm_callback t = TRaceCountDown k" and "tm_repeat t" and "map_of (races w) k = Some r"
  shows "handle (Timer h) w = inRace k CountDown (w\<lparr>timers := setMember h (t\<lparr>tm_fired := True\<rparr>) (timers w)\<rparr>)"
  using assms by (simp add: handle_def fire_def timer_callback_def TimerCallback_RaceCountDown_def IsExist_def)

lemma entered_same:
  assumes "entered k r w" and "rc_starter r' = rc_starter r" and "rc_checkpoints r' = rc_checkpoints r" and "rc_racers r' = rc_racers r"
    and "profiles w' = profiles w" and "races w' = setMember k r' (races w)"
  shows "entered k r' w'"
proof -
  have "distinct (map fst (setMember k r' (races w)))" using assms(1) by (simp add: entered_def setMember_def)
  moreover have "cp_of r' q = cp_of r q" for q by (simp add: cp_of_def assms(4))
  ultimately show ?thesis using assms unfolding entered_def by (simp only: map_of_setMember) simp
qed

lemma tick_down:
  assumes "counting k h c r w" and "0 < c"
  shows "\<exists>w' cs. handle (Timer h) w = (Inr (), w') \<and> counting k h (c - 1) (r\<lparr>rc_countdown := c - 1\<rparr>) w'
    \<and> out w' = cs @ out w \<and> noted cs = []"
proof -
  have e: "entered k r w" and r: "rc_state r = READY" "rc_countdown r = c" "rc_countdowntimerid r = h" "h \<noteq> 0"
    using assms(1) by (auto simp: counting_def)
  note k = enteredD(1) [OF e]
  obtain t where t: "map_of (timers w) h = Some t" "tm_callback t = TRaceCountDown k" "tm_repeat t"
    using assms(1) by (auto simp: counting_def)
  let ?cs = "map (\<lambda>(q, _). SendClientMessage q COLOR_WARN (txt_countdown @ int_str c @ txt_seconds)) (rev (rc_racers r))"
  let ?r = "r\<lparr>rc_countdown := c - 1\<rparr>"
  let ?w = "w\<lparr>timers := setMember h (t\<lparr>tm_fired := True\<rparr>) (timers w), out := ?cs @ out w, races := setMember k ?r (races w)\<rparr>"
  have "handle (Timer h) w = (Inr (), ?w)"
    using fire_countdown [OF t k] k r assms(2)
    by (cases r) (simp add: inRace_def CountDown_def racersDo_def racers_warned race_def modRace_def prog_defs IsExist_def)
  moreover have "entered k ?r ?w" by (rule entered_same [OF e]) simp_all
  moreover have "noted ?cs = []" by (rule noted_none) auto
  ultimately show ?thesis using t r
    by (intro exI [of _ ?w] exI [of _ ?cs]) (simp add: counting_def)
qed

text \<open>\<open>Start\<close> moves every racer to the first checkpoint.\<close>

definition start_racers :: "playerid list \<Rightarrow> racing \<Rightarrow> racing" where
  "start_racers qs r = fold advance qs r"

lemma start_racers_Cons: "start_racers (q # qs) r = start_racers qs (advance q r)"
  by (simp add: start_racers_def)

lemma start_racers_fields [simp]:
  "rc_starter (start_racers qs r) = rc_starter r" "rc_state (start_racers qs r) = rc_state r" "rc_start (start_racers qs r) = rc_start r"
  "rc_countdowntimerid (start_racers qs r) = rc_countdowntimerid r"
  "rc_checkpoints (start_racers qs r) = rc_checkpoints r" "length (rc_racers (start_racers qs r)) = length (rc_racers r)"
  "fst ` set (rc_racers (start_racers qs r)) = fst ` set (rc_racers r)"
  by (induction qs arbitrary: r) (simp_all add: start_racers_def)

lemma cp_of_start:
  "distinct qs \<Longrightarrow> set qs \<subseteq> fst ` set (rc_racers r) \<Longrightarrow>
    cp_of (start_racers qs r) q = cp_of r q + (if q \<in> set qs then 1 else 0)"
proof (induction qs arbitrary: r)
  case Nil
  show ?case by (simp add: start_racers_def)
next
  case (Cons q' qs)
  then obtain i where "map_of (rc_racers r) q' = Some i" by (auto simp: mem_racers)
  with Cons show ?case by (auto simp: start_racers_Cons cp_of_advance)
qed

lemma racers_start:
  assumes "rc_state r = IN_PROGRESS" and "2 \<le> length (rc_checkpoints r)" and "distinct (map fst m)"
    and "fst ` set m \<subseteq> fst ` set (rc_racers r)" and "\<And>q. q \<in> fst ` set m \<Longrightarrow> cp_of r q = 0"
  shows "\<exists>cs. forEach m (\<lambda>(q, _). andthen (onW (native (SendClientMessage q COLOR_WARN s)))
      (andthen (PlayerReachCheckpoint q) (onW (native (TogglePlayerControllable q True))))) (r, w)
    = (Inr (), (start_racers (map fst m) r, w\<lparr>out := cs @ out w\<rparr>)) \<and> noted cs = []"
  using assms
proof (induction m arbitrary: r w)
  case Nil
  show ?case by (intro exI [of _ "[]"]) (simp add: ret_def start_racers_def)
next
  case (Cons x m)
  obtain q j where x: "x = (q, j)" by fastforce
  obtain i where i: "map_of (rc_racers r) q = Some i" using Cons.prems(4) x by (auto simp: mem_racers)
  then have cp: "ri_currentcp i = 0" using Cons.prems(5) [of q] x by (simp add: cp_of_def)
  let ?w = "w\<lparr>out := [TogglePlayerControllable q True, shown_checkpoint r q 1, SendClientMessage q COLOR_WARN s] @ out w\<rparr>"
  have reach: "PlayerReachCheckpoint q (r, w') = (Inr (), (advance q r, w'\<lparr>out := shown_checkpoint r q 1 # out w'\<rparr>))" for w'
    using reach_eval [OF Cons.prems(1) i] cp Cons.prems(2) by simp
  have "cp_of (advance q r) q' = 0" if "q' \<in> fst ` set m" for q'
    using Cons.prems(3,5) that x cp_of_advance [OF i, of q'] by auto
  with Cons.prems Cons.IH [of "advance q r" ?w] obtain cs where
    "forEach m (\<lambda>(q, _). andthen (onW (native (SendClientMessage q COLOR_WARN s)))
      (andthen (PlayerReachCheckpoint q) (onW (native (TogglePlayerControllable q True))))) (advance q r, ?w)
     = (Inr (), (start_racers (map fst m) (advance q r), ?w\<lparr>out := cs @ out ?w\<rparr>))" "noted cs = []"
    by (auto simp: x)
  then show ?case
    by (intro exI [of _ "cs @ [TogglePlayerControllable q True, shown_checkpoint r q 1, SendClientMessage q COLOR_WARN s]"])
      (simp add: x andthen_def seq_def onW_apply native_def modify_def reach start_racers_Cons)
qed

lemma distinct_setMember: "distinct (map fst m) \<Longrightarrow> distinct (map fst (setMember k v m))"
  by (simp add: setMember_def)

lemma running_intro:
  assumes "map_of (races w) k = Some r" "distinct (map fst (races w))" "rc_starter r = k" "rc_state r = IN_PROGRESS"
    "rc_countdowntimerid r = 0" "rc_waitingplayer r = int (card (unfinished r))"
    "\<And>q. q \<in> fst ` set (rc_racers r) \<Longrightarrow> \<exists>p. map_of (profiles w) q = Some p \<and> map_of (p_pvars p) ''race_joined'' = Some (PVInt k)"
  shows "running k r w"
  using assms unfolding running_def by blast

lemma tick_start:
  assumes "counting k h 0 r w"
  shows "\<exists>w' r' cs. handle (Timer h) w = (Inr (), w') \<and> running k r' w' \<and> rc_start r' = now (env w) \<and> rank_now r' = 1
    \<and> fst ` set (rc_racers r') = fst ` set (rc_racers r) \<and> rc_checkpoints r' = rc_checkpoints r
    \<and> unfinished r' = fst ` set (rc_racers r) \<and> (\<forall>q \<in> fst ` set (rc_racers r). cp_of r' q = 1) \<and> out w' = cs @ out w \<and> noted cs = []"
proof -
  have e: "entered k r w" and r: "rc_state r = READY" "rc_countdown r = 0" "rc_countdowntimerid r = h" "h \<noteq> 0"
    using assms by (auto simp: counting_def)
  note k = enteredD [OF e]
  obtain t where t: "map_of (timers w) h = Some t" "tm_callback t = TRaceCountDown k" "tm_repeat t"
    using assms by (auto simp: counting_def)
  let ?r = "r\<lparr>rc_countdowntimerid := 0, rc_state := IN_PROGRESS\<rparr>" and ?m = "rc_racers r"
  let ?w = "w\<lparr>timers := AList.delete h (setMember h (t\<lparr>tm_fired := True\<rparr>) (timers w))\<rparr>"
  have cps: "cp_of ?r q = 0" for q using k(6) [of q] by (simp add: cp_of_def)
  obtain cs where cs: "forEach ?m (\<lambda>(q, _). andthen (onW (native (SendClientMessage q COLOR_WARN txt_race_starts)))
      (andthen (PlayerReachCheckpoint q) (onW (native (TogglePlayerControllable q True))))) (?r, ?w)
    = (Inr (), (start_racers (map fst ?m) ?r, ?w\<lparr>out := cs @ out ?w\<rparr>))" "noted cs = []"
    using racers_start [of ?r ?m txt_race_starts ?w] k(4,5) cps by auto
  let ?r' = "(start_racers (map fst ?m) ?r)\<lparr>rc_start := now (env w), rc_waitingplayer := int (length ?m)\<rparr>"
  let ?w' = "?w\<lparr>out := cs @ out w, races := setMember k ?r' (races w)\<rparr>"
  have "handle (Timer h) w = (Inr (), ?w')"
    using fire_countdown [OF t k(1)] k(1) r cs(1)
    by (cases r) (simp add: inRace_def CountDown_def Start_def racersDo_def race_def modRace_def prog_defs IsExist_def onW_apply
        DestroyTimer_def Remove_def)
  moreover have cp1: "cp_of ?r' q = (if q \<in> fst ` set ?m then 1 else 0)" for q
    using cp_of_start [of "map fst ?m" ?r q] k(5) cps by (simp add: cp_of_def)
  moreover have un: "unfinished ?r' = fst ` set ?m" using cp1 k(4) by (auto simp: unfinished_def)
  moreover have "card (fst ` set ?m) = length ?m" using k(5) by (metis distinct_card length_map list.set_map)
  moreover have "running k ?r' ?w'"
    using running_intro [of ?w' k ?r'] k un \<open>card (fst ` set ?m) = length ?m\<close> by (simp add: distinct_setMember)
  ultimately show ?thesis using cs(2)
    by (intro exI [of _ ?w'] exI [of _ ?r'] exI [of _ cs]) (simp add: rank_now_def)
qed

lemma ticks_Cons: "ticks h (e # es) w = andthen (handle (Timer h)) (ticks h es) (w\<lparr>env := e\<rparr>)"
  by (simp add: ticks_def andthen_def seq_def modify_def)

lemma ticks_one: "ticks h [e] w = handle (Timer h) (w\<lparr>env := e\<rparr>)"
  by (simp add: ticks_def andthen_def seq_def ret_def modify_def split: sum.splits prod.splits)

lemma countdown_run:
  assumes "counting k h (int n) r w" and "length es = Suc n"
  shows "\<exists>w' r' cs. ticks h es w = (Inr (), w') \<and> running k r' w' \<and> rc_start r' = now (last es) \<and> rank_now r' = 1
    \<and> fst ` set (rc_racers r') = fst ` set (rc_racers r) \<and> rc_checkpoints r' = rc_checkpoints r
    \<and> unfinished r' = fst ` set (rc_racers r) \<and> (\<forall>q \<in> fst ` set (rc_racers r). cp_of r' q = 1) \<and> out w' = cs @ out w \<and> noted cs = []"
  using assms
proof (induction n arbitrary: r w es)
  case 0
  then obtain e where "es = [e]" by (cases es) auto
  moreover have "counting k h 0 r (w\<lparr>env := e\<rparr>)" using 0 by simp
  ultimately show ?case using tick_start [of k h r "w\<lparr>env := e\<rparr>"]
    by (simp add: ticks_one)
next
  case (Suc n)
  then obtain e es' where es: "es = e # es'" "length es' = Suc n" by (cases es) auto
  have "counting k h (int (Suc n)) r (w\<lparr>env := e\<rparr>)" using Suc.prems(1) by simp
  from tick_down [OF this] obtain w1 cs1 where w1: "handle (Timer h) (w\<lparr>env := e\<rparr>) = (Inr (), w1)"
    "counting k h (int n) (r\<lparr>rc_countdown := int n\<rparr>) w1" "out w1 = cs1 @ out w" "noted cs1 = []" by auto
  from Suc.IH [OF w1(2) es(2)] obtain w' r' cs where "ticks h es' w1 = (Inr (), w')" "running k r' w'" "rc_start r' = now (last es')"
    "rank_now r' = 1" "fst ` set (rc_racers r') = fst ` set (rc_racers r)" "rc_checkpoints r' = rc_checkpoints r"
    "unfinished r' = fst ` set (rc_racers r)" "\<forall>q \<in> fst ` set (rc_racers r). cp_of r' q = 1" "out w' = cs @ out w1" "noted cs = []"
    by auto
  then show ?case using w1 es
    by (intro exI [of _ w'] exI [of _ r'] exI [of _ "cs @ cs1"]) (auto simp: ticks_Cons andthen_def seq_def)
qed

lemma racers_ready:
  "\<exists>cs. forEach m (\<lambda>(q, _). andthen (onW (native (SendClientMessage q COLOR_WARN s))) (onW (native (TogglePlayerControllable q False)))) (r, w)
    = (Inr (), (r, w\<lparr>out := cs @ out w\<rparr>)) \<and> noted cs = []"
proof (induction m arbitrary: w)
  case Nil
  show ?case by (intro exI [of _ "[]"]) (simp add: ret_def)
next
  case (Cons x m)
  obtain q j where x: "x = (q, j)" by fastforce
  let ?cs = "[TogglePlayerControllable q False, SendClientMessage q COLOR_WARN s]"
  from Cons.IH [of "w\<lparr>out := ?cs @ out w\<rparr>"] obtain cs where
    "forEach m (\<lambda>(q, _). andthen (onW (native (SendClientMessage q COLOR_WARN s))) (onW (native (TogglePlayerControllable q False))))
       (r, w\<lparr>out := ?cs @ out w\<rparr>) = (Inr (), (r, w\<lparr>out := cs @ ?cs @ out w\<rparr>))" "noted cs = []" by auto
  then show ?case by (intro exI [of _ "cs @ ?cs"]) (simp add: x andthen_def seq_def onW_apply native_def modify_def)
qed

lemma Ready_spec:
  assumes "entered k r w" and "rc_state r = JOINING" and "map_of (timers w) (next_timer w) = None" and "next_timer w \<noteq> 0"
  shows "\<exists>w' cs. inRace k Ready w = (Inr (), w')
    \<and> counting k (next_timer w) (rc_countdown r) (r\<lparr>rc_countdowntimerid := next_timer w, rc_state := READY\<rparr>) w'
    \<and> out w' = cs @ out w \<and> noted cs = []"
proof -
  let ?r = "r\<lparr>rc_countdowntimerid := next_timer w, rc_state := READY\<rparr>"
  obtain cs where cs: "forEach (rc_racers r) (\<lambda>(q, _). andthen (onW (native (SendClientMessage q COLOR_WARN txt_countdown_starts)))
      (onW (native (TogglePlayerControllable q False)))) (r, w) = (Inr (), (r, w\<lparr>out := cs @ out w\<rparr>))" "noted cs = []"
    using racers_ready by blast
  note k = enteredD [OF assms(1)]
  let ?t = "\<lparr>tm_callback = TRaceCountDown k, tm_period = 1000, tm_repeat = True, tm_fired = False\<rparr>"
  let ?w = "w\<lparr>out := cs @ out w, timers := timers w @ [(next_timer w, ?t)], next_timer := next_timer w + 1, races := setMember k ?r (races w)\<rparr>"
  have "inRace k Ready w = (Inr (), ?w)"
    using k(1,3) assms(2) cs(1)
    by (simp add: inRace_def Ready_def racersDo_def race_def modRace_def prog_defs IsExist_def onW_apply CreateTimer_def)
  moreover have "entered k ?r ?w" by (rule entered_same [OF assms(1)]) simp_all
  ultimately show ?thesis using assms(3,4) cs(2)
    by (intro exI [of _ ?w] exI [of _ cs]) (simp add: counting_def map_add_def)
qed

text \<open>C4. From the command that closes the entries: the timer counts down in six ticks and starts the race, and once every racer has passed all
  checkpoints, in any interleaving and at any times, the race is over: it has left the manager, all racers are free for
  another race, and they were notified in the order of their last checkpoints with ranks 1, 2, ... and their times.\<close>

theorem race_ends_with_results:
  assumes "entered k r w" and "rc_state r = JOINING" and "rc_countdown r = 5" and "rc_racers r \<noteq> []"
    and "map_of (timers w) (next_timer w) = None" and "next_timer w \<noteq> 0" and "length ts = 6"
    and "snd ` set es \<subseteq> fst ` set (rc_racers r)"
    and "\<forall>q \<in> fst ` set (rc_racers r). count_list (map snd es) q = length (rc_checkpoints r) - 1"
  shows "\<exists>w' cs. andthen (inRace k Ready) (andthen (ticks (next_timer w) ts) (raceEvents es)) w = (Inr (), w')
    \<and> \<not> IsExist k (races w') \<and> free_racers r w'
    \<and> out w' = cs @ out w \<and> noted cs = results (now (last ts)) 1 (finishers es)"
proof -
  let ?r = "r\<lparr>rc_countdowntimerid := next_timer w, rc_state := READY\<rparr>"
  obtain w1 cs1 where w1: "inRace k Ready w = (Inr (), w1)" "counting k (next_timer w) (int 5) ?r w1" "out w1 = cs1 @ out w" "noted cs1 = []"
    using Ready_spec [OF assms(1,2,5,6)] assms(3) by auto
  obtain w2 r2 cs2 where w2: "ticks (next_timer w) ts w1 = (Inr (), w2)" "running k r2 w2" "rc_start r2 = now (last ts)" "rank_now r2 = 1"
    "fst ` set (rc_racers r2) = fst ` set (rc_racers r)" "rc_checkpoints r2 = rc_checkpoints r" "unfinished r2 = fst ` set (rc_racers r)"
    "\<forall>q \<in> fst ` set (rc_racers r). cp_of r2 q = 1" "out w2 = cs2 @ out w1" "noted cs2 = []"
    using countdown_run [OF w1(2), of ts] assms(7) by auto
  have count: "int (count_list (map snd es) q) = int (length (rc_checkpoints r2)) - cp_of r2 q" if "q \<in> unfinished r2" for q
  proof -
    have "q \<in> fst ` set (rc_racers r)" using that w2(7) by simp
    then have "count_list (map snd es) q = length (rc_checkpoints r) - 1" "cp_of r2 q = 1" using assms(9) w2(8) by blast+
    then show ?thesis using w2(6) enteredD(4) [OF assms(1)] by (simp add: of_nat_diff)
  qed
  have "unfinished r2 \<noteq> {}" "snd ` set es \<subseteq> unfinished r2" using assms(4,8) w2(7) by auto
  from race_run [OF w2(2) this count] obtain w' cs where "raceEvents es w2 = (Inr (), w')" "\<not> IsExist k (races w')" "free_racers r2 w'"
    "out w' = cs @ out w2" "noted cs = results (now (last ts)) 1 (finishers es)"
    unfolding w2(3,4) by blast
  then show ?thesis using w1 w2
    by (intro exI [of _ w'] exI [of _ "cs @ cs2 @ cs1"]) (simp add: andthen_def seq_def free_racers_def)
qed


definition demo_race :: racing where
  "demo_race = (new_racing (saveable_new ''racing''))\<lparr>rc_state := JOINING, rc_starter := 1, rc_checkpoints := [point3 0 0 0, point3 1 1 1],
     rc_racers := [(1, \<lparr>ri_currentcp = 0, ri_usedtime = 0, ri_sessionrank = 0\<rparr>), (2, \<lparr>ri_currentcp = 0, ri_usedtime = 0, ri_sessionrank = 0\<rparr>)]\<rparr>"

definition demo_grid :: world where
  "demo_grid = demo_world\<lparr>races := [(1, demo_race)],
     profiles := map (\<lambda>q. (q, (new_profile q (saveable_new ''profile''))\<lparr>p_pvars := [(''race_joined'', PVInt 1)]\<rparr>)) [1, 2]\<rparr>"

lemma demo_entered: "entered 1 demo_race demo_grid"
  by (simp add: entered_def demo_grid_def demo_race_def cp_of_def new_racing_def racing.defs saveable.defs new_profile_def profile.defs)

theorem race_ends_with_results_witness:
  "\<exists>w' cs. andthen (inRace 1 Ready) (andthen (ticks 1 (replicate 6 demo_env)) (raceEvents [(demo_env, 2), (demo_env, 1)])) demo_grid = (Inr (), w')
    \<and> \<not> IsExist 1 (races w') \<and> free_racers demo_race w'
    \<and> out w' = cs @ out demo_grid \<and> noted cs = results (now (last (replicate 6 demo_env))) 1 (finishers [(demo_env, 2), (demo_env, 1)])"
  using race_ends_with_results [of 1 demo_race demo_grid "replicate 6 demo_env" "[(demo_env, 2), (demo_env, 1)]"] demo_entered
  by (simp add: demo_grid_def demo_race_def new_racing_def racing.defs saveable.defs)

lemma sum_less:
  assumes "finite A" and "q \<in> A" and "(f q :: nat) < g q" and "\<And>x. x \<in> A \<Longrightarrow> x \<noteq> q \<Longrightarrow> f x = g x"
  shows "sum f A < sum g A"
  using assms by (intro sum_strict_mono_ex1) (auto simp: order_le_less)

text \<open>How many checkpoints are still to be reached, over all racers.\<close>

definition outstanding :: "racing \<Rightarrow> nat" where
  "outstanding r = (\<Sum>q \<in> unfinished r. nat (int (length (rc_checkpoints r)) - cp_of r q))"

text \<open>C21. A race makes progress: a checkpoint event of a racer who is still racing never fails, and it ends the race or leaves
  it running with strictly fewer checkpoints outstanding, so a race is over after at most that many events.\<close>

theorem race_progress:
  assumes "running k r w" and "q \<in> unfinished r" and "handle (RaceCheckpoint q) w = (x, w')"
  shows "x = Inr () \<and> (\<not> IsExist k (races w') \<or> (\<exists>r'. running k r' w' \<and> outstanding r' < outstanding r))"
proof -
  obtain i where i: "map_of (rc_racers r) q = Some i" and less: "cp_of r q < int (length (rc_checkpoints r))"
    using running_racer [OF assms(1,2)] by metis
  consider "cp_of r q + 1 < int (length (rc_checkpoints r))" | "cp_of r q + 1 = int (length (rc_checkpoints r))" "unfinished r = {q}"
    | "cp_of r q + 1 = int (length (rc_checkpoints r))" "unfinished r \<noteq> {q}" using less by linarith
  then show ?thesis
  proof cases
    case 1
    obtain w1 where w1: "handle (RaceCheckpoint q) w = (Inr (), w1)" "running k (advance q r) w1" "unfinished (advance q r) = unfinished r"
      using event_advance [OF assms(1,2) 1] by auto
    have "outstanding (advance q r) < outstanding r"
      unfolding outstanding_def w1(3) by (rule sum_less [OF _ assms(2)]) (use less in \<open>simp_all add: cp_of_advance [OF i]\<close>)
    then show ?thesis using w1 assms(3) by auto
  next
    case 2
    then show ?thesis using event_last [OF assms(1) 2(2,1)] assms(3) by auto
  next
    case 3
    obtain w1 where w1: "handle (RaceCheckpoint q) w = (Inr (), w1)" "running k (finish_racer q (now (env w)) r) w1"
      using event_finish [OF assms(1,2) 3] by auto
    have "outstanding (finish_racer q (now (env w)) r) < outstanding r"
      unfolding outstanding_def unfinished_finish [OF i 3(1)] using less
      by (simp add: sum.remove [OF finite_unfinished assms(2)] cp_of_finish [OF i])
    then show ?thesis using w1 assms(3) by auto
  qed
qed


definition demo_running :: racing where
  "demo_running = demo_race\<lparr>rc_state := IN_PROGRESS, rc_waitingplayer := 2,
     rc_racers := [(1, \<lparr>ri_currentcp = 1, ri_usedtime = 0, ri_sessionrank = 0\<rparr>), (2, \<lparr>ri_currentcp = 1, ri_usedtime = 0, ri_sessionrank = 0\<rparr>)]\<rparr>"

lemma demo_is_running: "running 1 demo_running (demo_grid\<lparr>races := [(1, demo_running)]\<rparr>)" and demo_unfinished: "unfinished demo_running = {1, 2}"
proof -
  show u: "unfinished demo_running = {1, 2}"
    by (auto simp: unfinished_def cp_of_def demo_running_def demo_race_def new_racing_def racing.defs saveable.defs)
  show "running 1 demo_running (demo_grid\<lparr>races := [(1, demo_running)]\<rparr>)"
    by (simp add: running_def u) (simp add: demo_running_def demo_grid_def demo_race_def new_racing_def racing.defs saveable.defs
        new_profile_def profile.defs)
qed

theorem race_progress_witness:
  "\<exists>x w'. handle (RaceCheckpoint 2) (demo_grid\<lparr>races := [(1, demo_running)]\<rparr>) = (x, w')
    \<and> x = Inr () \<and> (\<not> IsExist 1 (races w') \<or> (\<exists>r'. running 1 r' w' \<and> outstanding r' < outstanding demo_running))"
  using race_progress [OF demo_is_running, of 2] demo_unfinished by (metis insertCI prod.exhaust)

end
