(* ===== verification/GangZone_Correct.thy ===== *)
theory GangZone_Correct
  imports Callbacks
begin

text \<open>
  Turf wars: the operations on gang zones implement a small state machine (a zone is at peace, or at war with two
  counters), and the two timers of a war bring it to its end.
\<close>

section \<open>Wars as a state machine\<close>

text \<open>The abstract zone: its owner, and in a war the attacker, the attackers killed by the owner's team and the members
  of the owner's team who died.\<close>

datatype azone = Peace oid | War oid oid int int

fun a_start :: "oid \<Rightarrow> azone \<Rightarrow> azone \<times> bool" where
  "a_start team (Peace owner) = (if team = owner then (Peace owner, False) else (War owner team 0 0, True))"
| "a_start team z = (z, False)"

fun a_kill :: "azone \<Rightarrow> azone" where
  "a_kill (War owner attacker kills deaths) = War owner attacker (kills + 1) deaths"
| "a_kill z = z"

fun a_death :: "azone \<Rightarrow> azone" where
  "a_death (War owner attacker kills deaths) = War owner attacker kills (deaths + 1)"
| "a_death z = z"

fun a_end :: "bool \<Rightarrow> azone \<Rightarrow> azone \<times> bool" where
  "a_end timeout (War owner attacker kills deaths) =
     (if timeout \<or> kills < deaths then (Peace attacker, True) else (Peace owner, False))"
| "a_end timeout z = (z, False)"

definition abs_zone :: "gangzone \<Rightarrow> azone" where
  "abs_zone z = (let i = z_warinfo z in
     if wi_InWar i then War (z_owner z) (wi_Attacker i) (wi_EnemyKill i) (wi_MemberDeath i) else Peace (z_owner z))"

definition abs_zones :: "world \<Rightarrow> int \<rightharpoonup> azone" where
  "abs_zones w = map_option abs_zone \<circ> map_of (zones w)"

text \<open>Outside a war the counters are zero, so that a war starts from zero.\<close>

definition calm :: "world \<Rightarrow> bool" where
  "calm w \<longleftrightarrow> (\<forall>k z. map_of (zones w) k = Some z \<longrightarrow> \<not> wi_InWar (z_warinfo z) \<longrightarrow>
     wi_EnemyKill (z_warinfo z) = 0 \<and> wi_MemberDeath (z_warinfo z) = 0)"

text \<open>What a program that only reads, or writes other things, keeps.\<close>

definition zones_are :: "(int \<times> gangzone) list \<Rightarrow> world \<Rightarrow> bool" where
  "zones_are zs w \<longleftrightarrow> zones w = zs"

lemma keeps_readMember [keeps_intros]: "keeps P (readMember g k f)"
  by (simp add: keeps_def readMember_def split: option.split)

lemma keeps_getRef [keeps_intros]: "keeps P (getRef g k)"
  by (simp add: keeps_def getRef_def split: sum.split)

lemma keeps_config [keeps_intros]: "keeps P (config c p)"
  by (simp add: keeps_def config_def split: option.split)

lemma keeps_ask [keeps_intros]: "keeps P (ask f)"
  by (simp add: ask_def keeps_gets)

lemma keeps_codec [keeps_intros]: "keeps P (codec f s)"
  by (simp add: codec_def keeps_gets)

lemma keeps_GetTeamId [keeps_intros]: "keeps P (GetTeamId q)"
  by (simp add: GetTeamId_def keeps_readMember)

lemma keeps_TeamMgr_get [keeps_intros]: "keeps P (TeamMgr_get u)"
  unfolding TeamMgr_get_def by (intro keeps_intros)

lemma keeps_teamName [keeps_intros]: "keeps P (teamName u)"
  unfolding teamName_def by (intro keeps_intros)

lemma keeps_zoneSearch [keeps_intros]: "keeps P (zoneSearch zs p)"
  by (induction zs) (auto intro!: keeps_intros)

lemma keeps_memberInZone [keeps_intros]: "keeps P (memberInZone ms z)"
  by (induction ms) (auto intro!: keeps_intros simp: GetPos_def GetPointInWhichZone_def)

definition zone_view :: "(world \<Rightarrow> bool) \<Rightarrow> bool" where
  "zone_view P \<longleftrightarrow> (\<forall>w w'. zones w' = zones w \<longrightarrow> P w' = P w)"

lemma zone_view_keepsI:
  assumes "zone_view P" and "\<And>w. zones (snd (m w)) = zones w"
  shows "keeps P m"
  using assms unfolding keeps_def zone_view_def by metis

lemma zones_kept:
  "zones (snd (native n w)) = zones w" "zones (snd (PushMessage s w)) = zones w" "zones (snd (CreateTimer cb t b w)) = zones w"
  "zones (snd (DestroyTimer h w)) = zones w"
  by (simp_all add: native_def modify_def PushMessage_def CreateTimer_def DestroyTimer_def)

lemma zone_view_keeps:
  assumes "zone_view P"
  shows "keeps P (native n)" "keeps P (PushMessage s)" "keeps P (CreateTimer cb t b)" "keeps P (DestroyTimer h)" "keeps P (Redraw k)"
proof -
  show n: "keeps P (native n)" for n by (rule zone_view_keepsI [OF assms zones_kept(1)])
  show "keeps P (PushMessage s)" "keeps P (CreateTimer cb t b)" "keeps P (DestroyTimer h)"
    by (rule zone_view_keepsI [OF assms], rule zones_kept)+
  show "keeps P (Redraw k)" unfolding Redraw_def by (intro keeps_intros n)
qed

lemma zmod_hoare:
  assumes "\<And>w z. P w \<Longrightarrow> map_of (zones w) k = Some z \<Longrightarrow> Q (w\<lparr>zones := setMember k (f z) (zones w)\<rparr>)" and "\<And>w. P w \<Longrightarrow> E w"
  shows "hoare P (zmod k f) (\<lambda>_. Q) E"
  using assms by (auto simp: hoare_def modMember_def split: option.splits)

text \<open>The world as the abstract machine sees it; the second predicate also knows the attacker of a war about to start.\<close>

definition seen :: "(int \<rightharpoonup> azone) \<Rightarrow> world \<Rightarrow> bool" where
  "seen A w \<longleftrightarrow> calm w \<and> abs_zones w = A"

definition aiming :: "(int \<rightharpoonup> azone) \<Rightarrow> int \<Rightarrow> oid \<Rightarrow> oid \<Rightarrow> world \<Rightarrow> bool" where
  "aiming A k owner team w \<longleftrightarrow> seen A w \<and> (\<exists>z. map_of (zones w) k = Some z \<and> \<not> wi_InWar (z_warinfo z) \<and> z_owner z = owner
     \<and> wi_Attacker (z_warinfo z) = team)"

lemma views: "zone_view (seen A)" "zone_view (aiming A k u v)"
  by (simp_all add: zone_view_def seen_def aiming_def calm_def abs_zones_def)

lemma seen_change:
  assumes "seen A w" and "map_of (zones w) k = Some z" and "wi_InWar (z_warinfo z') \<or> wi_EnemyKill (z_warinfo z') = 0 \<and> wi_MemberDeath (z_warinfo z') = 0"
  shows "seen (A(k \<mapsto> abs_zone z')) (w\<lparr>zones := setMember k z' (zones w)\<rparr>)"
  using assms by (auto simp: seen_def calm_def abs_zones_def fun_eq_iff)

lemma seen_same:
  assumes "seen A w" and "map_of (zones w) k = Some z" and "z_warinfo z' = z_warinfo z" and "z_owner z' = z_owner z"
  shows "seen A (w\<lparr>zones := setMember k z' (zones w)\<rparr>)"
proof -
  have "abs_zone z' = abs_zone z" using assms(3,4) by (simp add: abs_zone_def Let_def)
  moreover have "A(k \<mapsto> abs_zone z) = A" using assms(1,2) by (auto simp: seen_def abs_zones_def)
  moreover have "wi_InWar (z_warinfo z') \<or> wi_EnemyKill (z_warinfo z') = 0 \<and> wi_MemberDeath (z_warinfo z') = 0"
    using assms(1-3) by (auto simp: seen_def calm_def)
  ultimately show ?thesis using seen_change [OF assms(1,2), of z'] by simp
qed

lemma seen_at: "seen A w \<Longrightarrow> map_of (zones w) k = Some z \<Longrightarrow> A(k \<mapsto> abs_zone z) = A"
  by (auto simp: seen_def abs_zones_def)

definition at_peace :: "(int \<rightharpoonup> azone) \<Rightarrow> int \<Rightarrow> oid \<Rightarrow> world \<Rightarrow> bool" where
  "at_peace A k owner w \<longleftrightarrow> seen A w \<and> (\<exists>z. map_of (zones w) k = Some z \<and> \<not> wi_InWar (z_warinfo z) \<and> z_owner z = owner)"

lemma view_at_peace: "zone_view (at_peace A k u)"
  unfolding zone_view_def
proof (intro allI impI)
  fix w w' :: world assume z: "zones w' = zones w"
  have "seen A w' = seen A w" using views(1) z unfolding zone_view_def by blast
  with z show "at_peace A k u w' = at_peace A k u w" by (simp add: at_peace_def)
qed

lemma keeps_PushMessage: "zone_view P \<Longrightarrow> keeps P (PushMessage s)" by (rule zone_view_keeps)
lemma keeps_CreateTimer: "zone_view P \<Longrightarrow> keeps P (CreateTimer cb t b)" by (rule zone_view_keeps)

lemma Redraw_hoare: "zone_view P \<Longrightarrow> hoare (\<lambda>w. P w \<and> map_of (zones w) k \<noteq> None) (Redraw k) (\<lambda>_. P) E"
proof -
  assume P: "zone_view P"
  have "\<exists>o'. Redraw k w = (Inr (), w\<lparr>out := o'\<rparr>)" if "map_of (zones w) k \<noteq> None" for w :: world
    using that by (auto simp: Redraw_def seq_def readMember_def native_def modify_def)
  moreover have "P (w\<lparr>out := o'\<rparr>) = P w" for w :: world and o' using P [unfolded zone_view_def, rule_format, of "w\<lparr>out := o'\<rparr>" w] by simp
  ultimately show ?thesis unfolding hoare_def by fastforce
qed

lemma aim_hoare:
  "hoare (at_peace A k u) (zonewar k (wi_Attacker_update (\<lambda>_. t))) (\<lambda>_. aiming A k u t) (seen A)"
  unfolding zonewar_def
proof (rule zmod_hoare)
  fix w z assume p: "at_peace A k u w" and z: "map_of (zones w) k = Some z"
  then have "seen (A(k \<mapsto> abs_zone (z_warinfo_update (wi_Attacker_update (\<lambda>_. t)) z)))
      (w\<lparr>zones := setMember k (z_warinfo_update (wi_Attacker_update (\<lambda>_. t)) z) (zones w)\<rparr>)"
    by (intro seen_change) (auto simp: at_peace_def seen_def calm_def)
  moreover have "abs_zone (z_warinfo_update (wi_Attacker_update (\<lambda>_. t)) z) = abs_zone z"
    using p z by (simp add: at_peace_def abs_zone_def Let_def)
  ultimately show "aiming A k u t (w\<lparr>zones := setMember k (z_warinfo_update (wi_Attacker_update (\<lambda>_. t)) z) (zones w)\<rparr>)"
    using p z seen_at [of A w k z] by (simp add: aiming_def at_peace_def)
qed (simp add: at_peace_def)

lemma begin_hoare:
  "hoare (aiming A k u t) (zonewar k (wi_InWar_update (\<lambda>_. True)))
    (\<lambda>_ w. seen (A(k \<mapsto> War u t 0 0)) w \<and> map_of (zones w) k \<noteq> None) (seen A)"
  unfolding zonewar_def
proof (rule zmod_hoare)
  fix w z assume p: "aiming A k u t w" and z: "map_of (zones w) k = Some z"
  then have "abs_zone (z_warinfo_update (wi_InWar_update (\<lambda>_. True)) z) = War u t 0 0"
    by (auto simp: aiming_def seen_def calm_def abs_zone_def Let_def)
  then show "seen (A(k \<mapsto> War u t 0 0)) (w\<lparr>zones := setMember k (z_warinfo_update (wi_InWar_update (\<lambda>_. True)) z) (zones w)\<rparr>)
      \<and> map_of (zones (w\<lparr>zones := setMember k (z_warinfo_update (wi_InWar_update (\<lambda>_. True)) z) (zones w)\<rparr>)) k \<noteq> None"
    using p z seen_change [of A w k z "z_warinfo_update (wi_InWar_update (\<lambda>_. True)) z"] by (simp add: aiming_def)
qed (simp add: aiming_def)

lemma keeps_aiming_zmod:
  assumes "\<And>z. z_warinfo (f z) = z_warinfo z" and "\<And>z. z_owner (f z) = z_owner z"
  shows "keeps (aiming A k u t) (zmod k f)"
  using assms seen_same [of A _ k _ "f _"] by (auto simp: keeps_def modMember_def aiming_def split: option.splits)

lemma StartWar_refines:
  assumes "map_of (zones w) k = Some z" and "map_of (profiles w) q = Some p" and "seen A w"
  shows "hoare (\<lambda>w'. w' = w) (StartWar k q) (\<lambda>b w'. seen (A(k \<mapsto> fst (a_start (p_team p) (abs_zone z)))) w' \<and> b = snd (a_start (p_team p) (abs_zone z))) (seen A)"
proof (cases "wi_InWar (z_warinfo z) \<or> p_team p = z_owner z")
  case True
  then have "StartWar k q w = (Inr False, w)"
    using assms by (auto simp: StartWar_def prog_defs world_eval GetTeamId_def)
  moreover have "a_start (p_team p) (abs_zone z) = (abs_zone z, False)"
    using True by (auto simp: abs_zone_def Let_def)
  ultimately show ?thesis using assms(3) seen_at [OF assms(3,1)] by (simp add: hoare_def)
next
  case False
  then have a: "a_start (p_team p) (abs_zone z) = (War (z_owner z) (p_team p) 0 0, True)"
    by (simp add: abs_zone_def Let_def)
  let ?rest = "seq (teamName (p_team p)) (\<lambda>n.
         andthen (PushMessage (n @ '' has started a turfwar''))
        (andthen (zonewar k (wi_Attacker_update (\<lambda>_. p_team p)))
        (seq (config cfg_int ''Gaming.turfwarlast'') (\<lambda>m.
         seq (CreateTimer (TEndTurfWar (z_this z)) (m * 60000) False) (\<lambda>t.
         andthen (zmod k (z_endtimerid_update (\<lambda>_. t)))
        (seq (TeamMgr_get (z_owner z)) (\<lambda>ok. seq (tget ok t_onlineplayers) (\<lambda>members.
         seq (memberInZone members (z_zone z)) (\<lambda>inzone.
         andthen (if inzone then ret () else
           seq (config cfg_int ''Gaming.turfwartimeout'') (\<lambda>m.
           seq (CreateTimer (TTurfWarWaitTimeout (z_this z)) (m * 60000) False) (\<lambda>t.
             zmod k (z_timeouttimerid_update (\<lambda>_. t)))))
        (andthen (zonewar k (wi_InWar_update (\<lambda>_. True))) (andthen (Redraw k) (ret True))))))))))))"
  have "StartWar k q w = ?rest w"
    using assms(1,2) False by (simp add: StartWar_def seq_def world_eval GetTeamId_def)
  moreover have "at_peace A k (z_owner z) w" using assms(1,3) False by (simp add: at_peace_def)
  moreover have "hoare (at_peace A k (z_owner z)) ?rest (\<lambda>b w'. seen (A(k \<mapsto> War (z_owner z) (p_team p) 0 0)) w' \<and> b = True) (seen A)"
  proof -
    have weak: "\<And>w. at_peace A k u w \<Longrightarrow> seen A w" "\<And>w. aiming A k u t w \<Longrightarrow> seen A w" for u t
      by (simp_all add: at_peace_def aiming_def)
    note peace = hoare_seq_keep [OF _ weak(1)] hoare_andthen_keep [OF _ weak(1)]
    note aim = hoare_seq_keep [OF _ weak(2)] hoare_andthen_keep [OF _ weak(2)]
    have "hoare (aiming A k (z_owner z) (p_team p)) (andthen (zonewar k (wi_InWar_update (\<lambda>_. True))) (andthen (Redraw k) (ret True)))
        (\<lambda>b w'. seen (A(k \<mapsto> War (z_owner z) (p_team p) 0 0)) w' \<and> b = True) (seen A)"
      by (intro hoare_andthen [OF begin_hoare] hoare_andthen [OF Redraw_hoare [OF views(1)]] hoare_ret) simp
    note final = this
    show ?thesis
      apply (rule peace(1), rule keeps_intros, assumption)
      apply (rule peace(2), rule keeps_PushMessage, rule view_at_peace, assumption)
      apply (rule hoare_andthen [OF aim_hoare])
      apply (rule aim(1), rule keeps_intros, assumption)
      apply (rule aim(1), rule keeps_CreateTimer, rule views, assumption)
      apply (rule aim(2), rule keeps_aiming_zmod, simp, simp, assumption)
      apply (rule aim(1), rule keeps_intros, assumption)
      apply (rule aim(1), rule keeps_intros, assumption)
      apply (rule aim(1), rule keeps_intros, assumption)
      apply (rule aim(2), intro keeps_intros keeps_CreateTimer views keeps_aiming_zmod, simp, simp, assumption)
      apply (rule final)
      done
  qed
  ultimately show ?thesis unfolding a fst_conv snd_conv by (auto simp: hoare_def)
qed

definition fighting :: "(int \<rightharpoonup> azone) \<Rightarrow> int \<Rightarrow> oid \<Rightarrow> TurfWarInfo \<Rightarrow> world \<Rightarrow> bool" where
  "fighting A k owner i w \<longleftrightarrow> seen A w \<and> (\<exists>z. map_of (zones w) k = Some z \<and> z_warinfo z = i \<and> z_owner z = owner)"

definition closing :: "(int \<rightharpoonup> azone) \<Rightarrow> int \<Rightarrow> oid \<Rightarrow> TurfWarInfo \<Rightarrow> world \<Rightarrow> bool" where
  "closing A k owner i w \<longleftrightarrow> calm w \<and> (abs_zones w)(k := None) = A(k := None)
     \<and> (\<exists>z. map_of (zones w) k = Some z \<and> z_warinfo z = i \<and> z_owner z = owner)"

lemma view_fighting: "zone_view (fighting A k u i)"
  unfolding zone_view_def
proof (intro allI impI)
  fix w w' :: world assume z: "zones w' = zones w"
  have "seen A w' = seen A w" using views(1) z unfolding zone_view_def by blast
  with z show "fighting A k u i w' = fighting A k u i w" by (simp add: fighting_def)
qed

lemma fighting_closing: "fighting A k u i w \<Longrightarrow> closing A k u i w"
  by (auto simp: fighting_def closing_def seen_def)

lemma keeps_zone_Update: "keeps (fighting A k u i) (onZone k (Update m False))"
proof (rule keepsI)
  fix w assume f: "fighting A k u i w"
  then obtain z where z: "map_of (zones w) k = Some z" by (auto simp: fighting_def)
  obtain r w' where u: "onZone k (Update m False) w = (r, w')" by fastforce
  obtain d where w': "w' = w\<lparr>db := d, zones := setMember k z (zones w)\<rparr>"
    using onMember_Update [OF u z] by auto
  have "map_of (zones w') = map_of (zones w)" using z by (auto simp: w' fun_eq_iff)
  then have "fighting A k u i w'" using f by (simp add: fighting_def seen_def calm_def abs_zones_def)
  then show "fighting A k u i (snd (onZone k (Update m False) w))" by (simp add: u)
qed

lemma SetOwner_hoare:
  assumes "wi_InWar i"
  shows "hoare (fighting A k u i) (SetOwner k v) (\<lambda>_. closing A k v i) (seen A)"
  unfolding SetOwner_def
proof (rule hoare_andthen_keep [OF keeps_zone_Update])
  show "hoare (fighting A k u i) (zmod k (z_owner_update (\<lambda>_. v))) (\<lambda>_. closing A k v i) (seen A)"
    using assms by (intro zmod_hoare) (auto simp: fighting_def closing_def seen_def calm_def abs_zones_def fun_eq_iff)
qed (simp add: fighting_def)

definition after_war :: "TurfWarInfo \<Rightarrow> TurfWarInfo" where
  "after_war i = i\<lparr>wi_EnemyKill := 0, wi_MemberDeath := 0, wi_Attacker := oid_clear, wi_InWar := False\<rparr>"

lemma zmod_hoare_known:
  assumes "\<And>w. P w \<Longrightarrow> \<exists>z. map_of (zones w) k = Some z \<and> Q (w\<lparr>zones := setMember k (f z) (zones w)\<rparr>)"
  shows "hoare P (zmod k f) (\<lambda>_. Q) E"
  using assms by (fastforce simp: hoare_def modMember_def split: option.splits)

lemma close_hoare:
  "hoare (\<lambda>w. closing A k u i w \<and> won = c) (andthen (zonewar k after_war) (andthen (Redraw k) (ret won)))
    (\<lambda>b w. seen (A(k \<mapsto> Peace u)) w \<and> b = c) E"
proof -
  have "hoare (closing A k u i) (zonewar k after_war) (\<lambda>_ w. seen (A(k \<mapsto> Peace u)) w \<and> map_of (zones w) k \<noteq> None) E"
    unfolding zonewar_def
  proof (rule zmod_hoare_known)
    fix w assume c: "closing A k u i w"
    then obtain z where z: "map_of (zones w) k = Some z" "z_owner z = u" by (auto simp: closing_def)
    let ?z = "z_warinfo_update after_war z" and ?w = "w\<lparr>zones := setMember k (z_warinfo_update after_war z) (zones w)\<rparr>"
    have "abs_zones ?w = (abs_zones w)(k \<mapsto> Peace u)"
      using z(2) by (auto simp: abs_zones_def fun_eq_iff abs_zone_def after_war_def)
    also have "\<dots> = A(k \<mapsto> Peace u)" using c unfolding closing_def by (metis fun_upd_upd)
    finally have "seen (A(k \<mapsto> Peace u)) ?w"
      using c by (auto simp: seen_def calm_def closing_def after_war_def)
    then show "\<exists>z. map_of (zones w) k = Some z \<and> seen (A(k \<mapsto> Peace u)) (w\<lparr>zones := setMember k (z_warinfo_update after_war z) (zones w)\<rparr>)
        \<and> map_of (zones (w\<lparr>zones := setMember k (z_warinfo_update after_war z) (zones w)\<rparr>)) k \<noteq> None" using z(1) by simp
  qed
  note reset = hoare_pre [OF this, of "\<lambda>w. closing A k u i w \<and> won = c"]
  show ?thesis
  proof (cases "won = c")
    case True
    show ?thesis
      by (rule hoare_andthen [OF reset], simp, rule hoare_andthen [OF Redraw_hoare [OF views(1)]], rule hoare_ret)
        (simp add: True)
  qed (simp add: hoare_def)
qed

lemma EndWar_refines:
  assumes "map_of (zones w) k = Some z" and "seen A w"
  shows "hoare (\<lambda>w'. w' = w) (EndWar k timeout)
    (\<lambda>b w'. seen (A(k \<mapsto> fst (a_end timeout (abs_zone z)))) w' \<and> b = snd (a_end timeout (abs_zone z))) (seen A)"
proof (cases "wi_InWar (z_warinfo z)")
  case False
  then have "EndWar k timeout w = (Inr False, w)" "a_end timeout (abs_zone z) = (abs_zone z, False)"
    using assms(1) by (simp_all add: EndWar_def prog_defs world_eval abs_zone_def)
  then show ?thesis using assms(2) seen_at [OF assms(2,1)] by (simp add: hoare_def)
next
  case True
  let ?i = "z_warinfo z" and ?u = "z_owner z"
  let ?lost = "timeout \<or> wi_EnemyKill ?i < wi_MemberDeath ?i"
  let ?rest = "andthen (whenP timeout (DestroyTimer (z_endtimerid z)))
     (seq (if ?lost then
             seq (teamName (wi_Attacker ?i)) (\<lambda>n. andthen (PushMessage (n @ '' has won the turfwar''))
               (andthen (SetOwner k (wi_Attacker ?i)) (ret True)))
           else seq (teamName ?u) (\<lambda>n. andthen (PushMessage (n @ '' has won the turfwar'')) (ret False)))
       (\<lambda>won. andthen (zonewar k after_war) (andthen (Redraw k) (ret won))))"
  have a: "a_end timeout (abs_zone z) = (if ?lost then (Peace (wi_Attacker ?i), True) else (Peace ?u, False))"
    using True by (simp add: abs_zone_def Let_def)
  have unfold: "EndWar k timeout w = ?rest w"
    using assms(1) True by (simp add: EndWar_def seq_def world_eval Let_def after_war_def [abs_def])
  have start: "fighting A k ?u ?i w" using assms by (simp add: fighting_def)
  have weak: "\<And>w. fighting A k u i w \<Longrightarrow> seen A w" for u i by (simp add: fighting_def)
  note keep = hoare_seq_keep [OF _ weak] hoare_andthen_keep [OF _ weak] keeps_intros zone_view_keeps [OF view_fighting]
  have first: "hoare (fighting A k ?u ?i) m Q (seen A) \<Longrightarrow>
      hoare (fighting A k ?u ?i) (andthen (whenP timeout (DestroyTimer (z_endtimerid z))) m) Q (seen A)" for m :: "bool wprog" and Q
    by (rule hoare_andthen_keep) (intro keeps_intros zone_view_keeps [OF view_fighting], simp_all add: weak)
  have "hoare (fighting A k ?u ?i) ?rest (\<lambda>b w'. seen (A(k \<mapsto> fst (a_end timeout (abs_zone z)))) w' \<and> b = snd (a_end timeout (abs_zone z))) (seen A)"
  proof (cases ?lost)
    case lost: True
    have "hoare (fighting A k ?u ?i) (seq (teamName (wi_Attacker ?i)) (\<lambda>n. andthen (PushMessage (n @ '' has won the turfwar''))
               (andthen (SetOwner k (wi_Attacker ?i)) (ret True)))) (\<lambda>b w. closing A k (wi_Attacker ?i) ?i w \<and> b = True) (seen A)"
      by (intro keep hoare_andthen [OF SetOwner_hoare [OF True]] hoare_ret) simp_all
    then show ?thesis unfolding a if_P [OF lost] fst_conv snd_conv
      by (rule first [OF hoare_seq [OF _ close_hoare]])
  next
    case False
    have "hoare (fighting A k ?u ?i) (seq (teamName ?u) (\<lambda>n. andthen (PushMessage (n @ '' has won the turfwar'')) (ret False)))
        (\<lambda>b w. closing A k ?u ?i w \<and> b = False) (seen A)"
      by (intro keep hoare_ret) (simp_all add: fighting_closing)
    then show ?thesis unfolding a if_not_P [OF False] fst_conv snd_conv
      by (rule first [OF hoare_seq [OF _ close_hoare]])
  qed
  then show ?thesis using start by (auto simp: hoare_def unfold)
qed

section \<open>Refinement\<close>

datatype war_op = OpStart playerid | OpKill | OpDeath | OpEnd bool | OpArrive

definition war_step :: "int \<Rightarrow> war_op \<Rightarrow> bool wprog" where
  "war_step k op = (case op of OpStart q \<Rightarrow> StartWar k q | OpKill \<Rightarrow> andthen (CountEnemyKill k) (ret False)
     | OpDeath \<Rightarrow> andthen (CountMemberDeath k) (ret False) | OpEnd timeout \<Rightarrow> EndWar k timeout
     | OpArrive \<Rightarrow> andthen (MemberArrived k) (ret False))"

fun a_step :: "(playerid \<Rightarrow> oid) \<Rightarrow> war_op \<Rightarrow> azone \<Rightarrow> azone \<times> bool" where
  "a_step team (OpStart q) z = a_start (team q) z"
| "a_step team OpKill z = (a_kill z, False)"
| "a_step team OpDeath z = (a_death z, False)"
| "a_step team (OpEnd timeout) z = a_end timeout z"
| "a_step team OpArrive z = (z, False)"

definition team_of :: "world \<Rightarrow> playerid \<Rightarrow> oid" where
  "team_of w q = (case map_of (profiles w) q of Some p \<Rightarrow> p_team p | None \<Rightarrow> oid_clear)"

lemma StartWar_stranger:
  assumes "map_of (zones w) k = Some z" and "map_of (profiles w) q = None" and "StartWar k q w = (r, w')"
  shows "w' = w \<and> (wi_InWar (z_warinfo z) \<and> r = Inr False \<or> r = Inl Undefined)"
  using assms by (auto simp: StartWar_def seq_def world_eval GetTeamId_def readMember_def ret_def split: if_splits)

lemma count_refines:
  assumes "map_of (zones w) k = Some z" and "seen A w"
    and "\<And>z. abs_zone (z_warinfo_update f z) = g (abs_zone z)"
    and "\<And>i. wi_InWar (f i) = wi_InWar i" and "\<And>i. \<not> wi_InWar i \<Longrightarrow> f i = i"
  shows "\<exists>w'. zonewar k f w = (Inr (), w') \<and> seen (A(k \<mapsto> g (abs_zone z))) w'"
proof -
  have "wi_InWar (f (z_warinfo z)) \<or> wi_EnemyKill (f (z_warinfo z)) = 0 \<and> wi_MemberDeath (f (z_warinfo z)) = 0"
  proof (cases "wi_InWar (z_warinfo z)")
    case True
    then show ?thesis by (simp only: assms(4) simp_thms)
  next
    case False
    moreover have "calm w" using assms(2) by (simp only: seen_def)
    ultimately show ?thesis using assms(1) unfolding assms(5) [OF False] calm_def by blast
  qed
  then have "seen (A(k \<mapsto> g (abs_zone z))) (w\<lparr>zones := setMember k (z_warinfo_update f z) (zones w)\<rparr>)"
    using seen_change [OF assms(2,1), of "z_warinfo_update f z"] unfolding assms(3) by simp
  then show ?thesis using assms(1) by (simp add: zonewar_def modMember_def)
qed

lemma abs_zone_counts:
  "abs_zone (z_warinfo_update (\<lambda>i. if wi_InWar i then i\<lparr>wi_EnemyKill := wi_EnemyKill i + 1\<rparr> else i) z) = a_kill (abs_zone z)"
  "abs_zone (z_warinfo_update (\<lambda>i. if wi_InWar i then i\<lparr>wi_MemberDeath := wi_MemberDeath i + 1\<rparr> else i) z) = a_death (abs_zone z)"
  by (simp_all add: abs_zone_def Let_def)

lemma counts_refine:
  assumes "map_of (zones w) k = Some z" and "seen A w"
  shows "\<exists>w'. CountEnemyKill k w = (Inr (), w') \<and> seen (A(k \<mapsto> a_kill (abs_zone z))) w'"
    and "\<exists>w'. CountMemberDeath k w = (Inr (), w') \<and> seen (A(k \<mapsto> a_death (abs_zone z))) w'"
  unfolding CountEnemyKill_def CountMemberDeath_def
  by (rule count_refines [OF assms abs_zone_counts(1)], simp_all) (rule count_refines [OF assms abs_zone_counts(2)], simp_all)

lemma MemberArrived_keeps: "keeps (seen A) (MemberArrived k)"
proof -
  have "keeps (seen A) (zmod k (z_timeouttimerid_update (\<lambda>_. 0)))"
    using seen_same [of A _ k _ "z_timeouttimerid_update (\<lambda>_. 0) _"] by (auto simp: keeps_def modMember_def split: option.splits)
  then show ?thesis unfolding MemberArrived_def by (intro keeps_intros zone_view_keeps [OF views(1)])
qed

text \<open>C3. Turf wars implement the abstract machine. Whatever operation runs on a zone, in any world: if it returns, the zone made the step
  of the machine and the answer is the machine's (a war starts only on another team's zone at peace, from zero; it ends with the
  attacker as owner exactly on a timeout or when more members died than attackers), and no other zone changed; if it throws,
  no zone changed as the machine sees it.\<close>

theorem turf_war_refines:
  assumes "calm w" and "map_of (zones w) k = Some z" and "war_step k op w = (r, w')"
  shows "calm w' \<and> (case r of
      Inr b \<Rightarrow> abs_zones w' = (abs_zones w)(k \<mapsto> fst (a_step (team_of w) op (abs_zone z))) \<and> b = snd (a_step (team_of w) op (abs_zone z))
    | Inl e \<Rightarrow> abs_zones w' = abs_zones w)"
proof -
  have s: "seen (abs_zones w) w" using assms(1) by (simp add: seen_def)
  have goal: "?thesis" if "case r of Inr b \<Rightarrow> seen ((abs_zones w)(k \<mapsto> fst (a_step (team_of w) op (abs_zone z)))) w'
      \<and> b = snd (a_step (team_of w) op (abs_zone z)) | Inl e \<Rightarrow> seen (abs_zones w) w'"
    using that by (auto simp: seen_def split: sum.splits)
  have same: "(abs_zones w)(k \<mapsto> abs_zone z) = abs_zones w" by (rule seen_at [OF s assms(2)])
  show ?thesis
  proof (cases op)
    case (OpStart q)
    then have run: "StartWar k q w = (r, w')" using assms(3) by (simp add: war_step_def)
    show ?thesis
    proof (cases "map_of (profiles w) q")
      case None
      with StartWar_stranger [OF assms(2) _ run] OpStart s same show ?thesis
        by (intro goal) (auto simp: abs_zone_def Let_def)
    next
      case (Some p)
      from StartWar_refines [OF assms(2) Some s] run OpStart Some show ?thesis
        by (intro goal) (auto simp: hoare_def team_of_def split: sum.split)
    qed
  next
    case OpKill
    obtain w1 where "CountEnemyKill k w = (Inr (), w1)" "seen ((abs_zones w)(k \<mapsto> a_kill (abs_zone z))) w1"
      using counts_refine(1) [OF assms(2) s] by blast
    with OpKill assms(3) show ?thesis by (intro goal) (auto simp: war_step_def andthen_def seq_def ret_def)
  next
    case OpDeath
    obtain w1 where "CountMemberDeath k w = (Inr (), w1)" "seen ((abs_zones w)(k \<mapsto> a_death (abs_zone z))) w1"
      using counts_refine(2) [OF assms(2) s] by blast
    with OpDeath assms(3) show ?thesis by (intro goal) (auto simp: war_step_def andthen_def seq_def ret_def)
  next
    case (OpEnd timeout)
    then show ?thesis using assms(3) EndWar_refines [OF assms(2) s, of timeout]
      by (intro goal) (auto simp: war_step_def hoare_def split: sum.split)
  next
    case OpArrive
    then show ?thesis using assms(3) keepsD [OF MemberArrived_keeps s, of k] same
      by (intro goal) (auto simp: war_step_def andthen_def seq_def ret_def split: sum.splits prod.splits)
  qed
qed

section \<open>The end of a war\<close>

lemma onZone_reliable:
  assumes "map_of (zones w) k = Some z" and "oid_isSet (sv_uniqueid z)" and "reliable (db w)"
  shows "\<exists>d. onZone k (Update m False) w = (Inr (), w\<lparr>db := d, zones := setMember k z (zones w)\<rparr>)
    \<and> db_log d = DbUpdate (sv_collection z) (sv_uniqueid z) m # db_log (db w)"
  using assms by (auto simp: reliable_def onMember_def Update_def demo_eval split: option.splits)

definition attacker_wins :: "bool \<Rightarrow> gangzone \<Rightarrow> bool" where
  "attacker_wins timeout z \<longleftrightarrow> timeout \<or> wi_EnemyKill (z_warinfo z) < wi_MemberDeath (z_warinfo z)"

definition winner :: "bool \<Rightarrow> gangzone \<Rightarrow> oid" where
  "winner timeout z = (if attacker_wins timeout z then wi_Attacker (z_warinfo z) else z_owner z)"

text \<open>The last two statements of EndWar.\<close>

definition peace :: "int \<Rightarrow> bool \<Rightarrow> bool wprog" where
  "peace k won = andthen (zonewar k (\<lambda>i. i\<lparr>wi_EnemyKill := 0, wi_MemberDeath := 0, wi_Attacker := oid_clear, wi_InWar := False\<rparr>))
     (andthen (Redraw k) (ret won))"

lemma peace_spec:
  assumes "map_of (zones w) k = Some z"
  shows "\<exists>w' z'. peace k won w = (Inr won, w') \<and> map_of (zones w') = (map_of (zones w))(k \<mapsto> z') \<and> z_owner z' = z_owner z
    \<and> \<not> wi_InWar (z_warinfo z') \<and> msg_current w' = msg_current w \<and> timers w' = timers w \<and> db w' = db w"
  using assms by (simp add: peace_def zonewar_def modMember_def andthen_def seq_def ret_def Redraw_def readMember_def native_def
      modify_def) (rule exI [of _ "z_warinfo_update (\<lambda>i. i\<lparr>wi_EnemyKill := 0, wi_MemberDeath := 0, wi_Attacker := oid_clear,
      wi_InWar := False\<rparr>) z"], auto simp: fun_eq_iff)

lemma announced:
  assumes "teamName u w = (Inr n, w)"
  shows "\<exists>w'. seq (teamName u) (\<lambda>n. andthen (PushMessage (n @ t)) (f n)) w = f n w' \<and> zones w' = zones w \<and> teams w' = teams w
    \<and> db w' = db w \<and> timers w' = timers w \<and> msg_current w' = n @ t"
  by (simp add: seq_Inr [where m = "teamName u" and s = w, OF assms]) (simp add: andthen_def seq_def PushMessage_def, rule exI, rule conjI, rule refl, simp)

lemma EndWar_outcome:
  assumes "map_of (zones w) k = Some z" and "wi_InWar (z_warinfo z)"
    and "map_of (teams w) (oid_str (winner timeout z)) = Some tm"
    and "attacker_wins timeout z \<Longrightarrow> oid_isSet (sv_uniqueid z) \<and> reliable (db w)"
    and "timeout \<Longrightarrow> IsExist (z_endtimerid z) (timers w)"
  shows "\<exists>w' z'. EndWar k timeout w = (Inr (attacker_wins timeout z), w')
    \<and> map_of (zones w') = (map_of (zones w))(k \<mapsto> z') \<and> z_owner z' = winner timeout z \<and> \<not> wi_InWar (z_warinfo z')
    \<and> msg_current w' = t_name tm @ '' has won the turfwar''
    \<and> timers w' = (if timeout then AList.delete (z_endtimerid z) (timers w) else timers w)
    \<and> db_log (db w') = (if attacker_wins timeout z
        then DbUpdate (sv_collection z) (sv_uniqueid z) (bson_set [(''owner'', BOid (winner timeout z))]) # db_log (db w) else db_log (db w))"
proof -
  let ?ts = "if timeout then AList.delete (z_endtimerid z) (timers w) else timers w"
  let ?w1 = "w\<lparr>timers := ?ts\<rparr>"
  have t: "whenP timeout (DestroyTimer (z_endtimerid z)) w = (Inr (), ?w1)"
    using assms(5) by (auto simp: whenP_def ret_def DestroyTimer_def Remove_def)
  have name: "teamName (winner timeout z) ?w1 = (Inr (t_name tm), ?w1)"
    using assms(3) by (simp add: teamName_def TeamMgr_get_def andthen_def seq_def ret_def world_eval)
  have read: "zget k id w = (Inr z, w)" using assms(1) by (simp add: readMember_def)
  have body: "EndWar k timeout w = seq (if attacker_wins timeout z
      then seq (teamName (wi_Attacker (z_warinfo z))) (\<lambda>n. andthen (PushMessage (n @ '' has won the turfwar''))
        (andthen (SetOwner k (wi_Attacker (z_warinfo z))) (ret True)))
      else seq (teamName (z_owner z)) (\<lambda>n. andthen (PushMessage (n @ '' has won the turfwar'')) (ret False))) (peace k) ?w1"
    unfolding EndWar_def Let_def seq_Inr [where m = "zget k id" and s = w, OF read] attacker_wins_def peace_def using assms(2) t
    by (simp add: andthen_def seq_Inr [where s' = ?w1])
  show ?thesis
  proof (cases "attacker_wins timeout z")
    case True
    then have win: "winner timeout z = wi_Attacker (z_warinfo z)" by (simp add: winner_def)
    obtain w2 where w2: "seq (teamName (winner timeout z)) (\<lambda>n. andthen (PushMessage (n @ '' has won the turfwar''))
        (andthen (SetOwner k (winner timeout z)) (ret True))) ?w1 = andthen (SetOwner k (winner timeout z)) (ret True) w2"
      "zones w2 = zones w" "db w2 = db w" "timers w2 = ?ts" "msg_current w2 = t_name tm @ '' has won the turfwar''"
      using announced [OF name, of "'' has won the turfwar''" "\<lambda>_. andthen (SetOwner k (winner timeout z)) (ret True)"] by auto
    have known: "map_of (zones w2) k = Some z" using assms(1) w2(2) by simp
    obtain d where d: "onZone k (Update (bson_set [(''owner'', BOid (winner timeout z))]) False) w2
        = (Inr (), w2\<lparr>db := d, zones := setMember k z (zones w2)\<rparr>)"
      "db_log d = DbUpdate (sv_collection z) (sv_uniqueid z) (bson_set [(''owner'', BOid (winner timeout z))]) # db_log (db w)"
      using onZone_reliable [OF known] assms(4) [OF True] w2(3) by metis
    let ?z = "z_owner_update (\<lambda>_. winner timeout z) z"
    obtain w3 where w3: "andthen (SetOwner k (winner timeout z)) (ret True) w2 = (Inr True, w3)" 
      "map_of (zones w3) = (map_of (zones w))(k \<mapsto> ?z)" "db w3 = d" "timers w3 = ?ts" "msg_current w3 = msg_current w2"
      using that [of "w2\<lparr>db := d, zones := setMember k ?z (setMember k z (zones w2))\<rparr>"] d(1) known w2(2-5)
      by (simp add: SetOwner_def andthen_def seq_def modMember_def ret_def fun_eq_iff)
    then have "map_of (zones w3) k = Some ?z" by simp
    moreover have "EndWar k timeout w = peace k True w3"
      unfolding body win [symmetric] if_P [OF True] by (rule seq_Inr) (simp only: w2(1) w3(1))
    ultimately show ?thesis using peace_spec [of w3 k ?z True] w3(2-5) w2(5) d(2) True by auto
  next
    case False
    then have win: "winner timeout z = z_owner z" by (simp add: winner_def)
    obtain w2 where w2: "seq (teamName (winner timeout z)) (\<lambda>n. andthen (PushMessage (n @ '' has won the turfwar'')) (ret False)) ?w1
        = (Inr False, w2)"
      "zones w2 = zones w" "db w2 = db w" "timers w2 = ?ts" "msg_current w2 = t_name tm @ '' has won the turfwar''"
      using announced [OF name, of "'' has won the turfwar''" "\<lambda>_. ret False"] by (auto simp: ret_def)
    have "map_of (zones w2) k = Some z" using assms(1) w2(2) by simp
    moreover have "EndWar k timeout w = peace k False w2"
      unfolding body win [symmetric] if_not_P [OF False] by (rule seq_Inr) (rule w2(1))
    ultimately show ?thesis using peace_spec [of w2 k z False] w2(2-5) False win by auto
  qed
qed



definition demo_front :: gangzone where
  "demo_front = (new_zone (saveable.make ''gangzone'' [(''_id'', BOid 9)] 9) 7 0)\<lparr>z_owner := 21, z_endtimerid := 3,
     z_warinfo := \<lparr>wi_InWar = True, wi_Attacker = 22, wi_MemberDeath = 1, wi_EnemyKill = 4\<rparr>\<rparr>"

definition demo_war :: world where
  "demo_war = demo_teams\<lparr>zones := [(5, demo_front)],
     timers := [(3, \<lparr>tm_callback = TEndTurfWar 7, tm_period = 300000, tm_repeat = False, tm_fired = False\<rparr>),
       (4, \<lparr>tm_callback = TTurfWarWaitTimeout 7, tm_period = 180000, tm_repeat = False, tm_fired = False\<rparr>)]\<rparr>"

lemmas demo_war_defs = demo_war_def demo_front_def demo_teams_def demo_team_def demo_players_def new_zone_def new_team_def
  saveable.defs gangzone.defs team.defs

lemma demo_war_facts:
  "map_of (zones demo_war) 5 = Some demo_front" "zone_of (z_this demo_front) demo_war = Some 5" "calm demo_war"
  "wi_InWar (z_warinfo demo_front)" "winner True demo_front = 22" "attacker_wins True demo_front" "sv_uniqueid demo_front = 9"
  "z_this demo_front = 7" "z_endtimerid demo_front = 3" "map_of (teams demo_war) (oid_str 22) = Some (demo_team 22 2)"
  "reliable (db demo_war)" "abs_zone demo_front = War 21 22 4 1"
  by (simp_all add: demo_war_defs calm_def zone_of_def winner_def attacker_wins_def abs_zone_def reliable_def demo_eval)

theorem turf_war_refines_witness:
  "\<exists>r w'. war_step 5 OpDeath demo_war = (r, w') \<and> calm w' \<and> (case r of
      Inr b \<Rightarrow> abs_zones w' = (abs_zones demo_war)(5 \<mapsto> War 21 22 4 2) \<and> \<not> b | Inl e \<Rightarrow> abs_zones w' = abs_zones demo_war)"
  using turf_war_refines [OF demo_war_facts(3,1), of OpDeath] demo_war_facts(12) 
  by (cases "war_step 5 OpDeath demo_war") (auto split: sum.splits)


end
