(* ===== verification/Rules_Correct.thy ===== *)
theory Rules_Correct
  imports Callbacks
begin

text \<open>
  What players may do: who can run which command, how often a role's skill works, what the event of a pickup does, and where a
  stored waypoint takes a player.
\<close>

section \<open>Commands\<close>

text \<open>The commands, by what they ask of a player.\<close>

definition permitted :: "string \<Rightarrow> profile \<Rightarrow> bool" where
  "permitted cmd p \<longleftrightarrow> (let level = sint (au_adminlevel (p_auth p)); signed = au_signedin (p_auth p) in
     0 \<le> level \<and> cmd \<in> {''v'', ''goto''} \<or> signed \<and> (0 \<le> level \<and> cmd \<in> {''tp'', ''r'', ''rjoin''} \<or> 1 \<le> level \<and> cmd = ''get''
     \<or> 65535 \<le> level \<and> cmd \<in> {''s'', ''gz'', ''gzc'', ''p'', ''importprop'', ''rcacp'', ''rcf'', ''rstart''}))"

lemma matchreq: "MATCHREQ 0 r \<longleftrightarrow> False" "MATCHREQ 2 1 \<longleftrightarrow> False" "MATCHREQ 2 2" "MATCHREQ 2 4 \<longleftrightarrow> False" "MATCHREQ 2 8 \<longleftrightarrow> False"
  "MATCHREQ 2 (Suc 0) \<longleftrightarrow> False"
  by (simp_all add: MATCHREQ_def)

text \<open>Of the requirements, the table of commands uses the level and the flag \<^verbatim>\<open>NEED_SIGNED_IN\<close>.\<close>

lemma refusal_None:
  assumes "cc_flags c = 0 \<or> cc_flags c = 2"
  shows "refusal c p = None \<longleftrightarrow> cc_reqlevel c \<le> sint (au_adminlevel (p_auth p)) \<and> (cc_flags c = 2 \<longrightarrow> au_signedin (p_auth p))"
  using assms by (auto simp: refusal_def Let_def matchreq)

lemma commands_flags: "map_of commands cmd = Some c \<Longrightarrow> cc_flags c = 0 \<or> cc_flags c = 2"
  by (auto simp: commands_def split: if_splits)

lemma permitted_iff: "permitted cmd p \<longleftrightarrow> (\<exists>c. map_of commands cmd = Some c \<and> refusal c p = None)"
proof -
  have "(\<exists>c. map_of commands cmd = Some c \<and> refusal c p = None) \<longleftrightarrow> (\<exists>c. map_of commands cmd = Some c
     \<and> cc_reqlevel c \<le> sint (au_adminlevel (p_auth p)) \<and> (cc_flags c = 2 \<longrightarrow> au_signedin (p_auth p)))"
    using refusal_None commands_flags by blast
  then show ?thesis by (simp add: commands_def permitted_def Let_def) blast
qed

lemma CmdMgr_Exec_eval:
  assumes "map_of (profiles w) pid = Some p"
  shows "CmdMgr_Exec pid cmd line w = (case map_of commands cmd of None \<Rightarrow> (Inl (RuntimeError ''Unregistered command''), w)
    | Some c \<Rightarrow> (case refusal c p of Some msg \<Rightarrow> (Inl (RuntimeError msg), w) | None \<Rightarrow> cc_ptr c pid line w))"
  using assms by (simp add: CmdMgr_Exec_def andthen_def seq_def world_eval throw_def split: option.split)

lemma reported_error: "m w = (Inl (RuntimeError msg), w') \<Longrightarrow>
    reported pid other m w = (Inr (), w'\<lparr>out := SendClientMessage pid COLOR_ERROR msg # out w'\<rparr>)"
  by (simp add: reported_def caught_def tryCatch_def native_def modify_def)

text \<open>C19. Commands are authorised. A player who is not permitted a command, by level or because he is not signed in, or whose
  command does not exist, gets a message and nothing else changes; a permitted command is run, its exceptions reported.\<close>

theorem command_authorised:
  assumes "map_of (profiles w) pid = Some p" and "parse_command t = (name, line)" and "length name < 128" and "length line < 128"
  shows "if permitted (map to_lower (drop 1 name)) p
    then \<exists>c. map_of commands (map to_lower (drop 1 name)) = Some c
      \<and> handle (CommandText pid t) w = reported pid txt_command_error (cc_ptr c pid line) w
    else \<exists>msg. handle (CommandText pid t) w = (Inr (), w\<lparr>out := SendClientMessage pid COLOR_ERROR msg # out w\<rparr>)"
proof -
  let ?cmd = "map to_lower (drop 1 name)"
  have run: "handle (CommandText pid t) w = reported pid txt_command_error (CmdMgr_Exec pid ?cmd line) w"
    using assms(2-4) by (simp add: handle_def OnPlayerCommandText_def)
  note exec = CmdMgr_Exec_eval [OF assms(1), of ?cmd line]
  show ?thesis
  proof (cases "permitted ?cmd p")
    case True
    then obtain c where "map_of commands ?cmd = Some c" "refusal c p = None" using permitted_iff by blast
    then show ?thesis using True run exec by (simp add: reported_def caught_def tryCatch_def)
  next
    case False
    then have "\<exists>msg. CmdMgr_Exec pid ?cmd line w = (Inl (RuntimeError msg), w)"
      using exec by (auto simp: permitted_iff split: option.splits)
    with False show ?thesis unfolding run using reported_error by (metis if_not_P)
  qed
qed


theorem command_authorised_witness:
  "\<exists>msg. handle (CommandText 1 ''/S now'') demo_players
    = (Inr (), demo_players\<lparr>out := SendClientMessage 1 COLOR_ERROR msg # out demo_players\<rparr>)"
proof -
  have "parse_command ''/S now'' = (''/S'', ''now'')" by (simp add: parse_command_def Let_def is_space_def)
  moreover have "map_of (profiles demo_players) 1 = Some (demo_profile 1 11)" by (simp add: demo_players_def)
  moreover have "map to_lower (drop 1 ''/S'') = ''s''" by code_simp
  moreover have "\<not> permitted ''s'' (demo_profile 1 11)"
    by (simp add: permitted_def demo_profile_def new_profile_def saveable.defs profile.defs)
  ultimately show ?thesis using command_authorised [of demo_players 1 "demo_profile 1 11" "''/S now''" "''/S''" "''now''"] by simp
qed

section \<open>Skills\<close>

text \<open>Only messages to players, and the nitro of a driver, were sent.\<close>

definition chatter :: "native \<Rightarrow> bool" where
  "chatter c = (case c of SendClientMessage p col m \<Rightarrow> True | AddVehicleComponent v i \<Rightarrow> True | _ \<Rightarrow> False)"

definition only_speaks :: "world \<Rightarrow> world \<Rightarrow> bool" where
  "only_speaks w w' \<longleftrightarrow> (\<exists>cs. list_all chatter cs \<and> w' = w\<lparr>out := cs @ out w\<rparr>)"

lemma only_speaks_refl: "only_speaks w w"
  unfolding only_speaks_def by (rule exI [of _ "[]"]) simp

lemma only_speaks_out:
  assumes "only_speaks w w'" and "chatter c"
  shows "only_speaks w (w'\<lparr>out := c # out w'\<rparr>)"
proof -
  obtain cs where "list_all chatter cs" "w' = w\<lparr>out := cs @ out w\<rparr>" using assms(1) unfolding only_speaks_def by blast
  with assms(2) show ?thesis unfolding only_speaks_def by (intro exI [of _ "c # cs"]) simp
qed

text \<open>The role of the player, as the skill sees it.\<close>

definition role_of :: "playerid \<Rightarrow> world \<Rightarrow> role option" where
  "role_of pid w = Option.bind (map_of (profiles w) pid) p_role"

lemma GetRole_eval: "role_of pid w = Some r \<Longrightarrow> GetRole pid w = (Inr r, w)"
  by (auto simp: role_of_def GetRole_def seq_def readMember_def ret_def split: option.splits bind_splits)

definition skill_used :: "playerid \<Rightarrow> role \<Rightarrow> world \<Rightarrow> bool" where
  "skill_used pid r w \<longleftrightarrow> (\<exists>i. role_of pid w = Some (r\<lparr>rl_obj := i, rl_skilllastuse := now (env w)\<rparr>))"

lemma used_skill_spec:
  assumes "role_of pid w = Some (r\<lparr>rl_obj := i\<rparr>)"
  shows "\<exists>w'. used_skill pid w = (Inr (), w') \<and> skill_used pid r w' \<and> env w' = env w"
proof -
  obtain p where "map_of (profiles w) pid = Some p" "p_role p = Some (r\<lparr>rl_obj := i\<rparr>)"
    using assms by (auto simp: role_of_def split: bind_splits)
  then show ?thesis by (auto simp: used_skill_def seq_def gets_def modRole_def modMember_def skill_used_def role_of_def)
qed

lemma createObject_returns: "\<exists>i w'. CreateDynamicObject m p r wd it pl d w = (Inr i, w') \<and> frame w w'"
proof -
  have "frame w (snd (CreateDynamicObject m p r wd it pl d w))" by (rule frame_natives)
  moreover have "\<exists>i. fst (CreateDynamicObject m p r wd it pl d w) = Inr i"
    using gridAdd_spec by (fastforce simp: CreateDynamicObject_def createItem_def seq_def andthen_def modify_def ret_def Let_def
        split: prod.split sum.split)
  ultimately show ?thesis by (metis prod.collapse)
qed

lemma Tower_destroy_returns: "\<exists>w'. Tower_destroy i w = (Inr (), w') \<and> frame w w'"
proof (cases i)
  case None
  then show ?thesis by (simp add: Tower_destroy_def ret_def frame_refl)
next
  case (Some j)
  have "frame w (snd (DestroyDynamicObject j w))" by (rule frame_natives)
  then show ?thesis using Some
    by (auto simp: Tower_destroy_def seq_def ret_def DestroyDynamicObject_def destroyIfValid_def split: option.splits)
qed

lemma role_of_cong: "profiles w' = profiles w \<Longrightarrow> role_of pid w' = role_of pid w"
  by (simp add: role_of_def)

lemma role_self: "role_of pid w = Some r \<Longrightarrow> role_of pid w = Some (r\<lparr>rl_obj := rl_obj r\<rparr>)"
  by simp

lemma GenerateDirectionalPoint_error: "GenerateDirectionalPoint sn cs a r d = Inl e \<Longrightarrow> \<exists>m. e = RuntimeError m"
  by (auto simp: GenerateDirectionalPoint_def Let_def split: if_splits)

lemma DirectionalPoint_spec:
  obtains p where "DirectionalPoint pid d w = (Inr p, w)" | m where "DirectionalPoint pid d w = (Inl (RuntimeError m), w)"
proof -
  obtain a where "DirectionalPoint pid d w = (a, w)" "\<And>e. a = Inl e \<Longrightarrow> \<exists>m. e = RuntimeError m"
    using GenerateDirectionalPoint_error by (simp add: DirectionalPoint_def seq_def ask_def GetPos_def gets_def liftR_def)
  then show thesis using that by (cases a) auto
qed

lemma BuildTower_spec:
  assumes "role_of pid w = Some r"
  shows "(\<exists>e. BuildTower pid w = (Inl (RuntimeError e), w)) 
    \<or> (\<exists>i w'. BuildTower pid w = (Inr (), w') \<and> role_of pid w' = Some (r\<lparr>rl_obj := i\<rparr>) \<and> env w' = env w)"
proof -
  show ?thesis
  proof (rule DirectionalPoint_spec [of pid 10 w])
    fix m
    assume "DirectionalPoint pid 10 w = (Inl (RuntimeError m), w)"
    then show ?thesis by (simp add: BuildTower_def seq_def)
  next
    fix p
    assume point: "DirectionalPoint pid 10 w = (Inr p, w)"
    obtain i w1 where obj: "CreateDynamicObject 3279 (cx p, cy p, fl32 (cz p - 1)) (0, 0, 0) (-1) (-1) (-1) 100 w = (Inr i, w1)"
      and fr: "frame w w1" using createObject_returns by blast
    then have role: "role_of pid w1 = Some r" using assms role_of_cong [of w1 w] frame_world [OF fr] by simp
    then obtain q where q: "map_of (profiles w1) pid = Some q" "p_role q = Some r" by (auto simp: role_of_def split: bind_splits)
    define w2 where "w2 = w1\<lparr>profiles := setMember pid (p_role_update (map_option (rl_obj_update (\<lambda>_. Some i))) q) (profiles w1)\<rparr>"
    have mod: "modRole pid (rl_obj_update (\<lambda>_. Some i)) w1 = (Inr (), w2)"
      using q by (simp add: modRole_def modMember_def w2_def)
    obtain w3 where t: "Tower_destroy (rl_obj r) w2 = (Inr (), w3)" and fr3: "frame w2 w3" using Tower_destroy_returns by blast
    have "role_of pid w2 = Some (r\<lparr>rl_obj := Some i\<rparr>)" "env w2 = env w" using q frame_world [OF fr] by (simp_all add: w2_def role_of_def)
    then have "role_of pid w3 = Some (r\<lparr>rl_obj := Some i\<rparr>)" "env w3 = env w"
      using role_of_cong [of w3 w2] frame_world [OF fr3] by simp_all
    moreover have "BuildTower pid w = (Inr (), w3)"
      using point obj GetRole_eval [OF role] mod t by (simp add: BuildTower_def seq_def andthen_def)
    ultimately show ?thesis by blast
  qed
qed

lemma Skill_spec:
  assumes "role_of pid w = Some r"
  shows "(\<exists>e. PerformSpecialSkill pid target w = (Inl (RuntimeError e), w))
    \<or> (\<exists>w'. PerformSpecialSkill pid target w = (Inr (), w') \<and> skill_used pid r w' \<and> env w' = env w)"
proof -
  have use: "\<exists>w''. used_skill pid w' = (Inr (), w'') \<and> skill_used pid r w'' \<and> env w'' = env w"
    if "profiles w' = profiles w" "env w' = env w" for w'
    using used_skill_spec [where pid = pid and w = w' and r = r and i = "rl_obj r"] assms role_of_cong [OF that(1), of pid] that(2) by simp
  have spoken: "profiles (w\<lparr>out := cs\<rparr>) = profiles w" "env (w\<lparr>out := cs\<rparr>) = env w" for cs by simp_all
  note start = seq_Inr [of "GetRole pid" w r w, OF GetRole_eval [OF assms]] 
  show ?thesis
  proof (cases "rl_kind r")
    case Assault
    then show ?thesis unfolding PerformSpecialSkill_def start using use [OF spoken]
      by (rule_tac DirectionalPoint_spec [of pid "5 / 2" w]) (auto simp: seq_def andthen_def native_def modify_def SendChatMessage_def)
  next
    case Medic
    then show ?thesis unfolding PerformSpecialSkill_def start using use [OF spoken]
      by (auto simp: seq_def andthen_def native_def modify_def GiveHealth_def ask_def gets_def)
  next
    case Mechanic
    then show ?thesis unfolding PerformSpecialSkill_def start using use [OF spoken]
      by (auto simp: seq_def andthen_def native_def modify_def ask_def gets_def throw_def)
  next
    case Engineer
    have "(\<exists>e. andthen (BuildTower pid) (used_skill pid) w = (Inl (RuntimeError e), w))
      \<or> (\<exists>w'. andthen (BuildTower pid) (used_skill pid) w = (Inr (), w') \<and> skill_used pid r w' \<and> env w' = env w)"
      using BuildTower_spec [OF assms] used_skill_spec [where pid = pid and r = r] by (fastforce simp: andthen_def seq_def)
    then show ?thesis unfolding PerformSpecialSkill_def start
      using Engineer by (auto simp: ask_def gets_def throw_def seq_def)
  qed
qed

lemma use_skill_spec:
  assumes "role_of pid w = Some r" and "use_skill pid w = (x, w')"
  shows "(\<exists>m. x = Inl (RuntimeError m)) \<and> w' = w
    \<or> x = Inr () \<and> rl_timelimit r \<le> now (env w) - rl_skilllastuse r \<and> skill_used pid r w'"
proof -
  have run: "use_skill pid w = (if rl_timelimit r \<le> now (env w) - rl_skilllastuse r
      then andthen (if rl_musthavetarget r then
             (if q_target (samp (env w) (out w)) pid \<noteq> INVALID_PLAYER_ID
              then andthen (getRef profiles (q_target (samp (env w) (out w)) pid)) (PerformSpecialSkill pid (q_target (samp (env w) (out w)) pid))
              else throw (RuntimeError txt_skill_target))
           else PerformSpecialSkill pid pid) (SendChatMessage pid COLOR_SUCC txt_skill_done) w
      else (Inl (RuntimeError txt_skill_cooling), w))"
    using GetRole_eval [OF assms(1)]
    by (simp add: use_skill_def seq_def andthen_def ask_def gets_def CanPerformSkill_def MustHaveTarget_def ret_def throw_def)
  have ref: "getRef profiles q w = (Inr (), w) \<or> (\<exists>m. getRef profiles q w = (Inl (RuntimeError m), w))" for q
    by (simp add: getRef_def Get_def split: option.split)
  have kept: "skill_used pid r (w''\<lparr>out := cs\<rparr>)" if "skill_used pid r w''" for w'' cs
    using that by (simp add: skill_used_def role_of_def)
  show ?thesis
  proof (cases "rl_timelimit r \<le> now (env w) - rl_skilllastuse r")
    case True
    let ?q = "q_target (samp (env w) (out w)) pid"
    show ?thesis using True assms(2) run Skill_spec [OF assms(1), of pid] Skill_spec [OF assms(1), of ?q] ref [of ?q]
      by (auto simp: andthen_def seq_def throw_def SendChatMessage_def native_def modify_def kept split: if_splits)
  next
    case False
    then show ?thesis using assms(2) run by auto
  qed
qed


definition demo_medics :: world where
  "demo_medics = demo_world\<lparr>profiles := [(1, (demo_profile 1 11)\<lparr>p_role := Some ((new_role Medic)\<lparr>rl_skilllastuse := 99990\<rparr>)\<rparr>)]\<rparr>"

lemma demo_medics_role: "role_of 1 demo_medics = Some ((new_role Medic)\<lparr>rl_skilllastuse := 99990\<rparr>)" "now (env demo_medics) = 100000"
  by (simp_all add: role_of_def demo_medics_def demo_eval demo_env_def)


section \<open>Waypoints\<close>

text \<open>The server answers a query for an id with the document just inserted under it.\<close>

definition finds_inserted :: "dbst \<Rightarrow> bool" where
  "finds_inserted d \<longleftrightarrow> (\<forall>c x u. map_of x ''_id'' = Some (BOid u) \<longrightarrow>
     db_find d (DbInsert c x # db_log d) c (''_id'', BOid u) = Inr x)"

definition stored_exactly :: "Coordinate5D \<Rightarrow> bool" where
  "stored_exactly p \<longleftrightarrow> is_float (cx p) \<and> is_float (cy p) \<and> is_float (cz p) \<and> is_float (facingangle p)"

lemma waypoint_point_doc:
  assumes "stored_exactly p"
  shows "waypoint_point (waypoint_doc u t c p) = Inr p"
proof -
  have "getField (waypoint_doc u t c p) ''world'' = BInt (virtualworld p)" "getField (waypoint_doc u t c p) ''interior'' = BInt (interior p)"
    by (simp_all add: waypoint_doc_def getField_def)
  from this [THEN number_int_BInt] assms show ?thesis
    by (simp add: waypoint_point_def bindR_def array_float_def number_float_def stored_exactly_def is_float_def)
       (simp add: waypoint_doc_def getField_def bson_Array_def bson_Number_def bindR_def is_float_def point5_def)
qed

lemma Create_reliable:
  assumes "reliable d" and "sv_rawdata o' = []" and "map_of x ''_id'' = Some (BOid u)"
  shows "\<exists>d'. Create x False (o', d) = (Inr (), o'\<lparr>sv_uniqueid := u\<rparr>, d') \<and> db_connected d' \<and> db_find d' = db_find d
    \<and> db_log d' = DbInsert (sv_collection o') x # db_log d"
  using assms by (auto simp: reliable_def Create_def requestOrThrow_def viaDB_def request_def GetDB_def getLastError_def document_id_def
      getField_def bson_OID_def prog_defs Let_def split: option.splits)

text \<open>C27. Waypoints round trip. A point saved with \<open>Waypoint_Create\<close> and loaded again by the id it got is the same point, its world,
  interior and facing angle included, so that a teleport trigger placed for it takes a player exactly where it was made.\<close>

theorem waypoint_roundtrip:
  assumes "reliable (db w)" and "finds_inserted (db w)" and "cfg_string (env w) ''Database.waypoint'' = Some (sv_collection wp)"
    and "sv_rawdata wp = []" and "stored_exactly (wp_point wp)"
  shows "\<exists>made w' loaded. Waypoint_Create wp title creator w = (Inr made, w')
    \<and> Waypoint_byID (sv_uniqueid made) w' = (Inr loaded, w') \<and> wp_point loaded = wp_point wp
    \<and> Effect (TeleportTrigger (sv_uniqueid made)) pid w' = PerformTeleport loaded pid w'"
proof -
  define u where "u = db_genoid (db w) (db_oids (db w))"
  define x where "x = waypoint_doc u (GBKToUTF8 (env w) title) creator (wp_point wp)"
  let ?d = "(db w)\<lparr>db_oids := Suc (db_oids (db w))\<rparr>"
  have x: "map_of x ''_id'' = Some (BOid u)" by (simp add: x_def waypoint_doc_def)
  have "reliable ?d" using assms(1) by (simp add: reliable_def)
  then obtain d where d: "Create x False (wp, ?d) = (Inr (), wp\<lparr>sv_uniqueid := u\<rparr>, d)" "db_connected d" "db_find d = db_find (db w)"
    "db_log d = DbInsert (sv_collection wp) x # db_log (db w)"
    using Create_reliable [of ?d wp x u] assms(4) x by auto
  let ?w = "w\<lparr>db := d\<rparr>"
  have made: "Waypoint_Create wp title creator w = (Inr (wp\<lparr>sv_uniqueid := u\<rparr>), ?w)"
    using d(1) by (simp add: Waypoint_Create_def onDB_def genOID_def codec_def onNew_def u_def [symmetric] x_def [symmetric] prog_defs Let_def)
  have found: "db_find d (db_log d) (sv_collection wp) (''_id'', BOid u) = Inr x"
    using assms(2) x d(3,4) by (simp add: finds_inserted_def)
  have "x \<noteq> []" "document_id x = Inr u" using x by (auto simp: document_id_def getField_def bson_OID_def)
  then have "saveable_byID (sv_collection wp) u d = (Inr (saveable.make (sv_collection wp) x u), d)"
    using d(2) found by (simp add: saveable_byID_def saveable_byQuery_def findOne_def GetDB_def prog_defs)
  then have "Waypoint_byID u ?w = (Inr (new_waypoint (saveable.make (sv_collection wp) x u) (wp_point wp)), ?w)"
    using assms(3) waypoint_point_doc [OF assms(5)]
    by (simp add: Waypoint_byID_def config_def onDB_def Waypoint_LoadData_def catchUser_def saveable.defs x_def prog_defs)
  moreover from this have "Effect (TeleportTrigger u) pid ?w = PerformTeleport (new_waypoint (saveable.make (sv_collection wp) x u) (wp_point wp)) pid ?w"
    by (simp add: Effect_def TeleportEffect_def seq_def)
  moreover have "wp_point (new_waypoint (saveable.make (sv_collection wp) x u) (wp_point wp)) = wp_point wp"
    by (simp add: new_waypoint_def waypoint.defs saveable.defs)
  ultimately show ?thesis using made by auto
qed

definition demo_memory :: dbst where
  "demo_memory = demo_db\<lparr>db_find := \<lambda>log c q. case log of DbInsert c' x # _ \<Rightarrow> Inr (if c' = c \<and> map_of x (fst q) = Some (snd q) then x else [])
     | _ \<Rightarrow> Inr []\<rparr>"

definition demo_spot :: waypoint where
  "demo_spot = new_waypoint (saveable_new ''Database.waypoint'') (point5 100 50 1 7 0 100)"

theorem waypoint_roundtrip_witness:
  "\<exists>made w' loaded. Waypoint_Create demo_spot ''Bank'' 11 (demo_world\<lparr>db := demo_memory\<rparr>) = (Inr made, w')
    \<and> Waypoint_byID (sv_uniqueid made) w' = (Inr loaded, w') \<and> wp_point loaded = point5 100 50 1 7 0 100"
  using waypoint_roundtrip [of "demo_world\<lparr>db := demo_memory\<rparr>" demo_spot "''Bank''" 11 1]
  by (auto simp: demo_memory_def demo_spot_def new_waypoint_def saveable_new_def saveable.defs waypoint.defs reliable_def finds_inserted_def
      stored_exactly_def point5_def demo_eval demo_env_def)

section \<open>Pickups\<close>

text \<open>What a disposable pickup of the game gives.\<close>

fun gift :: "effect \<Rightarrow> bool" where
  "gift (MedicalPickup h) = True"
| "gift (WealthPickup m s) = True"
| "gift (WeaponPickup i a) = True"
| "gift _ = False"

text \<open>A program that changes profiles and sends natives.\<close>

definition gave :: "world \<Rightarrow> world \<Rightarrow> bool" where
  "gave w w' \<longleftrightarrow> w' = w\<lparr>profiles := profiles w', out := out w'\<rparr>"

lemma gave_refl: "gave w w"
  by (simp add: gave_def)

lemma gave_steps: "keeps (gave w) (native n)" "keeps (gave w) (pmod pid f)" "keeps (gave w) (pget pid g)"
proof -
  have "gave w (w1\<lparr>profiles := ps\<rparr>)" "gave w (w1\<lparr>out := cs\<rparr>)" if "gave w w1" for w1 ps cs
  proof -
    have "w1 = w\<lparr>profiles := profiles w1, out := out w1\<rparr>" using that by (simp only: gave_def)
    then have "w1\<lparr>profiles := ps\<rparr> = w\<lparr>profiles := profiles w1, out := out w1\<rparr>\<lparr>profiles := ps\<rparr>"
      "w1\<lparr>out := cs\<rparr> = w\<lparr>profiles := profiles w1, out := out w1\<rparr>\<lparr>out := cs\<rparr>" by metis+
    then show "gave w (w1\<lparr>profiles := ps\<rparr>)" "gave w (w1\<lparr>out := cs\<rparr>)" by (simp_all add: gave_def)
  qed
  then show "keeps (gave w) (native n)" "keeps (gave w) (pmod pid f)" "keeps (gave w) (pget pid g)"
    by (simp_all add: keeps_def native_def modify_def modMember_def readMember_def split: option.split)
qed

lemma Effect_gives: "gift e \<Longrightarrow> keeps (gave w) (Effect e pid)"
  by (cases e) (auto simp: Effect_def MedicalEffect_def WealthEffect_def WeaponEffect_def GiveHealth_def GiveMoney_def GiveScore_def
      GetScore_def SetScore_def PlaySound_def GetPos_def ask_def intro!: keeps_intros gave_steps)

lemma Effect_returns:
  assumes "gift e" and "map_of (profiles w) pid = Some p"
  shows "fst (Effect e pid w) = Inr ()"
  using assms by (cases e) (simp_all add: Effect_def MedicalEffect_def WealthEffect_def WeaponEffect_def GiveHealth_def GiveMoney_def
      GiveScore_def GetScore_def SetScore_def PlaySound_def GetPos_def prog_defs modMember_def readMember_def native_def ask_def)

lemma gave_pickups: "gave w w' \<Longrightarrow> pickups_ok w \<Longrightarrow> pickups_ok w' \<and> pickups w' = pickups w"
proof -
  assume "gave w w'" and ok: "pickups_ok w"
  then obtain ps cs where "w' = w\<lparr>profiles := ps, out := cs\<rparr>" unfolding gave_def by blast
  then show ?thesis using ok streamer_ok_cong [of w' w] by (simp add: pickups_ok_def isValid_def)
qed

text \<open>C28. A disposable pickup is taken once. When a player picks up a disposable gift, he gets its effect and the pickup is gone,
  from the manager and from the streamer, the others as they were; whoever comes next gets an error, and nothing changes.\<close>

theorem pickup_taken_once:
  assumes "pickups_ok w" and "map_of (pickups w) i = Some (e, True)" and "gift e" and "map_of (profiles w) pid = Some p"
  shows "\<exists>w1 w'. Effect e pid w = (Inr (), w1) \<and> PickupMgr_Exec pid i w = (Inr (), w')
    \<and> profiles w' = profiles w1 \<and> map_of (pickups w') = (map_of (pickups w))(i := None) \<and> \<not> isValid KPickup i w' \<and> pickups_ok w'
    \<and> (\<forall>q. PickupMgr_Exec q i w' = (Inl (RuntimeError ''Invalid object id''), w'))"
proof -
  obtain w1 where eff: "Effect e pid w = (Inr (), w1)" and g: "gave w w1"
    using Effect_returns [OF assms(3,4)] keepsD [OF Effect_gives [OF assms(3)] gave_refl, of w pid] by (metis prod.collapse)
  have w1: "pickups_ok w1" "map_of (pickups w1) i = Some (e, True)" using gave_pickups [OF g assms(1)] assms(2) by simp_all
  obtain w' where rem: "PickupMgr_Remove i w1 = (Inr True, w')" "pickups_ok w'" "map_of (pickups w') = (map_of (pickups w1))(i := None)"
    and fr: "frame (w1\<lparr>pickups := snd (Remove i (pickups w1))\<rparr>) w'" and gone: "\<not> isValid KPickup i w'"
    using PickupMgr_Remove_spec [OF w1] by blast
  have "PickupMgr_Exec pid i w = (Inr (), w')"
    using assms(2,4) eff rem(1) by (simp add: PickupMgr_Exec_def prog_defs world_eval)
  moreover have "PickupMgr_Exec q i w' = (Inl (RuntimeError ''Invalid object id''), w')" for q
    using rem(3) by (simp add: PickupMgr_Exec_def prog_defs)
  moreover have "profiles w' = profiles w1" using frame_world [OF fr] by simp
  ultimately show ?thesis using eff rem(2,3) gone gave_pickups [OF g assms(1)] by auto
qed

definition demo_drop :: world where
  "demo_drop = (case Pickup_new (WeaponPickup 24 50) 0 0 0 (demo_world\<lparr>profiles := [(1, demo_profile 1 11)]\<rparr>) of
     (Inr i, w) \<Rightarrow> w\<lparr>pickups := [(i, WeaponPickup 24 50, True)]\<rparr> | (Inl e, w) \<Rightarrow> w)"

lemma demo_drop_facts:
  "\<exists>i. pickups_ok demo_drop \<and> pickups demo_drop = [(i, WeaponPickup 24 50, True)] \<and> profiles demo_drop = [(1, demo_profile 1 11)]"
proof -
  let ?w = "demo_world\<lparr>profiles := [(1, demo_profile 1 11)]\<rparr>"
  have "s_maxItems ?w KPickup \<noteq> length (s_items ?w KPickup)" by simp
  from Pickup_new_spec [OF pickups_ok_demo this, of "WeaponPickup 24 50" 0 0 0]
  obtain i w1 where r: "Pickup_new (WeaponPickup 24 50) 0 0 0 ?w = (Inr i, w1)" and ok: "pickups_ok w1" and fr: "frame ?w w1"
    and v: "isValid KPickup i w1" by blast
  have m: "demo_drop = w1\<lparr>pickups := [(i, WeaponPickup 24 50, True)]\<rparr>" by (simp add: demo_drop_def r)
  have "streamer_ok demo_drop" using ok streamer_ok_cong [of demo_drop w1] by (simp add: m pickups_ok_def)
  then have "pickups_ok demo_drop" using ok v by (auto simp: m pickups_ok_def IsExist_def isValid_def)
  then show ?thesis using frame_world [OF fr] by (intro exI [of _ i]) (simp add: m)
qed

theorem pickup_taken_once_witness:
  "\<exists>i w'. map_of (pickups demo_drop) i \<noteq> None \<and> PickupMgr_Exec 1 i demo_drop = (Inr (), w') \<and> map_of (pickups w') i = None
    \<and> PickupMgr_Exec 2 i w' = (Inl (RuntimeError ''Invalid object id''), w')"
proof -
  obtain i where i: "pickups_ok demo_drop" "pickups demo_drop = [(i, WeaponPickup 24 50, True)]" "profiles demo_drop = [(1, demo_profile 1 11)]"
    using demo_drop_facts by blast
  from pickup_taken_once [of demo_drop i "WeaponPickup 24 50" 1 "demo_profile 1 11"] i obtain w'
    where "PickupMgr_Exec 1 i demo_drop = (Inr (), w')" "map_of (pickups w') i = None"
      "\<forall>q. PickupMgr_Exec q i w' = (Inl (RuntimeError ''Invalid object id''), w')" by auto
  then show ?thesis using i(2) by (intro exI [of _ i] exI [of _ w']) simp
qed

end
