(* ===== verification/Invariants.thy ===== *)
theory Invariants
  imports GangZone_Correct
begin

text \<open>
  What holds of the whole program: the contract of an invariant (what the primitives that change the world have to keep) and the
  proof, once for every such invariant, that each member function, dialog, command, callback and event then keeps it.
\<close>

named_theorems inv_intros "programs that keep an invariant of the world"

section \<open>The contract\<close>

text \<open>The part of the world invariants speak about.\<close>

definition core_same :: "world \<Rightarrow> world \<Rightarrow> bool" where
  "core_same w w' \<longleftrightarrow> timers w' = timers w \<and> next_timer w' = next_timer w \<and> profiles w' = profiles w \<and> teams w' = teams w
     \<and> zones w' = zones w \<and> areas w' = areas w \<and> pickups w' = pickups w \<and> properties w' = properties w \<and> races w' = races w
     \<and> s_cells w' = s_cells w \<and> s_items w' = s_items w \<and> s_ids w' = s_ids w \<and> s_globalCell w' = s_globalCell w"

text \<open>The same player, signed in or not as before.\<close>

definition same_account :: "profile \<Rightarrow> profile \<Rightarrow> bool" where
  "same_account p p' \<longleftrightarrow> p_id p' = p_id p \<and> au_signedin (p_auth p') = au_signedin (p_auth p)"

text \<open>The same zone on the map, and without a war the counters stay at zero.\<close>

definition settled :: "TurfWarInfo \<Rightarrow> bool" where
  "settled i \<longleftrightarrow> wi_InWar i \<or> wi_EnemyKill i = 0 \<and> wi_MemberDeath i = 0"

definition steady :: "gangzone \<Rightarrow> gangzone \<Rightarrow> bool" where
  "steady g g' \<longleftrightarrow> z_zone g' = z_zone g \<and> (settled (z_warinfo g) \<longrightarrow> settled (z_warinfo g'))"

lemma steady_simps [simp]:
  "steady g g" "steady g (z_name_update n g)" "steady g (z_owner_update u g)" "steady g (z_endtimerid_update h g)"
  "steady g (z_timeouttimerid_update h g)" "steady g (z_spawnpoint_update u g)"
  by (simp_all add: steady_def)

text \<open>A profile fresh from its constructor, and the events that can sign a player in.\<close>

definition newcomer :: "playerid \<Rightarrow> profile \<Rightarrow> bool" where
  "newcomer pid p \<longleftrightarrow> p_id p = pid \<and> \<not> au_signedin (p_auth p)"

definition sign_in_event :: "event \<Rightarrow> playerid \<Rightarrow> bool" where
  "sign_in_event ev pid \<longleftrightarrow> (\<exists>d r item t. ev = DialogResponse pid d r item t \<and> (d = DIALOG_PROFILE_REGISTER \<or> d = DIALOG_PROFILE_LOGIN))"

locale world_invariant =
  fixes I :: "world \<Rightarrow> bool" and may_sign :: "playerid \<Rightarrow> bool"
  assumes same: "core_same w w' \<Longrightarrow> I w \<Longrightarrow> I w'"
    and create_timer: "I w \<Longrightarrow> I (snd (CreateTimer cb period rep w))"
    and delete_timer: "I w \<Longrightarrow> I (w\<lparr>timers := snd (Remove h (timers w))\<rparr>)"
    and set_timer: "I w \<Longrightarrow> map_of (timers w) h = Some tm \<Longrightarrow> I (w\<lparr>timers := setMember h tm' (timers w)\<rparr>)"
    and set_profile: "I w \<Longrightarrow> map_of (profiles w) q = Some p \<Longrightarrow> same_account p p' \<Longrightarrow> I (w\<lparr>profiles := setMember q p' (profiles w)\<rparr>)"
    and sign: "I w \<Longrightarrow> map_of (profiles w) q = Some p \<Longrightarrow> b \<longrightarrow> may_sign q \<Longrightarrow>
      I (w\<lparr>profiles := setMember q (p_auth_update (au_signedin_update (\<lambda>_. b)) p) (profiles w)\<rparr>)"
    and add_profile: "I w \<Longrightarrow> p_id p = q \<Longrightarrow> \<not> au_signedin (p_auth p) \<Longrightarrow> I (w\<lparr>profiles := snd (Add q p (profiles w))\<rparr>)"
    and delete_profile: "I w \<Longrightarrow> I (w\<lparr>profiles := snd (Remove q (profiles w))\<rparr>)"
    and set_team: "I w \<Longrightarrow> map_of (teams w) k = Some t \<Longrightarrow> sv_uniqueid t' = sv_uniqueid t \<Longrightarrow> I (w\<lparr>teams := setMember k t' (teams w)\<rparr>)"
    and add_team: "I w \<Longrightarrow> I (w\<lparr>teams := snd (Add (oid_str (sv_uniqueid t)) t (teams w))\<rparr>)"
    and delete_team: "I w \<Longrightarrow> I (w\<lparr>teams := snd (Remove k (teams w))\<rparr>)"
    and clear_teams: "I w \<Longrightarrow> I (w\<lparr>teams := []\<rparr>)"
    and set_zone: "I w \<Longrightarrow> map_of (zones w) z = Some g \<Longrightarrow> steady g g' \<Longrightarrow> I (w\<lparr>zones := setMember z g' (zones w)\<rparr>)"
    and add_zone: "I w \<Longrightarrow> settled (z_warinfo g) \<Longrightarrow> I (w\<lparr>zones := snd (Add (z_zone g) g (zones w))\<rparr>)"
    and delete_zone: "I w \<Longrightarrow> I (w\<lparr>zones := snd (Remove z (zones w))\<rparr>)"
    and clear_zones: "I w \<Longrightarrow> I (w\<lparr>zones := []\<rparr>)"
    and set_property: "I w \<Longrightarrow> map_of (properties w) k = Some r \<Longrightarrow> sv_uniqueid r' = sv_uniqueid r \<Longrightarrow>
      I (w\<lparr>properties := setMember k r' (properties w)\<rparr>)"
    and add_property: "I w \<Longrightarrow> I (w\<lparr>properties := snd (Add (oid_str (sv_uniqueid r)) r (properties w))\<rparr>)"
    and delete_property: "I w \<Longrightarrow> I (w\<lparr>properties := snd (Remove k (properties w))\<rparr>)"
    and clear_properties: "I w \<Longrightarrow> I (w\<lparr>properties := []\<rparr>)"
    and set_race: "I w \<Longrightarrow> IsExist s (races w) \<Longrightarrow> I (w\<lparr>races := setMember s c (races w)\<rparr>)"
    and add_race: "I w \<Longrightarrow> I (w\<lparr>races := snd (Add s c (races w))\<rparr>)"
    and delete_race: "I w \<Longrightarrow> I (w\<lparr>races := snd (Remove s (races w))\<rparr>)"
    and add_area: "I w \<Longrightarrow> I (w\<lparr>areas := snd (Add i z (areas w))\<rparr>)"
    and delete_area: "I w \<Longrightarrow> I (w\<lparr>areas := snd (Remove i (areas w))\<rparr>)"
    and add_pickup: "I w \<Longrightarrow> I (w\<lparr>pickups := snd (Add i (e, disposable e) (pickups w))\<rparr>)"
    and delete_pickup: "I w \<Longrightarrow> I (w\<lparr>pickups := snd (Remove i (pickups w))\<rparr>)"
    and create_item: "I w \<Longrightarrow> I (snd (createItem kind el w))"
    and destroy_object: "I w \<Longrightarrow> I (snd (DestroyDynamicObject i w))"
    and destroy_pickup: "I w \<Longrightarrow> I (snd (DestroyDynamicPickup i w))"
    and destroy_icon: "I w \<Longrightarrow> I (snd (DestroyDynamicMapIcon i w))"
    and destroy_area: "I w \<Longrightarrow> I (snd (DestroyDynamicArea i w))"
    and set_item: "I w \<Longrightarrow> map_of (s_items w kind) i = Some el \<Longrightarrow> e_cell el' = e_cell el \<Longrightarrow> I (setItem kind i el' w)"
    and regrid_item: "I w \<Longrightarrow> map_of (s_items w kind) i = Some el \<Longrightarrow> e_cell el' = e_cell el \<Longrightarrow> I (snd (regrid kind i el' w))"
begin

end

text \<open>Such an invariant is one of the streamer's update loop.\<close>

lemma loop_same_world:
  assumes "loop_same w w'"
  shows "core_same w w'"
proof -
  have "streamer.more w' = streamer.more w" using assms by (simp add: loop_same_def)
  then have "timers w' = timers w \<and> next_timer w' = next_timer w \<and> profiles w' = profiles w \<and> teams w' = teams w
     \<and> zones w' = zones w \<and> areas w' = areas w \<and> pickups w' = pickups w \<and> properties w' = properties w \<and> races w' = races w"
    by (cases w; cases w') simp
  with assms show ?thesis by (simp add: core_same_def loop_same_def same_grid_def)
qed

sublocale world_invariant \<subseteq> loop: loop_invariant I
proof unfold_locales
  show "loop_same w w' \<Longrightarrow> I w \<Longrightarrow> I w'" for w w' by (rule same [OF loop_same_world])
  show "I w \<Longrightarrow> map_of (s_items w k) i = Some e0 \<Longrightarrow> e_cell e = e_cell e0 \<Longrightarrow> I (setItem k i e w)" for w k i e0 e by (rule set_item)
  show "I w \<Longrightarrow> map_of (s_items w k) i = Some e0 \<Longrightarrow> e_cell e = e_cell e0 \<Longrightarrow> I (snd (regrid k i e w))" for w k i e0 e by (rule regrid_item)
qed

context world_invariant
begin

subsection \<open>Primitives\<close>

lemma keeps_same: "(\<And>w. core_same w (snd (m w))) \<Longrightarrow> keeps I m"
  using same unfolding keeps_def by blast

lemma keeps_silent [inv_intros]:
  "keeps I (native n)" "keeps I (PushMessage s)" "keeps I (onDB d)" "keeps I (SendChatMessage pid c s)" "keeps I fresh_object" "keeps I team_newid"
  "keeps I (Streamer_OnPlayerConnect pid)" "keeps I (Streamer_OnPlayerDisconnect pid reason)" "keeps I ReloadConfig"
  "keeps I (modify (worldtime_update f))" "keeps I (onNew ob pr)"
  by (rule keeps_same, simp add: core_same_def native_def modify_def PushMessage_def onDB_def SendChatMessage_def fresh_object_def
      team_newid_def Streamer_OnPlayerConnect_def Streamer_OnPlayerDisconnect_def ReloadConfig_def onNew_def Let_def split: prod.split sum.split)+

lemma keeps_timers [inv_intros]: "keeps I (CreateTimer cb period rep)" "keeps I (DestroyTimer h)"
  using create_timer delete_timer by (simp_all add: keeps_def DestroyTimer_def)

lemma keeps_items [inv_intros]:
  "keeps I (CreateDynamicObject m p r wd it pl d)" "keeps I (CreateDynamicPickup m' t p wd it pl d)"
  "keeps I (CreateDynamicMapIcon p t' c wd it pl d)" "keeps I (CreateDynamicRectangle lo hi wd it pl)"
  "keeps I (DestroyDynamicObject i)" "keeps I (DestroyDynamicPickup i)" "keeps I (DestroyDynamicMapIcon i)" "keeps I (DestroyDynamicArea i)"
  using create_item destroy_object destroy_pickup destroy_icon destroy_area
  by (simp_all add: keeps_def CreateDynamicObject_def CreateDynamicPickup_def CreateDynamicMapIcon_def CreateDynamicRectangle_def Let_def)

lemma keeps_onMember:
  assumes "\<And>o'. keeps (\<lambda>s. R o' (fst s)) m" and "\<And>o'. R o' o'"
    and "\<And>w o' o'' d. I w \<Longrightarrow> map_of (get w) k = Some o' \<Longrightarrow> R o' o'' \<Longrightarrow> I (upd (setMember k o'' (get w)) (w\<lparr>db := d\<rparr>))"
  shows "keeps I (onMember get upd k m)"
proof (rule keepsI)
  fix w
  assume i: "I w"
  show "I (snd (onMember get upd k m w))"
  proof (cases "map_of (get w) k")
    case None
    then show ?thesis using i by (simp add: onMember_def)
  next
    case (Some o')
    obtain r o'' d where "m (o', db w) = (r, o'', d)" by (metis prod.exhaust)
    moreover from this have "R o' o''" using keepsD [OF assms(1), of o' "(o', db w)"] assms(2) by simp
    ultimately show ?thesis using Some assms(3) [OF i Some] by (simp add: onMember_def)
  qed
qed

lemma drop_db: "I (w\<lparr>db := d\<rparr>) \<longleftrightarrow> I w" "I (w\<lparr>out := cs\<rparr>) \<longleftrightarrow> I w"
  by (auto elim!: same [rotated] simp: core_same_def)

lemma keeps_onProfile [inv_intros]: "(\<And>p. keeps (\<lambda>s. same_account p (fst s)) m) \<Longrightarrow> keeps I (onProfile q m)"
  by (rule keeps_onMember [where R = same_account]) (auto simp: same_account_def drop_db intro: set_profile [of "_\<lparr>db := _\<rparr>", simplified])

lemma keeps_modMember:
  assumes "\<And>w o'. I w \<Longrightarrow> map_of (get w) k = Some o' \<Longrightarrow> I (upd (setMember k (f o') (get w)) w)"
  shows "keeps I (modMember get upd k f)"
  using assms by (simp add: keeps_def modMember_def split: option.split)

lemma keeps_pmod [inv_intros]: "(\<And>p. same_account p (f p)) \<Longrightarrow> keeps I (pmod q f)"
  by (rule keeps_modMember) (rule set_profile)

lemma keeps_tmod [inv_intros]: "(\<And>t. sv_uniqueid (f t) = sv_uniqueid t) \<Longrightarrow> keeps I (tmod k f)"
  by (rule keeps_modMember) (rule set_team)

lemma keeps_zmod [inv_intros]: "(\<And>g. steady g (f g)) \<Longrightarrow> keeps I (zmod z f)"
  by (rule keeps_modMember) (rule set_zone)

lemma keeps_prmod [inv_intros]: "(\<And>r. sv_uniqueid (f r) = sv_uniqueid r) \<Longrightarrow> keeps I (prmod k f)"
  by (rule keeps_modMember) (rule set_property)

lemma keeps_Update: "keeps (\<lambda>s. R (fst s)) (Update m False)"
  by (rule keepsI) (simp add: Update_object)

lemma keeps_onTeam [inv_intros]: "keeps I (onTeam k (Update m False))"
  by (rule keeps_onMember [where R = "\<lambda>t t'. t' = t"]) (auto simp: drop_db intro: keeps_Update set_team [of "_\<lparr>db := _\<rparr>", simplified])

lemma keeps_onZone [inv_intros]: "(\<And>g. keeps (\<lambda>s. steady g (fst s)) m) \<Longrightarrow> keeps I (onZone z m)"
  by (rule keeps_onMember [where R = steady]) (auto simp: drop_db intro: set_zone [of "_\<lparr>db := _\<rparr>", simplified])

lemma keeps_onProperty [inv_intros]: "keeps I (onProperty k (Update m False))"
  by (rule keeps_onMember [where R = "\<lambda>r r'. r' = r"]) (auto simp: drop_db intro: keeps_Update set_property [of "_\<lparr>db := _\<rparr>", simplified])

lemma same_account_simps [simp]:
  "same_account p (p\<lparr>p_gamearchive := a\<rparr>)" "same_account p (p\<lparr>p_team := u\<rparr>)" "same_account p (p\<lparr>p_killcounter := c\<rparr>)"
  "same_account p (p_gamedata_update g p)" "same_account p (p_pvars_update v p)" "same_account p (p_role_update ro p)"
  "same_account p (p_killcounter_update kf p)"
  "same_account p (p_auth_update (au_passwordhash_update h) p)" "same_account p (p_auth_update (au_adminlevel_update l) p)"
  "same_account p (p_auth_update (au_banned_update b) p)" "same_account p (p_auth_update (au_deleted_update b) p)"
  "same_account p (p_auth_update (au_autosavetimer_update t) p)"
  by (simp_all add: same_account_def)

subsection \<open>Players\<close>

lemma account_step: "same_account p q \<Longrightarrow> same_account q r \<Longrightarrow> same_account p r"
  by (simp add: same_account_def)

lemma keeps_assign: "(\<And>x q. same_account q (f x q)) \<Longrightarrow> keeps (\<lambda>s. same_account p (fst s)) (assign r f)"
  unfolding assign_def by (intro keeps_intros keeps_modify) (auto intro: account_step)

lemma keeps_catchUser [keeps_intros]: "keeps P m \<Longrightarrow> keeps P (catchUser msg m)"
  unfolding catchUser_def by (intro keeps_intros)

lemma LoadMemberData_account: "keeps (\<lambda>s. same_account p (fst s)) (LoadMemberData u2g)"
  unfolding LoadMemberData_def by (intro keeps_intros keeps_assign; simp)

lemma keeps_frame_account: "(\<And>c x. keeps (sv_frame c x) m) \<Longrightarrow> keeps (\<lambda>s. same_account p (fst s)) m"
proof (rule keepsI)
  fix s :: "profile \<times> dbst"
  assume m: "\<And>c x. keeps (sv_frame c x) m" and s: "same_account p (fst s)"
  have "saveable.more (fst (snd (m s))) = saveable.more (fst s)"
    using keepsD [OF m, of "sv_collection (fst s)" "saveable.more (fst s)" s] by (simp add: sv_frame_def)
  then have "p_id (fst (snd (m s))) = p_id (fst s)" "p_auth (fst (snd (m s))) = p_auth (fst s)"
    by (cases "fst (snd (m s))"; cases "fst s"; simp)+
  with s show "same_account p (fst (snd (m s)))" by (simp add: same_account_def)
qed

lemma keeps_account_ops [inv_intros]:
  "keeps (\<lambda>s. same_account p (fst s)) (Create d b)" "keeps (\<lambda>s. same_account p (fst s)) (Update d b)"
  "keeps (\<lambda>s. same_account p (fst s)) (LoadMemberData u2g)"
  by (rule keeps_frame_account, rule sv_frame_ops)+ (rule LoadMemberData_account)

lemma keeps_digest [inv_intros]: "keeps P (digest x)"
  unfolding digest_def by (intro keeps_intros)

lemma keeps_Profile [inv_intros]:
  "keeps I (SetColor pid c)" "keeps I (GetColor pid)" "keeps I (GiveMoney pid m)" "keeps I (GetMoney pid)"
  "keeps I (SetScore pid s)" "keeps I (GetScore pid)" "keeps I (GiveScore pid s)" "keeps I (GiveHealth pid give)"
  "keeps I (ApplyDataToPlayer pid)" "keeps I (IsProfileDeleted pid)" "keeps I (IsBannedForGame pid)"
  "keeps I (GetDetailedPos pid)" "keeps I (GetPos pid)" "keeps I (GetPlaneCoordinate pid)" "keeps I (Sync pid)"
  "keeps I (Profile_Create pid logname password)" "keeps I (AuthPassword pid input)" "keeps I (SetPassword pid newpassword)"
  "keeps I (GetNickname pid)" "keeps I (SetNickname pid nickname)" "keeps I (GetAdminLevel pid)"
  "keeps I (SetAdminLevel pid level)" "keeps I (SetBanned pid banned)" "keeps I (IsSignedIn pid)" "keeps I (SetTeamId pid t)"
  "keeps I (KillCounter pid)" "keeps I (PlaySound pid sound)" "keeps I (GetRole pid)" "keeps I (SetVar pid key v)"
  "keeps I (GetVar pid key as)" "keeps I (DelVar pid key)" "keeps I (HasVar pid key)" "keeps I (Profile_destroy p)"
  unfolding SetColor_def GetColor_def GiveMoney_def GetMoney_def SetScore_def GetScore_def GiveScore_def GiveHealth_def
    ApplyDataToPlayer_def IsProfileDeleted_def IsBannedForGame_def GetDetailedPos_def GetPos_def GetPlaneCoordinate_def
    Sync_def Profile_Create_def AuthPassword_def SetPassword_def GetNickname_def SetNickname_def GetAdminLevel_def
    SetAdminLevel_def SetBanned_def IsSignedIn_def SetTeamId_def KillCounter_def PlaySound_def GetRole_def SetVar_def
    GetVar_def DelVar_def HasVar_def Profile_destroy_def
  by (intro inv_intros keeps_intros; simp)+

lemma keeps_SetSignedIn [inv_intros]: "b \<longrightarrow> may_sign pid \<Longrightarrow> keeps I (SetSignedIn pid b)"
  unfolding SetSignedIn_def
  by (intro keeps_andthen keeps_seq keeps_if keeps_readMember keeps_config keeps_timers keeps_pmod keeps_ret keeps_modMember sign; simp)

lemma hoare_I: "keeps I m \<Longrightarrow> hoare I m (\<lambda>_. I) I"
  by (rule hoare_keeps)

lemma hoare_seq_I: "keeps I m \<Longrightarrow> (\<And>x. hoare I (f x) Q I) \<Longrightarrow> hoare I (seq m f) Q I"
  by (rule hoare_seq_keep)

lemma keeps_hoare: "hoare I m (\<lambda>_. I) I \<Longrightarrow> keeps I m"
  unfolding hoare_def keeps_def by (metis prod.collapse sum.exhaust)

lemma loadNew_account: "hoare I (loadNew p) (\<lambda>p' w. I w \<and> same_account p p') I"
proof -
  have "hoare I (onNew p (LoadMemberData u2g)) (\<lambda>(x, p') w. I w \<and> same_account p p') I" for u2g
  proof -
    have "same_account p (fst (snd (LoadMemberData u2g (p, d))))" for d
      using keepsD [OF LoadMemberData_account, of p "(p, d)" u2g] by (simp add: same_account_def)
    then show ?thesis by (auto simp: hoare_def onNew_def Let_def drop_db split: prod.splits sum.splits) (metis fst_conv snd_conv)
  qed
  note new = this
  have "hoare I (seq (onNew p (LoadMemberData u2g)) (\<lambda>(_, p). ret p)) (\<lambda>p' w. I w \<and> same_account p p') I" for u2g
    by (rule hoare_seq [OF new]) (auto intro!: hoare_ret)
  then show ?thesis unfolding loadNew_def by (rule hoare_seq_I [OF keeps_gets])
qed

lemma Profile_byName_newcomer: "hoare I (Profile_byName pid n) (\<lambda>p w. I w \<and> newcomer pid p) I"
proof -
  have new: "newcomer pid (new_profile pid s)" for s
    by (simp add: newcomer_def new_profile_def saveable.defs profile.defs)
  have "hoare I (loadNew (new_profile pid s)) (\<lambda>p w. I w \<and> newcomer pid p) I" for s
    by (rule hoare_post [OF loadNew_account]) (use new [of s] in \<open>simp add: same_account_def newcomer_def\<close>)
  then show ?thesis unfolding Profile_byName_def using new
    by (intro hoare_seq_I keeps_intros inv_intros hoare_if hoare_ret) auto
qed

lemma keeps_ProfileMgr [inv_intros]: "keeps I (ProfileMgr_Add pid)" "keeps I (ProfileMgr_Remove pid)"
proof -
  have "hoare (\<lambda>w. I w \<and> newcomer pid p) (\<lambda>w. (Inr (fst (Add pid p (profiles w))), set_profiles (snd (Add pid p (profiles w))) w)) (\<lambda>_. I) I"
    for p unfolding hoare_def using add_profile by (auto simp: newcomer_def)
  then show "keeps I (ProfileMgr_Add pid)" unfolding ProfileMgr_Add_def
    by (intro keeps_hoare hoare_seq_I keeps_intros hoare_seq [OF Profile_byName_newcomer])
  have "keeps I (andthen (Profile_destroy p) (ret True))" for p by (intro keeps_intros inv_intros)
  then show "keeps I (ProfileMgr_Remove pid)"
    using delete_profile by (auto simp: keeps_def ProfileMgr_Remove_def split: option.split)
qed

subsection \<open>Teams\<close>

lemma keeps_orDestroy: "keeps P m \<Longrightarrow> (\<And>z. keeps P (native (GangZoneDestroy z))) \<Longrightarrow> keeps P (orDestroyZone z m)"
  unfolding orDestroyZone_def by (intro keeps_intros)

lemma keeps_TeamMgr_insert [inv_intros]: "keeps I (TeamMgr_insert t)"
  by (simp add: keeps_def TeamMgr_insert_def split_beta Let_def add_team)

lemma clear_teams_ids: "I w \<Longrightarrow> I (w\<lparr>team_idgen := g, teams := []\<rparr>)"
  by (rule same [OF _ clear_teams]) (simp_all add: core_same_def)

lemma delete_team_ids: "I w \<Longrightarrow> I (w\<lparr>teams := AList.delete k (teams w), team_idgen := g\<rparr>)"
  by (rule same [OF _ delete_team [of w k]]) (simp_all add: core_same_def Remove_def)

lemma keeps_Team [inv_intros]:
  "keeps I (Team_byID u teamid)" "keeps I (Team_byData data teamid)" "keeps I (Team_new leader name color teamid)"
  "keeps I (Join k pid)" "keeps I (Quit k pid)" "keeps I (Team_SetName k name)" "keeps I (Team_SetColor k color)"
  "keeps I (Team_Create t)" "keeps I (TeamMgr_Add leader name color)"
  unfolding Team_byID_def Team_byData_def Team_new_def Join_def Quit_def Team_SetName_def Team_SetColor_def Team_Create_def
    TeamMgr_Add_def
  by (intro inv_intros keeps_intros; simp)+

lemma keeps_TeamMgr [inv_intros]: "keeps I (TeamMgr_Remove u)" "keeps I TeamMgr_LoadAll"
proof -
  show "keeps I (TeamMgr_Remove u)"
    using delete_team [unfolded Remove_def] delete_team_ids by (auto simp: keeps_def TeamMgr_Remove_def Remove_def split: option.split bool.split)
  show "keeps I TeamMgr_LoadAll" unfolding TeamMgr_LoadAll_def
    by (intro inv_intros keeps_intros keeps_modify clear_teams_ids; simp)
qed

subsection \<open>Items and properties\<close>

lemma keeps_PickupMgr [inv_intros]: "keeps I (PickupMgr_Add i e)" "keeps I (PickupMgr_Remove i)"
proof -
  have d: "keeps I (andthen (Pickup_destroy i) (ret b))" for b unfolding Pickup_destroy_def by (intro inv_intros keeps_intros)
  have "I (snd (PickupMgr_Add i e w))" "I (snd (PickupMgr_Remove i w))" if "I w" for w
    using that add_pickup [OF that, of i e] delete_pickup [OF that, of i] keepsD [OF d]
    by (auto simp: PickupMgr_Add_def PickupMgr_Remove_def Remove_def split: prod.split bool.split)
  then show "keeps I (PickupMgr_Add i e)" "keeps I (PickupMgr_Remove i)" by (simp_all add: keeps_def)
qed

lemma keeps_DynAreaMgr [inv_intros]: "keeps I (DynAreaMgr_Add i z)" "keeps I (DynAreaMgr_Remove i)"
proof -
  have d: "keeps I (seq (DestroyDynamicArea i) (\<lambda>_. ret b))" for b by (intro inv_intros keeps_intros)
  have "I (snd (DynAreaMgr_Add i z w))" "I (snd (DynAreaMgr_Remove i w))" if "I w" for w
    using that add_area [OF that, of i z] delete_area [OF that, of i] keepsD [OF d]
    by (auto simp: DynAreaMgr_Add_def DynAreaMgr_Remove_def Remove_def split: prod.split bool.split)
  then show "keeps I (DynAreaMgr_Add i z)" "keeps I (DynAreaMgr_Remove i)" by (simp_all add: keeps_def)
qed

lemma keeps_Items [inv_intros]:
  "keeps I (Pickup_new e x y z)" "keeps I (Pickup_destroy i)" "keeps I (PlacePickup e x y z)"
  "keeps I (MapIcon_new t color x y z world int' player distance)" "keeps I (MapIcon_destroy i')"
  "keeps I (GangZoneArea_new lo hi)"
  unfolding Pickup_new_def Pickup_destroy_def PlacePickup_def MapIcon_new_def MapIcon_destroy_def GangZoneArea_new_def
  by (intro inv_intros keeps_intros; simp)+

lemma frame_properties: "(\<And>w. frame w (snd (m w))) \<Longrightarrow> keeps (\<lambda>w. properties w = ps) m"
  using frame_world(2) unfolding keeps_def by blast

lemma PickupMgr_properties:
  "keeps (\<lambda>w. properties w = ps) (PickupMgr_Add i e)" "keeps (\<lambda>w. properties w = ps) (PickupMgr_Remove i)"
proof -
  have d: "keeps (\<lambda>w. properties w = ps) (andthen (Pickup_destroy i) (ret b))" for b
    unfolding Pickup_destroy_def by (intro keeps_intros frame_properties frame_natives)
  have "properties (snd (PickupMgr_Add i e w)) = ps" "properties (snd (PickupMgr_Remove i w)) = ps" if "properties w = ps" for w
    using that keepsD [OF d, of w] keepsD [OF d, of "w\<lparr>pickups := _\<rparr>"]
    by (auto simp: PickupMgr_Add_def PickupMgr_Remove_def split: prod.split bool.split)
  then show "keeps (\<lambda>w. properties w = ps) (PickupMgr_Add i e)" "keeps (\<lambda>w. properties w = ps) (PickupMgr_Remove i)"
    by (simp_all add: keeps_def)
qed

lemma ReloadMarker_properties: "properties (snd (ReloadMarker r w)) = properties w"
proof -
  have "keeps (\<lambda>w. properties w = ps) (ReloadMarker r)" for ps
    unfolding ReloadMarker_def Pickup_new_def MapIcon_new_def MapIcon_destroy_def
    by (intro keeps_intros PickupMgr_properties frame_properties frame_natives)
  from keepsD [OF this refl] show ?thesis .
qed

lemma keeps_Property [inv_intros]:
  "keeps I (ReloadMarker p)" "keeps I (Property_byData data)" "keeps I (Property_new name pos profit value')"
  "keeps I (Property_destroy p)" "keeps I (Property_SetName k name)" "keeps I (Property_SetValue k v)"
  "keeps I (Property_SetProfit k v)" "keeps I (Draw k pid)"
  unfolding ReloadMarker_def Property_byData_def Property_new_def Property_destroy_def Property_SetName_def
    Property_SetValue_def Property_SetProfit_def Draw_def
  by (intro inv_intros keeps_intros; simp)+

lemma keeps_reload [inv_intros]: "keeps I (reload k)"
proof (rule keepsI)
  fix w
  assume i: "I w"
  show "I (snd (reload k w))"
  proof (cases "map_of (properties w) k")
    case None
    then show ?thesis using i by (simp add: reload_def seq_def readMember_def)
  next
    case (Some r)
    obtain x w' where m: "ReloadMarker r w = (x, w')" by fastforce
    have "I w'" using keepsD [OF keeps_Property(1) i, of r] m by simp
    moreover have "properties w' = properties w" using m ReloadMarker_properties [of r w] by simp
    moreover have "sv_uniqueid r' = sv_uniqueid r" if "x = Inr r'" for r'
      using m that unfolding ReloadMarker_def by (auto elim!: seq_returns andthen_returns simp: ret_def)
    ultimately show ?thesis using Some m set_property [of w' k r] by (cases x) (simp_all add: reload_def seq_def readMember_def modMember_def)
  qed
qed

lemma keeps_trade [inv_intros]:
  "keeps I (Purchase k pid)" "keeps I (Sell k pid)"
  unfolding Purchase_def Sell_def
  by (intro inv_intros keeps_intros; simp)+

lemma keeps_PropertyMgr [inv_intros]:
  "keeps I (PropertyMgr_Add r)" "keeps I PropertyMgr_clear" "keeps I (PropertyMgr_Remove u)"
proof -
  have d: "keeps I (andthen (Property_destroy r) (ret b))" for r b by (intro inv_intros keeps_intros)
  have "I (snd (PropertyMgr_Add r w))" if "I w" for w
    using that add_property [OF that, of r] keepsD [OF d] by (auto simp: PropertyMgr_Add_def split: prod.split bool.split)
  then show "keeps I (PropertyMgr_Add r)" by (simp add: keeps_def)
  have "I (snd (PropertyMgr_Remove u w))" if "I w" for w
    using that delete_property [OF that, of "oid_str u"] keepsD [OF d] by (auto simp: PropertyMgr_Remove_def split: option.split)
  then show "keeps I (PropertyMgr_Remove u)" by (simp add: keeps_def)
  show "keeps I PropertyMgr_clear"
    unfolding PropertyMgr_clear_def by (intro keeps_intros inv_intros keeps_modify clear_properties)
qed

lemma keeps_ShowPlayer [inv_intros]: "keeps I (ShowPlayer d c content q)"
  unfolding ShowPlayer_def by (intro inv_intros)

lemma keeps_PropertyMgr_use [inv_intros]:
  "keeps I (PropertyMgr_LoadAll)" "keeps I (PropertyMgr_get u)"
  unfolding PropertyMgr_LoadAll_def PropertyMgr_get_def
  by (intro inv_intros keeps_intros; simp)+

lemma keeps_Show [inv_intros]:
  "keeps I (Show dialogid content pid showforall)"
  unfolding Show_def
  by (intro inv_intros keeps_intros; simp)+

lemma keeps_Waypoint [inv_intros]:
  "keeps I (Waypoint_LoadData s)" "keeps I (Waypoint_byTitle title)" "keeps I (Waypoint_byID u)" "keeps I (Waypoint_at p)"
  "keeps I (ApplyToPlayer wp pid)" "keeps I (ApplyToVehicle wp vid)" "keeps I (PerformTeleport wp pid)"
  "keeps I (Waypoint_Create wp title creator)" "keeps I (CreateTeleportTrigger u p')" "keeps I (LoadAllTeleportTriggers)"
  unfolding Waypoint_LoadData_def Waypoint_byTitle_def Waypoint_byID_def Waypoint_at_def ApplyToPlayer_def
    ApplyToVehicle_def PerformTeleport_def Waypoint_Create_def CreateTeleportTrigger_def LoadAllTeleportTriggers_def
  by (intro inv_intros keeps_intros; simp)+

subsection \<open>Gang zones\<close>

lemmas orDestroy_intros = keeps_orDestroy [of I, OF _ keeps_silent(1)]

lemma keeps_zone_ops [inv_intros]:
  "keeps (\<lambda>s. steady g (fst s)) (Update m False)" "keeps (\<lambda>s. steady g (fst s)) Destroy"
proof -
  show "keeps (\<lambda>s. steady g (fst s)) (Update m False)" by (rule keeps_Update)
  have "steady (fst s) (fst (snd (Destroy s)))" for s :: "gangzone \<times> dbst"
    using keepsD [OF sv_frame_ops(5), of "sv_collection (fst s)" "saveable.more (fst s)" s]
    by (cases "fst (snd (Destroy s))"; cases "fst s") (simp add: sv_frame_def steady_def)
  then show "keeps (\<lambda>s. steady g (fst s)) Destroy" by (auto simp: keeps_def steady_def)
qed

lemma keeps_zonewar [inv_intros]: "(\<And>i. settled i \<Longrightarrow> settled (f i)) \<Longrightarrow> keeps I (zonewar z f)"
  unfolding zonewar_def by (rule keeps_zmod) (simp add: steady_def)

lemma keeps_ZoneMgr [inv_intros]: "settled (z_warinfo g) \<Longrightarrow> keeps I (ZoneMgr_Add g)" "keeps I (ZoneMgr_Remove z)"
proof -
  have d: "keeps I (andthen (Zone_destroy g) (ret b))" for g b unfolding Zone_destroy_def by (intro inv_intros keeps_intros)
  have "I (snd (ZoneMgr_Add g w))" if "settled (z_warinfo g)" "I w" for w
    using that add_zone [OF that(2,1)] keepsD [OF d] by (auto simp: ZoneMgr_Add_def split: prod.split bool.split)
  then show "settled (z_warinfo g) \<Longrightarrow> keeps I (ZoneMgr_Add g)" by (simp add: keeps_def)
  have "I (snd (ZoneMgr_Remove z w))" if "I w" for w
    using that delete_zone [OF that, of z] keepsD [OF d] by (auto simp: ZoneMgr_Remove_def split: option.split)
  then show "keeps I (ZoneMgr_Remove z)" by (simp add: keeps_def)
qed

lemma keeps_GangZone [inv_intros]:
  "keeps I (CreateZone minx miny maxx maxy)" "keeps I (LoadOwnerData z)" "keeps I (PlaceArea zone lo hi)"
  "keeps I (InitArea z)" "keeps I (finish_zone z)" "keeps I (Zone_byName name)" "keeps I (Zone_byData data)"
  "keeps I (Zone_new name owner lo hi spawn t)" "keeps I (Zone_destroy z)" "keeps I (Zone_SetName k name)"
  "keeps I (SetOwner k owner)" "keeps I (SetSpawnPoint k u)" "keeps I (Redraw k)" "keeps I (CountEnemyKill k)"
  "keeps I (CountMemberDeath k)" "keeps I (EndWar k causedbytimeout)" "keeps I (MemberArrived k)"
  "keeps I (GetPointInWhichZone p)" "keeps I (StartWar k attacker)" "keeps I (areaMessage verb zone pid)"
  "keeps I (Area_OnPlayerEnter zone pid)" "keeps I (Area_OnPlayerExit zone pid)"
  unfolding CreateZone_def LoadOwnerData_def PlaceArea_def InitArea_def finish_zone_def Zone_byName_def Zone_byData_def
    Zone_new_def Zone_destroy_def Zone_SetName_def SetOwner_def SetSpawnPoint_def Redraw_def CountEnemyKill_def
    CountMemberDeath_def EndWar_def MemberArrived_def GetPointInWhichZone_def StartWar_def areaMessage_def
    Area_OnPlayerEnter_def Area_OnPlayerExit_def
  by (intro inv_intros keeps_intros orDestroy_intros; auto simp: settled_def)+

text \<open>A zone that is being built is not at war.\<close>

lemma InitArea_peace: "InitArea g w = (Inr g', w') \<Longrightarrow> z_warinfo g' = z_warinfo g"
  unfolding InitArea_def Let_def by (auto elim!: seq_returns simp: ret_def)

lemma LoadOwnerData_peace: "LoadOwnerData g w = (Inr g', w') \<Longrightarrow> z_warinfo g' = z_warinfo g"
  unfolding LoadOwnerData_def catchUser_def tryCatch_def
  by (auto elim!: seq_returns andthen_returns simp: ret_def throw_def split: prod.splits sum.splits if_splits)

lemma orDestroyZone_returns: "orDestroyZone z m w = (Inr x, w') \<Longrightarrow> m w = (Inr x, w')"
  by (auto simp: orDestroyZone_def tryCatch_def andthen_def seq_def native_def modify_def throw_def split: prod.splits sum.splits)

lemma finish_zone_peace: "finish_zone g w = (Inr g', w') \<Longrightarrow> z_warinfo g' = z_warinfo g"
  unfolding finish_zone_def by (auto elim!: seq_returns dest!: orDestroyZone_returns InitArea_peace LoadOwnerData_peace)

lemma onNew_more:
  assumes "\<And>c x. keeps (sv_frame c x) m" and "onNew g m w = (Inr (y, g'), w')"
  shows "saveable.more g' = saveable.more g"
  using keepsD [OF assms(1), of "sv_collection g" "saveable.more g" "(g, db w)"] assms(2)
  by (auto simp: onNew_def Let_def sv_frame_def split: prod.splits sum.splits)

lemma onNew_peace:
  assumes "\<And>c x. keeps (sv_frame c x) m" and "onNew (g :: gangzone) m w = (Inr (y, g'), w')"
  shows "z_warinfo g' = z_warinfo g"
  using onNew_more [OF assms] by (cases g; cases g') simp

lemma new_zone_peace: "settled (z_warinfo (new_zone sv this junk))" "settled (z_warinfo ((new_zone sv this junk)\<lparr>z_zone := n\<rparr>))"
  by (simp_all add: new_zone_def saveable.defs gangzone.defs settled_def)

lemma Zone_byData_peace: "Zone_byData data w = (Inr g, w') \<Longrightarrow> settled (z_warinfo g)"
  unfolding Zone_byData_def
  by (auto elim!: seq_returns dest!: finish_zone_peace onNew_peace [OF sv_frame_ops(2)] simp: new_zone_peace)

lemma Zone_new_peace: "Zone_new name owner lo hi spawn t w = (Inr g, w') \<Longrightarrow> settled (z_warinfo g)"
  unfolding Zone_new_def
  by (auto elim!: seq_returns dest!: orDestroyZone_returns LoadOwnerData_peace onNew_peace [OF sv_frame_ops(3)] simp: new_zone_peace ret_def)

lemma keeps_new_zone [inv_intros]:
  "keeps I (seq (Zone_byData data) (\<lambda>g. seq (ZoneMgr_Add g) (\<lambda>_. ret ())))"
  "(\<And>b. keeps I (f b)) \<Longrightarrow> keeps I (seq (Zone_new name owner lo hi spawn t) (\<lambda>g. seq (ZoneMgr_Add g) f))"
proof -
  have rule: "keeps I (seq m f)" if m: "keeps I m" and f: "\<And>x w w'. m w = (Inr x, w') \<Longrightarrow> keeps I (f x)"
    for m :: "'b wprog" and f :: "'b \<Rightarrow> 'c wprog"
  proof (rule keepsI)
    fix w
    assume "I w"
    then show "I (snd (seq m f w))"
      using keepsD [OF m, of w] keepsD [OF f] by (cases "m w"; cases "fst (m w)") (auto simp: seq_def)
  qed
  show "keeps I (seq (Zone_byData data) (\<lambda>g. seq (ZoneMgr_Add g) (\<lambda>_. ret ())))"
    by (rule rule [OF keeps_GangZone(7)]) (intro keeps_intros keeps_ZoneMgr(1), rule Zone_byData_peace)
  show "(\<And>b. keeps I (f b)) \<Longrightarrow> keeps I (seq (Zone_new name owner lo hi spawn t) (\<lambda>g. seq (ZoneMgr_Add g) f))"
    by (rule rule [OF keeps_GangZone(8)]) (intro keeps_seq keeps_ZoneMgr(1), rule Zone_new_peace)
qed


lemma keeps_ZoneMgr_LoadAll [inv_intros]: "keeps I ZoneMgr_LoadAll"
  unfolding ZoneMgr_LoadAll_def
  by (intro keeps_seq [OF keeps_gets] keeps_seq [OF keeps_config] keeps_seq [OF keeps_silent(3)] keeps_andthen keeps_forEach keeps_modify
      clear_zones keeps_case_prod inv_intros)

lemma keeps_war_timers [inv_intros]: "keeps I (TimerCallback_EndTurfWar this)" "keeps I (TimerCallback_TurfWarWaitTimeout this)"
proof -
  have "keeps I (seq (EndWar z b) (\<lambda>_. ret ()))" for z b by (intro inv_intros keeps_intros)
  then show "keeps I (TimerCallback_EndTurfWar this)" "keeps I (TimerCallback_TurfWarWaitTimeout this)"
    by (simp_all add: keeps_def TimerCallback_EndTurfWar_def TimerCallback_TurfWarWaitTimeout_def split: option.split)
qed

subsection \<open>Races\<close>

lemma keeps_onW [inv_intros]: "keeps I m \<Longrightarrow> keeps (I \<circ> snd) (onW m)"
  by (auto simp: keeps_def onW_def split: prod.splits)

lemma keeps_race [inv_intros]: "keeps (I \<circ> snd) (race f)" "keeps (I \<circ> snd) (modRace g)" "keeps (I \<circ> snd) (onItem pr)"
  by (auto simp: keeps_def race_def gets_def modRace_def modify_def onItem_def drop_db split: prod.splits)


lemma inRace_kept:
  assumes "keeps (I \<circ> snd) m"
  shows "keeps I (inRace s m)"
  unfolding keeps_def
proof (intro allI impI)
  fix w
  assume i: "I w"
  show "I (snd (inRace s m w))"
  proof (cases "map_of (races w) s")
    case None
    then show ?thesis using i by (simp add: inRace_def)
  next
    case (Some r)
    obtain x r' w' where m: "m (r, w) = (x, r', w')" by (metis prod.exhaust)
    then have "I w'" using keepsD [OF assms, of "(r, w)"] i by simp
    then show ?thesis using Some m set_race [of w' s r'] by (simp add: inRace_def)
  qed
qed

lemma keeps_racersDo [inv_intros]: "(\<And>q. keeps (I \<circ> snd) (f q)) \<Longrightarrow> keeps (I \<circ> snd) (racersDo f)"
  unfolding racersDo_def by (intro inv_intros keeps_intros)

lemma keeps_building [inv_intros]:
  "keeps I (Racing_byName name starter)" "keeps I (Racing_new name starter t creator)" "keeps I (Racing_destroy r)"
  "keeps (I \<circ> snd) (AppendCheckpoint p)" "keeps (I \<circ> snd) (Racing_Create)"
  "keeps (I \<circ> snd) (SetRaceCheckpoint q t' x y z nx ny nz)" "keeps (I \<circ> snd) (Racing_Join q)"
  "keeps (I \<circ> snd) (Racing_Quit q)" "keeps (I \<circ> snd) (Ready)"
  unfolding Racing_byName_def Racing_new_def Racing_destroy_def AppendCheckpoint_def Racing_Create_def SetRaceCheckpoint_def
    Racing_Join_def Racing_Quit_def Ready_def
  by (intro inv_intros keeps_intros; simp)+

lemma keeps_Finish [inv_intros]: "keeps (I \<circ> snd) Finish"
proof -
  have "keeps (I \<circ> snd) (seq (onW (gets races)) (\<lambda>m. if IsExist s m
         then andthen (onW (modify (set_races (snd (Remove s m))))) (onW (Racing_destroy r)) else ret ()))" for s r
  proof (rule keepsI)
    fix st :: "racing \<times> world"
    assume i: "(I \<circ> snd) st"
    obtain c w where st: "st = (c, w)" by fastforce
    have d: "keeps I (Racing_destroy r)" by (intro inv_intros)
    have "I (snd (Racing_destroy r (w\<lparr>races := snd (Remove s (races w))\<rparr>)))"
      using keepsD [OF d delete_race [of w s]] i st by simp
    then show "(I \<circ> snd) (snd (seq (onW (gets races)) (\<lambda>m. if IsExist s m
         then andthen (onW (modify (set_races (snd (Remove s m))))) (onW (Racing_destroy r)) else ret ()) st))"
      using i by (auto simp: st seq_def andthen_def onW_def gets_def modify_def ret_def split: prod.split)
  qed
  note last = this
  show ?thesis unfolding Finish_def
    by (intro keeps_seq [OF keeps_race(1)] keeps_if keeps_ret keeps_andthen [OF _ last] inv_intros keeps_case_prod)
qed

lemma keeps_racing [inv_intros]:
  "keeps (I \<circ> snd) (PlayerFinish q)" "keeps (I \<circ> snd) (PlayerReachCheckpoint q)" "keeps (I \<circ> snd) (Start)"
  "keeps (I \<circ> snd) (CountDown)"
  unfolding PlayerFinish_def PlayerReachCheckpoint_def Start_def CountDown_def
  by (intro inv_intros keeps_intros; simp)+

lemma keeps_race_timer [inv_intros]: "keeps I (TimerCallback_RaceCountDown s)"
proof -
  have "keeps I (inRace s CountDown)" by (rule inRace_kept) (intro inv_intros)
  then show ?thesis by (simp add: keeps_def TimerCallback_RaceCountDown_def)
qed

lemma keeps_RacingMgr_Add [inv_intros]: "keeps I (RacingMgr_Add s c)"
proof -
  have d: "keeps I (andthen (Racing_destroy c) (ret b))" for b by (intro inv_intros keeps_intros)
  have "I (snd (RacingMgr_Add s c w))" if "I w" for w
    using that add_race [OF that, of s c] keepsD [OF d] by (auto simp: RacingMgr_Add_def split: prod.split bool.split)
  then show ?thesis by (simp add: keeps_def)
qed

subsection \<open>Roles, effects, commands\<close>

lemma keeps_case_role [keeps_intros]:
  "keeps P a \<Longrightarrow> keeps P b \<Longrightarrow> keeps P c \<Longrightarrow> keeps P d \<Longrightarrow>
    keeps P (case k of Assault \<Rightarrow> a | Medic \<Rightarrow> b | Mechanic \<Rightarrow> c | Engineer \<Rightarrow> d)"
  by (cases k) simp_all

lemma keeps_modRole [inv_intros]: "keeps I (modRole pid f)"
  unfolding modRole_def by (intro inv_intros; simp)

lemma keeps_Roles [inv_intros]:
  "keeps I (Tower_destroy i)" "keeps I (SetRole pid r)" "keeps I (CanPerformSkill pid)" "keeps I (MustHaveTarget pid)"
  "keeps I (DirectionalPoint pid distance)" "keeps I (equip pid hint armour weapons)" "keeps I (used_skill pid)"
  "keeps I (BuildTower pid)"
  unfolding Tower_destroy_def SetRole_def CanPerformSkill_def MustHaveTarget_def DirectionalPoint_def equip_def
    used_skill_def BuildTower_def
  by (intro inv_intros keeps_intros; simp)+

lemma keeps_PerformSpecialSkill [inv_intros]: "keeps I (PerformSpecialSkill pid target)"
  unfolding PerformSpecialSkill_def by (intro inv_intros keeps_intros)

lemma keeps_Role_events [inv_intros]: "keeps I (Role_OnSpawn pid)" "keeps I (Role_OnDeath pid)"
  unfolding Role_OnSpawn_def Role_OnDeath_def by (intro inv_intros keeps_intros)+

lemma keeps_effects [inv_intros]:
  "keeps I (MedicalEffect health pid)" "keeps I (WealthEffect amount score pid)" "keeps I (WeaponEffect weapon ammo pid)"
  "keeps I (TurfWarEffect zone pid)" "keeps I (TeleportEffect u pid)" "keeps I (viewed_recently pid)"
  "keeps I (remember_view u pid)" "keeps I (OnSaleEffect u pid)" "keeps I (SoldEffect u pid)"
  unfolding MedicalEffect_def WealthEffect_def WeaponEffect_def TurfWarEffect_def TeleportEffect_def viewed_recently_def
    remember_view_def OnSaleEffect_def SoldEffect_def
  by (intro inv_intros keeps_intros; simp)+

lemma keeps_Effect [inv_intros]: "keeps I (Effect e pid)"
  by (cases e) (simp_all add: Effect_def inv_intros)

lemma keeps_PickupMgr_Exec [inv_intros]:
  "keeps I (PickupMgr_Exec pid i)"
  unfolding PickupMgr_Exec_def
  by (intro inv_intros keeps_intros; simp)+

lemma keeps_onCreatedRace [inv_intros]:
  assumes "keeps (I \<circ> snd) m"
  shows "keeps I (onCreatedRace pid m)"
proof -
  have "keeps I (\<lambda>w. case m (r, w) of (x, (r', w')) \<Rightarrow> andthen (SetVar pid ''race_create'' (PVRacing r')) (liftR x) w')" for r
  proof (rule keepsI)
    fix w
    assume i: "I w"
    obtain x r' w' where m: "m (r, w) = (x, r', w')" by (metis prod.exhaust)
    then have "I w'" using keepsD [OF assms, of "(r, w)"] i by simp
    moreover have "keeps I (andthen (SetVar pid ''race_create'' (PVRacing r')) (liftR x))" by (intro inv_intros keeps_intros)
    ultimately show "I (snd (case m (r, w) of (x, (r', w')) \<Rightarrow> andthen (SetVar pid ''race_create'' (PVRacing r')) (liftR x) w'))"
      using keepsD by (fastforce simp: m)
  qed
  then show ?thesis unfolding onCreatedRace_def by (rule keeps_seq [rotated]) (intro inv_intros)
qed

lemma keeps_inRace [inv_intros]: "keeps (I \<circ> snd) m \<Longrightarrow> keeps I (inRace s m)"
  by (rule inRace_kept)

lemma keeps_Commands [inv_intros]:
  "keeps I (CmdGetVehicle pid line)" "keeps I (CmdTeleportMain pid line)" "keeps I (CmdGoToPlayer pid line)"
  "keeps I (CmdGetPlayer pid line)" "keeps I (CmdServerMgmt pid line)" "keeps I (CmdGangZoneMain pid line)"
  "keeps I (CmdCreateGangZone pid line)" "keeps I (CmdPropertyMain pid line)" "keeps I (token ts i)" "keeps I (castFloat s)"
  "keeps I (ImportLine line)" "keeps I (CmdImportProperty pid line)" "keeps I (CmdRacingMain pid line)"
  "keeps I (CmdCreateRaceAppendCP pid line)" "keeps I (CmdCreateRaceDone pid line)" "keeps I (CmdRaceStart pid line)"
  "keeps I (CmdRaceJoin pid line)"
  unfolding CmdGetVehicle_def CmdTeleportMain_def CmdGoToPlayer_def CmdGetPlayer_def CmdServerMgmt_def CmdGangZoneMain_def
    CmdCreateGangZone_def CmdPropertyMain_def token_def castFloat_def ImportLine_def CmdImportProperty_def CmdRacingMain_def
    CmdCreateRaceAppendCP_def CmdCreateRaceDone_def CmdRaceStart_def CmdRaceJoin_def
  by (intro inv_intros keeps_intros; simp)+

lemma keeps_commands: "map_of commands cmd = Some c \<Longrightarrow> keeps I (cc_ptr c pid line)"
  by (auto simp: commands_def inv_intros split: if_splits)

lemma keeps_CmdMgr_Exec [inv_intros]: "keeps I (CmdMgr_Exec pid cmd line)"
proof (cases "map_of commands cmd")
  case None
  then show ?thesis by (simp add: CmdMgr_Exec_def keeps_throw)
next
  case (Some c)
  then show ?thesis using keeps_commands [OF Some, of pid line] by (simp add: CmdMgr_Exec_def) (intro keeps_intros)
qed

subsection \<open>Dialogs\<close>

lemma keeps_picked [inv_intros]: "keeps I (picked_oid s)" "keeps I (scanned s)"
  unfolding picked_oid_def scanned_def by (intro keeps_intros)+

lemma keeps_caught [inv_intros]: "(\<And>msg. keeps I (h msg)) \<Longrightarrow> keeps I m \<Longrightarrow> keeps I (caught h other m)"
  unfolding caught_def by (intro keeps_tryCatch) (auto intro: keeps_throw split: exn.split)

lemma keeps_sign_dialogs:
  assumes "may_sign pid"
  shows "keeps I (DlgRegister pid text')" "keeps I (DlgLogin pid text')"
  using assms unfolding DlgRegister_def DlgLogin_def by (intro inv_intros keeps_intros; simp)+

text \<open>The two dialogs up to the point where they sign the player in.\<close>

lemma keeps_refused_dialogs:
  "keeps I (seq (if t = [] then andthen (SendChatMessage pid COLOR_ERROR txt_password_empty) (ret False)
      else caught (\<lambda>msg. andthen (SendChatMessage pid COLOR_ERROR msg) (ret False)) txt_register_failed
        (seq (ask (\<lambda>s. q_name s pid)) (\<lambda>n. andthen (Profile_Create pid n t) (ret True))))
     (\<lambda>done. if done then ret () else Show DIALOG_PROFILE_REGISTER txt_enter_password pid False))"
  "keeps I (seq (AuthPassword pid t) (\<lambda>ok. andthen (Show DIALOG_PROFILE_LOGIN txt_enter_password pid False)
     (throw (RuntimeError txt_wrong_password))))"
  by (intro inv_intros keeps_intros)+

lemma keeps_onSession [inv_intros]:
  assumes "keeps (I \<circ> snd) m"
  shows "keeps I (onSession r m)"
proof (rule keepsI)
  fix w
  assume i: "I w"
  obtain x r' w' where m: "m (r, w) = (x, r', w')" by (metis prod.exhaust)
  then have "I w'" using keepsD [OF assms, of "(r, w)"] i by simp
  moreover have "keeps I (andthen (Racing_destroy r') (throw e))" for e by (intro inv_intros keeps_intros)
  ultimately show "I (snd (onSession r m w))" using keepsD by (fastforce simp: onSession_def m split: sum.split)
qed

lemma keeps_onCreation [inv_intros]: "keeps I (onCreation pid f)"
  unfolding onCreation_def by (intro inv_intros keeps_intros)

lemma keeps_gz_finish [inv_intros]: "keeps I (gz_finish pid d)"
  unfolding gz_finish_def
  by (intro keeps_if keeps_throw keeps_new_zone(2) keeps_seq [OF keeps_Waypoint(4)] keeps_seq [OF keeps_silent(3)] keeps_seq [OF keeps_readMember]
      keeps_seq [OF keeps_Waypoint(8)] keeps_seq [OF keeps_GetTeamId] keeps_seq [OF keeps_Profile(31)] inv_intros)

lemma keeps_Dialogs [inv_intros]:
  "keeps I (DlgTeamSelect pid text')" "keeps I (DlgRoleSelect pid item)" "keeps I (DlgProfileSetting pid item)"
  "keeps I (DlgNickname pid text')" "keeps I (DlgPlayerMain pid item)" "keeps I (DlgPlayerMessage pid text')"
  "keeps I (DlgChooseToSpawn pid text')" "keeps I (DlgGangZoneMain pid item)" "keeps I (DlgGangZoneCreate pid text')"
  "keeps I (gz_step pid f flag)" "keeps I (DlgGangZoneProcess pid item)"
  "keeps I (DlgGangZoneRemove pid text')" "keeps I (DlgTeleportMain pid item)" "keeps I (DlgTeleportCreate pid text')"
  "keeps I (DlgTeleportUse pid text')" "keeps I (DlgTeleportNearby pid text')" "keeps I (DlgTeleportTrigger pid text')"
  "keeps I (DlgServerMain item)" "keeps I (DlgPropertyOnSale pid)" "keeps I (DlgPropertySold pid item)"
  "keeps I (DlgPropertyMain pid item)" "keeps I (DlgPropertyName pid text')" "keeps I (DlgPropertyValue pid text')"
  "keeps I (DlgPropertyProfit pid text')" "keeps I (DlgRacingMain pid item)" "keeps I (DlgRacingStart pid text')"
  "keeps I (DlgRacingCreate pid text')"
  unfolding DlgTeamSelect_def DlgRoleSelect_def DlgProfileSetting_def DlgNickname_def DlgPlayerMain_def DlgPlayerMessage_def
    DlgChooseToSpawn_def DlgGangZoneMain_def DlgGangZoneCreate_def gz_step_def DlgGangZoneProcess_def
    DlgGangZoneRemove_def DlgTeleportMain_def DlgTeleportCreate_def DlgTeleportUse_def DlgTeleportNearby_def
    DlgTeleportTrigger_def DlgServerMain_def DlgPropertyOnSale_def DlgPropertySold_def DlgPropertyMain_def
    DlgPropertyName_def DlgPropertyValue_def DlgPropertyProfit_def DlgRacingMain_def DlgRacingStart_def DlgRacingCreate_def
  by (intro inv_intros keeps_intros; simp)+

text \<open>Only two dialogs can sign a player in, the one for registering and the one for logging in.\<close>

lemma keeps_dialog_callback:
  assumes "d = DIALOG_PROFILE_REGISTER \<or> d = DIALOG_PROFILE_LOGIN \<Longrightarrow> may_sign pid"
  shows "keeps I (dialog_callback d pid item text')"
  unfolding dialog_callback_def using assms by (intro keeps_if keeps_throw keeps_ret keeps_sign_dialogs inv_intros; simp)

lemma keeps_DlgMgr_Exec:
  "(d = DIALOG_PROFILE_REGISTER \<or> d = DIALOG_PROFILE_LOGIN \<Longrightarrow> may_sign pid) \<Longrightarrow> keeps I (DlgMgr_Exec pid response d item text')"
  unfolding DlgMgr_Exec_def by (intro keeps_intros keeps_dialog_callback)

subsection \<open>Events\<close>

lemma keeps_reported [inv_intros]: "keeps I m \<Longrightarrow> keeps I (reported pid other m)"
  unfolding reported_def by (intro inv_intros)

lemma keeps_catchAll [inv_intros]: "keeps I h \<Longrightarrow> keeps I m \<Longrightarrow> keeps I (catchAll h m)"
  unfolding catchAll_def by (intro keeps_intros)

lemma keeps_dropWeapons [inv_intros]: "keeps I (dropWeapons slots k pid p radius)"
  by (induction slots arbitrary: k) (auto intro!: keeps_intros inv_intros)

lemma keeps_owning [inv_intros]: "keeps I m \<Longrightarrow> keeps I (owning i m)"
  unfolding owning_def by (intro inv_intros keeps_intros)

lemma keeps_Callbacks [inv_intros]:
  "keeps I (OnGameModeInit)" "keeps I (greet pid)" "keeps I (OnPlayerConnect pid)" "keeps I (OnPlayerDisconnect pid reason)"
  "keeps I (OnPlayerRequestClass pid)" "keeps I (OnPlayerRequestSpawn pid)" "keeps I (OnPlayerSpawn pid)"
  "keeps I (OnPlayerText pid text')" "keeps I (OnPlayerCommandText pid text')" "keeps I (use_skill pid)"
  "keeps I (OnPlayerKeyStateChange pid newkeys oldkeys)" "keeps I (reward kills p)" "keeps I (turfwar_counter pid killer)"
  "keeps I (killer_rewards pid killer)" "keeps I (OnPlayerDeath pid killer reason)"
  "keeps I (OnPlayerEnterDynamicArea pid area)" "keeps I (OnPlayerLeaveDynamicArea pid area)"
  "keeps I (OnPlayerPickUpPickup pid pickupid)" "keeps I (OnPlayerClickMap pid x y)"
  "keeps I (OnPlayerClickPlayer pid clicked)" "keeps I (OnPlayerReachRaceCheckpoint pid)"
  "keeps I (TimerCallback_AutoSaveProfile pid)" "keeps I (TimerCallback_ChangeWeather)" "keeps I (TimerCallback_ChangeTime)"
  unfolding OnGameModeInit_def greet_def OnPlayerConnect_def OnPlayerDisconnect_def OnPlayerRequestClass_def
    OnPlayerRequestSpawn_def OnPlayerSpawn_def OnPlayerText_def OnPlayerCommandText_def use_skill_def
    OnPlayerKeyStateChange_def reward_def turfwar_counter_def killer_rewards_def OnPlayerDeath_def
    OnPlayerEnterDynamicArea_def OnPlayerLeaveDynamicArea_def OnPlayerPickUpPickup_def OnPlayerClickMap_def
    OnPlayerClickPlayer_def OnPlayerReachRaceCheckpoint_def TimerCallback_AutoSaveProfile_def
    TimerCallback_ChangeWeather_def TimerCallback_ChangeTime_def
  by (intro inv_intros keeps_intros; simp)+

lemma keeps_timer_callback [inv_intros]: "keeps I (timer_callback cb)"
  by (cases cb) (simp_all add: timer_callback_def inv_intros)

lemma keeps_fire [inv_intros]: "keeps I (fire h)"
proof (rule keepsI)
  fix w
  assume "I w"
  then show "I (snd (fire h w))" using keepsD [OF keeps_timer_callback set_timer] by (auto simp: fire_def split: option.split)
qed

lemma keeps_ProcessTick [inv_intros]: "keeps I ProcessTick"
  unfolding ProcessTick_def Streamer_ProcessTick_def
  by (rule loop.keeps_startAutomaticUpdate) (simp_all add: inv_intros OnDynamicObjectMoved_def keeps_ret)

text \<open>The whole program.\<close>

lemma keeps_handle:
  assumes "\<And>pid. sign_in_event ev pid \<Longrightarrow> may_sign pid"
  shows "keeps I (handle ev)"
proof (cases ev)
  case (DialogResponse pid d r item t)
  then have "keeps I (DlgMgr_Exec pid (r = 1) d item t)" using assms by (intro keeps_DlgMgr_Exec) (auto simp: sign_in_event_def)
  then show ?thesis unfolding DialogResponse handle_def by (simp add: OnDialogResponse_def keeps_reported)
qed (simp_all add: handle_def inv_intros keeps_intros)

end

end
