(* ===== verification/Reachable.thy ===== *)
theory Reachable
  imports Invariants
begin

text \<open>
  Invariants of every run of the server: the types of the managers, and who is signed in. Each is an interpretation of the contract of
  \<^verbatim>\<open>Invariants\<close>, so that only the primitives are looked at here.
\<close>

section \<open>The types of the managers\<close>

text \<open>A manager's members have distinct keys, and each is filed under its own key.\<close>

definition filed :: "('k \<Rightarrow> 'v \<Rightarrow> bool) \<Rightarrow> ('k, 'v) members \<Rightarrow> bool" where
  "filed K m \<longleftrightarrow> members_ok m \<and> (\<forall>k v. map_of m k = Some v \<longrightarrow> K k v)"

lemma filed_set: "filed K m \<Longrightarrow> K k v \<Longrightarrow> filed K (setMember k v m)"
  by (simp add: filed_def members.ok_set)

lemma filed_add: "filed K m \<Longrightarrow> K k v \<Longrightarrow> filed K (snd (Add k v m))"
  by (simp add: filed_def members.ok_add members.add_content)

lemma filed_remove: "filed K m \<Longrightarrow> filed K (snd (Remove k m))"
  by (simp add: filed_def members.ok_remove members.remove_content)

lemma filed_empty: "filed K []"
  by (simp add: filed_def members_ok_def)

lemma filed_mono: "filed K m \<Longrightarrow> (\<And>k v. K k v \<Longrightarrow> K' k v) \<Longrightarrow> filed K' m"
  by (simp add: filed_def)

lemma filedD: "filed K m \<Longrightarrow> map_of m k = Some v \<Longrightarrow> K k v"
  by (simp add: filed_def)

lemma filed_snoc: "filed K m \<Longrightarrow> map_of m k = None \<Longrightarrow> K k v \<Longrightarrow> filed K (m @ [(k, v)])"
  using filed_add [of K m k v] by (simp add: Add_def IsExist_def)

definition world_typed :: "world \<Rightarrow> bool" where
  "world_typed w \<longleftrightarrow> filed (\<lambda>q p. p_id p = q) (profiles w) \<and> filed (\<lambda>k t. k = oid_str (sv_uniqueid t)) (teams w)
     \<and> filed (\<lambda>z g. z_zone g = z \<and> settled (z_warinfo g)) (zones w) \<and> filed (\<lambda>k r. k = oid_str (sv_uniqueid r)) (properties w)
     \<and> filed (\<lambda>s c. True) (races w) \<and> filed (\<lambda>i z. True) (areas w) \<and> filed (\<lambda>i (e, once). once = disposable e) (pickups w)
     \<and> filed (\<lambda>h t. 0 < h \<and> h < next_timer w) (timers w) \<and> 0 < next_timer w \<and> streamer_ok w"

lemma fresh_timer: "filed (\<lambda>h t. 0 < h \<and> h < n) m \<Longrightarrow> map_of m (n :: int) = None"
  using filedD [of "\<lambda>h t. 0 < h \<and> h < n" m n] by (cases "map_of m n") auto

lemma filed_change: "filed K m \<Longrightarrow> map_of m k = Some u \<Longrightarrow> (K k u \<Longrightarrow> K k v) \<Longrightarrow> filed K (setMember k v m)"
  by (rule filed_set) (auto dest: filedD)

lemma filed_any: "filed (\<lambda>k v. True) m \<Longrightarrow> filed (\<lambda>k v. True) (setMember k v m)"
  by (rule filed_set) simp_all

lemmas filed_rules = filed_change filed_any filed_add filed_remove filed_empty

lemma streamer_ok_members [simp]:
  fixes w :: world
  shows "streamer_ok (w\<lparr>timers := a\<rparr>) = streamer_ok w" "streamer_ok (w\<lparr>profiles := b\<rparr>) = streamer_ok w"
  "streamer_ok (w\<lparr>teams := c\<rparr>) = streamer_ok w" "streamer_ok (w\<lparr>zones := d\<rparr>) = streamer_ok w"
  "streamer_ok (w\<lparr>properties := e\<rparr>) = streamer_ok w" "streamer_ok (w\<lparr>races := f\<rparr>) = streamer_ok w"
  "streamer_ok (w\<lparr>areas := g\<rparr>) = streamer_ok w" "streamer_ok (w\<lparr>pickups := h\<rparr>) = streamer_ok w"
  "streamer_ok (w\<lparr>timers := a, next_timer := n\<rparr>) = streamer_ok w"
  by (rule streamer_ok_cong; simp)+

lemma typed_frame: "world_typed w \<Longrightarrow> frame w w' \<Longrightarrow> streamer_ok w' \<Longrightarrow> world_typed w'"
  by (simp add: world_typed_def frame_world)

lemma typed_streamer: "world_typed w \<Longrightarrow> streamer_ok w"
  by (simp add: world_typed_def)

interpretation typed: world_invariant world_typed "\<lambda>_. True"
proof (unfold_locales, goal_cases)
  case (1 w w')
  then show ?case using streamer_ok_cong [of w' w] by (simp add: core_same_def world_typed_def)
next
  case (2 w cb period rep)
  then show ?case by (auto simp: world_typed_def CreateTimer_def intro!: filed_snoc intro: fresh_timer filed_mono)
qed ((simp add: world_typed_def same_account_def steady_def filed_rules; fail)
  | (rule typed_frame, assumption, rule frames, (rule createItem_ok | rule destroy_natives_ok), erule typed_streamer)
  | (rule typed_frame, assumption, rule frames, (rule setItem_ok | rule regrid_ok), erule typed_streamer, assumption, assumption))+

text \<open>Outside a war the counters of a zone are zero, which the abstract machine of turf wars starts from.\<close>

lemma typed_calm: "world_typed w \<Longrightarrow> calm w"
  by (auto simp: world_typed_def calm_def filed_def settled_def)

text \<open>C1. Types. In every world the server can reach, through whatever events, returning or throwing: the managers never hold two
  members under one key; profiles are filed under their player's id, teams and properties under their printed object ids, gang zones under
  the id of the zone on the map, their counters zero outside a war; a pickup is disposable exactly when its effect says so; the timers are ones that were given out; and the
  streamer's tables are consistent.\<close>

theorem reachable_typed: "reachable w \<Longrightarrow> world_typed w"
proof (induction rule: reachable.induct)
  case (start h)
  have "streamer_ok (world_init h)"
    by (rule streamer_start_ok) (simp add: streamer_start_def world_init_def streamer_init_def streamer.defs host.defs)
  moreover have "profiles (world_init h) = []" "teams (world_init h) = []" "zones (world_init h) = []" "properties (world_init h) = []"
    "races (world_init h) = []" "areas (world_init h) = []" "pickups (world_init h) = []" "timers (world_init h) = []" "next_timer (world_init h) = 1"
    by (simp_all add: world_init_def streamer_init_def streamer.defs host.defs world.defs)
  ultimately show ?case by (simp add: world_typed_def filed_empty)
next
  case (event w ev e r w')
  have "world_typed (w\<lparr>env := e\<rparr>)" using typed.same [OF _ event.IH, of "w\<lparr>env := e\<rparr>"] by (simp add: core_same_def)
  from keepsD [OF typed.keeps_handle this, of ev] event.hyps(2) show ?case by simp
qed

definition demo_new :: world where
  "demo_new = world_init (demo_host\<lparr>db := demo_db\<lparr>db_find := \<lambda>log c q. Inr []\<rparr>\<rparr>)"

lemma demo_connect:
  "\<exists>w' p. handle (Connect 1) demo_new = (Inr (), w') \<and> profiles w' = [(1, p)]"
  by (simp add: handle_def OnPlayerConnect_def catchAll_def Streamer_OnPlayerConnect_def ProfileMgr_Add_def Profile_byName_def prog_defs
      demo_eval demo_env_def demo_host_def demo_samp_def demo_new_def world_init_def streamer_init_def streamer.defs world.defs host.defs native_def ask_def codec_def
      config_def onDB_def saveable_byQuery_def Add_def IsExist_def new_profile_def profile.defs SetSignedIn_def greet_def Show_def ShowPlayer_def dialogs_def
      readMember_def modMember_def setMember_def IsEmpty_def getRef_def Get_def SetColor_def)

theorem reachable_typed_witness:
  "\<exists>w p. handle (Connect 1) demo_new = (Inr (), w) \<and> profiles w = [(1, p)] \<and> world_typed w"
proof -
  obtain w p where w: "handle (Connect 1) demo_new = (Inr (), w)" "profiles w = [(1, p)]" using demo_connect by blast
  have "reachable demo_new" unfolding demo_new_def by (rule reachable.start)
  from reachable.event [OF this, of "Connect 1" "env demo_new" "Inr ()" w] w(1) have "reachable w" by simp
  from reachable_typed [OF this] w show ?thesis by blast
qed

section \<open>Signing in\<close>

text \<open>The player of that id, if there is one, is not signed in.\<close>

definition stranger :: "playerid \<Rightarrow> world \<Rightarrow> bool" where
  "stranger pid w \<longleftrightarrow> (\<forall>p. map_of (profiles w) pid = Some p \<longrightarrow> \<not> au_signedin (p_auth p))"

lemma stranger_cong: "profiles w' = profiles w \<Longrightarrow> stranger pid w' = stranger pid w"
  by (simp add: stranger_def)

interpretation stranger: world_invariant "stranger pid" "\<lambda>q. q \<noteq> pid" for pid
proof (unfold_locales, goal_cases)
  case (1 w w')
  then show ?case by (simp add: core_same_def stranger_def)
next
  case (2 w cb period rep)
  then show ?case by (simp add: stranger_def CreateTimer_def)
qed ((rule stranger_cong [THEN iffD2], rule frame_world(3), rule frames, assumption)
  | (auto simp: stranger_def same_account_def members.add_content Remove_def delete_conv'; fail))+

text \<open>A registered player cannot register again.\<close>

lemma Profile_Create_twice:
  assumes "map_of (profiles w) pid = Some p" and "\<not> IsEmpty p"
  shows "\<exists>e. fst (Profile_Create pid n t w) = Inl e"
proof -
  let ?w = "w\<lparr>db := (db w)\<lparr>db_oids := Suc (db_oids (db w))\<rparr>\<rparr>"
  have "Create d b (p, db ?w) = (Inl (RuntimeError ''Object already exists''), p, db ?w)" for d b
    using assms(2) by (simp add: Create_def IsEmpty_def seq_def gets_def throw_def)
  then have "onProfile pid (Create d b) ?w = (Inl (RuntimeError ''Object already exists''), ?w\<lparr>profiles := setMember pid p (profiles w)\<rparr>)" for d b
    using assms(1) by (simp add: onMember_def)
  then show ?thesis
    by (auto simp: Profile_Create_def onDB_def genOID_def codec_def ask_def digest_def prog_defs Let_def split: option.splits)
qed

lemma register_twice:
  assumes "stranger pid w" and "map_of (profiles w) pid = Some p" and "\<not> IsEmpty p"
  shows "stranger pid (snd (DlgRegister pid t w))"
proof -
  let ?n = "q_name (samp (env w) (out w)) pid"
  let ?err = "\<lambda>msg. andthen (SendChatMessage pid COLOR_ERROR msg) (ret False)"
  obtain e w1 where c: "Profile_Create pid ?n t w = (Inl e, w1)" using Profile_Create_twice [OF assms(2,3)] by (metis prod.collapse)
  then have "seq (ask (\<lambda>s. q_name s pid)) (\<lambda>n. andthen (Profile_Create pid n t) rest) w = (Inl e, w1)" for rest :: "bool wprog"
    by (simp add: seq_def andthen_def ask_def gets_def)
  then have "DlgRegister pid t w = seq (if t = [] then andthen (SendChatMessage pid COLOR_ERROR txt_password_empty) (ret False)
      else caught ?err txt_register_failed (seq (ask (\<lambda>s. q_name s pid)) (\<lambda>n. andthen (Profile_Create pid n t) (ret True))))
     (\<lambda>done. if done then ret () else Show DIALOG_PROFILE_REGISTER txt_enter_password pid False) w"
    by (simp add: DlgRegister_def seq_def caught_def tryCatch_def)
  then show ?thesis using keepsD [OF stranger.keeps_refused_dialogs(1) assms(1)] by simp
qed

lemma login_refused:
  assumes "stranger pid w" and "fst (AuthPassword pid t w) \<noteq> Inr True"
  shows "stranger pid (snd (DlgLogin pid t w))"
proof -
  have "DlgLogin pid t w = seq (AuthPassword pid t) (\<lambda>ok. andthen (Show DIALOG_PROFILE_LOGIN txt_enter_password pid False)
     (throw (RuntimeError txt_wrong_password))) w"
    using assms(2) by (auto simp: DlgLogin_def seq_def split: prod.splits sum.splits)
  then show ?thesis using keepsD [OF stranger.keeps_refused_dialogs(2) assms(1)] by simp
qed

text \<open>C2. Nobody is signed in without a password. If a player who is not signed in is signed in after an event, whatever the event and
  whatever the world, then the event is his own answer to the login dialog, with a text whose digest is the one stored for his account, or his
  answer to the registration dialog, and he had no account.\<close>

theorem sign_in_needs_password:
  assumes "stranger pid w" and "handle ev w = (r, w')" and "\<not> stranger pid w'"
  shows "\<exists>p d n item t. map_of (profiles w) pid = Some p \<and> ev = DialogResponse pid d n item t \<and>
    (d = DIALOG_PROFILE_LOGIN \<and> GetPasswordDigest (GBKToUTF8 (env w) t) = Some (au_passwordhash (p_auth p)) \<or>
     d = DIALOG_PROFILE_REGISTER \<and> IsEmpty p)"
proof -
  have "sign_in_event ev pid"
    using stranger.keeps_handle [of ev pid] assms keepsD [of "stranger pid" "handle ev" w] by (metis snd_conv)
  then obtain d n item t where ev: "ev = DialogResponse pid d n item t" and d: "d = DIALOG_PROFILE_REGISTER \<or> d = DIALOG_PROFILE_LOGIN"
    by (auto simp: sign_in_event_def)
  have bad: "\<not> stranger pid (snd (dialog_callback d pid item t w))" and "map_of (profiles w) pid \<noteq> None"
  proof -
    obtain x w1 where run: "DlgMgr_Exec pid (n = 1) d item t w = (x, w1)" by fastforce
    have rep: "snd (reported pid other m w) = snd (m w) \<or> (\<exists>c. snd (reported pid other m w) = (snd (m w))\<lparr>out := c # out (snd (m w))\<rparr>)" for other m
      by (auto simp: reported_def caught_def tryCatch_def native_def modify_def throw_def split: prod.splits sum.splits exn.splits)
    have "stranger pid w1 \<Longrightarrow> stranger pid w'"
      using rep [of txt_dialog_error "DlgMgr_Exec pid (n = 1) d item t"] run assms(2)
      by (auto simp: ev handle_def OnDialogResponse_def stranger_def)
    with assms(3) have "\<not> stranger pid w1" by blast
    then show "\<not> stranger pid (snd (dialog_callback d pid item t w))" "map_of (profiles w) pid \<noteq> None"
      using run d assms(1) by (auto simp: DlgMgr_Exec_def andthen_def seq_def getRef_def Get_def ret_def throw_def split: option.splits if_splits sum.splits)
  qed
  then obtain p where p: "map_of (profiles w) pid = Some p" by blast
  from d show ?thesis
  proof
    assume r: "d = DIALOG_PROFILE_REGISTER"
    then have "dialog_callback d pid item t = DlgRegister pid t" by (simp add: dialog_callback_def)
    then show ?thesis using bad register_twice [OF assms(1) p] p ev r by auto
  next
    assume l: "d = DIALOG_PROFILE_LOGIN"
    then have "dialog_callback d pid item t = DlgLogin pid t" by (simp add: dialog_callback_def)
    then have "fst (AuthPassword pid t w) = Inr True" using bad login_refused [OF assms(1)] by metis
    then show ?thesis using p ev l
      by (auto simp: AuthPassword_def codec_def digest_def prog_defs readMember_def split: option.splits)
  qed
qed

definition demo_login :: world where
  "demo_login = demo_world\<lparr>profiles := [(1, p_auth_update (au_passwordhash_update (\<lambda>_. the (GetPasswordDigest ''secret''))) (demo_profile 1 11))]\<rparr>"

lemma demo_login_runs: "stranger 1 demo_login" "\<not> stranger 1 (snd (handle (DialogResponse 1 DIALOG_PROFILE_LOGIN 1 0 ''secret'') demo_login))"
proof -
  obtain h where h: "GetPasswordDigest ''secret'' = Some h" using digest_exists [of "''secret''"] by auto
  show "stranger 1 demo_login"
    by (simp add: stranger_def demo_login_def demo_profile_def new_profile_def profile.defs saveable.defs)
  show "\<not> stranger 1 (snd (handle (DialogResponse 1 DIALOG_PROFILE_LOGIN 1 0 ''secret'') demo_login))"
    by (simp add: handle_def OnDialogResponse_def DlgMgr_Exec_def dialogs_def dialog_callback_def DlgLogin_def AuthPassword_def codec_eval digest_def h
        stranger_def demo_login_def demo_profile_def new_profile_def profile.defs demo_env_def demo_eval reported_def caught_def
        getRef_def Get_def readMember_def modMember_def SetSignedIn_def config_def CreateTimer_def ApplyDataToPlayer_def onMember_def
        LoadMemberData_def catchUser_def getSub_def bindR_def assign_def getField_def bson_field_def native_def setMember_def)
qed

theorem sign_in_needs_password_witness:
  "\<exists>p d n item t. map_of (profiles demo_login) 1 = Some p \<and> DialogResponse 1 DIALOG_PROFILE_LOGIN 1 0 ''secret'' = DialogResponse 1 d n item t \<and>
    (d = DIALOG_PROFILE_LOGIN \<and> GetPasswordDigest (GBKToUTF8 (env demo_login) t) = Some (au_passwordhash (p_auth p)) \<or>
     d = DIALOG_PROFILE_REGISTER \<and> IsEmpty p)"
  by (rule sign_in_needs_password [OF demo_login_runs(1) prod.collapse [symmetric] demo_login_runs(2)])

end
