(* ===== verification/Streaming_Correct.thy ===== *)
theory Streaming_Correct
  imports Streamer_Correct
begin

text \<open>
  What an update of a player comes to: the areas he is in and what is reported of them, the checkpoint he is given, the map
  icons, objects and labels he is shown and their limits, and the server's pickups.
\<close>

section \<open>Areas\<close>

lemma internal_see [simp]: "sp_internalAreas (see_item k f p) = sp_internalAreas p"
  by (simp add: see_item_def split: prod.split)

lemma inside_see [simp]: "inside_area g (see_item k f p) = inside_area g p"
  by (simp add: see_item_def inside_area_def admits_def fun_eq_iff split: prod.split)

lemma inside_internal [simp]: "inside_area g (p\<lparr>sp_internalAreas := xs\<rparr>) = inside_area g p"
  by (simp add: inside_area_def admits_def fun_eq_iff)

lemma visitArea_spec:
  assumes "visitArea g (i, r, e) p = (p', xs)"
  shows "inside_area g p' = inside_area g p"
    and "j \<in> set (sp_internalAreas p') \<longleftrightarrow> (if j = i then inside_area g p i e else j \<in> set (sp_internalAreas p))"
    and "xs = (if inside_area g p i e \<noteq> (i \<in> set (sp_internalAreas p)) then [(inside_area g p i e, i)] else [])"
  using assms by (auto simp: visitArea_def split: if_splits)

lemma visitAreas_spec:
  assumes "visitAreas g fs p = (p', xs)" and "distinct (map fst fs)"
  shows "inside_area g p' = inside_area g p"
    and "(i, r, e) \<in> set fs \<Longrightarrow> i \<in> set (sp_internalAreas p') \<longleftrightarrow> inside_area g p i e"
    and "i \<notin> fst ` set fs \<Longrightarrow> i \<in> set (sp_internalAreas p') \<longleftrightarrow> i \<in> set (sp_internalAreas p)"
    and "(b, i) \<in> set xs \<longleftrightarrow> b = (i \<in> set (sp_internalAreas p')) \<and> b \<noteq> (i \<in> set (sp_internalAreas p))"
    and "distinct xs"
proof -
  have "inside_area g p' = inside_area g p
    \<and> (\<forall>i r e. (i, r, e) \<in> set fs \<longrightarrow> (i \<in> set (sp_internalAreas p') \<longleftrightarrow> inside_area g p i e))
    \<and> (\<forall>i. i \<notin> fst ` set fs \<longrightarrow> (i \<in> set (sp_internalAreas p') \<longleftrightarrow> i \<in> set (sp_internalAreas p)))
    \<and> (\<forall>b i. (b, i) \<in> set xs \<longleftrightarrow> b = (i \<in> set (sp_internalAreas p')) \<and> b \<noteq> (i \<in> set (sp_internalAreas p))) \<and> distinct xs"
    using assms
  proof (induction fs arbitrary: p xs)
    case Nil
    then show ?case by auto
  next
    case (Cons f fs)
    obtain i r e where f: "f = (i, r, e)" by (cases f)
    obtain p1 xs1 where one: "visitArea g f p = (p1, xs1)" by fastforce
    obtain xs2 where rest: "visitAreas g fs p1 = (p', xs2)" "xs = xs1 @ xs2"
      using Cons.prems(1) one by (auto split: prod.splits)
    from Cons.prems(2) have d: "distinct (map fst fs)" and i: "i \<notin> fst ` set fs" by (auto simp: f)
    note IH = Cons.IH [OF rest(1) d]
    note V = visitArea_spec [OF one [unfolded f]]
    have here: "i \<in> set (sp_internalAreas p') \<longleftrightarrow> inside_area g p i e" using IH i V(2) [of i] by auto
    have other: "j \<in> set (sp_internalAreas p1) \<longleftrightarrow> j \<in> set (sp_internalAreas p)" if "j \<noteq> i" for j using V(2) [of j] that by simp
    have none: "(b, i) \<notin> set xs2" for b using IH here V(2) [of i] by auto
    have changed: "(b, j) \<in> set xs \<longleftrightarrow> b = (j \<in> set (sp_internalAreas p')) \<and> b \<noteq> (j \<in> set (sp_internalAreas p))" for b j
    proof (cases "j = i")
      case True
      then show ?thesis using none here by (auto simp: rest(2) V(3))
    next
      case False
      then show ?thesis using IH other [OF False] by (auto simp: rest(2) V(3))
    qed
    have "inside_area g p' = inside_area g p" using IH V(1) by simp
    moreover have "\<forall>j r e. (j, r, e) \<in> set (f # fs) \<longrightarrow> (j \<in> set (sp_internalAreas p') \<longleftrightarrow> inside_area g p j e)"
      using IH here V(1) by (auto simp: f)
    moreover have "\<forall>j. j \<notin> fst ` set (f # fs) \<longrightarrow> (j \<in> set (sp_internalAreas p') \<longleftrightarrow> j \<in> set (sp_internalAreas p))"
      using IH other by (auto simp: f)
    moreover have "distinct xs" using IH none by (auto simp: rest(2) V(3))
    ultimately show ?case using changed by blast
  qed
  then show "inside_area g p' = inside_area g p"
    and "(i, r, e) \<in> set fs \<Longrightarrow> i \<in> set (sp_internalAreas p') \<longleftrightarrow> inside_area g p i e"
    and "i \<notin> fst ` set fs \<Longrightarrow> i \<in> set (sp_internalAreas p') \<longleftrightarrow> i \<in> set (sp_internalAreas p)"
    and "(b, i) \<in> set xs \<longleftrightarrow> b = (i \<in> set (sp_internalAreas p')) \<and> b \<noteq> (i \<in> set (sp_internalAreas p))"
    and "distinct xs" by blast+
qed

text \<open>C8. When the areas around a player are looked at (each of them once), he is afterwards in exactly those that admit him, are
  not disabled for him and contain his position; the areas elsewhere do not change; and the callbacks are called for exactly the
  changes, each once, first for the areas he has left and then for those he has entered, after his record is up to date.\<close>

theorem area_events:
  assumes "map_of (s_players w) q = Some p" and "distinct (map fst (cell_entries KArea cs w))"
  shows "\<exists>p' xs. processAreas enter leave q cs w
      = forEach xs (\<lambda>(entered, i). if entered then enter q i else leave q i) (w\<lparr>s_players := setMember q p' (s_players w)\<rparr>)
    \<and> (\<forall>i r e. (i, r, e) \<in> set (cell_entries KArea cs w) \<longrightarrow> (i \<in> set (sp_internalAreas p') \<longleftrightarrow> inside_area (geo (env w)) p i e))
    \<and> (\<forall>i. i \<notin> fst ` set (cell_entries KArea cs w) \<longrightarrow> (i \<in> set (sp_internalAreas p') \<longleftrightarrow> i \<in> set (sp_internalAreas p)))
    \<and> set xs = {(b, i). b = (i \<in> set (sp_internalAreas p')) \<and> b \<noteq> (i \<in> set (sp_internalAreas p))}
    \<and> distinct xs \<and> sorted (map fst xs)"
proof -
  obtain p' xs where v: "visitAreas (geo (env w)) (cell_entries KArea cs w) p = (p', xs)" by fastforce
  note V = visitAreas_spec [OF v assms(2)]
  let ?xs = "filter (\<lambda>x. \<not> fst x) xs @ filter fst xs"
  have "processAreas enter leave q cs w = forEach ?xs (\<lambda>(entered, i). if entered then enter q i else leave q i)
      (w\<lparr>s_players := setMember q p' (s_players w)\<rparr>)"
    using assms(1) v by (simp add: processAreas_def withPlayer_def setPlayer_def seq_gets andthen_modify)
  moreover have "set ?xs = {(b, i). b = (i \<in> set (sp_internalAreas p')) \<and> b \<noteq> (i \<in> set (sp_internalAreas p))}"
    using V(4) by auto
  moreover have "distinct ?xs" using V(5) by (auto simp: distinct_filter)
  moreover have "sorted (map fst (filter (\<lambda>x. \<not> fst x) xs))" "sorted (map fst (filter fst xs))" by (induction xs) auto
  then have "sorted (map fst ?xs)" by (auto simp: sorted_append)
  ultimately show ?thesis using V(2,3) by blast
qed

text \<open>A player at the origin, and items of each kind there.\<close>

definition demo_player :: splayer where
  "demo_player = (new_splayer 0 (streamer_init demo_host))"

definition demo_item :: "body \<Rightarrow> element" where
  "demo_item b = new_element b 100 100 (- 1) (- 1) (- 1)"

definition demo_streamer :: streamer where
  "demo_streamer = (streamer_init demo_host)\<lparr>s_players := [(0, demo_player)],
     s_items := (\<lambda>k. if k = KArea then [(1, demo_item (Area (Circle (0, 0))))] else if k = KCheckpoint then [(4, demo_item (Checkpoint (1, 0, 0)))]
       else if k = KMapIcon then [(2, demo_item (MapIcon (0, 0, 0) 5 0 0)), (3, demo_item (MapIcon (50, 0, 0) 5 0 0))] else []),
     s_globalCell := (\<lambda>k. if k = KArea then [1] else if k = KCheckpoint then [4] else if k = KMapIcon then [2, 3] else [])\<rparr>"

lemma demo_simps:
  "map_of (s_players demo_streamer) 0 = Some demo_player" "env demo_streamer = demo_env" "sp_position demo_player = (0, 0, 0)"
  "sp_internalAreas demo_player = []" "cell_entries KArea [GlobalCell] demo_streamer = [(1, Live, demo_item (Area (Circle (0, 0))))]"
  "cell_entries KMapIcon [GlobalCell] demo_streamer
    = [(2, Live, demo_item (MapIcon (0, 0, 0) 5 0 0)), (3, Live, demo_item (MapIcon (50, 0, 0) 5 0 0))]"
  "cell_entries KCheckpoint [GlobalCell] demo_streamer = [(4, Live, demo_item (Checkpoint (1, 0, 0)))]"
  "admits demo_player (demo_item b)" "s_visible demo_streamer KMapIcon = 100"
  by (simp_all add: demo_streamer_def demo_player_def new_splayer_def streamer_init_def streamer.defs host.defs demo_host_def cell_entries_def
      cell_content_def live_cell_def item_of_def List.map_filter_def admits_def checkPlayer_def demo_item_def new_element_def
      addToContainer_def addToBitset_def bit_simps)

lemma demo_disabled: "sp_disabledAreas demo_player = []" "sp_disabledCheckpoints demo_player = []" "sp_internalMapIcons demo_player = []"
  "sp_mapIconIdentifier demo_player = ident_new" "sp_visibleCheckpoint demo_player = 0" "sp_playerID demo_player = 0"
  by (simp_all add: demo_player_def new_splayer_def)

theorem area_events_witness:
  "\<exists>p' xs. processAreas (\<lambda>q i. ret ()) (\<lambda>q i. ret ()) 0 [GlobalCell] demo_streamer
      = forEach xs (\<lambda>(entered, i). if entered then ret () else ret ()) (demo_streamer\<lparr>s_players := setMember 0 p' (s_players demo_streamer)\<rparr>)
    \<and> set xs = {(True, 1 :: int)} \<and> 1 \<in> set (sp_internalAreas p')"
proof -
  have "distinct (map fst (cell_entries KArea [GlobalCell] demo_streamer))" by (simp add: demo_simps)
  from area_events [OF demo_simps(1) this, of "\<lambda>q i. ret ()" "\<lambda>q i. ret ()"] obtain p' xs where
    run: "processAreas (\<lambda>q i. ret ()) (\<lambda>q i. ret ()) 0 [GlobalCell] demo_streamer
      = forEach xs (\<lambda>(entered, i). if entered then ret () else ret ()) (demo_streamer\<lparr>s_players := setMember 0 p' (s_players demo_streamer)\<rparr>)"
    and here: "\<forall>i r e. (i, r, e) \<in> set (cell_entries KArea [GlobalCell] demo_streamer) \<longrightarrow>
      (i \<in> set (sp_internalAreas p') \<longleftrightarrow> inside_area (geo (env demo_streamer)) demo_player i e)"
    and other: "\<forall>i. i \<notin> fst ` set (cell_entries KArea [GlobalCell] demo_streamer) \<longrightarrow>
      (i \<in> set (sp_internalAreas p') \<longleftrightarrow> i \<in> set (sp_internalAreas demo_player))"
    and xs: "set xs = {(b, i). b = (i \<in> set (sp_internalAreas p')) \<and> b \<noteq> (i \<in> set (sp_internalAreas demo_player))}" by blast
  have "inside_area (geo (env demo_streamer)) demo_player 1 (demo_item (Area (Circle (0, 0))))"
    unfolding inside_area_def using demo_simps(8)
    by (simp add: demo_simps demo_disabled) (simp add: isPointInArea_def demo_item_def new_element_def attached_position_def demo_env_def
        demo_geometry_def plane_of_def)
  with here have now: "1 \<in> set (sp_internalAreas p')" by (simp add: demo_simps)
  have "i \<notin> set (sp_internalAreas p')" if "i \<noteq> 1" for i using other that by (simp add: demo_simps)
  with now have changes: "set xs = {(True, 1)}" unfolding xs by (auto simp: demo_simps)
  show ?thesis by (rule exI [where x = p'], rule exI [where x = xs], intro conjI) (rule run, rule changes, rule now)
qed

section \<open>Map icons, objects and text labels\<close>

lemma shown_setShown [simp]: "shown_items k (setShown k xs p) = xs"
  by (simp add: shown_items_def setShown_def)

lemma shown_see [simp]: "shown_items k (see_item k' f p) = shown_items k p"
  by (simp add: shown_items_def see_item_def split: prod.split)

lemma shown_unsee [simp]: "shown_items k (unsee k' i p) = shown_items k p"
  by (simp add: shown_items_def unsee_def)

lemma shown_identifier [simp]: "shown_items k (p\<lparr>sp_mapIconIdentifier := x\<rparr>) = shown_items k p"
  by (simp add: shown_items_def)

lemma shown_hide: "shown_items k (snd (hideItem k q i p)) = AList.delete i (shown_items k p)"
proof (cases "map_of (shown_items k p) i")
  case None
  then have "AList.delete i (shown_items k p) = shown_items k p" by (simp add: map_of_None_iff delete_id)
  with None show ?thesis by (simp add: hideItem_def)
qed (simp add: hideItem_def Let_def)

lemma hide_length: "hideItem k q i p = (ns, p') \<Longrightarrow> length (shown_items k p') \<le> length (shown_items k p)"
  using shown_hide [of k q i p] by (simp add: length_delete_le)

lemma shown_evict: "evict k q d ex p = (ns, ex', p') \<Longrightarrow> length (shown_items k p') \<le> length (shown_items k p)"
  by (auto simp: evict_def dest: hide_length split: if_splits prod.splits)

lemma shown_noteLimit [simp]: "shown_items k (noteLimit k p) = shown_items k p"
  by (simp add: shown_items_def noteLimit_def)

text \<open>Showing an item records its native call and nothing else of the world.\<close>

lemma showItem_run:
  "\<exists>n p' ns. showItem k q e p w = (Inr (n, p'), w\<lparr>out := ns @ out w\<rparr>) \<and> shown_items k p' = shown_items k p"
proof -
  have out: "\<exists>ns. w\<lparr>out := xs @ out w\<rparr> = w\<lparr>out := ns @ out w\<rparr>" "\<exists>ns. w\<lparr>out := xs @ ys @ out w\<rparr> = w\<lparr>out := ns @ out w\<rparr>" for xs ys
    by (blast, metis append.assoc)
  show ?thesis
    by (auto simp: showItem_def Let_def andthen_modify seq_gets ask_def ret_def split: prod.split intro: out)
qed

lemma showItems_bound:
  assumes "length (shown_items k p) \<le> s_visible w k"
  shows "\<exists>p' ns. showItems k q xs ex p w = (Inr p', w\<lparr>out := ns @ out w\<rparr>) \<and> length (shown_items k p') \<le> s_visible w k"
  using assms
proof (induction xs arbitrary: ex p w)
  case Nil
  show ?case using Nil by (intro exI [of _ p] exI [of _ "[]"]) (simp add: ret_def)
next
  case (Cons x xs)
  obtain d i r e where x: "x = (d, i, r, e)" by (cases x) auto
  obtain ns ex1 p1 where ev: "(if length (shown_items k p) = show_limit k p w then evict k q d ex p else ([], ex, p)) = (ns, ex1, p1)"
    by (metis prod.exhaust)
  then have le: "length (shown_items k p1) \<le> s_visible w k"
    using Cons.prems shown_evict [of k q d ex p ns ex1 p1] by (auto split: if_splits)
  let ?w1 = "w\<lparr>out := rev ns @ out w\<rparr>"
  have step: "showItems k q (x # xs) ex p w = (if length (shown_items k p1) = s_visible w k then ret (noteLimit k p1)
     else seq (showItem k q e p1) (\<lambda>(n, p). case n of None \<Rightarrow> ret (noteLimit k p)
       | Some n \<Rightarrow> showItems k q xs ex1 (see_item k (i, r, e) (setShown k (snd (Add i n (shown_items k p))) p)))) ?w1"
    using ev by (simp add: x seq_gets andthen_modify Let_def split: prod.splits)
  show ?case
  proof (cases "length (shown_items k p1) = s_visible w k")
    case True
    then show ?thesis using step by (intro exI [of _ "noteLimit k p1"] exI [of _ "rev ns"]) (simp add: ret_def)
  next
    case False
    obtain n p2 ms where run: "showItem k q e p1 ?w1 = (Inr (n, p2), ?w1\<lparr>out := ms @ out ?w1\<rparr>)" "shown_items k p2 = shown_items k p1"
      using showItem_run by blast
    show ?thesis
    proof (cases n)
      case None
      then show ?thesis using step False run le
        by (intro exI [of _ "noteLimit k p2"] exI [of _ "ms @ rev ns"]) (simp add: seq_def ret_def)
    next
      case (Some m)
      let ?p = "see_item k (i, r, e) (setShown k (snd (Add i m (shown_items k p2))) p2)" and ?w2 = "w\<lparr>out := ms @ rev ns @ out w\<rparr>"
      have "length (shown_items k ?p) \<le> s_visible ?w2 k" using False le run(2) by (simp add: Add_def)
      from Cons.IH [OF this, of ex1] obtain p' ns' where
        "showItems k q xs ex1 ?p ?w2 = (Inr p', ?w2\<lparr>out := ns' @ out ?w2\<rparr>)" "length (shown_items k p') \<le> s_visible ?w2 k" by blast
      then show ?thesis using step False run Some
        by (intro exI [of _ p'] exI [of _ "ns' @ ms @ rev ns"]) (simp add: seq_def)
    qed
  qed
qed

text \<open>What the scan of the items finds, when each is met once.\<close>

lemma distance_of_cong:
  "admits p' = admits p \<Longrightarrow> (\<And>i. disabled_for k i p' = disabled_for k i p) \<Longrightarrow> sp_position p' = sp_position p
    \<Longrightarrow> distance_of g k p' = distance_of g k p"
  by (simp add: distance_of_def fun_eq_iff)

definition same_view :: "splayer \<Rightarrow> splayer \<Rightarrow> bool" where
  "same_view p p' \<longleftrightarrow> admits p' = admits p \<and> sp_position p' = sp_position p \<and> sp_disabledAreas p' = sp_disabledAreas p
     \<and> sp_disabledCheckpoints p' = sp_disabledCheckpoints p \<and> sp_disabledRaceCheckpoints p' = sp_disabledRaceCheckpoints p"

lemma same_view_simps [simp]:
  "same_view p p" "same_view p (see_item k f p)" "same_view p (unsee k i p)" "same_view p (setShown k xs p)"
  "same_view p (p\<lparr>sp_mapIconIdentifier := x\<rparr>)" "same_view p (setShown k xs (p\<lparr>sp_mapIconIdentifier := x\<rparr>))"
  by (simp_all add: same_view_def admits_def fun_eq_iff see_item_def unsee_def setShown_def split: prod.split)

lemma same_view_trans: "same_view p q \<Longrightarrow> same_view q r \<Longrightarrow> same_view p r"
  by (simp add: same_view_def)

lemma same_view_distance: "same_view p p' \<Longrightarrow> distance_of g k p' = distance_of g k p"
  by (rule distance_of_cong) (simp_all add: same_view_def disabled_for_def split: kind.split)

lemma same_view_hide [simp]: "same_view p (snd (hideItem k q i p))"
  by (simp add: hideItem_def Let_def split: option.split)

definition reachable_item :: "geometry \<Rightarrow> kind \<Rightarrow> splayer \<Rightarrow> found \<Rightarrow> bool" where
  "reachable_item g k p f = (case f of (i, r, e) \<Rightarrow> within_reach (distance_of g k p i e) e)"

lemma scanItems_spec:
  assumes "distinct (map fst fs)"
  shows "same_view p (sc_player (scanItems g k q fs p))
    \<and> map_of (shown_items k (sc_player (scanItems g k q fs p))) = (\<lambda>i. if \<exists>r e. (i, r, e) \<in> set fs \<and> \<not> reachable_item g k p (i, r, e)
        then None else map_of (shown_items k p) i)
    \<and> map snd (sc_new (scanItems g k q fs p)) = filter (\<lambda>f. reachable_item g k p f \<and> map_of (shown_items k p) (fst f) = None) fs
    \<and> map snd (sc_existing (scanItems g k q fs p)) = filter (\<lambda>f. reachable_item g k p f \<and> map_of (shown_items k p) (fst f) \<noteq> None) fs"
  using assms
proof (induction fs rule: rev_induct)
  case Nil
  then show ?case by (simp add: scanItems_def)
next
  case (snoc f fs)
  obtain i r e where f: "f = (i, r, e)" by (cases f)
  let ?s = "scanItems g k q fs p"
  have s: "scanItems g k q (fs @ [f]) p = scanItem g k q ?s f" by (simp add: scanItems_def)
  from snoc.prems have d: "distinct (map fst fs)" and i: "\<And>r e. (i, r, e) \<notin> set fs" by (force simp: f)+
  note IH = snoc.IH [OF d]
  have dist: "distance_of g k (sc_player ?s) = distance_of g k p" by (rule same_view_distance) (use IH in blast)
  have here: "map_of (shown_items k (sc_player ?s)) i = map_of (shown_items k p) i" using IH i by auto
  show ?case
  proof (cases "reachable_item g k p f")
    case True
    then have w: "within_reach (distance_of g k (sc_player ?s) i e) e" by (simp add: reachable_item_def f dist)
    show ?thesis
    proof (cases "map_of (shown_items k p) i")
      case None
      then have "scanItem g k q ?s f = ?s\<lparr>sc_new := sc_new ?s @ [(the (distance_of g k p i e), f)]\<rparr>"
        using w here by (simp add: scanItem_def f Let_def dist)
      with IH True None i show ?thesis unfolding s by (auto simp: f fun_eq_iff)
    next
      case (Some n)
      then have "scanItem g k q ?s f = ?s\<lparr>sc_player := see_item k f (sc_player ?s), sc_existing := sc_existing ?s @ [(the (distance_of g k p i e), f)]\<rparr>"
        using w here by (simp add: scanItem_def f Let_def dist)
      with IH True Some i show ?thesis unfolding s by (auto simp: f fun_eq_iff intro: same_view_trans)
    qed
  next
    case False
    then have w: "\<not> within_reach (distance_of g k (sc_player ?s) i e) e" by (simp add: reachable_item_def f dist)
    obtain ns p1 where h: "hideItem k q i (sc_player ?s) = (ns, p1)" by fastforce
    have sh: "shown_items k p1 = AList.delete i (shown_items k (sc_player ?s))" using shown_hide [of k q i "sc_player ?s"] h by simp
    have v: "same_view (sc_player ?s) p1" using same_view_hide [of "sc_player ?s" k q i] h by simp
    have eq: "scanItem g k q ?s f = ?s\<lparr>sc_natives := sc_natives ?s @ ns, sc_player := p1\<rparr>"
      using w h by (simp add: scanItem_def f Let_def)
    have "map_of (shown_items k p1) = (map_of (shown_items k (sc_player ?s)))(i := None)" by (simp add: sh map_of_delete)
    moreover have "same_view p p1" using IH v by (blast intro: same_view_trans)
    ultimately show ?thesis unfolding s eq using IH False i by (auto simp: f fun_eq_iff)
  qed
qed

lemma scan_length: "length (shown_items k (sc_player (scanItems g k q fs p))) \<le> length (shown_items k p)"
proof (induction fs rule: rev_induct)
  case (snoc f fs)
  obtain i r e where f: "f = (i, r, e)" by (cases f)
  obtain ns p1 where h: "hideItem k q i (sc_player (scanItems g k q fs p)) = (ns, p1)" by fastforce
  with hide_length [OF h] snoc show ?case by (simp add: scanItems_def scanItem_def f Let_def)
qed (simp add: scanItems_def)

lemma processItems_run:
  assumes "map_of (s_players w) q = Some p" and "s = scanItems (geo (env w)) k q (cell_entries k cs w) p"
    and "showItems k q (sort_key fst (sc_new s)) (sort_key fst (sc_existing s)) (sc_player s) (w\<lparr>out := rev (sc_natives s) @ out w\<rparr>) = (Inr p', w1)"
  shows "processItems k q cs w = (Inr (), w1\<lparr>s_players := setMember q p' (s_players w1)\<rparr>)"
  using assms by (simp add: processItems_def withPlayer_def seq_gets andthen_modify) (simp add: seq_def setPlayer_def modify_def)



subsection \<open>Map icons\<close>

text \<open>A player's map icons have ids of their own, handed out by his \<^verbatim>\<open>mapIconIdentifier\<close>.\<close>

definition slots_ok :: "splayer \<Rightarrow> bool" where
  "slots_ok p \<longleftrightarrow> distinct (map fst (sp_internalMapIcons p)) \<and> distinct (map snd (sp_internalMapIcons p))
     \<and> ident_inv (sp_mapIconIdentifier p) (snd ` set (sp_internalMapIcons p))"

lemma slots_see [simp]: "slots_ok (see_item k f p) = slots_ok p"
  by (simp add: slots_ok_def see_item_def split: prod.split)

lemma shown_icons: "shown_items KMapIcon p = sp_internalMapIcons p"
  by (simp add: shown_items_def)

lemma snd_delete:
  assumes "distinct (map fst xs)" and "distinct (map snd xs)" and "map_of xs i = Some n"
  shows "snd ` set (AList.delete i xs) = snd ` set xs - {n} \<and> distinct (map snd (AList.delete i xs))"
proof -
  have inj: "inj_on fst (set xs)" "inj_on snd (set xs)" using assms by (simp_all add: distinct_map)
  have mem: "(i, n) \<in> set xs" using assms(3) by (rule map_of_SomeD)
  have "set (AList.delete i xs) = {x \<in> set xs. fst x \<noteq> i}" by (auto simp: AList.delete_eq)
  also have "\<dots> = set xs - {(i, n)}" using inj_onD [OF inj(1) _ mem] by (force simp: mem)
  finally have "snd ` set (AList.delete i xs) = snd ` set xs - {n}" using inj(2) mem by (simp add: inj_on_image_set_diff [of _ "set xs"])
  then show ?thesis using assms(2) by (simp add: AList.delete_eq distinct_map_filter)
qed

lemma slots_hide: "slots_ok p \<Longrightarrow> slots_ok (snd (hideItem KMapIcon q i p))"
proof (cases "map_of (sp_internalMapIcons p) i")
  case None
  then show "slots_ok p \<Longrightarrow> slots_ok (snd (hideItem KMapIcon q i p))" by (simp add: hideItem_def shown_icons)
next
  case (Some n)
  assume ok: "slots_ok p"
  let ?xs = "sp_internalMapIcons p"
  have n: "n \<in> snd ` set ?xs" using Some by (force dest: map_of_SomeD)
  have card: "length ?xs = card (snd ` set ?xs)" using ok by (metis slots_ok_def distinct_card length_map set_map)
  have "ident_inv (ident_remove n (length ?xs) (sp_mapIconIdentifier p)) (snd ` set ?xs - {n})"
    unfolding card using ok n by (intro ident_remove_ok) (simp_all add: slots_ok_def)
  with ok snd_delete [of ?xs i n] Some show ?thesis
    by (simp add: hideItem_def shown_icons Let_def slots_ok_def setShown_def)
qed

lemma slots_scan: "slots_ok p \<Longrightarrow> slots_ok (sc_player (scanItems g KMapIcon q fs p))"
proof (induction fs rule: rev_induct)
  case (snoc f fs)
  obtain i r e where f: "f = (i, r, e)" by (cases f)
  obtain ns p1 where h: "hideItem KMapIcon q i (sc_player (scanItems g KMapIcon q fs p)) = (ns, p1)" by fastforce
  with slots_hide [of "sc_player (scanItems g KMapIcon q fs p)" q i] snoc show ?case
    by (simp add: scanItems_def scanItem_def f Let_def)
qed (simp add: scanItems_def)

text \<open>With room for all, every new icon is shown, each with an id of its own.\<close>

lemma showItems_icons:
  assumes "length (sp_internalMapIcons p) + length xs \<le> s_visible w KMapIcon" and "slots_ok p"
    and "distinct (map (fst \<circ> snd) xs)" and "\<forall>i \<in> (fst \<circ> snd) ` set xs. i \<notin> fst ` set (sp_internalMapIcons p)"
  shows "\<exists>p' ns. showItems KMapIcon q xs ex p w = (Inr p', w\<lparr>out := ns @ out w\<rparr>) \<and> slots_ok p'
    \<and> fst ` set (sp_internalMapIcons p') = fst ` set (sp_internalMapIcons p) \<union> (fst \<circ> snd) ` set xs"
  using assms
proof (induction xs arbitrary: p w)
  case Nil
  then show ?case by (intro exI [of _ p] exI [of _ "[]"]) (simp add: ret_def)
next
  case (Cons x xs)
  obtain d i r e where x: "x = (d, i, r, e)" by (cases x) auto
  obtain n ids where get: "ident_get (sp_mapIconIdentifier p) = (n, ids)" by fastforce
  let ?ns = "rev (create_native q n e)"
  let ?p = "see_item KMapIcon (i, r, e) (setShown KMapIcon (sp_internalMapIcons p @ [(i, n)]) (p\<lparr>sp_mapIconIdentifier := ids\<rparr>))"
  let ?w = "w\<lparr>out := ?ns @ out w\<rparr>"
  from Cons.prems have fresh: "i \<notin> fst ` set (sp_internalMapIcons p)" and room: "length (sp_internalMapIcons p) \<noteq> s_visible w KMapIcon"
    by (auto simp: x)
  have step: "showItems KMapIcon q (x # xs) ex p w = showItems KMapIcon q xs ex ?p ?w"
    using room fresh by (simp add: x seq_gets andthen_modify Let_def show_limit_def shown_icons showItem_def get seq_def [of "andthen _ _"]
      andthen_def [of "modify _" "ret _"]) (simp add: seq_def modify_def ret_def Add_def IsExist_def map_of_None_iff shown_items_def)
  have icons: "sp_internalMapIcons ?p = sp_internalMapIcons p @ [(i, n)]" using shown_icons [of ?p] by simp
  have "n \<notin> snd ` set (sp_internalMapIcons p) \<and> ident_inv ids (insert n (snd ` set (sp_internalMapIcons p)))"
    using ident_get_ok [of "sp_mapIconIdentifier p" "snd ` set (sp_internalMapIcons p)"] Cons.prems(2) get by (simp add: slots_ok_def)
  with Cons.prems(2) fresh have slots: "slots_ok ?p"
    unfolding slots_see by (simp add: slots_ok_def setShown_def)
  have room': "length (sp_internalMapIcons ?p) + length xs \<le> s_visible ?w KMapIcon" using Cons.prems(1) by (simp add: icons)
  have d': "distinct (map (fst \<circ> snd) xs)" "\<forall>i \<in> (fst \<circ> snd) ` set xs. i \<notin> fst ` set (sp_internalMapIcons ?p)"
    using Cons.prems(3,4) by (auto simp: x icons comp_def)
  from Cons.IH [OF room' slots d'] obtain p' ns where
    "showItems KMapIcon q xs ex ?p ?w = (Inr p', ?w\<lparr>out := ns @ out ?w\<rparr>)" "slots_ok p'"
    "fst ` set (sp_internalMapIcons p') = fst ` set (sp_internalMapIcons ?p) \<union> (fst \<circ> snd) ` set xs" by blast
  then show ?case unfolding step by (intro exI [of _ p'] exI [of _ "ns @ ?ns"]) (simp add: icons x)
qed

lemma icons_scan:
  assumes d: "distinct (map fst fs)" and s: "s = scanItems g KMapIcon q fs p" and R: "R = fst ` {f \<in> set fs. reachable_item g KMapIcon p f}"
  shows "fst ` set (sp_internalMapIcons (sc_player s)) = (fst ` set (sp_internalMapIcons p) - fst ` set fs) \<union> (fst ` set (sp_internalMapIcons p) \<inter> R)"
    and "(fst \<circ> snd) ` set (sc_new s) = R - fst ` set (sp_internalMapIcons p)"
    and "distinct (map (fst \<circ> snd) (sc_new s))"
proof -
  let ?keys = "fst ` set (sp_internalMapIcons p)"
  note spec = scanItems_spec [OF d, of p g KMapIcon q, folded s, unfolded shown_icons]
  have unique: "reachable_item g KMapIcon p f \<longleftrightarrow> fst f \<in> R" if "f \<in> set fs" for f
  proof -
    have "inj_on fst (set fs)" using d by (simp add: distinct_map)
    with that show ?thesis by (auto simp: R dest: inj_onD)
  qed
  have "i \<in> fst ` set (sp_internalMapIcons (sc_player s)) \<longleftrightarrow> i \<in> (?keys - fst ` set fs) \<union> (?keys \<inter> R)" for i
  proof -
    have "i \<in> fst ` set (sp_internalMapIcons (sc_player s)) \<longleftrightarrow> map_of (sp_internalMapIcons (sc_player s)) i \<noteq> None"
      by (simp add: map_of_None_iff)
    also have "\<dots> \<longleftrightarrow> \<not> (\<exists>r e. (i, r, e) \<in> set fs \<and> \<not> reachable_item g KMapIcon p (i, r, e)) \<and> i \<in> ?keys"
      unfolding conjunct1 [OF conjunct2 [OF spec]] using map_of_None_iff [of "sp_internalMapIcons p" i] by (simp del: not_None_eq)
    also have "\<dots> \<longleftrightarrow> \<not> (\<exists>r e. (i, r, e) \<in> set fs \<and> i \<notin> R) \<and> i \<in> ?keys" using unique by auto
    also have "\<dots> \<longleftrightarrow> i \<in> (?keys - fst ` set fs) \<union> (?keys \<inter> R)" by (force simp: R)
    finally show ?thesis .
  qed
  then show "fst ` set (sp_internalMapIcons (sc_player s)) = (?keys - fst ` set fs) \<union> (?keys \<inter> R)" by blast
  have new: "map snd (sc_new s) = filter (\<lambda>f. fst f \<in> R \<and> fst f \<notin> ?keys) fs"
    using spec unique by (auto simp: map_of_None_iff intro: filter_cong)
  have "(fst \<circ> snd) ` set (sc_new s) = fst ` set (map snd (sc_new s))" by (simp add: image_comp)
  also have "\<dots> = R - ?keys" unfolding new by (force simp: R)
  finally show "(fst \<circ> snd) ` set (sc_new s) = R - ?keys" .
  have "distinct (map fst (map snd (sc_new s)))" unfolding new using d by (rule distinct_map_filter)
  then show "distinct (map (fst \<circ> snd) (sc_new s))" by simp
qed

text \<open>C10. When the map icons of the cells around a player and those he is shown from elsewhere fit his limit, he is shown after the update
  exactly the icons within reach among those looked at, those from elsewhere stay, and every icon has an id of its own.\<close>

theorem icons_shown:
  assumes "map_of (s_players w) q = Some p" and "slots_ok p" and "distinct (map fst (cell_entries KMapIcon cs w))"
    and "card (fst ` set (sp_internalMapIcons p) - fst ` set (cell_entries KMapIcon cs w))
      + card (fst ` {f \<in> set (cell_entries KMapIcon cs w). reachable_item (geo (env w)) KMapIcon p f}) \<le> s_visible w KMapIcon"
  shows "\<exists>w' p'. processMapIcons q cs w = (Inr (), w') \<and> map_of (s_players w') q = Some p' \<and> slots_ok p'
    \<and> fst ` set (sp_internalMapIcons p') = fst ` {f \<in> set (cell_entries KMapIcon cs w). reachable_item (geo (env w)) KMapIcon p f}
        \<union> (fst ` set (sp_internalMapIcons p) - fst ` set (cell_entries KMapIcon cs w))"
proof -
  let ?fs = "cell_entries KMapIcon cs w" and ?keys = "fst ` set (sp_internalMapIcons p)"
  define s where "s = scanItems (geo (env w)) KMapIcon q ?fs p"
  define R where "R = fst ` {f \<in> set ?fs. reachable_item (geo (env w)) KMapIcon p f}"
  let ?w = "w\<lparr>out := rev (sc_natives s) @ out w\<rparr>" and ?new = "sort_key fst (sc_new s)"
  note scan = icons_scan [OF assms(3) s_def R_def]
  have slots: "slots_ok (sc_player s)" unfolding s_def using assms(2) by (rule slots_scan)
  have new: "(fst \<circ> snd) ` set ?new = R - ?keys" "distinct (map (fst \<circ> snd) ?new)"
    using scan(2,3) by (simp_all add: distinct_map)
  have "length (sp_internalMapIcons (sc_player s)) = card (fst ` set (sp_internalMapIcons (sc_player s)))"
    using slots by (metis slots_ok_def distinct_card length_map set_map)
  also have "\<dots> \<le> card (?keys - fst ` set ?fs) + card (?keys \<inter> R)" unfolding scan(1) by (rule card_Un_le)
  finally have old: "length (sp_internalMapIcons (sc_player s)) \<le> card (?keys - fst ` set ?fs) + card (?keys \<inter> R)" .
  have "length ?new = card (R - ?keys)" using distinct_card [OF new(2)] new(1) by simp
  moreover have "card R = card (?keys \<inter> R) + card (R - ?keys)" by (subst card_Int_Diff [of R ?keys]) (simp_all add: R_def Int_commute)
  ultimately have room: "length (sp_internalMapIcons (sc_player s)) + length ?new \<le> s_visible ?w KMapIcon"
    using old assms(4) by (simp add: R_def [symmetric])
  have "\<forall>i \<in> (fst \<circ> snd) ` set ?new. i \<notin> fst ` set (sp_internalMapIcons (sc_player s))" unfolding new(1) scan(1) by blast
  from showItems_icons [OF room slots new(2) this, of q "sort_key fst (sc_existing s)"] obtain p' ns where
    run: "showItems KMapIcon q ?new (sort_key fst (sc_existing s)) (sc_player s) ?w = (Inr p', ?w\<lparr>out := ns @ out ?w\<rparr>)" and p': "slots_ok p'"
      "fst ` set (sp_internalMapIcons p') = fst ` set (sp_internalMapIcons (sc_player s)) \<union> (fst \<circ> snd) ` set ?new" by blast
  have "fst ` set (sp_internalMapIcons p') = R \<union> (?keys - fst ` set ?fs)" unfolding p'(2) scan(1) new(1) by blast
  with processItems_run [OF assms(1) s_def run] p'(1) show ?thesis
    by (simp add: processMapIcons_def setMember_def map_of_update R_def)
qed

theorem icons_shown_witness:
  "\<exists>w' p'. processMapIcons 0 [GlobalCell] demo_streamer = (Inr (), w') \<and> map_of (s_players w') 0 = Some p'
    \<and> fst ` set (sp_internalMapIcons p') = {2}"
proof -
  let ?i = "\<lambda>x. demo_item (MapIcon (x, 0, 0) 5 0 0)"
  have reach: "reachable_item (geo (env demo_streamer)) KMapIcon demo_player (2, Live, ?i 0)"
    "\<not> reachable_item (geo (env demo_streamer)) KMapIcon demo_player (3, Live, ?i 50)"
    using fl32_of_int [of 2500] by (simp_all add: reachable_item_def distance_of_def demo_simps disabled_for_def) 
     (simp_all add: stream_position_def within_reach_def demo_item_def new_element_def demo_env_def demo_geometry_def fl32_def fl_def)
  then have set: "{f \<in> set (cell_entries KMapIcon [GlobalCell] demo_streamer). reachable_item (geo (env demo_streamer)) KMapIcon demo_player f}
      = {(2, Live, ?i 0)}" by (auto simp: demo_simps)
  have "slots_ok demo_player" by (simp add: slots_ok_def demo_disabled ident.inv_start)
  moreover have "distinct (map fst (cell_entries KMapIcon [GlobalCell] demo_streamer))" by (simp add: demo_simps)
  ultimately show ?thesis using icons_shown [OF demo_simps(1), of "[GlobalCell]"] unfolding set by (simp add: demo_simps demo_disabled) blast
qed

section \<open>Checkpoints\<close>

lemma cp_visible_simps [simp]:
  "cp_visible k (snd (cp_hide k q p)) = 0" "cp_visible k (cp_setVisible k i p) = i" "cp_visible k (see_item k' f p) = cp_visible k p"
  by (simp_all add: cp_visible_def cp_hide_def hideCheckpoint_def hideRaceCheckpoint_def cp_setVisible_def see_item_def split: prod.split)

lemma same_view_cp [simp]: "same_view p (snd (cp_hide k q p))"
  by (simp add: same_view_def admits_def fun_eq_iff cp_hide_def hideCheckpoint_def hideRaceCheckpoint_def)

lemma scanCPs_spec:
  assumes "scanCPs g k q fs p = (ns, p', xs)"
  shows "same_view p p' \<and> xs = map (\<lambda>f. (the (distance_of g k p (fst f) (snd (snd f))), f)) (filter (reachable_item g k p) fs)
    \<and> cp_visible k p' = (if \<exists>f \<in> set fs. \<not> reachable_item g k p f \<and> fst f = cp_visible k p then 0 else cp_visible k p)"
  using assms
proof (induction fs arbitrary: p ns xs)
  case Nil
  then show ?case by simp
next
  case (Cons f fs)
  obtain i r e where f: "f = (i, r, e)" by (cases f)
  let ?hide = "\<not> within_reach (distance_of g k p i e) e \<and> i = cp_visible k p"
  obtain ns1 p1 where one: "(if ?hide then cp_hide k q p else ([], p)) = (ns1, p1)" by (metis prod.exhaust)
  obtain ms xs1 where rest: "scanCPs g k q fs p1 = (ms, p', xs1)"
    "xs = (if within_reach (distance_of g k p i e) e then [(the (distance_of g k p i e), (i, r, e))] else []) @ xs1"
    using Cons.prems one by (auto simp: f Let_def split: prod.splits)
  have v: "same_view p p1" using one same_view_cp [of p k q] by (auto split: if_splits simp: prod_eq_iff)
  have vis: "cp_visible k p1 = (if ?hide then 0 else cp_visible k p)" using one cp_visible_simps(1) [of k q p] by (auto split: if_splits simp: prod_eq_iff)
  have reach: "reachable_item g k p1 = reachable_item g k p" by (simp add: reachable_item_def fun_eq_iff same_view_distance [OF v])
  note IH = Cons.IH [OF rest(1), unfolded reach same_view_distance [OF v]]
  have "same_view p p'" using v IH by (blast intro: same_view_trans)
  moreover have "cp_visible k p' = (if \<exists>f' \<in> set (f # fs). \<not> reachable_item g k p f' \<and> fst f' = cp_visible k p then 0 else cp_visible k p)"
    using IH vis by (auto simp: f reachable_item_def)
  ultimately show ?case using IH by (simp add: rest(2) f reachable_item_def)
qed

lemma chooseCP_visible:
  "cp_visible k (snd (chooseCP k q xs p)) = (case sort_key fst xs of [] \<Rightarrow> cp_visible k p | x # _ \<Rightarrow> fst (snd x))"
  by (auto simp: chooseCP_def Let_def split: list.split prod.split)



section \<open>Pickups\<close>

lemma keepPickups_run:
  assumes "distinct (map fst xs)"
  shows "\<exists>ns. forEach xs (\<lambda>x. modify (keepPickup x)) w = (Inr (), w\<lparr>out := ns @ out w,
        s_internalPickups := filter (\<lambda>(j, _). \<not> (j \<in> fst ` set xs \<and> map_of (s_discoveredPickups w) j = None)) (s_internalPickups w),
        s_discoveredPickups := filter (\<lambda>(j, _). j \<notin> fst ` set xs) (s_discoveredPickups w)\<rparr>)
    \<and> (\<forall>(i, n) \<in> set xs. map_of (s_discoveredPickups w) i = None \<longrightarrow> DestroyPickup n \<in> set ns)"
  using assms
proof (induction xs arbitrary: w)
  case Nil
  show ?case by (intro exI [of _ "[]"]) (simp add: ret_def)
next
  case (Cons x xs)
  obtain i n where x: "x = (i, n)" by fastforce
  from Cons.prems have d: "distinct (map fst xs)" and i: "i \<notin> fst ` set xs" by (simp_all add: x)
  show ?case
  proof (cases "map_of (s_discoveredPickups w) i")
    case None
    let ?w = "w\<lparr>out := DestroyPickup n # out w, s_internalPickups := AList.delete i (s_internalPickups w)\<rparr>"
    from Cons.IH [OF d, of ?w] obtain ns where ns: "forEach xs (\<lambda>x. modify (keepPickup x)) ?w = (Inr (), ?w\<lparr>out := ns @ out ?w,
        s_internalPickups := filter (\<lambda>(j, _). \<not> (j \<in> fst ` set xs \<and> map_of (s_discoveredPickups ?w) j = None)) (s_internalPickups ?w),
        s_discoveredPickups := filter (\<lambda>(j, _). j \<notin> fst ` set xs) (s_discoveredPickups ?w)\<rparr>)"
      "\<forall>(i, n) \<in> set xs. map_of (s_discoveredPickups ?w) i = None \<longrightarrow> DestroyPickup n \<in> set ns" by blast
    have del: "filter (\<lambda>(j, _). \<not> (j \<in> fst ` set xs \<and> map_of (s_discoveredPickups w) j = None)) (AList.delete i (s_internalPickups w))
      = filter (\<lambda>(j, _). \<not> (j \<in> fst ` set (x # xs) \<and> map_of (s_discoveredPickups w) j = None)) (s_internalPickups w)"
      using None by (auto simp: AList.delete_eq x intro!: filter_cong)
    have "i \<notin> fst ` set (s_discoveredPickups w)" using None by (simp add: map_of_None_iff)
    then have disc: "filter (\<lambda>(j, _). j \<notin> fst ` set xs) (s_discoveredPickups w) = filter (\<lambda>(j, _). j \<notin> fst ` set (x # xs)) (s_discoveredPickups w)"
      by (force simp: x intro!: filter_cong)
    have step: "keepPickup x w = ?w" using None by (simp add: keepPickup_def x)
    have run: "forEach (x # xs) (\<lambda>x. modify (keepPickup x)) w = (Inr (), w\<lparr>out := (ns @ [DestroyPickup n]) @ out w,
        s_internalPickups := filter (\<lambda>(j, _). \<not> (j \<in> fst ` set (x # xs) \<and> map_of (s_discoveredPickups w) j = None)) (s_internalPickups w),
        s_discoveredPickups := filter (\<lambda>(j, _). j \<notin> fst ` set (x # xs)) (s_discoveredPickups w)\<rparr>)"
      unfolding forEach.simps andthen_modify step ns(1) del [symmetric] disc [symmetric] by simp
    show ?thesis using run ns(2) None by (intro exI [of _ "ns @ [DestroyPickup n]"] conjI) (simp_all only: , auto simp: x)
  next
    case (Some e)
    let ?w = "w\<lparr>s_discoveredPickups := AList.delete i (s_discoveredPickups w)\<rparr>"
    from Cons.IH [OF d, of ?w] obtain ns where ns: "forEach xs (\<lambda>x. modify (keepPickup x)) ?w = (Inr (), ?w\<lparr>out := ns @ out ?w,
        s_internalPickups := filter (\<lambda>(j, _). \<not> (j \<in> fst ` set xs \<and> map_of (s_discoveredPickups ?w) j = None)) (s_internalPickups ?w),
        s_discoveredPickups := filter (\<lambda>(j, _). j \<notin> fst ` set xs) (s_discoveredPickups ?w)\<rparr>)"
      "\<forall>(i, n) \<in> set xs. map_of (s_discoveredPickups ?w) i = None \<longrightarrow> DestroyPickup n \<in> set ns" by blast
    have other: "map_of (AList.delete i (s_discoveredPickups w)) j = map_of (s_discoveredPickups w) j" if "j \<in> fst ` set xs" for j
      using that i by (auto simp: map_of_delete)
    have int: "filter (\<lambda>(j, _). \<not> (j \<in> fst ` set xs \<and> map_of (AList.delete i (s_discoveredPickups w)) j = None)) (s_internalPickups w)
      = filter (\<lambda>(j, _). \<not> (j \<in> fst ` set (x # xs) \<and> map_of (s_discoveredPickups w) j = None)) (s_internalPickups w)"
      using Some other by (auto simp: x intro!: filter_cong)
    have disc: "filter (\<lambda>(j, _). j \<notin> fst ` set xs) (AList.delete i (s_discoveredPickups w))
      = filter (\<lambda>(j, _). j \<notin> fst ` set (x # xs)) (s_discoveredPickups w)"
      by (auto simp: AList.delete_eq x intro!: filter_cong)
    have step: "keepPickup x w = ?w" using Some by (simp add: keepPickup_def x)
    have "DestroyPickup m \<in> set ns" if "(j, m) \<in> set (x # xs)" "map_of (s_discoveredPickups w) j = None" for j m
      using that ns(2) other [of j] Some by (force simp: x)
    moreover have "forEach (x # xs) (\<lambda>x. modify (keepPickup x)) w = (Inr (), w\<lparr>out := ns @ out w,
        s_internalPickups := filter (\<lambda>(j, _). \<not> (j \<in> fst ` set (x # xs) \<and> map_of (s_discoveredPickups w) j = None)) (s_internalPickups w),
        s_discoveredPickups := filter (\<lambda>(j, _). j \<notin> fst ` set (x # xs)) (s_discoveredPickups w)\<rparr>)"
      unfolding forEach.simps andthen_modify step ns(1) int [symmetric] disc [symmetric] by simp
    ultimately show ?thesis by blast
  qed
qed

lemma createPickups_run:
  assumes "length (s_internalPickups w) + length xs \<le> s_visible w KPickup" and "\<And>ns. q_newpickup (samp (env w) ns) \<noteq> INVALID_ALTERNATE_ID"
    and "distinct (map fst (s_internalPickups w) @ map fst xs)"
  shows "\<exists>ns ms. createPickups xs w = (Inr (), w\<lparr>out := ns @ out w, s_internalPickups := s_internalPickups w @ ms\<rparr>) \<and> map fst ms = map fst xs"
  using assms
proof (induction xs arbitrary: w)
  case Nil
  show ?case by (intro exI [of _ "[]"]) (simp add: ret_def)
next
  case (Cons x xs)
  obtain i e where x: "x = (i, e)" by fastforce
  let ?n = "q_newpickup (samp (env w) (out w))"
  let ?w = "w\<lparr>out := rev (pickup_native e) @ out w, s_internalPickups := s_internalPickups w @ [(i, ?n)]\<rparr>"
  from Cons.prems have room: "length (s_internalPickups w) \<noteq> s_visible w KPickup" and fresh: "map_of (s_internalPickups w) i = None"
    by (auto simp: x map_of_None_iff)
  have step: "createPickups (x # xs) w = createPickups xs ?w"
    using room fresh Cons.prems(2) by (simp add: x seq_gets andthen_modify ask_def Add_def IsExist_def)
  have "\<exists>ns ms. createPickups xs ?w = (Inr (), ?w\<lparr>out := ns @ out ?w, s_internalPickups := s_internalPickups ?w @ ms\<rparr>) \<and> map fst ms = map fst xs"
    using Cons.prems by (intro Cons.IH) (simp_all add: x)
  then obtain ns ms where "createPickups xs ?w = (Inr (), ?w\<lparr>out := ns @ out ?w, s_internalPickups := s_internalPickups ?w @ ms\<rparr>)"
    "map fst ms = map fst xs" by blast
  then show ?case unfolding step
    by (intro exI [of _ "ns @ rev (pickup_native e)"] exI [of _ "(i, ?n) # ms"]) (simp add: x)
qed



section \<open>Items that outlive their destruction\<close>

text \<open>C40. \<^verbatim>\<open>DestroyAllDynamicMapIcons\<close> forgets the players' visible cells: an icon that was there has left the table, but later updates find it
  again as long as no cell with its former id is near the player, and would show it to him.\<close>

theorem destroyed_icons_return:
  fixes w :: "'a streamer_scheme"
  assumes "map_of (s_players w) q = Some p" and "(i, Live) \<in> set (sp_visibleCell p KMapIcon)" and "map_of (s_items w KMapIcon) i = Some e"
    and "e_cell e = Some c"
  shows "\<exists>p1. map_of (s_players (snd (DestroyAllDynamicMapIcons w))) q = Some p1 \<and> \<not> isValid KMapIcon i (snd (DestroyAllDynamicMapIcons w))
    \<and> (\<forall>(w2 :: 'a streamer_scheme) (w3 :: 'a streamer_scheme) ds vc. c \<notin> set ds \<longrightarrow> cleanVisibleCell (sp_visibleCell p1) ds w2 = (Inr vc, w2)
        \<longrightarrow> (i, Gone e, e) \<in> set (cell_entries KMapIcon [FormerVisible vc] w3))"
proof -
  let ?w = "snd (DestroyAllDynamicMapIcons w)"
  define p0 where "p0 = p\<lparr>sp_mapIconIdentifier := ident_reset (sp_mapIconIdentifier p), sp_internalMapIcons := []\<rparr>"
  define p1 where "p1 = detachVisible KMapIcon (s_items w KMapIcon) p0"
  have map: "map_of (map (\<lambda>(q, p). (q, f q p)) ps) q = map_option (f q) (map_of ps q)" for f :: "playerid \<Rightarrow> splayer \<Rightarrow> splayer" and ps
    by (induction ps) auto
  have players: "map_of (s_players ?w) q = Some p1"
    using assms(1) by (simp add: DestroyAllDynamicMapIcons_def run_app clearItems_def eraseAllItems_def forAllPlayers_def resetIds_def map p1_def p0_def
      comp_def case_prod_beta' cong: map_cong)
      (simp add: map [of "\<lambda>q p. detachVisible KMapIcon (s_items w KMapIcon) (p\<lparr>sp_mapIconIdentifier := ident_reset (sp_mapIconIdentifier p),
        sp_internalMapIcons := []\<rparr>)", unfolded case_prod_beta'])
  have seen: "(i, Gone e) \<in> set (sp_visibleCell p1 KMapIcon)"
    using assms(2,3) by (force simp: p1_def p0_def detachVisible_def)
  have gone: "\<not> isValid KMapIcon i ?w"
    by (simp add: isValid_def IsExist_def DestroyAllDynamicMapIcons_def run_app clearItems_def)
  have "(i, Gone e, e) \<in> set (cell_entries KMapIcon [FormerVisible vc] w3)"
    if "c \<notin> set ds" "cleanVisibleCell (sp_visibleCell p1) ds w2 = (Inr vc, w2)" for w2 w3 :: "'a streamer_scheme" and ds vc
  proof -
    have "vc = (\<lambda>k. filter (\<lambda>r. \<not> cell_discovered w2 ds k r) (sp_visibleCell p1 k))"
      using that(2) by (simp add: cleanVisibleCell_def split: if_splits)
    with seen that(1) assms(4) have "(i, Gone e) \<in> set (vc KMapIcon)" by (auto simp: cell_discovered_def item_of_def)
    then show ?thesis by (force simp: cell_entries_def cell_content_def List.map_filter_def item_of_def)
  qed
  with players gone show ?thesis by blast
qed

theorem destroyed_icons_return_witness:
  "let e = (demo_item (MapIcon (0, 0, 0) 5 0 0))\<lparr>e_cell := Some (150, 150)\<rparr>;
       w = demo_streamer\<lparr>s_players := [(0, demo_player\<lparr>sp_visibleCell := \<lambda>k. if k = KMapIcon then [(2, Live)] else []\<rparr>)],
             s_items := \<lambda>k. if k = KMapIcon then [(2, e)] else []\<rparr>
   in \<exists>p1. map_of (s_players (snd (DestroyAllDynamicMapIcons w))) 0 = Some p1 \<and> \<not> isValid KMapIcon 2 (snd (DestroyAllDynamicMapIcons w))
      \<and> (\<forall>w3 :: streamer. (2, Gone e, e) \<in> set (cell_entries KMapIcon [FormerVisible (sp_visibleCell p1)] w3))"
proof -
  let ?e = "(demo_item (MapIcon (0, 0, 0) 5 0 0))\<lparr>e_cell := Some (150, 150)\<rparr>"
  let ?p = "demo_player\<lparr>sp_visibleCell := \<lambda>k. if k = KMapIcon then [(2, Live)] else []\<rparr>"
  let ?w = "demo_streamer\<lparr>s_players := [(0, ?p)], s_items := \<lambda>k. if k = KMapIcon then [(2, ?e)] else []\<rparr>"
  have "map_of (s_players ?w) 0 = Some ?p" "(2, Live) \<in> set (sp_visibleCell ?p KMapIcon)" "map_of (s_items ?w KMapIcon) 2 = Some ?e"
    "e_cell ?e = Some (150, 150)" by simp_all
  from destroyed_icons_return [OF this] obtain p1 where p1: "map_of (s_players (snd (DestroyAllDynamicMapIcons ?w))) 0 = Some p1"
      "\<not> isValid KMapIcon 2 (snd (DestroyAllDynamicMapIcons ?w))"
    and later: "\<forall>(w2 :: streamer) (w3 :: streamer) ds vc. (150, 150) \<notin> set ds \<longrightarrow> cleanVisibleCell (sp_visibleCell p1) ds w2 = (Inr vc, w2)
        \<longrightarrow> (2, Gone ?e, ?e) \<in> set (cell_entries KMapIcon [FormerVisible vc] w3)" by blast
  let ?w1 = "snd (DestroyAllDynamicMapIcons ?w)"
  have vis: "sp_visibleCell p1 = (\<lambda>k. if k = KMapIcon then [(2, Gone ?e)] else [])"
    using p1(1) by (auto simp: DestroyAllDynamicMapIcons_def run_app clearItems_def eraseAllItems_def forAllPlayers_def resetIds_def detachVisible_def)
  have "cleanVisibleCell (sp_visibleCell p1) [] ?w1 = (Inr (sp_visibleCell p1), ?w1)"
    by (simp add: cleanVisibleCell_def all_kinds_def cell_known_def item_of_def cell_discovered_def vis fun_eq_iff)
  then have "(2, Gone ?e, ?e) \<in> set (cell_entries KMapIcon [FormerVisible (sp_visibleCell p1)] w3)" for w3 :: streamer
    using later [rule_format, of "[]" ?w1 "sp_visibleCell p1" w3] by simp
  with p1 show ?thesis unfolding Let_def by blast
qed

end
