(* ===== verification/Wire.thy ===== *)
theory Wire
  imports Bson
begin

text \<open>
  The bytes of BSON documents (\<^verbatim>\<open>src/freshcity.dependency.mongoclient/bson\<close>): the buffer and the builder that write them
  (\<^verbatim>\<open>util/builder.h\<close>, \<^verbatim>\<open>bsonobjbuilder.h\<close>), elements, objects and iterators that read them (\<^verbatim>\<open>bsonelement.h\<close>,
  \<^verbatim>\<open>bsonobj.h\<close>, \<^verbatim>\<open>bsonobjiterator.h\<close>, \<^verbatim>\<open>bson-inl.h\<close>). The other theories use documents as \<open>Bson\<close> has them; that these are
  what the bytes say is proved in \<open>Wire_Correct\<close>.
\<close>

section \<open>Numbers in memory\<close>

text \<open>Little endian, in \<open>n\<close> bytes.\<close>

primrec le :: "nat \<Rightarrow> nat \<Rightarrow> string" where
  "le 0 x = []"
| "le (Suc n) x = char_of (x mod 256) # le n (x div 256)"

primrec unle :: "string \<Rightarrow> nat" where
  "unle [] = 0"
| "unle (c # cs) = of_char c + 256 * unle cs"

definition le32 :: "32 word \<Rightarrow> string" where "le32 x = le 4 (unat x)"
definition le64 :: "64 word \<Rightarrow> string" where "le64 x = le 8 (unat x)"

text \<open>An \<^verbatim>\<open>int\<close> expression, wrapped.\<close>

definition int32 :: "int \<Rightarrow> int" where
  "int32 i = sint (word_of_int i :: 32 word)"

text \<open>The twelve bytes of an object id, and the value of a \<^verbatim>\<open>double\<close> that is a number.\<close>

definition oid_bytes :: "oid \<Rightarrow> string" where
  "oid_bytes o' = rev (le 12 (unat o'))"

definition oid_of_bytes :: "string \<Rightarrow> oid" where
  "oid_of_bytes s = of_nat (unle (rev s))"

definition double_value :: "64 word \<Rightarrow> flt" where
  "double_value w =
     (let e = unat (drop_bit 52 w AND 2047); m = unat (w AND mask 52); sign = (if bit w 63 then - 1 else 1) :: rat in
      sign * (if e = 0 then of_nat m else of_nat (2 ^ 52 + m)) * (if 1075 \<le> max e 1 then 2 ^ (max e 1 - 1075) else 1 / 2 ^ (1075 - max e 1)))"

section \<open>Writing\<close>

subsection \<open>\<^verbatim>\<open>BufBuilder\<close>\<close>

definition BSONObjMaxUserSize :: int where "BSONObjMaxUserSize = 16 * 1024 * 1024"
definition BSONObjMaxInternalSize :: int where "BSONObjMaxInternalSize = BSONObjMaxUserSize + 16 * 1024"
definition BufferMaxSize :: nat where "BufferMaxSize = 64 * 1024 * 1024"

record buf =
  bb_data :: string
  bb_size :: nat

definition grow_reallocate :: "nat \<Rightarrow> nat \<Rightarrow> exn + nat" where
  "grow_reallocate size' l = (let a = size' * 2; a = (if a = 0 then 512 else a); a = (if a < l then l + 16 * 1024 else a) in
     if BufferMaxSize < a then Inl AssertionException else Inr a)"

text \<open>\<^verbatim>\<open>grow\<close>, and the bytes that are then written there.\<close>

definition appendBuf :: "string \<Rightarrow> buf \<Rightarrow> exn + buf" where
  "appendBuf s b = (let l = length (bb_data b) + length s in
     bindR (if bb_size b < l then grow_reallocate (bb_size b) l else Inr (bb_size b)) (\<lambda>n.
       Inr \<lparr>bb_data = bb_data b @ s, bb_size = n\<rparr>))"

definition appendChar :: "int \<Rightarrow> buf \<Rightarrow> exn + buf" where
  "appendChar c = appendBuf [char_of (nat (c mod 256))]"

definition appendInt :: "32 word \<Rightarrow> buf \<Rightarrow> exn + buf" where "appendInt x = appendBuf (le32 x)"
definition appendLong :: "64 word \<Rightarrow> buf \<Rightarrow> exn + buf" where "appendLong x = appendBuf (le64 x)"

text \<open>A string with its terminating null.\<close>

definition appendStr :: "string \<Rightarrow> buf \<Rightarrow> exn + buf" where
  "appendStr s = appendBuf (s @ [CHR 0x00])"

subsection \<open>\<^verbatim>\<open>BSONObjBuilder\<close>\<close>

definition MinKey :: int where "MinKey = - 1"
definition EOO_type :: int where "EOO_type = 0"
definition NumberDouble :: int where "NumberDouble = 1"
definition String_type :: int where "String_type = 2"
definition Object_type :: int where "Object_type = 3"
definition Array_type :: int where "Array_type = 4"
definition BinData :: int where "BinData = 5"
definition Undefined_type :: int where "Undefined_type = 6"
definition jstOID :: int where "jstOID = 7"
definition Bool_type :: int where "Bool_type = 8"
definition Date_type :: int where "Date_type = 9"
definition jstNULL :: int where "jstNULL = 10"
definition RegEx :: int where "RegEx = 11"
definition DBRef :: int where "DBRef = 12"
definition Code :: int where "Code = 13"
definition Symbol :: int where "Symbol = 14"
definition CodeWScope :: int where "CodeWScope = 15"
definition NumberInt :: int where "NumberInt = 16"
definition Timestamp :: int where "Timestamp = 17"
definition NumberLong :: int where "NumberLong = 18"
definition MaxKey :: int where "MaxKey = 127"

text \<open>A builder with its own buffer: four bytes for the reference count, then the object, whose size is left open. \<open>junk\<close> is what
  the memory holds.\<close>

record builder =
  bo_buf :: buf
  bo_offset :: nat
  bo_done :: bool

definition BSONObjBuilder :: "nat \<Rightarrow> char \<Rightarrow> exn + builder" where
  "BSONObjBuilder initsize junk = bindR (appendInt 0 \<lparr>bb_data = [], bb_size = initsize + 4\<rparr>) (\<lambda>b.
     bindR (appendBuf (replicate 4 junk) b) (\<lambda>b. Inr \<lparr>bo_buf = b, bo_offset = 4, bo_done = False\<rparr>))"

definition onBuf :: "(buf \<Rightarrow> exn + buf) \<Rightarrow> builder \<Rightarrow> exn + builder" where
  "onBuf f b = bindR (f (bo_buf b)) (\<lambda>x. Inr (b\<lparr>bo_buf := x\<rparr>))"

text \<open>Type and name of an element; then its value.\<close>

definition header :: "int \<Rightarrow> string \<Rightarrow> buf \<Rightarrow> exn + buf" where
  "header t name b = bindR (appendChar t b) (appendStr name)"

definition append_Object :: "string \<Rightarrow> string \<Rightarrow> builder \<Rightarrow> exn + builder" where
  "append_Object name obj = onBuf (\<lambda>b. bindR (header Object_type name b) (appendBuf obj))"

definition appendArray :: "string \<Rightarrow> string \<Rightarrow> builder \<Rightarrow> exn + builder" where
  "appendArray name obj = onBuf (\<lambda>b. bindR (header Array_type name b) (appendBuf obj))"

definition append_Bool :: "string \<Rightarrow> bool \<Rightarrow> builder \<Rightarrow> exn + builder" where
  "append_Bool name v = onBuf (\<lambda>b. bindR (header Bool_type name b) (appendChar (if v then 1 else 0)))"

definition append_Int :: "string \<Rightarrow> 32 word \<Rightarrow> builder \<Rightarrow> exn + builder" where
  "append_Int name n = onBuf (\<lambda>b. bindR (header NumberInt name b) (appendInt n))"

definition append_Long :: "string \<Rightarrow> 64 word \<Rightarrow> builder \<Rightarrow> exn + builder" where
  "append_Long name n = onBuf (\<lambda>b. bindR (header NumberLong name b) (appendLong n))"

definition append_Double :: "string \<Rightarrow> 64 word \<Rightarrow> builder \<Rightarrow> exn + builder" where
  "append_Double name n = onBuf (\<lambda>b. bindR (header NumberDouble name b) (appendLong n))"

text \<open>\<^verbatim>\<open>x * -1\<close> of the smallest \<^verbatim>\<open>long long\<close> is itself.\<close>

definition appendIntOrLL :: "string \<Rightarrow> 64 word \<Rightarrow> builder \<Rightarrow> exn + builder" where
  "appendIntOrLL name n = (let x = (if sint n < 0 then - n else n) in
     if sint x < (2 ^ 31 - 1) div 2 then append_Int name (ucast n) else append_Long name n)"

definition append_OID :: "string \<Rightarrow> oid \<Rightarrow> builder \<Rightarrow> exn + builder" where
  "append_OID name v = onBuf (\<lambda>b. bindR (header jstOID name b) (appendBuf (oid_bytes v)))"

definition appendTimeT :: "string \<Rightarrow> 64 word \<Rightarrow> builder \<Rightarrow> exn + builder" where
  "appendTimeT name dt = onBuf (\<lambda>b. bindR (header Date_type name b) (appendLong (dt * 1000)))"

definition appendDate :: "string \<Rightarrow> 64 word \<Rightarrow> builder \<Rightarrow> exn + builder" where
  "appendDate name dt = onBuf (\<lambda>b. bindR (header Date_type name b) (appendLong dt))"

definition appendRegex :: "string \<Rightarrow> string \<Rightarrow> string \<Rightarrow> builder \<Rightarrow> exn + builder" where
  "appendRegex name regex options = onBuf (\<lambda>b. bindR (header RegEx name b) (\<lambda>b. bindR (appendStr regex b) (appendStr options)))"

definition size_of_string :: "string \<Rightarrow> 32 word" where
  "size_of_string s = of_nat (length s) + 1"

definition appendCode :: "string \<Rightarrow> string \<Rightarrow> builder \<Rightarrow> exn + builder" where
  "appendCode name code = onBuf (\<lambda>b. bindR (header Code name b) (\<lambda>b. bindR (appendInt (size_of_string code) b) (appendStr code)))"

definition append_String :: "string \<Rightarrow> string \<Rightarrow> builder \<Rightarrow> exn + builder" where
  "append_String name s = onBuf (\<lambda>b. bindR (header String_type name b) (\<lambda>b. bindR (appendInt (size_of_string s) b) (appendBuf (s @ [CHR 0x00]))))"

definition appendSymbol :: "string \<Rightarrow> string \<Rightarrow> builder \<Rightarrow> exn + builder" where
  "appendSymbol name s = onBuf (\<lambda>b. bindR (header Symbol name b) (\<lambda>b. bindR (appendInt (size_of_string s) b) (appendStr s)))"

definition appendNull :: "string \<Rightarrow> builder \<Rightarrow> exn + builder" where "appendNull name = onBuf (header jstNULL name)"
definition appendMinKey :: "string \<Rightarrow> builder \<Rightarrow> exn + builder" where "appendMinKey name = onBuf (header MinKey name)"
definition appendMaxKey :: "string \<Rightarrow> builder \<Rightarrow> exn + builder" where "appendMaxKey name = onBuf (header MaxKey name)"
definition appendUndefined :: "string \<Rightarrow> builder \<Rightarrow> exn + builder" where "appendUndefined name = onBuf (header Undefined_type name)"

definition appendTimestamp :: "string \<Rightarrow> 64 word \<Rightarrow> builder \<Rightarrow> exn + builder" where
  "appendTimestamp name v = onBuf (\<lambda>b. bindR (header Timestamp name b) (appendLong v))"

definition appendDBRef :: "string \<Rightarrow> string \<Rightarrow> oid \<Rightarrow> builder \<Rightarrow> exn + builder" where
  "appendDBRef name ns v = onBuf (\<lambda>b. bindR (header DBRef name b) (\<lambda>b. bindR (appendInt (size_of_string ns) b) (\<lambda>b.
     bindR (appendStr ns b) (appendBuf (oid_bytes v)))))"

definition appendBinData :: "string \<Rightarrow> int \<Rightarrow> string \<Rightarrow> builder \<Rightarrow> exn + builder" where
  "appendBinData name t s = onBuf (\<lambda>b. bindR (header BinData name b) (\<lambda>b. bindR (appendInt (of_nat (length s)) b) (\<lambda>b.
     bindR (appendChar t b) (appendBuf s))))"

definition appendBinDataArrayDeprecated :: "string \<Rightarrow> string \<Rightarrow> builder \<Rightarrow> exn + builder" where
  "appendBinDataArrayDeprecated name s = onBuf (\<lambda>b. bindR (header BinData name b) (\<lambda>b. bindR (appendInt (of_nat (length s) + 4) b) (\<lambda>b.
     bindR (appendChar 2 b) (\<lambda>b. bindR (appendInt (of_nat (length s)) b) (appendBuf s)))))"

definition appendCodeWScope :: "string \<Rightarrow> string \<Rightarrow> string \<Rightarrow> builder \<Rightarrow> exn + builder" where
  "appendCodeWScope name code scope = onBuf (\<lambda>b. bindR (header CodeWScope name b) (\<lambda>b.
     bindR (appendInt (4 + 4 + of_nat (length code) + 1 + of_nat (length scope)) b) (\<lambda>b.
     bindR (appendInt (size_of_string code) b) (\<lambda>b. bindR (appendStr code b) (appendBuf scope)))))"

text \<open>\<^verbatim>\<open>_done\<close>: the end of the object, and its size in the place left open.\<close>

definition builder_done :: "builder \<Rightarrow> exn + builder" where
  "builder_done b = (if bo_done b then Inr b else bindR (appendChar EOO_type (bo_buf b)) (\<lambda>x.
     let d = bb_data x; o' = bo_offset b in
     Inr (b\<lparr>bo_done := True, bo_buf := x\<lparr>bb_data := take o' d @ le32 (of_nat (length d - o')) @ drop (o' + 4) d\<rparr>\<rparr>)))"

definition objsize_ok :: "int \<Rightarrow> bool" where
  "objsize_ok x \<longleftrightarrow> 0 < x \<and> x \<le> BSONObjMaxInternalSize"

text \<open>\<^verbatim>\<open>obj()\<close>: the bytes of the object, whose size is checked.\<close>

definition builder_obj :: "builder \<Rightarrow> exn + string" where
  "builder_obj b = bindR (builder_done b) (\<lambda>b. let s = drop (bo_offset b) (bb_data (bo_buf b)) in
     if objsize_ok (int32 (int (unle (take 4 s)))) then Inr s else Inl AssertionException)"

section \<open>Reading\<close>

text \<open>Pointers are positions in the memory that holds the object. What lies beyond it is not known: reading there is undefined.\<close>

definition read :: "string \<Rightarrow> int \<Rightarrow> nat \<Rightarrow> exn + string" where
  "read m p n = (if 0 \<le> p \<and> nat p + n \<le> length m then Inr (take n (drop (nat p) m)) else Inl Undefined)"

definition read_char :: "string \<Rightarrow> int \<Rightarrow> exn + int" where
  "read_char m p = bindR (read m p 1) (\<lambda>s. Inr (sint (of_nat (unle s) :: 8 word)))"

definition read_int :: "string \<Rightarrow> int \<Rightarrow> exn + 32 word" where
  "read_int m p = bindR (read m p 4) (\<lambda>s. Inr (of_nat (unle s)))"

definition read_long :: "string \<Rightarrow> int \<Rightarrow> exn + 64 word" where
  "read_long m p = bindR (read m p 8) (\<lambda>s. Inr (of_nat (unle s)))"

text \<open>The string a \<^verbatim>\<open>const char*\<close> points to.\<close>

definition cstring :: "string \<Rightarrow> int \<Rightarrow> exn + string" where
  "cstring m p = (if 0 \<le> p \<and> CHR 0x00 \<in> set (drop (nat p) m) then Inr (takeWhile (\<lambda>c. c \<noteq> CHR 0x00) (drop (nat p) m)) else Inl Undefined)"

subsection \<open>Elements\<close>

text \<open>An element is where its type byte is; \<open>NoElement\<close> is \<^verbatim>\<open>BSONElement()\<close>, whose byte is that of the end of an object.\<close>

datatype element = At int | NoElement

definition elem_type :: "string \<Rightarrow> element \<Rightarrow> exn + int" where
  "elem_type m e = (case e of At p \<Rightarrow> read_char m p | NoElement \<Rightarrow> Inr EOO_type)"

definition eoo :: "string \<Rightarrow> element \<Rightarrow> exn + bool" where
  "eoo m e = bindR (elem_type m e) (\<lambda>t. Inr (t = EOO_type))"

definition fieldName :: "string \<Rightarrow> element \<Rightarrow> exn + string" where
  "fieldName m e = (case e of NoElement \<Rightarrow> Inr []
     | At p \<Rightarrow> bindR (eoo m e) (\<lambda>b. if b then Inr [] else cstring m (p + 1)))"

definition fieldNameSize :: "string \<Rightarrow> element \<Rightarrow> exn + int" where
  "fieldNameSize m e = bindR (eoo m e) (\<lambda>b. if b then Inr 0 else bindR (fieldName m e) (\<lambda>s. Inr (int (length s) + 1)))"

text \<open>Where the value is. Nothing is known behind the byte of \<open>NoElement\<close>.\<close>

definition elem_value :: "string \<Rightarrow> element \<Rightarrow> exn + int" where
  "elem_value m e = (case e of NoElement \<Rightarrow> Inl Undefined | At p \<Rightarrow> bindR (fieldNameSize m e) (\<lambda>n. Inr (p + n + 1)))"

definition valuestrsize :: "string \<Rightarrow> int \<Rightarrow> exn + int" where
  "valuestrsize m v = bindR (read_int m v) (\<lambda>x. Inr (sint x))"

text \<open>The size of a value by its type: the \<^verbatim>\<open>switch\<close> of \<^verbatim>\<open>size()\<close>.\<close>

definition value_size :: "string \<Rightarrow> int \<Rightarrow> int \<Rightarrow> exn + int" where
  "value_size m t v =
     (if t = EOO_type \<or> t = Undefined_type \<or> t = jstNULL \<or> t = MaxKey \<or> t = MinKey then Inr 0
      else if t = Bool_type then Inr 1
      else if t = NumberInt then Inr 4
      else if t = Timestamp \<or> t = Date_type \<or> t = NumberDouble \<or> t = NumberLong then Inr 8
      else if t = jstOID then Inr 12
      else if t = Symbol \<or> t = Code \<or> t = String_type then bindR (valuestrsize m v) (\<lambda>x. Inr (int32 (x + 4)))
      else if t = DBRef then bindR (valuestrsize m v) (\<lambda>x. Inr (int32 (x + 4 + 12)))
      else if t = CodeWScope \<or> t = Object_type \<or> t = Array_type then valuestrsize m v
      else if t = BinData then bindR (valuestrsize m v) (\<lambda>x. Inr (int32 (x + 4 + 1)))
      else if t = RegEx then bindR (cstring m v) (\<lambda>r. bindR (cstring m (v + int (length r) + 1)) (\<lambda>s.
        Inr (int (length r) + 1 + int (length s) + 1)))
      else Inl AssertionException)"

definition elem_size :: "string \<Rightarrow> element \<Rightarrow> exn + int" where
  "elem_size m e = bindR (elem_type m e) (\<lambda>t. if t = EOO_type then Inr 1
     else bindR (fieldNameSize m e) (\<lambda>n. bindR (elem_value m e) (\<lambda>v. bindR (value_size m t v) (\<lambda>x. Inr (int32 (x + n + 1))))))"

definition canonicalType :: "string \<Rightarrow> element \<Rightarrow> exn + int" where
  "canonicalType m e = bindR (elem_type m e) (\<lambda>t.
     if t = MinKey \<or> t = MaxKey then Inr t else if t = EOO_type \<or> t = Undefined_type then Inr 0 else if t = jstNULL then Inr 5
     else if t = NumberDouble \<or> t = NumberInt \<or> t = NumberLong then Inr 10 else if t = String_type \<or> t = Symbol then Inr 15
     else if t = Object_type then Inr 20 else if t = Array_type then Inr 25 else if t = BinData then Inr 30 else if t = jstOID then Inr 35
     else if t = Bool_type then Inr 40 else if t = Date_type \<or> t = Timestamp then Inr 45 else if t = RegEx then Inr 50
     else if t = DBRef then Inr 55 else if t = Code then Inr 60 else if t = CodeWScope then Inr 65 else Inl AssertionException)"

definition isNumber :: "int \<Rightarrow> bool" where
  "isNumber t \<longleftrightarrow> t = NumberLong \<or> t = NumberDouble \<or> t = NumberInt"

definition isSimpleType :: "int \<Rightarrow> bool" where
  "isSimpleType t \<longleftrightarrow> t \<in> {NumberLong, NumberDouble, NumberInt, String_type, Bool_type, Date_type, jstOID}"

definition isABSONObj :: "int \<Rightarrow> bool" where
  "isABSONObj t \<longleftrightarrow> t = Object_type \<or> t = Array_type"

text \<open>\<^verbatim>\<open>chk\<close>: the accessors with a capital letter throw when the type is another one.\<close>

definition chk :: "(int \<Rightarrow> bool) \<Rightarrow> string \<Rightarrow> element \<Rightarrow> exn + int" where
  "chk ok m e = bindR (elem_type m e) (\<lambda>t. if ok t then elem_value m e else Inl UserException)"

definition get_String :: "string \<Rightarrow> element \<Rightarrow> exn + string" where
  "get_String m e = bindR (chk (\<lambda>t. t = String_type) m e) (\<lambda>v. cstring m (v + 4))"

definition get_Int :: "string \<Rightarrow> element \<Rightarrow> exn + 32 word" where
  "get_Int m e = bindR (chk (\<lambda>t. t = NumberInt) m e) (read_int m)"

definition get_Long :: "string \<Rightarrow> element \<Rightarrow> exn + 64 word" where
  "get_Long m e = bindR (chk (\<lambda>t. t = NumberLong) m e) (read_long m)"

definition numberDouble :: "string \<Rightarrow> element \<Rightarrow> exn + flt" where
  "numberDouble m e = bindR (elem_type m e) (\<lambda>t.
     if t = NumberDouble then bindR (bindR (elem_value m e) (read_long m)) (\<lambda>x. Inr (double_value x))
     else if t = NumberInt then bindR (bindR (elem_value m e) (read_int m)) (\<lambda>x. Inr (of_int (sint x)))
     else if t = NumberLong then bindR (bindR (elem_value m e) (read_long m)) (\<lambda>x. Inr (fl64 (of_int (sint x))))
     else Inr 0)"

definition get_Number :: "string \<Rightarrow> element \<Rightarrow> exn + flt" where
  "get_Number m e = bindR (elem_type m e) (\<lambda>t. if isNumber t then numberDouble m e else Inl UserException)"

definition get_Bool :: "string \<Rightarrow> element \<Rightarrow> exn + bool" where
  "get_Bool m e = bindR (chk (\<lambda>t. t = Bool_type) m e) (\<lambda>v. bindR (read_char m v) (\<lambda>x. Inr (x \<noteq> 0)))"

definition get_Date :: "string \<Rightarrow> element \<Rightarrow> exn + 64 word" where
  "get_Date m e = bindR (chk (\<lambda>t. t = Date_type) m e) (read_long m)"

definition get_OID :: "string \<Rightarrow> element \<Rightarrow> exn + oid" where
  "get_OID m e = bindR (chk (\<lambda>t. t = jstOID) m e) (\<lambda>v. bindR (read m v 12) (\<lambda>s. Inr (oid_of_bytes s)))"

text \<open>The readings that do not throw.\<close>

definition numberInt :: "string \<Rightarrow> element \<Rightarrow> exn + 32 word" where
  "numberInt m e = bindR (elem_type m e) (\<lambda>t.
     if t = NumberDouble then bindR (bindR (elem_value m e) (read_long m)) (\<lambda>x. Inr (int_of_double (double_value x)))
     else if t = NumberInt then bindR (elem_value m e) (read_int m)
     else if t = NumberLong then bindR (bindR (elem_value m e) (read_long m)) (\<lambda>x. Inr (ucast x))
     else Inr 0)"

definition trueValue :: "string \<Rightarrow> element \<Rightarrow> exn + bool" where
  "trueValue m e = bindR (elem_type m e) (\<lambda>t.
     if t = NumberLong then bindR (bindR (elem_value m e) (read_long m)) (\<lambda>x. Inr (x \<noteq> 0))
     else if t = NumberDouble then bindR (bindR (elem_value m e) (read_long m)) (\<lambda>x. Inr (double_value x \<noteq> 0))
     else if t = NumberInt then bindR (bindR (elem_value m e) (read_int m)) (\<lambda>x. Inr (x \<noteq> 0))
     else if t = Bool_type then bindR (bindR (elem_value m e) (read_char m)) (\<lambda>x. Inr (x \<noteq> 0))
     else Inr (\<not> (t = EOO_type \<or> t = jstNULL \<or> t = Undefined_type)))"

subsection \<open>Objects and iterators\<close>

definition objsize :: "string \<Rightarrow> int \<Rightarrow> exn + int" where
  "objsize m p = bindR (read_int m p) (\<lambda>x. Inr (sint x))"

text \<open>\<^verbatim>\<open>BSONObj(const char*)\<close>\<close>

definition BSONObj_init :: "string \<Rightarrow> int \<Rightarrow> exn + int" where
  "BSONObj_init m p = bindR (objsize m p) (\<lambda>x. if objsize_ok x then Inr p else Inl AssertionException)"

definition get_Obj :: "string \<Rightarrow> element \<Rightarrow> exn + int" where
  "get_Obj m e = bindR (chk isABSONObj m e) (BSONObj_init m)"

definition isEmpty :: "string \<Rightarrow> int \<Rightarrow> exn + bool" where
  "isEmpty m p = bindR (objsize m p) (\<lambda>x. Inr (x \<le> 5))"

text \<open>An iterator is at a position and has an end. A size that is not positive may keep it from ever getting there: then a loop over
  the object has no result.\<close>

definition BSONObjIterator :: "string \<Rightarrow> int \<Rightarrow> exn + int \<times> int" where
  "BSONObjIterator m p = bindR (objsize m p) (\<lambda>sz. Inr (if sz = 0 then (0, 0) else (p + 4, p + sz - 1)))"

definition next_pos :: "string \<Rightarrow> int \<Rightarrow> exn + int" where
  "next_pos m pos = bindR (elem_size m (At pos)) (\<lambda>n. Inr (pos + n))"

partial_function (option) elements :: "string \<Rightarrow> int \<Rightarrow> int \<Rightarrow> (exn + element list) option" where
  "elements m pos theend = (if pos < theend then (case next_pos m pos of Inl e \<Rightarrow> Some (Inl e)
     | Inr pos' \<Rightarrow> Option.bind (elements m pos' theend) (\<lambda>r. Some (bindR r (\<lambda>es. Inr (At pos # es)))))
   else Some (Inr []))"

definition elems :: "string \<Rightarrow> int \<Rightarrow> (exn + element list) option" where
  "elems m p = (case BSONObjIterator m p of Inl e \<Rightarrow> Some (Inl e) | Inr (pos, theend) \<Rightarrow> elements m pos theend)"

partial_function (option) find_field :: "string \<Rightarrow> string \<Rightarrow> int \<Rightarrow> int \<Rightarrow> (exn + element) option" where
  "find_field m f pos theend = (if pos < theend then (case next_pos m pos of Inl e \<Rightarrow> Some (Inl e)
     | Inr pos' \<Rightarrow> (case fieldName m (At pos) of Inl e \<Rightarrow> Some (Inl e)
       | Inr s \<Rightarrow> if s = f then Some (Inr (At pos)) else find_field m f pos' theend))
   else Some (Inr NoElement))"

definition wire_getField :: "string \<Rightarrow> int \<Rightarrow> string \<Rightarrow> (exn + element) option" where
  "wire_getField m p f = (case BSONObjIterator m p of Inl e \<Rightarrow> Some (Inl e) | Inr (pos, theend) \<Rightarrow> find_field m f pos theend)"

definition hasField :: "string \<Rightarrow> int \<Rightarrow> string \<Rightarrow> (exn + bool) option" where
  "hasField m p f = map_option (\<lambda>r. bindR r (\<lambda>e. bindR (eoo m e) (\<lambda>b. Inr (\<not> b)))) (wire_getField m p f)"

text \<open>A loop that visits the end of the object, too.\<close>

partial_function (option) count_fields :: "string \<Rightarrow> int \<Rightarrow> int \<Rightarrow> (exn + nat) option" where
  "count_fields m pos theend = (if pos \<le> theend then (case next_pos m pos of Inl e \<Rightarrow> Some (Inl e)
     | Inr pos' \<Rightarrow> (case eoo m (At pos) of Inl e \<Rightarrow> Some (Inl e)
       | Inr b \<Rightarrow> if b then Some (Inr 0) else Option.bind (count_fields m pos' theend) (\<lambda>r. Some (bindR r (\<lambda>n. Inr (Suc n))))))
   else Some (Inr 0))"

definition nFields :: "string \<Rightarrow> int \<Rightarrow> (exn + nat) option" where
  "nFields m p = (case BSONObjIterator m p of Inl e \<Rightarrow> Some (Inl e) | Inr (pos, theend) \<Rightarrow> count_fields m pos theend)"

subsection \<open>Arrays\<close>

text \<open>What is thrown for a string that is no number is an \<^verbatim>\<open>int\<close>; the caller catches \<^verbatim>\<open>unsigned\<close>.\<close>

fun stringToNum_loop :: "32 word \<Rightarrow> bool \<Rightarrow> string \<Rightarrow> exn + 32 word" where
  "stringToNum_loop x started [] = (if started then Inr x else Inl (ThrownInt 0))"
| "stringToNum_loop x started (c # cs) = (if 48 \<le> (of_char c :: nat) \<and> of_char c \<le> (57 :: nat)
     then stringToNum_loop (x * 10 + of_char c - 48) True cs else Inl (ThrownInt 0))"

definition stringToNum :: "string \<Rightarrow> exn + 32 word" where
  "stringToNum s = stringToNum_loop 0 False s"

text \<open>\<^verbatim>\<open>v.resize(u + 1); v[u] = e\<close>\<close>

definition put_at :: "element list \<Rightarrow> nat \<Rightarrow> element \<Rightarrow> element list" where
  "put_at v u e = (if length v \<le> u then v @ replicate (u + 1 - length v) NoElement else v)[u := e]"

definition array_put :: "string \<Rightarrow> element list \<Rightarrow> element \<Rightarrow> exn + element list" where
  "array_put m v e = bindR (fieldName m e) (\<lambda>f. bindR (stringToNum f) (\<lambda>u.
     if u < 1000000 then Inr (put_at v (unat u) e) else Inl AssertionException))"

partial_function (option) array_loop :: "string \<Rightarrow> element list \<Rightarrow> int \<Rightarrow> int \<Rightarrow> (exn + element list) option" where
  "array_loop m v pos theend = (if pos < theend then (case next_pos m pos of Inl e \<Rightarrow> Some (Inl e)
     | Inr pos' \<Rightarrow> (case array_put m v (At pos) of Inl e \<Rightarrow> Some (Inl e) | Inr v \<Rightarrow> array_loop m v pos' theend))
   else Some (Inr v))"

definition get_Array :: "string \<Rightarrow> element \<Rightarrow> (exn + element list) option" where
  "get_Array m e = (case bindR (chk (\<lambda>t. t = Array_type) m e) (\<lambda>_. bindR (get_Obj m e) (BSONObjIterator m)) of Inl x \<Rightarrow> Some (Inl x)
     | Inr (pos, theend) \<Rightarrow> array_loop m [] pos theend)"

subsection \<open>Elements of one object in another\<close>

definition elem_bytes :: "string \<Rightarrow> element \<Rightarrow> exn + string" where
  "elem_bytes m e = (case e of NoElement \<Rightarrow> Inl Undefined | At p \<Rightarrow> bindR (elem_size m e) (\<lambda>n.
     if 0 \<le> n then read m p (nat n) else Inl Undefined))"

definition append_elem :: "string \<Rightarrow> element \<Rightarrow> builder \<Rightarrow> exn + builder" where
  "append_elem m e b = bindR (eoo m e) (\<lambda>b'. if b' then Inl AssertionException
     else bindR (elem_bytes m e) (\<lambda>s. onBuf (appendBuf s) b))"

definition appendAs :: "string \<Rightarrow> element \<Rightarrow> string \<Rightarrow> builder \<Rightarrow> exn + builder" where
  "appendAs m e name b = bindR (elem_type m e) (\<lambda>t. if t = EOO_type then Inl AssertionException
     else bindR (elem_bytes m e) (\<lambda>s. bindR (fieldNameSize m e) (\<lambda>n.
       onBuf (\<lambda>x. bindR (header t name x) (appendBuf (drop (nat n + 1) s))) b)))"

text \<open>\<^verbatim>\<open>appendElements\<close>, which ends where an element has no type, and the loops of \<^verbatim>\<open>appendElementsUnique\<close> and \<^verbatim>\<open>removeField\<close>,
  which copy the elements whose name is \<open>ok\<close>.\<close>

partial_function (option) appendElements :: "string \<Rightarrow> int \<Rightarrow> int \<Rightarrow> builder \<Rightarrow> (exn + builder) option" where
  "appendElements m pos theend b = (if pos \<le> theend then (case next_pos m pos of Inl e \<Rightarrow> Some (Inl e)
     | Inr pos' \<Rightarrow> (case eoo m (At pos) of Inl e \<Rightarrow> Some (Inl e)
       | Inr last' \<Rightarrow> if last' then Some (Inr b) else (case append_elem m (At pos) b of Inl e \<Rightarrow> Some (Inl e)
         | Inr b \<Rightarrow> appendElements m pos' theend b)))
   else Some (Inr b))"

partial_function (option) append_where :: "(string \<Rightarrow> bool) \<Rightarrow> string \<Rightarrow> int \<Rightarrow> int \<Rightarrow> builder \<Rightarrow> (exn + builder) option" where
  "append_where ok m pos theend b = (if pos < theend then (case next_pos m pos of Inl e \<Rightarrow> Some (Inl e)
     | Inr pos' \<Rightarrow> (case bindR (fieldName m (At pos)) (\<lambda>f. if ok f then append_elem m (At pos) b else Inr b) of Inl e \<Rightarrow> Some (Inl e)
       | Inr b \<Rightarrow> append_where ok m pos' theend b))
   else Some (Inr b))"

definition removeField :: "char \<Rightarrow> string \<Rightarrow> int \<Rightarrow> string \<Rightarrow> (exn + string) option" where
  "removeField junk m p f = (case bindR (BSONObjBuilder 512 junk) (\<lambda>b. bindR (BSONObjIterator m p) (\<lambda>it. Inr (b, it))) of Inl e \<Rightarrow> Some (Inl e)
     | Inr (b, pos, theend) \<Rightarrow> map_option (\<lambda>r. bindR r builder_obj) (append_where (\<lambda>s. s \<noteq> f) m pos theend b))"

text \<open>One element as an object, with its own name or another one.\<close>

definition wrap :: "char \<Rightarrow> string \<Rightarrow> element \<Rightarrow> exn + string" where
  "wrap junk m e = bindR (elem_size m e) (\<lambda>n. bindR (BSONObjBuilder (nat (n + 6)) junk) (\<lambda>b. bindR (append_elem m e b) builder_obj))"

definition wrap_as :: "char \<Rightarrow> string \<Rightarrow> element \<Rightarrow> string \<Rightarrow> exn + string" where
  "wrap_as junk m e newName = bindR (elem_size m e) (\<lambda>n. bindR (BSONObjBuilder (nat (n + 6 + int (length newName))) junk) (\<lambda>b.
     bindR (appendAs m e newName b) builder_obj))"

subsection \<open>Building arrays\<close>

text \<open>\<^verbatim>\<open>BSONArrayBuilder\<close> gives the elements their positions as names. \<open>f\<close> is a function of the builder with its value.\<close>

record array_builder =
  ab_i :: nat
  ab_b :: builder

definition array_append :: "(string \<Rightarrow> builder \<Rightarrow> exn + builder) \<Rightarrow> array_builder \<Rightarrow> exn + array_builder" where
  "array_append f a = bindR (f (nat_str (ab_i a)) (ab_b a)) (\<lambda>b. Inr \<lparr>ab_i = Suc (ab_i a), ab_b = b\<rparr>)"

definition array_arr :: "array_builder \<Rightarrow> exn + string" where
  "array_arr a = builder_obj (ab_b a)"

end
