(* ===== verification/Wire_Correct.thy ===== *)
theory Wire_Correct
  imports Wire
begin

text \<open>
  What the builder writes is what the readers find: the bytes of a document, built field by field, are its BSON encoding, and the
  iterators, \<^verbatim>\<open>getField\<close> and the accessors give back the values. So the documents of \<open>Bson\<close>, which the rest of the
  development computes with, stand for the bytes that the driver handles.
\<close>

section \<open>The encoding\<close>

datatype wvalue =
    WDouble "64 word" | WString string | WObject "(string \<times> wvalue) list" | WArray "(string \<times> wvalue) list" | WBinData int string
  | WUndefined | WOID oid | WBool bool | WDate "64 word" | WNull | WRegEx string string | WDBRef string oid | WCode string
  | WSymbol string | WCodeWScope string "(string \<times> wvalue) list" | WInt "32 word" | WTimestamp "64 word" | WLong "64 word"
  | WMinKey | WMaxKey

fun type_of :: "wvalue \<Rightarrow> int" where
  "type_of (WDouble _) = NumberDouble"
| "type_of (WString _) = String_type"
| "type_of (WObject _) = Object_type"
| "type_of (WArray _) = Array_type"
| "type_of (WBinData _ _) = BinData"
| "type_of WUndefined = Undefined_type"
| "type_of (WOID _) = jstOID"
| "type_of (WBool _) = Bool_type"
| "type_of (WDate _) = Date_type"
| "type_of WNull = jstNULL"
| "type_of (WRegEx _ _) = RegEx"
| "type_of (WDBRef _ _) = DBRef"
| "type_of (WCode _) = Code"
| "type_of (WSymbol _) = Symbol"
| "type_of (WCodeWScope _ _) = CodeWScope"
| "type_of (WInt _) = NumberInt"
| "type_of (WTimestamp _) = Timestamp"
| "type_of (WLong _) = NumberLong"
| "type_of WMinKey = MinKey"
| "type_of WMaxKey = MaxKey"

lemmas type_defs = MinKey_def EOO_type_def NumberDouble_def String_type_def Object_type_def Array_type_def BinData_def Undefined_type_def
  jstOID_def Bool_type_def Date_type_def jstNULL_def RegEx_def DBRef_def Code_def Symbol_def CodeWScope_def NumberInt_def
  Timestamp_def NumberLong_def MaxKey_def

definition enc_int :: "nat \<Rightarrow> string" where "enc_int n = le32 (of_nat n)"
definition enc_char :: "int \<Rightarrow> string" where "enc_char i = [char_of (nat (i mod 256))]"
definition enc_cstring :: "string \<Rightarrow> string" where "enc_cstring s = s @ [CHR 0x00]"
definition enc_string :: "string \<Rightarrow> string" where "enc_string s = enc_int (length s + 1) @ enc_cstring s"
definition enc_frame :: "string \<Rightarrow> string" where "enc_frame s = enc_int (length s + 5) @ s @ [CHR 0x00]"

fun enc_value :: "wvalue \<Rightarrow> string" and enc_fields :: "(string \<times> wvalue) list \<Rightarrow> string" where
  "enc_value (WDouble x) = le64 x"
| "enc_value (WString s) = enc_string s"
| "enc_value (WObject fs) = enc_frame (enc_fields fs)"
| "enc_value (WArray fs) = enc_frame (enc_fields fs)"
| "enc_value (WBinData t s) = enc_int (length s) @ enc_char t @ s"
| "enc_value WUndefined = []"
| "enc_value (WOID u) = oid_bytes u"
| "enc_value (WBool b) = enc_char (if b then 1 else 0)"
| "enc_value (WDate x) = le64 x"
| "enc_value WNull = []"
| "enc_value (WRegEx s t) = enc_cstring s @ enc_cstring t"
| "enc_value (WDBRef s u) = enc_string s @ oid_bytes u"
| "enc_value (WCode s) = enc_string s"
| "enc_value (WSymbol s) = enc_string s"
| "enc_value (WCodeWScope s fs) = enc_int (length s + length (enc_fields fs) + 14) @ enc_string s @ enc_frame (enc_fields fs)"
| "enc_value (WInt x) = le32 x"
| "enc_value (WTimestamp x) = le64 x"
| "enc_value (WLong x) = le64 x"
| "enc_value WMinKey = []"
| "enc_value WMaxKey = []"
| "enc_fields [] = []"
| "enc_fields ((n, v) # fs) = enc_char (type_of v) @ enc_cstring n @ enc_value v @ enc_fields fs"

definition enc_elem :: "string \<Rightarrow> wvalue \<Rightarrow> string" where
  "enc_elem n v = enc_char (type_of v) @ enc_cstring n @ enc_value v"

definition enc_doc :: "(string \<times> wvalue) list \<Rightarrow> string" where
  "enc_doc fs = enc_frame (enc_fields fs)"

lemma enc_fields_Cons: "enc_fields ((n, v) # fs) = enc_elem n v @ enc_fields fs"
  by (simp add: enc_elem_def)

section \<open>Building\<close>

text \<open>A program that builds a document: an object in an element is built first, with a builder of its own.\<close>

fun append_value :: "char \<Rightarrow> string \<Rightarrow> wvalue \<Rightarrow> builder \<Rightarrow> exn + builder"
  and append_fields :: "char \<Rightarrow> (string \<times> wvalue) list \<Rightarrow> builder \<Rightarrow> exn + builder" where
  "append_value j n (WDouble x) b = append_Double n x b"
| "append_value j n (WString s) b = append_String n s b"
| "append_value j n (WObject fs) b = bindR (bindR (bindR (BSONObjBuilder 512 j) (append_fields j fs)) builder_obj) (\<lambda>o'. append_Object n o' b)"
| "append_value j n (WArray fs) b = bindR (bindR (bindR (BSONObjBuilder 512 j) (append_fields j fs)) builder_obj) (\<lambda>o'. appendArray n o' b)"
| "append_value j n (WBinData t s) b = appendBinData n t s b"
| "append_value j n WUndefined b = appendUndefined n b"
| "append_value j n (WOID u) b = append_OID n u b"
| "append_value j n (WBool x) b = append_Bool n x b"
| "append_value j n (WDate x) b = appendDate n x b"
| "append_value j n WNull b = appendNull n b"
| "append_value j n (WRegEx s t) b = appendRegex n s t b"
| "append_value j n (WDBRef s u) b = appendDBRef n s u b"
| "append_value j n (WCode s) b = appendCode n s b"
| "append_value j n (WSymbol s) b = appendSymbol n s b"
| "append_value j n (WCodeWScope s fs) b =
     bindR (bindR (bindR (BSONObjBuilder 512 j) (append_fields j fs)) builder_obj) (\<lambda>o'. appendCodeWScope n s o' b)"
| "append_value j n (WInt x) b = append_Int n x b"
| "append_value j n (WTimestamp x) b = appendTimestamp n x b"
| "append_value j n (WLong x) b = append_Long n x b"
| "append_value j n WMinKey b = appendMinKey n b"
| "append_value j n WMaxKey b = appendMaxKey n b"
| "append_fields j [] b = Inr b"
| "append_fields j ((n, v) # fs) b = bindR (append_value j n v b) (append_fields j fs)"

definition build :: "char \<Rightarrow> (string \<times> wvalue) list \<Rightarrow> exn + string" where
  "build j fs = bindR (bindR (BSONObjBuilder 512 j) (append_fields j fs)) builder_obj"

lemma length_le [simp]: "length (le n x) = n"
  by (induction n arbitrary: x) simp_all

lemma length_enc [simp]: "length (le32 x) = 4" "length (le64 y) = 8" "length (enc_int n) = 4" "length (enc_char i) = 1"
  "length (enc_cstring s) = length s + 1" "length (enc_string s) = length s + 5" "length (enc_frame s) = length s + 5"
  "length (oid_bytes u) = 12"
  by (simp_all add: le32_def le64_def enc_int_def enc_char_def enc_cstring_def enc_string_def enc_frame_def oid_bytes_def)

lemma unle_le: "unle (le n x) = x mod 256 ^ n"
proof (induction n arbitrary: x)
  case (Suc n)
  have "x mod 256 + 256 * (x div 256 mod 256 ^ n) = x mod (256 * 256 ^ n)" by (simp add: mod_mult2_eq)
  with Suc show ?case by simp
qed simp

lemma unle_le32: "n < 2 ^ 32 \<Longrightarrow> unle (le32 (of_nat n)) = n"
  by (simp add: le32_def unle_le unat_of_nat take_bit_eq_mod)

lemma int32_small: "- (2 ^ 31) \<le> i \<Longrightarrow> i < 2 ^ 31 \<Longrightarrow> int32 i = i"
  unfolding int32_def by (rule sint_of_small)

definition room :: nat where "room = nat BSONObjMaxInternalSize + 4"

lemma room_eq: "room = 16793604"
  by (simp add: room_def BSONObjMaxInternalSize_def BSONObjMaxUserSize_def)

definition writes :: "(buf \<Rightarrow> exn + buf) \<Rightarrow> string \<Rightarrow> bool" where
  "writes f s \<longleftrightarrow> (\<forall>b. length (bb_data b) + length s \<le> room \<longrightarrow> (\<exists>n. f b = Inr \<lparr>bb_data = bb_data b @ s, bb_size = n\<rparr>))"

lemma writesD: "writes f s \<Longrightarrow> length (bb_data b) + length s \<le> room \<Longrightarrow> \<exists>n. f b = Inr \<lparr>bb_data = bb_data b @ s, bb_size = n\<rparr>"
  by (simp add: writes_def)

lemma enc_EOO: "enc_char EOO_type = [CHR 0x00]"
  by (simp add: enc_char_def EOO_type_def char_of_def)

named_theorems writes_intros "what is written into a buffer"

lemma writes_appendBuf [writes_intros]: "writes (appendBuf s) s"
  by (auto simp: writes_def appendBuf_def grow_reallocate_def Let_def BufferMaxSize_def room_eq)

lemma writes_appendChar [writes_intros]: "writes (appendChar c) (enc_char c)"
  unfolding appendChar_def enc_char_def by (rule writes_appendBuf)

lemma writes_appendInt [writes_intros]: "writes (appendInt x) (le32 x)"
  unfolding appendInt_def by (rule writes_appendBuf)

lemma writes_appendLong [writes_intros]: "writes (appendLong x) (le64 x)"
  unfolding appendLong_def by (rule writes_appendBuf)

lemma writes_appendStr [writes_intros]: "writes (appendStr s) (enc_cstring s)"
  unfolding appendStr_def enc_cstring_def by (rule writes_appendBuf)

lemma writes_bind:
  assumes "writes f s" and "writes g t"
  shows "writes (\<lambda>b. bindR (f b) g) (s @ t)"
proof (unfold writes_def, intro allI impI)
  fix b :: buf assume room: "length (bb_data b) + length (s @ t) \<le> room"
  then obtain n where "f b = Inr \<lparr>bb_data = bb_data b @ s, bb_size = n\<rparr>" using writesD [OF assms(1), of b] by auto
  moreover obtain k where "g \<lparr>bb_data = bb_data b @ s, bb_size = n\<rparr> = Inr \<lparr>bb_data = (bb_data b @ s) @ t, bb_size = k\<rparr>"
    using writesD [OF assms(2), of "\<lparr>bb_data = bb_data b @ s, bb_size = n\<rparr>"] room by auto
  ultimately show "\<exists>n. bindR (f b) g = Inr \<lparr>bb_data = bb_data b @ s @ t, bb_size = n\<rparr>" by simp
qed

lemma writes_header [writes_intros]: "writes (header t n) (enc_char t @ enc_cstring n)"
  unfolding header_def by (intro writes_bind writes_intros)

definition filled :: "builder \<Rightarrow> string \<Rightarrow> exn + builder \<Rightarrow> bool" where
  "filled b s r \<longleftrightarrow> (\<exists>k. r = Inr (b\<lparr>bo_buf := \<lparr>bb_data = bb_data (bo_buf b) @ s, bb_size = k\<rparr>\<rparr>))"

lemma filled_onBuf: "writes f s \<Longrightarrow> length (bb_data (bo_buf b)) + length s \<le> room \<Longrightarrow> filled b s (onBuf f b)"
  by (force simp: writes_def filled_def onBuf_def)

lemma filled_bind:
  assumes "filled b s r" and "\<And>k. filled (b\<lparr>bo_buf := \<lparr>bb_data = bb_data (bo_buf b) @ s, bb_size = k\<rparr>\<rparr>) t
    (f (b\<lparr>bo_buf := \<lparr>bb_data = bb_data (bo_buf b) @ s, bb_size = k\<rparr>\<rparr>))"
  shows "filled b (s @ t) (bindR r f)"
  using assms by (fastforce simp: filled_def)

text \<open>A whole object.\<close>

lemma built_object:
  assumes fields: "\<And>b. 8 \<le> length (bb_data (bo_buf b)) \<Longrightarrow> length (bb_data (bo_buf b)) + length s \<le> room \<Longrightarrow> filled b s (f b)"
    and size: "length s + 5 \<le> nat BSONObjMaxInternalSize"
  shows "bindR (bindR (BSONObjBuilder 512 j) f) builder_obj = Inr (enc_frame s)"
proof -
  let ?d = "le32 0 @ replicate 4 j"
  let ?b = "\<lparr>bo_buf = \<lparr>bb_data = ?d, bb_size = 516\<rparr>, bo_offset = 4, bo_done = False\<rparr>"
  have s: "length s + 5 \<le> 16793600" using size by (simp add: BSONObjMaxInternalSize_def BSONObjMaxUserSize_def)
  have new: "BSONObjBuilder 512 j = Inr ?b"
    by (simp add: BSONObjBuilder_def appendInt_def appendBuf_def Let_def)
  have "filled ?b s (f ?b)" using s by (intro fields) (simp_all add: room_eq)
  then obtain k where f: "f ?b = Inr (?b\<lparr>bo_buf := \<lparr>bb_data = ?d @ s, bb_size = k\<rparr>\<rparr>)" by (auto simp: filled_def)
  obtain k' where e: "appendChar EOO_type \<lparr>bb_data = ?d @ s, bb_size = k\<rparr> = Inr \<lparr>bb_data = (?d @ s) @ [CHR 0x00], bb_size = k'\<rparr>"
    using writesD [OF writes_appendChar, of "\<lparr>bb_data = ?d @ s, bb_size = k\<rparr>" EOO_type] s by (auto simp: room_eq enc_EOO)
  have int32: "int32 (int (unle (le32 (of_nat (length s + 5))))) = int (length s) + 5"
  proof -
    have size: "unle (le32 (of_nat (length s + 5))) = length s + 5"
      using s unle_le32 [of "length s + 5"] by simp
    then show ?thesis
      using s unfolding size by (simp add: int32_small)
  qed
  have fin: "builder_done (?b\<lparr>bo_buf := \<lparr>bb_data = ?d @ s, bb_size = k\<rparr>\<rparr>)
      = Inr (?b\<lparr>bo_done := True, bo_buf := \<lparr>bb_data = le32 0 @ le32 (of_nat (length s + 5)) @ s @ [CHR 0x00], bb_size = k'\<rparr>\<rparr>)"
    using e by (simp add: builder_done_def add.commute)
  have "objsize_ok (int (length s) + 5)"
    using s by (simp add: objsize_ok_def BSONObjMaxInternalSize_def BSONObjMaxUserSize_def)
  then show ?thesis
    using int32 fin by (simp add: new f builder_obj_def enc_frame_def enc_int_def)
qed

lemma size_of_string: "le32 (size_of_string s) = enc_int (length s + 1)"
  by (simp add: size_of_string_def enc_int_def add.commute)

lemmas append_defs = append_Double_def append_String_def append_Object_def appendArray_def appendBinData_def appendUndefined_def
  append_OID_def append_Bool_def appendDate_def appendNull_def appendRegex_def appendDBRef_def appendCode_def appendSymbol_def
  appendCodeWScope_def append_Int_def appendTimestamp_def append_Long_def appendMinKey_def appendMaxKey_def

lemma writes_eq: "writes f s \<Longrightarrow> s = t \<Longrightarrow> writes f t"
  by simp

text \<open>What each function of the builder adds.\<close>

lemma filled_op:
  assumes "length (bb_data (bo_buf b)) + length (enc_elem n v) \<le> room" and "F = onBuf f" and "writes f s" and "s = enc_elem n v"
  shows "filled b (enc_elem n v) (F b)"
  using filled_onBuf [of f s b] assms by simp

lemma filled_ops:
  shows "length (bb_data (bo_buf b)) + length (enc_elem n (WDouble x)) \<le> room \<Longrightarrow> filled b (enc_elem n (WDouble x)) (append_Double n x b)"
    and "length (bb_data (bo_buf b)) + length (enc_elem n (WString s)) \<le> room \<Longrightarrow> filled b (enc_elem n (WString s)) (append_String n s b)"
    and "length (bb_data (bo_buf b)) + length (enc_elem n (WObject fs)) \<le> room \<Longrightarrow> filled b (enc_elem n (WObject fs)) (append_Object n (enc_doc fs) b)"
    and "length (bb_data (bo_buf b)) + length (enc_elem n (WArray fs)) \<le> room \<Longrightarrow> filled b (enc_elem n (WArray fs)) (appendArray n (enc_doc fs) b)"
    and "length (bb_data (bo_buf b)) + length (enc_elem n (WBinData t s)) \<le> room \<Longrightarrow> filled b (enc_elem n (WBinData t s)) (appendBinData n t s b)"
    and "length (bb_data (bo_buf b)) + length (enc_elem n WUndefined) \<le> room \<Longrightarrow> filled b (enc_elem n WUndefined) (appendUndefined n b)"
    and "length (bb_data (bo_buf b)) + length (enc_elem n (WOID u)) \<le> room \<Longrightarrow> filled b (enc_elem n (WOID u)) (append_OID n u b)"
    and "length (bb_data (bo_buf b)) + length (enc_elem n (WBool c)) \<le> room \<Longrightarrow> filled b (enc_elem n (WBool c)) (append_Bool n c b)"
    and "length (bb_data (bo_buf b)) + length (enc_elem n (WDate x)) \<le> room \<Longrightarrow> filled b (enc_elem n (WDate x)) (appendDate n x b)"
    and "length (bb_data (bo_buf b)) + length (enc_elem n WNull) \<le> room \<Longrightarrow> filled b (enc_elem n WNull) (appendNull n b)"
    and "length (bb_data (bo_buf b)) + length (enc_elem n (WRegEx s r)) \<le> room \<Longrightarrow> filled b (enc_elem n (WRegEx s r)) (appendRegex n s r b)"
    and "length (bb_data (bo_buf b)) + length (enc_elem n (WDBRef s u)) \<le> room \<Longrightarrow> filled b (enc_elem n (WDBRef s u)) (appendDBRef n s u b)"
    and "length (bb_data (bo_buf b)) + length (enc_elem n (WCode s)) \<le> room \<Longrightarrow> filled b (enc_elem n (WCode s)) (appendCode n s b)"
    and "length (bb_data (bo_buf b)) + length (enc_elem n (WSymbol s)) \<le> room \<Longrightarrow> filled b (enc_elem n (WSymbol s)) (appendSymbol n s b)"
    and "length (bb_data (bo_buf b)) + length (enc_elem n (WInt y)) \<le> room \<Longrightarrow> filled b (enc_elem n (WInt y)) (append_Int n y b)"
    and "length (bb_data (bo_buf b)) + length (enc_elem n (WTimestamp x)) \<le> room \<Longrightarrow> filled b (enc_elem n (WTimestamp x)) (appendTimestamp n x b)"
    and "length (bb_data (bo_buf b)) + length (enc_elem n (WLong x)) \<le> room \<Longrightarrow> filled b (enc_elem n (WLong x)) (append_Long n x b)"
    and "length (bb_data (bo_buf b)) + length (enc_elem n WMinKey) \<le> room \<Longrightarrow> filled b (enc_elem n WMinKey) (appendMinKey n b)"
    and "length (bb_data (bo_buf b)) + length (enc_elem n WMaxKey) \<le> room \<Longrightarrow> filled b (enc_elem n WMaxKey) (appendMaxKey n b)"
  by - (erule filled_op, rule append_defs, (rule writes_bind writes_intros)+,
    simp add: enc_elem_def enc_string_def enc_cstring_def enc_int_def enc_doc_def size_of_string [unfolded enc_int_def])+

lemma filled_scope:
  assumes "length (bb_data (bo_buf b)) + length (enc_elem n (WCodeWScope s fs)) \<le> room"
  shows "filled b (enc_elem n (WCodeWScope s fs)) (appendCodeWScope n s (enc_doc fs) b)"
  unfolding appendCodeWScope_def
proof (rule filled_onBuf)
  have "le32 (4 + 4 + of_nat (length s) + 1 + of_nat (length (enc_doc fs))) = enc_int (length s + length (enc_fields fs) + 14)"
    by (simp add: enc_int_def enc_doc_def algebra_simps)
  then have "enc_elem n (WCodeWScope s fs) = (enc_char CodeWScope @ enc_cstring n) @
      le32 (4 + 4 + of_nat (length s) + 1 + of_nat (length (enc_doc fs))) @ le32 (size_of_string s) @ enc_cstring s @ enc_doc fs"
    by (simp add: enc_elem_def enc_string_def size_of_string enc_doc_def)
  then show "writes (\<lambda>b. bindR (header CodeWScope n b) (\<lambda>b. bindR (appendInt (4 + 4 + of_nat (length s) + 1 + of_nat (length (enc_doc fs))) b)
      (\<lambda>b. bindR (appendInt (size_of_string s) b) (\<lambda>b. bindR (appendStr s b) (appendBuf (enc_doc fs)))))) (enc_elem n (WCodeWScope s fs))"
    by (simp only:) (intro writes_bind writes_intros)
qed (use assms in simp)

lemma enc_object_fits:
  assumes "8 \<le> length (bb_data (bo_buf b))" and "length (bb_data (bo_buf b)) + length (enc_elem n v) \<le> room"
    and "v = WObject fs \<or> v = WArray fs \<or> v = WCodeWScope s fs"
  shows "length (enc_fields fs) + 5 \<le> nat BSONObjMaxInternalSize"
  using assms by (auto simp: enc_elem_def room_def)

lemma append_filled:
  shows "8 \<le> length (bb_data (bo_buf b)) \<Longrightarrow> length (bb_data (bo_buf b)) + length (enc_elem n v) \<le> room \<Longrightarrow>
      filled b (enc_elem n v) (append_value j n v b)"
    and "8 \<le> length (bb_data (bo_buf b)) \<Longrightarrow> length (bb_data (bo_buf b)) + length (enc_fields fs) \<le> room \<Longrightarrow>
      filled b (enc_fields fs) (append_fields j fs b)"
proof (induction j n v b and j fs b rule: append_value_append_fields.induct)
  case (3 j n fs b)
  have "bindR (bindR (BSONObjBuilder 512 j) (append_fields j fs)) builder_obj = Inr (enc_doc fs)"
    unfolding enc_doc_def using 3 by (intro built_object enc_object_fits [of b n]) auto
  with 3 show ?case by (simp add: filled_ops)
next
  case (4 j n fs b)
  have "bindR (bindR (BSONObjBuilder 512 j) (append_fields j fs)) builder_obj = Inr (enc_doc fs)"
    unfolding enc_doc_def using 4 by (intro built_object enc_object_fits [of b n]) auto
  with 4 show ?case by (simp add: filled_ops)
next
  case (15 j n s fs b)
  have "bindR (bindR (BSONObjBuilder 512 j) (append_fields j fs)) builder_obj = Inr (enc_doc fs)"
    unfolding enc_doc_def using 15 by (intro built_object enc_object_fits [of b n]) auto
  with 15 show ?case by (simp add: filled_scope)
next
  case (21 j b)
  then show ?case by (auto simp: filled_def intro!: exI [of _ "bb_size (bo_buf b)"])
next
  case (22 j n v fs b)
  then show ?case unfolding enc_fields_Cons append_fields.simps by (intro filled_bind) auto
qed (simp_all add: filled_ops)

text \<open>The bytes of a document, built field by field. The bound is what \<^verbatim>\<open>BSONObj\<close> accepts.\<close>

lemma build_enc:
  assumes "length (enc_doc fs) \<le> nat BSONObjMaxInternalSize"
  shows "build j fs = Inr (enc_doc fs)"
  unfolding build_def enc_doc_def using assms by (intro built_object append_filled) (simp_all add: enc_doc_def)

section \<open>Reading\<close>

text \<open>\<open>holds m p s\<close>: the memory has the bytes \<open>s\<close> at \<open>p\<close>.\<close>

definition holds :: "string \<Rightarrow> int \<Rightarrow> string \<Rightarrow> bool" where
  "holds m p s \<longleftrightarrow> (\<exists>a t. m = a @ s @ t \<and> p = int (length a))"

lemma holds_append: "holds m p (s @ t) \<longleftrightarrow> holds m p s \<and> holds m (p + int (length s)) t"
proof
  assume "holds m p (s @ t)"
  then obtain a u where u: "m = a @ (s @ t) @ u" "p = int (length a)" by (auto simp: holds_def)
  then have "m = a @ s @ t @ u" "m = (a @ s) @ t @ u" "p + int (length s) = int (length (a @ s))" by simp_all
  with u(2) show "holds m p s \<and> holds m (p + int (length s)) t" unfolding holds_def by metis
next
  assume "holds m p s \<and> holds m (p + int (length s)) t"
  then obtain a b u v where u: "m = a @ s @ u" "p = int (length a)" "m = b @ t @ v" "p + int (length s) = int (length b)"
    unfolding holds_def by blast
  then have "b @ t @ v = (a @ s) @ u" "length b = length (a @ s)" by simp_all
  then have "u = t @ v" using append_eq_append_conv [of b "a @ s" "t @ v" u] by simp
  with u(1,2) show "holds m p (s @ t)" by (auto simp: holds_def)
qed

lemma holds_nonneg: "holds m p s \<Longrightarrow> 0 \<le> p"
  by (auto simp: holds_def)

lemma holds_read: "holds m p s \<Longrightarrow> n = length s \<Longrightarrow> read m p n = Inr s"
  by (auto simp: holds_def read_def)

lemma holds_cstring:
  assumes "holds m p (enc_cstring s)" and "CHR 0x00 \<notin> set s"
  shows "cstring m p = Inr s"
proof -
  obtain a t where m: "m = a @ (s @ [CHR 0x00]) @ t" "p = int (length a)"
    using assms(1) by (auto simp: holds_def enc_cstring_def)
  then have "drop (nat p) m = s @ CHR 0x00 # t" by simp
  moreover have "takeWhile (\<lambda>c. c \<noteq> CHR 0x00) (s @ CHR 0x00 # t) = s"
    using assms(2) by (subst takeWhile_append2) auto
  ultimately show ?thesis using m(2) by (simp add: cstring_def)
qed

lemma char_code: "- 128 \<le> i \<Longrightarrow> i < 128 \<Longrightarrow> sint (of_nat (unle (enc_char i)) :: 8 word) = i"
proof -
  assume i: "- 128 \<le> i" "i < 128"
  have "unle (enc_char i) = nat (i mod 256)" by (simp add: enc_char_def nat_mod_distrib)
  then have "(of_nat (unle (enc_char i)) :: 8 word) = word_of_int (i mod 256)" by simp
  also have "\<dots> = word_of_int i" by (simp add: word_of_int_eq_iff take_bit_eq_mod)
  finally show ?thesis using i by (simp add: signed_of_int signed_take_bit_int_eq_self)
qed

lemma unle_words: "unle (le32 x) = unat x" "unle (le64 y) = unat y"
proof -
  have "unat x < 2 ^ LENGTH(32)" "unat y < 2 ^ LENGTH(64)" by (rule unsigned_less)+
  then have "unat x < 256 ^ 4" "unat y < 256 ^ 8" by simp_all
  then show "unle (le32 x) = unat x" "unle (le64 y) = unat y" by (simp_all only: le32_def le64_def unle_le mod_less)
qed

lemma holds_char:
  assumes "holds m p (enc_char i)" and "- 128 \<le> i" and "i < 128"
  shows "read_char m p = Inr i"
  unfolding read_char_def holds_read [OF assms(1) length_enc(4) [symmetric]] bindR_simps char_code [OF assms(2,3)] by simp

lemma holds_int: "holds m p (le32 x) \<Longrightarrow> read_int m p = Inr x"
  unfolding read_int_def by (simp add: holds_read unle_words)

lemma holds_long: "holds m p (le64 x) \<Longrightarrow> read_long m p = Inr x"
  unfolding read_long_def by (simp add: holds_read unle_words)

lemma type_of_range: "- 128 \<le> type_of v" "type_of v < 128" "type_of v \<noteq> EOO_type"
  by (cases v; simp add: type_defs)+

text \<open>An element in memory, whose name has no null.\<close>

lemma read_elem:
  assumes h: "holds m p (enc_elem n v)" and n: "CHR 0x00 \<notin> set n"
  shows "elem_type m (At p) = Inr (type_of v)" "eoo m (At p) = Inr False" "fieldName m (At p) = Inr n"
    "fieldNameSize m (At p) = Inr (int (length n) + 1)" "elem_value m (At p) = Inr (p + int (length n) + 2)"
    "holds m (p + int (length n) + 2) (enc_value v)"
proof -
  have parts: "holds m p (enc_char (type_of v))" "holds m (p + 1) (enc_cstring n)" "holds m (p + int (length n) + 2) (enc_value v)"
    using h by (simp_all add: enc_elem_def holds_append add.commute add.left_commute)
  show t: "elem_type m (At p) = Inr (type_of v)"
    using holds_char [OF parts(1)] type_of_range [of v] by (simp add: elem_type_def)
  then show e: "eoo m (At p) = Inr False" by (simp add: eoo_def type_of_range)
  show f: "fieldName m (At p) = Inr n" using e holds_cstring [OF parts(2) n] by (simp add: fieldName_def)
  show s: "fieldNameSize m (At p) = Inr (int (length n) + 1)" by (simp add: fieldNameSize_def e f)
  show "elem_value m (At p) = Inr (p + int (length n) + 2)" by (simp add: elem_value_def s)
  show "holds m (p + int (length n) + 2) (enc_value v)" by (rule parts)
qed

definition readable :: "wvalue \<Rightarrow> bool" where
  "readable v \<longleftrightarrow> (case v of WRegEx s t \<Rightarrow> CHR 0x00 \<notin> set s \<and> CHR 0x00 \<notin> set t | _ \<Rightarrow> True)"

lemma holds_size:
  assumes "holds m p (enc_int k)" and "k < 2 ^ 31"
  shows "valuestrsize m p = Inr (int k)" and "objsize m p = Inr (int k)"
proof -
  have "sint (of_nat k :: 32 word) = int k"
    using int32_small [of "int k"] assms(2) by (simp add: int32_def)
  with assms(1) show "valuestrsize m p = Inr (int k)" "objsize m p = Inr (int k)"
    by (simp_all add: valuestrsize_def objsize_def holds_int enc_int_def)
qed

text \<open>The number that some values start with.\<close>

fun size_field :: "wvalue \<Rightarrow> nat" where
  "size_field (WString s) = length s + 1"
| "size_field (WObject fs) = length (enc_fields fs) + 5"
| "size_field (WArray fs) = length (enc_fields fs) + 5"
| "size_field (WBinData _ s) = length s"
| "size_field (WDBRef s _) = length s + 1"
| "size_field (WCode s) = length s + 1"
| "size_field (WSymbol s) = length s + 1"
| "size_field (WCodeWScope s fs) = length s + length (enc_fields fs) + 14"
| "size_field _ = 0"

lemma read_value_size:
  assumes h: "holds m q (enc_value v)" and r: "readable v" and small: "length (enc_value v) < 2 ^ 31 - 1"
  shows "value_size m (type_of v) q = Inr (int (length (enc_value v)))"
proof -
  have "size_field v \<le> length (enc_value v)" by (cases v) simp_all
  then have size: "holds m q (enc_int (size_field v)) \<Longrightarrow> valuestrsize m q = Inr (int (size_field v))"
    using small by (intro holds_size) simp_all
  note simps = value_size_def type_defs
  show ?thesis
  proof (cases v)
    case (WRegEx s t)
    have "holds m q (enc_cstring s)" "holds m (q + int (length s) + 1) (enc_cstring t)"
      using h by (simp_all add: WRegEx holds_append add_ac)
    moreover have "CHR 0x00 \<notin> set s" "CHR 0x00 \<notin> set t" using r by (simp_all add: WRegEx readable_def)
    ultimately have "cstring m q = Inr s" "cstring m (q + int (length s) + 1) = Inr t" by (simp_all add: holds_cstring)
    with WRegEx show ?thesis by (simp add: simps)
  qed (use h size small in \<open>simp_all add: simps holds_append enc_string_def enc_frame_def int32_small\<close>)
qed

lemma read_elem_size:
  assumes h: "holds m p (enc_elem n v)" and n: "CHR 0x00 \<notin> set n" and r: "readable v" and small: "length (enc_elem n v) < 2 ^ 31 - 1"
  shows "elem_size m (At p) = Inr (int (length (enc_elem n v)))" "next_pos m p = Inr (p + int (length (enc_elem n v)))"
proof -
  have "value_size m (type_of v) (p + int (length n) + 2) = Inr (int (length (enc_value v)))"
    using small by (intro read_value_size read_elem(6) [OF h n] r) (simp add: enc_elem_def)
  then show size: "elem_size m (At p) = Inr (int (length (enc_elem n v)))"
    using small by (simp add: elem_size_def read_elem [OF h n] type_of_range int32_small enc_elem_def)
  show "next_pos m p = Inr (p + int (length (enc_elem n v)))" by (simp add: next_pos_def size)
qed

text \<open>All the elements of an object, and the first with a name.\<close>

primrec positions :: "int \<Rightarrow> (string \<times> wvalue) list \<Rightarrow> element list" where
  "positions p [] = []"
| "positions p (f # fs) = At p # positions (p + int (length (enc_elem (fst f) (snd f)))) fs"

primrec position_of :: "int \<Rightarrow> string \<Rightarrow> (string \<times> wvalue) list \<Rightarrow> element" where
  "position_of p n [] = NoElement"
| "position_of p n (f # fs) = (if fst f = n then At p else position_of (p + int (length (enc_elem (fst f) (snd f)))) n fs)"

definition plain_names :: "(string \<times> wvalue) list \<Rightarrow> bool" where
  "plain_names fs \<longleftrightarrow> (\<forall>(n, v) \<in> set fs. CHR 0x00 \<notin> set n \<and> readable v)"

lemma plain_Cons: "plain_names (f # fs) \<longleftrightarrow> CHR 0x00 \<notin> set (fst f) \<and> readable (snd f) \<and> plain_names fs"
  by (auto simp: plain_names_def)

lemma read_step:
  assumes "holds m p (enc_fields (f # fs))" and "plain_names (f # fs)" and "length (enc_fields (f # fs)) < 2 ^ 31 - 1"
    and "q = p + int (length (enc_elem (fst f) (snd f)))"
  shows "next_pos m p = Inr q" "fieldName m (At p) = Inr (fst f)" "holds m q (enc_fields fs)" "plain_names fs"
    "length (enc_fields fs) < 2 ^ 31 - 1" "p + int (length (enc_fields (f # fs))) = q + int (length (enc_fields fs))"
    "p < q + int (length (enc_fields fs))"
proof -
  obtain k v where f: "f = (k, v)" by (cases f)
  have q: "q = p + int (length (enc_elem k v))" using assms(4) by (simp add: f)
  have "holds m p (enc_elem k v)" "holds m q (enc_fields fs)"
    using assms(1) unfolding f enc_fields_Cons holds_append q by simp_all
  then show "next_pos m p = Inr q" "fieldName m (At p) = Inr (fst f)" "holds m q (enc_fields fs)"
    using assms(2,3) by (simp_all add: f q enc_fields_Cons plain_Cons read_elem_size read_elem del: enc_fields.simps)
  show "plain_names fs" "length (enc_fields fs) < 2 ^ 31 - 1" "p + int (length (enc_fields (f # fs))) = q + int (length (enc_fields fs))"
    using assms(2,3) by (simp_all add: f q enc_fields_Cons plain_Cons del: enc_fields.simps)
  show "p < q + int (length (enc_fields fs))" by (simp add: q enc_elem_def)
qed

lemma read_elements:
  "holds m p (enc_fields fs) \<Longrightarrow> plain_names fs \<Longrightarrow> length (enc_fields fs) < 2 ^ 31 - 1
   \<Longrightarrow> elements m p (p + int (length (enc_fields fs))) = Some (Inr (positions p fs))"
proof (induction fs arbitrary: p)
  case (Cons f fs)
  note step = read_step [OF Cons.prems refl]
  from Cons.IH [OF step(3-5)] show ?case
    unfolding step(6) using step(7) by (subst elements.simps) (simp add: step(1))
qed (simp add: elements.simps)

lemma read_find:
  "holds m p (enc_fields fs) \<Longrightarrow> plain_names fs \<Longrightarrow> length (enc_fields fs) < 2 ^ 31 - 1
   \<Longrightarrow> find_field m n p (p + int (length (enc_fields fs))) = Some (Inr (position_of p n fs))"
proof (induction fs arbitrary: p)
  case (Cons f fs)
  note step = read_step [OF Cons.prems refl]
  from Cons.IH [OF step(3-5)] show ?case
    unfolding step(6) using step(7) by (subst find_field.simps) (simp add: step(1,2))
qed (simp add: find_field.simps)

section \<open>Documents\<close>

text \<open>An object at \<open>p\<close> of a size the driver accepts.\<close>

definition object_at :: "string \<Rightarrow> int \<Rightarrow> (string \<times> wvalue) list \<Rightarrow> bool" where
  "object_at m p fs \<longleftrightarrow> holds m p (enc_doc fs) \<and> length (enc_doc fs) \<le> nat BSONObjMaxInternalSize \<and> plain_names fs"

lemma max_eq: "nat BSONObjMaxInternalSize = 16793600" "BSONObjMaxInternalSize = 16793600"
  by (simp_all add: BSONObjMaxInternalSize_def BSONObjMaxUserSize_def)

lemma object_at_facts:
  assumes "object_at m p fs"
  shows "BSONObjIterator m p = Inr (p + 4, p + 4 + int (length (enc_fields fs)))" "BSONObj_init m p = Inr p"
    "wire_getField m p f = Some (Inr (position_of (p + 4) f fs))" "elems m p = Some (Inr (positions (p + 4) fs))"
    "holds m (p + 4) (enc_fields fs)"
proof -
  have len: "length (enc_fields fs) + 5 \<le> 16793600" and plain: "plain_names fs" and h: "holds m p (enc_frame (enc_fields fs))"
    using assms by (simp_all add: object_at_def enc_doc_def max_eq)
  then have parts: "holds m p (enc_int (length (enc_fields fs) + 5))" "holds m (p + 4) (enc_fields fs)"
    by (simp_all add: enc_frame_def holds_append)
  then have size: "objsize m p = Inr (int (length (enc_fields fs)) + 5)"
    using holds_size(2) [OF parts(1)] len by simp
  then show it: "BSONObjIterator m p = Inr (p + 4, p + 4 + int (length (enc_fields fs)))" by (simp add: BSONObjIterator_def)
  show "BSONObj_init m p = Inr p" using len by (simp add: BSONObj_init_def size objsize_ok_def max_eq)
  have "length (enc_fields fs) < 2 ^ 31 - 1" using len by simp
  with parts(2) plain show "wire_getField m p f = Some (Inr (position_of (p + 4) f fs))" "elems m p = Some (Inr (positions (p + 4) fs))"
    by (simp_all add: wire_getField_def elems_def it read_find read_elements)
  show "holds m (p + 4) (enc_fields fs)" by (rule parts)
qed

text \<open>Which bytes a value of \<open>Bson\<close> stands for.\<close>

inductive stands :: "bson \<Rightarrow> wvalue \<Rightarrow> bool" where
  "CHR 0x00 \<notin> set s \<Longrightarrow> stands (BStr s) (WString s)"
| "stands (BInt i) (WInt i)"
| "stands (BLong l) (WLong l)"
| "double_value x = d \<Longrightarrow> stands (BDbl d) (WDouble x)"
| "stands (BBool b) (WBool b)"
| "stands BDate (WDate x)"
| "stands (BOid u) (WOID u)"
| "map fst d = map fst fs \<Longrightarrow> \<forall>n \<in> set (map fst fs). CHR 0x00 \<notin> set n \<Longrightarrow> list_all2 stands (map snd d) (map snd fs)
    \<Longrightarrow> stands (BObj d) (WObject fs)"
| "map nat_str [0..<length vs] = map fst fs \<Longrightarrow> list_all2 stands vs (map snd fs) \<Longrightarrow> stands (BArr vs) (WArray fs)"

definition stands_doc :: "doc \<Rightarrow> (string \<times> wvalue) list \<Rightarrow> bool" where
  "stands_doc d fs \<longleftrightarrow> map fst d = map fst fs \<and> (\<forall>n \<in> set (map fst fs). CHR 0x00 \<notin> set n) \<and> list_all2 stands (map snd d) (map snd fs)"

inductive_cases stands_cases: "stands v w"
inductive_simps stands_simps: "stands EOO w" "stands (BStr s) w" "stands (BInt i) w" "stands (BLong l) w" "stands (BDbl x) w"
  "stands (BBool b) w" "stands BDate w" "stands (BOid u) w" "stands (BObj d) w" "stands (BArr vs) w"

lemma stands_readable: "stands v w \<Longrightarrow> readable w"
  by (erule stands_cases) (simp_all add: readable_def)

lemma stands_plain: "stands_doc d fs \<Longrightarrow> plain_names fs"
proof -
  assume st: "stands_doc d fs"
  then have all: "list_all2 stands (map snd d) (map snd fs)" by (simp add: stands_doc_def)
  have "readable w" if w: "w \<in> set (map snd fs)" for w
  proof -
    from w obtain i where i: "i < length (map snd fs)" "map snd fs ! i = w" unfolding in_set_conv_nth by blast
    from list_all2_nthD2 [OF all i(1)] show ?thesis unfolding i(2) by (rule stands_readable)
  qed
  with st show ?thesis by (force simp: plain_names_def stands_doc_def)
qed

text \<open>Digits of numbers have no null, and are read back.\<close>

lemma digit_code: "d < 10 \<Longrightarrow> (of_char (char_of (48 + d :: nat) :: char) :: nat) = 48 + d"
  by (simp add: of_char_of)

lemma digit_word: "(of_char c :: 32 word) = of_nat (of_char c)"
  by (rule of_nat_of_char [symmetric])

lemma nat_str_digits: "c \<in> set (nat_str n) \<Longrightarrow> 48 \<le> (of_char c :: nat) \<and> of_char c \<le> (57 :: nat)"
proof (induction n rule: nat_str.induct)
  case (1 n)
  have last: "48 \<le> (of_char (char_of (48 + n mod 10 :: nat) :: char) :: nat)" "of_char (char_of (48 + n mod 10 :: nat) :: char) \<le> (57 :: nat)"
    unfolding digit_code [of "n mod 10", simplified] by simp_all
  show ?case
  proof (cases "n < 10")
    case True
    with 1(2) last show ?thesis by (simp add: nat_str.simps [of n])
  next
    case False
    with 1 last show ?thesis by (auto simp: nat_str.simps [of n])
  qed
qed

lemma nat_str_plain: "CHR 0x00 \<notin> set (nat_str n)"
  using nat_str_digits [of "CHR 0x00" n] by auto

lemma digit_step:
  assumes "d < 10"
  shows "stringToNum_loop x b [char_of (48 + d :: nat)] = Inr (x * 10 + of_nat d)"
proof -
  have "(of_char (char_of (48 + d :: nat) :: char) :: 32 word) = 48 + of_nat d"
    by (simp only: digit_word digit_code [OF assms] of_nat_add of_nat_numeral)
  with assms show ?thesis by (simp only: stringToNum_loop.simps digit_code) simp
qed

lemma stringToNum_append:
  "s \<noteq> [] \<Longrightarrow> stringToNum_loop x b s = Inr y \<Longrightarrow> d < 10 \<Longrightarrow> stringToNum_loop x b (s @ [char_of (48 + d :: nat)]) = Inr (y * 10 + of_nat d)"
proof (induction x b s rule: stringToNum_loop.induct)
  case (2 x b c cs)
  then have c: "48 \<le> (of_char c :: nat) \<and> of_char c \<le> (57 :: nat)" by (simp split: if_splits)
  show ?case
  proof (cases "cs = []")
    case True
    with 2(3) c have "y = x * 10 + of_char c - 48" by simp
    with True c digit_step [OF 2(4)] show ?thesis by (simp del: of_char_of char_of_def)
  next
    case False
    with 2 c show ?thesis by simp
  qed
qed simp

lemma nat_str_nonempty: "nat_str n \<noteq> []"
  by (subst nat_str.simps) simp

lemma stringToNum_nat_str: "stringToNum (nat_str n) = Inr (of_nat n)"
  unfolding stringToNum_def
proof (induction n rule: nat_str.induct)
  case (1 n)
  show ?case
  proof (cases "n < 10")
    case True
    then show ?thesis using digit_step [OF True, of 0 False] by (simp add: nat_str.simps [of n])
  next
    case False
    have "of_nat (n div 10) * 10 + of_nat (n mod 10) = (of_nat n :: 32 word)"
      by (metis div_mult_mod_eq of_nat_add of_nat_mult of_nat_numeral)
    with False stringToNum_append [OF nat_str_nonempty 1 [OF False], of "n mod 10"] show ?thesis
      by (simp add: nat_str.simps [of n])
  qed
qed

section \<open>What the readers see\<close>

text \<open>\<open>element_reads m e v\<close>: \<open>e\<close> is an element in the memory \<open>m\<close> whose bytes stand for \<open>v\<close>, or \<^verbatim>\<open>BSONElement()\<close> for no field.\<close>

definition element_reads :: "string \<Rightarrow> element \<Rightarrow> bson \<Rightarrow> bool" where
  "element_reads m e v \<longleftrightarrow> (v = EOO \<and> e = NoElement) \<or> (\<exists>p n w. e = At p \<and> holds m p (enc_elem n w) \<and> CHR 0x00 \<notin> set n
     \<and> stands v w \<and> length (enc_elem n w) \<le> nat BSONObjMaxInternalSize)"

lemma oid_of_bytes: "oid_of_bytes (oid_bytes u) = u"
proof -
  have "unat u < 2 ^ LENGTH(96)" by (rule unsigned_less)
  then have "unat u < 256 ^ 12" by simp
  then show ?thesis by (simp only: oid_of_bytes_def oid_bytes_def rev_rev_ident unle_le mod_less) simp
qed

lemma element_leaf:
  assumes h: "holds m p (enc_elem n w)" and n: "CHR 0x00 \<notin> set n" and st: "stands v w"
  shows "get_String m (At p) = bson_String v" "get_Number m (At p) = bson_Number v" "get_Bool m (At p) = bson_Bool v"
    "get_OID m (At p) = bson_OID v" "eoo m (At p) = Inr (v = EOO)"
proof -
  note el = read_elem [OF h n]
  define q where "q = p + int (length n) + 2"
  have q: "elem_value m (At p) = Inr q" "holds m q (enc_value w)" using el(5,6) by (simp_all add: q_def)
  note ops = chk_def get_String_def get_Number_def numberDouble_def get_Bool_def get_OID_def isNumber_def el(1) q(1) bson_defs type_defs
  show "get_String m (At p) = bson_String v"
    using st q(2) by cases (simp_all add: ops enc_string_def holds_append holds_cstring)
  show "get_Number m (At p) = bson_Number v"
    using st q(2) by cases (simp_all add: ops holds_int holds_long)
  show "get_Bool m (At p) = bson_Bool v"
    using st q(2) by cases (simp_all add: ops holds_char)
  show "get_OID m (At p) = bson_OID v"
    using st q(2) by cases (simp_all add: ops holds_read oid_of_bytes)
  show "eoo m (At p) = Inr (v = EOO)"
    using st by cases (simp_all add: el(2))
qed

lemma element_none:
  "get_String m NoElement = bson_String EOO" "get_Number m NoElement = bson_Number EOO" "get_Bool m NoElement = bson_Bool EOO"
  "get_OID m NoElement = bson_OID EOO" "eoo m NoElement = Inr True" "get_Obj m NoElement = Inl UserException"
  "get_Array m NoElement = Some (Inl UserException)"
  by (simp_all add: chk_def get_String_def get_Number_def get_Bool_def get_OID_def get_Obj_def get_Array_def isNumber_def isABSONObj_def
    elem_type_def eoo_def bson_defs type_defs)

text \<open>The elements of an object, one after the other.\<close>

lemma elem_bound:
  assumes "length (enc_fields (f # fs)) \<le> k"
  shows "length (enc_elem (fst f) (snd f)) \<le> k" "length (enc_fields fs) \<le> k"
  using assms by (cases f; simp add: enc_elem_def)+

lemma fields_read:
  "stands_doc d fs \<Longrightarrow> holds m p (enc_fields fs) \<Longrightarrow> length (enc_fields fs) \<le> nat BSONObjMaxInternalSize
   \<Longrightarrow> element_reads m (position_of p f fs) (getField d f) \<and> list_all2 (element_reads m) (positions p fs) (map snd d)"
proof (induction fs arbitrary: d p)
  case Nil
  then show ?case by (simp add: stands_doc_def element_reads_def getField_def)
next
  case (Cons x fs)
  obtain k w where x: "x = (k, w)" by (cases x)
  from Cons.prems(1) obtain v d' where d: "d = (k, v) # d'" by (cases d) (auto simp: stands_doc_def x)
  have k: "CHR 0x00 \<notin> set k" "stands v w" "stands_doc d' fs" using Cons.prems(1) by (simp_all add: stands_doc_def x d)
  have h: "holds m p (enc_elem k w)" "holds m (p + int (length (enc_elem k w))) (enc_fields fs)"
    using Cons.prems(2) unfolding x enc_fields_Cons holds_append by simp_all
  note le = elem_bound [OF Cons.prems(3)]
  have "element_reads m (At p) v" using k(1,2) h(1) le(1) unfolding element_reads_def x by auto
  with Cons.IH [OF k(3) h(2) le(2)] show ?case by (simp add: x d getField_def)
qed

lemma object_reads:
  assumes "stands_doc d fs" and "object_at m p fs"
  shows "\<exists>e. wire_getField m p f = Some (Inr e) \<and> element_reads m e (getField d f)"
proof -
  have "length (enc_fields fs) \<le> nat BSONObjMaxInternalSize" using assms(2) by (simp add: object_at_def enc_doc_def)
  then show ?thesis
    using fields_read [OF assms(1) object_at_facts(5) [OF assms(2)]] object_at_facts(3) [OF assms(2)] by auto
qed

lemma stands_array:
  assumes "stands (BArr vs) (WArray fs)"
  shows "map nat_str [0..<length vs] = map fst fs" "stands_doc (array_doc vs) fs"
proof -
  have names: "map nat_str [0..<length vs] = map fst fs" and vs: "list_all2 stands vs (map snd fs)"
    using assms by (simp_all only: stands_simps wvalue.inject) auto
  have doc: "map fst (array_doc vs) = map fst fs" "map snd (array_doc vs) = vs"
    unfolding array_doc_def names [symmetric] by simp_all
  have "CHR 0x00 \<notin> set n" if "n \<in> set (map fst fs)" for n
    using that nat_str_plain unfolding names [symmetric] by auto
  with doc vs show "stands_doc (array_doc vs) fs" by (simp only: stands_doc_def) blast
  show "map nat_str [0..<length vs] = map fst fs" by (rule names)
qed

text \<open>\<^verbatim>\<open>Array()\<close> puts each element at the place its name says, which is the next one.\<close>

lemma put_next: "put_at v (length v) e = v @ [e]"
  by (simp add: put_at_def)

lemma array_reads:
  "holds m p (enc_fields fs) \<Longrightarrow> plain_names fs \<Longrightarrow> length (enc_fields fs) < 2 ^ 31 - 1
   \<Longrightarrow> map fst fs = map nat_str [length v..<length v + length fs] \<Longrightarrow> length v + length fs \<le> 1000000
   \<Longrightarrow> array_loop m v p (p + int (length (enc_fields fs))) = Some (Inr (v @ positions p fs))"
proof (induction fs arbitrary: p v)
  case (Cons f fs)
  note step = read_step [OF Cons.prems(1-3) refl]
  have names: "fst f = nat_str (length v)" "map fst fs = map nat_str [length (v @ [At p])..<length (v @ [At p]) + length fs]"
    using Cons.prems(4) by (simp_all add: upt_conv_Cons del: upt_Suc)
  have small: "of_nat (length v) < (1000000 :: 32 word)" "unat (of_nat (length v) :: 32 word) = length v"
    using Cons.prems(5) by (simp_all add: word_less_nat_alt unat_of_nat)
  then have put: "array_put m v (At p) = Inr (v @ [At p])"
    by (simp add: array_put_def step(2) names(1) stringToNum_nat_str put_next)
  have "length (v @ [At p]) + length fs \<le> 1000000" using Cons.prems(5) by simp
  from Cons.IH [OF step(3-5) names(2) this] show ?case
    unfolding step(6) using step(7) by (subst array_loop.simps) (simp add: step(1) put)
qed (simp add: array_loop.simps)

definition wire_simulates :: "string \<Rightarrow> (element \<Rightarrow> bson \<Rightarrow> bool) \<Rightarrow> bool" where
  "wire_simulates m R \<longleftrightarrow> (\<forall>e v. R e v \<longrightarrow>
     eoo m e = Inr (v = EOO) \<and> get_String m e = bson_String v \<and> get_Number m e = bson_Number v \<and> get_Bool m e = bson_Bool v
   \<and> get_OID m e = bson_OID v
   \<and> (case bson_Obj v of Inl x \<Rightarrow> get_Obj m e = Inl x
      | Inr d \<Rightarrow> \<exists>p. get_Obj m e = Inr p \<and> (\<forall>f. \<exists>e'. wire_getField m p f = Some (Inr e') \<and> R e' (getField d f)))
   \<and> (case bson_Array v of Inl x \<Rightarrow> get_Array m e = Some (Inl x)
      | Inr vs \<Rightarrow> length vs \<le> 1000000 \<longrightarrow> (\<exists>es. get_Array m e = Some (Inr es) \<and> list_all2 R es vs)))"

lemma object_inside:
  assumes "holds m p (enc_elem n w)" and "CHR 0x00 \<notin> set n" and "length (enc_elem n w) \<le> nat BSONObjMaxInternalSize"
    and "w = WObject fs \<or> w = WArray fs" and "stands_doc d fs"
  shows "get_Obj m (At p) = Inr (p + int (length n) + 2)" "object_at m (p + int (length n) + 2) fs"
proof -
  note el = read_elem [OF assms(1,2)]
  show ob: "object_at m (p + int (length n) + 2) fs"
    using el(6) assms(3,4) stands_plain [OF assms(5)] by (auto simp: object_at_def enc_doc_def enc_elem_def)
  have "isABSONObj (type_of w)" using assms(4) by (auto simp: isABSONObj_def)
  then show "get_Obj m (At p) = Inr (p + int (length n) + 2)"
    by (simp add: get_Obj_def chk_def el(1,5) object_at_facts(2) [OF ob])
qed

lemma not_object:
  assumes "holds m p (enc_elem n w)" and "CHR 0x00 \<notin> set n" and "stands v w" and "\<And>d. v \<noteq> BObj d" and "\<And>vs. v \<noteq> BArr vs"
  shows "bson_Obj v = Inl UserException" "bson_Array v = Inl UserException" "get_Obj m (At p) = Inl UserException"
    "get_Array m (At p) = Some (Inl UserException)"
proof -
  note el = read_elem [OF assms(1,2)]
  show "bson_Obj v = Inl UserException" "bson_Array v = Inl UserException" using assms(4,5) by (cases v; simp add: bson_defs)+
  have "\<not> isABSONObj (type_of w)" "type_of w \<noteq> Array_type"
    using assms(3) assms(4,5) by (cases; simp add: isABSONObj_def type_defs)+
  then show "get_Obj m (At p) = Inl UserException" "get_Array m (At p) = Some (Inl UserException)"
    by (simp_all add: get_Obj_def get_Array_def chk_def el(1))
qed

lemma array_inside:
  assumes h: "holds m p (enc_elem n (WArray fs))" and n: "CHR 0x00 \<notin> set n"
    and size: "length (enc_elem n (WArray fs)) \<le> nat BSONObjMaxInternalSize"
    and st: "stands (BArr vs) (WArray fs)" and few: "length vs \<le> 1000000"
  shows "\<exists>es. get_Array m (At p) = Some (Inr es) \<and> list_all2 (element_reads m) es vs"
proof -
  define q where "q = p + int (length n) + 2"
  note doc = stands_array [OF st]
  note ob = object_inside [OF h n size disjI2 [OF refl] doc(2), folded q_def]
  note facts = object_at_facts [OF ob(2)]
  have size: "length (enc_fields fs) \<le> nat BSONObjMaxInternalSize" using ob(2) by (simp add: object_at_def enc_doc_def)
  then have small: "length (enc_fields fs) < 2 ^ 31 - 1" by (simp add: max_eq)
  have len: "length fs = length vs" using arg_cong [OF doc(1), of length] by simp
  have "array_loop m [] (q + 4) (q + 4 + int (length (enc_fields fs))) = Some (Inr (positions (q + 4) fs))"
    using array_reads [OF facts(5) stands_plain [OF doc(2)] small, of "[]"] doc(1) len few by simp
  then have "get_Array m (At p) = Some (Inr (positions (q + 4) fs))"
    by (simp add: get_Array_def chk_def read_elem(1,5) [OF h n] ob(1) facts(1))
  moreover have "map snd (array_doc vs) = vs" by (simp add: array_doc_def)
  ultimately show ?thesis using fields_read [OF doc(2) facts(5) size] by simp
qed

lemma reads_simulates: "wire_simulates m (element_reads m)"
  unfolding wire_simulates_def
proof (intro allI impI)
  fix e v assume "element_reads m e v"
  then consider (none) "v = EOO" "e = NoElement"
    | (some) p n w where "e = At p" "holds m p (enc_elem n w)" "CHR 0x00 \<notin> set n" "stands v w"
        "length (enc_elem n w) \<le> nat BSONObjMaxInternalSize"
    unfolding element_reads_def by blast
  then show "eoo m e = Inr (v = EOO) \<and> get_String m e = bson_String v \<and> get_Number m e = bson_Number v \<and> get_Bool m e = bson_Bool v
   \<and> get_OID m e = bson_OID v
   \<and> (case bson_Obj v of Inl x \<Rightarrow> get_Obj m e = Inl x
      | Inr d \<Rightarrow> \<exists>p. get_Obj m e = Inr p \<and> (\<forall>f. \<exists>e'. wire_getField m p f = Some (Inr e') \<and> element_reads m e' (getField d f)))
   \<and> (case bson_Array v of Inl x \<Rightarrow> get_Array m e = Some (Inl x)
      | Inr vs \<Rightarrow> length vs \<le> 1000000 \<longrightarrow> (\<exists>es. get_Array m e = Some (Inr es) \<and> list_all2 (element_reads m) es vs))"
  proof cases
    case none
    with element_none [of m] show ?thesis by (simp add: bson_Obj_def bson_Array_def)
  next
    case some
    note leaf = element_leaf [OF some(2,3,4)] some(1)
    show ?thesis
    proof (cases v)
      case (BObj d)
      then obtain fs where fs: "w = WObject fs" "stands_doc d fs" using some(4) by (auto simp: stands_simps stands_doc_def)
      note ob = object_inside [OF some(2,3,5) disjI1 [OF fs(1)] fs(2)]
      have "get_Array m e = Some (Inl UserException)"
        using some(1) by (simp add: get_Array_def chk_def read_elem(1) [OF some(2,3)] fs(1) type_defs)
      with object_reads [OF fs(2) ob(2)] ob(1) leaf show ?thesis by (auto simp: BObj bson_Obj_def bson_Array_def)
    next
      case (BArr vs)
      then obtain fs where fs: "w = WArray fs" using some(4) by (auto simp: stands_simps)
      note st = some(4) [unfolded BArr fs]
      note ob = object_inside [OF some(2,3,5) disjI2 [OF fs] stands_array(2) [OF st]]
      from object_reads [OF stands_array(2) [OF st] ob(2)] ob(1) leaf array_inside [OF some(2,3,5) [unfolded fs] st]
      show ?thesis by (auto simp: BArr bson_Obj_def bson_Array_def)
    qed (use leaf not_object [OF some(2,3,4)] in simp_all)
  qed
qed

text \<open>An array is built element by element; that is the object whose names are the positions.\<close>

primrec array_elements :: "char \<Rightarrow> wvalue list \<Rightarrow> array_builder \<Rightarrow> exn + array_builder" where
  "array_elements j [] a = Inr a"
| "array_elements j (v # vs) a = bindR (array_append (\<lambda>n. append_value j n v) a) (array_elements j vs)"

definition build_array :: "char \<Rightarrow> wvalue list \<Rightarrow> exn + string" where
  "build_array j vs = bindR (BSONObjBuilder 512 j) (\<lambda>b. bindR (array_elements j vs \<lparr>ab_i = 0, ab_b = b\<rparr>) array_arr)"

lemma array_elements_fields:
  "bindR (array_elements j vs \<lparr>ab_i = i, ab_b = b\<rparr>) array_arr
   = bindR (append_fields j (zip (map nat_str [i..<i + length vs]) vs) b) builder_obj"
proof (induction vs arbitrary: i b)
  case (Cons v vs)
  have "zip (map nat_str [i..<i + length (v # vs)]) (v # vs) = (nat_str i, v) # zip (map nat_str [Suc i..<Suc i + length vs]) vs"
    by (simp add: upt_conv_Cons del: upt_Suc)
  with Cons [of "Suc i"] show ?case by (cases "append_value j (nat_str i) v b") (simp_all add: array_append_def del: upt_Suc)
qed (simp add: array_arr_def)

lemma build_array: "build_array j vs = build j (zip (map nat_str [0..<length vs]) vs)"
  using array_elements_fields [of j vs 0] by (cases "BSONObjBuilder 512 j") (simp_all add: build_array_def build_def)

text \<open>C13. The bytes that the builder writes for a document read as the document: a simulation relates the elements in memory with the values of
  \<open>Bson\<close>, each field of the document is found and related, and on related elements the accessors of the driver give what those of \<open>Bson\<close> do,
  exceptions included; fields of objects and elements of arrays are related again.\<close>

theorem wire_document:
  assumes "stands_doc d fs" and "length (enc_doc fs) \<le> nat BSONObjMaxInternalSize"
  shows "\<exists>m R. build j fs = Inr m \<and> wire_simulates m R
    \<and> (\<forall>f. \<exists>e. wire_getField m 0 f = Some (Inr e) \<and> R e (getField d f))"
proof -
  let ?m = "enc_doc fs"
  have "holds ?m 0 ?m" unfolding holds_def by (intro exI [of _ "[]"]) simp
  then have ob: "object_at ?m 0 fs" using assms(2) stands_plain [OF assms(1)] by (simp add: object_at_def)
  have "\<exists>e. wire_getField ?m 0 f = Some (Inr e) \<and> element_reads ?m e (getField d f)" for f by (rule object_reads [OF assms(1) ob])
  with build_enc [OF assms(2)] reads_simulates [of ?m] show ?thesis by blast
qed

definition sample_doc :: doc where
  "sample_doc = [(''Name'', BStr ''Bob''), (''Cash'', BLong 5), (''Color'', BArr [BInt 1, BInt 2]), (''Pos'', BObj [(''X'', BBool True)])]"

definition sample_fields :: "(string \<times> wvalue) list" where
  "sample_fields = [(''Name'', WString ''Bob''), (''Cash'', WLong 5), (''Color'', WArray [(''0'', WInt 1), (''1'', WInt 2)]),
     (''Pos'', WObject [(''X'', WBool True)])]"

lemma sample_stands: "stands_doc sample_doc sample_fields"
proof -
  have "nat_str 0 = ''0''" "nat_str 1 = ''1''" "[0..<length [BInt 1, BInt 2]] = [0, 1]" by code_simp+
  then have "stands (BArr [BInt 1, BInt 2]) (WArray [(''0'', WInt 1), (''1'', WInt 2)])"
    by (simp only: stands_simps) (simp add: stands_simps)
  then show ?thesis by (simp add: stands_doc_def sample_doc_def sample_fields_def stands_simps(2-9))
qed

theorem wire_document_witness:
  "\<exists>m R. build CHR 0x00 sample_fields = Inr m \<and> wire_simulates m R
    \<and> (\<forall>f. \<exists>e. wire_getField m 0 f = Some (Inr e) \<and> R e (getField sample_doc f))"
  by (rule wire_document [OF sample_stands]) (simp add: sample_fields_def enc_doc_def enc_frame_def max_eq)

end
