(* ===== verification/Gdk.thy ===== *)
theory Gdk
  imports Wire
begin

text \<open>
  The layer between the server's virtual machine and the plugins (\<^verbatim>\<open>src/freshcity.dependency.sampgdk\<close>): the native functions are
  called through a virtual machine of its own (\<^verbatim>\<open>fakeamx.cpp\<close>, \<^verbatim>\<open>natives.cpp\<close>), whose heap holds strings and results; public functions of
  the server's script are redirected to the plugins (\<^verbatim>\<open>hook.cpp\<close>, \<^verbatim>\<open>amxhooks.cpp\<close>, \<^verbatim>\<open>callbacks.cpp\<close>); and there are timers
  (\<^verbatim>\<open>timers.cpp\<close>). The virtual machine's own functions, the natives and the plugins are parameters.
\<close>

type_synonym amxcell = "32 word"

section \<open>Code hooks\<close>

text \<open>Memory is a function of addresses. A hook writes a jump over the first five bytes of a function and remembers them.\<close>

type_synonym code = "32 word \<Rightarrow> char"

definition kJmpInstrSize :: nat where "kJmpInstrSize = 5"

record hook =
  h_src :: "32 word"
  h_dst :: "32 word"
  h_code :: string
  h_installed :: bool

definition memory_at :: "code \<Rightarrow> 32 word \<Rightarrow> nat \<Rightarrow> string" where
  "memory_at m a n = map (\<lambda>i. m (a + of_nat i)) [0..<n]"

definition write_bytes :: "32 word \<Rightarrow> string \<Rightarrow> code \<Rightarrow> code" where
  "write_bytes a s m = (\<lambda>x. if unat (x - a) < length s then s ! unat (x - a) else m x)"

definition Hook_Install :: "hook \<times> code \<Rightarrow> bool \<times> hook \<times> code" where
  "Hook_Install = (\<lambda>(h, m). if h_installed h then (False, h, m) else
     let offset = h_dst h - (h_src h + of_nat kJmpInstrSize) in
     (True, h\<lparr>h_code := memory_at m (h_src h) kJmpInstrSize, h_installed := True\<rparr>,
      write_bytes (h_src h + 1) (le32 offset) (write_bytes (h_src h) [CHR 0xE9] m)))"

definition Hook_InstallAt :: "32 word \<Rightarrow> 32 word \<Rightarrow> hook \<times> code \<Rightarrow> bool \<times> hook \<times> code" where
  "Hook_InstallAt src dst = (\<lambda>(h, m). if h_installed h then (False, h, m) else Hook_Install (h\<lparr>h_src := src, h_dst := dst\<rparr>, m))"

definition Hook_Remove :: "hook \<times> code \<Rightarrow> bool \<times> hook \<times> code" where
  "Hook_Remove = (\<lambda>(h, m). if \<not> h_installed h then (False, h, m) else
     (True, h\<lparr>h_installed := False\<rparr>, write_bytes (h_src h) (h_code h) m))"

definition GetTargetAddress :: "code \<Rightarrow> 32 word \<Rightarrow> 32 word" where
  "GetTargetAddress m jmp = (if m jmp = CHR 0xE9
     then of_nat (unle (memory_at m (jmp + 1) 4)) + (jmp + of_nat kJmpInstrSize) else 0)"

text \<open>\<^verbatim>\<open>ScopedRemove\<close> and \<^verbatim>\<open>ScopedInstall\<close>: what \<open>f\<close> does runs with the hook removed or installed.\<close>

definition ScopedRemove :: "(hook \<times> code \<Rightarrow> 'a \<times> hook \<times> code) \<Rightarrow> hook \<times> code \<Rightarrow> 'a \<times> hook \<times> code" where
  "ScopedRemove f s = (case Hook_Remove s of (removed, s) \<Rightarrow> case f s of (x, s) \<Rightarrow> (x, if removed then snd (Hook_Install s) else s))"

definition ScopedInstall :: "(hook \<times> code \<Rightarrow> 'a \<times> hook \<times> code) \<Rightarrow> hook \<times> code \<Rightarrow> 'a \<times> hook \<times> code" where
  "ScopedInstall f s = (case Hook_Install s of (installed, s) \<Rightarrow> case f s of (x, s) \<Rightarrow> (x, if installed then snd (Hook_Remove s) else s))"

section \<open>The virtual machine of the plugins\<close>

text \<open>\<open>amxSetString s n\<close>: the cells that the virtual machine's \<^verbatim>\<open>amx_SetString\<close> writes, unpacked; \<open>amxGetString c n\<close>: what
  \<^verbatim>\<open>amx_GetString\<close> makes of the cells \<open>c\<close>. A native is given its memory, unless the pointer to it is stale, its parameters, and the
  state of the server.\<close>

record 'h amx_env =
  amxSetString :: "string \<Rightarrow> nat \<Rightarrow> amxcell list"
  amxGetString :: "amxcell list \<Rightarrow> nat \<Rightarrow> string"
  amxNative :: "nat \<Rightarrow> amxcell list option \<Rightarrow> amxcell list option \<Rightarrow> 'h \<Rightarrow> exn + amxcell \<times> amxcell list \<times> 'h"

text \<open>The heap is a vector of cells; \<open>hea\<close> is the first free address in bytes. When the vector grows its cells move,
  and \<^verbatim>\<open>amx_.data\<close>, which was set once, is stale. Natives are known by name to \<^verbatim>\<open>Natives\<close>; each wrapper keeps, from its first call on, what
  it found there.\<close>

record 'h gdk =
  fa_heap :: "amxcell list"
  fa_hea :: "32 word"
  fa_stale :: bool
  natives :: "(string \<times> nat) list"
  statics :: "(string \<times> nat option) list"
  warned :: "string list"
  server :: 'h

definition INITIAL_HEAP_SIZE :: nat where "INITIAL_HEAP_SIZE = 8192"

definition gdk_init :: "'h \<Rightarrow> 'h gdk" where
  "gdk_init h = \<lparr>fa_heap = replicate INITIAL_HEAP_SIZE 0, fa_hea = 0, fa_stale = False, natives = [], statics = [], warned = [], server = h\<rparr>"

type_synonym ('h, 'a) gprog = "('h gdk, 'a) prog"

definition FakeAmx_Push :: "32 word \<Rightarrow> ('h, 32 word) gprog" where
  "FakeAmx_Push cells g = (let address = fa_hea g; hea = fa_hea g + cells * 4; n = unat hea div 4; old = length (fa_heap g) in
     (Inr address, g\<lparr>fa_hea := hea, fa_heap := (if old \<le> n then fa_heap g @ replicate (n - old) 0 else fa_heap g),
       fa_stale := fa_stale g \<or> old < n\<rparr>))"

text \<open>A write past the vector is undefined.\<close>

definition heap_write :: "nat \<Rightarrow> amxcell list \<Rightarrow> ('h, unit) gprog" where
  "heap_write i cs g = (if i + length cs \<le> length (fa_heap g)
     then (Inr (), g\<lparr>fa_heap := take i (fa_heap g) @ cs @ drop (i + length cs) (fa_heap g)\<rparr>) else (Inl Undefined, g))"

definition FakeAmx_PushStr :: "'h amx_env \<Rightarrow> string \<Rightarrow> ('h, 32 word) gprog" where
  "FakeAmx_PushStr e s = (let n = length s + 1 in seq (FakeAmx_Push (of_nat n)) (\<lambda>address.
     andthen (heap_write (unat address div 4) (amxSetString e s n)) (ret address)))"

definition FakeAmx_Get :: "32 word \<Rightarrow> ('h, amxcell) gprog" where
  "FakeAmx_Get address = seq (gets fa_heap) (\<lambda>h. let i = unat address div 4 in if i < length h then ret (h ! i) else throw Undefined)"

definition FakeAmx_GetStr :: "'h amx_env \<Rightarrow> 32 word \<Rightarrow> 32 word \<Rightarrow> ('h, string) gprog" where
  "FakeAmx_GetStr e address n = seq (gets fa_heap) (\<lambda>h. ret (amxGetString e (drop (unat address div 4) h) (unat n)))"

definition FakeAmx_Pop :: "32 word \<Rightarrow> ('h, unit) gprog" where
  "FakeAmx_Pop address = modify (\<lambda>g. if sint address < sint (fa_hea g) then g\<lparr>fa_hea := address\<rparr> else g)"

subsection \<open>Natives\<close>

definition SetNative :: "string \<Rightarrow> nat \<Rightarrow> ('h, unit) gprog" where
  "SetNative name f = modify (\<lambda>g. g\<lparr>natives := AList.update name f (natives g)\<rparr>)"

text \<open>What \<^verbatim>\<open>amx_Register\<close> does for the plugins with the natives that a module registers, \<open>number\<close> of them or, for -1, all.\<close>

definition register_natives :: "(string \<times> nat) list \<Rightarrow> int \<Rightarrow> ('h, unit) gprog" where
  "register_natives nativelist number =
     forEach (if number = - 1 then nativelist else take (nat number) nativelist) (\<lambda>(name, f). SetNative name f)"

definition GetNative :: "string \<Rightarrow> 'h gdk \<Rightarrow> nat option" where
  "GetNative name g = map_of (natives g) name"

definition GetNativeWarn :: "string \<Rightarrow> ('h, nat option) gprog" where
  "GetNativeWarn name g = (case GetNative name g of None \<Rightarrow> (Inr None, g\<lparr>warned := name # warned g\<rparr>) | Some f \<Rightarrow> (Inr (Some f), g))"

text \<open>\<^verbatim>\<open>static AMX_NATIVE native = GetNativeWarn(...)\<close>, run at the first call of a wrapper.\<close>

definition static_native :: "string \<Rightarrow> ('h, nat option) gprog" where
  "static_native name = seq (gets statics) (\<lambda>st. case map_of st name of Some f \<Rightarrow> ret f
     | None \<Rightarrow> seq (GetNativeWarn name) (\<lambda>f. andthen (modify (\<lambda>g. g\<lparr>statics := (name, f) # statics g\<rparr>)) (ret f)))"

text \<open>Calling through a null pointer is undefined.\<close>

definition CallNative :: "'h amx_env \<Rightarrow> nat option \<Rightarrow> amxcell list option \<Rightarrow> ('h, amxcell) gprog" where
  "CallNative e f params g = (case f of None \<Rightarrow> (Inl Undefined, g)
     | Some f \<Rightarrow> (case amxNative e f (if fa_stale g then None else Some (fa_heap g)) params (server g) of Inl x \<Rightarrow> (Inl x, g)
       | Inr (r, m, h) \<Rightarrow> (Inr r, g\<lparr>fa_heap := (if fa_stale g then fa_heap g else m), server := h\<rparr>)))"

subsection \<open>What a wrapper does\<close>

text \<open>The arguments of a native: a cell (an integer, a truth value or the bits of a \<^verbatim>\<open>float\<close>), a string, a place for a cell, and
  a buffer of a given size for a string. Strings, places and buffers are objects on the heap, created in order and destroyed in the opposite one.\<close>

datatype narg = NVal amxcell | NStr string | NCell | NBuf "32 word"
datatype nout = OutCell amxcell | OutStr string

definition push_arg :: "'h amx_env \<Rightarrow> narg \<Rightarrow> ('h, amxcell) gprog" where
  "push_arg e a = (case a of NVal v \<Rightarrow> ret v | NStr s \<Rightarrow> FakeAmx_PushStr e s | NCell \<Rightarrow> FakeAmx_Push 1 | NBuf n \<Rightarrow> FakeAmx_Push n)"

primrec push_args :: "'h amx_env \<Rightarrow> narg list \<Rightarrow> ('h, amxcell list) gprog" where
  "push_args e [] = ret []"
| "push_args e (a # as) = seq (push_arg e a) (\<lambda>v. seq (push_args e as) (\<lambda>vs. ret (v # vs)))"

primrec read_outs :: "'h amx_env \<Rightarrow> (narg \<times> amxcell) list \<Rightarrow> ('h, nout list) gprog" where
  "read_outs e [] = ret []"
| "read_outs e (x # xs) = (case x of
     (NCell, v) \<Rightarrow> seq (FakeAmx_Get v) (\<lambda>c. seq (read_outs e xs) (\<lambda>os. ret (OutCell c # os)))
   | (NBuf n, v) \<Rightarrow> seq (FakeAmx_GetStr e v n) (\<lambda>s. seq (read_outs e xs) (\<lambda>os. ret (OutStr s # os)))
   | _ \<Rightarrow> read_outs e xs)"

primrec pop_args :: "(narg \<times> amxcell) list \<Rightarrow> ('h, unit) gprog" where
  "pop_args [] = ret ()"
| "pop_args (x # xs) = andthen (pop_args xs) (case x of (NVal _, _) \<Rightarrow> ret () | (_, v) \<Rightarrow> FakeAmx_Pop v)"

text \<open>A native without parameters gets a null pointer.\<close>

definition native_params :: "amxcell list \<Rightarrow> amxcell list option" where
  "native_params vs = (if vs = [] then None else Some (of_nat (length vs) * 4 # vs))"

definition call_native :: "'h amx_env \<Rightarrow> string \<Rightarrow> narg list \<Rightarrow> ('h, amxcell \<times> nout list) gprog" where
  "call_native e name as = seq (static_native name) (\<lambda>f. seq (push_args e as) (\<lambda>vs.
     seq (CallNative e f (native_params vs)) (\<lambda>r. seq (read_outs e (zip as vs)) (\<lambda>os.
       andthen (pop_args (zip as vs)) (ret (r, os))))))"

text \<open>By the type the wrapper returns, and whether it has results in places and buffers.\<close>

definition native_bool_outs :: "'h amx_env \<Rightarrow> string \<Rightarrow> narg list \<Rightarrow> ('h, bool \<times> nout list) gprog" where
  "native_bool_outs e name as = seq (call_native e name as) (\<lambda>(r, os). ret (r \<noteq> 0, os))"

definition native_int_outs :: "'h amx_env \<Rightarrow> string \<Rightarrow> narg list \<Rightarrow> ('h, 32 word \<times> nout list) gprog" where
  "native_int_outs e name as = call_native e name as"

definition native_bool :: "'h amx_env \<Rightarrow> string \<Rightarrow> narg list \<Rightarrow> ('h, bool) gprog" where
  "native_bool e name as = seq (call_native e name as) (\<lambda>(r, _). ret (r \<noteq> 0))"

definition native_int :: "'h amx_env \<Rightarrow> string \<Rightarrow> narg list \<Rightarrow> ('h, 32 word) gprog" where
  "native_int e name as = seq (call_native e name as) (\<lambda>(r, _). ret r)"

text \<open>The bits of a \<^verbatim>\<open>float\<close>.\<close>

definition native_float :: "'h amx_env \<Rightarrow> string \<Rightarrow> narg list \<Rightarrow> ('h, 32 word) gprog" where
  "native_float e name as = seq (call_native e name as) (\<lambda>(r, _). ret r)"

section \<open>Timers\<close>

text \<open>Timers are objects on the free store; the vector has a pointer for each timer id, null for an id that is free. \<open>tk_clock\<close> is
  what \<^verbatim>\<open>GetTickCount\<close> returns at its calls. Callbacks are programs on the timers and what else there is.\<close>

record gtimer =
  gt_interval :: "32 word"
  gt_repeating :: bool
  gt_callback :: nat
  gt_param :: nat
  gt_startTime :: "32 word"

record 'h gtimers =
  gt_slots :: "nat option list"
  gt_objects :: "(nat \<times> gtimer) list"
  gt_fresh :: nat
  tk_clock :: "nat \<Rightarrow> 32 word"
  tk_reads :: nat
  gt_rest :: 'h

type_synonym ('h, 'a) tprog = "('h gtimers, 'a) prog"
type_synonym 'h tcallbacks = "nat \<Rightarrow> int \<Rightarrow> nat \<Rightarrow> ('h, unit) tprog"

definition GetTickCount :: "('h, 32 word) tprog" where
  "GetTickCount s = (Inr (tk_clock s (tk_reads s)), s\<lparr>tk_reads := Suc (tk_reads s)\<rparr>)"

text \<open>An object that is read has to be there.\<close>

definition timer_object :: "nat \<Rightarrow> ('h, gtimer) tprog" where
  "timer_object a = seq (gets gt_objects) (\<lambda>obs. case map_of obs a of Some t \<Rightarrow> ret t | None \<Rightarrow> throw Undefined)"

definition Timer_new :: "32 word \<Rightarrow> bool \<Rightarrow> nat \<Rightarrow> nat \<Rightarrow> ('h, nat) tprog" where
  "Timer_new interval rep cb param = seq GetTickCount (\<lambda>now. seq (gets gt_fresh) (\<lambda>a.
     andthen (modify (\<lambda>s. s\<lparr>gt_objects := (a, \<lparr>gt_interval = interval, gt_repeating = rep, gt_callback = cb, gt_param = param,
       gt_startTime = now\<rparr>) # gt_objects s, gt_fresh := Suc a\<rparr>)) (ret a)))"

fun first_free :: "nat option list \<Rightarrow> nat" where
  "first_free [] = 0"
| "first_free (None # xs) = 0"
| "first_free (Some _ # xs) = Suc (first_free xs)"

definition SetTimer :: "32 word \<Rightarrow> bool \<Rightarrow> nat \<Rightarrow> nat \<Rightarrow> ('h, nat) tprog" where
  "SetTimer interval rep cb param = seq (Timer_new interval rep cb param) (\<lambda>a. seq (gets gt_slots) (\<lambda>xs. let i = first_free xs in
     andthen (modify (\<lambda>s. s\<lparr>gt_slots := (if i = length xs then xs @ [Some a] else xs[i := Some a])\<rparr>)) (ret i)))"

definition KillTimer :: "int \<Rightarrow> ('h, bool) tprog" where
  "KillTimer i = seq (gets gt_slots) (\<lambda>xs. if i < 0 \<or> int (length xs) \<le> i then ret False else
     andthen (modify (\<lambda>s. s\<lparr>gt_objects := (case xs ! nat i of None \<Rightarrow> gt_objects s | Some a \<Rightarrow> AList.delete a (gt_objects s)),
       gt_slots := xs[nat i := None]\<rparr>)) (ret True))"

fun GetTimerId :: "nat \<Rightarrow> nat option list \<Rightarrow> nat" where
  "GetTimerId a [] = 0"
| "GetTimerId a (x # xs) = (if x = Some a then 0 else Suc (GetTimerId a xs))"

definition Timer_Fire :: "'h tcallbacks \<Rightarrow> nat \<Rightarrow> 32 word \<Rightarrow> ('h, unit) tprog" where
  "Timer_Fire cbs a elapsed = seq (timer_object a) (\<lambda>t. seq (gets gt_slots) (\<lambda>xs.
     andthen (cbs (gt_callback t) (int (GetTimerId a xs)) (gt_param t)) (seq (timer_object a) (\<lambda>t. if gt_repeating t
       then seq GetTickCount (\<lambda>now. seq (timer_object a) (\<lambda>t.
         modify (\<lambda>s. s\<lparr>gt_objects := AList.update a (t\<lparr>gt_startTime := now - (elapsed - gt_interval t)\<rparr>) (gt_objects s)\<rparr>)))
       else ret ()))))"

text \<open>One turn of the loop: the pointer is read and not compared with null.\<close>

definition process_timer :: "'h tcallbacks \<Rightarrow> 32 word \<Rightarrow> nat \<Rightarrow> ('h, unit) tprog" where
  "process_timer cbs time i = seq (gets gt_slots) (\<lambda>xs. case xs ! i of None \<Rightarrow> throw Undefined
     | Some a \<Rightarrow> seq (timer_object a) (\<lambda>t. let elapsed = time - gt_startTime t in
         if sint (gt_interval t) \<le> sint elapsed then andthen (Timer_Fire cbs a elapsed) (seq (timer_object a) (\<lambda>t.
           if gt_repeating t then ret () else seq (KillTimer (int i)) (\<lambda>_. ret ()))) else ret ()))"

partial_function (option) process_from :: "'h tcallbacks \<Rightarrow> 32 word \<Rightarrow> nat \<Rightarrow> 'h gtimers \<Rightarrow> ((exn + unit) \<times> 'h gtimers) option" where
  "process_from cbs time i s = (if i < length (gt_slots s) then (case process_timer cbs time i s of (Inl x, s) \<Rightarrow> Some (Inl x, s)
     | (Inr _, s) \<Rightarrow> process_from cbs time (Suc i) s) else Some (Inr (), s))"

definition ProcessTimers :: "'h tcallbacks \<Rightarrow> 'h gtimers \<Rightarrow> ((exn + unit) \<times> 'h gtimers) option" where
  "ProcessTimers cbs s = (case GetTickCount s of (Inr time, s) \<Rightarrow> process_from cbs time 0 s | (Inl x, s) \<Rightarrow> Some (Inl x, s))"

end
