(* ===== verification/GdkNatives.thy ===== *)
theory GdkNatives
  imports Gdk
begin

text \<open>
  The wrappers of the server's natives (\<^verbatim>\<open>generated/a_samp-impl.cpp\<close>, \<^verbatim>\<open>a_players-impl.cpp\<close>, \<^verbatim>\<open>a_vehicles-impl.cpp\<close>,
  \<^verbatim>\<open>a_objects-impl.cpp\<close>): the order and the kinds of the arguments of each. Integers are 32-bit words, a \<^verbatim>\<open>float\<close> is given and returned by
  its bits; what the C++ functions store through pointers is a list of results.
\<close>

section \<open>The server, menus, text draws, gang zones, variables\<close>

definition gdk_SendClientMessage :: "'h amx_env \<Rightarrow> 32 word \<Rightarrow> 32 word \<Rightarrow> string \<Rightarrow> ('h, bool) gprog" where
  "gdk_SendClientMessage env' playerid color message = native_bool env' ''SendClientMessage'' [NVal playerid, NVal color, NStr message]"

definition gdk_SendClientMessageToAll :: "'h amx_env \<Rightarrow> 32 word \<Rightarrow> string \<Rightarrow> ('h, bool) gprog" where
  "gdk_SendClientMessageToAll env' color message = native_bool env' ''SendClientMessageToAll'' [NVal color, NStr message]"

definition gdk_SendPlayerMessageToPlayer :: "'h amx_env \<Rightarrow> 32 word \<Rightarrow> 32 word \<Rightarrow> string \<Rightarrow> ('h, bool) gprog" where
  "gdk_SendPlayerMessageToPlayer env' playerid senderid message =
     native_bool env' ''SendPlayerMessageToPlayer'' [NVal playerid, NVal senderid, NStr message]"

definition gdk_SendPlayerMessageToAll :: "'h amx_env \<Rightarrow> 32 word \<Rightarrow> string \<Rightarrow> ('h, bool) gprog" where
  "gdk_SendPlayerMessageToAll env' senderid message = native_bool env' ''SendPlayerMessageToAll'' [NVal senderid, NStr message]"

definition gdk_SendDeathMessage :: "'h amx_env \<Rightarrow> 32 word \<Rightarrow> 32 word \<Rightarrow> 32 word \<Rightarrow> ('h, bool) gprog" where
  "gdk_SendDeathMessage env' killer killee weapon = native_bool env' ''SendDeathMessage'' [NVal killer, NVal killee, NVal weapon]"

definition gdk_GameTextForAll :: "'h amx_env \<Rightarrow> string \<Rightarrow> 32 word \<Rightarrow> 32 word \<Rightarrow> ('h, bool) gprog" where
  "gdk_GameTextForAll env' text' time' style' = native_bool env' ''GameTextForAll'' [NStr text', NVal time', NVal style']"

definition gdk_GameTextForPlayer :: "'h amx_env \<Rightarrow> 32 word \<Rightarrow> string \<Rightarrow> 32 word \<Rightarrow> 32 word \<Rightarrow> ('h, bool) gprog" where
  "gdk_GameTextForPlayer env' playerid text' time' style' =
     native_bool env' ''GameTextForPlayer'' [NVal playerid, NStr text', NVal time', NVal style']"

definition gdk_GetTickCount :: "'h amx_env \<Rightarrow> ('h, 32 word) gprog" where
  "gdk_GetTickCount env' = native_int env' ''GetTickCount'' []"

definition gdk_GetMaxPlayers :: "'h amx_env \<Rightarrow> ('h, 32 word) gprog" where
  "gdk_GetMaxPlayers env' = native_int env' ''GetMaxPlayers'' []"

definition gdk_SetGameModeText :: "'h amx_env \<Rightarrow> string \<Rightarrow> ('h, bool) gprog" where
  "gdk_SetGameModeText env' text' = native_bool env' ''SetGameModeText'' [NStr text']"

definition gdk_SetTeamCount :: "'h amx_env \<Rightarrow> 32 word \<Rightarrow> ('h, bool) gprog" where
  "gdk_SetTeamCount env' count = native_bool env' ''SetTeamCount'' [NVal count]"

definition gdk_AddPlayerClass :: "'h amx_env \<Rightarrow> 32 word \<Rightarrow> 32 word \<Rightarrow> 32 word \<Rightarrow> 32 word \<Rightarrow> 32 word \<Rightarrow> 32 word \<Rightarrow> 32 word \<Rightarrow> 32 word \<Rightarrow> 32 word \<Rightarrow> 32 word \<Rightarrow> 32 word \<Rightarrow> ('h, 32 word) gprog" where
  "gdk_AddPlayerClass env' modelid spawn_x spawn_y spawn_z z_angle weapon1 weapon1_ammo weapon2 weapon2_ammo weapon3 weapon3_ammo =
     native_int env' ''AddPlayerClass'' [NVal modelid, NVal spawn_x, NVal spawn_y, NVal spawn_z, NVal z_angle, NVal weapon1, NVal weapon1_ammo,
       NVal weapon2, NVal weapon2_ammo, NVal weapon3, NVal weapon3_ammo]"

definition gdk_AddPlayerClassEx :: "'h amx_env \<Rightarrow> 32 word \<Rightarrow> 32 word \<Rightarrow> 32 word \<Rightarrow> 32 word \<Rightarrow> 32 word \<Rightarrow> 32 word \<Rightarrow> 32 word \<Rightarrow> 32 word \<Rightarrow> 32 word \<Rightarrow> 32 word \<Rightarrow> 32 word \<Rightarrow> 32 word \<Rightarrow> ('h, 32 word) gprog" where
  "gdk_AddPlayerClassEx env' teamid modelid spawn_x spawn_y spawn_z z_angle weapon1 weapon1_ammo weapon2 weapon2_ammo weapon3 weapon3_ammo =
     native_int env' ''AddPlayerClassEx'' [NVal teamid, NVal modelid, NVal spawn_x, NVal spawn_y, NVal spawn_z, NVal z_angle, NVal weapon1,
       NVal weapon1_ammo, NVal weapon2, NVal weapon2_ammo, NVal weapon3, NVal weapon3_ammo]"

definition gdk_AddStaticVehicle :: "'h amx_env \<Rightarrow> 32 word \<Rightarrow> 32 word \<Rightarrow> 32 word \<Rightarrow> 32 word \<Rightarrow> 32 word \<Rightarrow> 32 word \<Rightarrow> 32 word \<Rightarrow> ('h, 32 word) gprog" where
  "gdk_AddStaticVehicle env' modelid spawn_x spawn_y spawn_z z_angle color1 color2 =
     native_int env' ''AddStaticVehicle'' [NVal modelid, NVal spawn_x, NVal spawn_y, NVal spawn_z, NVal z_angle, NVal color1, NVal color2]"

definition gdk_AddStaticVehicleEx :: "'h amx_env \<Rightarrow> 32 word \<Rightarrow> 32 word \<Rightarrow> 32 word \<Rightarrow> 32 word \<Rightarrow> 32 word \<Rightarrow> 32 word \<Rightarrow> 32 word \<Rightarrow> 32 word \<Rightarrow> ('h, 32 word) gprog" where
  "gdk_AddStaticVehicleEx env' modelid spawn_x spawn_y spawn_z z_angle color1 color2 respawn_delay =
     native_int env' ''AddStaticVehicleEx'' [NVal modelid, NVal spawn_x, NVal spawn_y, NVal spawn_z, NVal z_angle, NVal color1, NVal color2,
       NVal respawn_delay]"

definition gdk_AddStaticPickup :: "'h amx_env \<Rightarrow> 32 word \<Rightarrow> 32 word \<Rightarrow> 32 word \<Rightarrow> 32 word \<Rightarrow> 32 word \<Rightarrow> 32 word \<Rightarrow> ('h, 32 word) gprog" where
  "gdk_AddStaticPickup env' model type' x y z virtualworld =
     native_int env' ''AddStaticPickup'' [NVal model, NVal type', NVal x, NVal y, NVal z, NVal virtualworld]"

definition gdk_CreatePickup :: "'h amx_env \<Rightarrow> 32 word \<Rightarrow> 32 word \<Rightarrow> 32 word \<Rightarrow> 32 word \<Rightarrow> 32 word \<Rightarrow> 32 word \<Rightarrow> ('h, 32 word) gprog" where
  "gdk_CreatePickup env' model type' x y z virtualworld =
     native_int env' ''CreatePickup'' [NVal model, NVal type', NVal x, NVal y, NVal z, NVal virtualworld]"

definition gdk_DestroyPickup :: "'h amx_env \<Rightarrow> 32 word \<Rightarrow> ('h, bool) gprog" where
  "gdk_DestroyPickup env' pickup = native_bool env' ''DestroyPickup'' [NVal pickup]"

definition gdk_ShowNameTags :: "'h amx_env \<Rightarrow> bool \<Rightarrow> ('h, bool) gprog" where
  "gdk_ShowNameTags env' show = native_bool env' ''ShowNameTags'' [NVal (of_bool show)]"

definition gdk_ShowPlayerMarkers :: "'h amx_env \<Rightarrow> bool \<Rightarrow> ('h, bool) gprog" where
  "gdk_ShowPlayerMarkers env' mode = native_bool env' ''ShowPlayerMarkers'' [NVal (of_bool mode)]"

definition gdk_GameModeExit :: "'h amx_env \<Rightarrow> ('h, bool) gprog" where
  "gdk_GameModeExit env' = native_bool env' ''GameModeExit'' []"

definition gdk_SetWorldTime :: "'h amx_env \<Rightarrow> 32 word \<Rightarrow> ('h, bool) gprog" where
  "gdk_SetWorldTime env' hour = native_bool env' ''SetWorldTime'' [NVal hour]"

definition gdk_GetWeaponName :: "'h amx_env \<Rightarrow> 32 word \<Rightarrow> 32 word \<Rightarrow> ('h, bool \<times> nout list) gprog" where
  "gdk_GetWeaponName env' weaponid size' = native_bool_outs env' ''GetWeaponName'' [NVal weaponid, NBuf size', NVal size']"

definition gdk_EnableTirePopping :: "'h amx_env \<Rightarrow> bool \<Rightarrow> ('h, bool) gprog" where
  "gdk_EnableTirePopping env' enable = native_bool env' ''EnableTirePopping'' [NVal (of_bool enable)]"

definition gdk_AllowInteriorWeapons :: "'h amx_env \<Rightarrow> bool \<Rightarrow> ('h, bool) gprog" where
  "gdk_AllowInteriorWeapons env' allow = native_bool env' ''AllowInteriorWeapons'' [NVal (of_bool allow)]"

definition gdk_SetWeather :: "'h amx_env \<Rightarrow> 32 word \<Rightarrow> ('h, bool) gprog" where
  "gdk_SetWeather env' weatherid = native_bool env' ''SetWeather'' [NVal weatherid]"

definition gdk_SetGravity :: "'h amx_env \<Rightarrow> 32 word \<Rightarrow> ('h, bool) gprog" where
  "gdk_SetGravity env' gravity = native_bool env' ''SetGravity'' [NVal gravity]"

definition gdk_AllowAdminTeleport :: "'h amx_env \<Rightarrow> bool \<Rightarrow> ('h, bool) gprog" where
  "gdk_AllowAdminTeleport env' allow = native_bool env' ''AllowAdminTeleport'' [NVal (of_bool allow)]"

definition gdk_SetDeathDropAmount :: "'h amx_env \<Rightarrow> 32 word \<Rightarrow> ('h, bool) gprog" where
  "gdk_SetDeathDropAmount env' amount = native_bool env' ''SetDeathDropAmount'' [NVal amount]"

definition gdk_CreateExplosion :: "'h amx_env \<Rightarrow> 32 word \<Rightarrow> 32 word \<Rightarrow> 32 word \<Rightarrow> 32 word \<Rightarrow> 32 word \<Rightarrow> ('h, bool) gprog" where
  "gdk_CreateExplosion env' x y z type' radius = native_bool env' ''CreateExplosion'' [NVal x, NVal y, NVal z, NVal type', NVal radius]"

definition gdk_EnableZoneNames :: "'h amx_env \<Rightarrow> bool \<Rightarrow> ('h, bool) gprog" where
  "gdk_EnableZoneNames env' enable = native_bool env' ''EnableZoneNames'' [NVal (of_bool enable)]"

definition gdk_UsePlayerPedAnims :: "'h amx_env \<Rightarrow> ('h, bool) gprog" where
  "gdk_UsePlayerPedAnims env' = native_bool env' ''UsePlayerPedAnims'' []"

definition gdk_DisableInteriorEnterExits :: "'h amx_env \<Rightarrow> ('h, bool) gprog" where
  "gdk_DisableInteriorEnterExits env' = native_bool env' ''DisableInteriorEnterExits'' []"

definition gdk_SetNameTagDrawDistance :: "'h amx_env \<Rightarrow> 32 word \<Rightarrow> ('h, bool) gprog" where
  "gdk_SetNameTagDrawDistance env' distance = native_bool env' ''SetNameTagDrawDistance'' [NVal distance]"

definition gdk_DisableNameTagLOS :: "'h amx_env \<Rightarrow> ('h, bool) gprog" where
  "gdk_DisableNameTagLOS env' = native_bool env' ''DisableNameTagLOS'' []"

definition gdk_LimitGlobalChatRadius :: "'h amx_env \<Rightarrow> 32 word \<Rightarrow> ('h, bool) gprog" where
  "gdk_LimitGlobalChatRadius env' chat_radius = native_bool env' ''LimitGlobalChatRadius'' [NVal chat_radius]"

definition gdk_LimitPlayerMarkerRadius :: "'h amx_env \<Rightarrow> 32 word \<Rightarrow> ('h, bool) gprog" where
  "gdk_LimitPlayerMarkerRadius env' marker_radius = native_bool env' ''LimitPlayerMarkerRadius'' [NVal marker_radius]"

definition gdk_ConnectNPC :: "'h amx_env \<Rightarrow> string \<Rightarrow> string \<Rightarrow> ('h, bool) gprog" where
  "gdk_ConnectNPC env' name' script = native_bool env' ''ConnectNPC'' [NStr name', NStr script]"

definition gdk_IsPlayerNPC :: "'h amx_env \<Rightarrow> 32 word \<Rightarrow> ('h, bool) gprog" where
  "gdk_IsPlayerNPC env' playerid = native_bool env' ''IsPlayerNPC'' [NVal playerid]"

definition gdk_IsPlayerAdmin :: "'h amx_env \<Rightarrow> 32 word \<Rightarrow> ('h, bool) gprog" where
  "gdk_IsPlayerAdmin env' playerid = native_bool env' ''IsPlayerAdmin'' [NVal playerid]"

definition gdk_Kick :: "'h amx_env \<Rightarrow> 32 word \<Rightarrow> ('h, bool) gprog" where
  "gdk_Kick env' playerid = native_bool env' ''Kick'' [NVal playerid]"

definition gdk_Ban :: "'h amx_env \<Rightarrow> 32 word \<Rightarrow> ('h, bool) gprog" where
  "gdk_Ban env' playerid = native_bool env' ''Ban'' [NVal playerid]"

definition gdk_BanEx :: "'h amx_env \<Rightarrow> 32 word \<Rightarrow> string \<Rightarrow> ('h, bool) gprog" where
  "gdk_BanEx env' playerid reason = native_bool env' ''BanEx'' [NVal playerid, NStr reason]"

definition gdk_SendRconCommand :: "'h amx_env \<Rightarrow> string \<Rightarrow> ('h, bool) gprog" where
  "gdk_SendRconCommand env' command = native_bool env' ''SendRconCommand'' [NStr command]"

definition gdk_GetServerVarAsString :: "'h amx_env \<Rightarrow> string \<Rightarrow> 32 word \<Rightarrow> ('h, bool \<times> nout list) gprog" where
  "gdk_GetServerVarAsString env' varname size' = native_bool_outs env' ''GetServerVarAsString'' [NStr varname, NBuf size', NVal size']"

definition gdk_GetServerVarAsInt :: "'h amx_env \<Rightarrow> string \<Rightarrow> ('h, 32 word) gprog" where
  "gdk_GetServerVarAsInt env' varname = native_int env' ''GetServerVarAsInt'' [NStr varname]"

definition gdk_GetServerVarAsBool :: "'h amx_env \<Rightarrow> string \<Rightarrow> ('h, bool) gprog" where
  "gdk_GetServerVarAsBool env' varname = native_bool env' ''GetServerVarAsBool'' [NStr varname]"

definition gdk_GetPlayerNetworkStats :: "'h amx_env \<Rightarrow> 32 word \<Rightarrow> 32 word \<Rightarrow> ('h, bool \<times> nout list) gprog" where
  "gdk_GetPlayerNetworkStats env' playerid size' = native_bool_outs env' ''GetPlayerNetworkStats'' [NVal playerid, NBuf size', NVal size']"

definition gdk_GetNetworkStats :: "'h amx_env \<Rightarrow> 32 word \<Rightarrow> ('h, bool \<times> nout list) gprog" where
  "gdk_GetNetworkStats env' size' = native_bool_outs env' ''GetNetworkStats'' [NBuf size', NVal size']"

definition gdk_GetPlayerVersion :: "'h amx_env \<Rightarrow> 32 word \<Rightarrow> 32 word \<Rightarrow> ('h, bool \<times> nout list) gprog" where
  "gdk_GetPlayerVersion env' playerid len = native_bool_outs env' ''GetPlayerVersion'' [NVal playerid, NBuf len, NVal len]"

definition gdk_CreateMenu :: "'h amx_env \<Rightarrow> string \<Rightarrow> 32 word \<Rightarrow> 32 word \<Rightarrow> 32 word \<Rightarrow> 32 word \<Rightarrow> 32 word \<Rightarrow> ('h, 32 word) gprog" where
  "gdk_CreateMenu env' title columns x y col1width col2width =
     native_int env' ''CreateMenu'' [NStr title, NVal columns, NVal x, NVal y, NVal col1width, NVal col2width]"

definition gdk_DestroyMenu :: "'h amx_env \<Rightarrow> 32 word \<Rightarrow> ('h, bool) gprog" where
  "gdk_DestroyMenu env' menuid = native_bool env' ''DestroyMenu'' [NVal menuid]"

definition gdk_AddMenuItem :: "'h amx_env \<Rightarrow> 32 word \<Rightarrow> 32 word \<Rightarrow> string \<Rightarrow> ('h, 32 word) gprog" where
  "gdk_AddMenuItem env' menuid column menutext = native_int env' ''AddMenuItem'' [NVal menuid, NVal column, NStr menutext]"

definition gdk_SetMenuColumnHeader :: "'h amx_env \<Rightarrow> 32 word \<Rightarrow> 32 word \<Rightarrow> string \<Rightarrow> ('h, bool) gprog" where
  "gdk_SetMenuColumnHeader env' menuid column columnheader = native_bool env' ''SetMenuColumnHeader'' [NVal menuid, NVal column, NStr columnheader]"

definition gdk_ShowMenuForPlayer :: "'h amx_env \<Rightarrow> 32 word \<Rightarrow> 32 word \<Rightarrow> ('h, bool) gprog" where
  "gdk_ShowMenuForPlayer env' menuid playerid = native_bool env' ''ShowMenuForPlayer'' [NVal menuid, NVal playerid]"

definition gdk_HideMenuForPlayer :: "'h amx_env \<Rightarrow> 32 word \<Rightarrow> 32 word \<Rightarrow> ('h, bool) gprog" where
  "gdk_HideMenuForPlayer env' menuid playerid = native_bool env' ''HideMenuForPlayer'' [NVal menuid, NVal playerid]"

definition gdk_IsValidMenu :: "'h amx_env \<Rightarrow> 32 word \<Rightarrow> ('h, bool) gprog" where
  "gdk_IsValidMenu env' menuid = native_bool env' ''IsValidMenu'' [NVal menuid]"

definition gdk_DisableMenu :: "'h amx_env \<Rightarrow> 32 word \<Rightarrow> ('h, bool) gprog" where
  "gdk_DisableMenu env' menuid = native_bool env' ''DisableMenu'' [NVal menuid]"

definition gdk_DisableMenuRow :: "'h amx_env \<Rightarrow> 32 word \<Rightarrow> 32 word \<Rightarrow> ('h, bool) gprog" where
  "gdk_DisableMenuRow env' menuid row = native_bool env' ''DisableMenuRow'' [NVal menuid, NVal row]"

definition gdk_GetPlayerMenu :: "'h amx_env \<Rightarrow> 32 word \<Rightarrow> ('h, 32 word) gprog" where
  "gdk_GetPlayerMenu env' playerid = native_int env' ''GetPlayerMenu'' [NVal playerid]"

definition gdk_TextDrawCreate :: "'h amx_env \<Rightarrow> 32 word \<Rightarrow> 32 word \<Rightarrow> string \<Rightarrow> ('h, 32 word) gprog" where
  "gdk_TextDrawCreate env' x y text' = native_int env' ''TextDrawCreate'' [NVal x, NVal y, NStr text']"

definition gdk_TextDrawDestroy :: "'h amx_env \<Rightarrow> 32 word \<Rightarrow> ('h, bool) gprog" where
  "gdk_TextDrawDestroy env' text' = native_bool env' ''TextDrawDestroy'' [NVal text']"

definition gdk_TextDrawLetterSize :: "'h amx_env \<Rightarrow> 32 word \<Rightarrow> 32 word \<Rightarrow> 32 word \<Rightarrow> ('h, bool) gprog" where
  "gdk_TextDrawLetterSize env' text' x y = native_bool env' ''TextDrawLetterSize'' [NVal text', NVal x, NVal y]"

definition gdk_TextDrawTextSize :: "'h amx_env \<Rightarrow> 32 word \<Rightarrow> 32 word \<Rightarrow> 32 word \<Rightarrow> ('h, bool) gprog" where
  "gdk_TextDrawTextSize env' text' x y = native_bool env' ''TextDrawTextSize'' [NVal text', NVal x, NVal y]"

definition gdk_TextDrawAlignment :: "'h amx_env \<Rightarrow> 32 word \<Rightarrow> 32 word \<Rightarrow> ('h, bool) gprog" where
  "gdk_TextDrawAlignment env' text' alignment = native_bool env' ''TextDrawAlignment'' [NVal text', NVal alignment]"

definition gdk_TextDrawColor :: "'h amx_env \<Rightarrow> 32 word \<Rightarrow> 32 word \<Rightarrow> ('h, bool) gprog" where
  "gdk_TextDrawColor env' text' color = native_bool env' ''TextDrawColor'' [NVal text', NVal color]"

definition gdk_TextDrawUseBox :: "'h amx_env \<Rightarrow> 32 word \<Rightarrow> bool \<Rightarrow> ('h, bool) gprog" where
  "gdk_TextDrawUseBox env' text' use = native_bool env' ''TextDrawUseBox'' [NVal text', NVal (of_bool use)]"

definition gdk_TextDrawBoxColor :: "'h amx_env \<Rightarrow> 32 word \<Rightarrow> 32 word \<Rightarrow> ('h, bool) gprog" where
  "gdk_TextDrawBoxColor env' text' color = native_bool env' ''TextDrawBoxColor'' [NVal text', NVal color]"

definition gdk_TextDrawSetShadow :: "'h amx_env \<Rightarrow> 32 word \<Rightarrow> 32 word \<Rightarrow> ('h, bool) gprog" where
  "gdk_TextDrawSetShadow env' text' size' = native_bool env' ''TextDrawSetShadow'' [NVal text', NVal size']"

definition gdk_TextDrawSetOutline :: "'h amx_env \<Rightarrow> 32 word \<Rightarrow> 32 word \<Rightarrow> ('h, bool) gprog" where
  "gdk_TextDrawSetOutline env' text' size' = native_bool env' ''TextDrawSetOutline'' [NVal text', NVal size']"

definition gdk_TextDrawBackgroundColor :: "'h amx_env \<Rightarrow> 32 word \<Rightarrow> 32 word \<Rightarrow> ('h, bool) gprog" where
  "gdk_TextDrawBackgroundColor env' text' color = native_bool env' ''TextDrawBackgroundColor'' [NVal text', NVal color]"

definition gdk_TextDrawFont :: "'h amx_env \<Rightarrow> 32 word \<Rightarrow> 32 word \<Rightarrow> ('h, bool) gprog" where
  "gdk_TextDrawFont env' text' font = native_bool env' ''TextDrawFont'' [NVal text', NVal font]"

definition gdk_TextDrawSetProportional :: "'h amx_env \<Rightarrow> 32 word \<Rightarrow> bool \<Rightarrow> ('h, bool) gprog" where
  "gdk_TextDrawSetProportional env' text' set' = native_bool env' ''TextDrawSetProportional'' [NVal text', NVal (of_bool set')]"

definition gdk_TextDrawSetSelectable :: "'h amx_env \<Rightarrow> 32 word \<Rightarrow> bool \<Rightarrow> ('h, bool) gprog" where
  "gdk_TextDrawSetSelectable env' text' set' = native_bool env' ''TextDrawSetSelectable'' [NVal text', NVal (of_bool set')]"

definition gdk_TextDrawShowForPlayer :: "'h amx_env \<Rightarrow> 32 word \<Rightarrow> 32 word \<Rightarrow> ('h, bool) gprog" where
  "gdk_TextDrawShowForPlayer env' playerid text' = native_bool env' ''TextDrawShowForPlayer'' [NVal playerid, NVal text']"

definition gdk_TextDrawHideForPlayer :: "'h amx_env \<Rightarrow> 32 word \<Rightarrow> 32 word \<Rightarrow> ('h, bool) gprog" where
  "gdk_TextDrawHideForPlayer env' playerid text' = native_bool env' ''TextDrawHideForPlayer'' [NVal playerid, NVal text']"

definition gdk_TextDrawShowForAll :: "'h amx_env \<Rightarrow> 32 word \<Rightarrow> ('h, bool) gprog" where
  "gdk_TextDrawShowForAll env' text' = native_bool env' ''TextDrawShowForAll'' [NVal text']"

definition gdk_TextDrawHideForAll :: "'h amx_env \<Rightarrow> 32 word \<Rightarrow> ('h, bool) gprog" where
  "gdk_TextDrawHideForAll env' text' = native_bool env' ''TextDrawHideForAll'' [NVal text']"

definition gdk_TextDrawSetString :: "'h amx_env \<Rightarrow> 32 word \<Rightarrow> string \<Rightarrow> ('h, bool) gprog" where
  "gdk_TextDrawSetString env' text' string = native_bool env' ''TextDrawSetString'' [NVal text', NStr string]"

definition gdk_SelectTextDraw :: "'h amx_env \<Rightarrow> 32 word \<Rightarrow> 32 word \<Rightarrow> ('h, bool) gprog" where
  "gdk_SelectTextDraw env' playerid hovercolor = native_bool env' ''SelectTextDraw'' [NVal playerid, NVal hovercolor]"

definition gdk_CancelSelectTextDraw :: "'h amx_env \<Rightarrow> 32 word \<Rightarrow> ('h, bool) gprog" where
  "gdk_CancelSelectTextDraw env' playerid = native_bool env' ''CancelSelectTextDraw'' [NVal playerid]"

definition gdk_GangZoneCreate :: "'h amx_env \<Rightarrow> 32 word \<Rightarrow> 32 word \<Rightarrow> 32 word \<Rightarrow> 32 word \<Rightarrow> ('h, 32 word) gprog" where
  "gdk_GangZoneCreate env' minx miny maxx maxy = native_int env' ''GangZoneCreate'' [NVal minx, NVal miny, NVal maxx, NVal maxy]"

definition gdk_GangZoneDestroy :: "'h amx_env \<Rightarrow> 32 word \<Rightarrow> ('h, bool) gprog" where
  "gdk_GangZoneDestroy env' zone = native_bool env' ''GangZoneDestroy'' [NVal zone]"

definition gdk_GangZoneShowForPlayer :: "'h amx_env \<Rightarrow> 32 word \<Rightarrow> 32 word \<Rightarrow> 32 word \<Rightarrow> ('h, bool) gprog" where
  "gdk_GangZoneShowForPlayer env' playerid zone color = native_bool env' ''GangZoneShowForPlayer'' [NVal playerid, NVal zone, NVal color]"

definition gdk_GangZoneShowForAll :: "'h amx_env \<Rightarrow> 32 word \<Rightarrow> 32 word \<Rightarrow> ('h, bool) gprog" where
  "gdk_GangZoneShowForAll env' zone color = native_bool env' ''GangZoneShowForAll'' [NVal zone, NVal color]"

definition gdk_GangZoneHideForPlayer :: "'h amx_env \<Rightarrow> 32 word \<Rightarrow> 32 word \<Rightarrow> ('h, bool) gprog" where
  "gdk_GangZoneHideForPlayer env' playerid zone = native_bool env' ''GangZoneHideForPlayer'' [NVal playerid, NVal zone]"

definition gdk_GangZoneHideForAll :: "'h amx_env \<Rightarrow> 32 word \<Rightarrow> ('h, bool) gprog" where
  "gdk_GangZoneHideForAll env' zone = native_bool env' ''GangZoneHideForAll'' [NVal zone]"

definition gdk_GangZoneFlashForPlayer :: "'h amx_env \<Rightarrow> 32 word \<Rightarrow> 32 word \<Rightarrow> 32 word \<Rightarrow> ('h, bool) gprog" where
  "gdk_GangZoneFlashForPlayer env' playerid zone flashcolor = native_bool env' ''GangZoneFlashForPlayer'' [NVal playerid, NVal zone, NVal flashcolor]"

definition gdk_GangZoneFlashForAll :: "'h amx_env \<Rightarrow> 32 word \<Rightarrow> 32 word \<Rightarrow> ('h, bool) gprog" where
  "gdk_GangZoneFlashForAll env' zone flashcolor = native_bool env' ''GangZoneFlashForAll'' [NVal zone, NVal flashcolor]"

definition gdk_GangZoneStopFlashForPlayer :: "'h amx_env \<Rightarrow> 32 word \<Rightarrow> 32 word \<Rightarrow> ('h, bool) gprog" where
  "gdk_GangZoneStopFlashForPlayer env' playerid zone = native_bool env' ''GangZoneStopFlashForPlayer'' [NVal playerid, NVal zone]"

definition gdk_GangZoneStopFlashForAll :: "'h amx_env \<Rightarrow> 32 word \<Rightarrow> ('h, bool) gprog" where
  "gdk_GangZoneStopFlashForAll env' zone = native_bool env' ''GangZoneStopFlashForAll'' [NVal zone]"

definition gdk_Create3DTextLabel :: "'h amx_env \<Rightarrow> string \<Rightarrow> 32 word \<Rightarrow> 32 word \<Rightarrow> 32 word \<Rightarrow> 32 word \<Rightarrow> 32 word \<Rightarrow> 32 word \<Rightarrow> bool \<Rightarrow> ('h, 32 word) gprog" where
  "gdk_Create3DTextLabel env' text' color x y z DrawDistance virtualworld testLOS =
     native_int env' ''Create3DTextLabel'' [NStr text', NVal color, NVal x, NVal y, NVal z, NVal DrawDistance, NVal virtualworld,
       NVal (of_bool testLOS)]"

definition gdk_Delete3DTextLabel :: "'h amx_env \<Rightarrow> 32 word \<Rightarrow> ('h, bool) gprog" where
  "gdk_Delete3DTextLabel env' id' = native_bool env' ''Delete3DTextLabel'' [NVal id']"

definition gdk_Attach3DTextLabelToPlayer :: "'h amx_env \<Rightarrow> 32 word \<Rightarrow> 32 word \<Rightarrow> 32 word \<Rightarrow> 32 word \<Rightarrow> 32 word \<Rightarrow> ('h, bool) gprog" where
  "gdk_Attach3DTextLabelToPlayer env' id' playerid OffsetX OffsetY OffsetZ =
     native_bool env' ''Attach3DTextLabelToPlayer'' [NVal id', NVal playerid, NVal OffsetX, NVal OffsetY, NVal OffsetZ]"

definition gdk_Attach3DTextLabelToVehicle :: "'h amx_env \<Rightarrow> 32 word \<Rightarrow> 32 word \<Rightarrow> 32 word \<Rightarrow> 32 word \<Rightarrow> 32 word \<Rightarrow> ('h, bool) gprog" where
  "gdk_Attach3DTextLabelToVehicle env' id' vehicleid OffsetX OffsetY OffsetZ =
     native_bool env' ''Attach3DTextLabelToVehicle'' [NVal id', NVal vehicleid, NVal OffsetX, NVal OffsetY, NVal OffsetZ]"

definition gdk_Update3DTextLabelText :: "'h amx_env \<Rightarrow> 32 word \<Rightarrow> 32 word \<Rightarrow> string \<Rightarrow> ('h, bool) gprog" where
  "gdk_Update3DTextLabelText env' id' color text' = native_bool env' ''Update3DTextLabelText'' [NVal id', NVal color, NStr text']"

definition gdk_CreatePlayer3DTextLabel :: "'h amx_env \<Rightarrow> 32 word \<Rightarrow> string \<Rightarrow> 32 word \<Rightarrow> 32 word \<Rightarrow> 32 word \<Rightarrow> 32 word \<Rightarrow> 32 word \<Rightarrow> 32 word \<Rightarrow> 32 word \<Rightarrow> bool \<Rightarrow> ('h, 32 word) gprog" where
  "gdk_CreatePlayer3DTextLabel env' playerid text' color x y z DrawDistance attachedplayer attachedvehicle testLOS =
     native_int env' ''CreatePlayer3DTextLabel'' [NVal playerid, NStr text', NVal color, NVal x, NVal y, NVal z, NVal DrawDistance,
       NVal attachedplayer, NVal attachedvehicle, NVal (of_bool testLOS)]"

definition gdk_DeletePlayer3DTextLabel :: "'h amx_env \<Rightarrow> 32 word \<Rightarrow> 32 word \<Rightarrow> ('h, bool) gprog" where
  "gdk_DeletePlayer3DTextLabel env' playerid id' = native_bool env' ''DeletePlayer3DTextLabel'' [NVal playerid, NVal id']"

definition gdk_UpdatePlayer3DTextLabelText :: "'h amx_env \<Rightarrow> 32 word \<Rightarrow> 32 word \<Rightarrow> 32 word \<Rightarrow> string \<Rightarrow> ('h, bool) gprog" where
  "gdk_UpdatePlayer3DTextLabelText env' playerid id' color text' =
     native_bool env' ''UpdatePlayer3DTextLabelText'' [NVal playerid, NVal id', NVal color, NStr text']"

definition gdk_ShowPlayerDialog :: "'h amx_env \<Rightarrow> 32 word \<Rightarrow> 32 word \<Rightarrow> 32 word \<Rightarrow> string \<Rightarrow> string \<Rightarrow> string \<Rightarrow> string \<Rightarrow> ('h, bool) gprog" where
  "gdk_ShowPlayerDialog env' playerid dialogid style' caption info button1 button2 =
     native_bool env' ''ShowPlayerDialog'' [NVal playerid, NVal dialogid, NVal style', NStr caption, NStr info, NStr button1, NStr button2]"

definition gdk_gpci :: "'h amx_env \<Rightarrow> 32 word \<Rightarrow> 32 word \<Rightarrow> ('h, bool \<times> nout list) gprog" where
  "gdk_gpci env' playerid size' = native_bool_outs env' ''gpci'' [NVal playerid, NBuf size', NVal size']"

section \<open>Players\<close>

definition gdk_SetSpawnInfo :: "'h amx_env \<Rightarrow> 32 word \<Rightarrow> 32 word \<Rightarrow> 32 word \<Rightarrow> 32 word \<Rightarrow> 32 word \<Rightarrow> 32 word \<Rightarrow> 32 word \<Rightarrow> 32 word \<Rightarrow> 32 word \<Rightarrow> 32 word \<Rightarrow> 32 word \<Rightarrow> 32 word \<Rightarrow> 32 word \<Rightarrow> ('h, bool) gprog" where
  "gdk_SetSpawnInfo env' playerid team skin x y z rotation weapon1 weapon1_ammo weapon2 weapon2_ammo weapon3 weapon3_ammo =
     native_bool env' ''SetSpawnInfo'' [NVal playerid, NVal team, NVal skin, NVal x, NVal y, NVal z, NVal rotation, NVal weapon1,
       NVal weapon1_ammo, NVal weapon2, NVal weapon2_ammo, NVal weapon3, NVal weapon3_ammo]"

definition gdk_SpawnPlayer :: "'h amx_env \<Rightarrow> 32 word \<Rightarrow> ('h, bool) gprog" where
  "gdk_SpawnPlayer env' playerid = native_bool env' ''SpawnPlayer'' [NVal playerid]"

definition gdk_SetPlayerPos :: "'h amx_env \<Rightarrow> 32 word \<Rightarrow> 32 word \<Rightarrow> 32 word \<Rightarrow> 32 word \<Rightarrow> ('h, bool) gprog" where
  "gdk_SetPlayerPos env' playerid x y z = native_bool env' ''SetPlayerPos'' [NVal playerid, NVal x, NVal y, NVal z]"

definition gdk_SetPlayerPosFindZ :: "'h amx_env \<Rightarrow> 32 word \<Rightarrow> 32 word \<Rightarrow> 32 word \<Rightarrow> 32 word \<Rightarrow> ('h, bool) gprog" where
  "gdk_SetPlayerPosFindZ env' playerid x y z = native_bool env' ''SetPlayerPosFindZ'' [NVal playerid, NVal x, NVal y, NVal z]"

definition gdk_GetPlayerPos :: "'h amx_env \<Rightarrow> 32 word \<Rightarrow> ('h, bool \<times> nout list) gprog" where
  "gdk_GetPlayerPos env' playerid = native_bool_outs env' ''GetPlayerPos'' [NVal playerid, NCell, NCell, NCell]"

definition gdk_SetPlayerFacingAngle :: "'h amx_env \<Rightarrow> 32 word \<Rightarrow> 32 word \<Rightarrow> ('h, bool) gprog" where
  "gdk_SetPlayerFacingAngle env' playerid angle = native_bool env' ''SetPlayerFacingAngle'' [NVal playerid, NVal angle]"

definition gdk_GetPlayerFacingAngle :: "'h amx_env \<Rightarrow> 32 word \<Rightarrow> ('h, bool \<times> nout list) gprog" where
  "gdk_GetPlayerFacingAngle env' playerid = native_bool_outs env' ''GetPlayerFacingAngle'' [NVal playerid, NCell]"

definition gdk_IsPlayerInRangeOfPoint :: "'h amx_env \<Rightarrow> 32 word \<Rightarrow> 32 word \<Rightarrow> 32 word \<Rightarrow> 32 word \<Rightarrow> 32 word \<Rightarrow> ('h, bool) gprog" where
  "gdk_IsPlayerInRangeOfPoint env' playerid range' x y z =
     native_bool env' ''IsPlayerInRangeOfPoint'' [NVal playerid, NVal range', NVal x, NVal y, NVal z]"

definition gdk_GetPlayerDistanceFromPoint :: "'h amx_env \<Rightarrow> 32 word \<Rightarrow> 32 word \<Rightarrow> 32 word \<Rightarrow> 32 word \<Rightarrow> ('h, 32 word) gprog" where
  "gdk_GetPlayerDistanceFromPoint env' playerid x y z = native_float env' ''GetPlayerDistanceFromPoint'' [NVal playerid, NVal x, NVal y, NVal z]"

definition gdk_IsPlayerStreamedIn :: "'h amx_env \<Rightarrow> 32 word \<Rightarrow> 32 word \<Rightarrow> ('h, bool) gprog" where
  "gdk_IsPlayerStreamedIn env' playerid forplayerid = native_bool env' ''IsPlayerStreamedIn'' [NVal playerid, NVal forplayerid]"

definition gdk_SetPlayerInterior :: "'h amx_env \<Rightarrow> 32 word \<Rightarrow> 32 word \<Rightarrow> ('h, bool) gprog" where
  "gdk_SetPlayerInterior env' playerid interiorid = native_bool env' ''SetPlayerInterior'' [NVal playerid, NVal interiorid]"

definition gdk_GetPlayerInterior :: "'h amx_env \<Rightarrow> 32 word \<Rightarrow> ('h, 32 word) gprog" where
  "gdk_GetPlayerInterior env' playerid = native_int env' ''GetPlayerInterior'' [NVal playerid]"

definition gdk_SetPlayerHealth :: "'h amx_env \<Rightarrow> 32 word \<Rightarrow> 32 word \<Rightarrow> ('h, bool) gprog" where
  "gdk_SetPlayerHealth env' playerid health = native_bool env' ''SetPlayerHealth'' [NVal playerid, NVal health]"

definition gdk_GetPlayerHealth :: "'h amx_env \<Rightarrow> 32 word \<Rightarrow> ('h, bool \<times> nout list) gprog" where
  "gdk_GetPlayerHealth env' playerid = native_bool_outs env' ''GetPlayerHealth'' [NVal playerid, NCell]"

definition gdk_SetPlayerArmour :: "'h amx_env \<Rightarrow> 32 word \<Rightarrow> 32 word \<Rightarrow> ('h, bool) gprog" where
  "gdk_SetPlayerArmour env' playerid armour = native_bool env' ''SetPlayerArmour'' [NVal playerid, NVal armour]"

definition gdk_GetPlayerArmour :: "'h amx_env \<Rightarrow> 32 word \<Rightarrow> ('h, bool \<times> nout list) gprog" where
  "gdk_GetPlayerArmour env' playerid = native_bool_outs env' ''GetPlayerArmour'' [NVal playerid, NCell]"

definition gdk_SetPlayerAmmo :: "'h amx_env \<Rightarrow> 32 word \<Rightarrow> 32 word \<Rightarrow> 32 word \<Rightarrow> ('h, bool) gprog" where
  "gdk_SetPlayerAmmo env' playerid weaponslot ammo = native_bool env' ''SetPlayerAmmo'' [NVal playerid, NVal weaponslot, NVal ammo]"

definition gdk_GetPlayerAmmo :: "'h amx_env \<Rightarrow> 32 word \<Rightarrow> ('h, 32 word) gprog" where
  "gdk_GetPlayerAmmo env' playerid = native_int env' ''GetPlayerAmmo'' [NVal playerid]"

definition gdk_GetPlayerWeaponState :: "'h amx_env \<Rightarrow> 32 word \<Rightarrow> ('h, 32 word) gprog" where
  "gdk_GetPlayerWeaponState env' playerid = native_int env' ''GetPlayerWeaponState'' [NVal playerid]"

definition gdk_GetPlayerTargetPlayer :: "'h amx_env \<Rightarrow> 32 word \<Rightarrow> ('h, 32 word) gprog" where
  "gdk_GetPlayerTargetPlayer env' playerid = native_int env' ''GetPlayerTargetPlayer'' [NVal playerid]"

definition gdk_SetPlayerTeam :: "'h amx_env \<Rightarrow> 32 word \<Rightarrow> 32 word \<Rightarrow> ('h, bool) gprog" where
  "gdk_SetPlayerTeam env' playerid teamid = native_bool env' ''SetPlayerTeam'' [NVal playerid, NVal teamid]"

definition gdk_GetPlayerTeam :: "'h amx_env \<Rightarrow> 32 word \<Rightarrow> ('h, 32 word) gprog" where
  "gdk_GetPlayerTeam env' playerid = native_int env' ''GetPlayerTeam'' [NVal playerid]"

definition gdk_SetPlayerScore :: "'h amx_env \<Rightarrow> 32 word \<Rightarrow> 32 word \<Rightarrow> ('h, bool) gprog" where
  "gdk_SetPlayerScore env' playerid score = native_bool env' ''SetPlayerScore'' [NVal playerid, NVal score]"

definition gdk_GetPlayerScore :: "'h amx_env \<Rightarrow> 32 word \<Rightarrow> ('h, 32 word) gprog" where
  "gdk_GetPlayerScore env' playerid = native_int env' ''GetPlayerScore'' [NVal playerid]"

definition gdk_GetPlayerDrunkLevel :: "'h amx_env \<Rightarrow> 32 word \<Rightarrow> ('h, 32 word) gprog" where
  "gdk_GetPlayerDrunkLevel env' playerid = native_int env' ''GetPlayerDrunkLevel'' [NVal playerid]"

definition gdk_SetPlayerDrunkLevel :: "'h amx_env \<Rightarrow> 32 word \<Rightarrow> 32 word \<Rightarrow> ('h, bool) gprog" where
  "gdk_SetPlayerDrunkLevel env' playerid level = native_bool env' ''SetPlayerDrunkLevel'' [NVal playerid, NVal level]"

definition gdk_SetPlayerColor :: "'h amx_env \<Rightarrow> 32 word \<Rightarrow> 32 word \<Rightarrow> ('h, bool) gprog" where
  "gdk_SetPlayerColor env' playerid color = native_bool env' ''SetPlayerColor'' [NVal playerid, NVal color]"

definition gdk_GetPlayerColor :: "'h amx_env \<Rightarrow> 32 word \<Rightarrow> ('h, 32 word) gprog" where
  "gdk_GetPlayerColor env' playerid = native_int env' ''GetPlayerColor'' [NVal playerid]"

definition gdk_SetPlayerSkin :: "'h amx_env \<Rightarrow> 32 word \<Rightarrow> 32 word \<Rightarrow> ('h, bool) gprog" where
  "gdk_SetPlayerSkin env' playerid skinid = native_bool env' ''SetPlayerSkin'' [NVal playerid, NVal skinid]"

definition gdk_GetPlayerSkin :: "'h amx_env \<Rightarrow> 32 word \<Rightarrow> ('h, 32 word) gprog" where
  "gdk_GetPlayerSkin env' playerid = native_int env' ''GetPlayerSkin'' [NVal playerid]"

definition gdk_GivePlayerWeapon :: "'h amx_env \<Rightarrow> 32 word \<Rightarrow> 32 word \<Rightarrow> 32 word \<Rightarrow> ('h, bool) gprog" where
  "gdk_GivePlayerWeapon env' playerid weaponid ammo = native_bool env' ''GivePlayerWeapon'' [NVal playerid, NVal weaponid, NVal ammo]"

definition gdk_ResetPlayerWeapons :: "'h amx_env \<Rightarrow> 32 word \<Rightarrow> ('h, bool) gprog" where
  "gdk_ResetPlayerWeapons env' playerid = native_bool env' ''ResetPlayerWeapons'' [NVal playerid]"

definition gdk_SetPlayerArmedWeapon :: "'h amx_env \<Rightarrow> 32 word \<Rightarrow> 32 word \<Rightarrow> ('h, bool) gprog" where
  "gdk_SetPlayerArmedWeapon env' playerid weaponid = native_bool env' ''SetPlayerArmedWeapon'' [NVal playerid, NVal weaponid]"

definition gdk_GetPlayerWeaponData :: "'h amx_env \<Rightarrow> 32 word \<Rightarrow> 32 word \<Rightarrow> ('h, bool \<times> nout list) gprog" where
  "gdk_GetPlayerWeaponData env' playerid slot = native_bool_outs env' ''GetPlayerWeaponData'' [NVal playerid, NVal slot, NCell, NCell]"

definition gdk_GivePlayerMoney :: "'h amx_env \<Rightarrow> 32 word \<Rightarrow> 32 word \<Rightarrow> ('h, bool) gprog" where
  "gdk_GivePlayerMoney env' playerid money = native_bool env' ''GivePlayerMoney'' [NVal playerid, NVal money]"

definition gdk_ResetPlayerMoney :: "'h amx_env \<Rightarrow> 32 word \<Rightarrow> ('h, bool) gprog" where
  "gdk_ResetPlayerMoney env' playerid = native_bool env' ''ResetPlayerMoney'' [NVal playerid]"

definition gdk_SetPlayerName :: "'h amx_env \<Rightarrow> 32 word \<Rightarrow> string \<Rightarrow> ('h, 32 word) gprog" where
  "gdk_SetPlayerName env' playerid name' = native_int env' ''SetPlayerName'' [NVal playerid, NStr name']"

definition gdk_GetPlayerMoney :: "'h amx_env \<Rightarrow> 32 word \<Rightarrow> ('h, 32 word) gprog" where
  "gdk_GetPlayerMoney env' playerid = native_int env' ''GetPlayerMoney'' [NVal playerid]"

definition gdk_GetPlayerState :: "'h amx_env \<Rightarrow> 32 word \<Rightarrow> ('h, 32 word) gprog" where
  "gdk_GetPlayerState env' playerid = native_int env' ''GetPlayerState'' [NVal playerid]"

definition gdk_GetPlayerIp :: "'h amx_env \<Rightarrow> 32 word \<Rightarrow> 32 word \<Rightarrow> ('h, bool \<times> nout list) gprog" where
  "gdk_GetPlayerIp env' playerid size' = native_bool_outs env' ''GetPlayerIp'' [NVal playerid, NBuf size', NVal size']"

definition gdk_GetPlayerPing :: "'h amx_env \<Rightarrow> 32 word \<Rightarrow> ('h, 32 word) gprog" where
  "gdk_GetPlayerPing env' playerid = native_int env' ''GetPlayerPing'' [NVal playerid]"

definition gdk_GetPlayerWeapon :: "'h amx_env \<Rightarrow> 32 word \<Rightarrow> ('h, 32 word) gprog" where
  "gdk_GetPlayerWeapon env' playerid = native_int env' ''GetPlayerWeapon'' [NVal playerid]"

definition gdk_GetPlayerKeys :: "'h amx_env \<Rightarrow> 32 word \<Rightarrow> ('h, bool \<times> nout list) gprog" where
  "gdk_GetPlayerKeys env' playerid = native_bool_outs env' ''GetPlayerKeys'' [NVal playerid, NCell, NCell, NCell]"

definition gdk_GetPlayerName :: "'h amx_env \<Rightarrow> 32 word \<Rightarrow> 32 word \<Rightarrow> ('h, bool \<times> nout list) gprog" where
  "gdk_GetPlayerName env' playerid size' = native_bool_outs env' ''GetPlayerName'' [NVal playerid, NBuf size', NVal size']"

definition gdk_SetPlayerTime :: "'h amx_env \<Rightarrow> 32 word \<Rightarrow> 32 word \<Rightarrow> 32 word \<Rightarrow> ('h, bool) gprog" where
  "gdk_SetPlayerTime env' playerid hour minute = native_bool env' ''SetPlayerTime'' [NVal playerid, NVal hour, NVal minute]"

definition gdk_GetPlayerTime :: "'h amx_env \<Rightarrow> 32 word \<Rightarrow> ('h, bool \<times> nout list) gprog" where
  "gdk_GetPlayerTime env' playerid = native_bool_outs env' ''GetPlayerTime'' [NVal playerid, NCell, NCell]"

definition gdk_TogglePlayerClock :: "'h amx_env \<Rightarrow> 32 word \<Rightarrow> bool \<Rightarrow> ('h, bool) gprog" where
  "gdk_TogglePlayerClock env' playerid toggle = native_bool env' ''TogglePlayerClock'' [NVal playerid, NVal (of_bool toggle)]"

definition gdk_SetPlayerWeather :: "'h amx_env \<Rightarrow> 32 word \<Rightarrow> 32 word \<Rightarrow> ('h, bool) gprog" where
  "gdk_SetPlayerWeather env' playerid weather = native_bool env' ''SetPlayerWeather'' [NVal playerid, NVal weather]"

definition gdk_ForceClassSelection :: "'h amx_env \<Rightarrow> 32 word \<Rightarrow> ('h, bool) gprog" where
  "gdk_ForceClassSelection env' playerid = native_bool env' ''ForceClassSelection'' [NVal playerid]"

definition gdk_SetPlayerWantedLevel :: "'h amx_env \<Rightarrow> 32 word \<Rightarrow> 32 word \<Rightarrow> ('h, bool) gprog" where
  "gdk_SetPlayerWantedLevel env' playerid level = native_bool env' ''SetPlayerWantedLevel'' [NVal playerid, NVal level]"

definition gdk_GetPlayerWantedLevel :: "'h amx_env \<Rightarrow> 32 word \<Rightarrow> ('h, 32 word) gprog" where
  "gdk_GetPlayerWantedLevel env' playerid = native_int env' ''GetPlayerWantedLevel'' [NVal playerid]"

definition gdk_SetPlayerFightingStyle :: "'h amx_env \<Rightarrow> 32 word \<Rightarrow> 32 word \<Rightarrow> ('h, bool) gprog" where
  "gdk_SetPlayerFightingStyle env' playerid style' = native_bool env' ''SetPlayerFightingStyle'' [NVal playerid, NVal style']"

definition gdk_GetPlayerFightingStyle :: "'h amx_env \<Rightarrow> 32 word \<Rightarrow> ('h, 32 word) gprog" where
  "gdk_GetPlayerFightingStyle env' playerid = native_int env' ''GetPlayerFightingStyle'' [NVal playerid]"

definition gdk_SetPlayerVelocity :: "'h amx_env \<Rightarrow> 32 word \<Rightarrow> 32 word \<Rightarrow> 32 word \<Rightarrow> 32 word \<Rightarrow> ('h, bool) gprog" where
  "gdk_SetPlayerVelocity env' playerid x y z = native_bool env' ''SetPlayerVelocity'' [NVal playerid, NVal x, NVal y, NVal z]"

definition gdk_GetPlayerVelocity :: "'h amx_env \<Rightarrow> 32 word \<Rightarrow> ('h, bool \<times> nout list) gprog" where
  "gdk_GetPlayerVelocity env' playerid = native_bool_outs env' ''GetPlayerVelocity'' [NVal playerid, NCell, NCell, NCell]"

definition gdk_PlayCrimeReportForPlayer :: "'h amx_env \<Rightarrow> 32 word \<Rightarrow> 32 word \<Rightarrow> 32 word \<Rightarrow> ('h, bool) gprog" where
  "gdk_PlayCrimeReportForPlayer env' playerid suspectid crime =
     native_bool env' ''PlayCrimeReportForPlayer'' [NVal playerid, NVal suspectid, NVal crime]"

definition gdk_PlayAudioStreamForPlayer :: "'h amx_env \<Rightarrow> 32 word \<Rightarrow> string \<Rightarrow> 32 word \<Rightarrow> 32 word \<Rightarrow> 32 word \<Rightarrow> 32 word \<Rightarrow> bool \<Rightarrow> ('h, bool) gprog" where
  "gdk_PlayAudioStreamForPlayer env' playerid url posX posY posZ distance usepos =
     native_bool env' ''PlayAudioStreamForPlayer'' [NVal playerid, NStr url, NVal posX, NVal posY, NVal posZ, NVal distance,
       NVal (of_bool usepos)]"

definition gdk_StopAudioStreamForPlayer :: "'h amx_env \<Rightarrow> 32 word \<Rightarrow> ('h, bool) gprog" where
  "gdk_StopAudioStreamForPlayer env' playerid = native_bool env' ''StopAudioStreamForPlayer'' [NVal playerid]"

definition gdk_SetPlayerShopName :: "'h amx_env \<Rightarrow> 32 word \<Rightarrow> string \<Rightarrow> ('h, bool) gprog" where
  "gdk_SetPlayerShopName env' playerid shopname = native_bool env' ''SetPlayerShopName'' [NVal playerid, NStr shopname]"

definition gdk_SetPlayerSkillLevel :: "'h amx_env \<Rightarrow> 32 word \<Rightarrow> 32 word \<Rightarrow> 32 word \<Rightarrow> ('h, bool) gprog" where
  "gdk_SetPlayerSkillLevel env' playerid skill level = native_bool env' ''SetPlayerSkillLevel'' [NVal playerid, NVal skill, NVal level]"

definition gdk_GetPlayerSurfingVehicleID :: "'h amx_env \<Rightarrow> 32 word \<Rightarrow> ('h, 32 word) gprog" where
  "gdk_GetPlayerSurfingVehicleID env' playerid = native_int env' ''GetPlayerSurfingVehicleID'' [NVal playerid]"

definition gdk_GetPlayerSurfingObjectID :: "'h amx_env \<Rightarrow> 32 word \<Rightarrow> ('h, 32 word) gprog" where
  "gdk_GetPlayerSurfingObjectID env' playerid = native_int env' ''GetPlayerSurfingObjectID'' [NVal playerid]"

definition gdk_RemoveBuildingForPlayer :: "'h amx_env \<Rightarrow> 32 word \<Rightarrow> 32 word \<Rightarrow> 32 word \<Rightarrow> 32 word \<Rightarrow> 32 word \<Rightarrow> 32 word \<Rightarrow> ('h, bool) gprog" where
  "gdk_RemoveBuildingForPlayer env' playerid modelid fX fY fZ fRadius =
     native_bool env' ''RemoveBuildingForPlayer'' [NVal playerid, NVal modelid, NVal fX, NVal fY, NVal fZ, NVal fRadius]"

definition gdk_SetPlayerAttachedObject :: "'h amx_env \<Rightarrow> 32 word \<Rightarrow> 32 word \<Rightarrow> 32 word \<Rightarrow> 32 word \<Rightarrow> 32 word \<Rightarrow> 32 word \<Rightarrow> 32 word \<Rightarrow> 32 word \<Rightarrow> 32 word \<Rightarrow> 32 word \<Rightarrow> 32 word \<Rightarrow> 32 word \<Rightarrow> 32 word \<Rightarrow> 32 word \<Rightarrow> 32 word \<Rightarrow> ('h, bool) gprog" where
  "gdk_SetPlayerAttachedObject env' playerid index' modelid bone fOffsetX fOffsetY fOffsetZ fRotX fRotY fRotZ fScaleX fScaleY fScaleZ materialcolor1 materialcolor2 =
     native_bool env' ''SetPlayerAttachedObject'' [NVal playerid, NVal index', NVal modelid, NVal bone, NVal fOffsetX, NVal fOffsetY,
       NVal fOffsetZ, NVal fRotX, NVal fRotY, NVal fRotZ, NVal fScaleX, NVal fScaleY, NVal fScaleZ, NVal materialcolor1, NVal materialcolor2]"

definition gdk_RemovePlayerAttachedObject :: "'h amx_env \<Rightarrow> 32 word \<Rightarrow> 32 word \<Rightarrow> ('h, bool) gprog" where
  "gdk_RemovePlayerAttachedObject env' playerid index' = native_bool env' ''RemovePlayerAttachedObject'' [NVal playerid, NVal index']"

definition gdk_IsPlayerAttachedObjectSlotUsed :: "'h amx_env \<Rightarrow> 32 word \<Rightarrow> 32 word \<Rightarrow> ('h, bool) gprog" where
  "gdk_IsPlayerAttachedObjectSlotUsed env' playerid index' = native_bool env' ''IsPlayerAttachedObjectSlotUsed'' [NVal playerid, NVal index']"

definition gdk_EditAttachedObject :: "'h amx_env \<Rightarrow> 32 word \<Rightarrow> 32 word \<Rightarrow> ('h, bool) gprog" where
  "gdk_EditAttachedObject env' playerid index' = native_bool env' ''EditAttachedObject'' [NVal playerid, NVal index']"

definition gdk_CreatePlayerTextDraw :: "'h amx_env \<Rightarrow> 32 word \<Rightarrow> 32 word \<Rightarrow> 32 word \<Rightarrow> string \<Rightarrow> ('h, 32 word) gprog" where
  "gdk_CreatePlayerTextDraw env' playerid x y text' = native_int env' ''CreatePlayerTextDraw'' [NVal playerid, NVal x, NVal y, NStr text']"

definition gdk_PlayerTextDrawDestroy :: "'h amx_env \<Rightarrow> 32 word \<Rightarrow> 32 word \<Rightarrow> ('h, bool) gprog" where
  "gdk_PlayerTextDrawDestroy env' playerid text' = native_bool env' ''PlayerTextDrawDestroy'' [NVal playerid, NVal text']"

definition gdk_PlayerTextDrawLetterSize :: "'h amx_env \<Rightarrow> 32 word \<Rightarrow> 32 word \<Rightarrow> 32 word \<Rightarrow> 32 word \<Rightarrow> ('h, bool) gprog" where
  "gdk_PlayerTextDrawLetterSize env' playerid text' x y = native_bool env' ''PlayerTextDrawLetterSize'' [NVal playerid, NVal text', NVal x, NVal y]"

definition gdk_PlayerTextDrawTextSize :: "'h amx_env \<Rightarrow> 32 word \<Rightarrow> 32 word \<Rightarrow> 32 word \<Rightarrow> 32 word \<Rightarrow> ('h, bool) gprog" where
  "gdk_PlayerTextDrawTextSize env' playerid text' x y = native_bool env' ''PlayerTextDrawTextSize'' [NVal playerid, NVal text', NVal x, NVal y]"

definition gdk_PlayerTextDrawAlignment :: "'h amx_env \<Rightarrow> 32 word \<Rightarrow> 32 word \<Rightarrow> 32 word \<Rightarrow> ('h, bool) gprog" where
  "gdk_PlayerTextDrawAlignment env' playerid text' alignment =
     native_bool env' ''PlayerTextDrawAlignment'' [NVal playerid, NVal text', NVal alignment]"

definition gdk_PlayerTextDrawColor :: "'h amx_env \<Rightarrow> 32 word \<Rightarrow> 32 word \<Rightarrow> 32 word \<Rightarrow> ('h, bool) gprog" where
  "gdk_PlayerTextDrawColor env' playerid text' color = native_bool env' ''PlayerTextDrawColor'' [NVal playerid, NVal text', NVal color]"

definition gdk_PlayerTextDrawUseBox :: "'h amx_env \<Rightarrow> 32 word \<Rightarrow> 32 word \<Rightarrow> bool \<Rightarrow> ('h, bool) gprog" where
  "gdk_PlayerTextDrawUseBox env' playerid text' use = native_bool env' ''PlayerTextDrawUseBox'' [NVal playerid, NVal text', NVal (of_bool use)]"

definition gdk_PlayerTextDrawBoxColor :: "'h amx_env \<Rightarrow> 32 word \<Rightarrow> 32 word \<Rightarrow> 32 word \<Rightarrow> ('h, bool) gprog" where
  "gdk_PlayerTextDrawBoxColor env' playerid text' color = native_bool env' ''PlayerTextDrawBoxColor'' [NVal playerid, NVal text', NVal color]"

definition gdk_PlayerTextDrawSetShadow :: "'h amx_env \<Rightarrow> 32 word \<Rightarrow> 32 word \<Rightarrow> 32 word \<Rightarrow> ('h, bool) gprog" where
  "gdk_PlayerTextDrawSetShadow env' playerid text' size' = native_bool env' ''PlayerTextDrawSetShadow'' [NVal playerid, NVal text', NVal size']"

definition gdk_PlayerTextDrawSetOutline :: "'h amx_env \<Rightarrow> 32 word \<Rightarrow> 32 word \<Rightarrow> 32 word \<Rightarrow> ('h, bool) gprog" where
  "gdk_PlayerTextDrawSetOutline env' playerid text' size' = native_bool env' ''PlayerTextDrawSetOutline'' [NVal playerid, NVal text', NVal size']"

definition gdk_PlayerTextDrawBackgroundColor :: "'h amx_env \<Rightarrow> 32 word \<Rightarrow> 32 word \<Rightarrow> 32 word \<Rightarrow> ('h, bool) gprog" where
  "gdk_PlayerTextDrawBackgroundColor env' playerid text' color =
     native_bool env' ''PlayerTextDrawBackgroundColor'' [NVal playerid, NVal text', NVal color]"

definition gdk_PlayerTextDrawFont :: "'h amx_env \<Rightarrow> 32 word \<Rightarrow> 32 word \<Rightarrow> 32 word \<Rightarrow> ('h, bool) gprog" where
  "gdk_PlayerTextDrawFont env' playerid text' font = native_bool env' ''PlayerTextDrawFont'' [NVal playerid, NVal text', NVal font]"

definition gdk_PlayerTextDrawSetProportional :: "'h amx_env \<Rightarrow> 32 word \<Rightarrow> 32 word \<Rightarrow> bool \<Rightarrow> ('h, bool) gprog" where
  "gdk_PlayerTextDrawSetProportional env' playerid text' set' =
     native_bool env' ''PlayerTextDrawSetProportional'' [NVal playerid, NVal text', NVal (of_bool set')]"

definition gdk_PlayerTextDrawSetSelectable :: "'h amx_env \<Rightarrow> 32 word \<Rightarrow> 32 word \<Rightarrow> bool \<Rightarrow> ('h, bool) gprog" where
  "gdk_PlayerTextDrawSetSelectable env' playerid text' set' =
     native_bool env' ''PlayerTextDrawSetSelectable'' [NVal playerid, NVal text', NVal (of_bool set')]"

definition gdk_PlayerTextDrawShow :: "'h amx_env \<Rightarrow> 32 word \<Rightarrow> 32 word \<Rightarrow> ('h, bool) gprog" where
  "gdk_PlayerTextDrawShow env' playerid text' = native_bool env' ''PlayerTextDrawShow'' [NVal playerid, NVal text']"

definition gdk_PlayerTextDrawHide :: "'h amx_env \<Rightarrow> 32 word \<Rightarrow> 32 word \<Rightarrow> ('h, bool) gprog" where
  "gdk_PlayerTextDrawHide env' playerid text' = native_bool env' ''PlayerTextDrawHide'' [NVal playerid, NVal text']"

definition gdk_PlayerTextDrawSetString :: "'h amx_env \<Rightarrow> 32 word \<Rightarrow> 32 word \<Rightarrow> string \<Rightarrow> ('h, bool) gprog" where
  "gdk_PlayerTextDrawSetString env' playerid text' string = native_bool env' ''PlayerTextDrawSetString'' [NVal playerid, NVal text', NStr string]"

definition gdk_SetPVarInt :: "'h amx_env \<Rightarrow> 32 word \<Rightarrow> string \<Rightarrow> 32 word \<Rightarrow> ('h, bool) gprog" where
  "gdk_SetPVarInt env' playerid varname value' = native_bool env' ''SetPVarInt'' [NVal playerid, NStr varname, NVal value']"

definition gdk_GetPVarInt :: "'h amx_env \<Rightarrow> 32 word \<Rightarrow> string \<Rightarrow> ('h, 32 word) gprog" where
  "gdk_GetPVarInt env' playerid varname = native_int env' ''GetPVarInt'' [NVal playerid, NStr varname]"

definition gdk_SetPVarString :: "'h amx_env \<Rightarrow> 32 word \<Rightarrow> string \<Rightarrow> string \<Rightarrow> ('h, bool) gprog" where
  "gdk_SetPVarString env' playerid varname value' = native_bool env' ''SetPVarString'' [NVal playerid, NStr varname, NStr value']"

definition gdk_GetPVarString :: "'h amx_env \<Rightarrow> 32 word \<Rightarrow> string \<Rightarrow> 32 word \<Rightarrow> ('h, bool \<times> nout list) gprog" where
  "gdk_GetPVarString env' playerid varname size' = native_bool_outs env' ''GetPVarString'' [NVal playerid, NStr varname, NBuf size', NVal size']"

definition gdk_SetPVarFloat :: "'h amx_env \<Rightarrow> 32 word \<Rightarrow> string \<Rightarrow> 32 word \<Rightarrow> ('h, bool) gprog" where
  "gdk_SetPVarFloat env' playerid varname value' = native_bool env' ''SetPVarFloat'' [NVal playerid, NStr varname, NVal value']"

definition gdk_GetPVarFloat :: "'h amx_env \<Rightarrow> 32 word \<Rightarrow> string \<Rightarrow> ('h, 32 word) gprog" where
  "gdk_GetPVarFloat env' playerid varname = native_float env' ''GetPVarFloat'' [NVal playerid, NStr varname]"

definition gdk_DeletePVar :: "'h amx_env \<Rightarrow> 32 word \<Rightarrow> string \<Rightarrow> ('h, bool) gprog" where
  "gdk_DeletePVar env' playerid varname = native_bool env' ''DeletePVar'' [NVal playerid, NStr varname]"

definition gdk_GetPVarsUpperIndex :: "'h amx_env \<Rightarrow> 32 word \<Rightarrow> ('h, 32 word) gprog" where
  "gdk_GetPVarsUpperIndex env' playerid = native_int env' ''GetPVarsUpperIndex'' [NVal playerid]"

definition gdk_GetPVarNameAtIndex :: "'h amx_env \<Rightarrow> 32 word \<Rightarrow> 32 word \<Rightarrow> 32 word \<Rightarrow> ('h, bool \<times> nout list) gprog" where
  "gdk_GetPVarNameAtIndex env' playerid index' size' =
     native_bool_outs env' ''GetPVarNameAtIndex'' [NVal playerid, NVal index', NBuf size', NVal size']"

definition gdk_GetPVarType :: "'h amx_env \<Rightarrow> 32 word \<Rightarrow> string \<Rightarrow> ('h, 32 word) gprog" where
  "gdk_GetPVarType env' playerid varname = native_int env' ''GetPVarType'' [NVal playerid, NStr varname]"

definition gdk_SetPlayerChatBubble :: "'h amx_env \<Rightarrow> 32 word \<Rightarrow> string \<Rightarrow> 32 word \<Rightarrow> 32 word \<Rightarrow> 32 word \<Rightarrow> ('h, bool) gprog" where
  "gdk_SetPlayerChatBubble env' playerid text' color drawdistance expiretime =
     native_bool env' ''SetPlayerChatBubble'' [NVal playerid, NStr text', NVal color, NVal drawdistance, NVal expiretime]"

definition gdk_PutPlayerInVehicle :: "'h amx_env \<Rightarrow> 32 word \<Rightarrow> 32 word \<Rightarrow> 32 word \<Rightarrow> ('h, bool) gprog" where
  "gdk_PutPlayerInVehicle env' playerid vehicleid seatid = native_bool env' ''PutPlayerInVehicle'' [NVal playerid, NVal vehicleid, NVal seatid]"

definition gdk_GetPlayerVehicleID :: "'h amx_env \<Rightarrow> 32 word \<Rightarrow> ('h, 32 word) gprog" where
  "gdk_GetPlayerVehicleID env' playerid = native_int env' ''GetPlayerVehicleID'' [NVal playerid]"

definition gdk_GetPlayerVehicleSeat :: "'h amx_env \<Rightarrow> 32 word \<Rightarrow> ('h, 32 word) gprog" where
  "gdk_GetPlayerVehicleSeat env' playerid = native_int env' ''GetPlayerVehicleSeat'' [NVal playerid]"

definition gdk_RemovePlayerFromVehicle :: "'h amx_env \<Rightarrow> 32 word \<Rightarrow> ('h, bool) gprog" where
  "gdk_RemovePlayerFromVehicle env' playerid = native_bool env' ''RemovePlayerFromVehicle'' [NVal playerid]"

definition gdk_TogglePlayerControllable :: "'h amx_env \<Rightarrow> 32 word \<Rightarrow> bool \<Rightarrow> ('h, bool) gprog" where
  "gdk_TogglePlayerControllable env' playerid toggle = native_bool env' ''TogglePlayerControllable'' [NVal playerid, NVal (of_bool toggle)]"

definition gdk_PlayerPlaySound :: "'h amx_env \<Rightarrow> 32 word \<Rightarrow> 32 word \<Rightarrow> 32 word \<Rightarrow> 32 word \<Rightarrow> 32 word \<Rightarrow> ('h, bool) gprog" where
  "gdk_PlayerPlaySound env' playerid soundid x y z = native_bool env' ''PlayerPlaySound'' [NVal playerid, NVal soundid, NVal x, NVal y, NVal z]"

definition gdk_ApplyAnimation :: "'h amx_env \<Rightarrow> 32 word \<Rightarrow> string \<Rightarrow> string \<Rightarrow> 32 word \<Rightarrow> bool \<Rightarrow> bool \<Rightarrow> bool \<Rightarrow> bool \<Rightarrow> 32 word \<Rightarrow> bool \<Rightarrow> ('h, bool) gprog" where
  "gdk_ApplyAnimation env' playerid animlib animname fDelta loop lockx locky freeze time' forcesync =
     native_bool env' ''ApplyAnimation'' [NVal playerid, NStr animlib, NStr animname, NVal fDelta, NVal (of_bool loop), NVal (of_bool lockx),
       NVal (of_bool locky), NVal (of_bool freeze), NVal time', NVal (of_bool forcesync)]"

definition gdk_ClearAnimations :: "'h amx_env \<Rightarrow> 32 word \<Rightarrow> bool \<Rightarrow> ('h, bool) gprog" where
  "gdk_ClearAnimations env' playerid forcesync = native_bool env' ''ClearAnimations'' [NVal playerid, NVal (of_bool forcesync)]"

definition gdk_GetPlayerAnimationIndex :: "'h amx_env \<Rightarrow> 32 word \<Rightarrow> ('h, 32 word) gprog" where
  "gdk_GetPlayerAnimationIndex env' playerid = native_int env' ''GetPlayerAnimationIndex'' [NVal playerid]"

definition gdk_GetAnimationName :: "'h amx_env \<Rightarrow> 32 word \<Rightarrow> 32 word \<Rightarrow> 32 word \<Rightarrow> ('h, bool \<times> nout list) gprog" where
  "gdk_GetAnimationName env' index' animlib_size animname_size =
     native_bool_outs env' ''GetAnimationName'' [NVal index', NBuf animlib_size, NVal animlib_size, NBuf animname_size, NVal animname_size]"

definition gdk_GetPlayerSpecialAction :: "'h amx_env \<Rightarrow> 32 word \<Rightarrow> ('h, 32 word) gprog" where
  "gdk_GetPlayerSpecialAction env' playerid = native_int env' ''GetPlayerSpecialAction'' [NVal playerid]"

definition gdk_SetPlayerSpecialAction :: "'h amx_env \<Rightarrow> 32 word \<Rightarrow> 32 word \<Rightarrow> ('h, bool) gprog" where
  "gdk_SetPlayerSpecialAction env' playerid actionid = native_bool env' ''SetPlayerSpecialAction'' [NVal playerid, NVal actionid]"

definition gdk_SetPlayerCheckpoint :: "'h amx_env \<Rightarrow> 32 word \<Rightarrow> 32 word \<Rightarrow> 32 word \<Rightarrow> 32 word \<Rightarrow> 32 word \<Rightarrow> ('h, bool) gprog" where
  "gdk_SetPlayerCheckpoint env' playerid x y z size' = native_bool env' ''SetPlayerCheckpoint'' [NVal playerid, NVal x, NVal y, NVal z, NVal size']"

definition gdk_DisablePlayerCheckpoint :: "'h amx_env \<Rightarrow> 32 word \<Rightarrow> ('h, bool) gprog" where
  "gdk_DisablePlayerCheckpoint env' playerid = native_bool env' ''DisablePlayerCheckpoint'' [NVal playerid]"

definition gdk_SetPlayerRaceCheckpoint :: "'h amx_env \<Rightarrow> 32 word \<Rightarrow> 32 word \<Rightarrow> 32 word \<Rightarrow> 32 word \<Rightarrow> 32 word \<Rightarrow> 32 word \<Rightarrow> 32 word \<Rightarrow> 32 word \<Rightarrow> 32 word \<Rightarrow> ('h, bool) gprog" where
  "gdk_SetPlayerRaceCheckpoint env' playerid type' x y z nextx nexty nextz size' =
     native_bool env' ''SetPlayerRaceCheckpoint'' [NVal playerid, NVal type', NVal x, NVal y, NVal z, NVal nextx, NVal nexty, NVal nextz,
       NVal size']"

definition gdk_DisablePlayerRaceCheckpoint :: "'h amx_env \<Rightarrow> 32 word \<Rightarrow> ('h, bool) gprog" where
  "gdk_DisablePlayerRaceCheckpoint env' playerid = native_bool env' ''DisablePlayerRaceCheckpoint'' [NVal playerid]"

definition gdk_SetPlayerWorldBounds :: "'h amx_env \<Rightarrow> 32 word \<Rightarrow> 32 word \<Rightarrow> 32 word \<Rightarrow> 32 word \<Rightarrow> 32 word \<Rightarrow> ('h, bool) gprog" where
  "gdk_SetPlayerWorldBounds env' playerid x_max x_min y_max y_min =
     native_bool env' ''SetPlayerWorldBounds'' [NVal playerid, NVal x_max, NVal x_min, NVal y_max, NVal y_min]"

definition gdk_SetPlayerMarkerForPlayer :: "'h amx_env \<Rightarrow> 32 word \<Rightarrow> 32 word \<Rightarrow> 32 word \<Rightarrow> ('h, bool) gprog" where
  "gdk_SetPlayerMarkerForPlayer env' playerid showplayerid color =
     native_bool env' ''SetPlayerMarkerForPlayer'' [NVal playerid, NVal showplayerid, NVal color]"

definition gdk_ShowPlayerNameTagForPlayer :: "'h amx_env \<Rightarrow> 32 word \<Rightarrow> 32 word \<Rightarrow> bool \<Rightarrow> ('h, bool) gprog" where
  "gdk_ShowPlayerNameTagForPlayer env' playerid showplayerid show =
     native_bool env' ''ShowPlayerNameTagForPlayer'' [NVal playerid, NVal showplayerid, NVal (of_bool show)]"

definition gdk_SetPlayerMapIcon :: "'h amx_env \<Rightarrow> 32 word \<Rightarrow> 32 word \<Rightarrow> 32 word \<Rightarrow> 32 word \<Rightarrow> 32 word \<Rightarrow> 32 word \<Rightarrow> 32 word \<Rightarrow> 32 word \<Rightarrow> ('h, bool) gprog" where
  "gdk_SetPlayerMapIcon env' playerid iconid x y z markertype color style' =
     native_bool env' ''SetPlayerMapIcon'' [NVal playerid, NVal iconid, NVal x, NVal y, NVal z, NVal markertype, NVal color, NVal style']"

definition gdk_RemovePlayerMapIcon :: "'h amx_env \<Rightarrow> 32 word \<Rightarrow> 32 word \<Rightarrow> ('h, bool) gprog" where
  "gdk_RemovePlayerMapIcon env' playerid iconid = native_bool env' ''RemovePlayerMapIcon'' [NVal playerid, NVal iconid]"

definition gdk_AllowPlayerTeleport :: "'h amx_env \<Rightarrow> 32 word \<Rightarrow> bool \<Rightarrow> ('h, bool) gprog" where
  "gdk_AllowPlayerTeleport env' playerid allow = native_bool env' ''AllowPlayerTeleport'' [NVal playerid, NVal (of_bool allow)]"

definition gdk_SetPlayerCameraPos :: "'h amx_env \<Rightarrow> 32 word \<Rightarrow> 32 word \<Rightarrow> 32 word \<Rightarrow> 32 word \<Rightarrow> ('h, bool) gprog" where
  "gdk_SetPlayerCameraPos env' playerid x y z = native_bool env' ''SetPlayerCameraPos'' [NVal playerid, NVal x, NVal y, NVal z]"

definition gdk_SetPlayerCameraLookAt :: "'h amx_env \<Rightarrow> 32 word \<Rightarrow> 32 word \<Rightarrow> 32 word \<Rightarrow> 32 word \<Rightarrow> 32 word \<Rightarrow> ('h, bool) gprog" where
  "gdk_SetPlayerCameraLookAt env' playerid x y z cut' = native_bool env' ''SetPlayerCameraLookAt'' [NVal playerid, NVal x, NVal y, NVal z, NVal cut']"

definition gdk_SetCameraBehindPlayer :: "'h amx_env \<Rightarrow> 32 word \<Rightarrow> ('h, bool) gprog" where
  "gdk_SetCameraBehindPlayer env' playerid = native_bool env' ''SetCameraBehindPlayer'' [NVal playerid]"

definition gdk_GetPlayerCameraPos :: "'h amx_env \<Rightarrow> 32 word \<Rightarrow> ('h, bool \<times> nout list) gprog" where
  "gdk_GetPlayerCameraPos env' playerid = native_bool_outs env' ''GetPlayerCameraPos'' [NVal playerid, NCell, NCell, NCell]"

definition gdk_GetPlayerCameraFrontVector :: "'h amx_env \<Rightarrow> 32 word \<Rightarrow> ('h, bool \<times> nout list) gprog" where
  "gdk_GetPlayerCameraFrontVector env' playerid = native_bool_outs env' ''GetPlayerCameraFrontVector'' [NVal playerid, NCell, NCell, NCell]"

definition gdk_GetPlayerCameraMode :: "'h amx_env \<Rightarrow> 32 word \<Rightarrow> ('h, 32 word) gprog" where
  "gdk_GetPlayerCameraMode env' playerid = native_int env' ''GetPlayerCameraMode'' [NVal playerid]"

definition gdk_AttachCameraToObject :: "'h amx_env \<Rightarrow> 32 word \<Rightarrow> 32 word \<Rightarrow> ('h, bool) gprog" where
  "gdk_AttachCameraToObject env' playerid objectid = native_bool env' ''AttachCameraToObject'' [NVal playerid, NVal objectid]"

definition gdk_AttachCameraToPlayerObject :: "'h amx_env \<Rightarrow> 32 word \<Rightarrow> 32 word \<Rightarrow> ('h, bool) gprog" where
  "gdk_AttachCameraToPlayerObject env' playerid playerobjectid = native_bool env' ''AttachCameraToPlayerObject'' [NVal playerid, NVal playerobjectid]"

definition gdk_InterpolateCameraPos :: "'h amx_env \<Rightarrow> 32 word \<Rightarrow> 32 word \<Rightarrow> 32 word \<Rightarrow> 32 word \<Rightarrow> 32 word \<Rightarrow> 32 word \<Rightarrow> 32 word \<Rightarrow> 32 word \<Rightarrow> 32 word \<Rightarrow> ('h, bool) gprog" where
  "gdk_InterpolateCameraPos env' playerid FromX FromY FromZ ToX ToY ToZ time' cut' =
     native_bool env' ''InterpolateCameraPos'' [NVal playerid, NVal FromX, NVal FromY, NVal FromZ, NVal ToX, NVal ToY, NVal ToZ, NVal time',
       NVal cut']"

definition gdk_InterpolateCameraLookAt :: "'h amx_env \<Rightarrow> 32 word \<Rightarrow> 32 word \<Rightarrow> 32 word \<Rightarrow> 32 word \<Rightarrow> 32 word \<Rightarrow> 32 word \<Rightarrow> 32 word \<Rightarrow> 32 word \<Rightarrow> 32 word \<Rightarrow> ('h, bool) gprog" where
  "gdk_InterpolateCameraLookAt env' playerid FromX FromY FromZ ToX ToY ToZ time' cut' =
     native_bool env' ''InterpolateCameraLookAt'' [NVal playerid, NVal FromX, NVal FromY, NVal FromZ, NVal ToX, NVal ToY, NVal ToZ, NVal time',
       NVal cut']"

definition gdk_IsPlayerConnected :: "'h amx_env \<Rightarrow> 32 word \<Rightarrow> ('h, bool) gprog" where
  "gdk_IsPlayerConnected env' playerid = native_bool env' ''IsPlayerConnected'' [NVal playerid]"

definition gdk_IsPlayerInVehicle :: "'h amx_env \<Rightarrow> 32 word \<Rightarrow> 32 word \<Rightarrow> ('h, bool) gprog" where
  "gdk_IsPlayerInVehicle env' playerid vehicleid = native_bool env' ''IsPlayerInVehicle'' [NVal playerid, NVal vehicleid]"

definition gdk_IsPlayerInAnyVehicle :: "'h amx_env \<Rightarrow> 32 word \<Rightarrow> ('h, bool) gprog" where
  "gdk_IsPlayerInAnyVehicle env' playerid = native_bool env' ''IsPlayerInAnyVehicle'' [NVal playerid]"

definition gdk_IsPlayerInCheckpoint :: "'h amx_env \<Rightarrow> 32 word \<Rightarrow> ('h, bool) gprog" where
  "gdk_IsPlayerInCheckpoint env' playerid = native_bool env' ''IsPlayerInCheckpoint'' [NVal playerid]"

definition gdk_IsPlayerInRaceCheckpoint :: "'h amx_env \<Rightarrow> 32 word \<Rightarrow> ('h, bool) gprog" where
  "gdk_IsPlayerInRaceCheckpoint env' playerid = native_bool env' ''IsPlayerInRaceCheckpoint'' [NVal playerid]"

definition gdk_SetPlayerVirtualWorld :: "'h amx_env \<Rightarrow> 32 word \<Rightarrow> 32 word \<Rightarrow> ('h, bool) gprog" where
  "gdk_SetPlayerVirtualWorld env' playerid worldid = native_bool env' ''SetPlayerVirtualWorld'' [NVal playerid, NVal worldid]"

definition gdk_GetPlayerVirtualWorld :: "'h amx_env \<Rightarrow> 32 word \<Rightarrow> ('h, 32 word) gprog" where
  "gdk_GetPlayerVirtualWorld env' playerid = native_int env' ''GetPlayerVirtualWorld'' [NVal playerid]"

definition gdk_EnableStuntBonusForPlayer :: "'h amx_env \<Rightarrow> 32 word \<Rightarrow> bool \<Rightarrow> ('h, bool) gprog" where
  "gdk_EnableStuntBonusForPlayer env' playerid enable = native_bool env' ''EnableStuntBonusForPlayer'' [NVal playerid, NVal (of_bool enable)]"

definition gdk_EnableStuntBonusForAll :: "'h amx_env \<Rightarrow> bool \<Rightarrow> ('h, bool) gprog" where
  "gdk_EnableStuntBonusForAll env' enable = native_bool env' ''EnableStuntBonusForAll'' [NVal (of_bool enable)]"

definition gdk_TogglePlayerSpectating :: "'h amx_env \<Rightarrow> 32 word \<Rightarrow> bool \<Rightarrow> ('h, bool) gprog" where
  "gdk_TogglePlayerSpectating env' playerid toggle = native_bool env' ''TogglePlayerSpectating'' [NVal playerid, NVal (of_bool toggle)]"

definition gdk_PlayerSpectatePlayer :: "'h amx_env \<Rightarrow> 32 word \<Rightarrow> 32 word \<Rightarrow> 32 word \<Rightarrow> ('h, bool) gprog" where
  "gdk_PlayerSpectatePlayer env' playerid targetplayerid mode =
     native_bool env' ''PlayerSpectatePlayer'' [NVal playerid, NVal targetplayerid, NVal mode]"

definition gdk_PlayerSpectateVehicle :: "'h amx_env \<Rightarrow> 32 word \<Rightarrow> 32 word \<Rightarrow> 32 word \<Rightarrow> ('h, bool) gprog" where
  "gdk_PlayerSpectateVehicle env' playerid targetvehicleid mode =
     native_bool env' ''PlayerSpectateVehicle'' [NVal playerid, NVal targetvehicleid, NVal mode]"

definition gdk_StartRecordingPlayerData :: "'h amx_env \<Rightarrow> 32 word \<Rightarrow> 32 word \<Rightarrow> string \<Rightarrow> ('h, bool) gprog" where
  "gdk_StartRecordingPlayerData env' playerid recordtype recordname =
     native_bool env' ''StartRecordingPlayerData'' [NVal playerid, NVal recordtype, NStr recordname]"

definition gdk_StopRecordingPlayerData :: "'h amx_env \<Rightarrow> 32 word \<Rightarrow> ('h, bool) gprog" where
  "gdk_StopRecordingPlayerData env' playerid = native_bool env' ''StopRecordingPlayerData'' [NVal playerid]"

section \<open>Vehicles\<close>

definition gdk_GetVehicleDistanceFromPoint :: "'h amx_env \<Rightarrow> 32 word \<Rightarrow> 32 word \<Rightarrow> 32 word \<Rightarrow> 32 word \<Rightarrow> ('h, 32 word) gprog" where
  "gdk_GetVehicleDistanceFromPoint env' vehicleid x y z = native_float env' ''GetVehicleDistanceFromPoint'' [NVal vehicleid, NVal x, NVal y, NVal z]"

definition gdk_CreateVehicle :: "'h amx_env \<Rightarrow> 32 word \<Rightarrow> 32 word \<Rightarrow> 32 word \<Rightarrow> 32 word \<Rightarrow> 32 word \<Rightarrow> 32 word \<Rightarrow> 32 word \<Rightarrow> 32 word \<Rightarrow> ('h, 32 word) gprog" where
  "gdk_CreateVehicle env' vehicletype x y z rotation color1 color2 respawn_delay =
     native_int env' ''CreateVehicle'' [NVal vehicletype, NVal x, NVal y, NVal z, NVal rotation, NVal color1, NVal color2, NVal respawn_delay]"

definition gdk_DestroyVehicle :: "'h amx_env \<Rightarrow> 32 word \<Rightarrow> ('h, bool) gprog" where
  "gdk_DestroyVehicle env' vehicleid = native_bool env' ''DestroyVehicle'' [NVal vehicleid]"

definition gdk_IsVehicleStreamedIn :: "'h amx_env \<Rightarrow> 32 word \<Rightarrow> 32 word \<Rightarrow> ('h, bool) gprog" where
  "gdk_IsVehicleStreamedIn env' vehicleid forplayerid = native_bool env' ''IsVehicleStreamedIn'' [NVal vehicleid, NVal forplayerid]"

definition gdk_GetVehiclePos :: "'h amx_env \<Rightarrow> 32 word \<Rightarrow> ('h, bool \<times> nout list) gprog" where
  "gdk_GetVehiclePos env' vehicleid = native_bool_outs env' ''GetVehiclePos'' [NVal vehicleid, NCell, NCell, NCell]"

definition gdk_SetVehiclePos :: "'h amx_env \<Rightarrow> 32 word \<Rightarrow> 32 word \<Rightarrow> 32 word \<Rightarrow> 32 word \<Rightarrow> ('h, bool) gprog" where
  "gdk_SetVehiclePos env' vehicleid x y z = native_bool env' ''SetVehiclePos'' [NVal vehicleid, NVal x, NVal y, NVal z]"

definition gdk_GetVehicleZAngle :: "'h amx_env \<Rightarrow> 32 word \<Rightarrow> ('h, bool \<times> nout list) gprog" where
  "gdk_GetVehicleZAngle env' vehicleid = native_bool_outs env' ''GetVehicleZAngle'' [NVal vehicleid, NCell]"

definition gdk_GetVehicleRotationQuat :: "'h amx_env \<Rightarrow> 32 word \<Rightarrow> ('h, bool \<times> nout list) gprog" where
  "gdk_GetVehicleRotationQuat env' vehicleid = native_bool_outs env' ''GetVehicleRotationQuat'' [NVal vehicleid, NCell, NCell, NCell, NCell]"

definition gdk_SetVehicleZAngle :: "'h amx_env \<Rightarrow> 32 word \<Rightarrow> 32 word \<Rightarrow> ('h, bool) gprog" where
  "gdk_SetVehicleZAngle env' vehicleid z_angle = native_bool env' ''SetVehicleZAngle'' [NVal vehicleid, NVal z_angle]"

definition gdk_SetVehicleParamsForPlayer :: "'h amx_env \<Rightarrow> 32 word \<Rightarrow> 32 word \<Rightarrow> bool \<Rightarrow> bool \<Rightarrow> ('h, bool) gprog" where
  "gdk_SetVehicleParamsForPlayer env' vehicleid playerid objective doorslocked =
     native_bool env' ''SetVehicleParamsForPlayer'' [NVal vehicleid, NVal playerid, NVal (of_bool objective), NVal (of_bool doorslocked)]"

definition gdk_ManualVehicleEngineAndLights :: "'h amx_env \<Rightarrow> ('h, bool) gprog" where
  "gdk_ManualVehicleEngineAndLights env' = native_bool env' ''ManualVehicleEngineAndLights'' []"

definition gdk_SetVehicleParamsEx :: "'h amx_env \<Rightarrow> 32 word \<Rightarrow> bool \<Rightarrow> bool \<Rightarrow> bool \<Rightarrow> bool \<Rightarrow> bool \<Rightarrow> bool \<Rightarrow> bool \<Rightarrow> ('h, bool) gprog" where
  "gdk_SetVehicleParamsEx env' vehicleid engine lights alarm doors bonnet boot objective =
     native_bool env' ''SetVehicleParamsEx'' [NVal vehicleid, NVal (of_bool engine), NVal (of_bool lights), NVal (of_bool alarm),
       NVal (of_bool doors), NVal (of_bool bonnet), NVal (of_bool boot), NVal (of_bool objective)]"

definition gdk_GetVehicleParamsEx :: "'h amx_env \<Rightarrow> 32 word \<Rightarrow> ('h, bool \<times> nout list) gprog" where
  "gdk_GetVehicleParamsEx env' vehicleid =
     native_bool_outs env' ''GetVehicleParamsEx'' [NVal vehicleid, NCell, NCell, NCell, NCell, NCell, NCell, NCell]"

definition gdk_SetVehicleToRespawn :: "'h amx_env \<Rightarrow> 32 word \<Rightarrow> ('h, bool) gprog" where
  "gdk_SetVehicleToRespawn env' vehicleid = native_bool env' ''SetVehicleToRespawn'' [NVal vehicleid]"

definition gdk_LinkVehicleToInterior :: "'h amx_env \<Rightarrow> 32 word \<Rightarrow> 32 word \<Rightarrow> ('h, bool) gprog" where
  "gdk_LinkVehicleToInterior env' vehicleid interiorid = native_bool env' ''LinkVehicleToInterior'' [NVal vehicleid, NVal interiorid]"

definition gdk_AddVehicleComponent :: "'h amx_env \<Rightarrow> 32 word \<Rightarrow> 32 word \<Rightarrow> ('h, bool) gprog" where
  "gdk_AddVehicleComponent env' vehicleid componentid = native_bool env' ''AddVehicleComponent'' [NVal vehicleid, NVal componentid]"

definition gdk_RemoveVehicleComponent :: "'h amx_env \<Rightarrow> 32 word \<Rightarrow> 32 word \<Rightarrow> ('h, bool) gprog" where
  "gdk_RemoveVehicleComponent env' vehicleid componentid = native_bool env' ''RemoveVehicleComponent'' [NVal vehicleid, NVal componentid]"

definition gdk_ChangeVehicleColor :: "'h amx_env \<Rightarrow> 32 word \<Rightarrow> 32 word \<Rightarrow> 32 word \<Rightarrow> ('h, bool) gprog" where
  "gdk_ChangeVehicleColor env' vehicleid color1 color2 = native_bool env' ''ChangeVehicleColor'' [NVal vehicleid, NVal color1, NVal color2]"

definition gdk_ChangeVehiclePaintjob :: "'h amx_env \<Rightarrow> 32 word \<Rightarrow> 32 word \<Rightarrow> ('h, bool) gprog" where
  "gdk_ChangeVehiclePaintjob env' vehicleid paintjobid = native_bool env' ''ChangeVehiclePaintjob'' [NVal vehicleid, NVal paintjobid]"

definition gdk_SetVehicleHealth :: "'h amx_env \<Rightarrow> 32 word \<Rightarrow> 32 word \<Rightarrow> ('h, bool) gprog" where
  "gdk_SetVehicleHealth env' vehicleid health = native_bool env' ''SetVehicleHealth'' [NVal vehicleid, NVal health]"

definition gdk_GetVehicleHealth :: "'h amx_env \<Rightarrow> 32 word \<Rightarrow> ('h, bool \<times> nout list) gprog" where
  "gdk_GetVehicleHealth env' vehicleid = native_bool_outs env' ''GetVehicleHealth'' [NVal vehicleid, NCell]"

definition gdk_AttachTrailerToVehicle :: "'h amx_env \<Rightarrow> 32 word \<Rightarrow> 32 word \<Rightarrow> ('h, bool) gprog" where
  "gdk_AttachTrailerToVehicle env' trailerid vehicleid = native_bool env' ''AttachTrailerToVehicle'' [NVal trailerid, NVal vehicleid]"

definition gdk_DetachTrailerFromVehicle :: "'h amx_env \<Rightarrow> 32 word \<Rightarrow> ('h, bool) gprog" where
  "gdk_DetachTrailerFromVehicle env' vehicleid = native_bool env' ''DetachTrailerFromVehicle'' [NVal vehicleid]"

definition gdk_IsTrailerAttachedToVehicle :: "'h amx_env \<Rightarrow> 32 word \<Rightarrow> ('h, bool) gprog" where
  "gdk_IsTrailerAttachedToVehicle env' vehicleid = native_bool env' ''IsTrailerAttachedToVehicle'' [NVal vehicleid]"

definition gdk_GetVehicleTrailer :: "'h amx_env \<Rightarrow> 32 word \<Rightarrow> ('h, 32 word) gprog" where
  "gdk_GetVehicleTrailer env' vehicleid = native_int env' ''GetVehicleTrailer'' [NVal vehicleid]"

definition gdk_SetVehicleNumberPlate :: "'h amx_env \<Rightarrow> 32 word \<Rightarrow> string \<Rightarrow> ('h, bool) gprog" where
  "gdk_SetVehicleNumberPlate env' vehicleid numberplate = native_bool env' ''SetVehicleNumberPlate'' [NVal vehicleid, NStr numberplate]"

definition gdk_GetVehicleModel :: "'h amx_env \<Rightarrow> 32 word \<Rightarrow> ('h, 32 word) gprog" where
  "gdk_GetVehicleModel env' vehicleid = native_int env' ''GetVehicleModel'' [NVal vehicleid]"

definition gdk_GetVehicleComponentInSlot :: "'h amx_env \<Rightarrow> 32 word \<Rightarrow> 32 word \<Rightarrow> ('h, 32 word) gprog" where
  "gdk_GetVehicleComponentInSlot env' vehicleid slot = native_int env' ''GetVehicleComponentInSlot'' [NVal vehicleid, NVal slot]"

definition gdk_GetVehicleComponentType :: "'h amx_env \<Rightarrow> 32 word \<Rightarrow> ('h, 32 word) gprog" where
  "gdk_GetVehicleComponentType env' component = native_int env' ''GetVehicleComponentType'' [NVal component]"

definition gdk_RepairVehicle :: "'h amx_env \<Rightarrow> 32 word \<Rightarrow> ('h, bool) gprog" where
  "gdk_RepairVehicle env' vehicleid = native_bool env' ''RepairVehicle'' [NVal vehicleid]"

definition gdk_GetVehicleVelocity :: "'h amx_env \<Rightarrow> 32 word \<Rightarrow> ('h, bool \<times> nout list) gprog" where
  "gdk_GetVehicleVelocity env' vehicleid = native_bool_outs env' ''GetVehicleVelocity'' [NVal vehicleid, NCell, NCell, NCell]"

definition gdk_SetVehicleVelocity :: "'h amx_env \<Rightarrow> 32 word \<Rightarrow> 32 word \<Rightarrow> 32 word \<Rightarrow> 32 word \<Rightarrow> ('h, bool) gprog" where
  "gdk_SetVehicleVelocity env' vehicleid X Y Z = native_bool env' ''SetVehicleVelocity'' [NVal vehicleid, NVal X, NVal Y, NVal Z]"

definition gdk_SetVehicleAngularVelocity :: "'h amx_env \<Rightarrow> 32 word \<Rightarrow> 32 word \<Rightarrow> 32 word \<Rightarrow> 32 word \<Rightarrow> ('h, bool) gprog" where
  "gdk_SetVehicleAngularVelocity env' vehicleid X Y Z = native_bool env' ''SetVehicleAngularVelocity'' [NVal vehicleid, NVal X, NVal Y, NVal Z]"

definition gdk_GetVehicleDamageStatus :: "'h amx_env \<Rightarrow> 32 word \<Rightarrow> ('h, bool \<times> nout list) gprog" where
  "gdk_GetVehicleDamageStatus env' vehicleid = native_bool_outs env' ''GetVehicleDamageStatus'' [NVal vehicleid, NCell, NCell, NCell, NCell]"

definition gdk_UpdateVehicleDamageStatus :: "'h amx_env \<Rightarrow> 32 word \<Rightarrow> 32 word \<Rightarrow> 32 word \<Rightarrow> 32 word \<Rightarrow> 32 word \<Rightarrow> ('h, bool) gprog" where
  "gdk_UpdateVehicleDamageStatus env' vehicleid panels doors lights tires =
     native_bool env' ''UpdateVehicleDamageStatus'' [NVal vehicleid, NVal panels, NVal doors, NVal lights, NVal tires]"

definition gdk_SetVehicleVirtualWorld :: "'h amx_env \<Rightarrow> 32 word \<Rightarrow> 32 word \<Rightarrow> ('h, bool) gprog" where
  "gdk_SetVehicleVirtualWorld env' vehicleid worldid = native_bool env' ''SetVehicleVirtualWorld'' [NVal vehicleid, NVal worldid]"

definition gdk_GetVehicleVirtualWorld :: "'h amx_env \<Rightarrow> 32 word \<Rightarrow> ('h, 32 word) gprog" where
  "gdk_GetVehicleVirtualWorld env' vehicleid = native_int env' ''GetVehicleVirtualWorld'' [NVal vehicleid]"

definition gdk_GetVehicleModelInfo :: "'h amx_env \<Rightarrow> 32 word \<Rightarrow> 32 word \<Rightarrow> ('h, bool \<times> nout list) gprog" where
  "gdk_GetVehicleModelInfo env' model infotype = native_bool_outs env' ''GetVehicleModelInfo'' [NVal model, NVal infotype, NCell, NCell, NCell]"

section \<open>Objects\<close>

definition gdk_CreateObject :: "'h amx_env \<Rightarrow> 32 word \<Rightarrow> 32 word \<Rightarrow> 32 word \<Rightarrow> 32 word \<Rightarrow> 32 word \<Rightarrow> 32 word \<Rightarrow> 32 word \<Rightarrow> 32 word \<Rightarrow> ('h, 32 word) gprog" where
  "gdk_CreateObject env' modelid x y z rX rY rZ DrawDistance =
     native_int env' ''CreateObject'' [NVal modelid, NVal x, NVal y, NVal z, NVal rX, NVal rY, NVal rZ, NVal DrawDistance]"

definition gdk_AttachObjectToVehicle :: "'h amx_env \<Rightarrow> 32 word \<Rightarrow> 32 word \<Rightarrow> 32 word \<Rightarrow> 32 word \<Rightarrow> 32 word \<Rightarrow> 32 word \<Rightarrow> 32 word \<Rightarrow> 32 word \<Rightarrow> ('h, bool) gprog" where
  "gdk_AttachObjectToVehicle env' objectid vehicleid fOffsetX fOffsetY fOffsetZ fRotX fRotY fRotZ =
     native_bool env' ''AttachObjectToVehicle'' [NVal objectid, NVal vehicleid, NVal fOffsetX, NVal fOffsetY, NVal fOffsetZ, NVal fRotX,
       NVal fRotY, NVal fRotZ]"

definition gdk_AttachObjectToObject :: "'h amx_env \<Rightarrow> 32 word \<Rightarrow> 32 word \<Rightarrow> 32 word \<Rightarrow> 32 word \<Rightarrow> 32 word \<Rightarrow> 32 word \<Rightarrow> 32 word \<Rightarrow> 32 word \<Rightarrow> bool \<Rightarrow> ('h, bool) gprog" where
  "gdk_AttachObjectToObject env' objectid attachtoid fOffsetX fOffsetY fOffsetZ fRotX fRotY fRotZ SyncRotation =
     native_bool env' ''AttachObjectToObject'' [NVal objectid, NVal attachtoid, NVal fOffsetX, NVal fOffsetY, NVal fOffsetZ, NVal fRotX,
       NVal fRotY, NVal fRotZ, NVal (of_bool SyncRotation)]"

definition gdk_AttachObjectToPlayer :: "'h amx_env \<Rightarrow> 32 word \<Rightarrow> 32 word \<Rightarrow> 32 word \<Rightarrow> 32 word \<Rightarrow> 32 word \<Rightarrow> 32 word \<Rightarrow> 32 word \<Rightarrow> 32 word \<Rightarrow> ('h, bool) gprog" where
  "gdk_AttachObjectToPlayer env' objectid playerid fOffsetX fOffsetY fOffsetZ fRotX fRotY fRotZ =
     native_bool env' ''AttachObjectToPlayer'' [NVal objectid, NVal playerid, NVal fOffsetX, NVal fOffsetY, NVal fOffsetZ, NVal fRotX,
       NVal fRotY, NVal fRotZ]"

definition gdk_SetObjectPos :: "'h amx_env \<Rightarrow> 32 word \<Rightarrow> 32 word \<Rightarrow> 32 word \<Rightarrow> 32 word \<Rightarrow> ('h, bool) gprog" where
  "gdk_SetObjectPos env' objectid x y z = native_bool env' ''SetObjectPos'' [NVal objectid, NVal x, NVal y, NVal z]"

definition gdk_GetObjectPos :: "'h amx_env \<Rightarrow> 32 word \<Rightarrow> ('h, bool \<times> nout list) gprog" where
  "gdk_GetObjectPos env' objectid = native_bool_outs env' ''GetObjectPos'' [NVal objectid, NCell, NCell, NCell]"

definition gdk_SetObjectRot :: "'h amx_env \<Rightarrow> 32 word \<Rightarrow> 32 word \<Rightarrow> 32 word \<Rightarrow> 32 word \<Rightarrow> ('h, bool) gprog" where
  "gdk_SetObjectRot env' objectid rotX rotY rotZ = native_bool env' ''SetObjectRot'' [NVal objectid, NVal rotX, NVal rotY, NVal rotZ]"

definition gdk_GetObjectRot :: "'h amx_env \<Rightarrow> 32 word \<Rightarrow> ('h, bool \<times> nout list) gprog" where
  "gdk_GetObjectRot env' objectid = native_bool_outs env' ''GetObjectRot'' [NVal objectid, NCell, NCell, NCell]"

definition gdk_IsValidObject :: "'h amx_env \<Rightarrow> 32 word \<Rightarrow> ('h, bool) gprog" where
  "gdk_IsValidObject env' objectid = native_bool env' ''IsValidObject'' [NVal objectid]"

definition gdk_DestroyObject :: "'h amx_env \<Rightarrow> 32 word \<Rightarrow> ('h, bool) gprog" where
  "gdk_DestroyObject env' objectid = native_bool env' ''DestroyObject'' [NVal objectid]"

definition gdk_MoveObject :: "'h amx_env \<Rightarrow> 32 word \<Rightarrow> 32 word \<Rightarrow> 32 word \<Rightarrow> 32 word \<Rightarrow> 32 word \<Rightarrow> 32 word \<Rightarrow> 32 word \<Rightarrow> 32 word \<Rightarrow> ('h, 32 word) gprog" where
  "gdk_MoveObject env' objectid X Y Z Speed RotX RotY RotZ =
     native_int env' ''MoveObject'' [NVal objectid, NVal X, NVal Y, NVal Z, NVal Speed, NVal RotX, NVal RotY, NVal RotZ]"

definition gdk_StopObject :: "'h amx_env \<Rightarrow> 32 word \<Rightarrow> ('h, bool) gprog" where
  "gdk_StopObject env' objectid = native_bool env' ''StopObject'' [NVal objectid]"

definition gdk_IsObjectMoving :: "'h amx_env \<Rightarrow> 32 word \<Rightarrow> ('h, bool) gprog" where
  "gdk_IsObjectMoving env' objectid = native_bool env' ''IsObjectMoving'' [NVal objectid]"

definition gdk_EditObject :: "'h amx_env \<Rightarrow> 32 word \<Rightarrow> 32 word \<Rightarrow> ('h, bool) gprog" where
  "gdk_EditObject env' playerid objectid = native_bool env' ''EditObject'' [NVal playerid, NVal objectid]"

definition gdk_EditPlayerObject :: "'h amx_env \<Rightarrow> 32 word \<Rightarrow> 32 word \<Rightarrow> ('h, bool) gprog" where
  "gdk_EditPlayerObject env' playerid objectid = native_bool env' ''EditPlayerObject'' [NVal playerid, NVal objectid]"

definition gdk_SelectObject :: "'h amx_env \<Rightarrow> 32 word \<Rightarrow> ('h, bool) gprog" where
  "gdk_SelectObject env' playerid = native_bool env' ''SelectObject'' [NVal playerid]"

definition gdk_CancelEdit :: "'h amx_env \<Rightarrow> 32 word \<Rightarrow> ('h, bool) gprog" where
  "gdk_CancelEdit env' playerid = native_bool env' ''CancelEdit'' [NVal playerid]"

definition gdk_CreatePlayerObject :: "'h amx_env \<Rightarrow> 32 word \<Rightarrow> 32 word \<Rightarrow> 32 word \<Rightarrow> 32 word \<Rightarrow> 32 word \<Rightarrow> 32 word \<Rightarrow> 32 word \<Rightarrow> 32 word \<Rightarrow> 32 word \<Rightarrow> ('h, 32 word) gprog" where
  "gdk_CreatePlayerObject env' playerid modelid x y z rX rY rZ DrawDistance =
     native_int env' ''CreatePlayerObject'' [NVal playerid, NVal modelid, NVal x, NVal y, NVal z, NVal rX, NVal rY, NVal rZ, NVal DrawDistance]"

definition gdk_AttachPlayerObjectToPlayer :: "'h amx_env \<Rightarrow> 32 word \<Rightarrow> 32 word \<Rightarrow> 32 word \<Rightarrow> 32 word \<Rightarrow> 32 word \<Rightarrow> 32 word \<Rightarrow> 32 word \<Rightarrow> 32 word \<Rightarrow> 32 word \<Rightarrow> ('h, bool) gprog" where
  "gdk_AttachPlayerObjectToPlayer env' objectplayer objectid attachplayer OffsetX OffsetY OffsetZ rX rY rZ =
     native_bool env' ''AttachPlayerObjectToPlayer'' [NVal objectplayer, NVal objectid, NVal attachplayer, NVal OffsetX, NVal OffsetY,
       NVal OffsetZ, NVal rX, NVal rY, NVal rZ]"

definition gdk_AttachPlayerObjectToVehicle :: "'h amx_env \<Rightarrow> 32 word \<Rightarrow> 32 word \<Rightarrow> 32 word \<Rightarrow> 32 word \<Rightarrow> 32 word \<Rightarrow> 32 word \<Rightarrow> 32 word \<Rightarrow> 32 word \<Rightarrow> 32 word \<Rightarrow> ('h, bool) gprog" where
  "gdk_AttachPlayerObjectToVehicle env' playerid objectid vehicleid fOffsetX fOffsetY fOffsetZ fRotX fRotY RotZ =
     native_bool env' ''AttachPlayerObjectToVehicle'' [NVal playerid, NVal objectid, NVal vehicleid, NVal fOffsetX, NVal fOffsetY,
       NVal fOffsetZ, NVal fRotX, NVal fRotY, NVal RotZ]"

definition gdk_SetPlayerObjectPos :: "'h amx_env \<Rightarrow> 32 word \<Rightarrow> 32 word \<Rightarrow> 32 word \<Rightarrow> 32 word \<Rightarrow> 32 word \<Rightarrow> ('h, bool) gprog" where
  "gdk_SetPlayerObjectPos env' playerid objectid x y z =
     native_bool env' ''SetPlayerObjectPos'' [NVal playerid, NVal objectid, NVal x, NVal y, NVal z]"

definition gdk_GetPlayerObjectPos :: "'h amx_env \<Rightarrow> 32 word \<Rightarrow> 32 word \<Rightarrow> ('h, bool \<times> nout list) gprog" where
  "gdk_GetPlayerObjectPos env' playerid objectid = native_bool_outs env' ''GetPlayerObjectPos'' [NVal playerid, NVal objectid, NCell, NCell, NCell]"

definition gdk_SetPlayerObjectRot :: "'h amx_env \<Rightarrow> 32 word \<Rightarrow> 32 word \<Rightarrow> 32 word \<Rightarrow> 32 word \<Rightarrow> 32 word \<Rightarrow> ('h, bool) gprog" where
  "gdk_SetPlayerObjectRot env' playerid objectid rotX rotY rotZ =
     native_bool env' ''SetPlayerObjectRot'' [NVal playerid, NVal objectid, NVal rotX, NVal rotY, NVal rotZ]"

definition gdk_GetPlayerObjectRot :: "'h amx_env \<Rightarrow> 32 word \<Rightarrow> 32 word \<Rightarrow> ('h, bool \<times> nout list) gprog" where
  "gdk_GetPlayerObjectRot env' playerid objectid = native_bool_outs env' ''GetPlayerObjectRot'' [NVal playerid, NVal objectid, NCell, NCell, NCell]"

definition gdk_IsValidPlayerObject :: "'h amx_env \<Rightarrow> 32 word \<Rightarrow> 32 word \<Rightarrow> ('h, bool) gprog" where
  "gdk_IsValidPlayerObject env' playerid objectid = native_bool env' ''IsValidPlayerObject'' [NVal playerid, NVal objectid]"

definition gdk_DestroyPlayerObject :: "'h amx_env \<Rightarrow> 32 word \<Rightarrow> 32 word \<Rightarrow> ('h, bool) gprog" where
  "gdk_DestroyPlayerObject env' playerid objectid = native_bool env' ''DestroyPlayerObject'' [NVal playerid, NVal objectid]"

definition gdk_MovePlayerObject :: "'h amx_env \<Rightarrow> 32 word \<Rightarrow> 32 word \<Rightarrow> 32 word \<Rightarrow> 32 word \<Rightarrow> 32 word \<Rightarrow> 32 word \<Rightarrow> 32 word \<Rightarrow> 32 word \<Rightarrow> 32 word \<Rightarrow> ('h, 32 word) gprog" where
  "gdk_MovePlayerObject env' playerid objectid x y z Speed RotX RotY RotZ =
     native_int env' ''MovePlayerObject'' [NVal playerid, NVal objectid, NVal x, NVal y, NVal z, NVal Speed, NVal RotX, NVal RotY, NVal RotZ]"

definition gdk_StopPlayerObject :: "'h amx_env \<Rightarrow> 32 word \<Rightarrow> 32 word \<Rightarrow> ('h, bool) gprog" where
  "gdk_StopPlayerObject env' playerid objectid = native_bool env' ''StopPlayerObject'' [NVal playerid, NVal objectid]"

definition gdk_IsPlayerObjectMoving :: "'h amx_env \<Rightarrow> 32 word \<Rightarrow> 32 word \<Rightarrow> ('h, bool) gprog" where
  "gdk_IsPlayerObjectMoving env' playerid objectid = native_bool env' ''IsPlayerObjectMoving'' [NVal playerid, NVal objectid]"

definition gdk_SetObjectMaterial :: "'h amx_env \<Rightarrow> 32 word \<Rightarrow> 32 word \<Rightarrow> 32 word \<Rightarrow> string \<Rightarrow> string \<Rightarrow> 32 word \<Rightarrow> ('h, bool) gprog" where
  "gdk_SetObjectMaterial env' objectid materialindex modelid txdname texturename materialcolor =
     native_bool env' ''SetObjectMaterial'' [NVal objectid, NVal materialindex, NVal modelid, NStr txdname, NStr texturename,
       NVal materialcolor]"

definition gdk_SetPlayerObjectMaterial :: "'h amx_env \<Rightarrow> 32 word \<Rightarrow> 32 word \<Rightarrow> 32 word \<Rightarrow> 32 word \<Rightarrow> string \<Rightarrow> string \<Rightarrow> 32 word \<Rightarrow> ('h, bool) gprog" where
  "gdk_SetPlayerObjectMaterial env' playerid objectid materialindex modelid txdname texturename materialcolor =
     native_bool env' ''SetPlayerObjectMaterial'' [NVal playerid, NVal objectid, NVal materialindex, NVal modelid, NStr txdname,
       NStr texturename, NVal materialcolor]"

definition gdk_SetObjectMaterialText :: "'h amx_env \<Rightarrow> 32 word \<Rightarrow> string \<Rightarrow> 32 word \<Rightarrow> 32 word \<Rightarrow> string \<Rightarrow> 32 word \<Rightarrow> bool \<Rightarrow> 32 word \<Rightarrow> 32 word \<Rightarrow> 32 word \<Rightarrow> ('h, bool) gprog" where
  "gdk_SetObjectMaterialText env' objectid text' materialindex materialsize fontface fontsize bold fontcolor backcolor textalignment =
     native_bool env' ''SetObjectMaterialText'' [NVal objectid, NStr text', NVal materialindex, NVal materialsize, NStr fontface, NVal fontsize,
       NVal (of_bool bold), NVal fontcolor, NVal backcolor, NVal textalignment]"

definition gdk_SetPlayerObjectMaterialText :: "'h amx_env \<Rightarrow> 32 word \<Rightarrow> 32 word \<Rightarrow> string \<Rightarrow> 32 word \<Rightarrow> 32 word \<Rightarrow> string \<Rightarrow> 32 word \<Rightarrow> bool \<Rightarrow> 32 word \<Rightarrow> 32 word \<Rightarrow> 32 word \<Rightarrow> ('h, bool) gprog" where
  "gdk_SetPlayerObjectMaterialText env' playerid objectid text' materialindex materialsize fontface fontsize bold fontcolor backcolor textalignment =
     native_bool env' ''SetPlayerObjectMaterialText'' [NVal playerid, NVal objectid, NStr text', NVal materialindex, NVal materialsize,
       NStr fontface, NVal fontsize, NVal (of_bool bold), NVal fontcolor, NVal backcolor, NVal textalignment]"

end
