(* ===== verification/Gdk_Correct.thy ===== *)
theory Gdk_Correct
  imports GdkNatives Wire_Correct
begin

text \<open>
  The plugins' virtual machine: a native is given what its wrapper was called with and gives back what it stored, and the heap is as it was;
  what goes wrong when the heap grows. Hooks that can be taken back, and timers.
\<close>

section \<open>Hooks\<close>

lemma unat_minus_one: "unat (w :: 32 word) \<noteq> 0 \<Longrightarrow> unat (w - 1) = unat w - 1"
  by (metis unat_eq_zero unat_minus_one)

lemma after_src: "(x :: 32 word) - (src + 1) = (x - src) - 1"
  by (simp add: algebra_simps)

lemma jump_outside:
  assumes "\<not> unat (x - src) < 5" and "length s = 4"
  shows "write_bytes (src + 1) s (write_bytes src [c] m) x = m x"
proof -
  have "unat (x - src - 1) = unat (x - src) - 1" using assms(1) by (intro unat_minus_one) simp
  with assms(1) have "\<not> unat (x - src - 1) < 4" "\<not> unat (x - src) < 1" by linarith+
  with assms(2) show ?thesis unfolding write_bytes_def after_src by simp
qed

lemma code_restored: "write_bytes src (memory_at m src 5) (write_bytes (src + 1) (le32 x) (write_bytes src [c] m)) = m"
proof
  fix y
  show "write_bytes src (memory_at m src 5) (write_bytes (src + 1) (le32 x) (write_bytes src [c] m)) y = m y"
  proof (cases "unat (y - src) < 5")
    case True
    then have "memory_at m src 5 ! unat (y - src) = m (src + of_nat (unat (y - src)))" by (simp add: memory_at_def del: upt_Suc)
    with True show ?thesis by (simp add: write_bytes_def memory_at_def)
  next
    case False
    then show ?thesis using jump_outside [OF False length_enc(1), of x c m] by (simp add: write_bytes_def memory_at_def)
  qed
qed

lemma memory_at_written: "length s < 2 ^ 32 \<Longrightarrow> memory_at (write_bytes a s m) a (length s) = s"
  by (rule nth_equalityI) (simp_all add: memory_at_def write_bytes_def unat_of_nat take_bit_nat_eq_self)

lemma jump_target:
  assumes "m' = write_bytes (src + 1) (le32 (dst - (src + 5))) (write_bytes src [CHR 0xE9] m)"
  shows "GetTargetAddress m' src = dst"
proof -
  have "src - (src + 1) = 4294967295" by simp
  then have "\<not> unat (src - (src + 1)) < 4" by (simp only:) simp
  then have "m' src = CHR 0xE9" by (simp add: assms write_bytes_def)
  moreover have "memory_at m' (src + 1) 4 = le32 (dst - (src + 5))"
    using memory_at_written [of "le32 (dst - (src + 5))" "src + 1"] by (simp add: assms)
  ultimately show ?thesis by (simp add: GetTargetAddress_def unle_words kJmpInstrSize_def)
qed

text \<open>A hook that is installed sends calls of the function to its replacement and touches nothing but the first five bytes;
  when it is removed, for good or while the function itself is called, the function is as it was.\<close>

theorem hook_roundtrip:
  assumes "\<not> h_installed h"
  shows "\<exists>h' m'. Hook_Install (h, m) = (True, h', m') \<and> GetTargetAddress m' (h_src h) = h_dst h
    \<and> (\<forall>x. \<not> unat (x - h_src h) < kJmpInstrSize \<longrightarrow> m' x = m x)
    \<and> (\<exists>h''. Hook_Remove (h', m') = (True, h'', m) \<and> \<not> h_installed h'')
    \<and> (\<forall>f :: hook \<times> code \<Rightarrow> bool \<times> hook \<times> code. (\<forall>s. snd (f s) = s) \<longrightarrow> snd (ScopedRemove f (h', m')) = (h', m'))"
proof -
  let ?m = "write_bytes (h_src h + 1) (le32 (h_dst h - (h_src h + 5))) (write_bytes (h_src h) [CHR 0xE9] m)"
  let ?h = "h\<lparr>h_code := memory_at m (h_src h) 5, h_installed := True\<rparr>"
  have install: "Hook_Install (h, m) = (True, ?h, ?m)" using assms by (simp add: Hook_Install_def kJmpInstrSize_def Let_def)
  let ?r = "h\<lparr>h_code := memory_at m (h_src h) 5, h_installed := False\<rparr>"
  have remove: "Hook_Remove (?h, ?m) = (True, ?r, m)" by (simp add: Hook_Remove_def code_restored)
  have again: "Hook_Install (?r, m) = (True, ?h, ?m)" by (simp add: Hook_Install_def kJmpInstrSize_def Let_def)
  have "snd (ScopedRemove f (?h, ?m)) = (?h, ?m)" if "\<forall>s. snd (f s) = s" for f :: "hook \<times> code \<Rightarrow> bool \<times> hook \<times> code"
  proof -
    have "snd (f (?r, m)) = (?r, m)" using that by blast
    then obtain x where x: "f (?r, m) = (x, ?r, m)" by (cases "f (?r, m)") simp
    have "ScopedRemove f (?h, ?m) = (x, ?h, ?m)"
      unfolding ScopedRemove_def remove prod.case x by (simp only: prod.case again if_True snd_conv)
    then show ?thesis by simp
  qed
  moreover have "\<forall>x. \<not> unat (x - h_src h) < kJmpInstrSize \<longrightarrow> ?m x = m x" by (simp add: kJmpInstrSize_def jump_outside)
  ultimately show ?thesis using install remove jump_target [OF refl, of "h_src h" "h_dst h" m] by auto
qed

section \<open>Calls of natives\<close>

text \<open>What is relied on of \<^verbatim>\<open>amx_SetString\<close> and \<^verbatim>\<open>amx_GetString\<close>: a string fills the cells it is given, and comes back from them.\<close>

definition amx_strings :: "'h amx_env \<Rightarrow> bool" where
  "amx_strings e \<longleftrightarrow> (\<forall>s. length (amxSetString e s (length s + 1)) = length s + 1)
   \<and> (\<forall>s n rest. CHR 0x00 \<notin> set s \<longrightarrow> length s < n \<longrightarrow> amxGetString e (amxSetString e s (length s + 1) @ rest) n = s)"

definition cells_of :: "narg \<Rightarrow> nat" where
  "cells_of a = (case a of NVal _ \<Rightarrow> 0 | NStr s \<Rightarrow> length s + 1 | NCell \<Rightarrow> 1 | NBuf n \<Rightarrow> unat n)"

definition need :: "narg list \<Rightarrow> nat" where
  "need as = sum_list (map cells_of as)"

lemma need_simps [simp]: "need [] = 0" "need (a # as) = cells_of a + need as"
  by (simp_all add: need_def)

definition addr :: "nat \<Rightarrow> 32 word" where
  "addr h = of_nat (4 * h)"

text \<open>The parameters, and the memory, when the first \<open>h\<close> cells are in use.\<close>

fun layout :: "nat \<Rightarrow> narg list \<Rightarrow> amxcell list" where
  "layout h [] = []"
| "layout h (a # as) = (case a of NVal v \<Rightarrow> v | _ \<Rightarrow> addr h) # layout (h + cells_of a) as"

definition put_string :: "'h amx_env \<Rightarrow> nat \<Rightarrow> narg \<Rightarrow> amxcell list \<Rightarrow> amxcell list" where
  "put_string e h a m = (case a of NStr s \<Rightarrow> take h m @ amxSetString e s (length s + 1) @ drop (h + (length s + 1)) m | _ \<Rightarrow> m)"

fun filled_memory :: "'h amx_env \<Rightarrow> nat \<Rightarrow> narg list \<Rightarrow> amxcell list \<Rightarrow> amxcell list" where
  "filled_memory e h [] m = m"
| "filled_memory e h (a # as) m = filled_memory e (h + cells_of a) as (put_string e h a m)"

text \<open>What the wrapper returns through pointers.\<close>

fun outs_of :: "'h amx_env \<Rightarrow> nat \<Rightarrow> narg list \<Rightarrow> amxcell list \<Rightarrow> nout list" where
  "outs_of e h [] m = []"
| "outs_of e h (a # as) m = (case a of NCell \<Rightarrow> [OutCell (m ! h)] | NBuf n \<Rightarrow> [OutStr (amxGetString e (drop h m) (unat n))] | _ \<Rightarrow> [])
     @ outs_of e (h + cells_of a) as m"

definition heap_at :: "nat \<Rightarrow> 'h gdk \<Rightarrow> bool" where
  "heap_at h g \<longleftrightarrow> \<not> fa_stale g \<and> fa_hea g = addr h \<and> h \<le> length (fa_heap g) \<and> length (fa_heap g) < 2 ^ 29"

lemma length_layout [simp]: "length (layout h as) = length as"
  by (induction as arbitrary: h) simp_all

lemma length_put [simp]: "amx_strings e \<Longrightarrow> h + cells_of a \<le> length m \<Longrightarrow> length (put_string e h a m) = length m"
  by (cases a) (simp_all add: put_string_def amx_strings_def cells_of_def)

lemma length_filled [simp]: "amx_strings e \<Longrightarrow> h + need as \<le> length m \<Longrightarrow> length (filled_memory e h as m) = length m"
  by (induction as arbitrary: h m) (simp_all add: add.assoc)

lemma unat_of_nat_small: "n < 2 ^ 32 \<Longrightarrow> unat (of_nat n :: 32 word) = n"
  by (simp only: unat_of_nat) (simp add: take_bit_nat_eq_self)

lemma unat_addr: "h < 2 ^ 29 \<Longrightarrow> unat (addr h) = 4 * h"
  unfolding addr_def by (rule unat_of_nat_small) simp

lemma addr_add: "addr h + n * 4 = addr (h + unat n)"
  by (simp add: addr_def algebra_simps)

lemma Push_eval:
  assumes "heap_at h g" and "h + unat n \<le> length (fa_heap g)"
  shows "FakeAmx_Push n g = (Inr (addr h), g\<lparr>fa_hea := addr (h + unat n)\<rparr>)"
proof -
  have "unat (addr (h + unat n)) div 4 = h + unat n"
    using assms by (subst unat_addr) (simp_all add: heap_at_def)
  then show ?thesis using assms by (simp add: FakeAmx_Push_def Let_def heap_at_def addr_add)
qed

lemma push_arg_eval:
  assumes "amx_strings e" and "heap_at h g" and "h + cells_of a \<le> length (fa_heap g)"
  shows "push_arg e a g = (Inr (case a of NVal v \<Rightarrow> v | _ \<Rightarrow> addr h),
    g\<lparr>fa_hea := addr (h + cells_of a), fa_heap := put_string e h a (fa_heap g)\<rparr>)"
proof (cases a)
  case (NStr s)
  have n: "unat (of_nat (length s + 1) :: 32 word) = length s + 1"
    using assms(2,3) by (intro unat_of_nat_small) (simp add: heap_at_def NStr cells_of_def)
  have push: "FakeAmx_Push (of_nat (length s + 1)) g = (Inr (addr h), g\<lparr>fa_hea := addr (h + (length s + 1))\<rparr>)"
    using Push_eval [OF assms(2), of "of_nat (length s + 1)"] assms(3) unfolding n by (simp add: NStr cells_of_def)
  have "unat (addr h) div 4 = h" using assms(2) by (subst unat_addr) (simp_all add: heap_at_def)
  with push show ?thesis
    using assms by (simp add: push_arg_def NStr FakeAmx_PushStr_def Let_def seq_def heap_write_def andthen_def ret_def cells_of_def
      put_string_def amx_strings_def del: of_nat_Suc of_nat_add)
next
  case NCell
  then show ?thesis using assms Push_eval [OF assms(2), of 1] by (simp add: push_arg_def cells_of_def put_string_def)
next
  case (NBuf n)
  then show ?thesis using assms Push_eval [OF assms(2), of n] by (simp add: push_arg_def cells_of_def put_string_def)
next
  case (NVal v)
  then show ?thesis using assms by (simp add: push_arg_def cells_of_def put_string_def ret_def heap_at_def)
qed

lemma push_args_eval:
  "amx_strings e \<Longrightarrow> heap_at h g \<Longrightarrow> h + need as \<le> length (fa_heap g) \<Longrightarrow>
   push_args e as g = (Inr (layout h as), g\<lparr>fa_hea := addr (h + need as), fa_heap := filled_memory e h as (fa_heap g)\<rparr>)"
proof (induction as arbitrary: h g)
  case Nil
  then show ?case by (simp add: ret_def heap_at_def)
next
  case (Cons a as)
  let ?g = "g\<lparr>fa_hea := addr (h + cells_of a), fa_heap := put_string e h a (fa_heap g)\<rparr>"
  have fits: "h + cells_of a \<le> length (fa_heap g)" using Cons.prems(3) by simp
  have "heap_at (h + cells_of a) ?g" "h + cells_of a + need as \<le> length (fa_heap ?g)"
    using Cons.prems fits by (simp_all add: heap_at_def)
  from Cons.IH [OF Cons.prems(1) this] push_arg_eval [OF Cons.prems(1,2) fits] show ?case
    by (simp add: seq_def ret_def add.assoc split: narg.split)
qed

lemma read_outs_eval:
  "h + need as \<le> length (fa_heap g) \<Longrightarrow> length (fa_heap g) < 2 ^ 29 \<Longrightarrow>
   read_outs e (zip as (layout h as)) g = (Inr (outs_of e h as (fa_heap g)), g)"
proof (induction as arbitrary: h)
  case (Cons a as)
  have a: "unat (addr h) div 4 = h" using Cons.prems by (subst unat_addr) simp_all
  have "h + cells_of a + need as \<le> length (fa_heap g)" using Cons.prems by simp
  from Cons.IH [OF this Cons.prems(2)] show ?case
    using a Cons.prems by (cases a) (simp_all add: seq_def ret_def gets_def FakeAmx_Get_def FakeAmx_GetStr_def Let_def cells_of_def)
qed (simp add: ret_def)

lemma addr_less: "h < 2 ^ 29 \<Longrightarrow> k < 2 ^ 29 \<Longrightarrow> sint (addr h) < sint (addr k) \<longleftrightarrow> h < k"
proof -
  assume "h < 2 ^ 29" "k < 2 ^ 29"
  then have "sint (addr h) = int (4 * h)" "sint (addr k) = int (4 * k)"
    using int32_small [of "int (4 * h)"] int32_small [of "int (4 * k)"] by (simp_all add: int32_def addr_def)
  then show ?thesis by simp
qed

lemma pop_args_eval:
  "h + need as < 2 ^ 29 \<Longrightarrow> fa_hea g = addr (h + need as) \<Longrightarrow> pop_args (zip as (layout h as)) g = (Inr (), g\<lparr>fa_hea := addr h\<rparr>)"
proof (induction as arbitrary: h g)
  case (Cons a as)
  have "h + cells_of a + need as < 2 ^ 29" "fa_hea g = addr (h + cells_of a + need as)" using Cons.prems by (simp_all add: add.assoc)
  note rest = Cons.IH [OF this]
  have less: "sint (addr h) < sint (addr (h + cells_of a)) \<longleftrightarrow> 0 < cells_of a" using Cons.prems(1) by (subst addr_less) simp_all
  show ?case
  proof (cases "cells_of a = 0")
    case True
    with rest less show ?thesis by (cases a) (simp_all add: andthen_def seq_def FakeAmx_Pop_def modify_def ret_def)
  next
    case False
    with rest less show ?thesis by (cases a) (simp_all add: andthen_def seq_def FakeAmx_Pop_def modify_def ret_def cells_of_def)
  qed
qed (simp add: ret_def)

subsection \<open>What the native sees\<close>

text \<open>An argument as the native finds it: a value; an address of a string, of a cell, of a buffer.\<close>

definition arg_shown :: "'h amx_env \<Rightarrow> amxcell list \<Rightarrow> narg \<Rightarrow> amxcell \<Rightarrow> bool" where
  "arg_shown e mem a p = (case a of NVal v \<Rightarrow> p = v
     | NStr s \<Rightarrow> \<forall>n > length s. amxGetString e (drop (unat p div 4) mem) n = s
     | _ \<Rightarrow> unat p div 4 + cells_of a \<le> length mem)"

text \<open>No two arguments share cells, nor with what was on the heap.\<close>

fun apart :: "nat \<Rightarrow> (narg \<times> amxcell) list \<Rightarrow> bool" where
  "apart h [] = True"
| "apart h ((NVal v, p) # xs) = apart h xs"
| "apart h ((a, p) # xs) = (h \<le> unat p div 4 \<and> apart (unat p div 4 + cells_of a) xs)"

definition outs_read :: "'h amx_env \<Rightarrow> amxcell list \<Rightarrow> (narg \<times> amxcell) list \<Rightarrow> nout list" where
  "outs_read e m xs = concat (map (\<lambda>(a, p). case a of NCell \<Rightarrow> [OutCell (m ! (unat p div 4))]
     | NBuf n \<Rightarrow> [OutStr (amxGetString e (drop (unat p div 4) m) (unat n))] | _ \<Rightarrow> []) xs)"

lemma take_filled: "amx_strings e \<Longrightarrow> k + need as \<le> length m \<Longrightarrow> j \<le> k \<Longrightarrow> take j (filled_memory e k as m) = take j m"
proof (induction as arbitrary: k m)
  case (Cons a as)
  have k: "k + cells_of a + need as \<le> length (put_string e k a m)" "j \<le> k + cells_of a" using Cons.prems by (simp_all add: add.assoc)
  have "take j (put_string e k a m) = take j m" using Cons.prems(2,3) by (cases a) (simp_all add: put_string_def)
  with Cons.IH [OF Cons.prems(1) k] show ?case by simp
qed simp

lemma string_shown:
  assumes "amx_strings e" and "h + (length s + 1) + need as \<le> length m" and "CHR 0x00 \<notin> set s" and "length s < n"
  shows "amxGetString e (drop h (filled_memory e h (NStr s # as) m)) n = s"
proof -
  let ?m = "put_string e h (NStr s) m" and ?M = "filled_memory e h (NStr s # as) m"
  have len: "length (amxSetString e s (length s + 1)) = length s + 1" using assms(1) by (simp add: amx_strings_def)
  have m: "take (h + (length s + 1)) ?m = take h m @ amxSetString e s (length s + 1)"
    using assms(2) len by (simp add: put_string_def)
  have "h + cells_of (NStr s) + need as \<le> length ?m" using assms(1,2) by (subst length_put) (simp_all add: cells_of_def)
  from take_filled [OF assms(1) this, of "h + (length s + 1)"] have "take (h + (length s + 1)) ?M = take (h + (length s + 1)) ?m"
    by (simp add: cells_of_def)
  then have "?M = (take h m @ amxSetString e s (length s + 1)) @ drop (h + (length s + 1)) ?M"
    unfolding m by (metis append_take_drop_id)
  then have "drop h ?M = drop h ((take h m @ amxSetString e s (length s + 1)) @ drop (h + (length s + 1)) ?M)" by (rule arg_cong)
  also have "\<dots> = amxSetString e s (length s + 1) @ drop (h + (length s + 1)) ?M" using assms(2) by simp
  finally have "amxGetString e (drop h ?M) n = amxGetString e (amxSetString e s (length s + 1) @ drop (h + (length s + 1)) ?M) n" by (rule arg_cong)
  then show ?thesis using assms(1,3,4) by (simp only: amx_strings_def) blast
qed

lemma layout_shown:
  "amx_strings e \<Longrightarrow> h + need as \<le> length m \<Longrightarrow> length m < 2 ^ 29 \<Longrightarrow> \<forall>s. NStr s \<in> set as \<longrightarrow> CHR 0x00 \<notin> set s \<Longrightarrow>
   list_all2 (arg_shown e (filled_memory e h as m)) as (layout h as)"
proof (induction as arbitrary: h m)
  case (Cons a as)
  have a: "unat (addr h) div 4 = h" using Cons.prems by (subst unat_addr) simp_all
  have fits: "h + cells_of a + need as \<le> length (put_string e h a m)" "length (put_string e h a m) = length m"
    using Cons.prems by (simp_all add: add.assoc)
  have "arg_shown e (filled_memory e h (a # as) m) a (case a of NVal v \<Rightarrow> v | _ \<Rightarrow> addr h)"
  proof (cases a)
    case (NStr s)
    have "h + (length s + 1) + need as \<le> length m" "CHR 0x00 \<notin> set s" using Cons.prems(2,4) by (simp_all add: NStr cells_of_def)
    with string_shown [OF Cons.prems(1)] a show ?thesis by (simp add: arg_shown_def NStr del: filled_memory.simps)
  qed (use Cons.prems a fits in \<open>simp_all add: arg_shown_def cells_of_def\<close>)
  moreover have "list_all2 (arg_shown e (filled_memory e (h + cells_of a) as (put_string e h a m))) as (layout (h + cells_of a) as)"
    using Cons.IH [OF Cons.prems(1) fits(1)] Cons.prems(3,4) fits(2) by simp
  ultimately show ?case by simp
qed simp

lemma layout_apart: "h + need as < 2 ^ 29 \<Longrightarrow> k \<le> h \<Longrightarrow> apart k (zip as (layout h as))"
proof (induction as arbitrary: h k)
  case (Cons a as)
  have a: "unat (addr h) div 4 = h" using Cons.prems by (subst unat_addr) simp_all
  show ?case using Cons a by (cases a) (simp_all add: cells_of_def)
qed simp

lemma outs_of_read: "h + need as < 2 ^ 29 \<Longrightarrow> outs_of e h as m = outs_read e m (zip as (layout h as))"
proof (induction as arbitrary: h)
  case (Cons a as)
  have a: "unat (addr h) div 4 = h" using Cons.prems by (subst unat_addr) simp_all
  show ?case using Cons a by (cases a) (simp_all add: outs_read_def cells_of_def)
qed (simp add: outs_read_def)

lemma static_native_eval:
  assumes "map_of (natives g) name = Some f" and "map_of (statics g) name = None \<or> map_of (statics g) name = Some (Some f)"
  shows "\<exists>st. static_native name g = (Inr (Some f), g\<lparr>statics := st\<rparr>)"
  using assms(2)
proof
  assume "map_of (statics g) name = None"
  with assms(1) show ?thesis
    by (auto simp: static_native_def prog_defs GetNativeWarn_def GetNative_def intro!: exI [of _ "(name, Some f) # statics g"])
next
  assume "map_of (statics g) name = Some (Some f)"
  then show ?thesis by (auto simp: static_native_def prog_defs intro!: exI [of _ "statics g"])
qed

text \<open>C14. A call of a native. The native finds each argument: values as they are, strings at addresses from which they are read back, and
  places for what it returns, all apart from each other and from what was on the heap before. When it returns, the wrapper gives back its result and what it left in
  the places and buffers, and the heap pointer is where it was.\<close>

theorem native_call:
  assumes e: "amx_strings e" and g: "heap_at h g" and fits: "h + need as \<le> length (fa_heap g)"
    and f: "map_of (natives g) name = Some f" "map_of (statics g) name = None \<or> map_of (statics g) name = Some (Some f)"
    and plain: "\<forall>s. NStr s \<in> set as \<longrightarrow> CHR 0x00 \<notin> set s"
  shows "\<exists>mem ps. list_all2 (arg_shown e mem) as ps \<and> apart h (zip as ps) \<and> take h mem = take h (fa_heap g)
    \<and> (\<forall>r m srv. amxNative e f (Some mem) (native_params ps) (server g) = Inr (r, m, srv) \<and> length m = length mem \<longrightarrow>
        (\<exists>st. call_native e name as g = (Inr (r, outs_read e m (zip as ps)), g\<lparr>fa_heap := m, statics := st, server := srv\<rparr>)))"
proof -
  let ?mem = "filled_memory e h as (fa_heap g)" and ?ps = "layout h as"
  have small: "length (fa_heap g) < 2 ^ 29" "\<not> fa_stale g" using g by (simp_all add: heap_at_def)
  have len: "length ?mem = length (fa_heap g)" using e fits by simp
  obtain st where st: "static_native name g = (Inr (Some f), g\<lparr>statics := st\<rparr>)" using static_native_eval [OF f] by blast
  have "heap_at h (g\<lparr>statics := st\<rparr>)" using g by (simp add: heap_at_def)
  note push = push_args_eval [OF e this, of as]
  have "call_native e name as g = (Inr (r, outs_read e m (zip as ?ps)), g\<lparr>fa_heap := m, statics := st, server := srv\<rparr>)"
    if run: "amxNative e f (Some ?mem) (native_params ?ps) (server g) = Inr (r, m, srv)" and m: "length m = length ?mem" for r m srv
  proof -
    let ?g = "g\<lparr>statics := st, fa_hea := addr (h + need as), fa_heap := m, server := srv\<rparr>"
    have "read_outs e (zip as ?ps) ?g = (Inr (outs_of e h as m), ?g)" using read_outs_eval [of h as ?g e] fits small m len by simp
    moreover have "pop_args (zip as ?ps) ?g = (Inr (), ?g\<lparr>fa_hea := addr h\<rparr>)" using fits small by (intro pop_args_eval) simp_all
    moreover have "outs_of e h as m = outs_read e m (zip as ?ps)" using fits small by (intro outs_of_read) simp
    ultimately show ?thesis
      using st push fits run small g by (simp add: call_native_def seq_def CallNative_def andthen_def ret_def heap_at_def)
  qed
  moreover have "list_all2 (arg_shown e ?mem) as ?ps" by (rule layout_shown [OF e fits small(1) plain])
  moreover have "apart h (zip as ?ps)" using fits small by (intro layout_apart) simp_all
  moreover have "take h ?mem = take h (fa_heap g)" using take_filled [OF e fits] by simp
  ultimately show ?thesis by blast
qed

subsection \<open>When the heap grows\<close>

text \<open>\<open>heap_program m\<close>: \<open>m\<close> fails only by undefined behaviour, and leaves a stale pointer stale.\<close>

definition heap_program :: "('h, 'a) gprog \<Rightarrow> bool" where
  "heap_program m \<longleftrightarrow> (\<forall>g. (case fst (m g) of Inl x \<Rightarrow> x = Undefined | Inr _ \<Rightarrow> True) \<and> (fa_stale g \<longrightarrow> fa_stale (snd (m g))))"

lemma heap_program_seq:
  assumes m: "heap_program m" and f: "\<And>x. heap_program (f x)"
  shows "heap_program (seq m f)"
proof (unfold heap_program_def, intro allI)
  fix g
  obtain r g' where r: "m g = (r, g')" by (cases "m g")
  have 1: "(case r of Inl x \<Rightarrow> x = Undefined | Inr _ \<Rightarrow> True) \<and> (fa_stale g \<longrightarrow> fa_stale g')"
    using m [unfolded heap_program_def, rule_format, of g] by (simp add: r)
  show "(case fst (seq m f g) of Inl x \<Rightarrow> x = Undefined | Inr _ \<Rightarrow> True) \<and> (fa_stale g \<longrightarrow> fa_stale (snd (seq m f g)))"
  proof (cases r)
    case (Inr x)
    then show ?thesis using 1 f [of x, unfolded heap_program_def, rule_format, of g'] by (simp add: seq_def r)
  qed (use 1 in \<open>simp add: seq_def r\<close>)
qed

lemma heap_program_ret: "heap_program (ret x)"
  by (simp add: heap_program_def ret_def)

lemma heap_program_push: "heap_program (push_arg e a)"
proof -
  have "heap_program (FakeAmx_Push n :: ('a, 32 word) gprog)" for n by (simp add: heap_program_def FakeAmx_Push_def Let_def)
  moreover have "heap_program (heap_write i cs :: ('a, unit) gprog)" for i cs by (simp add: heap_program_def heap_write_def)
  ultimately show ?thesis
    by (cases a) (auto simp: push_arg_def FakeAmx_PushStr_def Let_def andthen_def intro!: heap_program_seq heap_program_ret)
qed

lemma heap_program_pushes: "heap_program (push_args e as)"
  by (induction as) (auto intro!: heap_program_seq heap_program_ret heap_program_push)

lemma heap_program_static: "heap_program (static_native name)"
  by (simp add: heap_program_def static_native_def GetNativeWarn_def prog_defs split: option.split)

text \<open>A native that reads its memory.\<close>

definition needs_memory :: "'h amx_env \<Rightarrow> nat \<Rightarrow> bool" where
  "needs_memory e f \<longleftrightarrow> (\<forall>ps srv. amxNative e f None ps srv = Inl Undefined)"

lemma stale_call:
  assumes "fa_stale g" and "map_of (natives g) name = Some f" and "map_of (statics g) name = None \<or> map_of (statics g) name = Some (Some f)"
    and "needs_memory e f"
  shows "fst (call_native e name as g) = Inl Undefined"
proof -
  obtain st where st: "static_native name g = (Inr (Some f), g\<lparr>statics := st\<rparr>)" using static_native_eval [OF assms(2,3)] by blast
  obtain r g' where push: "push_args e as (g\<lparr>statics := st\<rparr>) = (r, g')" by (cases "push_args e as (g\<lparr>statics := st\<rparr>)")
  have "fa_stale g'" "case r of Inl x \<Rightarrow> x = Undefined | Inr _ \<Rightarrow> True"
    using heap_program_pushes [of e as, unfolded heap_program_def, rule_format, of "g\<lparr>statics := st\<rparr>"] assms(1) by (simp_all add: push)
  with assms(4) show ?thesis
    by (cases r) (simp_all add: call_native_def seq_def st push CallNative_def needs_memory_def)
qed

lemma long_string_pushed:
  assumes "amx_strings e" and "heap_at h g" and "length (fa_heap g) < h + (length s + 1)" and "h + (length s + 1) < 2 ^ 29"
  shows "\<exists>g' v. push_args e [NStr s] g = (Inr v, g') \<and> fa_stale g' \<and> natives g' = natives g \<and> statics g' = statics g"
proof -
  have n: "unat (of_nat (length s + 1) :: 32 word) = length s + 1" using assms(4) by (intro unat_of_nat_small) simp
  have hea: "fa_hea g + of_nat (length s + 1) * 4 = addr (h + (length s + 1))"
    using assms(2) addr_add [of h "of_nat (length s + 1)"] n by (simp add: heap_at_def)
  have new: "unat (addr (h + (length s + 1))) div 4 = h + (length s + 1)" using assms(4) by (subst unat_addr) simp_all
  have old: "unat (addr h) div 4 = h" using assms(4) by (subst unat_addr) simp_all
  let ?g = "g\<lparr>fa_hea := addr (h + (length s + 1)), fa_heap := fa_heap g @ replicate (h + (length s + 1) - length (fa_heap g)) 0, fa_stale := True\<rparr>"
  have "FakeAmx_Push (of_nat (length s + 1)) g = (Inr (addr h), ?g)"
    using assms(2,3) unfolding FakeAmx_Push_def Let_def hea new by (simp add: heap_at_def)
  moreover have "\<exists>m. heap_write h (amxSetString e s (length s + 1)) ?g = (Inr (), ?g\<lparr>fa_heap := m\<rparr>)"
    using assms(1,3) by (auto simp: heap_write_def amx_strings_def)
  ultimately show ?thesis
    using old by (auto simp: push_arg_def FakeAmx_PushStr_def Let_def seq_def andthen_def ret_def simp del: of_nat_Suc of_nat_add)
qed


definition plain_set :: "string \<Rightarrow> nat \<Rightarrow> amxcell list" where
  "plain_set s n = map of_char s @ [0]"

definition plain_get :: "amxcell list \<Rightarrow> nat \<Rightarrow> string" where
  "plain_get cs n = map (\<lambda>c. char_of (unat c)) (take (n - 1) (takeWhile (\<lambda>c. c \<noteq> 0) cs))"

text \<open>A server with one native, which puts the string at its first parameter into the buffer at its second.\<close>

definition demo_amx :: "unit amx_env" where
  "demo_amx = \<lparr>amxSetString = plain_set, amxGetString = plain_get,
     amxNative = (\<lambda>_ m ps srv. case (m, ps) of (Some m, Some [_, a, b, _]) \<Rightarrow>
       Inr (1, take (unat b div 4) m @ take 3 (drop (unat a div 4) m) @ drop (unat b div 4 + 3) m, srv) | _ \<Rightarrow> Inl Undefined)\<rparr>"

lemma char_cell: "(of_char c :: amxcell) = 0 \<longleftrightarrow> c = CHR 0x00" "char_of (unat (of_char c :: amxcell)) = c"
proof -
  have c: "(of_char c :: amxcell) = of_nat (of_char c)" by (rule of_nat_of_char [symmetric])
  have "(of_char c :: nat) mod 256 < 256" by (rule mod_less_divisor) simp
  then have "(of_char c :: nat) < 256" by (simp only: of_char_mod_256)
  moreover have "(256 :: nat) < 2 ^ 32" by simp
  ultimately have "(of_char c :: nat) < 2 ^ 32" by (rule less_trans)
  then have u: "unat (of_char c :: amxcell) = of_char c" unfolding c by (rule unat_of_nat_small)
  show "char_of (unat (of_char c :: amxcell)) = c" unfolding u by simp
  have "(of_char c :: amxcell) = 0 \<longleftrightarrow> (of_char c :: nat) = of_char (CHR 0x00)" using u unat_eq_zero [of "of_char c :: amxcell"] by simp
  then show "(of_char c :: amxcell) = 0 \<longleftrightarrow> c = CHR 0x00" by (simp only: of_char_eq_iff)
qed

lemma plain_strings: "amxSetString e = plain_set \<Longrightarrow> amxGetString e = plain_get \<Longrightarrow> amx_strings e"
proof -
  assume e: "amxSetString e = plain_set" "amxGetString e = plain_get"
  have "plain_get (plain_set s (length s + 1) @ rest) n = s" if "CHR 0x00 \<notin> set s" "length s < n" for s rest n
  proof -
    have "takeWhile (\<lambda>c. c \<noteq> 0) (map of_char s @ (0 :: amxcell) # rest) = map of_char s"
      using that(1) by (subst takeWhile_append2) (auto simp: char_cell(1))
    then have "plain_get (plain_set s (length s + 1) @ rest) n = map (\<lambda>c. char_of (unat (of_char c :: amxcell))) (take (n - 1) s)"
      by (simp add: plain_get_def plain_set_def take_map)
    also have "\<dots> = s" unfolding char_cell(2) using that(2) by simp
    finally show ?thesis .
  qed
  then show ?thesis by (simp add: amx_strings_def e plain_set_def)
qed

definition demo_gdk :: "unit gdk" where
  "demo_gdk = gdk_init ()\<lparr>natives := [(''Copy'', 7)]\<rparr>"

lemma demo_heap: "amx_strings demo_amx" "heap_at 0 demo_gdk"
  by (rule plain_strings) (simp_all add: demo_amx_def demo_gdk_def gdk_init_def heap_at_def addr_def INITIAL_HEAP_SIZE_def)

theorem native_call_witness:
  "\<exists>mem ps. list_all2 (arg_shown demo_amx mem) [NStr ''ab'', NBuf 3, NVal 5] ps \<and> apart 0 (zip [NStr ''ab'', NBuf 3, NVal 5] ps) \<and> take 0 mem = []
    \<and> (\<forall>r m srv. amxNative demo_amx 7 (Some mem) (native_params ps) () = Inr (r, m, srv) \<and> length m = length mem \<longrightarrow>
        (\<exists>st. call_native demo_amx ''Copy'' [NStr ''ab'', NBuf 3, NVal 5] demo_gdk
          = (Inr (r, outs_read demo_amx m (zip [NStr ''ab'', NBuf 3, NVal 5] ps)), demo_gdk\<lparr>fa_heap := m, statics := st, server := srv\<rparr>)))"
proof -
  have "0 + need [NStr ''ab'', NBuf 3, NVal 5] \<le> length (fa_heap demo_gdk)" "map_of (natives demo_gdk) ''Copy'' = Some 7"
      "map_of (statics demo_gdk) ''Copy'' = None \<or> map_of (statics demo_gdk) ''Copy'' = Some (Some 7)"
      "\<forall>s. NStr s \<in> set [NStr ''ab'', NBuf 3, NVal 5] \<longrightarrow> CHR 0x00 \<notin> set s" "server demo_gdk = ()"
    by (simp_all add: demo_gdk_def gdk_init_def INITIAL_HEAP_SIZE_def cells_of_def)
  from native_call [OF demo_heap this(1-4)] show ?thesis by simp
qed


definition demo_hook :: hook where
  "demo_hook = \<lparr>h_src = 4096, h_dst = 8192, h_code = [], h_installed = False\<rparr>"

theorem hook_roundtrip_witness:
  "\<exists>h' m'. Hook_Install (demo_hook, \<lambda>_. CHR 0x90) = (True, h', m') \<and> GetTargetAddress m' 4096 = 8192"
proof -
  have "\<not> h_installed demo_hook" by (simp add: demo_hook_def)
  from hook_roundtrip [OF this, of "\<lambda>_. CHR 0x90"] show ?thesis by (auto simp: demo_hook_def)
qed

section \<open>Timers\<close>

text \<open>Callbacks that leave the timers alone: \<open>F\<close> is what they do to the rest.\<close>

definition leaves_timers :: "'h tcallbacks \<Rightarrow> (nat \<Rightarrow> int \<Rightarrow> nat \<Rightarrow> 'h \<Rightarrow> 'h) \<Rightarrow> bool" where
  "leaves_timers cbs F \<longleftrightarrow> (\<forall>cb i p s. cbs cb i p s = (Inr (), s\<lparr>gt_rest := F cb i p (gt_rest s)\<rparr>))"

text \<open>Every pointer in the vector is to an object of its own.\<close>

definition own_pointers :: "nat option list \<Rightarrow> bool" where
  "own_pointers xs \<longleftrightarrow> (\<forall>i < length xs. \<forall>j < length xs. \<forall>a. xs ! i = Some a \<and> xs ! j = Some a \<longrightarrow> j = i)"

lemma killed_nth: "j < length xs \<Longrightarrow> xs[i := None] ! j = Some b \<Longrightarrow> j \<noteq> i \<and> xs ! j = Some b"
  by (cases "j = i") simp_all

lemma own_pointers_kill: "own_pointers xs \<Longrightarrow> own_pointers (xs[i := None])"
  unfolding own_pointers_def length_list_update using killed_nth [of _ xs i] by blast

definition timers_wf :: "'h gtimers \<Rightarrow> bool" where
  "timers_wf s \<longleftrightarrow> own_pointers (gt_slots s) \<and> (\<forall>a. Some a \<in> set (gt_slots s) \<longrightarrow> map_of (gt_objects s) a \<noteq> None)"

definition timer_at :: "'h gtimers \<Rightarrow> nat \<Rightarrow> gtimer option" where
  "timer_at s i = (if i < length (gt_slots s) then Option.bind (gt_slots s ! i) (map_of (gt_objects s)) else None)"

definition is_due :: "32 word \<Rightarrow> gtimer \<Rightarrow> bool" where
  "is_due now t \<longleftrightarrow> sint (gt_interval t) \<le> sint (now - gt_startTime t)"

lemma GetTimerId_slot: "i < length xs \<Longrightarrow> xs ! i = Some a \<Longrightarrow> \<forall>j < length xs. xs ! j = Some a \<longrightarrow> j = i \<Longrightarrow> GetTimerId a xs = i"
proof (induction xs arbitrary: i)
  case (Cons x xs)
  show ?case
  proof (cases i)
    case 0
    with Cons.prems show ?thesis by simp
  next
    case (Suc k)
    have "x \<noteq> Some a" using Cons.prems(3) Suc by fastforce
    moreover have "GetTimerId a xs = k" using Cons.prems Suc by (intro Cons.IH) auto
    ultimately show ?thesis using Suc by simp
  qed
qed simp

text \<open>One turn of the loop, on a timer that is there.\<close>

lemma process_timer_eval:
  assumes cbs: "leaves_timers cbs F" and wf: "timers_wf s" and t: "timer_at s i = Some t"
  shows "\<exists>s'. process_timer cbs now i s = (Inr (), s') \<and> timers_wf s' \<and> length (gt_slots s') = length (gt_slots s)
    \<and> gt_rest s' = (if is_due now t then F (gt_callback t) (int i) (gt_param t) (gt_rest s) else gt_rest s)
    \<and> (\<forall>j. j \<noteq> i \<longrightarrow> timer_at s' j = timer_at s j) \<and> (timer_at s' i = None \<longleftrightarrow> is_due now t \<and> \<not> gt_repeating t)"
proof -
  obtain a where a: "i < length (gt_slots s)" "gt_slots s ! i = Some a" "map_of (gt_objects s) a = Some t"
    using t unfolding timer_at_def by (cases "gt_slots s ! i") (simp_all split: if_splits)
  have only: "\<forall>j < length (gt_slots s). gt_slots s ! j = Some a \<longrightarrow> j = i" using wf a(1,2) unfolding timers_wf_def own_pointers_def by blast
  have id: "GetTimerId a (gt_slots s) = i" by (rule GetTimerId_slot [OF a(1,2) only])
  note run = process_timer_def timer_object_def Timer_Fire_def GetTickCount_def KillTimer_def prog_defs Let_def
  show ?thesis
  proof (cases "is_due now t")
    case False
    then have "process_timer cbs now i s = (Inr (), s)" using a by (simp add: run is_due_def)
    with False t wf show ?thesis by (intro exI [of _ s]) simp
  next
    case due: True
    then have d: "sint (gt_interval t) \<le> sint (now - gt_startTime t)" by (simp add: is_due_def)
    have others: "gt_slots s ! j \<noteq> Some a" if "j < length (gt_slots s)" "j \<noteq> i" for j using only that by blast
    show ?thesis
    proof (cases "gt_repeating t")
      case rep: True
      let ?t = "t\<lparr>gt_startTime := tk_clock s (tk_reads s) - (now - gt_startTime t - gt_interval t)\<rparr>"
      let ?s = "s\<lparr>gt_rest := F (gt_callback t) (int i) (gt_param t) (gt_rest s), tk_reads := Suc (tk_reads s),
        gt_objects := AList.update a ?t (gt_objects s)\<rparr>"
      have "process_timer cbs now i s = (Inr (), ?s)"
        using cbs a d rep id by (simp add: run leaves_timers_def update_conv')
      moreover have "timers_wf ?s" using wf by (simp add: timers_wf_def update_conv')
      moreover have "timer_at ?s j = timer_at s j" if "j \<noteq> i" for j
        using others that by (cases "gt_slots s ! j") (auto simp: timer_at_def update_conv')
      moreover have "timer_at ?s i \<noteq> None" using a by (simp add: timer_at_def update_conv')
      ultimately show ?thesis using due rep by (intro exI [of _ ?s]) simp
    next
      case once: False
      let ?s = "s\<lparr>gt_rest := F (gt_callback t) (int i) (gt_param t) (gt_rest s), gt_objects := AList.delete a (gt_objects s),
        gt_slots := (gt_slots s)[i := None]\<rparr>"
      have "process_timer cbs now i s = (Inr (), ?s)"
        using cbs a d once id by (simp add: run leaves_timers_def)
      moreover have "timers_wf ?s"
      proof -
        have "Some b \<in> set (gt_slots s) \<and> b \<noteq> a" if "Some b \<in> set ((gt_slots s)[i := None])" for b
          using that others killed_nth [of _ "gt_slots s" i b] unfolding in_set_conv_nth length_list_update by blast
        then show ?thesis using wf by (simp add: timers_wf_def own_pointers_kill delete_conv')
      qed
      moreover have "timer_at ?s j = timer_at s j" if "j \<noteq> i" for j
        using others that by (cases "gt_slots s ! j") (auto simp: timer_at_def delete_conv')
      moreover have "timer_at ?s i = None" using a by (simp add: timer_at_def)
      ultimately show ?thesis using due once by (intro exI [of _ ?s]) simp
    qed
  qed
qed

definition run_due :: "(nat \<Rightarrow> int \<Rightarrow> nat \<Rightarrow> 'h \<Rightarrow> 'h) \<Rightarrow> 32 word \<Rightarrow> 'h gtimers \<Rightarrow> nat \<Rightarrow> 'h \<Rightarrow> 'h" where
  "run_due F now s i r = (case timer_at s i of Some t \<Rightarrow> if is_due now t then F (gt_callback t) (int i) (gt_param t) r else r | None \<Rightarrow> r)"

definition ends_at :: "32 word \<Rightarrow> 'h gtimers \<Rightarrow> nat \<Rightarrow> bool" where
  "ends_at now s i \<longleftrightarrow> (\<exists>t. timer_at s i = Some t \<and> is_due now t \<and> \<not> gt_repeating t)"

lemma process_from_live:
  "leaves_timers cbs F \<Longrightarrow> timers_wf s \<Longrightarrow> \<forall>j. i \<le> j \<and> j < length (gt_slots s) \<longrightarrow> timer_at s j \<noteq> None \<Longrightarrow>
   \<exists>s'. process_from cbs now i s = Some (Inr (), s') \<and> timers_wf s' \<and> length (gt_slots s') = length (gt_slots s)
     \<and> gt_rest s' = fold (run_due F now s) [i..<length (gt_slots s)] (gt_rest s)
     \<and> (\<forall>j. j < i \<longrightarrow> timer_at s' j = timer_at s j)
     \<and> (\<forall>j. i \<le> j \<and> j < length (gt_slots s) \<longrightarrow> timer_at s' j = None \<longleftrightarrow> ends_at now s j)"
proof (induction "length (gt_slots s) - i" arbitrary: i s)
  case 0
  then show ?case by (subst process_from.simps) auto
next
  case (Suc n)
  then have i: "i < length (gt_slots s)" by simp
  then obtain t where t: "timer_at s i = Some t" using Suc.prems(3) by auto
  obtain s1 where s1: "process_timer cbs now i s = (Inr (), s1)" "timers_wf s1" "length (gt_slots s1) = length (gt_slots s)"
      "gt_rest s1 = (if is_due now t then F (gt_callback t) (int i) (gt_param t) (gt_rest s) else gt_rest s)"
      "\<forall>j. j \<noteq> i \<longrightarrow> timer_at s1 j = timer_at s j" "timer_at s1 i = None \<longleftrightarrow> is_due now t \<and> \<not> gt_repeating t"
    using process_timer_eval [OF Suc.prems(1,2) t, of now] by (elim exE conjE) (rule that, assumption+)
  have "n = length (gt_slots s1) - Suc i" "\<forall>j. Suc i \<le> j \<and> j < length (gt_slots s1) \<longrightarrow> timer_at s1 j \<noteq> None"
    using Suc.hyps(2) Suc.prems(3) s1(3,5) by auto
  from Suc.hyps(1) [OF this(1) Suc.prems(1) s1(2) this(2)] obtain s2 where s2: "process_from cbs now (Suc i) s1 = Some (Inr (), s2)"
      "timers_wf s2" "length (gt_slots s2) = length (gt_slots s)"
      "gt_rest s2 = fold (run_due F now s1) [Suc i..<length (gt_slots s)] (gt_rest s1)" "\<forall>j. j < Suc i \<longrightarrow> timer_at s2 j = timer_at s1 j"
      "\<forall>j. Suc i \<le> j \<and> j < length (gt_slots s) \<longrightarrow> timer_at s2 j = None \<longleftrightarrow> ends_at now s1 j"
    using s1(3) by auto
  have "fold (run_due F now s1) [Suc i..<length (gt_slots s)] r = fold (run_due F now s) [Suc i..<length (gt_slots s)] r" for r
    by (rule fold_cong) (auto simp: run_due_def s1(5) fun_eq_iff)
  then have "gt_rest s2 = fold (run_due F now s) [i..<length (gt_slots s)] (gt_rest s)"
    using s2(4) s1(4) i by (simp add: upt_conv_Cons run_due_def t del: upt_Suc)
  moreover have "process_from cbs now i s = Some (Inr (), s2)" using i s1(1) s2(1) by (subst process_from.simps) simp
  moreover have "timer_at s2 j = None \<longleftrightarrow> ends_at now s j" if "i \<le> j" "j < length (gt_slots s)" for j
  proof (cases "j = i")
    case True
    then show ?thesis using s2(5) s1(6) t by (auto simp: ends_at_def)
  next
    case False
    then have "timer_at s2 j = None \<longleftrightarrow> ends_at now s1 j" using s2(6) that by simp
    with False show ?thesis using s1(5) by (simp add: ends_at_def)
  qed
  moreover have "timer_at s2 j = timer_at s j" if "j < i" for j using that s2(5) s1(5) by simp
  ultimately show ?case using s2(2,3) by blast
qed

lemma slot_none:
  assumes "timers_wf s" and "k < length (gt_slots s)" and "timer_at s k = None"
  shows "gt_slots s ! k = None"
proof (rule ccontr)
  assume "gt_slots s ! k \<noteq> None"
  then obtain a where a: "gt_slots s ! k = Some a" by blast
  then have "Some a \<in> set (gt_slots s)" using nth_mem [OF assms(2)] by simp
  then have "map_of (gt_objects s) a \<noteq> None" using assms(1) unfolding timers_wf_def by blast
  with assms(2,3) a show False by (simp add: timer_at_def)
qed

lemma read_clock [simp]: "timer_at (s\<lparr>tk_reads := n\<rparr>) = timer_at s" "timers_wf (s\<lparr>tk_reads := n\<rparr>) = timers_wf s"
  by (simp_all add: fun_eq_iff timer_at_def timers_wf_def)

lemma process_from_killed:
  "leaves_timers cbs F \<Longrightarrow> timers_wf s \<Longrightarrow> i \<le> k \<Longrightarrow> k < length (gt_slots s) \<Longrightarrow> timer_at s k = None \<Longrightarrow>
   \<exists>s'. process_from cbs now i s = Some (Inl Undefined, s')"
proof (induction "k - i" arbitrary: i s)
  case (0 i s)
  then have "gt_slots s ! i = None" by (intro slot_none) simp_all
  then show ?case using 0 by (subst process_from.simps) (simp add: process_timer_def prog_defs)
next
  case (Suc n i s)
  show ?case
  proof (cases "timer_at s i")
    case None
    then have "gt_slots s ! i = None" using Suc.prems by (intro slot_none) simp_all
    then show ?thesis using Suc.prems by (subst process_from.simps) (simp add: process_timer_def prog_defs)
  next
    case (Some t)
    obtain s1 where s1: "process_timer cbs now i s = (Inr (), s1)" "timers_wf s1" "length (gt_slots s1) = length (gt_slots s)"
        "\<forall>j. j \<noteq> i \<longrightarrow> timer_at s1 j = timer_at s j"
      using process_timer_eval [OF Suc.prems(1,2) Some, of now] by (elim exE conjE) (rule that, assumption+)
    have "n = k - Suc i" "Suc i \<le> k" "k < length (gt_slots s1)" "timer_at s1 k = None" using Suc s1(3,4) by auto
    from Suc.hyps(1) [OF this(1) Suc.prems(1) s1(2) this(2-4)] show ?thesis using Suc.prems s1(1) by (subst process_from.simps) simp
  qed
qed

text \<open>C38. A round of the timers, with callbacks that leave the timers alone: the callbacks of the due ones run, each once and in the order of their
  ids. If one of them does not repeat it is deleted, and the next round reads through the null pointer that is left in its place.\<close>

theorem timers_round:
  assumes cbs: "leaves_timers cbs F" and wf: "timers_wf s" and live: "\<forall>i < length (gt_slots s). timer_at s i \<noteq> None"
  shows "\<exists>s'. ProcessTimers cbs s = Some (Inr (), s')
    \<and> gt_rest s' = fold (run_due F (tk_clock s (tk_reads s)) s) [0..<length (gt_slots s)] (gt_rest s)
    \<and> (if \<exists>i. ends_at (tk_clock s (tk_reads s)) s i then \<exists>s''. ProcessTimers cbs s' = Some (Inl Undefined, s'')
       else timers_wf s' \<and> (\<forall>i < length (gt_slots s'). timer_at s' i \<noteq> None))"
proof -
  let ?now = "tk_clock s (tk_reads s)" and ?s = "s\<lparr>tk_reads := Suc (tk_reads s)\<rparr>"
  have same: "timer_at ?s = timer_at s" "run_due F ?now ?s = run_due F ?now s" "ends_at ?now ?s = ends_at ?now s" "timers_wf ?s"
    using wf by (simp_all add: fun_eq_iff timer_at_def run_due_def ends_at_def timers_wf_def)
  obtain s' where s': "process_from cbs ?now 0 ?s = Some (Inr (), s')" "timers_wf s'" "length (gt_slots s') = length (gt_slots s)"
      "gt_rest s' = fold (run_due F ?now s) [0..<length (gt_slots s)] (gt_rest s)"
      "\<forall>j < length (gt_slots s). timer_at s' j = None \<longleftrightarrow> ends_at ?now s j"
    using process_from_live [OF cbs same(4), of 0 ?now] live unfolding same by auto
  have "ProcessTimers cbs s = Some (Inr (), s')" using s'(1) by (simp add: ProcessTimers_def GetTickCount_def)
  moreover have "\<exists>s''. ProcessTimers cbs s' = Some (Inl Undefined, s'')" if "ends_at ?now s i" for i
  proof -
    let ?t = "s'\<lparr>tk_reads := Suc (tk_reads s')\<rparr>"
    have i: "i < length (gt_slots s)" using that by (auto simp: ends_at_def timer_at_def split: if_splits)
    with s'(5) that have "timer_at ?t i = None" by simp
    moreover have "timers_wf ?t" using s'(2) by simp
    ultimately show ?thesis
      using process_from_killed [OF cbs, of ?t 0 i "tk_clock s' (tk_reads s')"] i s'(3) by (simp add: ProcessTimers_def GetTickCount_def)
  qed
  moreover have "\<forall>i < length (gt_slots s'). timer_at s' i \<noteq> None" if "\<nexists>i. ends_at ?now s i" using that s'(3,5) by simp
  ultimately show ?thesis using s'(2,4) by auto
qed

definition demo_timers :: "nat list gtimers" where
  "demo_timers = \<lparr>gt_slots = [Some 0, Some 1], gt_objects = [(0, \<lparr>gt_interval = 10, gt_repeating = True, gt_callback = 5, gt_param = 0, gt_startTime = 0\<rparr>),
     (1, \<lparr>gt_interval = 20, gt_repeating = False, gt_callback = 6, gt_param = 0, gt_startTime = 0\<rparr>)], gt_fresh = 2,
     tk_clock = (\<lambda>_. 25), tk_reads = 0, gt_rest = []\<rparr>"

definition demo_callbacks :: "nat list tcallbacks" where
  "demo_callbacks cb i p s = (Inr (), s\<lparr>gt_rest := gt_rest s @ [cb]\<rparr>)"

theorem timers_round_witness:
  "\<exists>s' s''. ProcessTimers demo_callbacks demo_timers = Some (Inr (), s') \<and> gt_rest s' = [5, 6]
    \<and> ProcessTimers demo_callbacks s' = Some (Inl Undefined, s'')"
proof -
  let ?F = "\<lambda>cb (i :: int) (p :: nat) r. r @ [cb :: nat]"
  have cbs: "leaves_timers demo_callbacks ?F" by (simp add: leaves_timers_def demo_callbacks_def)
  have wf: "timers_wf demo_timers" "length (gt_slots demo_timers) = 2"
    by (simp_all add: timers_wf_def own_pointers_def demo_timers_def less_Suc_eq)
  have live: "\<forall>i < length (gt_slots demo_timers). timer_at demo_timers i \<noteq> None"
    by (simp add: demo_timers_def timer_at_def less_Suc_eq)
  have ends: "ends_at 25 demo_timers 1" by (simp add: ends_at_def demo_timers_def timer_at_def is_due_def)
  have clock: "tk_clock demo_timers (tk_reads demo_timers) = 25" by (simp add: demo_timers_def)
  have run: "fold (run_due ?F 25 demo_timers) [0..<2] (gt_rest demo_timers) = [5, 6]"
    by (simp add: upt_rec run_due_def demo_timers_def timer_at_def is_due_def)
  have ex: "\<exists>i. ends_at 25 demo_timers i" using ends by blast
  from timers_round [OF cbs wf(1) live] show ?thesis unfolding clock wf(2) run if_P [OF ex] by blast
qed

end
