(* ===== verification/GdkHooks.thy ===== *)
theory GdkHooks
  imports Gdk
begin

text \<open>
  How the server's calls of its script reach the plugins: the handlers that read the arguments from the script's stack
  (\<^verbatim>\<open>generated/callback-handlers-impl.cpp\<close>), the dispatch to the registered plugins (\<^verbatim>\<open>callbacks.cpp\<close>), and the replacements of the virtual
  machine's functions (\<^verbatim>\<open>amxhooks.cpp\<close>). What the virtual machine itself does, the symbols of a plugin and what its functions do are parameters.
\<close>

section \<open>The stack of a script\<close>

text \<open>The data of a script, in cells; \<open>am_stk\<close> is the top of the stack, as an address in bytes from the start of the data, a multiple of four.\<close>

record machine =
  am_data :: "amxcell list"
  am_stk :: "32 word"
  am_paramcount :: "32 word"

definition data_cell :: "machine \<Rightarrow> nat \<Rightarrow> exn + amxcell" where
  "data_cell m i = (if i < length (am_data m) then Inr (am_data m ! i) else Inl Undefined)"

definition GetStackCell :: "machine \<Rightarrow> nat \<Rightarrow> exn + amxcell" where
  "GetStackCell m i = data_cell m (unat (am_stk m) div 4 + i)"

definition GetStackBool :: "machine \<Rightarrow> nat \<Rightarrow> exn + bool" where
  "GetStackBool m i = bindR (GetStackCell m i) (\<lambda>c. Inr (c \<noteq> 0))"

text \<open>The bits of a \<^verbatim>\<open>float\<close>.\<close>

definition GetStackFloat :: "machine \<Rightarrow> nat \<Rightarrow> exn + 32 word" where
  "GetStackFloat m i = GetStackCell m i"

fun cells_string :: "amxcell list \<Rightarrow> exn + string" where
  "cells_string [] = Inl Undefined"
| "cells_string (c # cs) = (if c = 0 then Inr [] else bindR (cells_string cs) (\<lambda>s. Inr (char_of (unat (c AND 0xFF)) # s)))"

definition GetStackString :: "machine \<Rightarrow> nat \<Rightarrow> exn + string" where
  "GetStackString m i = bindR (GetStackCell m i) (\<lambda>a. cells_string (drop (unat a div 4) (am_data m)))"

section \<open>Handlers\<close>

text \<open>A handler reads its arguments, the first one on top, and calls the plugin's function. Some ignore what it returns and go on;
  the others write it to the result of the public function and end the dispatch when it is \<^verbatim>\<open>false\<close>, or when it is \<^verbatim>\<open>true\<close>.\<close>

datatype ctype = CTInt | CTBool | CTFloat | CTString
datatype carg = CInt "32 word" | CBool bool | CFloat "32 word" | CStr string
datatype cmode = Ignored | UnlessFalse | UnlessTrue

type_synonym chandler = "ctype list \<times> cmode"

definition cb_OnGameModeInit :: chandler where "cb_OnGameModeInit = ([], Ignored)"
definition cb_OnGameModeExit :: chandler where "cb_OnGameModeExit = ([], Ignored)"
definition cb_OnPlayerConnect :: chandler where "cb_OnPlayerConnect = ([CTInt], UnlessFalse)"
definition cb_OnPlayerDisconnect :: chandler where "cb_OnPlayerDisconnect = ([CTInt, CTInt], UnlessFalse)"
definition cb_OnPlayerSpawn :: chandler where "cb_OnPlayerSpawn = ([CTInt], UnlessFalse)"
definition cb_OnPlayerDeath :: chandler where "cb_OnPlayerDeath = ([CTInt, CTInt, CTInt], Ignored)"
definition cb_OnVehicleSpawn :: chandler where "cb_OnVehicleSpawn = ([CTInt], Ignored)"
definition cb_OnVehicleDeath :: chandler where "cb_OnVehicleDeath = ([CTInt, CTInt], Ignored)"
definition cb_OnPlayerText :: chandler where "cb_OnPlayerText = ([CTInt, CTString], UnlessFalse)"
definition cb_OnPlayerCommandText :: chandler where "cb_OnPlayerCommandText = ([CTInt, CTString], UnlessTrue)"
definition cb_OnPlayerRequestClass :: chandler where "cb_OnPlayerRequestClass = ([CTInt, CTInt], UnlessFalse)"
definition cb_OnPlayerEnterVehicle :: chandler where "cb_OnPlayerEnterVehicle = ([CTInt, CTInt, CTBool], Ignored)"
definition cb_OnPlayerExitVehicle :: chandler where "cb_OnPlayerExitVehicle = ([CTInt, CTInt], Ignored)"
definition cb_OnPlayerStateChange :: chandler where "cb_OnPlayerStateChange = ([CTInt, CTInt, CTInt], Ignored)"
definition cb_OnPlayerEnterCheckpoint :: chandler where "cb_OnPlayerEnterCheckpoint = ([CTInt], UnlessFalse)"
definition cb_OnPlayerLeaveCheckpoint :: chandler where "cb_OnPlayerLeaveCheckpoint = ([CTInt], Ignored)"
definition cb_OnPlayerEnterRaceCheckpoint :: chandler where "cb_OnPlayerEnterRaceCheckpoint = ([CTInt], UnlessFalse)"
definition cb_OnPlayerLeaveRaceCheckpoint :: chandler where "cb_OnPlayerLeaveRaceCheckpoint = ([CTInt], Ignored)"
definition cb_OnRconCommand :: chandler where "cb_OnRconCommand = ([CTString], UnlessTrue)"
definition cb_OnPlayerRequestSpawn :: chandler where "cb_OnPlayerRequestSpawn = ([CTInt], UnlessFalse)"
definition cb_OnObjectMoved :: chandler where "cb_OnObjectMoved = ([CTInt], Ignored)"
definition cb_OnPlayerObjectMoved :: chandler where "cb_OnPlayerObjectMoved = ([CTInt, CTInt], Ignored)"
definition cb_OnPlayerPickUpPickup :: chandler where "cb_OnPlayerPickUpPickup = ([CTInt, CTInt], Ignored)"
definition cb_OnVehicleMod :: chandler where "cb_OnVehicleMod = ([CTInt, CTInt, CTInt], UnlessFalse)"
definition cb_OnEnterExitModShop :: chandler where "cb_OnEnterExitModShop = ([CTInt, CTInt, CTInt], Ignored)"
definition cb_OnVehiclePaintjob :: chandler where "cb_OnVehiclePaintjob = ([CTInt, CTInt, CTInt], Ignored)"
definition cb_OnVehicleRespray :: chandler where "cb_OnVehicleRespray = ([CTInt, CTInt, CTInt, CTInt], Ignored)"
definition cb_OnVehicleDamageStatusUpdate :: chandler where "cb_OnVehicleDamageStatusUpdate = ([CTInt, CTInt], Ignored)"
definition cb_OnUnoccupiedVehicleUpdate :: chandler where "cb_OnUnoccupiedVehicleUpdate = ([CTInt, CTInt, CTInt], Ignored)"
definition cb_OnPlayerSelectedMenuRow :: chandler where "cb_OnPlayerSelectedMenuRow = ([CTInt, CTInt], Ignored)"
definition cb_OnPlayerExitedMenu :: chandler where "cb_OnPlayerExitedMenu = ([CTInt], Ignored)"
definition cb_OnPlayerInteriorChange :: chandler where "cb_OnPlayerInteriorChange = ([CTInt, CTInt, CTInt], Ignored)"
definition cb_OnPlayerKeyStateChange :: chandler where "cb_OnPlayerKeyStateChange = ([CTInt, CTInt, CTInt], UnlessFalse)"
definition cb_OnRconLoginAttempt :: chandler where "cb_OnRconLoginAttempt = ([CTString, CTString, CTBool], Ignored)"
definition cb_OnPlayerUpdate :: chandler where "cb_OnPlayerUpdate = ([CTInt], UnlessFalse)"
definition cb_OnPlayerStreamIn :: chandler where "cb_OnPlayerStreamIn = ([CTInt, CTInt], Ignored)"
definition cb_OnPlayerStreamOut :: chandler where "cb_OnPlayerStreamOut = ([CTInt, CTInt], Ignored)"
definition cb_OnVehicleStreamIn :: chandler where "cb_OnVehicleStreamIn = ([CTInt, CTInt], Ignored)"
definition cb_OnVehicleStreamOut :: chandler where "cb_OnVehicleStreamOut = ([CTInt, CTInt], Ignored)"
definition cb_OnDialogResponse :: chandler where "cb_OnDialogResponse = ([CTInt, CTInt, CTInt, CTInt, CTString], UnlessTrue)"
definition cb_OnPlayerTakeDamage :: chandler where "cb_OnPlayerTakeDamage = ([CTInt, CTInt, CTFloat, CTInt], Ignored)"
definition cb_OnPlayerGiveDamage :: chandler where "cb_OnPlayerGiveDamage = ([CTInt, CTInt, CTFloat, CTInt], Ignored)"
definition cb_OnPlayerClickMap :: chandler where "cb_OnPlayerClickMap = ([CTInt, CTFloat, CTFloat, CTFloat], Ignored)"
definition cb_OnPlayerClickPlayer :: chandler where "cb_OnPlayerClickPlayer = ([CTInt, CTInt, CTInt], Ignored)"
definition cb_OnPlayerEditObject :: chandler where "cb_OnPlayerEditObject = ([CTInt, CTBool, CTInt, CTInt, CTFloat, CTFloat, CTFloat, CTFloat, CTFloat, CTFloat], Ignored)"
definition cb_OnPlayerEditAttachedObject :: chandler where "cb_OnPlayerEditAttachedObject = ([CTInt, CTInt, CTInt, CTInt, CTInt, CTFloat, CTFloat, CTFloat, CTFloat, CTFloat, CTFloat, CTFloat, CTFloat, CTFloat], Ignored)"
definition cb_OnPlayerSelectObject :: chandler where "cb_OnPlayerSelectObject = ([CTInt, CTInt, CTInt, CTInt, CTFloat, CTFloat, CTFloat], Ignored)"

text \<open>\<^verbatim>\<open>RegisterCallbacks\<close>\<close>

definition callback_handlers :: "(string \<times> chandler) list" where
  "callback_handlers = [
    (''OnGameModeInit'', cb_OnGameModeInit), (''OnGameModeExit'', cb_OnGameModeExit), (''OnPlayerConnect'', cb_OnPlayerConnect),
    (''OnPlayerDisconnect'', cb_OnPlayerDisconnect), (''OnPlayerSpawn'', cb_OnPlayerSpawn), (''OnPlayerDeath'', cb_OnPlayerDeath),
    (''OnVehicleSpawn'', cb_OnVehicleSpawn), (''OnVehicleDeath'', cb_OnVehicleDeath), (''OnPlayerText'', cb_OnPlayerText),
    (''OnPlayerCommandText'', cb_OnPlayerCommandText), (''OnPlayerRequestClass'', cb_OnPlayerRequestClass),
    (''OnPlayerEnterVehicle'', cb_OnPlayerEnterVehicle), (''OnPlayerExitVehicle'', cb_OnPlayerExitVehicle),
    (''OnPlayerStateChange'', cb_OnPlayerStateChange), (''OnPlayerEnterCheckpoint'', cb_OnPlayerEnterCheckpoint),
    (''OnPlayerLeaveCheckpoint'', cb_OnPlayerLeaveCheckpoint), (''OnPlayerEnterRaceCheckpoint'', cb_OnPlayerEnterRaceCheckpoint),
    (''OnPlayerLeaveRaceCheckpoint'', cb_OnPlayerLeaveRaceCheckpoint), (''OnRconCommand'', cb_OnRconCommand),
    (''OnPlayerRequestSpawn'', cb_OnPlayerRequestSpawn), (''OnObjectMoved'', cb_OnObjectMoved),
    (''OnPlayerObjectMoved'', cb_OnPlayerObjectMoved), (''OnPlayerPickUpPickup'', cb_OnPlayerPickUpPickup),
    (''OnVehicleMod'', cb_OnVehicleMod), (''OnEnterExitModShop'', cb_OnEnterExitModShop),
    (''OnVehiclePaintjob'', cb_OnVehiclePaintjob), (''OnVehicleRespray'', cb_OnVehicleRespray),
    (''OnVehicleDamageStatusUpdate'', cb_OnVehicleDamageStatusUpdate),
    (''OnUnoccupiedVehicleUpdate'', cb_OnUnoccupiedVehicleUpdate), (''OnPlayerSelectedMenuRow'', cb_OnPlayerSelectedMenuRow),
    (''OnPlayerExitedMenu'', cb_OnPlayerExitedMenu), (''OnPlayerInteriorChange'', cb_OnPlayerInteriorChange),
    (''OnPlayerKeyStateChange'', cb_OnPlayerKeyStateChange), (''OnRconLoginAttempt'', cb_OnRconLoginAttempt),
    (''OnPlayerUpdate'', cb_OnPlayerUpdate), (''OnPlayerStreamIn'', cb_OnPlayerStreamIn),
    (''OnPlayerStreamOut'', cb_OnPlayerStreamOut), (''OnVehicleStreamIn'', cb_OnVehicleStreamIn),
    (''OnVehicleStreamOut'', cb_OnVehicleStreamOut), (''OnDialogResponse'', cb_OnDialogResponse),
    (''OnPlayerTakeDamage'', cb_OnPlayerTakeDamage), (''OnPlayerGiveDamage'', cb_OnPlayerGiveDamage),
    (''OnPlayerClickMap'', cb_OnPlayerClickMap), (''OnPlayerClickPlayer'', cb_OnPlayerClickPlayer),
    (''OnPlayerEditObject'', cb_OnPlayerEditObject), (''OnPlayerEditAttachedObject'', cb_OnPlayerEditAttachedObject),
    (''OnPlayerSelectObject'', cb_OnPlayerSelectObject)]"

definition stack_arg :: "machine \<Rightarrow> nat \<Rightarrow> ctype \<Rightarrow> exn + carg" where
  "stack_arg m i t = (case t of CTInt \<Rightarrow> bindR (GetStackCell m i) (\<lambda>c. Inr (CInt c)) | CTBool \<Rightarrow> bindR (GetStackBool m i) (\<lambda>b. Inr (CBool b))
     | CTFloat \<Rightarrow> bindR (GetStackFloat m i) (\<lambda>f. Inr (CFloat f)) | CTString \<Rightarrow> bindR (GetStackString m i) (\<lambda>s. Inr (CStr s)))"

fun stack_args :: "machine \<Rightarrow> nat \<Rightarrow> ctype list \<Rightarrow> exn + carg list" where
  "stack_args m i [] = Inr []"
| "stack_args m i (t # ts) = bindR (stack_arg m i t) (\<lambda>a. bindR (stack_args m (Suc i) ts) (\<lambda>as. Inr (a # as)))"

text \<open>The state: the script that is the game mode, the public function looked up last, the registered plugins, the machines, and what
  the plugins and the server have. \<open>retval\<close> is where the server wants the result, if it does.\<close>

record 'h hooks =
  hk_gamemode :: "nat option"
  hk_public :: string
  hk_plugins :: "nat list"
  hk_machine :: "nat \<Rightarrow> machine"
  hk_rest :: 'h

type_synonym ('h, 'a) kprog = "('h hooks, 'a) prog"

record 'h hooks_env =
  plugin_symbol :: "nat \<Rightarrow> string \<Rightarrow> nat option"
  plugin_call :: "nat \<Rightarrow> carg list \<Rightarrow> ('h, bool) kprog"
  amxFindPublic :: "nat \<Rightarrow> string \<Rightarrow> int \<times> int"
  amxExec :: "nat \<Rightarrow> amxcell option \<Rightarrow> int \<Rightarrow> ('h, int \<times> amxcell option) kprog"

definition run_handler :: "'h hooks_env \<Rightarrow> chandler \<Rightarrow> nat \<Rightarrow> nat \<Rightarrow> amxcell option \<Rightarrow> ('h, bool \<times> amxcell option) kprog" where
  "run_handler e h amx callback retval = (case h of (types, mode) \<Rightarrow> seq (gets hk_machine) (\<lambda>ms. seq (liftR (stack_args (ms amx) 0 types)) (\<lambda>as.
     seq (plugin_call e callback as) (\<lambda>r. ret (case mode of Ignored \<Rightarrow> (True, retval)
       | UnlessFalse \<Rightarrow> (r, map_option (\<lambda>_. of_bool r) retval) | UnlessTrue \<Rightarrow> (\<not> r, map_option (\<lambda>_. of_bool r) retval))))))"

section \<open>Dispatch\<close>

text \<open>\<^verbatim>\<open>pluginMap_\<close> is ordered by the plugins' addresses. The map of symbols of each is only ever looked at through a copy, so that
  it stays empty and every call asks the plugin again.\<close>

definition RegisterPlugin :: "nat \<Rightarrow> ('h, unit) kprog" where
  "RegisterPlugin p = modify (\<lambda>s. s\<lparr>hk_plugins := (if p \<in> set (hk_plugins s) then hk_plugins s else insort p (hk_plugins s))\<rparr>)"

definition UnregisterPlugin :: "nat \<Rightarrow> ('h, unit) kprog" where
  "UnregisterPlugin p = modify (\<lambda>s. s\<lparr>hk_plugins := removeAll p (hk_plugins s)\<rparr>)"

fun dispatch :: "'h hooks_env \<Rightarrow> chandler \<Rightarrow> nat \<Rightarrow> string \<Rightarrow> nat list \<Rightarrow> amxcell option \<Rightarrow> ('h, bool \<times> amxcell option) kprog" where
  "dispatch e h amx name [] retval = ret (True, retval)"
| "dispatch e h amx name (p # ps) retval = (case plugin_symbol e p name of None \<Rightarrow> dispatch e h amx name ps retval
     | Some callback \<Rightarrow> seq (run_handler e h amx callback retval) (\<lambda>(ok, retval).
         if \<not> ok then ret (False, retval) else dispatch e h amx name ps retval))"

definition HandleCallback :: "'h hooks_env \<Rightarrow> nat \<Rightarrow> string \<Rightarrow> amxcell option \<Rightarrow> ('h, bool \<times> amxcell option) kprog" where
  "HandleCallback e amx name retval = (case map_of callback_handlers name of None \<Rightarrow> ret (True, retval)
     | Some h \<Rightarrow> seq (gets hk_plugins) (\<lambda>ps. dispatch e h amx name ps retval))"

section \<open>The replaced functions\<close>

definition AMX_ERR_NONE :: int where "AMX_ERR_NONE = 0"
definition AMX_EXEC_MAIN :: int where "AMX_EXEC_MAIN = - 1"
definition AMX_EXEC_CONT :: int where "AMX_EXEC_CONT = - 2"
definition AMX_EXEC_GDK :: int where "AMX_EXEC_GDK = - 10"

text \<open>\<^verbatim>\<open>amx_FindPublic\<close>: error and index.\<close>

definition hook_FindPublic :: "'h hooks_env \<Rightarrow> nat \<Rightarrow> string \<Rightarrow> ('h, int \<times> int) kprog" where
  "hook_FindPublic e amx name = (case amxFindPublic e amx name of (err, index) \<Rightarrow> seq (gets hk_gamemode) (\<lambda>gm.
     if gm = Some amx then andthen (modify (\<lambda>s. s\<lparr>hk_public := name\<rparr>))
       (ret (if err \<noteq> AMX_ERR_NONE then (AMX_ERR_NONE, AMX_EXEC_GDK) else (err, index)))
     else ret (err, index)))"

definition modMachine :: "nat \<Rightarrow> (machine \<Rightarrow> machine) \<Rightarrow> ('h, unit) kprog" where
  "modMachine amx f = modify (\<lambda>s. s\<lparr>hk_machine := (hk_machine s)(amx := f (hk_machine s amx))\<rparr>)"

definition hook_Exec :: "'h hooks_env \<Rightarrow> nat \<Rightarrow> amxcell option \<Rightarrow> int \<Rightarrow> ('h, int \<times> amxcell option) kprog" where
  "hook_Exec e amx retval index =
     seq (if index = AMX_EXEC_MAIN then andthen (modify (\<lambda>s. s\<lparr>hk_gamemode := Some amx\<rparr>))
            (seq (HandleCallback e amx ''OnGameModeInit'' retval) (\<lambda>(_, retval). ret (True, retval)))
          else seq (gets hk_gamemode) (\<lambda>gm. if gm = Some amx \<and> index \<noteq> AMX_EXEC_CONT
            then seq (gets hk_public) (\<lambda>name. HandleCallback e amx name retval) else ret (True, retval)))
     (\<lambda>(canDoExec, retval).
     seq (if canDoExec \<and> index \<noteq> AMX_EXEC_GDK then amxExec e amx retval index
          else andthen (modMachine amx (\<lambda>m. m\<lparr>am_stk := am_stk m + am_paramcount m * 4\<rparr>)) (ret (AMX_ERR_NONE, retval)))
     (\<lambda>(err, retval). andthen (modMachine amx (\<lambda>m. m\<lparr>am_paramcount := 0\<rparr>)) (ret (err, retval))))"

text \<open>\<^verbatim>\<open>funcidx\<close> for scripts, which must not see the index that stands for no function. \<^verbatim>\<open>amx_StrParam\<close> makes a null pointer of an
  empty string.\<close>

definition fixed_funcidx :: "'h hooks_env \<Rightarrow> nat \<Rightarrow> string \<Rightarrow> ('h, int) kprog" where
  "fixed_funcidx e amx name = (if name = [] then throw Undefined else seq (hook_FindPublic e amx name) (\<lambda>(err, index).
     ret (if err \<noteq> AMX_ERR_NONE \<or> index = AMX_EXEC_GDK then - 1 else index)))"

end
