(* ===== verification/Bridge.thy ===== *)
theory Bridge
  imports GdkHooks Callbacks
begin

text \<open>
  The game mode as a plugin: the functions it exports (\<^verbatim>\<open>application_gamemode_main.cpp\<close>), called by the layer of \<open>GdkHooks\<close> with what
  the server put on the stack of its script, are the events of \<open>Callbacks\<close>.
\<close>

section \<open>Exported functions\<close>

text \<open>The value of a \<^verbatim>\<open>float\<close> that is a number.\<close>

definition float_value :: "32 word \<Rightarrow> flt" where
  "float_value w =
     (let e = unat (drop_bit 23 w AND 255); m = unat (w AND mask 23); sign = (if bit w 31 then - 1 else 1) :: rat in
      sign * (if e = 0 then of_nat m else of_nat (2 ^ 23 + m)) * (if 150 \<le> max e 1 then 2 ^ (max e 1 - 150) else 1 / 2 ^ (150 - max e 1)))"

definition returning :: "bool \<Rightarrow> unit wprog \<Rightarrow> bool wprog" where
  "returning b m = andthen m (ret b)"

text \<open>A function is called with the arguments its handler reads; other ones do not happen.\<close>

definition exports :: "(string \<times> (carg list \<Rightarrow> bool wprog)) list" where
  "exports = [
    (''OnGameModeInit'', \<lambda>as. case as of [] \<Rightarrow> returning True OnGameModeInit | _ \<Rightarrow> throw Undefined),
    (''OnPlayerConnect'', \<lambda>as. case as of [CInt p] \<Rightarrow> OnPlayerConnect (sint p) | _ \<Rightarrow> throw Undefined),
    (''OnPlayerDisconnect'', \<lambda>as. case as of [CInt p, CInt r] \<Rightarrow> OnPlayerDisconnect (sint p) (sint r) | _ \<Rightarrow> throw Undefined),
    (''OnPlayerRequestClass'', \<lambda>as. case as of [CInt p, CInt c] \<Rightarrow> returning True (OnPlayerRequestClass (sint p)) | _ \<Rightarrow> throw Undefined),
    (''OnPlayerCommandText'', \<lambda>as. case as of [CInt p, CStr s] \<Rightarrow> returning True (OnPlayerCommandText (sint p) s) | _ \<Rightarrow> throw Undefined),
    (''OnPlayerKeyStateChange'', \<lambda>as. case as of [CInt p, CInt n, CInt k] \<Rightarrow> returning True (OnPlayerKeyStateChange (sint p) n k)
       | _ \<Rightarrow> throw Undefined),
    (''OnDialogResponse'', \<lambda>as. case as of [CInt p, CInt d, CInt r, CInt i, CStr s] \<Rightarrow>
       returning True (OnDialogResponse (sint p) (sint d) (sint r) (sint i) s) | _ \<Rightarrow> throw Undefined),
    (''OnPlayerDeath'', \<lambda>as. case as of [CInt p, CInt k, CInt r] \<Rightarrow> returning True (OnPlayerDeath (sint p) (sint k) (sint r)) | _ \<Rightarrow> throw Undefined),
    (''OnPlayerRequestSpawn'', \<lambda>as. case as of [CInt p] \<Rightarrow> returning False (OnPlayerRequestSpawn (sint p)) | _ \<Rightarrow> throw Undefined),
    (''OnPlayerSpawn'', \<lambda>as. case as of [CInt p] \<Rightarrow> returning True (OnPlayerSpawn (sint p)) | _ \<Rightarrow> throw Undefined),
    (''OnPlayerText'', \<lambda>as. case as of [CInt p, CStr s] \<Rightarrow> returning False (OnPlayerText (sint p) s) | _ \<Rightarrow> throw Undefined),
    (''OnPlayerPickUpPickup'', \<lambda>as. case as of [CInt p, CInt i] \<Rightarrow> returning True (OnPlayerPickUpPickup (sint p) (sint i)) | _ \<Rightarrow> throw Undefined),
    (''OnPlayerEditObject'', \<lambda>as. ret True),
    (''OnPlayerClickMap'', \<lambda>as. case as of [CInt p, CFloat x, CFloat y, CFloat z] \<Rightarrow>
       returning True (OnPlayerClickMap (sint p) (float_value x) (float_value y)) | _ \<Rightarrow> throw Undefined),
    (''OnPlayerClickPlayer'', \<lambda>as. case as of [CInt p, CInt q, CInt c] \<Rightarrow> returning True (OnPlayerClickPlayer (sint p) (sint q)) | _ \<Rightarrow> throw Undefined),
    (''OnPlayerEnterRaceCheckpoint'', \<lambda>as. case as of [CInt p] \<Rightarrow> returning True (OnPlayerReachRaceCheckpoint (sint p)) | _ \<Rightarrow> throw Undefined)]"

text \<open>The event a call of a public function is.\<close>

definition call_event :: "string \<Rightarrow> carg list \<Rightarrow> event option" where
  "call_event name as =
    (if name = ''OnGameModeInit'' then (case as of [] \<Rightarrow> Some GameModeInit | _ \<Rightarrow> None)
     else if name = ''OnPlayerConnect'' then (case as of [CInt p] \<Rightarrow> Some (Connect (sint p)) | _ \<Rightarrow> None)
     else if name = ''OnPlayerDisconnect'' then (case as of [CInt p, CInt r] \<Rightarrow> Some (Disconnect (sint p) (sint r)) | _ \<Rightarrow> None)
     else if name = ''OnPlayerRequestClass'' then (case as of [CInt p, CInt c] \<Rightarrow> Some (RequestClass (sint p)) | _ \<Rightarrow> None)
     else if name = ''OnPlayerCommandText'' then (case as of [CInt p, CStr s] \<Rightarrow> Some (CommandText (sint p) s) | _ \<Rightarrow> None)
     else if name = ''OnPlayerKeyStateChange'' then (case as of [CInt p, CInt n, CInt k] \<Rightarrow> Some (KeyStateChange (sint p) n k) | _ \<Rightarrow> None)
     else if name = ''OnDialogResponse'' then (case as of [CInt p, CInt d, CInt r, CInt i, CStr s] \<Rightarrow>
       Some (DialogResponse (sint p) (sint d) (sint r) (sint i) s) | _ \<Rightarrow> None)
     else if name = ''OnPlayerDeath'' then (case as of [CInt p, CInt k, CInt r] \<Rightarrow> Some (Death (sint p) (sint k) (sint r)) | _ \<Rightarrow> None)
     else if name = ''OnPlayerRequestSpawn'' then (case as of [CInt p] \<Rightarrow> Some (RequestSpawn (sint p)) | _ \<Rightarrow> None)
     else if name = ''OnPlayerSpawn'' then (case as of [CInt p] \<Rightarrow> Some (SpawnEvent (sint p)) | _ \<Rightarrow> None)
     else if name = ''OnPlayerText'' then (case as of [CInt p, CStr s] \<Rightarrow> Some (Chat (sint p) s) | _ \<Rightarrow> None)
     else if name = ''OnPlayerPickUpPickup'' then (case as of [CInt p, CInt i] \<Rightarrow> Some (PickUp (sint p) (sint i)) | _ \<Rightarrow> None)
     else if name = ''OnPlayerClickMap'' then (case as of [CInt p, CFloat x, CFloat y, CFloat z] \<Rightarrow>
       Some (ClickMap (sint p) (float_value x) (float_value y)) | _ \<Rightarrow> None)
     else if name = ''OnPlayerClickPlayer'' then (case as of [CInt p, CInt q, CInt c] \<Rightarrow> Some (ClickPlayer (sint p) (sint q)) | _ \<Rightarrow> None)
     else if name = ''OnPlayerEnterRaceCheckpoint'' then (case as of [CInt p] \<Rightarrow> Some (RaceCheckpoint (sint p)) | _ \<Rightarrow> None)
     else None)"

section \<open>The game mode as the only plugin\<close>

primrec index_of :: "string \<Rightarrow> (string \<times> 'a) list \<Rightarrow> nat option" where
  "index_of name [] = None"
| "index_of name (x # xs) = (if fst x = name then Some 0 else map_option Suc (index_of name xs))"

definition onRest :: "('h, 'a) prog \<Rightarrow> ('h, 'a) kprog" where
  "onRest m s = (case m (hk_rest s) of (r, h) \<Rightarrow> (r, s\<lparr>hk_rest := h\<rparr>))"

definition gamemode_env :: "nat \<Rightarrow> (nat \<Rightarrow> string \<Rightarrow> int \<times> int) \<Rightarrow>
    (nat \<Rightarrow> amxcell option \<Rightarrow> int \<Rightarrow> (world, int \<times> amxcell option) kprog) \<Rightarrow> world hooks_env" where
  "gamemode_env gm fnd exc = \<lparr>plugin_symbol = (\<lambda>p name. if p = gm then index_of name exports else None),
     plugin_call = (\<lambda>k as. onRest (snd (exports ! k) as)), amxFindPublic = fnd, amxExec = exc\<rparr>"

text \<open>What the server does to run a public function of its script.\<close>

definition run_public :: "world hooks_env \<Rightarrow> nat \<Rightarrow> string \<Rightarrow> amxcell option \<Rightarrow> (world, int \<times> amxcell option) kprog" where
  "run_public e amx name retval = seq (hook_FindPublic e amx name) (\<lambda>(err, index).
     if err = AMX_ERR_NONE then hook_Exec e amx retval index else ret (err, retval))"

section \<open>Arguments on the stack\<close>

definition ctype_of :: "carg \<Rightarrow> ctype" where
  "ctype_of a = (case a of CInt _ \<Rightarrow> CTInt | CBool _ \<Rightarrow> CTBool | CFloat _ \<Rightarrow> CTFloat | CStr _ \<Rightarrow> CTString)"

text \<open>A string is a row of cells, one for each character and a zero; its address is on the stack.\<close>

definition string_in :: "amxcell list \<Rightarrow> amxcell \<Rightarrow> string \<Rightarrow> bool" where
  "string_in d a s \<longleftrightarrow> CHR 0x00 \<notin> set s \<and> (\<exists>rest. drop (unat a div 4) d = map of_char s @ 0 # rest)"

definition on_stack :: "machine \<Rightarrow> carg list \<Rightarrow> bool" where
  "on_stack m as \<longleftrightarrow> (\<forall>i < length as. unat (am_stk m) div 4 + i < length (am_data m)
     \<and> (let c = am_data m ! (unat (am_stk m) div 4 + i) in
         case as ! i of CInt n \<Rightarrow> c = n | CBool b \<Rightarrow> (c \<noteq> 0) = b | CFloat f \<Rightarrow> c = f | CStr s \<Rightarrow> string_in (am_data m) c s))"

lemma low_byte: "unat ((of_char c :: amxcell) AND 0xFF) = of_char c" "(of_char c :: amxcell) = 0 \<longleftrightarrow> c = CHR 0x00"
  by (cases c; simp add: of_char_def)+

lemma cells_string_in: "CHR 0x00 \<notin> set s \<Longrightarrow> cells_string (map of_char s @ 0 # rest) = Inr s"
proof (induction s)
  case (Cons c s)
  then show ?case by (auto simp: low_byte)
qed simp

lemma stack_args_read:
  "\<forall>j < length as. stack_arg m (i + j) (ctype_of (as ! j)) = Inr (as ! j) \<Longrightarrow>
   stack_args m i (map ctype_of as) = Inr as"
proof (induction as arbitrary: i)
  case (Cons a as)
  have "stack_arg m i (ctype_of a) = Inr a" using Cons.prems by (auto dest: spec [of _ 0])
  moreover have "stack_args m (Suc i) (map ctype_of as) = Inr as"
  proof (rule Cons.IH, intro allI impI)
    fix j assume "j < length as"
    with spec [OF Cons.prems, of "Suc j"]
    show "stack_arg m (Suc i + j) (ctype_of (as ! j)) = Inr (as ! j)" by simp
  qed
  ultimately show ?case by simp
qed simp

lemma on_stack_args: "on_stack m as \<Longrightarrow> stack_args m 0 (map ctype_of as) = Inr as"
proof (rule stack_args_read, intro allI impI)
  fix j assume st: "on_stack m as" and j: "j < length as"
  then have "unat (am_stk m) div 4 + j < length (am_data m)" "case as ! j of CInt n \<Rightarrow> am_data m ! (unat (am_stk m) div 4 + j) = n
      | CBool b \<Rightarrow> (am_data m ! (unat (am_stk m) div 4 + j) \<noteq> 0) = b | CFloat f \<Rightarrow> am_data m ! (unat (am_stk m) div 4 + j) = f
      | CStr s \<Rightarrow> string_in (am_data m) (am_data m ! (unat (am_stk m) div 4 + j)) s"
    unfolding on_stack_def Let_def by blast+
  then show "stack_arg m (0 + j) (ctype_of (as ! j)) = Inr (as ! j)"
    by (cases "as ! j") (auto simp: stack_arg_def ctype_of_def GetStackCell_def GetStackBool_def GetStackFloat_def GetStackString_def data_cell_def
        string_in_def cells_string_in)
qed

section \<open>Delivery\<close>

lemma names_table:
  "map_of callback_handlers ''OnGameModeInit'' = Some ([], Ignored)" "map_of callback_handlers ''OnPlayerConnect'' = Some ([CTInt], UnlessFalse)"
  "map_of callback_handlers ''OnPlayerDisconnect'' = Some ([CTInt, CTInt], UnlessFalse)"
  "map_of callback_handlers ''OnPlayerRequestClass'' = Some ([CTInt, CTInt], UnlessFalse)"
  "map_of callback_handlers ''OnPlayerCommandText'' = Some ([CTInt, CTString], UnlessTrue)"
  "map_of callback_handlers ''OnPlayerKeyStateChange'' = Some ([CTInt, CTInt, CTInt], UnlessFalse)"
  "map_of callback_handlers ''OnDialogResponse'' = Some ([CTInt, CTInt, CTInt, CTInt, CTString], UnlessTrue)"
  "map_of callback_handlers ''OnPlayerDeath'' = Some ([CTInt, CTInt, CTInt], Ignored)"
  "map_of callback_handlers ''OnPlayerRequestSpawn'' = Some ([CTInt], UnlessFalse)" "map_of callback_handlers ''OnPlayerSpawn'' = Some ([CTInt], UnlessFalse)"
  "map_of callback_handlers ''OnPlayerText'' = Some ([CTInt, CTString], UnlessFalse)"
  "map_of callback_handlers ''OnPlayerPickUpPickup'' = Some ([CTInt, CTInt], Ignored)"
  "map_of callback_handlers ''OnPlayerClickMap'' = Some ([CTInt, CTFloat, CTFloat, CTFloat], Ignored)"
  "map_of callback_handlers ''OnPlayerClickPlayer'' = Some ([CTInt, CTInt, CTInt], Ignored)"
  "map_of callback_handlers ''OnPlayerEnterRaceCheckpoint'' = Some ([CTInt], UnlessFalse)"
  by (simp_all add: callback_handlers_def
    cb_OnGameModeInit_def cb_OnPlayerConnect_def cb_OnPlayerDisconnect_def cb_OnPlayerRequestClass_def cb_OnPlayerCommandText_def
    cb_OnPlayerKeyStateChange_def cb_OnDialogResponse_def cb_OnPlayerDeath_def cb_OnPlayerRequestSpawn_def cb_OnPlayerSpawn_def
    cb_OnPlayerText_def cb_OnPlayerPickUpPickup_def cb_OnPlayerClickMap_def cb_OnPlayerClickPlayer_def
    cb_OnPlayerEnterRaceCheckpoint_def)

lemma exports_table:
  "index_of ''OnGameModeInit'' exports = Some 0" "index_of ''OnPlayerConnect'' exports = Some 1" "index_of ''OnPlayerDisconnect'' exports = Some 2"
  "index_of ''OnPlayerRequestClass'' exports = Some 3" "index_of ''OnPlayerCommandText'' exports = Some 4"
  "index_of ''OnPlayerKeyStateChange'' exports = Some 5" "index_of ''OnDialogResponse'' exports = Some 6" "index_of ''OnPlayerDeath'' exports = Some 7"
  "index_of ''OnPlayerRequestSpawn'' exports = Some 8" "index_of ''OnPlayerSpawn'' exports = Some 9" "index_of ''OnPlayerText'' exports = Some 10"
  "index_of ''OnPlayerPickUpPickup'' exports = Some 11" "index_of ''OnPlayerClickMap'' exports = Some 13"
  "index_of ''OnPlayerClickPlayer'' exports = Some 14" "index_of ''OnPlayerEnterRaceCheckpoint'' exports = Some 15"
  by (simp_all add: exports_def)

lemma returning_unit: "seq (returning b m) (\<lambda>_. ret ()) = m"
  by (simp add: returning_def andthen_def seq_assoc)

lemma exports_nth:
  "snd (exports ! 0) [] = returning True OnGameModeInit" "snd (exports ! 1) [CInt p] = OnPlayerConnect (sint p)"
  "snd (exports ! 2) [CInt p, CInt r] = OnPlayerDisconnect (sint p) (sint r)"
  "snd (exports ! 3) [CInt p, CInt c] = returning True (OnPlayerRequestClass (sint p))"
  "snd (exports ! 4) [CInt p, CStr s] = returning True (OnPlayerCommandText (sint p) s)"
  "snd (exports ! 5) [CInt p, CInt n, CInt k] = returning True (OnPlayerKeyStateChange (sint p) n k)"
  "snd (exports ! 6) [CInt p, CInt d, CInt r, CInt i, CStr s] = returning True (OnDialogResponse (sint p) (sint d) (sint r) (sint i) s)"
  "snd (exports ! 7) [CInt p, CInt k, CInt r] = returning True (OnPlayerDeath (sint p) (sint k) (sint r))"
  "snd (exports ! 8) [CInt p] = returning False (OnPlayerRequestSpawn (sint p))" "snd (exports ! 9) [CInt p] = returning True (OnPlayerSpawn (sint p))"
  "snd (exports ! 10) [CInt p, CStr s] = returning False (OnPlayerText (sint p) s)"
  "snd (exports ! 11) [CInt p, CInt i] = returning True (OnPlayerPickUpPickup (sint p) (sint i))"
  "snd (exports ! 13) [CInt p, CFloat x, CFloat y, CFloat z] = returning True (OnPlayerClickMap (sint p) (float_value x) (float_value y))"
  "snd (exports ! 14) [CInt p, CInt q, CInt c] = returning True (OnPlayerClickPlayer (sint p) (sint q))"
  "snd (exports ! 15) [CInt p] = returning True (OnPlayerReachRaceCheckpoint (sint p))"
  by (simp_all add: exports_def)

text \<open>An event's public function is in both tables, and what the game mode exports under the name is the event.\<close>

definition delivers :: "string \<Rightarrow> carg list \<Rightarrow> event \<Rightarrow> bool" where
  "delivers name as ev \<longleftrightarrow> (\<exists>mode k. map_of callback_handlers name = Some (map ctype_of as, mode) \<and> index_of name exports = Some k
    \<and> seq (snd (exports ! k) as) (\<lambda>_. ret ()) = handle ev)"

lemma delivers_table:
  "delivers ''OnGameModeInit'' [] GameModeInit" "delivers ''OnPlayerConnect'' [CInt p] (Connect (sint p))"
  "delivers ''OnPlayerDisconnect'' [CInt p, CInt r] (Disconnect (sint p) (sint r))"
  "delivers ''OnPlayerRequestClass'' [CInt p, CInt c] (RequestClass (sint p))"
  "delivers ''OnPlayerCommandText'' [CInt p, CStr s] (CommandText (sint p) s)"
  "delivers ''OnPlayerKeyStateChange'' [CInt p, CInt n, CInt k] (KeyStateChange (sint p) n k)"
  "delivers ''OnDialogResponse'' [CInt p, CInt d, CInt r, CInt i, CStr s] (DialogResponse (sint p) (sint d) (sint r) (sint i) s)"
  "delivers ''OnPlayerDeath'' [CInt p, CInt k, CInt r] (Death (sint p) (sint k) (sint r))"
  "delivers ''OnPlayerRequestSpawn'' [CInt p] (RequestSpawn (sint p))" "delivers ''OnPlayerSpawn'' [CInt p] (SpawnEvent (sint p))"
  "delivers ''OnPlayerText'' [CInt p, CStr s] (Chat (sint p) s)" "delivers ''OnPlayerPickUpPickup'' [CInt p, CInt i] (PickUp (sint p) (sint i))"
  "delivers ''OnPlayerClickMap'' [CInt p, CFloat x, CFloat y, CFloat z] (ClickMap (sint p) (float_value x) (float_value y))"
  "delivers ''OnPlayerClickPlayer'' [CInt p, CInt q, CInt c] (ClickPlayer (sint p) (sint q))"
  "delivers ''OnPlayerEnterRaceCheckpoint'' [CInt p] (RaceCheckpoint (sint p))"
  by (simp_all add: delivers_def names_table exports_table exports_nth [unfolded One_nat_def] exports_nth ctype_of_def handle_def returning_unit)

lemma call_known: "call_event name as = Some ev \<Longrightarrow> delivers name as ev"
  unfolding call_event_def by (auto split: if_split_asm list.split_asm carg.split_asm intro: delivers_table)

definition popped :: "machine \<Rightarrow> machine" where
  "popped m = m\<lparr>am_stk := am_stk m + am_paramcount m * 4, am_paramcount := 0\<rparr>"

text \<open>C7. The server runs a public function that its script does not have, with arguments on the stack that stand for an event: the
  game mode handles the event. Then the arguments are taken from the stack and no error is reported; or an exception leaves the game mode.\<close>

theorem event_delivered:
  assumes ev: "call_event name as = Some ev" and st: "on_stack (hk_machine s amx) as"
    and gm: "hk_gamemode s = Some amx" "hk_plugins s = [gm]" and absent: "fst (fnd amx name) \<noteq> AMX_ERR_NONE"
  shows "\<exists>retval'. run_public (gamemode_env gm fnd exc) amx name retval s =
    (case handle ev (hk_rest s) of
       (Inl x, w) \<Rightarrow> (Inl x, s\<lparr>hk_public := name, hk_rest := w\<rparr>)
     | (Inr _, w) \<Rightarrow> (Inr (AMX_ERR_NONE, retval'),
         s\<lparr>hk_public := name, hk_rest := w, hk_machine := (hk_machine s)(amx := popped (hk_machine s amx))\<rparr>))"
proof -
  let ?e = "gamemode_env gm fnd exc" and ?s = "s\<lparr>hk_public := name\<rparr>"
  obtain mode k where k: "map_of callback_handlers name = Some (map ctype_of as, mode)" "index_of name exports = Some k"
      "seq (snd (exports ! k) as) (\<lambda>_. ret ()) = handle ev"
    using call_known [OF ev] unfolding delivers_def by blast
  obtain err index where find: "fnd amx name = (err, index)" "err \<noteq> AMX_ERR_NONE" using absent by (cases "fnd amx name") simp
  have found: "hook_FindPublic ?e amx name s = (Inr (AMX_ERR_NONE, AMX_EXEC_GDK), ?s)"
    using find gm(1) by (simp add: hook_FindPublic_def gamemode_env_def prog_defs)
  have args: "stack_args (hk_machine s amx) 0 (map ctype_of as) = Inr as" by (rule on_stack_args [OF st])
  obtain r w where m: "snd (exports ! k) as (hk_rest s) = (r, w)" by (cases "snd (exports ! k) as (hk_rest s)")
  have handle: "handle ev (hk_rest s) = (map_sum id (\<lambda>_. ()) r, w)"
    unfolding k(3) [symmetric] by (cases r) (simp_all add: seq_def m ret_def)
  have dispatched: "HandleCallback ?e amx name retval ?s = (case r of Inl x \<Rightarrow> (Inl x, ?s\<lparr>hk_rest := w\<rparr>)
      | Inr b \<Rightarrow> (Inr (case mode of Ignored \<Rightarrow> (True, retval) | UnlessFalse \<Rightarrow> (b, map_option (\<lambda>_. of_bool b) retval)
          | UnlessTrue \<Rightarrow> (\<not> b, map_option (\<lambda>_. of_bool b) retval)), ?s\<lparr>hk_rest := w\<rparr>))"
    using gm(2) args m
    by (cases r; cases mode) (simp_all add: HandleCallback_def k(1,2) gamemode_env_def run_handler_def onRest_def prog_defs)
  have index: "AMX_EXEC_GDK \<noteq> AMX_EXEC_MAIN" "AMX_EXEC_GDK \<noteq> AMX_EXEC_CONT"
    by (simp_all add: AMX_EXEC_GDK_def AMX_EXEC_MAIN_def AMX_EXEC_CONT_def)
  show ?thesis
  proof (cases r)
    case (Inl x)
    then show ?thesis
      using dispatched index gm(1) by (simp add: run_public_def seq_def found hook_Exec_def gets_def handle)
  next
    case (Inr b)
    then obtain c rv where "HandleCallback ?e amx name retval ?s = (Inr (c, rv), ?s\<lparr>hk_rest := w\<rparr>)"
      using dispatched by (cases mode) auto
    then show ?thesis
      using index gm(1) Inr
      by (simp add: run_public_def seq_def found hook_Exec_def gets_def handle modMachine_def modify_def andthen_def ret_def popped_def AMX_EXEC_GDK_def)
  qed
qed

definition demo_hooks :: "world hooks" where
  "demo_hooks = \<lparr>hk_gamemode = Some 0, hk_public = [], hk_plugins = [7],
     hk_machine = (\<lambda>_. \<lparr>am_data = [0, 1, 12, 47, 103, 0], am_stk = 4, am_paramcount = 2\<rparr>), hk_rest = demo_world\<rparr>"

theorem event_delivered_witness:
  "\<exists>retval'. run_public (gamemode_env 7 (\<lambda>_ _. (19, 0)) (\<lambda>_ r _. ret (0, r))) 0 ''OnPlayerText'' (Some 0) demo_hooks =
    (case handle (Chat 1 ''/g'') demo_world of
       (Inl x, w) \<Rightarrow> (Inl x, demo_hooks\<lparr>hk_public := ''OnPlayerText'', hk_rest := w\<rparr>)
     | (Inr _, w) \<Rightarrow> (Inr (AMX_ERR_NONE, retval'), demo_hooks\<lparr>hk_public := ''OnPlayerText'', hk_rest := w,
         hk_machine := (hk_machine demo_hooks)(0 := popped (hk_machine demo_hooks 0))\<rparr>))"
proof -
  have "call_event ''OnPlayerText'' [CInt 1, CStr ''/g''] = Some (Chat 1 ''/g'')" by (simp add: call_event_def)
  moreover have "on_stack (hk_machine demo_hooks 0) [CInt 1, CStr ''/g'']"
    by (simp add: on_stack_def demo_hooks_def less_Suc_eq string_in_def Let_def)
  moreover have "hk_gamemode demo_hooks = Some 0" "hk_plugins demo_hooks = [7]" "hk_rest demo_hooks = demo_world" by (simp_all add: demo_hooks_def)
  moreover have "fst ((\<lambda>_ _. (19, 0)) (0 :: nat) ''OnPlayerText'') \<noteq> AMX_ERR_NONE" by (simp add: AMX_ERR_NONE_def)
  ultimately show ?thesis
    using event_delivered [of "''OnPlayerText''" "[CInt 1, CStr ''/g'']" "Chat 1 ''/g''" demo_hooks 0 7 "\<lambda>_ _. (19, 0)" "\<lambda>_ r _. ret (0, r)" "Some 0"]
    by simp
qed

end
