(* ===== verification/Md5.thy ===== *)
theory Md5
  imports Prelude
begin

text \<open>
  The hash of \<^verbatim>\<open>src/freshcity.dependency.mongoclient/util/md5.c\<close>, with which the driver hides passwords (\<^verbatim>\<open>util/md5.hpp\<close>): a state
  that takes the message piece by piece. \<open>Md5_Correct\<close> compares it with RFC 1321.
\<close>

unbundle bit_operations_syntax

type_synonym md5_word = "32 word"
type_synonym octets = "8 word list"

definition T_MASK :: md5_word where "T_MASK = NOT 0"

text \<open>\<open>T1\<close> to \<open>T64\<close>, as the file has them.\<close>

definition md5_T :: "md5_word list" where
  "md5_T = [
     T_MASK XOR 0x28955b87, T_MASK XOR 0x173848a9, 0x242070db, T_MASK XOR 0x3e423111,
     T_MASK XOR 0x0a83f050, 0x4787c62a, T_MASK XOR 0x57cfb9ec, T_MASK XOR 0x02b96afe,
     0x698098d8, T_MASK XOR 0x74bb0850, T_MASK XOR 0x0000a44e, T_MASK XOR 0x76a32841,
     0x6b901122, T_MASK XOR 0x02678e6c, T_MASK XOR 0x5986bc71, 0x49b40821,
     T_MASK XOR 0x09e1da9d, T_MASK XOR 0x3fbf4cbf, 0x265e5a51, T_MASK XOR 0x16493855,
     T_MASK XOR 0x29d0efa2, 0x02441453, T_MASK XOR 0x275e197e, T_MASK XOR 0x182c0437,
     0x21e1cde6, T_MASK XOR 0x3cc8f829, T_MASK XOR 0x0b2af278, 0x455a14ed,
     T_MASK XOR 0x561c16fa, T_MASK XOR 0x03105c07, 0x676f02d9, T_MASK XOR 0x72d5b375,
     T_MASK XOR 0x0005c6bd, T_MASK XOR 0x788e097e, 0x6d9d6122, T_MASK XOR 0x021ac7f3,
     T_MASK XOR 0x5b4115bb, 0x4bdecfa9, T_MASK XOR 0x0944b49f, T_MASK XOR 0x4140438f,
     0x289b7ec6, T_MASK XOR 0x155ed805, T_MASK XOR 0x2b10cf7a, 0x04881d05,
     T_MASK XOR 0x262b2fc6, T_MASK XOR 0x1924661a, 0x1fa27cf8, T_MASK XOR 0x3b53a99a,
     T_MASK XOR 0x0bd6ddbb, 0x432aff97, T_MASK XOR 0x546bdc58, T_MASK XOR 0x036c5fc6,
     0x655b59c3, T_MASK XOR 0x70f3336d, T_MASK XOR 0x00100b82, T_MASK XOR 0x7a7ba22e,
     0x6fa87e4f, T_MASK XOR 0x01d3191f, T_MASK XOR 0x5cfebceb, 0x4e0811a1,
     T_MASK XOR 0x08ac817d, T_MASK XOR 0x42c50dca, 0x2ad7d2bb, T_MASK XOR 0x14792c6e]"

definition ROTATE_LEFT :: "md5_word \<Rightarrow> nat \<Rightarrow> md5_word" where
  "ROTATE_LEFT x n = push_bit n x OR drop_bit (32 - n) x"

text \<open>The functions of the four rounds.\<close>

datatype round_fn = F_round | G_round | H_round | I_round

fun round_value :: "round_fn \<Rightarrow> md5_word \<Rightarrow> md5_word \<Rightarrow> md5_word \<Rightarrow> md5_word" where
  "round_value F_round x y z = (x AND y) OR (NOT x AND z)"
| "round_value G_round x y z = (x AND z) OR (y AND NOT z)"
| "round_value H_round x y z = x XOR y XOR z"
| "round_value I_round x y z = y XOR (x OR NOT z)"

text \<open>\<^verbatim>\<open>SET\<close>: the four variables by their numbers, the word of the block, the rotation, the number of the constant.\<close>

type_synonym set_op = "round_fn \<times> nat \<times> nat \<times> nat \<times> nat \<times> nat \<times> nat \<times> nat"

definition SET :: "md5_word list \<Rightarrow> set_op \<Rightarrow> md5_word list \<Rightarrow> md5_word list" where
  "SET X = (\<lambda>(f, a, b, c, d, k, s, Ti) v.
     let t = v ! a + round_value f (v ! b) (v ! c) (v ! d) + X ! k + md5_T ! (Ti - 1) in v[a := ROTATE_LEFT t s + v ! b])"

text \<open>The operations on \<open>a\<close>, \<open>b\<close>, \<open>c\<close>, \<open>d\<close>, in the order of the file.\<close>

definition md5_sets :: "set_op list" where
  "md5_sets = [
     (F_round, 0, 1, 2, 3, 0, 7, 1), (F_round, 3, 0, 1, 2, 1, 12, 2), (F_round, 2, 3, 0, 1, 2, 17, 3), (F_round, 1, 2, 3, 0, 3, 22, 4),
     (F_round, 0, 1, 2, 3, 4, 7, 5), (F_round, 3, 0, 1, 2, 5, 12, 6), (F_round, 2, 3, 0, 1, 6, 17, 7), (F_round, 1, 2, 3, 0, 7, 22, 8),
     (F_round, 0, 1, 2, 3, 8, 7, 9), (F_round, 3, 0, 1, 2, 9, 12, 10), (F_round, 2, 3, 0, 1, 10, 17, 11), (F_round, 1, 2, 3, 0, 11, 22, 12),
     (F_round, 0, 1, 2, 3, 12, 7, 13), (F_round, 3, 0, 1, 2, 13, 12, 14), (F_round, 2, 3, 0, 1, 14, 17, 15), (F_round, 1, 2, 3, 0, 15, 22, 16),
     (G_round, 0, 1, 2, 3, 1, 5, 17), (G_round, 3, 0, 1, 2, 6, 9, 18), (G_round, 2, 3, 0, 1, 11, 14, 19), (G_round, 1, 2, 3, 0, 0, 20, 20),
     (G_round, 0, 1, 2, 3, 5, 5, 21), (G_round, 3, 0, 1, 2, 10, 9, 22), (G_round, 2, 3, 0, 1, 15, 14, 23), (G_round, 1, 2, 3, 0, 4, 20, 24),
     (G_round, 0, 1, 2, 3, 9, 5, 25), (G_round, 3, 0, 1, 2, 14, 9, 26), (G_round, 2, 3, 0, 1, 3, 14, 27), (G_round, 1, 2, 3, 0, 8, 20, 28),
     (G_round, 0, 1, 2, 3, 13, 5, 29), (G_round, 3, 0, 1, 2, 2, 9, 30), (G_round, 2, 3, 0, 1, 7, 14, 31), (G_round, 1, 2, 3, 0, 12, 20, 32),
     (H_round, 0, 1, 2, 3, 5, 4, 33), (H_round, 3, 0, 1, 2, 8, 11, 34), (H_round, 2, 3, 0, 1, 11, 16, 35), (H_round, 1, 2, 3, 0, 14, 23, 36),
     (H_round, 0, 1, 2, 3, 1, 4, 37), (H_round, 3, 0, 1, 2, 4, 11, 38), (H_round, 2, 3, 0, 1, 7, 16, 39), (H_round, 1, 2, 3, 0, 10, 23, 40),
     (H_round, 0, 1, 2, 3, 13, 4, 41), (H_round, 3, 0, 1, 2, 0, 11, 42), (H_round, 2, 3, 0, 1, 3, 16, 43), (H_round, 1, 2, 3, 0, 6, 23, 44),
     (H_round, 0, 1, 2, 3, 9, 4, 45), (H_round, 3, 0, 1, 2, 12, 11, 46), (H_round, 2, 3, 0, 1, 15, 16, 47), (H_round, 1, 2, 3, 0, 2, 23, 48),
     (I_round, 0, 1, 2, 3, 0, 6, 49), (I_round, 3, 0, 1, 2, 7, 10, 50), (I_round, 2, 3, 0, 1, 14, 15, 51), (I_round, 1, 2, 3, 0, 5, 21, 52),
     (I_round, 0, 1, 2, 3, 12, 6, 53), (I_round, 3, 0, 1, 2, 3, 10, 54), (I_round, 2, 3, 0, 1, 10, 15, 55), (I_round, 1, 2, 3, 0, 1, 21, 56),
     (I_round, 0, 1, 2, 3, 8, 6, 57), (I_round, 3, 0, 1, 2, 15, 10, 58), (I_round, 2, 3, 0, 1, 6, 15, 59), (I_round, 1, 2, 3, 0, 13, 21, 60),
     (I_round, 0, 1, 2, 3, 4, 6, 61), (I_round, 3, 0, 1, 2, 11, 10, 62), (I_round, 2, 3, 0, 1, 2, 15, 63), (I_round, 1, 2, 3, 0, 9, 21, 64)]"

text \<open>The words of a block on a little endian machine.\<close>

definition word_of_octets :: "octets \<Rightarrow> md5_word" where
  "word_of_octets bs = foldr (\<lambda>b w. ucast b OR push_bit 8 w) bs 0"

definition block_words :: "octets \<Rightarrow> md5_word list" where
  "block_words bs = map (\<lambda>k. word_of_octets (take 4 (drop (4 * k) bs))) [0..<16]"

record md5_state =
  md_count0 :: md5_word
  md_count1 :: md5_word
  md_abcd :: "md5_word list"
  md_buf :: octets

definition md5_process :: "octets \<Rightarrow> md5_state \<Rightarrow> md5_state" where
  "md5_process data st = st\<lparr>md_abcd := map2 (+) (md_abcd st) (fold (SET (block_words data)) md5_sets (md_abcd st))\<rparr>"

definition md5_init :: "md5_state \<Rightarrow> md5_state" where
  "md5_init st = st\<lparr>md_count0 := 0, md_count1 := 0,
     md_abcd := [0x67452301, T_MASK XOR 0x10325476, T_MASK XOR 0x67452301, 0x10325476]\<rparr>"

definition copy_to_buf :: "nat \<Rightarrow> octets \<Rightarrow> md5_state \<Rightarrow> md5_state" where
  "copy_to_buf offset bs st = st\<lparr>md_buf := take offset (md_buf st) @ bs @ drop (offset + length bs) (md_buf st)\<rparr>"

text \<open>The full blocks, and what is left for the next call.\<close>

function md5_blocks :: "octets \<Rightarrow> md5_state \<Rightarrow> md5_state" where
  "md5_blocks p st = (if 64 \<le> length p then md5_blocks (drop 64 p) (md5_process (take 64 p) st)
     else if p = [] then st else copy_to_buf 0 p st)"
  by pat_completeness auto
termination
  by (relation "measure (\<lambda>(p, st). length p)") auto

declare md5_blocks.simps [simp del]

text \<open>\<open>data\<close> has fewer than \<open>2 ^ 31 - 64\<close> bytes, the largest \<^verbatim>\<open>nbytes\<close> the sums of the function have room for.\<close>

definition md5_append :: "octets \<Rightarrow> md5_state \<Rightarrow> md5_state" where
  "md5_append data st =
     (let nbytes = length data; offset = unat (drop_bit 3 (md_count0 st) AND 63); nbits = of_nat (8 * nbytes) in
      if nbytes = 0 then st else
      let st = st\<lparr>md_count1 := md_count1 st + of_nat (nbytes div 2 ^ 29), md_count0 := md_count0 st + nbits\<rparr>;
          st = (if md_count0 st < nbits then st\<lparr>md_count1 := md_count1 st + 1\<rparr> else st) in
      if offset \<noteq> 0 then
        let n = (if 64 < offset + nbytes then 64 - offset else nbytes); st = copy_to_buf offset (take n data) st in
        if offset + n < 64 then st else md5_blocks (drop n data) (md5_process (md_buf st) st)
      else md5_blocks data st)"

definition octet_of :: "md5_word \<Rightarrow> nat \<Rightarrow> 8 word" where
  "octet_of w i = ucast (drop_bit (8 * i) w)"

definition md5_finish :: "md5_state \<Rightarrow> octets" where
  "md5_finish st =
     (let data = map (\<lambda>i. octet_of (if i < 4 then md_count0 st else md_count1 st) (i mod 4)) [0..<8];
          st = md5_append (0x80 # replicate (unat ((55 - drop_bit 3 (md_count0 st)) AND 63)) 0) st;
          st = md5_append data st
      in map (\<lambda>i. octet_of (md_abcd st ! (i div 4)) (i mod 4)) [0..<16])"

text \<open>\<^verbatim>\<open>md5.hpp\<close>\<close>

definition digestToString :: "octets \<Rightarrow> string" where
  "digestToString d = concat (map (\<lambda>c. [''0123456789abcdef'' ! unat (drop_bit 4 c AND 15), ''0123456789abcdef'' ! unat (c AND 15)]) d)"

definition octets_of :: "string \<Rightarrow> octets" where
  "octets_of s = map of_char s"

text \<open>A state on the stack, whose buffer holds anything.\<close>

definition md5_of_pieces :: "md5_state \<Rightarrow> string list \<Rightarrow> octets" where
  "md5_of_pieces st pieces = md5_finish (fold (\<lambda>p. md5_append (octets_of p)) pieces (md5_init st))"

definition md5simpledigest :: "md5_state \<Rightarrow> string \<Rightarrow> string" where
  "md5simpledigest st s = digestToString (md5_of_pieces st [s])"

end
