(* ===== verification/Md5_Correct.thy ===== *)
theory Md5_Correct
  imports Md5 Sha256_Correct
begin

text \<open>
  MD5 after RFC 1321 (padding, then for each block 64 steps on four variables that change their roles), and the proof that the
  code computes it however the message is cut into pieces.
\<close>

unbundle bit_operations_syntax

section \<open>The reference\<close>

type_synonym four = "md5_word \<times> md5_word \<times> md5_word \<times> md5_word"

text \<open>The constants the RFC prints.\<close>

definition rfc_T :: "md5_word list" where
  "rfc_T = [
     0xd76aa478, 0xe8c7b756, 0x242070db, 0xc1bdceee, 0xf57c0faf, 0x4787c62a, 0xa8304613, 0xfd469501,
     0x698098d8, 0x8b44f7af, 0xffff5bb1, 0x895cd7be, 0x6b901122, 0xfd987193, 0xa679438e, 0x49b40821,
     0xf61e2562, 0xc040b340, 0x265e5a51, 0xe9b6c7aa, 0xd62f105d, 0x02441453, 0xd8a1e681, 0xe7d3fbc8,
     0x21e1cde6, 0xc33707d6, 0xf4d50d87, 0x455a14ed, 0xa9e3e905, 0xfcefa3f8, 0x676f02d9, 0x8d2a4c8a,
     0xfffa3942, 0x8771f681, 0x6d9d6122, 0xfde5380c, 0xa4beea44, 0x4bdecfa9, 0xf6bb4b60, 0xbebfbc70,
     0x289b7ec6, 0xeaa127fa, 0xd4ef3085, 0x04881d05, 0xd9d4d039, 0xe6db99e5, 0x1fa27cf8, 0xc4ac5665,
     0xf4292244, 0x432aff97, 0xab9423a7, 0xfc93a039, 0x655b59c3, 0x8f0ccc92, 0xffeff47d, 0x85845dd1,
     0x6fa87e4f, 0xfe2ce6e0, 0xa3014314, 0x4e0811a1, 0xf7537e82, 0xbd3af235, 0x2ad7d2bb, 0xeb86d391]"

definition rfc_fn :: "nat \<Rightarrow> md5_word \<Rightarrow> md5_word \<Rightarrow> md5_word \<Rightarrow> md5_word" where
  "rfc_fn i x y z = (if i < 16 then (x AND y) OR (NOT x AND z) else if i < 32 then (x AND z) OR (y AND NOT z)
     else if i < 48 then x XOR y XOR z else y XOR (x OR NOT z))"

definition rfc_word :: "nat \<Rightarrow> nat" where
  "rfc_word i = (if i < 16 then i else if i < 32 then 5 * i + 1 else if i < 48 then 3 * i + 5 else 7 * i) mod 16"

definition rfc_shift :: "nat \<Rightarrow> nat" where
  "rfc_shift i = [[7, 12, 17, 22], [5, 9, 14, 20], [4, 11, 16, 23], [6, 10, 15, 21]] ! (i div 16) ! (i mod 4)"

definition rfc_step :: "md5_word list \<Rightarrow> nat \<Rightarrow> four \<Rightarrow> four" where
  "rfc_step X i = (\<lambda>(a, b, c, d). (d, b + word_rotl (rfc_shift i) (a + rfc_fn i b c d + X ! rfc_word i + rfc_T ! i), b, c))"

definition rfc_block :: "octets \<Rightarrow> four \<Rightarrow> four" where
  "rfc_block bs = (\<lambda>(a0, b0, c0, d0). case fold (rfc_step (block_words bs)) [0..<64] (a0, b0, c0, d0) of
     (a, b, c, d) \<Rightarrow> (a0 + a, b0 + b, c0 + c, d0 + d))"

definition rfc_pad :: "octets \<Rightarrow> octets" where
  "rfc_pad msg = msg @ [0x80] @ replicate ((119 - length msg mod 64) mod 64) 0
     @ map (\<lambda>i. ucast (drop_bit (8 * i) (of_nat (8 * length msg) :: 64 word))) [0..<8]"

definition rfc_md5 :: "octets \<Rightarrow> octets" where
  "rfc_md5 msg = (case fold rfc_block (chunks 64 (rfc_pad msg)) (0x67452301, 0xefcdab89, 0x98badcfe, 0x10325476) of
     (a, b, c, d) \<Rightarrow> concat (map (\<lambda>w. map (octet_of w) [0, 1, 2, 3]) [a, b, c, d]))"

section \<open>The steps\<close>

lemma ROTATE_LEFT_rotl: "0 < n \<Longrightarrow> n < 32 \<Longrightarrow> ROTATE_LEFT x n = word_rotl n x"
proof (rule bit_word_eqI)
  fix k assume n: "0 < n" "n < 32" and "k < LENGTH(32)"
  then have k: "k < 32" by simp
  show "bit (ROTATE_LEFT x n) k = bit (word_rotl n x) k"
  proof (cases "n \<le> k")
    case True
    then have "(k + (32 - n)) mod 32 = k - n" using n k by (simp add: mod_if)
    moreover have "\<not> bit x (32 - n + k)" using True n by (auto dest: bit_imp_le_length)
    ultimately show ?thesis using n k True by (auto simp: ROTATE_LEFT_def bit_simps)
  next
    case False
    then have "(k + (32 - n)) mod 32 = 32 - n + k" using n k by simp
    moreover have "bit (drop_bit (32 - n) x) k = bit x (32 - n + k)" by (simp add: bit_simps)
    ultimately show ?thesis using n k False by (simp add: ROTATE_LEFT_def bit_simps del: bit_drop_bit_eq)
  qed
qed

text \<open>The variable that step \<open>i\<close> sets, and the operation.\<close>

definition role :: "nat \<Rightarrow> nat" where
  "role i = (4 - i mod 4) mod 4"

definition set_of :: "nat \<Rightarrow> set_op" where
  "set_of i = ((if i < 16 then F_round else if i < 32 then G_round else if i < 48 then H_round else I_round),
     role i, (role i + 1) mod 4, (role i + 2) mod 4, (role i + 3) mod 4, rfc_word i, rfc_shift i, i + 1)"

lemma sets_eq: "md5_sets = map set_of [0..<64]"
  by code_simp

lemma T_eq: "md5_T = rfc_T"
  by code_simp

lemma shift_range: "i < 64 \<Longrightarrow> 0 < rfc_shift i \<and> rfc_shift i < 32"
proof -
  have "\<forall>i \<in> set [0..<64]. 0 < rfc_shift i \<and> rfc_shift i < 32" by code_simp
  then show "i < 64 \<Longrightarrow> 0 < rfc_shift i \<and> rfc_shift i < 32" by simp
qed

definition roles :: "nat \<Rightarrow> md5_word list \<Rightarrow> four" where
  "roles i v = (v ! role i, v ! ((role i + 1) mod 4), v ! ((role i + 2) mod 4), v ! ((role i + 3) mod 4))"

lemma fn_eq: "round_value (fst (set_of i)) = rfc_fn i"
  by (intro ext) (simp add: set_of_def rfc_fn_def)

lemma four_elems: "length v = 4 \<Longrightarrow> \<exists>w x y z. v = [w, x, y, z]"
  by (auto simp: numeral_eq_Suc length_Suc_conv)

lemma four_at:
  "[w, x, y, z] ! 0 = w" "[w, x, y, z] ! 1 = x" "[w, x, y, z] ! 2 = y" "[w, x, y, z] ! 3 = z"
  "[w, x, y, z][0 := n] = [n, x, y, z]" "[w, x, y, z][1 := n] = [w, n, y, z]" "[w, x, y, z][2 := n] = [w, x, n, z]"
  "[w, x, y, z][3 := n] = [w, x, y, n]"
  by (simp_all add: numeral_2_eq_2 numeral_3_eq_3)

lemma turns: "(0 + 1) mod 4 = (1 :: nat)" "(0 + 2) mod 4 = (2 :: nat)" "(0 + 3) mod 4 = (3 :: nat)" "(1 + 1) mod 4 = (2 :: nat)"
  "(1 + 2) mod 4 = (3 :: nat)" "(1 + 3) mod 4 = (0 :: nat)" "(2 + 1) mod 4 = (3 :: nat)" "(2 + 2) mod 4 = (0 :: nat)"
  "(2 + 3) mod 4 = (1 :: nat)" "(3 + 1) mod 4 = (0 :: nat)" "(3 + 2) mod 4 = (1 :: nat)" "(3 + 3) mod 4 = (2 :: nat)"
  by simp_all

lemma SET_step:
  assumes "i < 64" and "length v = 4"
  shows "roles (Suc i) (SET X (set_of i) v) = rfc_step X i (roles i v)"
proof -
  obtain w x y z where v: "v = [w, x, y, z]" using four_elems [OF assms(2)] by blast
  have S: "SET X (set_of i) v = v[role i := word_rotl (rfc_shift i) (v ! role i + rfc_fn i (v ! ((role i + 1) mod 4))
      (v ! ((role i + 2) mod 4)) (v ! ((role i + 3) mod 4)) + X ! rfc_word i + rfc_T ! i) + v ! ((role i + 1) mod 4)]"
    using shift_range [OF assms(1)] fn_eq [of i] by (simp add: SET_def set_of_def Let_def ROTATE_LEFT_rotl T_eq)
  define n where "n = word_rotl (rfc_shift i) (v ! role i + rfc_fn i (v ! ((role i + 1) mod 4))
      (v ! ((role i + 2) mod 4)) (v ! ((role i + 3) mod 4)) + X ! rfc_word i + rfc_T ! i) + v ! ((role i + 1) mod 4)"
  have R: "rfc_step X i (roles i v) = (v ! ((role i + 3) mod 4), n, v ! ((role i + 1) mod 4), v ! ((role i + 2) mod 4))"
    by (simp add: roles_def rfc_step_def n_def add.commute)
  have "i mod 4 = 0 \<or> i mod 4 = 1 \<or> i mod 4 = 2 \<or> i mod 4 = 3" by linarith
  then have "role i = 0 \<and> role (Suc i) = 3 \<or> role i = 3 \<and> role (Suc i) = 2 \<or> role i = 2 \<and> role (Suc i) = 1 \<or> role i = 1 \<and> role (Suc i) = 0"
    by (elim disjE) (simp_all add: role_def mod_Suc)
  then show ?thesis unfolding S R n_def [symmetric]
    by (elim disjE conjE) (simp_all only: roles_def v four_at turns)
qed

lemma length_SET [simp]: "length (SET X s v) = length v"
  by (simp add: SET_def Let_def split: prod.split)

lemma fold_SET:
  "n \<le> 64 \<Longrightarrow> length v = 4 \<Longrightarrow> length (fold (SET X) (map set_of [0..<n]) v) = 4 \<and>
    roles n (fold (SET X) (map set_of [0..<n]) v) = fold (rfc_step X) [0..<n] (roles 0 v)"
proof (induction n)
  case (Suc n)
  then have "length (fold (SET X) (map set_of [0..<n]) v) = 4"
    "roles n (fold (SET X) (map set_of [0..<n]) v) = fold (rfc_step X) [0..<n] (roles 0 v)" by simp_all
  moreover have "n < 64" using Suc.prems by simp
  ultimately show ?case by (simp add: SET_step)
qed simp

definition four_list :: "four \<Rightarrow> md5_word list" where
  "four_list = (\<lambda>(a, b, c, d). [a, b, c, d])"

lemma roles_list: "length v = 4 \<Longrightarrow> n mod 4 = 0 \<Longrightarrow> four_list (roles n v) = v"
proof -
  assume "length v = 4" "n mod 4 = 0"
  then obtain w x y z where "v = [w, x, y, z]" "role n = 0" using four_elems [of v] by (auto simp: role_def)
  then show ?thesis by (simp only: four_list_def roles_def turns four_at prod.case)
qed

lemma process_block:
  assumes "md_abcd st = four_list s"
  shows "md5_process bs st = st\<lparr>md_abcd := four_list (rfc_block bs s)\<rparr>"
proof -
  obtain a0 b0 c0 d0 where s: "s = (a0, b0, c0, d0)" by (cases s)
  let ?v = "fold (SET (block_words bs)) md5_sets (md_abcd st)"
  have l: "length (md_abcd st) = 4" using assms by (simp add: four_list_def s)
  have f: "length ?v = 4" "roles 64 ?v = fold (rfc_step (block_words bs)) [0..<64] s"
    using fold_SET [OF order_refl l, of "block_words bs"] assms
    by (simp_all add: sets_eq roles_def role_def four_list_def s del: upt_rec_numeral)
  have "map2 (+) (md_abcd st) ?v = four_list (rfc_block bs s)"
  proof -
    obtain a b c d where r: "roles 64 ?v = (a, b, c, d)" by (cases "roles 64 ?v")
    then have "?v = [a, b, c, d]" using roles_list [OF f(1), of 64] by (simp add: four_list_def)
    with r show ?thesis
      using f(2) assms by (simp add: rfc_block_def s four_list_def del: upt_rec_numeral)
  qed
  then show ?thesis by (simp add: md5_process_def)
qed

section \<open>Piece by piece\<close>

definition rfc_init :: four where
  "rfc_init = (0x67452301, 0xefcdab89, 0x98badcfe, 0x10325476)"

lemma chunks_append: "length xs = 64 * n \<Longrightarrow> chunks 64 (xs @ ys) = chunks 64 xs @ chunks 64 ys"
proof (induction n arbitrary: xs)
  case (Suc n)
  then have "xs \<noteq> []" "64 \<le> length xs" "length (drop 64 xs) = 64 * n" by auto
  moreover have "chunks 64 (xs @ ys) = take 64 xs # chunks 64 (drop 64 xs @ ys)"
    using chunks_step [of "xs @ ys" 64] calculation by simp
  moreover have "chunks 64 xs = take 64 xs # chunks 64 (drop 64 xs)" using chunks_step [of xs 64] calculation by simp
  ultimately show ?case using Suc.IH [of "drop 64 xs"] by simp
qed simp

definition feed :: "octets \<Rightarrow> four \<Rightarrow> four" where
  "feed bs = fold rfc_block (chunks 64 bs)"

lemma feed_append: "64 dvd length xs \<Longrightarrow> feed (xs @ ys) s = feed ys (feed xs s)"
  by (auto simp: feed_def chunks_append elim!: dvdE)

lemma feed_block: "length xs = 64 \<Longrightarrow> feed xs s = rfc_block xs s"
proof -
  assume "length xs = 64"
  then have "xs \<noteq> []" "take 64 xs = xs" "drop 64 xs = []" by auto
  then show ?thesis by (simp add: feed_def chunks_step)
qed

text \<open>What the state knows of the message so far. Length in bits, modulo \<open>2 ^ 64\<close>; the bytes since the last full block.\<close>

definition rest_of :: "octets \<Rightarrow> octets" where
  "rest_of msg = drop (64 * (length msg div 64)) msg"

definition holds_message :: "md5_state \<Rightarrow> octets \<Rightarrow> bool" where
  "holds_message st msg \<longleftrightarrow> md_count0 st = of_nat (8 * length msg) \<and> md_count1 st = of_nat (8 * length msg div 2 ^ 32)
     \<and> length (md_buf st) = 64 \<and> take (length msg mod 64) (md_buf st) = rest_of msg
     \<and> md_abcd st = four_list (feed (take (64 * (length msg div 64)) msg) rfc_init)"

lemma length_rest: "length (rest_of msg) = length msg mod 64"
  by (simp add: rest_of_def minus_mult_div_eq_mod)

lemma md5_blocks_eval:
  assumes "length (md_buf st) = 64" and "md_abcd st = four_list s"
  shows "\<exists>buf. md5_blocks p st = st\<lparr>md_abcd := four_list (feed (take (64 * (length p div 64)) p) s), md_buf := buf\<rparr> \<and> length buf = 64
    \<and> take (length p mod 64) buf = rest_of p"
  using assms
proof (induction p st arbitrary: s rule: md5_blocks.induct)
  case (1 p st)
  show ?case
  proof (cases "64 \<le> length p")
    case True
    let ?st = "md5_process (take 64 p) st" and ?q = "drop 64 p"
    have st: "?st = st\<lparr>md_abcd := four_list (rfc_block (take 64 p) s)\<rparr>" by (rule process_block [OF "1.prems"(2)])
    obtain buf where b: "md5_blocks ?q ?st = ?st\<lparr>md_abcd := four_list (feed (take (64 * (length ?q div 64)) ?q) (rfc_block (take 64 p) s)), md_buf := buf\<rparr>"
        "length buf = 64" "take (length ?q mod 64) buf = rest_of ?q"
      using "1.IH" [OF True, of "rfc_block (take 64 p) s"] "1.prems"(1) unfolding st by auto
    have d: "length p div 64 = Suc (length ?q div 64)" "length ?q mod 64 = length p mod 64" using True le_div_geq [of 64 "length p"] le_mod_geq [of 64 "length p"] by simp_all
    have "take (64 * (length p div 64)) p = take 64 p @ take (64 * (length ?q div 64)) ?q"
      unfolding d by (simp add: take_add)
    moreover have "feed (take 64 p @ take (64 * (length ?q div 64)) ?q) s = feed (take (64 * (length ?q div 64)) ?q) (rfc_block (take 64 p) s)"
      using True by (subst feed_append) (simp_all add: feed_block)
    moreover have "rest_of ?q = rest_of p" unfolding rest_of_def d(1) by (simp add: add.commute)
    ultimately show ?thesis
      using b True by (subst md5_blocks.simps) (intro exI [of _ buf], simp add: st b(3) [unfolded d(2)])
  next
    case False
    then have l: "length p div 64 = 0" "length p mod 64 = length p" by simp_all
    show ?thesis
    proof (cases "p = []")
      case True
      with "1.prems" show ?thesis by (subst md5_blocks.simps) (intro exI [of _ "md_buf st"], simp add: feed_def rest_of_def)
    next
      case nonempty: False
      with False l "1.prems" show ?thesis
        by (subst md5_blocks.simps) (intro exI [of _ "p @ drop (length p) (md_buf st)"], simp add: copy_to_buf_def rest_of_def feed_def)
    qed
  qed
qed

lemma add_halves:
  fixes a b B :: nat
  assumes "a < B" "b < B"
  shows "(a + b) mod B = (if B \<le> a + b then a + b - B else a + b)" "(a + b) div B = (if B \<le> a + b then 1 else 0)"
proof -
  have "(a + b) mod B = a + b - B \<and> (a + b) div B = 1" if "B \<le> a + b"
    using that assms le_mod_geq [OF that] le_div_geq [OF _ that] by simp
  with assms show "(a + b) mod B = (if B \<le> a + b then a + b - B else a + b)" "(a + b) div B = (if B \<le> a + b then 1 else 0)"
    by simp_all
qed

lemma unat_mod: "unat (of_nat n :: md5_word) = n mod 2 ^ 32"
  by (simp add: unat_of_nat take_bit_eq_mod)

lemma counts:
  fixes c0 c1 :: md5_word
  assumes "c0 = of_nat m" and "c1 = of_nat (m div 2 ^ 32)"
  shows "c0 + of_nat k = of_nat (m + k)"
    and "(if c0 + of_nat k < of_nat k then c1 + of_nat (k div 2 ^ 32) + 1 else c1 + of_nat (k div 2 ^ 32)) = of_nat ((m + k) div 2 ^ 32)"
proof -
  show "c0 + of_nat k = of_nat (m + k)" using assms by simp
  define B :: nat where "B = 2 ^ 32"
  have B: "0 < B" by (simp add: B_def)
  define a b where "a = m mod B" and "b = k mod B"
  have ab: "a < B" "b < B" using B by (simp_all add: a_def b_def)
  have "c0 + of_nat k < of_nat k \<longleftrightarrow> (m + k) mod B < b"
    unfolding b_def B_def assms by (simp only: word_less_nat_alt of_nat_add [symmetric] unat_mod)
  moreover have "(m + k) mod B = (a + b) mod B" by (simp only: a_def b_def mod_add_eq)
  ultimately have carry: "c0 + of_nat k < of_nat k \<longleftrightarrow> B \<le> a + b" using add_halves [OF ab] ab by auto
  have "(m + k) div B = m div B + k div B + (if B \<le> a + b then 1 else 0)"
    using div_add1_eq [of m k B] by (simp only: a_def [symmetric] b_def [symmetric] add_halves(2) [OF ab])
  then show "(if c0 + of_nat k < of_nat k then c1 + of_nat (k div 2 ^ 32) + 1 else c1 + of_nat (k div 2 ^ 32)) = of_nat ((m + k) div 2 ^ 32)"
    unfolding carry assms(2) B_def by simp
qed

lemma split_blocks:
  assumes "64 dvd length full"
  shows "take (64 * (length (full @ p) div 64)) (full @ p) = full @ take (64 * (length p div 64)) p" "rest_of (full @ p) = rest_of p"
    "length (full @ p) mod 64 = length p mod 64"
proof -
  obtain n where n: "length full = 64 * n" using assms by (elim dvdE)
  then have "length (full @ p) div 64 = n + length p div 64" by simp
  then have l: "64 * (length (full @ p) div 64) = length full + 64 * (length p div 64)" unfolding n by simp
  show "take (64 * (length (full @ p) div 64)) (full @ p) = full @ take (64 * (length p div 64)) p" "rest_of (full @ p) = rest_of p"
    unfolding rest_of_def l by simp_all
  show "length (full @ p) mod 64 = length p mod 64" by (simp add: n)
qed

lemma holds_blocks:
  assumes "64 dvd length full" and "md_count0 st = of_nat (8 * length (full @ p))" and "md_count1 st = of_nat (8 * length (full @ p) div 2 ^ 32)"
    and "length (md_buf st) = 64" and "md_abcd st = four_list (feed full rfc_init)"
  shows "holds_message (md5_blocks p st) (full @ p)"
proof -
  obtain buf where "md5_blocks p st = st\<lparr>md_abcd := four_list (feed (take (64 * (length p div 64)) p) (feed full rfc_init)), md_buf := buf\<rparr>"
      "length buf = 64" "take (length p mod 64) buf = rest_of p"
    using md5_blocks_eval [OF assms(4,5)] by blast
  then show ?thesis
    unfolding holds_message_def split_blocks [OF assms(1)] using assms(2,3) feed_append [OF assms(1)] by simp
qed

lemma offset_eq: "unat (drop_bit 3 (of_nat (8 * n) :: md5_word) AND 63) = n mod 64"
proof -
  have "(63 :: md5_word) = mask 6" by (simp add: mask_eq_exp_minus_1)
  then have "unat (drop_bit 3 (of_nat (8 * n) :: md5_word) AND 63) = take_bit 6 (drop_bit 3 (unat (of_nat (8 * n) :: md5_word)))"
    by (simp only: take_bit_eq_mask [symmetric] unsigned_take_bit_eq unat_drop_bit_eq)
  also have "\<dots> = 8 * n mod 2 ^ 32 div 8 mod 64" by (simp only: unat_mod take_bit_eq_mod drop_bit_eq_div) simp
  also have "8 * n mod 2 ^ 32 div 8 = n mod 2 ^ 29"
    using mult_mod_right [of 8 n "2 ^ 29"] by simp
  also have "n mod 2 ^ 29 mod 64 = n mod 64" by (simp add: mod_mod_cancel)
  finally show ?thesis .
qed

lemma rest_splits: "take (64 * (length msg div 64)) msg @ rest_of msg = msg"
  by (simp add: rest_of_def)

lemma append_holds:
  assumes h: "holds_message st msg"
  shows "holds_message (md5_append data st) (msg @ data)"
proof (cases "data = []")
  case True
  with h show ?thesis by (simp add: md5_append_def)
next
  case False
  define o' where "o' = length msg mod 64"
  define full where "full = take (64 * (length msg div 64)) msg"
  have full: "64 dvd length full" "msg = full @ rest_of msg" using times_div_less_eq_dividend [of 64 "length msg"] by (simp_all add: full_def rest_splits)
  have o': "length (rest_of msg) = o'" "o' < 64" by (simp_all add: o'_def length_rest)
  let ?c0 = "of_nat (8 * length (msg @ data)) :: md5_word" and ?c1 = "of_nat (8 * length (msg @ data) div 2 ^ 32) :: md5_word"
  define st' where "st' = st\<lparr>md_count1 := ?c1, md_count0 := ?c0\<rparr>"
  have c: "md_count0 st = of_nat (8 * length msg)" "md_count1 st = of_nat (8 * length msg div 2 ^ 32)" using h by (simp_all add: holds_message_def)
  have n29: "length data div 2 ^ 29 = 8 * length data div 2 ^ 32" using div_mult_mult1 [of 8 "length data" "2 ^ 29"] by simp
  have len: "8 * length msg + 8 * length data = 8 * length (msg @ data)" by simp
  note cs = counts [OF c, of "8 * length data", unfolded len]
  have st': "(let s = st\<lparr>md_count1 := md_count1 st + of_nat (length data div 2 ^ 29), md_count0 := md_count0 st + of_nat (8 * length data)\<rparr>
      in if md_count0 s < of_nat (8 * length data) then s\<lparr>md_count1 := md_count1 s + 1\<rparr> else s) = st'"
    unfolding n29 Let_def st'_def using cs by (auto simp del: of_nat_mult)
  have off: "unat (drop_bit 3 (md_count0 st) AND 63) = o'" unfolding c o'_def by (rule offset_eq)
  have ev: "md5_append data st = (if o' \<noteq> 0 then
      let n = (if 64 < o' + length data then 64 - o' else length data); s = copy_to_buf o' (take n data) st' in
      if o' + n < 64 then s else md5_blocks (drop n data) (md5_process (md_buf s) s) else md5_blocks data st')"
    using False st' unfolding md5_append_def off Let_def by simp
  have b: "length (md_buf st) = 64" "take o' (md_buf st) = rest_of msg" "md_abcd st = four_list (feed full rfc_init)"
    using h by (simp_all add: holds_message_def o'_def full_def)
  show ?thesis
  proof (cases "o' = 0")
    case True
    then have "msg = full" using full(2) o'(1) by simp
    moreover have "holds_message (md5_blocks data st') (full @ data)"
      by (rule holds_blocks [OF full(1)]) (simp_all add: st'_def b \<open>msg = full\<close> [symmetric])
    ultimately show ?thesis using ev True by simp
  next
    case nz: False
    define n where "n = (if 64 < o' + length data then 64 - o' else length data)"
    define s where "s = copy_to_buf o' (take n data) st'"
    have n: "n \<le> length data" "o' + n \<le> 64" using o'(2) by (auto simp: n_def)
    have s: "md_buf s = rest_of msg @ take n data @ drop (o' + n) (md_buf st)" "length (md_buf s) = 64" "md_abcd s = md_abcd st"
        "md_count0 s = ?c0" "md_count1 s = ?c1"
      using n b o' by (simp_all add: s_def copy_to_buf_def st'_def)
    show ?thesis
    proof (cases "o' + n < 64")
      case True
      then have nd: "n = length data" using n by (simp add: n_def split: if_splits)
      have "md5_append data st = s" using ev nz True by (simp add: n_def [symmetric] s_def [symmetric])
      moreover have "holds_message s (full @ (rest_of msg @ data))"
        unfolding holds_message_def split_blocks [OF full(1)]
        using True s b(1,3) o'(1) nd arg_cong [OF full(2), of length] by (simp add: rest_of_def [of "rest_of msg @ data"] add.assoc)
      ultimately show ?thesis using full(2) by (metis append_assoc)
    next
      case full64: False
      then have o64: "o' + n = 64" using n by simp
      let ?buf = "rest_of msg @ take n data"
      have buf: "md_buf s = ?buf" "length ?buf = 64" using s b o64 n o' by simp_all
      have p: "md5_process (md_buf s) s = s\<lparr>md_abcd := four_list (feed (full @ ?buf) rfc_init)\<rparr>"
        using process_block [of s "feed full rfc_init" ?buf] buf s(3) b(3) by (simp add: feed_append [OF full(1)] feed_block)
      have whole: "msg @ data = (full @ ?buf) @ drop n data" using arg_cong [OF full(2), of "\<lambda>x. x @ data"] by simp
      moreover have "holds_message (md5_blocks (drop n data) (md5_process (md_buf s) s)) ((full @ ?buf) @ drop n data)"
        unfolding p by (rule holds_blocks) (use full(1) buf s in \<open>simp_all add: calculation [symmetric] del: append_assoc\<close>)
      moreover have "md5_append data st = md5_blocks (drop n data) (md5_process (md_buf s) s)"
        using ev nz full64 by (simp add: n_def [symmetric] s_def [symmetric])
      ultimately show ?thesis by (simp only: whole)
    qed
  qed
qed

lemma pieces_hold: "holds_message st msg \<Longrightarrow> holds_message (fold (\<lambda>p. md5_append (octets_of p)) pieces st) (msg @ octets_of (concat pieces))"
proof (induction pieces arbitrary: st msg)
  case (Cons p ps)
  from Cons.IH [OF append_holds [OF Cons.prems, of "octets_of p"]] show ?case by (simp add: octets_of_def)
qed (simp add: octets_of_def)

lemma init_holds: "length (md_buf st) = 64 \<Longrightarrow> holds_message (md5_init st) []"
  by (simp add: holds_message_def md5_init_def rest_of_def feed_def four_list_def rfc_init_def T_MASK_def)

lemma pad_count: "unat ((55 - drop_bit 3 (of_nat (8 * n) :: md5_word)) AND 63) = (119 - n mod 64) mod 64"
proof -
  define w where "w = drop_bit 3 (of_nat (8 * n) :: md5_word)"
  define u q where "u = unat w" and "q = u div 64"
  have m: "(63 :: md5_word) = mask 6" by (simp add: mask_eq_exp_minus_1)
  have low: "unat (x AND 63) = unat x mod 64" for x :: md5_word
    unfolding m take_bit_eq_mask [symmetric] by (simp only: unsigned_take_bit_eq) (simp add: take_bit_eq_mod)
  have u: "u < 2 ^ 32" "u mod 64 = n mod 64" using offset_eq [of n] unsigned_less [of w, where 'a = nat] by (simp_all add: u_def w_def low)
  have "of_nat (2 ^ 32 + 55 - u) = (of_nat (2 ^ 32 + 55) :: md5_word) - of_nat u" using u(1) by (intro of_nat_diff) simp
  also have "\<dots> = 55 - w" unfolding of_nat_2p32 u_def by simp
  finally have "unat ((55 - w) AND 63) = (2 ^ 32 + 55 - u) mod 2 ^ 32 mod 64" by (simp only: low unat_mod [symmetric])
  also have "\<dots> = (2 ^ 32 + 55 - u) mod 64" by (rule mod_mod_cancel) simp
  also have "2 ^ 32 + 55 - u = 64 * (2 ^ 26 - 1 - q) + (119 - u mod 64)"
  proof -
    have "u = 64 * q + u mod 64" "u mod 64 < 64" "q < 2 ^ 26" using u(1) by (simp_all add: q_def less_mult_imp_div_less)
    then show ?thesis by simp
  qed
  finally show ?thesis unfolding w_def u(2) by (simp only: mod_mult_self4)
qed

lemma length_octets:
  assumes "md_count0 st = of_nat m" and "md_count1 st = of_nat (m div 2 ^ 32)"
  shows "map (\<lambda>i. octet_of (if i < 4 then md_count0 st else md_count1 st) (i mod 4)) [0..<8]
    = map (\<lambda>i. ucast (drop_bit (8 * i) (of_nat m :: 64 word))) [0..<8]"
proof (rule map_cong [OF refl])
  fix i :: nat assume "i \<in> set [0..<8]"
  then have i: "i < 8" by simp
  show "octet_of (if i < 4 then md_count0 st else md_count1 st) (i mod 4) = ucast (drop_bit (8 * i) (of_nat m :: 64 word))"
  proof (rule bit_word_eqI)
    fix k assume "k < LENGTH(8)"
    then have k: "k < 8" by simp
    show "bit (octet_of (if i < 4 then md_count0 st else md_count1 st) (i mod 4)) k = bit (ucast (drop_bit (8 * i) (of_nat m :: 64 word)) :: 8 word) k"
    proof (cases "i < 4")
      case True
      with k assms show ?thesis by (simp add: octet_of_def bit_simps)
    next
      case False
      then have "i mod 4 = i - 4" using i le_mod_geq [of 4 i] by simp
      then have "8 * (i mod 4) + k + 32 = 8 * i + k" using False by simp
      then have "bit (m div 2 ^ 32) (8 * (i mod 4) + k) = bit m (8 * i + k)"
        by (metis bit_drop_bit_eq comp_apply drop_bit_eq_div add.commute)
      moreover have "8 * (i mod 4) + k < 32" using k by simp
      ultimately show ?thesis using False k i assms by (simp add: octet_of_def bit_simps)
    qed
  qed
qed

lemma md5_finish_eval:
  assumes h: "holds_message st msg"
  shows "md5_finish st = rfc_md5 msg"
proof -
  let ?pad = "0x80 # replicate ((119 - length msg mod 64) mod 64) 0 :: octets"
  let ?data = "map (\<lambda>i. ucast (drop_bit (8 * i) (of_nat (8 * length msg) :: 64 word))) [0..<8] :: octets"
  have c: "md_count0 st = of_nat (8 * length msg)" "md_count1 st = of_nat (8 * length msg div 2 ^ 32)"
    using h by (simp_all add: holds_message_def)
  define st' where "st' = md5_append ?data (md5_append ?pad st)"
  have ev: "md5_finish st = map (\<lambda>i. octet_of (md_abcd st' ! (i div 4)) (i mod 4)) [0..<16]"
    unfolding md5_finish_def Let_def length_octets [OF c] st'_def unfolding c pad_count by (rule refl)
  have h': "holds_message st' (rfc_pad msg)"
    using append_holds [OF append_holds [OF h, of ?pad], of ?data] by (simp add: st'_def rfc_pad_def)
  have l: "length (rfc_pad msg) mod 64 = 0"
  proof -
    have split: "L + 9 + (55 - m) = 64 * (d + 1)" if "L = 64 * d + m" "m < 56" for L d m :: nat using that by arith
    have split': "L + 9 + (119 - m) = 64 * (d + 2)" if "L = 64 * d + m" "m < 64" for L d m :: nat using that by arith
    have "L + 9 + (119 - L mod 64) mod 64 = 64 * (if L mod 64 < 56 then L div 64 + 1 else L div 64 + 2)" for L :: nat
    proof (cases "L mod 64 < 56")
      case True
      then have "(119 - L mod 64) mod 64 = 55 - L mod 64" using le_mod_geq [of 64 "119 - L mod 64"] by simp
      with True split [of L "L div 64" "L mod 64"] show ?thesis by (simp only: if_True) (simp only: mult_div_mod_eq)
    next
      case False
      have "L mod 64 < 64" by simp
      with False have "(119 - L mod 64) mod 64 = 119 - L mod 64" by simp
      with False \<open>L mod 64 < 64\<close> show ?thesis using split' [of L "L div 64" "L mod 64"] by simp
    qed
    note pads = this [of "length msg"]
    have "length (rfc_pad msg) = length msg + 9 + (119 - length msg mod 64) mod 64" by (simp add: rfc_pad_def)
    note this [unfolded pads]
    then show ?thesis by (simp only: mod_mult_self1_is_0)
  qed
  then have "64 * (length (rfc_pad msg) div 64) = length (rfc_pad msg)"
    using mult_div_mod_eq [of 64 "length (rfc_pad msg)"] by (simp only: add_0_right)
  with h' have abcd: "md_abcd st' = four_list (feed (rfc_pad msg) rfc_init)" unfolding holds_message_def by simp
  obtain a b c d where f: "feed (rfc_pad msg) rfc_init = (a, b, c, d)" by (cases "feed (rfc_pad msg) rfc_init")
  have "[0..<16] = [0, 1, 2, 3, 4, 5, 6, 7, 8, 9, 10, 11, 12, 13, 14, 15 :: nat]" by (simp add: upt_rec)
  then show ?thesis unfolding ev abcd rfc_md5_def
    using f by (simp add: feed_def rfc_init_def four_list_def)
qed

text \<open>C18. The code computes MD5: a message that is handed to the hash in pieces, cut anywhere, gets the digest of RFC 1321 for the whole.\<close>

theorem md5_is_RFC1321:
  assumes "length (md_buf st) = 64"
  shows "md5_of_pieces st pieces = rfc_md5 (octets_of (concat pieces))"
  using md5_finish_eval [OF pieces_hold [OF init_holds [OF assms], of pieces]] by (simp add: md5_of_pieces_def)

theorem md5_is_RFC1321_witness:
  "md5_of_pieces \<lparr>md_count0 = 5, md_count1 = 0, md_abcd = [], md_buf = replicate 64 7\<rparr> [''user'', '':mongo:'', ''secret'']
   = rfc_md5 (octets_of ''user:mongo:secret'')"
  using md5_is_RFC1321 [of "\<lparr>md_count0 = 5, md_count1 = 0, md_abcd = [], md_buf = replicate 64 7\<rparr>" "[''user'', '':mongo:'', ''secret'']"] by simp

end
