(* ===== verification/Messages.thy ===== *)
theory Messages
  imports Wire
begin

text \<open>
  The messages between the driver and the server: their layout (\<^verbatim>\<open>src/freshcity.dependency.mongoclient/util/net/message.h\<close>), the
  requests as the driver writes them (\<^verbatim>\<open>client/dbclient.cpp\<close>, \<^verbatim>\<open>client/dbclientcursor.cpp\<close>) and the classes that read requests
  and replies (\<^verbatim>\<open>db/dbmessage.h\<close>). Objects are their bytes.
\<close>

section \<open>Layout\<close>

definition opReply :: "16 word" where "opReply = 1"
definition dbUpdate :: "16 word" where "dbUpdate = 2001"
definition dbInsert :: "16 word" where "dbInsert = 2002"
definition dbQuery :: "16 word" where "dbQuery = 2004"
definition dbGetMore :: "16 word" where "dbGetMore = 2005"
definition dbDelete :: "16 word" where "dbDelete = 2006"
definition dbKillCursors :: "16 word" where "dbKillCursors = 2007"

definition doesOpGetAResponse :: "16 word \<Rightarrow> bool" where
  "doesOpGetAResponse op \<longleftrightarrow> op = dbQuery \<or> op = dbGetMore"

text \<open>\<^verbatim>\<open>MsgData\<close>; its length, which is the first field, is that of the data and of the header.\<close>

record message =
  m_id :: "32 word"
  m_responseTo :: "32 word"
  m_operation :: "16 word"
  m_flags :: char
  m_version :: char
  m_data :: string

definition MsgDataHeaderSize :: nat where "MsgDataHeaderSize = 16"

definition message_len :: "message \<Rightarrow> nat" where
  "message_len m = MsgDataHeaderSize + length (m_data m)"

definition message_bytes :: "message \<Rightarrow> string" where
  "message_bytes m = le32 (of_nat (message_len m)) @ le32 (m_id m) @ le32 (m_responseTo m) @ le 2 (unat (m_operation m))
     @ [m_flags m, m_version m] @ m_data m"

text \<open>The fields of the bytes behind the length.\<close>

definition message_of :: "string \<Rightarrow> message" where
  "message_of s = \<lparr>m_id = of_nat (unle (take 4 s)), m_responseTo = of_nat (unle (take 4 (drop 4 s))),
     m_operation = of_nat (unle (take 2 (drop 8 s))), m_flags = s ! 10, m_version = s ! 11, m_data = drop 12 s\<rparr>"

text \<open>\<^verbatim>\<open>setData\<close>. The ids hold anything until the message is sent, which sets both.\<close>

definition setData :: "16 word \<Rightarrow> string \<Rightarrow> message" where
  "setData op s = \<lparr>m_id = 0, m_responseTo = 0, m_operation = op, m_flags = CHR 0x00, m_version = CHR 0x00, m_data = s\<rparr>"

section \<open>Requests\<close>

definition new_buf :: buf where
  "new_buf = \<lparr>bb_data = [], bb_size = 512\<rparr>"

text \<open>\<^verbatim>\<open>appendSelfToBufBuilder\<close>\<close>

definition obj_bytes :: "string \<Rightarrow> exn + string" where
  "obj_bytes o' = bindR (objsize o' 0) (\<lambda>n. if n = 0 then Inl AssertionException else if n < 0 then Inl Undefined else read o' 0 (nat n))"

definition appendSelfToBufBuilder :: "string \<Rightarrow> buf \<Rightarrow> exn + buf" where
  "appendSelfToBufBuilder o' b = bindR (obj_bytes o') (\<lambda>s. appendBuf s b)"

definition to_message :: "16 word \<Rightarrow> (buf \<Rightarrow> exn + buf) \<Rightarrow> exn + message" where
  "to_message op f = bindR (f new_buf) (\<lambda>b. Inr (setData op (bb_data b)))"

definition bthen :: "(buf \<Rightarrow> exn + buf) \<Rightarrow> (buf \<Rightarrow> exn + buf) \<Rightarrow> buf \<Rightarrow> exn + buf" where
  "bthen f g b = bindR (f b) g"

definition UpdateOption_Upsert :: "32 word" where "UpdateOption_Upsert = 1"
definition UpdateOption_Multi :: "32 word" where "UpdateOption_Multi = 2"
definition RemoveOption_JustOne :: "32 word" where "RemoveOption_JustOne = 1"

definition assembleRequest :: "string \<Rightarrow> string \<Rightarrow> 32 word \<Rightarrow> 32 word \<Rightarrow> string option \<Rightarrow> 32 word \<Rightarrow> exn + message" where
  "assembleRequest ns query nToReturn nToSkip fieldsToReturn queryOptions = to_message dbQuery
     (bthen (appendInt queryOptions) (bthen (appendStr ns) (bthen (appendInt nToSkip) (bthen (appendInt nToReturn)
     (bthen (appendSelfToBufBuilder query) (case fieldsToReturn of None \<Rightarrow> Inr | Some f \<Rightarrow> appendSelfToBufBuilder f))))))"

primrec append_all :: "string list \<Rightarrow> buf \<Rightarrow> exn + buf" where
  "append_all [] b = Inr b"
| "append_all (o' # os) b = bthen (appendSelfToBufBuilder o') (append_all os) b"

definition insert_message :: "string \<Rightarrow> string \<Rightarrow> 32 word \<Rightarrow> exn + message" where
  "insert_message ns obj flags = to_message dbInsert (bthen (appendInt flags) (bthen (appendStr ns) (appendSelfToBufBuilder obj)))"

definition insert_all_message :: "string \<Rightarrow> string list \<Rightarrow> 32 word \<Rightarrow> exn + message" where
  "insert_all_message ns v flags = to_message dbInsert (bthen (appendInt flags) (bthen (appendStr ns) (append_all v)))"

definition remove_message :: "string \<Rightarrow> string \<Rightarrow> bool \<Rightarrow> exn + message" where
  "remove_message ns query justOne = to_message dbDelete (bthen (appendInt 0) (bthen (appendStr ns)
     (bthen (appendInt (if justOne then RemoveOption_JustOne else 0)) (appendSelfToBufBuilder query))))"

definition update_message :: "string \<Rightarrow> string \<Rightarrow> string \<Rightarrow> bool \<Rightarrow> bool \<Rightarrow> exn + message" where
  "update_message ns query obj upsert multi = to_message dbUpdate (bthen (appendInt 0) (bthen (appendStr ns)
     (bthen (appendInt ((if upsert then UpdateOption_Upsert else 0) OR (if multi then UpdateOption_Multi else 0)))
     (bthen (appendSelfToBufBuilder query) (appendSelfToBufBuilder obj)))))"

definition getMore_message :: "32 word \<Rightarrow> string \<Rightarrow> 32 word \<Rightarrow> 64 word \<Rightarrow> exn + message" where
  "getMore_message opts ns n cursorId = to_message dbGetMore (bthen (appendInt opts) (bthen (appendStr ns) (bthen (appendInt n) (appendLong cursorId))))"

definition killCursor_message :: "64 word \<Rightarrow> exn + message" where
  "killCursor_message cursorId = to_message dbKillCursors (bthen (appendInt 0) (bthen (appendInt 1) (appendLong cursorId)))"

section \<open>Reading a request\<close>

text \<open>\<^verbatim>\<open>DbMessage\<close>: positions in the data of the message; \<open>None\<close> is the null pointer that \<^verbatim>\<open>nextjsobj\<close> is after the last object.\<close>

record dbmessage =
  d_msg :: message
  d_next :: "int option"
  d_mark :: "int option"

definition d_data :: int where "d_data = 4"

definition theEnd :: "dbmessage \<Rightarrow> int" where
  "theEnd d = int (length (m_data (d_msg d)))"

definition DbMessage :: "message \<Rightarrow> dbmessage" where
  "DbMessage m = \<lparr>d_msg = m, d_next = Some d_data, d_mark = None\<rparr>"

definition reservedField :: "dbmessage \<Rightarrow> exn + 32 word" where
  "reservedField d = read_int (m_data (d_msg d)) 0"

definition getns :: "dbmessage \<Rightarrow> exn + string" where
  "getns d = cstring (m_data (d_msg d)) d_data"

definition afterNS :: "dbmessage \<Rightarrow> exn + int" where
  "afterNS d = bindR (getns d) (\<lambda>s. Inr (d_data + int (length s) + 1))"

definition getInt :: "dbmessage \<Rightarrow> int \<Rightarrow> exn + 32 word" where
  "getInt d num = bindR (afterNS d) (\<lambda>p. read_int (m_data (d_msg d)) (p + 4 * num))"

definition getQueryNToReturn :: "dbmessage \<Rightarrow> exn + 32 word" where
  "getQueryNToReturn d = getInt d 1"

definition getInt64 :: "dbmessage \<Rightarrow> int \<Rightarrow> exn + 64 word" where
  "getInt64 d offsetBytes = bindR (afterNS d) (\<lambda>p. read_long (m_data (d_msg d)) (p + offsetBytes))"

definition resetPull :: "dbmessage \<Rightarrow> dbmessage" where
  "resetPull d = d\<lparr>d_next := Some d_data\<rparr>"

text \<open>The first thing that is pulled is behind the namespace.\<close>

definition pull_pos :: "dbmessage \<Rightarrow> exn + int" where
  "pull_pos d = (case d_next d of None \<Rightarrow> Inl Undefined | Some p \<Rightarrow> if p = d_data then afterNS d else Inr p)"

definition pullInt :: "dbmessage \<Rightarrow> exn + 32 word \<times> dbmessage" where
  "pullInt d = bindR (pull_pos d) (\<lambda>p. bindR (read_int (m_data (d_msg d)) p) (\<lambda>x. Inr (x, d\<lparr>d_next := Some (p + 4)\<rparr>)))"

definition pullInt64 :: "dbmessage \<Rightarrow> exn + 64 word \<times> dbmessage" where
  "pullInt64 d = bindR (pull_pos d) (\<lambda>p. bindR (read_long (m_data (d_msg d)) p) (\<lambda>x. Inr (x, d\<lparr>d_next := Some (p + 8)\<rparr>)))"

definition moreJSObjs :: "dbmessage \<Rightarrow> bool" where
  "moreJSObjs d \<longleftrightarrow> d_next d \<noteq> None"

text \<open>The last check compares the size with all of the data, not with what is left of them. (\<^verbatim>\<open>cmdLine.objcheck\<close> is off.)\<close>

definition nextJsObj :: "dbmessage \<Rightarrow> exn + int \<times> dbmessage" where
  "nextJsObj d = bindR (case d_next d of None \<Rightarrow> Inl Undefined
       | Some p \<Rightarrow> if p = d_data then bindR (afterNS d) (\<lambda>p. if p < theEnd d then Inr p else Inl AssertionException) else Inr p) (\<lambda>p.
     if \<not> 3 < theEnd d - p then Inl AssertionException
     else bindR (BSONObj_init (m_data (d_msg d)) p) (\<lambda>js. bindR (objsize (m_data (d_msg d)) js) (\<lambda>n.
       if \<not> 3 < n then Inl AssertionException
       else if \<not> n < theEnd d - d_data then Inl AssertionException
       else Inr (js, d\<lparr>d_next := (if theEnd d \<le> p + n then None else Some (p + n))\<rparr>))))"

definition markSet :: "dbmessage \<Rightarrow> dbmessage" where
  "markSet d = d\<lparr>d_mark := d_next d\<rparr>"

definition markReset :: "dbmessage \<Rightarrow> exn + dbmessage" where
  "markReset d = (case d_mark d of None \<Rightarrow> Inl AssertionException | Some p \<Rightarrow> Inr (d\<lparr>d_next := Some p\<rparr>))"

record query_message =
  q_ns :: string
  q_ntoskip :: "32 word"
  q_ntoreturn :: "32 word"
  q_options :: "32 word"
  q_query :: int
  q_fields :: "int option"

definition QueryMessage :: "dbmessage \<Rightarrow> exn + query_message \<times> dbmessage" where
  "QueryMessage d = bindR (getns d) (\<lambda>ns. bindR (pullInt d) (\<lambda>(ntoskip, d). bindR (pullInt d) (\<lambda>(ntoreturn, d).
     bindR (nextJsObj d) (\<lambda>(query, d). bindR (if moreJSObjs d then bindR (nextJsObj d) (\<lambda>(f, d). Inr (Some f, d)) else Inr (None, d))
       (\<lambda>(fields, d). bindR (read_int (m_data (d_msg d)) 0) (\<lambda>opts.
         Inr (\<lparr>q_ns = ns, q_ntoskip = ntoskip, q_ntoreturn = ntoreturn, q_options = opts, q_query = query, q_fields = fields\<rparr>, d)))))))"

section \<open>Reading a reply\<close>

text \<open>\<^verbatim>\<open>QueryResult\<close>: flags, cursor, position of the first object, number of objects, objects.\<close>

definition resultFlags :: "message \<Rightarrow> exn + 32 word" where "resultFlags m = read_int (m_data m) 0"
definition result_cursorId :: "message \<Rightarrow> exn + 64 word" where "result_cursorId m = read_long (m_data m) 4"
definition result_startingFrom :: "message \<Rightarrow> exn + 32 word" where "result_startingFrom m = read_int (m_data m) 12"
definition result_nReturned :: "message \<Rightarrow> exn + 32 word" where "result_nReturned m = read_int (m_data m) 16"
definition result_data :: int where "result_data = 20"

definition ResultFlag_CursorNotFound :: "32 word" where "ResultFlag_CursorNotFound = 1"
definition ResultFlag_ErrSet :: "32 word" where "ResultFlag_ErrSet = 2"
definition ResultFlag_ShardConfigStale :: "32 word" where "ResultFlag_ShardConfigStale = 4"
definition ResultFlag_AwaitCapable :: "32 word" where "ResultFlag_AwaitCapable = 8"

end
