(* ===== verification/Port.thy ===== *)
theory Port
  imports Messages
begin

text \<open>
  The connection of the driver to the server, below its requests: the socket (\<^verbatim>\<open>src/freshcity.dependency.mongoclient/util/net/sock.cpp\<close>)
  and the port that sends and receives messages (\<^verbatim>\<open>message_port.cpp\<close>). The functions of the operating system are parameters.
\<close>

section \<open>Programs that may not end\<close>

text \<open>\<open>None\<close>: the program does not end. Otherwise what it returns or throws, and the state.\<close>

type_synonym ('s, 'a) dprog = "'s \<Rightarrow> ((exn + 'a) \<times> 's) option"

definition dret :: "'a \<Rightarrow> ('s, 'a) dprog" where "dret x s = Some (Inr x, s)"
definition dthrow :: "exn \<Rightarrow> ('s, 'a) dprog" where "dthrow e s = Some (Inl e, s)"

definition dseq :: "('s, 'a) dprog \<Rightarrow> ('a \<Rightarrow> ('s, 'b) dprog) \<Rightarrow> ('s, 'b) dprog" where
  "dseq m f s = Option.bind (m s) (\<lambda>(r, s'). case r of Inl e \<Rightarrow> Some (Inl e, s') | Inr x \<Rightarrow> f x s')"

definition dthen :: "('s, 'a) dprog \<Rightarrow> ('s, 'b) dprog \<Rightarrow> ('s, 'b) dprog" where "dthen m n = dseq m (\<lambda>_. n)"
definition dgets :: "('s \<Rightarrow> 'a) \<Rightarrow> ('s, 'a) dprog" where "dgets f s = Some (Inr (f s), s)"
definition dmodify :: "('s \<Rightarrow> 's) \<Rightarrow> ('s, unit) dprog" where "dmodify f s = Some (Inr (), f s)"
definition dlift :: "exn + 'a \<Rightarrow> ('s, 'a) dprog" where "dlift r s = Some (r, s)"

definition dcatch :: "('s, 'a) dprog \<Rightarrow> (exn \<Rightarrow> ('s, 'a) dprog) \<Rightarrow> ('s, 'a) dprog" where
  "dcatch m h s = Option.bind (m s) (\<lambda>(r, s'). case r of Inl e \<Rightarrow> h e s' | Inr x \<Rightarrow> Some (Inr x, s'))"

lemmas dprog_defs = dret_def dthrow_def dseq_def dthen_def dgets_def dmodify_def dlift_def dcatch_def

lemma dseq_mono [partial_function_mono]:
  assumes "\<And>s. mono_option (\<lambda>f. B f s)" and "\<And>x s. mono_option (\<lambda>f. C x f s)"
  shows "mono_option (\<lambda>f. dseq (B f) (\<lambda>x. C x f) s)"
  unfolding dseq_def
proof (rule bind_mono [OF assms(1)])
  fix y
  show "mono_option (\<lambda>f. case y of (r, s') \<Rightarrow> (case r of Inl e \<Rightarrow> Some (Inl e, s') | Inr x \<Rightarrow> C x f s'))"
    by (cases y; cases "fst y") (simp_all add: assms(2) option.const_mono)
qed

lemma if_applied_mono [partial_function_mono]:
  "mono_option (\<lambda>f. m f s) \<Longrightarrow> mono_option (\<lambda>f. n f s) \<Longrightarrow> mono_option (\<lambda>f. (if b then m f else n f) s)"
  by (cases b) simp_all

section \<open>The socket\<close>

text \<open>What the operating system does: how many bytes it takes, or an error; the bytes it has (none when the server has closed the
  connection), or an error; whether the address can be resolved and a connection made; the time. And how an element is printed.\<close>

record 'n os_env =
  os_send :: "string \<Rightarrow> 'n \<Rightarrow> nat option \<times> 'n"
  os_recv :: "nat \<Rightarrow> 'n \<Rightarrow> string option \<times> 'n"
  os_resolve :: "'n \<Rightarrow> bool \<times> 'n"
  os_connect :: "'n \<Rightarrow> bool \<times> 'n"
  os_time :: "'n \<Rightarrow> int \<times> 'n"
  elem_toString :: "string \<Rightarrow> element \<Rightarrow> exn + string"

text \<open>The socket, and the bytes the operating system has taken from it so far; the port with the messages that wait to go with the next one
  (\<^verbatim>\<open>PiggyBackData\<close>), if it has any room for them yet; the number of the next message; and what the connection of the driver has.\<close>

record 'n conn =
  sk_open :: bool
  sk_out :: string
  pb_buf :: "string option"
  next_msgid :: "32 word"
  cn_port :: bool
  cn_failed :: bool
  cn_autoReconnect :: bool
  cn_lastReconnectTry :: int
  cn_authCache :: "(string \<times> string \<times> string) list"
  cn_availableOptions :: "32 word option"
  cn_seenIndexes :: "string list"
  cn_lazyKillCursor :: bool
  cn_os :: 'n

definition on_os :: "('n \<Rightarrow> 'a \<times> 'n) \<Rightarrow> ('n conn, 'a) dprog" where
  "on_os f c = (case f (cn_os c) of (x, n) \<Rightarrow> Some (Inr x, c\<lparr>cn_os := n\<rparr>))"

text \<open>\<^verbatim>\<open>Socket::send\<close>; a closed socket is an error of the operating system.\<close>

partial_function (option) sk_send :: "'n os_env \<Rightarrow> string \<Rightarrow> ('n conn, unit) dprog" where
  "sk_send e data c = (if data = [] then dret () c
     else if \<not> sk_open c then dthrow SocketException c
     else (case os_send e data (cn_os c) of (r, n) \<Rightarrow>
       (case r of None \<Rightarrow> dthrow SocketException (c\<lparr>cn_os := n\<rparr>)
        | Some k \<Rightarrow> if length data < k then dthrow AssertionException (c\<lparr>cn_os := n\<rparr>)
            else sk_send e (drop k data) (c\<lparr>cn_os := n, sk_out := sk_out c @ take k data\<rparr>))))"

text \<open>\<^verbatim>\<open>Socket::recv\<close>: all of the bytes that are wanted.\<close>

partial_function (option) sk_recv :: "'n os_env \<Rightarrow> nat \<Rightarrow> ('n conn, string) dprog" where
  "sk_recv e len c = (if len = 0 then dret [] c
     else if \<not> sk_open c then dthrow SocketException c
     else (case os_recv e len (cn_os c) of (r, n) \<Rightarrow>
       (case r of None \<Rightarrow> dthrow SocketException (c\<lparr>cn_os := n\<rparr>)
        | Some s \<Rightarrow> if s = [] then dthrow SocketException (c\<lparr>cn_os := n\<rparr>)
            else if len < length s then dthrow AssertionException (c\<lparr>cn_os := n\<rparr>)
            else dseq (sk_recv e (len - length s)) (\<lambda>t. dret (s @ t)) (c\<lparr>cn_os := n\<rparr>))))"

definition sk_close :: "('n conn, unit) dprog" where
  "sk_close = dmodify (\<lambda>c. c\<lparr>sk_open := False\<rparr>)"

section \<open>Messages that go with the next one\<close>

definition pb_len :: "'n conn \<Rightarrow> nat" where
  "pb_len c = (case pb_buf c of None \<Rightarrow> 0 | Some b \<Rightarrow> length b)"

definition pb_flush :: "'n os_env \<Rightarrow> ('n conn, unit) dprog" where
  "pb_flush e = dseq (dgets pb_buf) (\<lambda>b. case b of None \<Rightarrow> dret () | Some b \<Rightarrow>
     if b = [] then dret () else dthen (sk_send e b) (dmodify (\<lambda>c. c\<lparr>pb_buf := Some []\<rparr>)))"

definition PIGGY_MAX :: nat where "PIGGY_MAX = 1300"

definition pb_append :: "'n os_env \<Rightarrow> message \<Rightarrow> ('n conn, unit) dprog" where
  "pb_append e m = (if \<not> message_len m \<le> PIGGY_MAX then dthrow AssertionException
     else dthen (dseq (dgets pb_len) (\<lambda>n. if PIGGY_MAX < n + message_len m then pb_flush e else dret ()))
       (dmodify (\<lambda>c. c\<lparr>pb_buf := map_option (\<lambda>b. b @ message_bytes m) (pb_buf c)\<rparr>)))"

section \<open>\<^verbatim>\<open>MessagingPort\<close>\<close>

definition nextMessageId :: "('n conn, 32 word) dprog" where
  "nextMessageId = dseq (dgets next_msgid) (\<lambda>i. dthen (dmodify (\<lambda>c. c\<lparr>next_msgid := i + 1\<rparr>)) (dret i))"

text \<open>The message gets its ids.\<close>

definition number_message :: "message \<Rightarrow> 32 word \<Rightarrow> ('n conn, message) dprog" where
  "number_message m responseTo = dseq nextMessageId (\<lambda>i. dret (m\<lparr>m_id := i, m_responseTo := responseTo\<rparr>))"

definition port_say :: "'n os_env \<Rightarrow> message \<Rightarrow> 32 word \<Rightarrow> ('n conn, message) dprog" where
  "port_say e toSend responseTo = dseq (number_message toSend responseTo) (\<lambda>m. dseq (dgets pb_len) (\<lambda>n.
     if n \<noteq> 0 \<and> n + message_len m \<le> PIGGY_MAX then dthen (pb_append e m) (dthen (pb_flush e) (dret m))
     else dthen (if n \<noteq> 0 then pb_flush e else dret ()) (dthen (sk_send e (message_bytes m)) (dret m))))"

definition port_piggyBack :: "'n os_env \<Rightarrow> message \<Rightarrow> 32 word \<Rightarrow> ('n conn, unit) dprog" where
  "port_piggyBack e toSend responseTo = (if PIGGY_MAX < message_len toSend then dthen (port_say e toSend (- 1)) (dret ())
     else dseq (number_message toSend responseTo) (\<lambda>m.
       dthen (dmodify (\<lambda>c. c\<lparr>pb_buf := (case pb_buf c of None \<Rightarrow> Some [] | Some b \<Rightarrow> Some b)\<rparr>)) (pb_append e m)))"

definition endian_answer :: string where "endian_answer = le32 0x10203040"

definition http_message :: string where
  "http_message = ''You are trying to access MongoDB on the native driver port. For http diagnostic access, add 1000 to the port number'' @ [CHR 0x0A]"

definition crlf :: string where "crlf = [CHR 0x0D, CHR 0x0A]"

definition http_answer :: string where
  "http_answer = ''HTTP/1.0 200 OK'' @ crlf @ ''Connection: close'' @ crlf @ ''Content-Type: text/plain'' @ crlf @ ''Content-Length: ''
     @ nat_str (length http_message) @ crlf @ crlf @ http_message"

definition len_field :: "string \<Rightarrow> int" where
  "len_field s = sint (of_nat (unle s) :: 32 word)"

text \<open>\<^verbatim>\<open>recv\<close> without its handler: a length of \<open>- 1\<close> asks for the order of bytes, and the next message is read.\<close>

partial_function (option) recv_again :: "'n os_env \<Rightarrow> ('n conn, message option) dprog" where
  "recv_again e c = dseq (sk_recv e 4) (\<lambda>s.
     if len_field s < 16 \<or> 48000000 < len_field s then
       (if len_field s = - 1 then dseq (sk_send e endian_answer) (\<lambda>_. recv_again e)
        else if len_field s = 542393671 then dthen (sk_send e http_answer) (dret None)
        else dret None)
     else dseq (sk_recv e (nat (len_field s - 4))) (\<lambda>t. dret (Some (message_of t)))) c"

definition port_recv :: "'n os_env \<Rightarrow> ('n conn, message option) dprog" where
  "port_recv e = dcatch (recv_again e) (\<lambda>x. if x = SocketException then dret None else dthrow x)"

text \<open>The answer to a message; another one is a failed assertion.\<close>

definition port_recv_for :: "'n os_env \<Rightarrow> message \<Rightarrow> ('n conn, message option) dprog" where
  "port_recv_for e toSend = dseq (port_recv e) (\<lambda>r. case r of None \<Rightarrow> dret None
     | Some m \<Rightarrow> if m_responseTo m = m_id toSend then dret (Some m) else dthrow AssertionException)"

definition port_call :: "'n os_env \<Rightarrow> message \<Rightarrow> ('n conn, message option) dprog" where
  "port_call e toSend = dseq (port_say e toSend (- 1)) (port_recv_for e)"

text \<open>A port that is replaced sends what waits, if it can, and closes its socket.\<close>

definition port_destroy :: "'n os_env \<Rightarrow> ('n conn, unit) dprog" where
  "port_destroy e = dseq (dgets cn_port) (\<lambda>b. if \<not> b then dret () else dthen (dcatch (pb_flush e) (\<lambda>x. dret ())) sk_close)"

definition new_port :: "'n os_env \<Rightarrow> ('n conn, unit) dprog" where
  "new_port e = dthen (port_destroy e) (dmodify (\<lambda>c. c\<lparr>cn_port := True, sk_open := False, sk_out := [], pb_buf := None\<rparr>))"

definition port_connect :: "'n os_env \<Rightarrow> ('n conn, bool) dprog" where
  "port_connect e = dseq (on_os (os_connect e)) (\<lambda>b. dthen (dmodify (\<lambda>c. c\<lparr>sk_open := b\<rparr>)) (dret b))"

end
