(* ===== verification/Client.thy ===== *)
theory Client
  imports Port Md5
begin

text \<open>
  The driver's connection and its cursors (\<^verbatim>\<open>src/freshcity.dependency.mongoclient/client/dbclient.cpp\<close>,
  \<^verbatim>\<open>dbclient.h\<close>, \<^verbatim>\<open>dbclientcursor.cpp\<close>, \<^verbatim>\<open>dbclientcursor.h\<close>), for a connection to one server (\<^verbatim>\<open>clientSet\<close> is null). Every operation
  checks the connection first, and a check that reconnects signs in again, with operations that check the connection. So the operations are
  defined with the check as an argument.
\<close>

text \<open>\<open>dmono\<close>: a check that ends more often makes the program end more often.\<close>

definition dle :: "('s, 'a) dprog \<Rightarrow> ('s, 'a) dprog \<Rightarrow> bool" where
  "dle m n \<longleftrightarrow> (\<forall>s. m s = None \<or> m s = n s)"

definition dmono :: "(('s, 'a) dprog \<Rightarrow> ('t, 'b) dprog) \<Rightarrow> bool" where
  "dmono F \<longleftrightarrow> (\<forall>m n. dle m n \<longrightarrow> dle (F m) (F n))"

named_theorems dmono_intros

lemma dmono_id [dmono_intros]: "dmono (\<lambda>m. m)"
  by (simp add: dmono_def)

lemma dmono_const [dmono_intros]: "dmono (\<lambda>m. n)"
  by (simp add: dmono_def dle_def)

lemma dle_bind:
  assumes "v = None \<or> v = v'" and "\<And>y. f y = None \<or> f y = f' y"
  shows "Option.bind v f = None \<or> Option.bind v f = Option.bind v' f'"
proof (cases v)
  case (Some a)
  with assms(1) have "v' = Some a" by auto
  with Some assms(2) [of a] show ?thesis by simp
qed simp

lemma dmonoD: "dmono F \<Longrightarrow> dle m n \<Longrightarrow> F m s = None \<or> F m s = F n s"
  by (simp add: dmono_def dle_def)

lemma dmonoI: "(\<And>m n s. dle m n \<Longrightarrow> F m s = None \<or> F m s = F n s) \<Longrightarrow> dmono F"
  by (simp add: dmono_def dle_def)

lemma dmono_dseq [dmono_intros]:
  fixes F :: "('s, 'a) dprog \<Rightarrow> ('t, 'b) dprog" and G :: "('s, 'a) dprog \<Rightarrow> 'b \<Rightarrow> ('t, 'c) dprog"
  assumes F: "dmono F" and G: "\<And>x. dmono (\<lambda>m. G m x)"
  shows "dmono (\<lambda>m. dseq (F m) (G m))"
proof (rule dmonoI)
  fix m n :: "('s, 'a) dprog" and s assume le: "dle m n"
  show "dseq (F m) (G m) s = None \<or> dseq (F m) (G m) s = dseq (F n) (G n) s"
    unfolding dseq_def by (rule dle_bind [OF dmonoD [OF F le]]) (use dmonoD [OF G le] in \<open>auto split: prod.split sum.split\<close>)
qed

lemma dmono_dthen [dmono_intros]: "dmono F \<Longrightarrow> dmono G \<Longrightarrow> dmono (\<lambda>m. dthen (F m) (G m))"
  unfolding dthen_def by (intro dmono_dseq)

lemma dmono_dcatch [dmono_intros]:
  fixes F :: "('s, 'a) dprog \<Rightarrow> ('t, 'b) dprog" and G :: "('s, 'a) dprog \<Rightarrow> exn \<Rightarrow> ('t, 'b) dprog"
  assumes F: "dmono F" and G: "\<And>x. dmono (\<lambda>m. G m x)"
  shows "dmono (\<lambda>m. dcatch (F m) (G m))"
proof (rule dmonoI)
  fix m n :: "('s, 'a) dprog" and s assume le: "dle m n"
  show "dcatch (F m) (G m) s = None \<or> dcatch (F m) (G m) s = dcatch (F n) (G n) s"
    unfolding dcatch_def by (rule dle_bind [OF dmonoD [OF F le]]) (use dmonoD [OF G le] in \<open>auto split: prod.split sum.split\<close>)
qed

lemma dmono_if [dmono_intros]: "dmono F \<Longrightarrow> dmono G \<Longrightarrow> dmono (\<lambda>m. if b then F m else G m)"
  by (cases b) simp_all

lemma dmono_option [dmono_intros]: "dmono F \<Longrightarrow> (\<And>x. dmono (\<lambda>m. G m x)) \<Longrightarrow> dmono (\<lambda>m. case v of None \<Rightarrow> F m | Some x \<Rightarrow> G m x)"
  by (cases v) simp_all

lemma dmono_prod [dmono_intros]: "(\<And>x y. dmono (\<lambda>m. G m x y)) \<Longrightarrow> dmono (\<lambda>m. case v of (x, y) \<Rightarrow> G m x y)"
  by (cases v) simp_all

section \<open>Sending and calling\<close>

type_synonym 'n check = "('n conn, unit) dprog"

definition with_port :: "('n conn, 'a) dprog \<Rightarrow> ('n conn, 'a) dprog" where
  "with_port m = dseq (dgets cn_port) (\<lambda>b. if b then m else dthrow AssertionException)"

definition failing :: "('n conn, 'a) dprog \<Rightarrow> ('n conn, 'a) dprog" where
  "failing m = dcatch m (\<lambda>x. if x = SocketException then dthen (dmodify (\<lambda>c. c\<lparr>cn_failed := True\<rparr>)) (dthrow x) else dthrow x)"

definition conn_say :: "'n os_env \<Rightarrow> 'n check \<Rightarrow> message \<Rightarrow> ('n conn, unit) dprog" where
  "conn_say e ck m = dthen ck (failing (dthen (with_port (port_say e m (- 1))) (dret ())))"

definition conn_sayPiggyBack :: "'n os_env \<Rightarrow> message \<Rightarrow> ('n conn, unit) dprog" where
  "conn_sayPiggyBack e m = with_port (port_piggyBack e m (- 1))"

definition conn_recv :: "'n os_env \<Rightarrow> ('n conn, message option) dprog" where
  "conn_recv e = with_port (port_recv e)"

definition conn_call :: "'n os_env \<Rightarrow> 'n check \<Rightarrow> message \<Rightarrow> bool \<Rightarrow> ('n conn, message option) dprog" where
  "conn_call e ck m assertOk = dthen ck (failing (dseq (with_port (port_call e m)) (\<lambda>r. case r of
     None \<Rightarrow> dthen (dmodify (\<lambda>c. c\<lparr>cn_failed := True\<rparr>)) (if assertOk then dthrow UserException else dret None)
   | Some m \<Rightarrow> dret (Some m))))"

definition conn_killCursor :: "'n os_env \<Rightarrow> 'n check \<Rightarrow> 64 word \<Rightarrow> ('n conn, unit) dprog" where
  "conn_killCursor e ck cursorId = dseq (dlift (killCursor_message cursorId)) (\<lambda>m. dseq (dgets cn_lazyKillCursor) (\<lambda>lazy.
     if lazy then conn_sayPiggyBack e m else conn_say e ck m))"

lemma dmono_conn [dmono_intros]:
  assumes "dmono F"
  shows "dmono (\<lambda>m. conn_say e (F m) x)" "dmono (\<lambda>m. conn_call e (F m) x b)" "dmono (\<lambda>m. conn_killCursor e (F m) i)"
  unfolding conn_say_def conn_call_def conn_killCursor_def failing_def by (intro dmono_intros assms)+

section \<open>Cursors\<close>

definition QueryOption_CursorTailable :: "32 word" where "QueryOption_CursorTailable = 2"
definition QueryOption_SlaveOk :: "32 word" where "QueryOption_SlaveOk = 4"
definition QueryOption_NoCursorTimeout :: "32 word" where "QueryOption_NoCursorTimeout = 16"
definition QueryOption_Exhaust :: "32 word" where "QueryOption_Exhaust = 64"

text \<open>Members that a constructor leaves uninitialised are \<open>None\<close>. The current batch: its message, the number of its objects, how many have been
  taken, and where the next one is.\<close>

record cursor =
  cu_ns :: string
  cu_query :: string
  cu_nToReturn :: "32 word"
  cu_haveLimit :: bool
  cu_nToSkip :: "32 word option"
  cu_fields :: "string option option"
  cu_opts :: "32 word"
  cu_batchSize :: "32 word option"
  cu_putBack :: "string list"
  cu_resultFlags :: "32 word option"
  cu_cursorId :: "64 word"
  cu_own :: bool
  cu_wasError :: "bool option"
  b_m :: "message option"
  b_nReturned :: "32 word"
  b_pos :: "32 word"
  b_data :: int

definition empty_object :: string where
  "empty_object = le32 5 @ [CHR 0x00]"

definition has_bits :: "32 word \<Rightarrow> 32 word \<Rightarrow> bool" where
  "has_bits x y \<longleftrightarrow> and x y \<noteq> 0"

definition DBClientCursor :: "string \<Rightarrow> string \<Rightarrow> 32 word \<Rightarrow> 32 word \<Rightarrow> string option \<Rightarrow> 32 word \<Rightarrow> 32 word \<Rightarrow> cursor" where
  "DBClientCursor ns query nToReturn nToSkip fs queryOptions bs =
     \<lparr>cu_ns = ns, cu_query = query, cu_nToReturn = nToReturn,
      cu_haveLimit = (0 < sint nToReturn \<and> \<not> has_bits queryOptions QueryOption_CursorTailable), cu_nToSkip = Some nToSkip, cu_fields = Some fs,
      cu_opts = queryOptions, cu_batchSize = Some (if bs = 1 then 2 else bs), cu_putBack = [], cu_resultFlags = None, cu_cursorId = 0,
      cu_own = True, cu_wasError = Some False, b_m = None, b_nReturned = 0, b_pos = 0, b_data = 0\<rparr>"

definition DBClientCursor_ofId :: "string \<Rightarrow> 64 word \<Rightarrow> 32 word \<Rightarrow> 32 word \<Rightarrow> cursor" where
  "DBClientCursor_ofId ns cursorId nToReturn options =
     \<lparr>cu_ns = ns, cu_query = empty_object, cu_nToReturn = nToReturn,
      cu_haveLimit = (0 < sint nToReturn \<and> \<not> has_bits options QueryOption_CursorTailable), cu_nToSkip = None, cu_fields = None,
      cu_opts = options, cu_batchSize = None, cu_putBack = [], cu_resultFlags = None, cu_cursorId = cursorId,
      cu_own = True, cu_wasError = None, b_m = None, b_nReturned = 0, b_pos = 0, b_data = 0\<rparr>"

type_synonym ('n, 'a) cprog = "(cursor \<times> 'n conn, 'a) dprog"

definition onConn :: "('n conn, 'a) dprog \<Rightarrow> ('n, 'a) cprog" where
  "onConn m = (\<lambda>(k, c). map_option (\<lambda>(r, c'). (r, (k, c'))) (m c))"

definition getsC :: "(cursor \<Rightarrow> 'a) \<Rightarrow> ('n, 'a) cprog" where "getsC f = dgets (\<lambda>s. f (fst s))"
definition modC :: "(cursor \<Rightarrow> cursor) \<Rightarrow> ('n, unit) cprog" where "modC f = dmodify (apfst f)"
definition assertC :: "bool \<Rightarrow> ('n, unit) cprog" where "assertC b = (if b then dret () else dthrow AssertionException)"

lemma dmono_onConn [dmono_intros]:
  fixes F :: "('s, 'a) dprog \<Rightarrow> ('n conn, 'b) dprog"
  shows "dmono F \<Longrightarrow> dmono (\<lambda>m. onConn (F m))"
proof (rule dmonoI)
  fix m n :: "('s, 'a) dprog" and s :: "cursor \<times> 'n conn" assume F: "dmono F" and le: "dle m n"
  obtain k c where s: "s = (k, c)" by (cases s)
  show "onConn (F m) s = None \<or> onConn (F m) s = onConn (F n) s"
    using dmonoD [OF F le, of c] unfolding s onConn_def by (elim disjE) simp_all
qed

definition initialised :: "'a option \<Rightarrow> exn + 'a" where
  "initialised x = (case x of None \<Rightarrow> Inl Undefined | Some x \<Rightarrow> Inr x)"

definition nextBatchSize :: "cursor \<Rightarrow> exn + 32 word" where
  "nextBatchSize k = bindR (initialised (cu_batchSize k)) (\<lambda>bs.
     if cu_nToReturn k = 0 then Inr bs else if bs = 0 then Inr (cu_nToReturn k)
     else Inr (if sint bs < sint (cu_nToReturn k) then bs else cu_nToReturn k))"

definition assembleInit :: "cursor \<Rightarrow> exn + message" where
  "assembleInit k = (if cu_cursorId k = 0 then bindR (nextBatchSize k) (\<lambda>n. bindR (initialised (cu_nToSkip k)) (\<lambda>skip.
       bindR (initialised (cu_fields k)) (\<lambda>fs. assembleRequest (cu_ns k) (cu_query k) n skip fs (cu_opts k))))
     else getMore_message (cu_opts k) (cu_ns k) (cu_nToReturn k) (cu_cursorId k))"

text \<open>\<^verbatim>\<open>dataReceived\<close>: \<^verbatim>\<open>singleData\<close> of an empty message is a failed assertion. (\<^verbatim>\<open>checkResponse\<close> only looks for a server that is
  not the master of a set.)\<close>

definition dataReceived :: "('n, unit) cprog" where
  "dataReceived = dseq (getsC b_m) (\<lambda>m. case m of None \<Rightarrow> dthrow AssertionException | Some m \<Rightarrow>
     dseq (dlift (resultFlags m)) (\<lambda>flags.
     dthen (modC (\<lambda>k. k\<lparr>cu_resultFlags := Some flags\<rparr>))
     (dthen (if has_bits flags ResultFlag_ErrSet then modC (\<lambda>k. k\<lparr>cu_wasError := Some True\<rparr>) else dret ())
     (dthen (if has_bits flags ResultFlag_CursorNotFound
        then dseq (dlift (result_cursorId m)) (\<lambda>id'. dthen (assertC (id' = 0)) (dthen (modC (\<lambda>k. k\<lparr>cu_cursorId := 0\<rparr>))
          (dseq (getsC cu_opts) (\<lambda>opts. if has_bits opts QueryOption_CursorTailable then dret () else dthrow UserException))))
        else dret ())
     (dseq (dlift (result_cursorId m)) (\<lambda>id'.
      dthen (modC (\<lambda>k. if cu_cursorId k = 0 \<or> \<not> has_bits (cu_opts k) QueryOption_CursorTailable then k\<lparr>cu_cursorId := id'\<rparr> else k))
     (dseq (dlift (result_nReturned m)) (\<lambda>n. modC (\<lambda>k. k\<lparr>b_nReturned := n, b_pos := 0, b_data := result_data\<rparr>)))))))))"

definition cu_init :: "'n os_env \<Rightarrow> 'n check \<Rightarrow> ('n, bool) cprog" where
  "cu_init e ck = dseq (getsC assembleInit) (\<lambda>r. dseq (dlift r) (\<lambda>toSend. dseq (onConn (conn_call e ck toSend False)) (\<lambda>m. case m of
     None \<Rightarrow> dret False | Some m \<Rightarrow> dthen (modC (\<lambda>k. k\<lparr>b_m := Some m\<rparr>)) (dthen dataReceived (dret True)))))"

definition initLazy :: "'n os_env \<Rightarrow> 'n check \<Rightarrow> ('n, unit) cprog" where
  "initLazy e ck = dseq (getsC assembleInit) (\<lambda>r. dseq (dlift r) (\<lambda>toSend. onConn (conn_say e ck toSend)))"

definition initLazyFinish :: "'n os_env \<Rightarrow> ('n, bool) cprog" where
  "initLazyFinish e = dseq (onConn (conn_recv e)) (\<lambda>m. case m of None \<Rightarrow> dret False
     | Some m \<Rightarrow> dthen (modC (\<lambda>k. k\<lparr>b_m := Some m\<rparr>)) (dthen dataReceived (dret True)))"

definition requestMore :: "'n os_env \<Rightarrow> 'n check \<Rightarrow> ('n, unit) cprog" where
  "requestMore e ck = dseq (getsC (\<lambda>k. cu_cursorId k \<noteq> 0 \<and> b_pos k = b_nReturned k)) (\<lambda>b. dthen (assertC b)
     (dthen (dseq (getsC cu_haveLimit) (\<lambda>b. if b then dthen (modC (\<lambda>k. k\<lparr>cu_nToReturn := cu_nToReturn k - b_nReturned k\<rparr>))
        (dseq (getsC cu_nToReturn) (\<lambda>n. assertC (0 < sint n))) else dret ()))
     (dseq (getsC (\<lambda>k. bindR (nextBatchSize k) (\<lambda>n. getMore_message (cu_opts k) (cu_ns k) n (cu_cursorId k)))) (\<lambda>r. dseq (dlift r) (\<lambda>toSend.
      dseq (onConn (conn_call e ck toSend True)) (\<lambda>m. dthen (modC (\<lambda>k. k\<lparr>b_m := m\<rparr>)) dataReceived))))))"

text \<open>Nobody looks at what \<^verbatim>\<open>recv\<close> returns.\<close>

definition exhaustReceiveMore :: "'n os_env \<Rightarrow> ('n, unit) cprog" where
  "exhaustReceiveMore e = dseq (getsC (\<lambda>k. cu_cursorId k \<noteq> 0 \<and> b_pos k = b_nReturned k)) (\<lambda>b. dthen (assertC b)
     (dseq (getsC cu_haveLimit) (\<lambda>b. dthen (assertC (\<not> b))
     (dseq (onConn (conn_recv e)) (\<lambda>m. dthen (modC (\<lambda>k. k\<lparr>b_m := m\<rparr>)) dataReceived)))))"

definition cu_more :: "'n os_env \<Rightarrow> 'n check \<Rightarrow> ('n, bool) cprog" where
  "cu_more e ck = dseq (getsC id) (\<lambda>k.
     if cu_putBack k \<noteq> [] then dret True
     else if cu_haveLimit k \<and> sint (cu_nToReturn k) \<le> sint (b_pos k) then dret False
     else if sint (b_pos k) < sint (b_nReturned k) then dret True
     else if cu_cursorId k = 0 then dret False
     else dthen (requestMore e ck) (getsC (\<lambda>k. sint (b_pos k) < sint (b_nReturned k))))"

definition batch_memory :: "cursor \<Rightarrow> string" where
  "batch_memory k = (case b_m k of None \<Rightarrow> [] | Some m \<Rightarrow> m_data m)"

definition object_from :: "string \<Rightarrow> int \<Rightarrow> exn + string" where
  "object_from m p = bindR (BSONObj_init m p) (\<lambda>p. bindR (objsize m p) (\<lambda>n. read m p (nat n)))"

definition cu_next :: "('n, string) cprog" where
  "cu_next = dseq (getsC id) (\<lambda>k. case cu_putBack k of
     o' # os \<Rightarrow> dthen (modC (\<lambda>k. k\<lparr>cu_putBack := os\<rparr>)) (dret o')
   | [] \<Rightarrow> if \<not> sint (b_pos k) < sint (b_nReturned k) then dthrow UserException
       else dthen (modC (\<lambda>k. k\<lparr>b_pos := b_pos k + 1\<rparr>)) (dseq (dlift (object_from (batch_memory k) (b_data k))) (\<lambda>o'.
         dthen (modC (\<lambda>k. k\<lparr>b_data := b_data k + int (length o')\<rparr>)) (dret o'))))"

definition putBack :: "string \<Rightarrow> ('n, unit) cprog" where
  "putBack o' = modC (\<lambda>k. k\<lparr>cu_putBack := o' # cu_putBack k\<rparr>)"

definition firstElementFieldName :: "string \<Rightarrow> exn + string" where
  "firstElementFieldName o' = bindR (read_char o' 4) (\<lambda>t. if t = EOO_type then Inr [] else cstring o' 5)"

definition nextSafe :: "('n, string) cprog" where
  "nextSafe = dseq cu_next (\<lambda>o'. dseq (dlift (firstElementFieldName o')) (\<lambda>f. if f = ''$err'' then dthrow UserException else dret o'))"

definition objsLeftInBatch :: "cursor \<Rightarrow> 32 word" where
  "objsLeftInBatch k = of_nat (length (cu_putBack k)) + b_nReturned k - b_pos k"

definition moreInCurrentBatch :: "cursor \<Rightarrow> bool" where
  "moreInCurrentBatch k \<longleftrightarrow> 0 < sint (objsLeftInBatch k)"

definition isDead :: "cursor \<Rightarrow> bool" where "isDead k \<longleftrightarrow> cu_cursorId k = 0"

definition hasResultFlag :: "cursor \<Rightarrow> 32 word \<Rightarrow> exn + bool" where
  "hasResultFlag k flag = bindR (initialised (cu_resultFlags k)) (\<lambda>f. Inr (has_bits f flag))"

text \<open>\<^verbatim>\<open>peek\<close>: objects of the batch, without taking them; a negative \<open>count\<close> never comes to zero.\<close>

fun peek_loop :: "string \<Rightarrow> nat \<Rightarrow> int \<Rightarrow> exn + string list" where
  "peek_loop m 0 d = Inr []"
| "peek_loop m (Suc n) d = bindR (object_from m d) (\<lambda>o'. bindR (peek_loop m n (d + int (length o'))) (\<lambda>os. Inr (o' # os)))"

definition peek :: "cursor \<Rightarrow> int \<Rightarrow> exn + string list" where
  "peek k count = (let n = nat (sint (b_nReturned k) - sint (b_pos k)) in
     peek_loop (batch_memory k) (if count < 0 then n else min (nat count) n) (b_data k))"

text \<open>The destructor; no exception leaves it.\<close>

definition cu_destroy :: "'n os_env \<Rightarrow> 'n check \<Rightarrow> cursor \<Rightarrow> ('n conn, unit) dprog" where
  "cu_destroy e ck k = (if cu_cursorId k \<noteq> 0 \<and> cu_own k then dcatch (conn_killCursor e ck (cu_cursorId k)) (\<lambda>x. dret ()) else dret ())"

definition run_cursor :: "'n os_env \<Rightarrow> 'n check \<Rightarrow> cursor \<Rightarrow> ('n, 'a) cprog \<Rightarrow> ('n conn, 'a) dprog" where
  "run_cursor e ck k m c = Option.bind (m (k, c)) (\<lambda>(r, k', c'). dseq (cu_destroy e ck k') (\<lambda>_. dlift r) c')"

text \<open>A cursor that is opened stays with the caller; otherwise it is destroyed.\<close>

definition open_cursor :: "'n os_env \<Rightarrow> 'n check \<Rightarrow> cursor \<Rightarrow> ('n conn, cursor option) dprog" where
  "open_cursor e ck k c = Option.bind (cu_init e ck (k, c)) (\<lambda>(r, k', c'). if r = Inr True then Some (Inr (Some k'), c')
     else dseq (cu_destroy e ck k') (\<lambda>_. dlift (case r of Inl x \<Rightarrow> Inl x | Inr _ \<Rightarrow> Inr None)) c')"

lemma dmono_cursor [dmono_intros]:
  assumes "dmono F"
  shows "dmono (\<lambda>m. cu_init e (F m))" "dmono (\<lambda>m. requestMore e (F m))" "dmono (\<lambda>m. cu_more e (F m))"
    "dmono (\<lambda>m. cu_destroy e (F m) k)" "dmono (\<lambda>m. initLazy e (F m))"
  unfolding cu_init_def requestMore_def cu_more_def cu_destroy_def initLazy_def by (intro dmono_intros assms)+

lemma dmono_run [dmono_intros]:
  fixes F :: "('s, 'a) dprog \<Rightarrow> 'n check" and G :: "('s, 'a) dprog \<Rightarrow> ('n, 'b) cprog"
  assumes F: "dmono F" and G: "dmono G"
  shows "dmono (\<lambda>m. run_cursor e (F m) k (G m))"
proof (rule dmonoI)
  fix m n :: "('s, 'a) dprog" and c assume le: "dle m n"
  have d: "dmono (\<lambda>m. dseq (cu_destroy e (F m) k') (\<lambda>_. dlift r))" for k' and r :: "exn + 'b" by (intro dmono_intros F)
  show "run_cursor e (F m) k (G m) c = None \<or> run_cursor e (F m) k (G m) c = run_cursor e (F n) k (G n) c"
    unfolding run_cursor_def by (rule dle_bind [OF dmonoD [OF G le]]) (use dmonoD [OF d le] in \<open>auto split: prod.split\<close>)
qed

lemma dmono_open [dmono_intros]:
  fixes F :: "('s, 'a) dprog \<Rightarrow> 'n check"
  assumes F: "dmono F"
  shows "dmono (\<lambda>m. open_cursor e (F m) k)"
proof (rule dmonoI)
  fix m n :: "('s, 'a) dprog" and c assume le: "dle m n"
  have d: "dmono (\<lambda>m. dseq (cu_destroy e (F m) k') (\<lambda>_. dlift r))" for k' and r :: "exn + cursor option" by (intro dmono_intros F)
  have i: "dmono (\<lambda>m. cu_init e (F m))" by (intro dmono_intros F)
  show "open_cursor e (F m) k c = None \<or> open_cursor e (F m) k c = open_cursor e (F n) k c"
    unfolding open_cursor_def by (rule dle_bind [OF dmonoD [OF i le]]) (use dmonoD [OF d le] in \<open>auto split: prod.split sum.split\<close>)
qed

end
