(* ===== verification/Driver.thy ===== *)
theory Driver
  imports Client
begin

text \<open>
  Queries, commands and signing in (\<^verbatim>\<open>src/freshcity.dependency.mongoclient/client/dbclient.cpp\<close>, \<^verbatim>\<open>dbclient.h\<close>), and the check of
  the connection that ties them: it is the least solution of its equation, since it signs in again with operations that check the
  connection. Error messages for the caller are left out. A loop over an object that does not end is a program that does not end.
\<close>

section \<open>Queries\<close>

definition base_query where
  "base_query e ck ns query nToReturn nToSkip fs opts bs = open_cursor e ck (DBClientCursor ns query nToReturn nToSkip fs opts bs)"

definition conn_query :: "'n os_env \<Rightarrow> 'n check \<Rightarrow> string \<Rightarrow> string \<Rightarrow> 32 word \<Rightarrow> 32 word \<Rightarrow> string option \<Rightarrow> 32 word \<Rightarrow> 32 word \<Rightarrow>
    ('n conn, cursor option) dprog" where
  "conn_query e ck ns query nToReturn nToSkip fs opts bs = dthen ck (base_query e ck ns query nToReturn nToSkip fs opts bs)"

definition conn_getMore :: "'n os_env \<Rightarrow> 'n check \<Rightarrow> string \<Rightarrow> 64 word \<Rightarrow> 32 word \<Rightarrow> 32 word \<Rightarrow> ('n conn, cursor option) dprog" where
  "conn_getMore e ck ns cursorId nToReturn opts = open_cursor e ck (DBClientCursor_ofId ns cursorId nToReturn opts)"

text \<open>At most \<open>n\<close> objects of a cursor.\<close>

primrec take_objects :: "'n os_env \<Rightarrow> 'n check \<Rightarrow> nat \<Rightarrow> ('n, string list) cprog" where
  "take_objects e ck 0 = dret []"
| "take_objects e ck (Suc n) = dseq (cu_more e ck) (\<lambda>b. if \<not> b then dret [] else dseq nextSafe (\<lambda>o'.
     dseq (take_objects e ck n) (\<lambda>os. dret (o' # os))))"

text \<open>\<^verbatim>\<open>findN\<close>, for a number that is not negative.\<close>

definition findN :: "'n os_env \<Rightarrow> 'n check \<Rightarrow> string \<Rightarrow> string \<Rightarrow> 32 word \<Rightarrow> 32 word \<Rightarrow> string option \<Rightarrow> 32 word \<Rightarrow> ('n conn, string list) dprog" where
  "findN e ck ns query nToReturn nToSkip fs opts = dseq (conn_query e ck ns query nToReturn nToSkip fs opts 0) (\<lambda>k. case k of
     None \<Rightarrow> dthrow UserException
   | Some k \<Rightarrow> run_cursor e ck k (dseq (getsC (\<lambda>k. hasResultFlag k ResultFlag_ShardConfigStale)) (\<lambda>r. dseq (dlift r) (\<lambda>stale.
       if stale then dthrow AssertionException else take_objects e ck (nat (sint nToReturn))))))"

definition findOne :: "'n os_env \<Rightarrow> 'n check \<Rightarrow> string \<Rightarrow> string \<Rightarrow> string option \<Rightarrow> 32 word \<Rightarrow> ('n conn, string) dprog" where
  "findOne e ck ns query fs opts = dseq (findN e ck ns query 1 0 fs opts) (\<lambda>v. dret (case v of [] \<Rightarrow> empty_object | o' # _ \<Rightarrow> o'))"

lemma dmono_take [dmono_intros]: "dmono F \<Longrightarrow> dmono (\<lambda>m. take_objects e (F m) n)"
proof (induction n)
  case (Suc n)
  show ?case unfolding take_objects.simps by (intro dmono_intros Suc)
qed (simp add: dmono_const)

lemma dmono_query [dmono_intros]:
  assumes "dmono F"
  shows "dmono (\<lambda>m. conn_query e (F m) ns q n sk fs opts bs)" "dmono (\<lambda>m. findN e (F m) ns q n sk fs opts)"
    "dmono (\<lambda>m. findOne e (F m) ns q fs opts)"
  unfolding findOne_def findN_def conn_query_def base_query_def by (intro dmono_intros assms)+

definition conn_insert :: "'n os_env \<Rightarrow> 'n check \<Rightarrow> string \<Rightarrow> string \<Rightarrow> 32 word \<Rightarrow> ('n conn, unit) dprog" where
  "conn_insert e ck ns obj flags = dseq (dlift (insert_message ns obj flags)) (conn_say e ck)"

definition conn_insert_all :: "'n os_env \<Rightarrow> 'n check \<Rightarrow> string \<Rightarrow> string list \<Rightarrow> 32 word \<Rightarrow> ('n conn, unit) dprog" where
  "conn_insert_all e ck ns v flags = dseq (dlift (insert_all_message ns v flags)) (conn_say e ck)"

definition conn_remove :: "'n os_env \<Rightarrow> 'n check \<Rightarrow> string \<Rightarrow> string \<Rightarrow> bool \<Rightarrow> ('n conn, unit) dprog" where
  "conn_remove e ck ns query justOne = dseq (dlift (remove_message ns query justOne)) (conn_say e ck)"

definition conn_update :: "'n os_env \<Rightarrow> 'n check \<Rightarrow> string \<Rightarrow> string \<Rightarrow> string \<Rightarrow> bool \<Rightarrow> bool \<Rightarrow> ('n conn, unit) dprog" where
  "conn_update e ck ns query obj upsert multi = dseq (dlift (update_message ns query obj upsert multi)) (conn_say e ck)"

section \<open>Commands\<close>

text \<open>An object that is built field by field.\<close>

primrec build_fields :: "(builder \<Rightarrow> exn + builder) list \<Rightarrow> builder \<Rightarrow> exn + builder" where
  "build_fields [] b = Inr b"
| "build_fields (f # fs) b = bindR (f b) (build_fields fs)"

definition object_of :: "(builder \<Rightarrow> exn + builder) list \<Rightarrow> exn + string" where
  "object_of fs = bindR (BSONObjBuilder 512 (CHR 0x00)) (\<lambda>b. bindR (build_fields fs b) builder_obj)"

definition field_of :: "string \<Rightarrow> string \<Rightarrow> ('s, element) dprog" where
  "field_of o' f s = map_option (\<lambda>r. (r, s)) (wire_getField o' 0 f)"

definition isOk :: "string \<Rightarrow> ('s, bool) dprog" where
  "isOk o' = dseq (field_of o' ''ok'') (\<lambda>e. dlift (trueValue o' e))"

definition runCommand :: "'n os_env \<Rightarrow> 'n check \<Rightarrow> string \<Rightarrow> string \<Rightarrow> 32 word \<Rightarrow> ('n conn, bool \<times> string) dprog" where
  "runCommand e ck dbname cmd opts = dseq (findOne e ck (dbname @ ''.$cmd'') cmd None opts) (\<lambda>info.
     dseq (isOk info) (\<lambda>ok. dret (ok, info)))"

definition run_object :: "'n os_env \<Rightarrow> 'n check \<Rightarrow> string \<Rightarrow> (builder \<Rightarrow> exn + builder) list \<Rightarrow> 32 word \<Rightarrow> ('n conn, bool \<times> string) dprog" where
  "run_object e ck dbname fs opts = dseq (dlift (object_of fs)) (\<lambda>cmd. runCommand e ck dbname cmd opts)"

definition simpleCommand :: "'n os_env \<Rightarrow> 'n check \<Rightarrow> string \<Rightarrow> string \<Rightarrow> ('n conn, bool \<times> string) dprog" where
  "simpleCommand e ck dbname command = run_object e ck dbname [append_Int command 1] 0"

lemma dmono_command [dmono_intros]:
  assumes "dmono F"
  shows "dmono (\<lambda>m. runCommand e (F m) db c opts)" "dmono (\<lambda>m. run_object e (F m) db fs opts)"
  unfolding run_object_def runCommand_def by (intro dmono_intros assms)+

text \<open>\<^verbatim>\<open>getIntField\<close>: the smallest number when the field is no number.\<close>

definition getIntField :: "string \<Rightarrow> string \<Rightarrow> ('s, 32 word) dprog" where
  "getIntField o' f = dseq (field_of o' f) (\<lambda>el. dseq (dlift (elem_type o' el)) (\<lambda>t.
     if isNumber t then dseq (dlift (numberDouble o' el)) (\<lambda>x. dret (int_of_double x)) else dret (2 ^ 31)))"

definition availableOptions :: "'n os_env \<Rightarrow> 'n check \<Rightarrow> ('n conn, 32 word) dprog" where
  "availableOptions e ck = dseq (dgets cn_availableOptions) (\<lambda>o'. case o' of Some x \<Rightarrow> dret x
     | None \<Rightarrow> dseq (run_object e ck ''admin'' [append_Int ''availablequeryoptions'' 1] 0) (\<lambda>(ok, info).
         dseq (if ok then getIntField info ''options'' else dret 0) (\<lambda>x.
         dthen (dmodify (\<lambda>c. c\<lparr>cn_availableOptions := Some x\<rparr>)) (dret x))))"

definition resetError :: "'n os_env \<Rightarrow> 'n check \<Rightarrow> ('n conn, bool) dprog" where
  "resetError e ck = dseq (simpleCommand e ck ''admin'' ''reseterror'') (\<lambda>(ok, _). dret ok)"

definition repairDatabase :: "'n os_env \<Rightarrow> 'n check \<Rightarrow> string \<Rightarrow> ('n conn, bool \<times> string) dprog" where
  "repairDatabase e ck dbname = simpleCommand e ck dbname ''repairDatabase''"

section \<open>Namespaces\<close>

definition has_dot :: "string \<Rightarrow> bool" where
  "has_dot ns \<longleftrightarrow> CHR ''.'' \<in> set ns"

definition nsGetDB :: "string \<Rightarrow> string" where
  "nsGetDB ns = takeWhile (\<lambda>c. c \<noteq> CHR ''.'') ns"

definition nsGetCollection :: "string \<Rightarrow> string" where
  "nsGetCollection ns = drop 1 (dropWhile (\<lambda>c. c \<noteq> CHR ''.'') ns)"

text \<open>\<^verbatim>\<open>NamespaceString\<close>: without a dot both parts are empty.\<close>

definition ns_db :: "string \<Rightarrow> string" where "ns_db ns = (if has_dot ns then nsGetDB ns else [])"
definition ns_coll :: "string \<Rightarrow> string" where "ns_coll ns = nsGetCollection ns"

text \<open>The buffer has room for \<open>255\<close> characters.\<close>

definition nsToDatabase :: "string \<Rightarrow> exn + string" where
  "nsToDatabase ns = (if 256 \<le> length (nsGetDB ns) then Inl Undefined else Inr (nsGetDB ns))"

text \<open>\<^verbatim>\<open>Namespace(ns).getSisterNS(local)\<close>\<close>

definition getSisterNS :: "string \<Rightarrow> string \<Rightarrow> exn + string" where
  "getSisterNS ns local = (if \<not> length ns < 128 then Inl UserException
     else if local = [] \<or> hd local = CHR ''.'' then Inl AssertionException else Inr (nsGetDB ns @ ''.'' @ local))"

definition countCmd :: "string \<Rightarrow> string \<Rightarrow> 32 word \<Rightarrow> 32 word \<Rightarrow> exn + string" where
  "countCmd myns query limit skip = object_of ([append_String ''count'' (ns_coll myns), append_Object ''query'' query]
     @ (if limit \<noteq> 0 then [append_Int ''limit'' limit] else []) @ (if skip \<noteq> 0 then [append_Int ''skip'' skip] else []))"

text \<open>\<^verbatim>\<open>numberLong\<close>, of a number that fits.\<close>

definition numberLong :: "string \<Rightarrow> element \<Rightarrow> exn + 64 word" where
  "numberLong m e = bindR (elem_type m e) (\<lambda>t.
     if t = NumberDouble then bindR (bindR (elem_value m e) (read_long m)) (\<lambda>x. Inr (word_of_int (let v = double_value x in if v < 0 then - \<lfloor>- v\<rfloor> else \<lfloor>v\<rfloor>)))
     else if t = NumberInt then bindR (bindR (elem_value m e) (read_int m)) (\<lambda>x. Inr (word_of_int (sint x)))
     else if t = NumberLong then bindR (elem_value m e) (read_long m)
     else Inr 0)"

definition conn_count :: "'n os_env \<Rightarrow> 'n check \<Rightarrow> string \<Rightarrow> string \<Rightarrow> 32 word \<Rightarrow> 32 word \<Rightarrow> 32 word \<Rightarrow> ('n conn, 64 word) dprog" where
  "conn_count e ck myns query opts limit skip = dseq (dlift (countCmd myns query limit skip)) (\<lambda>cmd.
     dseq (runCommand e ck (ns_db myns) cmd opts) (\<lambda>(ok, res). if \<not> ok then dthrow UserException
       else dseq (field_of res ''n'') (\<lambda>el. dlift (numberLong res el))))"

definition getLastErrorDetailed :: "'n os_env \<Rightarrow> 'n check \<Rightarrow> ('n conn, string) dprog" where
  "getLastErrorDetailed e ck = dseq (run_object e ck ''admin'' [append_Int ''getlasterror'' 1] 0) (\<lambda>(_, info). dret info)"

text \<open>\<^verbatim>\<open>str()\<close> is the string up to the end its length gives.\<close>

definition elem_str :: "string \<Rightarrow> element \<Rightarrow> exn + string" where
  "elem_str m el = bindR (elem_type m el) (\<lambda>t. if t \<noteq> String_type then Inr [] else bindR (elem_value m el) (\<lambda>v.
     bindR (valuestrsize m v) (\<lambda>n. if n \<le> 0 then Inl Undefined else read m (v + 4) (nat (n - 1)))))"

definition getLastErrorString :: "'n os_env \<Rightarrow> string \<Rightarrow> ('s, string) dprog" where
  "getLastErrorString e info = dseq (field_of info ''err'') (\<lambda>el. dseq (dlift (elem_type info el)) (\<lambda>t.
     if t = EOO_type then dret [] else if t = Object_type then dlift (elem_toString e info el) else dlift (elem_str info el)))"

definition conn_getLastError :: "'n os_env \<Rightarrow> 'n check \<Rightarrow> ('n conn, string) dprog" where
  "conn_getLastError e ck = dseq (getLastErrorDetailed e ck) (getLastErrorString e)"

definition getPrevError :: "'n os_env \<Rightarrow> 'n check \<Rightarrow> ('n conn, string) dprog" where
  "getPrevError e ck = dseq (run_object e ck ''admin'' [append_Int ''getpreverror'' 1] 0) (\<lambda>(_, info). dret info)"

definition isMaster :: "'n os_env \<Rightarrow> 'n check \<Rightarrow> ('n conn, bool \<times> bool \<times> string) dprog" where
  "isMaster e ck = dseq (run_object e ck ''admin'' [append_Int ''ismaster'' 1] 0) (\<lambda>(ok, info).
     dseq (field_of info ''ismaster'') (\<lambda>el. dseq (dlift (trueValue info el)) (\<lambda>b. dret (ok, b, info))))"

text \<open>Without a dot the name of the collection is read behind the end of the string.\<close>

definition createCollection :: "'n os_env \<Rightarrow> 'n check \<Rightarrow> string \<Rightarrow> 64 word \<Rightarrow> bool \<Rightarrow> 32 word \<Rightarrow> ('n conn, bool \<times> string) dprog" where
  "createCollection e ck ns size' capped max' = (if capped \<and> size' = 0 then dthrow AssertionException
     else dseq (dlift (nsToDatabase ns)) (\<lambda>db. if \<not> has_dot ns then dthrow Undefined
     else run_object e ck db ([append_String ''create'' (nsGetCollection ns)]
       @ (if size' \<noteq> 0 then [append_Long ''size'' size'] else []) @ (if capped then [append_Bool ''capped'' True] else [])
       @ (if max' \<noteq> 0 then [append_Int ''max'' max'] else [])) 0))"

definition copyDatabase :: "'n os_env \<Rightarrow> 'n check \<Rightarrow> string \<Rightarrow> string \<Rightarrow> string \<Rightarrow> ('n conn, bool \<times> string) dprog" where
  "copyDatabase e ck fromdb todb fromhost = run_object e ck ''admin''
     [append_Int ''copydb'' 1, append_String ''fromhost'' fromhost, append_String ''fromdb'' fromdb, append_String ''todb'' todb] 0"

definition setDbProfilingLevel :: "'n os_env \<Rightarrow> 'n check \<Rightarrow> string \<Rightarrow> 32 word \<Rightarrow> ('n conn, bool \<times> string) dprog" where
  "setDbProfilingLevel e ck dbname level = dthen
     (if level \<noteq> 0 then dthen (createCollection e ck (dbname @ ''.system.profile'') (1024 * 1024) True 0) (dret ()) else dret ())
     (run_object e ck dbname [append_Int ''profile'' level] 0)"

definition getDbProfilingLevel :: "'n os_env \<Rightarrow> 'n check \<Rightarrow> string \<Rightarrow> ('n conn, 32 word option) dprog" where
  "getDbProfilingLevel e ck dbname = dseq (run_object e ck dbname [append_Int ''profile'' (- 1)] 0) (\<lambda>(ok, info).
     if ok then dseq (getIntField info ''was'') (\<lambda>x. dret (Some x)) else dret None)"

definition mapreduce :: "'n os_env \<Rightarrow> 'n check \<Rightarrow> string \<Rightarrow> string \<Rightarrow> string \<Rightarrow> string \<Rightarrow> string \<Rightarrow> ('n conn, string) dprog" where
  "mapreduce e ck ns jsmapf jsreducef query output = dseq (dlift (isEmpty query 0)) (\<lambda>none.
     dseq (run_object e ck (nsGetDB ns) ([append_String ''mapreduce'' (nsGetCollection ns), appendCode ''map'' jsmapf, appendCode ''reduce'' jsreducef]
       @ (if none then [] else [append_Object ''query'' query]) @ [append_Object ''out'' output]) 0) (\<lambda>(_, info). dret info))"

definition conn_eval :: "'n os_env \<Rightarrow> 'n check \<Rightarrow> string \<Rightarrow> string \<Rightarrow> string option \<Rightarrow> ('n conn, bool \<times> string \<times> element option) dprog" where
  "conn_eval e ck dbname jscode args = dseq (run_object e ck dbname
     (appendCode ''$eval'' jscode # (case args of None \<Rightarrow> [] | Some a \<Rightarrow> [appendArray ''args'' a])) 0) (\<lambda>(ok, info).
     if ok then dseq (field_of info ''retval'') (\<lambda>el. dret (True, info, Some el)) else dret (False, info, None))"

definition resetIndexCache :: "('n conn, unit) dprog" where
  "resetIndexCache = dmodify (\<lambda>c. c\<lparr>cn_seenIndexes := []\<rparr>)"

definition dropCollection :: "'n os_env \<Rightarrow> 'n check \<Rightarrow> string \<Rightarrow> ('n conn, bool) dprog" where
  "dropCollection e ck ns = (let db = nsGetDB ns; coll = nsGetCollection ns in if coll = [] then dthrow UserException
     else dseq (run_object e ck db [append_String ''drop'' coll] 0) (\<lambda>(ok, info).
       dthen resetIndexCache (dret ok)))"

definition dropDatabase :: "'n os_env \<Rightarrow> 'n check \<Rightarrow> string \<Rightarrow> ('n conn, bool) dprog" where
  "dropDatabase e ck dbname = dseq (simpleCommand e ck dbname ''dropDatabase'') (\<lambda>(ok, info).
     dthen resetIndexCache (dret ok))"

definition validate :: "'n os_env \<Rightarrow> 'n check \<Rightarrow> string \<Rightarrow> bool \<Rightarrow> ('n conn, bool) dprog" where
  "validate e ck ns scandata = dseq (run_object e ck (nsGetDB ns) [append_String ''validate'' (nsGetCollection ns), append_Bool ''scandata'' scandata] 0)
     (\<lambda>(ok, _). dret ok)"

definition conn_exists :: "'n os_env \<Rightarrow> 'n check \<Rightarrow> string \<Rightarrow> ('n conn, bool) dprog" where
  "conn_exists e ck ns = dseq (dlift (object_of [append_String ''name'' ns])) (\<lambda>q.
     dseq (conn_count e ck (nsGetDB ns @ ''.system.namespaces'') q QueryOption_SlaveOk 0 0) (\<lambda>n. dret (n \<noteq> 0)))"

text \<open>\<^verbatim>\<open>valuestr()\<close> does not look at the type.\<close>

definition valuestr :: "string \<Rightarrow> element \<Rightarrow> exn + string" where
  "valuestr m el = bindR (elem_value m el) (\<lambda>v. cstring m (v + 4))"

definition db_name :: "string \<Rightarrow> int \<Rightarrow> (exn + string) option" where
  "db_name m pos = (case get_Obj m (At pos) of Inl x \<Rightarrow> Some (Inl x)
     | Inr p \<Rightarrow> map_option (\<lambda>r. bindR r (valuestr m)) (wire_getField m p ''name''))"

partial_function (option) db_names :: "string \<Rightarrow> int \<Rightarrow> int \<Rightarrow> (exn + string list) option" where
  "db_names m pos theend = (if pos < theend then (case next_pos m pos of Inl x \<Rightarrow> Some (Inl x)
     | Inr pos' \<Rightarrow> Option.bind (db_name m pos) (\<lambda>r. case r of Inl x \<Rightarrow> Some (Inl x)
       | Inr s \<Rightarrow> Option.bind (db_names m pos' theend) (\<lambda>r. Some (bindR r (\<lambda>ss. Inr (s # ss))))))
   else Some (Inr []))"

definition names_in :: "string \<Rightarrow> element \<Rightarrow> ('s, string list) dprog" where
  "names_in m el s = (case bindR (get_Obj m el) (BSONObjIterator m) of Inl x \<Rightarrow> Some (Inl x, s)
     | Inr (pos, theend) \<Rightarrow> map_option (\<lambda>r. (r, s)) (db_names m pos theend))"

definition getDatabaseNames :: "'n os_env \<Rightarrow> 'n check \<Rightarrow> ('n conn, string list) dprog" where
  "getDatabaseNames e ck = dseq (run_object e ck ''admin'' [append_Int ''listDatabases'' 1] 0) (\<lambda>(ok, info).
     if \<not> ok then dthrow UserException else dseq (field_of info ''databases'') (\<lambda>el. dseq (dlift (elem_type info el)) (\<lambda>t.
     if t \<noteq> Array_type then dthrow UserException else names_in info el)))"

text \<open>A null pointer is read when there is no cursor.\<close>

definition with_cursor :: "'n os_env \<Rightarrow> 'n check \<Rightarrow> cursor option \<Rightarrow> ('n, 'a) cprog \<Rightarrow> ('n conn, 'a) dprog" where
  "with_cursor e ck k m = (case k of None \<Rightarrow> dthrow Undefined | Some k \<Rightarrow> run_cursor e ck k m)"

text \<open>All objects of a cursor, as \<^verbatim>\<open>next\<close> gives them.\<close>

partial_function (option) all_objects :: "'n os_env \<Rightarrow> 'n check \<Rightarrow> (string \<Rightarrow> ('n, 'a) cprog) \<Rightarrow> ('n, 'a list) cprog" where
  "all_objects e ck f s = dseq (cu_more e ck) (\<lambda>b. if \<not> b then dret [] else dseq (dseq cu_next f) (\<lambda>x.
     dseq (all_objects e ck f) (\<lambda>xs. dret (x # xs)))) s"

definition name_of :: "string \<Rightarrow> ('s, string) dprog" where
  "name_of o' = dseq (field_of o' ''name'') (\<lambda>el. dlift (valuestr o' el))"

definition getCollectionNames :: "'n os_env \<Rightarrow> 'n check \<Rightarrow> string \<Rightarrow> ('n conn, string list) dprog" where
  "getCollectionNames e ck db = dseq (conn_query e ck (db @ ''.system.namespaces'') empty_object 0 0 None 0 0) (\<lambda>k.
     dseq (with_cursor e ck k (all_objects e ck name_of)) (\<lambda>names. dret (filter (\<lambda>s. CHR ''$'' \<notin> set s) names)))"

section \<open>Indexes\<close>

definition number_str :: "32 word \<Rightarrow> string" where
  "number_str x = (if sint x < 0 then ''-'' @ nat_str (nat (- sint x)) else nat_str (nat (sint x)))"

text \<open>\<^verbatim>\<open>genIndexName\<close>: of each key its name, and its value if it is a number.\<close>

definition key_name :: "string \<Rightarrow> int \<Rightarrow> exn + string" where
  "key_name m pos = bindR (fieldName m (At pos)) (\<lambda>f. bindR (elem_type m (At pos)) (\<lambda>t.
     if isNumber t then bindR (numberInt m (At pos)) (\<lambda>x. Inr (f @ ''_'' @ number_str x)) else Inr (f @ ''_'')))"

partial_function (option) key_names :: "string \<Rightarrow> int \<Rightarrow> int \<Rightarrow> (exn + string list) option" where
  "key_names m pos theend = (if pos < theend then (case bindR (next_pos m pos) (\<lambda>p. bindR (key_name m pos) (\<lambda>s. Inr (p, s))) of Inl x \<Rightarrow> Some (Inl x)
     | Inr (pos', s) \<Rightarrow> Option.bind (key_names m pos' theend) (\<lambda>r. Some (bindR r (\<lambda>ss. Inr (s # ss)))))
   else Some (Inr []))"

fun with_underscores :: "string list \<Rightarrow> string" where
  "with_underscores [] = []"
| "with_underscores [s] = s"
| "with_underscores (s # ss) = s @ ''_'' @ with_underscores ss"

definition genIndexName :: "string \<Rightarrow> ('s, string) dprog" where
  "genIndexName keys s = (case BSONObjIterator keys 0 of Inl x \<Rightarrow> Some (Inl x, s)
     | Inr (pos, theend) \<Rightarrow> map_option (\<lambda>r. (bindR r (\<lambda>ss. Inr (with_underscores ss)), s)) (key_names keys pos theend))"

definition system_indexes :: string where "system_indexes = ''system.indexes''"

definition getIndexes :: "'n os_env \<Rightarrow> 'n check \<Rightarrow> string \<Rightarrow> ('n conn, cursor option) dprog" where
  "getIndexes e ck ns = dseq (dlift (getSisterNS ns system_indexes)) (\<lambda>sys. dseq (dlift (object_of [append_String ''ns'' ns])) (\<lambda>q.
     conn_query e ck sys q 0 0 None 0 0))"

definition deleteIndexes :: "'n os_env \<Rightarrow> 'n check \<Rightarrow> string \<Rightarrow> string \<Rightarrow> ('n conn, unit) dprog" where
  "deleteIndexes e ck ns indexName = dseq (dlift (nsToDatabase ns)) (\<lambda>db.
     dseq (run_object e ck db [append_String ''deleteIndexes'' (ns_coll ns), append_String ''index'' indexName] 0) (\<lambda>(ok, info).
       if \<not> ok then dthrow UserException else resetIndexCache))"

definition dropIndex :: "'n os_env \<Rightarrow> 'n check \<Rightarrow> string \<Rightarrow> string \<Rightarrow> ('n conn, unit) dprog" where
  "dropIndex e ck ns indexName = deleteIndexes e ck ns indexName"

definition dropIndex_keys :: "'n os_env \<Rightarrow> 'n check \<Rightarrow> string \<Rightarrow> string \<Rightarrow> ('n conn, unit) dprog" where
  "dropIndex_keys e ck ns keys = dseq (genIndexName keys) (dropIndex e ck ns)"

definition dropIndexes :: "'n os_env \<Rightarrow> 'n check \<Rightarrow> string \<Rightarrow> ('n conn, unit) dprog" where
  "dropIndexes e ck ns = deleteIndexes e ck ns ''*''"

primrec insert_each :: "'n os_env \<Rightarrow> 'n check \<Rightarrow> string \<Rightarrow> string list \<Rightarrow> ('n conn, unit) dprog" where
  "insert_each e ck ns [] = dret ()"
| "insert_each e ck ns (o' # os) = dseq (dlift (getSisterNS ns system_indexes)) (\<lambda>sys.
     dthen (conn_insert e ck sys o' 0) (insert_each e ck ns os))"

text \<open>The cursor lives to the end.\<close>

definition reIndex :: "'n os_env \<Rightarrow> 'n check \<Rightarrow> string \<Rightarrow> ('n conn, unit) dprog" where
  "reIndex e ck ns = dseq (getIndexes e ck ns) (\<lambda>k. with_cursor e ck k (dseq (all_objects e ck dret) (\<lambda>all.
     onConn (dthen (dropIndexes e ck ns) (insert_each e ck ns all)))))"

text \<open>The index is remembered before it is sent.\<close>

definition ensureIndex :: "'n os_env \<Rightarrow> 'n check \<Rightarrow> string \<Rightarrow> string \<Rightarrow> bool \<Rightarrow> string \<Rightarrow> bool \<Rightarrow> bool \<Rightarrow> 32 word \<Rightarrow> ('n conn, bool) dprog" where
  "ensureIndex e ck ns keys unique name cache background version =
     dseq (if name \<noteq> [] then dret name else genIndexName keys) (\<lambda>nn.
     dseq (dgets (\<lambda>c. (ns @ ''--'' @ nn) \<in> set (cn_seenIndexes c))) (\<lambda>seen. if seen then dret False else
     dthen (if cache then dmodify (\<lambda>c. c\<lparr>cn_seenIndexes := (ns @ ''--'' @ nn) # cn_seenIndexes c\<rparr>) else dret ())
     (dseq (dlift (getSisterNS ns system_indexes)) (\<lambda>sys.
      dseq (dlift (object_of ([append_String ''ns'' ns, append_Object ''key'' keys, append_String ''name'' nn]
        @ (if 0 \<le> sint version then [append_Int ''v'' version] else []) @ (if unique then [append_Bool ''unique'' True] else [])
        @ (if background then [append_Bool ''background'' True] else [])))) (\<lambda>o'.
      dthen (conn_insert e ck sys o' 0) (dret True))))))"

section \<open>Whole results\<close>

text \<open>\<^verbatim>\<open>query\<close> with a function, which is handed every object of the result. The model gives the objects; how many there were is their number.\<close>

partial_function (option) take_batch :: "('n, string list) cprog" where
  "take_batch s = dseq (getsC moreInCurrentBatch) (\<lambda>b. if \<not> b then dret [] else dseq nextSafe (\<lambda>o'.
     dseq take_batch (\<lambda>os. dret (o' # os)))) s"

partial_function (option) all_batches :: "'n os_env \<Rightarrow> 'n check \<Rightarrow> ('n, string list) cprog" where
  "all_batches e ck s = dseq (cu_more e ck) (\<lambda>b. if \<not> b then dret [] else dseq take_batch (\<lambda>os.
     dseq (all_batches e ck) (\<lambda>rest. dret (os @ rest)))) s"

text \<open>The server sends the next batch without being asked.\<close>

partial_function (option) exhaust_batches :: "'n os_env \<Rightarrow> ('n, string list) cprog" where
  "exhaust_batches e s = dseq take_batch (\<lambda>os. dseq (getsC isDead) (\<lambda>d. if d then dret os
     else dseq (exhaustReceiveMore e) (\<lambda>_. dseq (exhaust_batches e) (\<lambda>rest. dret (os @ rest))))) s"

definition give_up :: "exn \<Rightarrow> ('n, 'a) cprog" where
  "give_up x = onConn (dthen (dmodify (\<lambda>c. c\<lparr>cn_failed := True\<rparr>)) (dthen sk_close (dthrow x)))"

text \<open>The options that such a query may have.\<close>

definition query_options :: "32 word \<Rightarrow> 32 word" where
  "query_options opts = and opts (or QueryOption_NoCursorTimeout QueryOption_SlaveOk)"

definition query_each :: "'n os_env \<Rightarrow> 'n check \<Rightarrow> string \<Rightarrow> string \<Rightarrow> string option \<Rightarrow> 32 word \<Rightarrow> ('n conn, string list) dprog" where
  "query_each e ck ns query fs opts = dseq (availableOptions e ck) (\<lambda>av.
     let exhaust = has_bits av QueryOption_Exhaust;
         o2 = (if exhaust then or (query_options opts) QueryOption_Exhaust else query_options opts) in
     dseq (conn_query e ck ns query 0 0 fs o2 0) (\<lambda>k. case k of None \<Rightarrow> dthrow UserException
       | Some k \<Rightarrow> run_cursor e ck k (if exhaust then dcatch (exhaust_batches e) give_up else all_batches e ck)))"

section \<open>Signing in\<close>

text \<open>The states of the hash are on the stack; what their buffers hold does not matter (\<open>Md5_Correct\<close>).\<close>

definition stack_state :: md5_state where
  "stack_state = \<lparr>md_count0 = 0, md_count1 = 0, md_abcd = [], md_buf = replicate 64 0\<rparr>"

definition createPasswordDigest :: "string \<Rightarrow> string \<Rightarrow> string" where
  "createPasswordDigest username clearTextPassword = digestToString (md5_of_pieces stack_state [username, '':mongo:'', clearTextPassword])"

definition base_auth :: "'n os_env \<Rightarrow> 'n check \<Rightarrow> string \<Rightarrow> string \<Rightarrow> string \<Rightarrow> bool \<Rightarrow> ('n conn, bool) dprog" where
  "base_auth e ck dbname username password_text digestPassword =
     (let password = (if digestPassword then createPasswordDigest username password_text else password_text) in
      dseq (run_object e ck dbname [append_Int ''getnonce'' 1] 0) (\<lambda>(ok, info). if \<not> ok then dret False
      else dseq (field_of info ''nonce'') (\<lambda>el. dseq (dlift (elem_type info el)) (\<lambda>t. if t \<noteq> String_type then dthrow AssertionException
      else dseq (dlift (bindR (elem_value info el) (\<lambda>v. cstring info (v + 4)))) (\<lambda>nonce.
      dseq (run_object e ck dbname [append_Int ''authenticate'' 1, append_String ''nonce'' nonce, append_String ''user'' username,
        append_String ''key'' (digestToString (md5_of_pieces stack_state [nonce, username, password]))] 0) (\<lambda>(ok, info). dret ok))))))"

definition c_str :: "string \<Rightarrow> string" where
  "c_str s = takeWhile (\<lambda>c. c \<noteq> CHR 0x00) s"

text \<open>The connection remembers who signed in before it tries.\<close>

fun put_auth :: "string \<Rightarrow> string \<times> string \<Rightarrow> (string \<times> string \<times> string) list \<Rightarrow> (string \<times> string \<times> string) list" where
  "put_auth db up [] = [(db, up)]"
| "put_auth db up ((d, x) # xs) = (if d = db then (db, up) # xs
     else if (db, d) \<in> lexord {(a, b). (of_char a :: nat) < of_char b} then (db, up) # (d, x) # xs else (d, x) # put_auth db up xs)"

definition conn_auth :: "'n os_env \<Rightarrow> 'n check \<Rightarrow> string \<Rightarrow> string \<Rightarrow> string \<Rightarrow> bool \<Rightarrow> ('n conn, bool) dprog" where
  "conn_auth e ck dbname username password_text digestPassword =
     (let password = (if digestPassword then createPasswordDigest username password_text else password_text) in
      dthen (dmodify (\<lambda>c. if cn_autoReconnect c then c\<lparr>cn_authCache := put_auth dbname (username, password) (cn_authCache c)\<rparr> else c))
        (base_auth e ck dbname username (c_str password) False))"

section \<open>Connecting\<close>

definition conn_connect_port :: "'n os_env \<Rightarrow> ('n conn, bool) dprog" where
  "conn_connect_port e = dseq (on_os (os_resolve e)) (\<lambda>known. dthen (new_port e)
     (dseq (if known then port_connect e else dret False) (\<lambda>ok.
      dthen (if ok then dret () else dmodify (\<lambda>c. c\<lparr>cn_failed := True\<rparr>)) (dret ok))))"

definition conn_connect :: "'n os_env \<Rightarrow> ('n conn, unit) dprog" where
  "conn_connect e = dseq (conn_connect_port e) (\<lambda>ok. if ok then dret () else dthrow UserException)"

text \<open>Everybody who has signed in on the connection before.\<close>

primrec auth_again :: "'n os_env \<Rightarrow> 'n check \<Rightarrow> (string \<times> string \<times> string) list \<Rightarrow> ('n conn, unit) dprog" where
  "auth_again e ck [] = dret ()"
| "auth_again e ck (a # as) = (case a of (db, user, pwd) \<Rightarrow> dthen (base_auth e ck (c_str db) (c_str user) (c_str pwd) False) (auth_again e ck as))"

definition too_soon :: "'n os_env \<Rightarrow> ('n conn, bool) dprog" where
  "too_soon e = dseq (dgets cn_lastReconnectTry) (\<lambda>t. if t = 0 then dret False
     else dseq (on_os (os_time e)) (\<lambda>now. dret (now - t < 2)))"

definition reconnect :: "'n os_env \<Rightarrow> 'n check \<Rightarrow> ('n conn, unit) dprog" where
  "reconnect e ck = dseq (too_soon e) (\<lambda>soon. if soon then dthrow SocketException
     else dseq (dgets cn_autoReconnect) (\<lambda>auto. if \<not> auto then dthrow SocketException
     else dseq (on_os (os_time e)) (\<lambda>now. dthen (dmodify (\<lambda>c. c\<lparr>cn_lastReconnectTry := now, cn_failed := False\<rparr>))
       (dseq (conn_connect_port e) (\<lambda>ok. if \<not> ok then dthen (dmodify (\<lambda>c. c\<lparr>cn_failed := True\<rparr>)) (dthrow SocketException)
        else dseq (dgets cn_authCache) (auth_again e ck))))))"

lemma dmono_auth [dmono_intros]: "dmono F \<Longrightarrow> dmono (\<lambda>m. base_auth e (F m) db u p b)"
  unfolding base_auth_def Let_def by (intro dmono_intros)

lemma dmono_auth_again [dmono_intros]: "dmono F \<Longrightarrow> dmono (\<lambda>m. auth_again e (F m) as)"
proof (induction as)
  case (Cons a as)
  show ?case unfolding auth_again.simps by (intro dmono_intros Cons)
qed (simp add: dmono_const)

lemma dmono_reconnect: "dmono (reconnect e)"
  unfolding reconnect_def by (intro dmono_intros)

lemma reconnect_mono [partial_function_mono]:
  fixes C :: "('b \<Rightarrow> 'c option) \<Rightarrow> 'n check"
  assumes C: "\<And>c. monotone option.le_fun option_ord (\<lambda>f. C f c)"
  shows "monotone option.le_fun option_ord (\<lambda>f. reconnect e (C f) s)"
proof (rule monotoneI)
  fix f g :: "'b \<Rightarrow> 'c option" assume fg: "option.le_fun f g"
  have "C f c = None \<or> C f c = C g c" for c using C [of c] fg by (auto simp: monotone_def flat_ord_def)
  then have "dle (C f) (C g)" by (simp add: dle_def)
  from dmonoD [OF dmono_reconnect this, of e s] show "option_ord (reconnect e (C f) s) (reconnect e (C g) s)"
    by (auto simp: flat_ord_def)
qed

partial_function (option) checkConnection :: "'n os_env \<Rightarrow> 'n conn \<Rightarrow> ((exn + unit) \<times> 'n conn) option" where
  "checkConnection e c = (if cn_failed c then reconnect e (\<lambda>c. checkConnection e c) c else Some (Inr (), c))"

text \<open>\<^verbatim>\<open>serverAlive\<close>: a connection of its own. The numbers of messages and the way cursors are killed are static.\<close>

definition DBClientConnection :: "bool \<Rightarrow> 'n conn \<Rightarrow> 'n conn" where
  "DBClientConnection auto c = c\<lparr>sk_open := False, sk_out := [], pb_buf := None, cn_port := False, cn_failed := False, cn_autoReconnect := auto,
     cn_lastReconnectTry := 0, cn_authCache := [], cn_availableOptions := None, cn_seenIndexes := []\<rparr>"

definition serverAlive :: "'n os_env \<Rightarrow> ('n conn, bool) dprog" where
  "serverAlive e c = Option.bind (dseq (conn_connect_port e) (\<lambda>ok. if \<not> ok then dret False
     else dseq (simpleCommand e (checkConnection e) ''admin'' ''ping'') (\<lambda>(ok, _). dret ok)) (DBClientConnection False c))
     (\<lambda>(r, c'). dseq (port_destroy e) (\<lambda>_. dlift r) c')"

end
