(* ===== verification/Driver_Correct.thy ===== *)
theory Driver_Correct
  imports Driver Wire_Correct
begin

text \<open>
  What the driver does: the bytes that leave the socket, the requests as the server's own classes read them, a connection that
  has failed, and the documents that a query gives.
\<close>

section \<open>Messages leave in their order\<close>

datatype sending = Say message | Piggy message

primrec sent_message :: "sending \<Rightarrow> message" where
  "sent_message (Say m) = m"
| "sent_message (Piggy m) = m"

primrec send_one :: "'n os_env \<Rightarrow> sending \<Rightarrow> ('n conn, unit) dprog" where
  "send_one e (Say m) = dthen (port_say e m (- 1)) (dret ())"
| "send_one e (Piggy m) = port_piggyBack e m (- 1)"

primrec send_all :: "'n os_env \<Rightarrow> sending list \<Rightarrow> ('n conn, unit) dprog" where
  "send_all e [] = dret ()"
| "send_all e (x # xs) = dthen (send_one e x) (send_all e xs)"

text \<open>The bytes of the messages with the numbers they get.\<close>

primrec numbered :: "32 word \<Rightarrow> sending list \<Rightarrow> string list" where
  "numbered i [] = []"
| "numbered i (x # xs) = message_bytes ((sent_message x)\<lparr>m_id := i, m_responseTo := - 1\<rparr>) # numbered (i + 1) xs"

definition waiting :: "'n conn \<Rightarrow> string" where
  "waiting c = (case pb_buf c of None \<Rightarrow> [] | Some b \<Rightarrow> b)"

text \<open>An operating system that takes some of the bytes each time.\<close>

definition takes_some :: "'n os_env \<Rightarrow> bool" where
  "takes_some e \<longleftrightarrow> (\<forall>data n. data \<noteq> [] \<longrightarrow> (case os_send e data n of (None, _) \<Rightarrow> False | (Some k, _) \<Rightarrow> 0 < k \<and> k \<le> length data))"

lemma takes_someE:
  assumes "takes_some e" and "data \<noteq> []"
  obtains k n' where "os_send e data n = (Some k, n')" "0 < k" "k \<le> length data"
  using assms(1) [unfolded takes_some_def, rule_format, OF assms(2), of n] by (auto split: prod.splits option.splits)

lemma sk_send_all:
  assumes "takes_some e" and "sk_open c"
  shows "\<exists>n. sk_send e data c = Some (Inr (), c\<lparr>cn_os := n, sk_out := sk_out c @ data\<rparr>)"
  using assms(2)
proof (induction "length data" arbitrary: data c rule: less_induct)
  case less
  show ?case
  proof (cases "data = []")
    case True
    then have "sk_send e data c = Some (Inr (), c\<lparr>cn_os := cn_os c, sk_out := sk_out c @ data\<rparr>)"
      by (subst sk_send.simps) (simp add: dret_def)
    then show ?thesis by blast
  next
    case False
    then obtain k n' where k: "os_send e data (cn_os c) = (Some k, n')" "0 < k" "k \<le> length data"
      using takes_someE [OF assms(1)] by metis
    let ?c = "c\<lparr>cn_os := n', sk_out := sk_out c @ take k data\<rparr>"
    have "\<exists>n. sk_send e (drop k data) ?c = Some (Inr (), ?c\<lparr>cn_os := n, sk_out := sk_out ?c @ drop k data\<rparr>)"
      using False k less.prems by (intro less.hyps) simp_all
    with k less.prems False show ?thesis by (subst sk_send.simps) auto
  qed
qed

lemma pb_len_waiting: "pb_len c = length (waiting c)"
  by (simp add: pb_len_def waiting_def split: option.split)

text \<open>Two states in which the same has been said, except for what the operating system keeps.\<close>

definition flushed :: "'n conn \<Rightarrow> 'n conn \<Rightarrow> bool" where
  "flushed c c' \<longleftrightarrow> sk_open c' \<and> sk_out c' = sk_out c @ waiting c \<and> waiting c' = [] \<and> next_msgid c' = next_msgid c
     \<and> (pb_buf c' = None \<longleftrightarrow> pb_buf c = None)"

lemma pb_flush_all:
  assumes "takes_some e" and "sk_open c"
  shows "\<exists>c'. pb_flush e c = Some (Inr (), c') \<and> flushed c c'"
proof (cases "waiting c = []")
  case True
  with assms(2) show ?thesis
    by (auto simp: pb_flush_def dprog_defs waiting_def flushed_def split: option.splits)
next
  case False
  then obtain b where b: "pb_buf c = Some b" "b \<noteq> []" by (auto simp: waiting_def split: option.splits)
  obtain n where "sk_send e b c = Some (Inr (), c\<lparr>cn_os := n, sk_out := sk_out c @ b\<rparr>)"
    using sk_send_all [OF assms] by blast
  with b assms(2) show ?thesis by (auto simp: pb_flush_def dprog_defs waiting_def flushed_def)
qed

lemma length_message_bytes: "length (message_bytes m) = message_len m"
  by (simp add: message_bytes_def message_len_def MsgDataHeaderSize_def)

text \<open>What one operation does to what has been said.\<close>

definition said :: "string \<Rightarrow> 'n conn \<Rightarrow> 'n conn \<Rightarrow> bool" where
  "said s c c' \<longleftrightarrow> sk_open c' \<and> sk_out c' @ waiting c' = sk_out c @ waiting c @ s"

lemma pb_append_said:
  assumes "takes_some e" and "sk_open c" and "pb_buf c \<noteq> None" and "message_len m \<le> PIGGY_MAX"
  shows "\<exists>c'. pb_append e m c = Some (Inr (), c') \<and> said (message_bytes m) c c' \<and> next_msgid c' = next_msgid c \<and> pb_buf c' \<noteq> None
    \<and> length (waiting c') \<le> PIGGY_MAX"
proof -
  obtain c1 where c1: "pb_flush e c = Some (Inr (), c1)" "flushed c c1" using pb_flush_all [OF assms(1,2)] by blast
  then obtain b1 where b1: "pb_buf c1 = Some b1" "b1 = []" using assms(3) by (auto simp: flushed_def waiting_def)
  obtain b where b: "pb_buf c = Some b" using assms(3) by blast
  show ?thesis
    using assms(2,4) c1 b b1
    by (auto simp: pb_append_def dprog_defs pb_len_waiting said_def waiting_def flushed_def length_message_bytes)
qed

lemma number_message: "number_message m r c = Some (Inr (m\<lparr>m_id := next_msgid c, m_responseTo := r\<rparr>), c\<lparr>next_msgid := next_msgid c + 1\<rparr>)"
  by (simp add: number_message_def nextMessageId_def dprog_defs)

lemma port_say_said:
  fixes c :: "'n conn" and m r
  assumes os: "takes_some e" and c: "sk_open c"
  defines "n \<equiv> m\<lparr>m_id := next_msgid c, m_responseTo := r\<rparr>"
  shows "\<exists>c'. port_say e m r c = Some (Inr n, c') \<and> said (message_bytes n) c c' \<and> next_msgid c' = next_msgid c + 1 \<and> waiting c' = []"
proof -
  let ?c = "c\<lparr>next_msgid := next_msgid c + 1\<rparr>"
  have w: "waiting ?c = waiting c" "sk_open ?c" using c by (simp_all add: waiting_def)
  obtain c1 where c1: "pb_flush e ?c = Some (Inr (), c1)" "flushed ?c c1" using pb_flush_all [OF os w(2)] by blast
  obtain n1 where n1: "sk_send e (message_bytes n) c1 = Some (Inr (), c1\<lparr>cn_os := n1, sk_out := sk_out c1 @ message_bytes n\<rparr>)"
    using sk_send_all [OF os, of c1] c1 by (auto simp: flushed_def)
  obtain n2 where n2: "sk_send e (message_bytes n) ?c = Some (Inr (), ?c\<lparr>cn_os := n2, sk_out := sk_out ?c @ message_bytes n\<rparr>)"
    using sk_send_all [OF os w(2)] by blast
  show ?thesis
  proof (cases "waiting c \<noteq> [] \<and> length (waiting c) + message_len n \<le> PIGGY_MAX")
    case True
    then have "pb_buf ?c \<noteq> None" "message_len n \<le> PIGGY_MAX" by (auto simp: waiting_def split: option.splits)
    then obtain c2 where c2: "pb_append e n ?c = Some (Inr (), c2)" "said (message_bytes n) ?c c2" "next_msgid c2 = next_msgid ?c"
      using pb_append_said [OF os w(2)] by blast
    then obtain c3 where c3: "pb_flush e c2 = Some (Inr (), c3)" "flushed c2 c3" using pb_flush_all [OF os] by (auto simp: said_def)
    have "port_say e m r c = Some (Inr n, c3)"
      using True c2 c3 by (simp add: port_say_def dprog_defs number_message pb_len_waiting w flip: n_def)
    with c2 c3 w show ?thesis by (auto simp: said_def flushed_def)
  next
    case False
    then have "port_say e m r c = dthen (if waiting c \<noteq> [] then pb_flush e else dret ()) (dthen (sk_send e (message_bytes n)) (dret n)) ?c"
      by (auto simp: port_say_def dseq_def dgets_def number_message pb_len_waiting w simp flip: n_def)
    with c1 n1 n2 w show ?thesis
      by (auto simp: dprog_defs said_def flushed_def waiting_def)
  qed
qed

lemma message_len_ids [simp]: "message_len (m\<lparr>m_id := i, m_responseTo := r\<rparr>) = message_len m"
  by (simp add: message_len_def)

lemma piggyBack_said:
  fixes c :: "'n conn" and m
  assumes os: "takes_some e" and c: "sk_open c" and w: "length (waiting c) \<le> PIGGY_MAX"
  shows "\<exists>c'. port_piggyBack e m (- 1) c = Some (Inr (), c') \<and> said (message_bytes (m\<lparr>m_id := next_msgid c, m_responseTo := - 1\<rparr>)) c c'
    \<and> next_msgid c' = next_msgid c + 1 \<and> length (waiting c') \<le> PIGGY_MAX"
proof (cases "PIGGY_MAX < message_len m")
  case True
  then show ?thesis using port_say_said [OF os c, of m "- 1"] by (auto simp: port_piggyBack_def dprog_defs)
next
  case False
  let ?n = "m\<lparr>m_id := next_msgid c, m_responseTo := - 1\<rparr>"
  let ?c = "c\<lparr>next_msgid := next_msgid c + 1, pb_buf := (case pb_buf c of None \<Rightarrow> Some [] | Some b \<Rightarrow> Some b)\<rparr>"
  have o': "sk_open ?c" "pb_buf ?c \<noteq> None" using c by (auto split: option.splits)
  obtain c' where "pb_append e ?n ?c = Some (Inr (), c')" "said (message_bytes ?n) ?c c'" "next_msgid c' = next_msgid ?c" "length (waiting c') \<le> PIGGY_MAX"
    using pb_append_said [OF os o', of ?n] False by auto
  moreover have "waiting ?c = waiting c" by (auto simp: waiting_def split: option.splits)
  ultimately show ?thesis using False by (auto simp: port_piggyBack_def dprog_defs number_message said_def)
qed

lemma send_one_said:
  assumes "takes_some e" and "sk_open c" and "length (waiting c) \<le> PIGGY_MAX"
  shows "\<exists>c'. send_one e x c = Some (Inr (), c') \<and> said (message_bytes ((sent_message x)\<lparr>m_id := next_msgid c, m_responseTo := - 1\<rparr>)) c c'
    \<and> next_msgid c' = next_msgid c + 1 \<and> length (waiting c') \<le> PIGGY_MAX \<and> ((\<exists>m. x = Say m) \<longrightarrow> waiting c' = [])"
proof (cases x)
  case (Say m)
  then show ?thesis using port_say_said [OF assms(1,2), of m "- 1"] by (auto simp: dprog_defs)
next
  case (Piggy m)
  then show ?thesis using piggyBack_said [OF assms, of m] by auto
qed

text \<open>
  C34. Whatever mixture of messages is said and piggybacked, to an open socket whose operating system takes some bytes each time, the calls return,
  and what has gone out and what still waits are together the bytes of all messages, whole, in the order of the calls, numbered one after the other; at most
  one packet's worth waits, and nothing does after a message that was said.
\<close>

theorem messages_in_order:
  assumes "takes_some e" and "sk_open c" and "length (waiting c) \<le> PIGGY_MAX"
  shows "\<exists>c'. send_all e xs c = Some (Inr (), c') \<and> sk_out c' @ waiting c' = sk_out c @ waiting c @ concat (numbered (next_msgid c) xs)
    \<and> next_msgid c' = next_msgid c + of_nat (length xs) \<and> length (waiting c') \<le> PIGGY_MAX
    \<and> (xs \<noteq> [] \<and> (\<exists>m. last xs = Say m) \<longrightarrow> waiting c' = [])"
  using assms
proof (induction xs arbitrary: c)
  case Nil
  then show ?case by (simp add: dprog_defs)
next
  case (Cons x xs)
  obtain c1 where c1: "send_one e x c = Some (Inr (), c1)" "next_msgid c1 = next_msgid c + 1" "length (waiting c1) \<le> PIGGY_MAX"
      "said (message_bytes ((sent_message x)\<lparr>m_id := next_msgid c, m_responseTo := - 1\<rparr>)) c c1" "(\<exists>m. x = Say m) \<longrightarrow> waiting c1 = []"
    using send_one_said [OF Cons.prems, of x] by (elim exE conjE) (rule that)
  obtain c2 where c2: "send_all e xs c1 = Some (Inr (), c2)" "sk_out c2 @ waiting c2 = sk_out c1 @ waiting c1 @ concat (numbered (next_msgid c1) xs)"
      "next_msgid c2 = next_msgid c1 + of_nat (length xs)" "length (waiting c2) \<le> PIGGY_MAX"
      "xs \<noteq> [] \<and> (\<exists>m. last xs = Say m) \<longrightarrow> waiting c2 = []"
    using Cons.IH [of c1] Cons.prems(1) c1(3,4) by (auto simp: said_def)
  have "send_all e (x # xs) c = Some (Inr (), c2)" using c1(1) c2(1) by (simp add: dthen_def dseq_def)
  moreover have "sk_out c2 @ waiting c2 = sk_out c @ waiting c @ concat (numbered (next_msgid c) (x # xs))"
    using c1(2,4) c2(2) by (simp add: said_def)
  moreover have "waiting c2 = []" if "\<exists>m. last (x # xs) = Say m"
  proof (cases "xs = []")
    case True
    with that c1(5) c2(1) show ?thesis by (simp add: dprog_defs)
  qed (use that c2(5) in simp)
  ultimately show ?case using c1(2) c2(3,4) by (simp add: add.assoc)
qed

section \<open>Requests as the server reads them\<close>

lemma message_of_bytes: "message_of (drop 4 (message_bytes m)) = m"
proof -
  have "length (le 2 (unat (m_operation m))) = 2" by simp
  moreover have "unat (m_operation m) < 2 ^ 16" using unsigned_less [of "m_operation m"] by simp
  ultimately show ?thesis
    by (cases m) (simp add: message_of_def message_bytes_def unle_words unle_le nth_append)
qed

definition fits :: "(string \<times> wvalue) list \<Rightarrow> bool" where
  "fits fs \<longleftrightarrow> length (enc_doc fs) \<le> nat BSONObjMaxInternalSize"

lemma doc_in_memory:
  assumes "holds m p (enc_doc fs)" and "fits fs"
  shows "objsize m p = Inr (int (length (enc_doc fs)))" "BSONObj_init m p = Inr p" "5 \<le> length (enc_doc fs)"
proof -
  have len: "length (enc_fields fs) + 5 \<le> 16793600" using assms(2) by (simp add: fits_def enc_doc_def max_eq)
  have "holds m p (enc_int (length (enc_fields fs) + 5))" using assms(1) by (simp add: enc_doc_def enc_frame_def holds_append)
  then show size: "objsize m p = Inr (int (length (enc_doc fs)))" using holds_size(2) len by (simp add: enc_doc_def)
  then show "BSONObj_init m p = Inr p" using len by (simp add: BSONObj_init_def objsize_ok_def max_eq enc_doc_def)
  show "5 \<le> length (enc_doc fs)" by (simp add: enc_doc_def)
qed

lemma holds_self: "holds s 0 s"
  by (auto simp: holds_def intro: exI [of _ "[]"])

lemma writes_bthen [writes_intros]: "writes f s \<Longrightarrow> writes g t \<Longrightarrow> writes (bthen f g) (s @ t)"
  unfolding bthen_def by (rule writes_bind)

lemma writes_Inr: "writes Inr []"
  by (simp add: writes_def) (metis buf.surjective old.unit.exhaust)

lemma writes_doc:
  assumes "fits fs"
  shows "writes (appendSelfToBufBuilder (enc_doc fs)) (enc_doc fs)"
proof -
  note d = doc_in_memory [OF holds_self assms]
  have "obj_bytes (enc_doc fs) = Inr (enc_doc fs)" using d(1,3) by (cases "enc_doc fs") (simp_all add: obj_bytes_def holds_read [OF holds_self])
  then show ?thesis using writes_appendBuf [of "enc_doc fs"] by (simp add: appendSelfToBufBuilder_def [abs_def])
qed

lemma to_message_writes:
  assumes "writes f s" and "length s \<le> room"
  shows "to_message op f = Inr (setData op s)"
  using writesD [OF assms(1), of new_buf] assms(2) by (auto simp: to_message_def new_buf_def)

text \<open>What the driver puts into a query.\<close>

definition enc_option :: "(string \<times> wvalue) list option \<Rightarrow> string" where
  "enc_option fs = (case fs of None \<Rightarrow> [] | Some f \<Rightarrow> enc_doc f)"

definition query_bytes where
  "query_bytes ns q n skip fs opts = le32 opts @ enc_cstring ns @ le32 skip @ le32 n @ enc_doc q @ enc_option fs"

lemma assembleRequest_bytes:
  assumes "fits q" and "\<And>f. fs = Some f \<Longrightarrow> fits f" and "length (query_bytes ns q n skip fs opts) \<le> room"
  shows "assembleRequest ns (enc_doc q) n skip (map_option enc_doc fs) opts = Inr (setData dbQuery (query_bytes ns q n skip fs opts))"
proof -
  have "writes (case map_option enc_doc fs of None \<Rightarrow> Inr | Some f \<Rightarrow> appendSelfToBufBuilder f) (enc_option fs)"
    using assms(2) by (cases fs) (simp_all add: enc_option_def writes_Inr writes_doc)
  then show ?thesis
    unfolding assembleRequest_def query_bytes_def
    by (intro to_message_writes writes_bthen writes_intros writes_doc assms(1) assms(3) [unfolded query_bytes_def])
qed

lemma nextJsObj_reads:
  assumes "holds (m_data (d_msg d)) p (enc_doc fs)" and "fits fs" and "d_next d = Some p" and "p \<noteq> d_data"
    and "int (length (enc_doc fs)) < theEnd d - d_data" and "p + int (length (enc_doc fs)) \<le> theEnd d"
  shows "nextJsObj d = Inr (p, d\<lparr>d_next := (if p + int (length (enc_doc fs)) = theEnd d then None else Some (p + int (length (enc_doc fs))))\<rparr>)"
  using assms(3-) doc_in_memory [OF assms(1,2)] by (auto simp: nextJsObj_def)

lemma query_read:
  fixes ns :: string and m :: message
  assumes ns: "CHR 0x00 \<notin> set ns" and fits: "fits q" "\<And>f. fs = Some f \<Longrightarrow> fits f" and m: "m_data m = query_bytes ns q n skip fs opts"
  defines "p \<equiv> int (length ns) + 13"
  shows "\<exists>d. QueryMessage (DbMessage m) = Inr (\<lparr>q_ns = ns, q_ntoskip = skip, q_ntoreturn = n, q_options = opts, q_query = p,
      q_fields = map_option (\<lambda>_. p + int (length (enc_doc q))) fs\<rparr>, d) \<and> \<not> moreJSObjs d"
proof -
  let ?s = "query_bytes ns q n skip fs opts"
  have h: "holds ?s 0 (le32 opts)" "holds ?s 4 (enc_cstring ns)" "holds ?s (4 + int (length ns) + 1) (le32 skip)"
      "holds ?s (4 + int (length ns) + 5) (le32 n)" "holds ?s p (enc_doc q)" "holds ?s (p + int (length (enc_doc q))) (enc_option fs)"
    using holds_self [of ?s] by (simp_all add: query_bytes_def holds_append p_def add_ac)
  have len: "length (query_bytes ns q n skip g opts) = length ns + 13 + length (enc_doc q) + length (enc_option g)" for g by (simp add: query_bytes_def)
  have cs: "cstring ?s 4 = Inr ns" by (rule holds_cstring [OF h(2) ns])
  have ints: "read_int ?s 0 = Inr opts" "read_int ?s (int (length ns) + 5) = Inr skip" "read_int ?s (int (length ns) + 9) = Inr n"
    using h(1,3,4) by (simp_all add: holds_int add_ac)
  let ?d = "\<lparr>d_msg = m, d_next = Some p, d_mark = None\<rparr>"
  have q: "nextJsObj ?d = Inr (p, ?d\<lparr>d_next := (if fs = None then None else Some (p + int (length (enc_doc q))))\<rparr>)"
  proof -
    have "fs \<noteq> None \<Longrightarrow> enc_option fs \<noteq> []" by (auto simp: enc_option_def enc_doc_def enc_frame_def)
    then have "(p + int (length (enc_doc q)) = theEnd ?d) = (fs = None)"
      by (cases fs) (auto simp: theEnd_def m len p_def enc_option_def)
    moreover have "int (length (enc_doc q)) < theEnd ?d - d_data" "p + int (length (enc_doc q)) \<le> theEnd ?d"
      by (simp_all add: theEnd_def m len p_def d_data_def)
    ultimately show ?thesis using nextJsObj_reads [of ?d p q] h(5) fits(1) m by (simp add: p_def d_data_def)
  qed
  have f: "nextJsObj (?d\<lparr>d_next := Some (p + int (length (enc_doc q)))\<rparr>) = Inr (p + int (length (enc_doc q)), ?d\<lparr>d_next := None\<rparr>)"
    if "fs = Some f" for f
    using nextJsObj_reads [of "?d\<lparr>d_next := Some (p + int (length (enc_doc q)))\<rparr>" "p + int (length (enc_doc q))" f] h(6) fits(2) that m len
    by (simp add: p_def d_data_def theEnd_def enc_option_def)
  have start: "QueryMessage (DbMessage m) = bindR (nextJsObj ?d) (\<lambda>(query, d).
      bindR (if moreJSObjs d then bindR (nextJsObj d) (\<lambda>(f, d). Inr (Some f, d)) else Inr (None, d)) (\<lambda>(fields, d).
      bindR (read_int (m_data (d_msg d)) 0) (\<lambda>opts.
        Inr (\<lparr>q_ns = ns, q_ntoskip = skip, q_ntoreturn = n, q_options = opts, q_query = query, q_fields = fields\<rparr>, d))))"
    using cs ints by (simp add: QueryMessage_def DbMessage_def getns_def pullInt_def pull_pos_def afterNS_def d_data_def m p_def add_ac)
  show ?thesis
    unfolding start q using f ints(1) m by (cases fs) (simp_all add: moreJSObjs_def)
qed

text \<open>
  C17. A query that the driver writes, sent as bytes with whatever numbers and received by the server, is read by the server's classes as the same
  query: the collection, both numbers, the options, and the objects of the query and of the fields, and nothing is left over.
\<close>

theorem query_roundtrip:
  assumes "CHR 0x00 \<notin> set ns" and "fits q" and "\<And>f. fs = Some f \<Longrightarrow> fits f" and "length (query_bytes ns q n skip fs opts) \<le> room"
  shows "\<exists>m d p. assembleRequest ns (enc_doc q) n skip (map_option enc_doc fs) opts = Inr m
    \<and> (let r = message_of (drop 4 (message_bytes (m\<lparr>m_id := i, m_responseTo := j\<rparr>))) in
       m_operation r = dbQuery \<and> m_id r = i \<and> doesOpGetAResponse (m_operation r)
       \<and> QueryMessage (DbMessage r) = Inr (\<lparr>q_ns = ns, q_ntoskip = skip, q_ntoreturn = n, q_options = opts, q_query = p,
           q_fields = map_option (\<lambda>_. p + int (length (enc_doc q))) fs\<rparr>, d) \<and> \<not> moreJSObjs d
       \<and> holds (m_data r) p (enc_doc q) \<and> (\<forall>f. fs = Some f \<longrightarrow> holds (m_data r) (p + int (length (enc_doc q))) (enc_doc f)))"
proof -
  let ?m = "setData dbQuery (query_bytes ns q n skip fs opts)"
  let ?p = "int (length ns) + 13"
  have data: "m_data (?m\<lparr>m_id := i, m_responseTo := j\<rparr>) = query_bytes ns q n skip fs opts" by (simp add: setData_def)
  obtain d where "QueryMessage (DbMessage (?m\<lparr>m_id := i, m_responseTo := j\<rparr>)) = Inr (\<lparr>q_ns = ns, q_ntoskip = skip, q_ntoreturn = n,
      q_options = opts, q_query = ?p, q_fields = map_option (\<lambda>_. ?p + int (length (enc_doc q))) fs\<rparr>, d) \<and> \<not> moreJSObjs d"
    using query_read [OF assms(1,2,3) data] by blast
  moreover have "holds (query_bytes ns q n skip fs opts) ?p (enc_doc q)"
      "\<forall>f. fs = Some f \<longrightarrow> holds (query_bytes ns q n skip fs opts) (?p + int (length (enc_doc q))) (enc_doc f)"
    using holds_self [of "query_bytes ns q n skip fs opts"] by (auto simp: query_bytes_def holds_append enc_option_def add_ac)
  ultimately show ?thesis
    by (intro exI [of _ ?m] exI [of _ d] exI [of _ ?p])
      (simp add: assembleRequest_bytes assms message_of_bytes data Let_def setData_def doesOpGetAResponse_def)
qed

section \<open>Objects that commands are made of\<close>

definition fills :: "(builder \<Rightarrow> exn + builder) \<Rightarrow> string \<Rightarrow> bool" where
  "fills f s \<longleftrightarrow> (\<forall>b. length (bb_data (bo_buf b)) + length s \<le> room \<longrightarrow> filled b s (f b))"

lemma fills_ops:
  "fills (append_Int n x) (enc_elem n (WInt x))" "fills (append_String n s) (enc_elem n (WString s))"
  "fills (append_Object n (enc_doc fs)) (enc_elem n (WObject fs))"
  by (simp_all add: fills_def filled_ops)

lemma fills_Nil: "fills (build_fields []) []"
proof (unfold fills_def, intro allI impI)
  fix b :: builder
  obtain x o' d where "b = \<lparr>bo_buf = x, bo_offset = o', bo_done = d\<rparr>" by (cases b)
  moreover obtain y n where "x = \<lparr>bb_data = y, bb_size = n\<rparr>" by (cases x)
  ultimately show "filled b [] (build_fields [] b)" by (simp add: filled_def)
qed

lemma fills_Cons:
  assumes "fills f s" and "fills (build_fields fs) t"
  shows "fills (build_fields (f # fs)) (s @ t)"
proof (unfold fills_def, intro allI impI)
  fix b :: builder assume "length (bb_data (bo_buf b)) + length (s @ t) \<le> room"
  then show "filled b (s @ t) (build_fields (f # fs) b)"
    using assms unfolding build_fields.simps by (intro filled_bind) (simp_all add: fills_def)
qed

lemma object_of_fills:
  assumes "fills (build_fields fs) s" and "length s + 5 \<le> nat BSONObjMaxInternalSize"
  shows "object_of fs = Inr (enc_frame s)"
proof -
  have "bindR (bindR (BSONObjBuilder 512 CHR 0x00) (build_fields fs)) builder_obj = Inr (enc_frame s)"
    using assms by (intro built_object) (simp_all add: fills_def)
  then show ?thesis by (cases "BSONObjBuilder 512 CHR 0x00") (simp_all add: object_of_def)
qed

lemma object_of_int: "length n < 1000 \<Longrightarrow> object_of [append_Int n x] = Inr (enc_doc [(n, WInt x)])"
  using object_of_fills [OF fills_Cons [OF fills_ops(1) fills_Nil], of n x] by (simp add: enc_doc_def enc_elem_def max_eq)

lemma object_of_index:
  assumes "fits [(''ns'', WString ns), (''key'', WObject keys), (''name'', WString name)]"
  shows "object_of [append_String ''ns'' ns, append_Object ''key'' (enc_doc keys), append_String ''name'' name]
    = Inr (enc_doc [(''ns'', WString ns), (''key'', WObject keys), (''name'', WString name)])"
  using object_of_fills [OF fills_Cons [OF fills_ops(2) fills_Cons [OF fills_ops(3) fills_Cons [OF fills_ops(2) fills_Nil]]], of "''ns''" ns "''key''" keys "''name''" name]
    assms by (simp add: enc_doc_def enc_elem_def fits_def)

lemma insert_message_bytes:
  assumes "fits fs" and "length ns < 1000" and "length (enc_doc fs) \<le> 16000000"
  shows "insert_message ns (enc_doc fs) flags = Inr (setData dbInsert (le32 flags @ enc_cstring ns @ enc_doc fs))"
  unfolding insert_message_def using assms(2,3)
  by (intro to_message_writes writes_bthen writes_intros writes_doc assms(1)) (simp add: room_eq)

lemma getMore_message_bytes:
  "length ns < 1000 \<Longrightarrow> getMore_message opts ns n cid = Inr (setData dbGetMore (le32 opts @ enc_cstring ns @ le32 n @ le64 cid))"
  unfolding getMore_message_def by (intro to_message_writes writes_bthen writes_intros) (simp add: room_eq)

section \<open>A connection that has failed\<close>

text \<open>It may not connect again, or not yet.\<close>

definition stays_down :: "'n os_env \<Rightarrow> 'n conn \<Rightarrow> bool" where
  "stays_down e c \<longleftrightarrow> cn_failed c \<and> (\<not> cn_autoReconnect c \<or> cn_lastReconnectTry c \<noteq> 0 \<and> fst (os_time e (cn_os c)) - cn_lastReconnectTry c < 2)"

text \<open>At most the clock was read.\<close>

definition refuses :: "('n conn, 'a) dprog \<Rightarrow> 'n conn \<Rightarrow> bool" where
  "refuses m c \<longleftrightarrow> (\<exists>n. m c = Some (Inl SocketException, c\<lparr>cn_os := n\<rparr>))"

lemma refuses_dseq: "refuses m c \<Longrightarrow> refuses (dseq m f) c"
  by (auto simp: refuses_def dseq_def)

lemma refuses_dthen: "refuses m c \<Longrightarrow> refuses (dthen m n) c"
  by (simp add: dthen_def refuses_dseq)

lemma dseq_at: "m c = Some (Inr x, c') \<Longrightarrow> dseq m f c = f x c'"
  by (simp add: dseq_def)

lemma dseq_stop: "m c = Some (Inl x, c') \<Longrightarrow> dseq m f c = Some (Inl x, c')"
  by (simp add: dseq_def)

lemma too_soon_at:
  "too_soon e c = Some (Inr (cn_lastReconnectTry c \<noteq> 0 \<and> fst (os_time e (cn_os c)) - cn_lastReconnectTry c < 2),
     if cn_lastReconnectTry c = 0 then c else c\<lparr>cn_os := snd (os_time e (cn_os c))\<rparr>)"
  by (simp add: too_soon_def dprog_defs on_os_def split: prod.split)

lemma dseq_too_soon:
  "dseq (too_soon e) f c = f (cn_lastReconnectTry c \<noteq> 0 \<and> fst (os_time e (cn_os c)) - cn_lastReconnectTry c < 2)
     (if cn_lastReconnectTry c = 0 then c else c\<lparr>cn_os := snd (os_time e (cn_os c))\<rparr>)"
  by (simp add: dseq_def too_soon_at)

lemma dseq_simps [simp]:
  "dseq (dgets g) f c = f (g c) c" "dseq (dret x) f c = f x c" "dseq (dlift (Inr x)) f c = f x c" "dseq (dmodify h) f' c = f' () (h c)"
  "dthen (dmodify h) m c = m (h c)" "dthen (dret x) m c = m c"
  by (simp_all add: dprog_defs)

lemma checkConnection_refuses:
  assumes "stays_down e c"
  shows "refuses (checkConnection e) c"
proof -
  let ?soon = "cn_lastReconnectTry c \<noteq> 0 \<and> fst (os_time e (cn_os c)) - cn_lastReconnectTry c < 2"
  obtain n where n: "(if cn_lastReconnectTry c = 0 then c else c\<lparr>cn_os := snd (os_time e (cn_os c))\<rparr>) = c\<lparr>cn_os := n\<rparr>"
    by (cases "cn_lastReconnectTry c = 0") (auto intro: that [of "cn_os c"])
  have "checkConnection e c = reconnect e (checkConnection e) c"
    using assms by (subst checkConnection.simps) (simp add: stays_down_def)
  also have "\<dots> = Some (Inl SocketException, c\<lparr>cn_os := n\<rparr>)"
  proof (cases ?soon)
    case True
    then show ?thesis unfolding reconnect_def dseq_too_soon n by (simp add: dthrow_def)
  next
    case False
    then have "\<not> cn_autoReconnect c" using assms by (auto simp: stays_down_def)
    with False show ?thesis unfolding reconnect_def dseq_too_soon n by (simp add: dthrow_def)
  qed
  finally show ?thesis by (auto simp: refuses_def)
qed

lemma refuses_dlift: "refuses (dseq (dlift (Inr x)) f) c = refuses (f x) c"
  by (simp add: refuses_def)

lemma conn_refuses:
  assumes "stays_down e c"
  shows "refuses (conn_say e (checkConnection e) m) c" "refuses (conn_call e (checkConnection e) m b) c"
    "refuses (conn_query e (checkConnection e) ns q n skip fs opts bs) c" "refuses (findN e (checkConnection e) ns q n skip fs opts) c"
    "refuses (findOne e (checkConnection e) ns q fs opts) c" "refuses (runCommand e (checkConnection e) db cmd opts) c"
  unfolding conn_say_def conn_call_def conn_query_def findN_def findOne_def runCommand_def
  by (intro refuses_dseq refuses_dthen checkConnection_refuses assms)+

text \<open>
  On a connection that has failed and does not reconnect, or whose last try was less than two seconds ago, every query, command, insertion, removal,
  update, and signing in throws the exception of sockets; nothing is sent and nothing of the connection changes.
\<close>

theorem failed_connection_quiet:
  assumes "stays_down e c"
  shows "refuses (findN e (checkConnection e) ns q n skip fs opts) c \<and> refuses (runCommand e (checkConnection e) db cmd opts) c
    \<and> (insert_message ns q flags = Inr m \<longrightarrow> refuses (conn_insert e (checkConnection e) ns q flags) c)
    \<and> (remove_message ns q one = Inr m \<longrightarrow> refuses (conn_remove e (checkConnection e) ns q one) c)
    \<and> (update_message ns q o' up multi = Inr m \<longrightarrow> refuses (conn_update e (checkConnection e) ns q o' up multi) c)
    \<and> refuses (base_auth e (checkConnection e) db user pwd dig) c"
  using conn_refuses [OF assms]
  by (simp add: conn_insert_def conn_remove_def conn_update_def base_auth_def Let_def run_object_def object_of_int refuses_dlift refuses_dseq)

text \<open>
  C35. If an index is ensured on such a connection the call fails, but the index is remembered all the same: in every later state, connected again or not, the
  same call says that there is nothing to do and sends nothing, so the index is never made.
\<close>

theorem index_never_made:
  fixes c :: "'n conn"
  assumes "stays_down e c" and "name \<noteq> []" and "(ns @ ''--'' @ name) \<notin> set (cn_seenIndexes c)" and "length ns < 128"
    and "length (enc_doc [(''ns'', WString ns), (''key'', WObject keys), (''name'', WString name)]) \<le> 16000000"
  shows "\<exists>c'. ensureIndex e (checkConnection e) ns (enc_doc keys) False name True False (- 1) c = Some (Inl SocketException, c')
    \<and> sk_out c' = sk_out c \<and> waiting c' = waiting c \<and> (\<forall>(c2 :: 'n conn) e2. set (cn_seenIndexes c') \<subseteq> set (cn_seenIndexes c2) \<longrightarrow>
        ensureIndex e2 (checkConnection e2) ns (enc_doc keys) False name True False (- 1) c2 = Some (Inr False, c2))"
proof -
  let ?fs = "[(''ns'', WString ns), (''key'', WObject keys), (''name'', WString name)]"
  let ?c = "c\<lparr>cn_seenIndexes := (ns @ ''--'' @ name) # cn_seenIndexes c\<rparr>"
  have fits: "fits ?fs" using assms(5) unfolding fits_def max_eq by (rule order_trans) simp
  have sys: "getSisterNS ns system_indexes = Inr (nsGetDB ns @ ''.'' @ system_indexes)"
    using assms(4) by (simp add: getSisterNS_def system_indexes_def)
  have "length (nsGetDB ns) < 128" using assms(4) length_takeWhile_le [of _ ns] by (auto simp: nsGetDB_def intro: le_less_trans)
  then obtain m where m: "insert_message (nsGetDB ns @ ''.'' @ system_indexes) (enc_doc ?fs) 0 = Inr m"
    using insert_message_bytes [OF fits _ assms(5)] by (simp add: system_indexes_def)
  have "stays_down e ?c" using assms(1) by (simp add: stays_down_def)
  then have "refuses (conn_say e (checkConnection e) m) ?c" by (rule conn_refuses)
  then obtain n where n: "conn_say e (checkConnection e) m ?c = Some (Inl SocketException, ?c\<lparr>cn_os := n\<rparr>)" by (auto simp: refuses_def)
  have "ensureIndex e (checkConnection e) ns (enc_doc keys) False name True False (- 1) c = Some (Inl SocketException, ?c\<lparr>cn_os := n\<rparr>)"
    using assms(2,3) n by (simp add: ensureIndex_def sys object_of_index [OF fits] m [simplified] conn_insert_def dthen_def dseq_stop)
  then show ?thesis
    using assms(2) by (intro exI [of _ "?c\<lparr>cn_os := n\<rparr>"]) (auto simp: ensureIndex_def waiting_def dret_def)
qed

section \<open>The documents of a query\<close>

type_synonym wdoc = "(string \<times> wvalue) list"

text \<open>A document that is not how the server reports an error.\<close>

definition ordinary :: "wdoc \<Rightarrow> bool" where
  "ordinary d \<longleftrightarrow> fits d \<and> (case d of [] \<Rightarrow> True | (n, v) # _ \<Rightarrow> CHR 0x00 \<notin> set n \<and> n \<noteq> ''$err'')"

text \<open>A reply with these documents; the cursor is \<open>0\<close> when there are no further ones.\<close>

definition reply :: "message \<Rightarrow> 64 word \<Rightarrow> wdoc list \<Rightarrow> bool" where
  "reply r cid ds \<longleftrightarrow> (\<exists>flags start. m_data r = le32 flags @ le64 cid @ le32 start @ le32 (of_nat (length ds)) @ concat (map enc_doc ds)
     \<and> \<not> has_bits flags ResultFlag_CursorNotFound \<and> \<not> has_bits flags ResultFlag_ShardConfigStale)
     \<and> length ds < 2 ^ 31 \<and> (\<forall>d \<in> set ds. ordinary d)"

definition answers :: "'n os_env \<Rightarrow> 'n check \<Rightarrow> message \<Rightarrow> 'n conn \<Rightarrow> message \<Rightarrow> 'n conn \<Rightarrow> bool" where
  "answers e ck m c r c' \<longleftrightarrow> (\<forall>b. conn_call e ck m b c = Some (Inr (Some r), c'))"

text \<open>The further batches, one for each request.\<close>

primrec serves :: "'n os_env \<Rightarrow> 'n check \<Rightarrow> string \<Rightarrow> 32 word \<Rightarrow> wdoc list list \<Rightarrow> 64 word \<Rightarrow> 'n conn \<Rightarrow> 'n conn \<Rightarrow> bool" where
  "serves e ck ns opts [] cid c c' \<longleftrightarrow> cid = 0 \<and> c' = c"
| "serves e ck ns opts (ds # dss) cid c c' \<longleftrightarrow> cid \<noteq> 0 \<and> ds \<noteq> [] \<and> (\<exists>m r c1 cid1. getMore_message opts ns 0 cid = Inr m
     \<and> answers e ck m c r c1 \<and> reply r cid1 ds \<and> serves e ck ns opts dss cid1 c1 c')"

lemma cprog_simps [simp]:
  "dseq (getsC g) f (k, c) = f (g k) (k, c)" "dseq (modC h) f' (k, c) = f' () (h k, c)" "dthen (modC h) m (k, c) = m (h k, c)"
  "modC h (k, c) = Some (Inr (), (h k, c))" "getsC g (k, c) = Some (Inr (g k), (k, c))" "dthen (assertC True) m s = m s"
  "dseq (assertC True) h' s = h' () s"
  by (simp_all add: getsC_def modC_def assertC_def dmodify_def dgets_def)

lemma dseq_assoc: "dseq (dseq m f) g = dseq m (\<lambda>x. dseq (f x) g)"
proof (rule ext)
  fix s
  show "dseq (dseq m f) g s = dseq m (\<lambda>x. dseq (f x) g) s"
    by (cases "m s") (auto simp: dseq_def split: prod.split sum.split)
qed

lemma dseq_onConn: "m c = Some (Inr x, c') \<Longrightarrow> dseq (onConn m) f (k, c) = f x (k, c')"
  by (simp add: onConn_def dseq_def)

lemma sint_of_nat: "n < 2 ^ 31 \<Longrightarrow> sint (of_nat n :: 32 word) = int n"
  by (simp add: signed_of_nat signed_take_bit_int_eq_self)

text \<open>What a cursor has of its batch: \<open>i\<close> documents are taken, \<open>ds\<close> are left.\<close>

definition at_batch :: "cursor \<Rightarrow> nat \<Rightarrow> wdoc list \<Rightarrow> bool" where
  "at_batch k i ds \<longleftrightarrow> cu_putBack k = [] \<and> b_pos k = of_nat i \<and> b_nReturned k = of_nat (i + length ds) \<and> i + length ds < 2 ^ 31
     \<and> holds (batch_memory k) (b_data k) (concat (map enc_doc ds)) \<and> (\<forall>d \<in> set ds. ordinary d)"

definition advanced :: "cursor \<Rightarrow> nat \<Rightarrow> int \<Rightarrow> cursor" where
  "advanced k i p = k\<lparr>b_pos := of_nat i, b_data := p\<rparr>"

lemma advanced_simps [simp]: "cu_cursorId (advanced k i p) = cu_cursorId k" "cu_haveLimit (advanced k i p) = cu_haveLimit k"
  "cu_nToReturn (advanced k i p) = cu_nToReturn k" "cu_batchSize (advanced k i p) = cu_batchSize k" "cu_opts (advanced k i p) = cu_opts k"
  "cu_ns (advanced k i p) = cu_ns k" "batch_memory (advanced k i p) = batch_memory k"
  by (simp_all add: advanced_def batch_memory_def)

lemma first_name:
  assumes "ordinary d"
  shows "\<exists>f. firstElementFieldName (enc_doc d) = Inr f \<and> f \<noteq> ''$err''"
proof (cases d)
  case Nil
  then have "enc_doc d = enc_int 5 @ [CHR 0x00]" by (simp add: enc_doc_def enc_frame_def)
  then have "holds (enc_doc d) 4 (enc_char EOO_type)"
    using holds_self [of "enc_doc d"] by (simp add: holds_append enc_EOO)
  then have "read_char (enc_doc d) 4 = Inr EOO_type" by (rule holds_char) (simp_all add: EOO_type_def)
  then show ?thesis by (simp add: firstElementFieldName_def)
next
  case (Cons f fs)
  obtain n v where f: "f = (n, v)" by (cases f)
  have n: "CHR 0x00 \<notin> set n" "n \<noteq> ''$err''" using assms by (simp_all add: ordinary_def Cons f)
  have "holds (enc_doc d) 4 (enc_char (type_of v))" "holds (enc_doc d) 5 (enc_cstring n)"
    using holds_self [of "enc_doc d"] by (simp_all add: Cons f enc_doc_def enc_frame_def holds_append)
  then have "read_char (enc_doc d) 4 = Inr (type_of v)" "cstring (enc_doc d) 5 = Inr n"
    using holds_char type_of_range(1,2) holds_cstring n(1) by blast+
  then show ?thesis using n(2) type_of_range(3) [of v] by (simp add: firstElementFieldName_def)
qed

lemma object_from_doc:
  assumes "holds m p (enc_doc d)" and "fits d"
  shows "object_from m p = Inr (enc_doc d)"
  using doc_in_memory [OF assms] holds_read [OF assms(1) refl] by (simp add: object_from_def)

lemma nextSafe_at:
  fixes c :: "'n conn"
  assumes "at_batch k i (d # ds)"
  shows "\<exists>p. nextSafe (k, c) = Some (Inr (enc_doc d), (advanced k (Suc i) p, c)) \<and> at_batch (advanced k (Suc i) p) (Suc i) ds"
proof -
  let ?p = "b_data k + int (length (enc_doc d))"
  have h: "holds (batch_memory k) (b_data k) (enc_doc d)" "holds (batch_memory k) ?p (concat (map enc_doc ds))"
    using assms by (simp_all add: at_batch_def holds_append)
  have o': "ordinary d" "i + length ds + 1 < 2 ^ 31" using assms by (simp_all add: at_batch_def)
  have "sint (b_pos k) < sint (b_nReturned k)" using assms sint_of_nat [of i] sint_of_nat [of "i + length (d # ds)"] by (simp add: at_batch_def)
  moreover have "object_from (batch_memory k) (b_data k) = Inr (enc_doc d)" using h(1) o'(1) by (simp add: object_from_doc ordinary_def)
  ultimately have "cu_next (k, c) = Some (Inr (enc_doc d), (advanced k (Suc i) ?p, c))"
    using assms by (simp add: cu_next_def at_batch_def advanced_def dret_def add.commute)
  then have "nextSafe (k, c) = Some (Inr (enc_doc d), (advanced k (Suc i) ?p, c))"
    using first_name [OF o'(1)] by (auto simp: nextSafe_def dseq_def dlift_def dret_def)
  moreover have "at_batch (advanced k (Suc i) ?p) (Suc i) ds"
    using assms h(2) by (simp add: at_batch_def advanced_def batch_memory_def add.commute add.left_commute)
  ultimately show ?thesis by blast
qed

lemma more_in_batch:
  assumes "at_batch k i ds"
  shows "moreInCurrentBatch k \<longleftrightarrow> ds \<noteq> []" "sint (b_pos k) < sint (b_nReturned k) \<longleftrightarrow> ds \<noteq> []" "sint (b_pos k) = int i"
proof -
  have len: "i < 2 ^ 31" "i + length ds < 2 ^ 31" "length ds < 2 ^ 31" using assms by (simp_all add: at_batch_def)
  have "objsLeftInBatch k = of_nat (length ds)" using assms by (simp add: objsLeftInBatch_def at_batch_def)
  then show "moreInCurrentBatch k \<longleftrightarrow> ds \<noteq> []" using sint_of_nat [OF len(3)] by (simp add: moreInCurrentBatch_def)
  show "sint (b_pos k) = int i" using assms sint_of_nat [OF len(1)] by (simp add: at_batch_def)
  then show "sint (b_pos k) < sint (b_nReturned k) \<longleftrightarrow> ds \<noteq> []" using assms sint_of_nat [OF len(2)] by (simp add: at_batch_def)
qed

text \<open>Nothing that the next request depends on is another.\<close>

definition same_query :: "cursor \<Rightarrow> cursor \<Rightarrow> bool" where
  "same_query k k' \<longleftrightarrow> cu_haveLimit k' = cu_haveLimit k \<and> cu_nToReturn k' = cu_nToReturn k \<and> cu_batchSize k' = cu_batchSize k
     \<and> cu_opts k' = cu_opts k \<and> cu_ns k' = cu_ns k"

lemma same_query_trans: "same_query k k1 \<Longrightarrow> same_query k1 k2 \<Longrightarrow> same_query k k2"
  by (simp add: same_query_def)

lemma take_batch_at:
  fixes c :: "'n conn"
  assumes "at_batch k i ds"
  shows "\<exists>k'. take_batch (k, c) = Some (Inr (map enc_doc ds), (k', c)) \<and> at_batch k' (i + length ds) [] \<and> same_query k k'
    \<and> cu_cursorId k' = cu_cursorId k"
  using assms
proof (induction ds arbitrary: k i)
  case Nil
  then have "take_batch (k, c) = Some (Inr [], (k, c))"
    by (subst take_batch.simps) (simp add: more_in_batch(1) [OF Nil] dret_def)
  with Nil show ?case by (auto simp: same_query_def)
next
  case (Cons d ds)
  obtain p where p: "nextSafe (k, c) = Some (Inr (enc_doc d), (advanced k (Suc i) p, c))" "at_batch (advanced k (Suc i) p) (Suc i) ds"
    using nextSafe_at [OF Cons.prems] by blast
  then obtain k' where k': "take_batch (advanced k (Suc i) p, c) = Some (Inr (map enc_doc ds), (k', c))" "at_batch k' (Suc i + length ds) []"
      "same_query (advanced k (Suc i) p) k'" "cu_cursorId k' = cu_cursorId (advanced k (Suc i) p)"
    using Cons.IH by blast
  have "take_batch (k, c) = Some (Inr (map enc_doc (d # ds)), (k', c))"
    by (subst take_batch.simps) (simp add: more_in_batch(1) [OF Cons.prems] dseq_at [of nextSafe, OF p(1)] dseq_at [of take_batch, OF k'(1)] dret_def)
  with k' show ?case by (auto simp: same_query_def)
qed

lemma reply_parts:
  assumes "reply r cid ds"
  obtains flags where "resultFlags r = Inr flags" "result_cursorId r = Inr cid" "result_nReturned r = Inr (of_nat (length ds))"
    "holds (m_data r) result_data (concat (map enc_doc ds))" "\<not> has_bits flags ResultFlag_CursorNotFound"
    "\<not> has_bits flags ResultFlag_ShardConfigStale"
proof -
  obtain flags start where f: "m_data r = le32 flags @ le64 cid @ le32 start @ le32 (of_nat (length ds)) @ concat (map enc_doc ds)"
      "\<not> has_bits flags ResultFlag_CursorNotFound" "\<not> has_bits flags ResultFlag_ShardConfigStale"
    using assms unfolding reply_def by blast
  have "holds (m_data r) 0 (le32 flags)" "holds (m_data r) 4 (le64 cid)" "holds (m_data r) 16 (le32 (of_nat (length ds)))"
      "holds (m_data r) 20 (concat (map enc_doc ds))"
    using holds_self [of "m_data r"] by (simp_all add: f(1) holds_append)
  then show ?thesis
    using f(2,3) by (intro that) (simp_all add: resultFlags_def result_cursorId_def result_nReturned_def result_data_def holds_int holds_long)
qed

lemma dataReceived_at:
  fixes c :: "'n conn"
  assumes r: "reply r cid ds" and k: "b_m k = Some r" "cu_putBack k = []" "cu_cursorId k = 0 \<or> \<not> has_bits (cu_opts k) QueryOption_CursorTailable"
  shows "\<exists>k'. dataReceived (k, c) = Some (Inr (), (k', c)) \<and> at_batch k' 0 ds \<and> same_query k k' \<and> cu_cursorId k' = cid
    \<and> hasResultFlag k' ResultFlag_ShardConfigStale = Inr False"
proof -
  obtain flags where f: "resultFlags r = Inr flags" "result_cursorId r = Inr cid" "result_nReturned r = Inr (of_nat (length ds))"
      "holds (m_data r) result_data (concat (map enc_doc ds))" "\<not> has_bits flags ResultFlag_CursorNotFound" "\<not> has_bits flags ResultFlag_ShardConfigStale"
    using reply_parts [OF r] by blast
  let ?k = "k\<lparr>cu_resultFlags := Some flags, cu_wasError := (if has_bits flags ResultFlag_ErrSet then Some True else cu_wasError k),
    cu_cursorId := cid, b_nReturned := of_nat (length ds), b_pos := 0, b_data := result_data\<rparr>"
  have "dataReceived (k, c) = Some (Inr (), (?k, c))"
    using k f by (cases "has_bits flags ResultFlag_ErrSet") (simp_all add: dataReceived_def)
  moreover have "at_batch ?k 0 ds" using r k f by (simp add: at_batch_def batch_memory_def reply_def)
  moreover have "hasResultFlag ?k ResultFlag_ShardConfigStale = Inr False" using f by (simp add: hasResultFlag_def initialised_def)
  ultimately show ?thesis by (intro exI [of _ ?k]) (simp add: same_query_def)
qed

text \<open>A query for everything.\<close>

definition unlimited :: "cursor \<Rightarrow> string \<Rightarrow> 32 word \<Rightarrow> bool" where
  "unlimited k ns opts \<longleftrightarrow> \<not> cu_haveLimit k \<and> cu_nToReturn k = 0 \<and> cu_batchSize k = Some 0 \<and> cu_opts k = opts \<and> cu_ns k = ns"

lemma unlimited_same: "same_query k k' \<Longrightarrow> unlimited k ns opts \<Longrightarrow> unlimited k' ns opts"
  by (simp add: same_query_def unlimited_def)

lemma requestMore_at:
  fixes c :: "'n conn"
  assumes k: "at_batch k i []" "unlimited k ns opts" "cu_cursorId k = cid" "cid \<noteq> 0" "\<not> has_bits opts QueryOption_CursorTailable"
    and m: "getMore_message opts ns 0 cid = Inr m" "answers e ck m c r c1" and r: "reply r cid1 ds"
  shows "\<exists>k'. requestMore e ck (k, c) = Some (Inr (), (k', c1)) \<and> at_batch k' 0 ds \<and> same_query k k' \<and> cu_cursorId k' = cid1"
proof -
  have call: "conn_call e ck m True c = Some (Inr (Some r), c1)" using m(2) by (simp add: answers_def)
  let ?k = "k\<lparr>b_m := Some r\<rparr>"
  obtain k' where k': "dataReceived (?k, c1) = Some (Inr (), (k', c1))" "at_batch k' 0 ds" "same_query ?k k'" "cu_cursorId k' = cid1"
    using dataReceived_at [OF r, of ?k c1] k by (auto simp: at_batch_def unlimited_def)
  have "requestMore e ck (k, c) = dataReceived (?k, c1)"
    using k m(1) by (simp add: requestMore_def at_batch_def unlimited_def nextBatchSize_def initialised_def
        dseq_onConn [of "conn_call e ck m True", OF call] dthen_def dseq_assoc)
  with k' show ?thesis by (auto simp: same_query_def)
qed

lemma cu_more_at:
  assumes "at_batch k i ds" and "unlimited k ns opts"
  shows "ds \<noteq> [] \<Longrightarrow> cu_more e ck (k, c) = Some (Inr True, (k, c))"
    and "ds = [] \<Longrightarrow> cu_cursorId k = 0 \<Longrightarrow> cu_more e ck (k, c) = Some (Inr False, (k, c))"
    and "ds = [] \<Longrightarrow> cu_cursorId k \<noteq> 0 \<Longrightarrow> requestMore e ck (k, c) = Some (Inr (), (k', c')) \<Longrightarrow> at_batch k' 0 ds' \<Longrightarrow> ds' \<noteq> []
      \<Longrightarrow> cu_more e ck (k, c) = Some (Inr True, (k', c'))"
  using assms more_in_batch(2) [OF assms(1)] more_in_batch(2) [of k' 0 ds']
  by (simp_all add: cu_more_def unlimited_def at_batch_def dret_def dthen_def dseq_at)

lemma all_batches_at:
  fixes c :: "'n conn"
  assumes "\<not> has_bits opts QueryOption_CursorTailable" and "at_batch k i []" and "unlimited k ns opts" and "serves e ck ns opts dss (cu_cursorId k) c c'"
  shows "\<exists>k'. all_batches e ck (k, c) = Some (Inr (map enc_doc (concat dss)), (k', c')) \<and> cu_cursorId k' = 0"
  using assms(2-)
proof (induction dss arbitrary: k i c)
  case Nil
  then have more: "cu_more e ck (k, c) = Some (Inr False, (k, c))" by (intro cu_more_at(2)) simp_all
  have "all_batches e ck (k, c) = Some (Inr [], (k, c))"
    by (subst all_batches.simps) (simp add: dseq_at [of "cu_more e ck", OF more] dret_def)
  with Nil show ?case by auto
next
  case (Cons ds dss)
  obtain m r c1 cid1 where m: "getMore_message opts ns 0 (cu_cursorId k) = Inr m" "answers e ck m c r c1" "reply r cid1 ds"
      "serves e ck ns opts dss cid1 c1 c'" and cid: "cu_cursorId k \<noteq> 0" "ds \<noteq> []"
    using Cons.prems(3) by auto
  obtain k1 where k1: "requestMore e ck (k, c) = Some (Inr (), (k1, c1))" "at_batch k1 0 ds" "same_query k k1" "cu_cursorId k1 = cid1"
    using requestMore_at [OF Cons.prems(1,2) refl cid(1) assms(1) m(1-3)] by blast
  have more1: "cu_more e ck (k, c) = Some (Inr True, (k1, c1))"
    by (rule cu_more_at(3) [OF Cons.prems(1,2) refl cid(1) k1(1,2) cid(2)])
  obtain k2 where k2: "take_batch (k1, c1) = Some (Inr (map enc_doc ds), (k2, c1))" "at_batch k2 (0 + length ds) []" "same_query k1 k2" "cu_cursorId k2 = cid1"
    using take_batch_at [OF k1(2)] k1(4) by metis
  have "unlimited k2 ns opts" using Cons.prems(2) k1(3) k2(3) by (blast intro: unlimited_same)
  with Cons.IH [OF k2(2)] m(4) k2(4) obtain k3 where k3: "all_batches e ck (k2, c1) = Some (Inr (map enc_doc (concat dss)), (k3, c'))" "cu_cursorId k3 = 0"
    by auto
  have "all_batches e ck (k, c) = Some (Inr (map enc_doc (concat (ds # dss))), (k3, c'))"
    by (subst all_batches.simps)
      (simp add: dseq_at [of "cu_more e ck", OF more1] dseq_at [of take_batch, OF k2(1)] dseq_at [of "all_batches e ck", OF k3(1)] dret_def)
  with k3(2) show ?case by blast
qed

lemma open_cursor_at:
  fixes c :: "'n conn"
  assumes "assembleInit k = Inr m" and "answers e ck m c r c1" and "reply r cid ds" and "cu_cursorId k = 0" and "cu_putBack k = []"
  shows "\<exists>k'. open_cursor e ck k c = Some (Inr (Some k'), c1) \<and> at_batch k' 0 ds \<and> same_query k k' \<and> cu_cursorId k' = cid
    \<and> hasResultFlag k' ResultFlag_ShardConfigStale = Inr False"
proof -
  have call: "conn_call e ck m False c = Some (Inr (Some r), c1)" using assms(2) by (simp add: answers_def)
  obtain k' where k': "dataReceived (k\<lparr>b_m := Some r\<rparr>, c1) = Some (Inr (), (k', c1))" "at_batch k' 0 ds" "same_query (k\<lparr>b_m := Some r\<rparr>) k'"
      "cu_cursorId k' = cid" "hasResultFlag k' ResultFlag_ShardConfigStale = Inr False"
    using dataReceived_at [OF assms(3), of "k\<lparr>b_m := Some r\<rparr>" c1] assms(4,5) by auto
  have "cu_init e ck (k, c) = Some (Inr True, (k', c1))"
    using assms(1) by (simp add: cu_init_def dseq_onConn [of "conn_call e ck m False", OF call] dthen_def dseq_at [of dataReceived, OF k'(1)] dret_def)
  with k' show ?thesis by (auto simp: open_cursor_def same_query_def)
qed

lemma checkConnection_up: "\<not> cn_failed c \<Longrightarrow> checkConnection e c = Some (Inr (), c)"
  by (subst checkConnection.simps) simp

lemma run_cursor_at: "m (k, c) = Some (r, (k', c')) \<Longrightarrow> cu_cursorId k' = 0 \<Longrightarrow> run_cursor e ck k m c = Some (r, c')"
  by (simp add: run_cursor_def cu_destroy_def dlift_def)

lemma query_options: "\<not> has_bits (query_options opts) QueryOption_CursorTailable"
proof -
  have "and (or QueryOption_NoCursorTimeout QueryOption_SlaveOk) QueryOption_CursorTailable = 0"
    by (simp add: QueryOption_NoCursorTimeout_def QueryOption_SlaveOk_def QueryOption_CursorTailable_def)
  then show ?thesis unfolding has_bits_def query_options_def by (simp only: and.assoc and_zero_eq)
qed

text \<open>
  C16. When the server answers a query with a batch of documents, and each request of the cursor for more with a further one until its cursor is gone, the function
  is handed exactly the documents of all batches in their order.
\<close>

theorem query_gives_documents:
  fixes c :: "'n conn"
  assumes up: "\<not> cn_failed c" and av: "cn_availableOptions c = Some av" "\<not> has_bits av QueryOption_Exhaust"
    and m: "assembleRequest ns q 0 0 fs (query_options opts) = Inr m" "answers e (checkConnection e) m c r c1" "reply r cid ds"
    and more: "serves e (checkConnection e) ns (query_options opts) dss cid c1 c'"
  shows "query_each e (checkConnection e) ns q fs opts c = Some (Inr (map enc_doc (ds @ concat dss)), c')"
proof -
  define ck where "ck = checkConnection e"
  note m = m [folded ck_def] and more = more [folded ck_def]
  let ?k = "DBClientCursor ns q 0 0 fs (query_options opts) 0"
  have k: "assembleInit ?k = Inr m" "unlimited ?k ns (query_options opts)"
    using m(1) by (simp_all add: DBClientCursor_def assembleInit_def nextBatchSize_def initialised_def unlimited_def)
  obtain k1 where k1: "open_cursor e ck ?k c = Some (Inr (Some k1), c1)" "at_batch k1 0 ds" "same_query ?k k1" "cu_cursorId k1 = cid"
    using open_cursor_at [OF k(1) m(2,3)] by (auto simp: DBClientCursor_def)
  have opened: "conn_query e ck ns q 0 0 fs (query_options opts) 0 c = Some (Inr (Some k1), c1)"
    using k1(1) up by (simp add: conn_query_def base_query_def dthen_def dseq_at [of ck, OF checkConnection_up [OF up, of e, folded ck_def]])
  have "\<exists>k'. all_batches e ck (k1, c1) = Some (Inr (map enc_doc (ds @ concat dss)), (k', c')) \<and> cu_cursorId k' = 0"
  proof (cases "ds = []")
    case True
    then show ?thesis
      using all_batches_at [OF query_options _ unlimited_same [OF k1(3) k(2)], of 0 e ck dss c1 c'] k1(2,4) more by auto
  next
    case False
    obtain k2 where k2: "take_batch (k1, c1) = Some (Inr (map enc_doc ds), (k2, c1))" "at_batch k2 (0 + length ds) []" "same_query k1 k2" "cu_cursorId k2 = cid"
      using take_batch_at [OF k1(2)] k1(4) by metis
    have "unlimited k2 ns (query_options opts)" by (rule unlimited_same [OF k2(3) unlimited_same [OF k1(3) k(2)]])
    with all_batches_at [OF query_options k2(2)] more k2(4) obtain k3
      where k3: "all_batches e ck (k2, c1) = Some (Inr (map enc_doc (concat dss)), (k3, c'))" "cu_cursorId k3 = 0" by blast
    have more1: "cu_more e ck (k1, c1) = Some (Inr True, (k1, c1))"
      by (rule cu_more_at(1) [OF k1(2) unlimited_same [OF k1(3) k(2)] False])
    have "all_batches e ck (k1, c1) = Some (Inr (map enc_doc (ds @ concat dss)), (k3, c'))"
      by (subst all_batches.simps)
        (simp add: dseq_at [of "cu_more e ck", OF more1] dseq_at [of take_batch, OF k2(1)] dseq_at [of "all_batches e ck", OF k3(1)] dret_def)
    with k3(2) show ?thesis by blast
  qed
  then obtain k' where "run_cursor e ck k1 (all_batches e ck) c1 = Some (Inr (map enc_doc (ds @ concat dss)), c')"
    using run_cursor_at by blast
  moreover have "availableOptions e ck c = Some (Inr av, c)" using av(1) by (simp add: availableOptions_def dret_def)
  ultimately show ?thesis
    using av(2) unfolding ck_def [symmetric]
    by (simp add: query_each_def dseq_at [of "availableOptions e ck"] Let_def dseq_at [of "conn_query _ _ _ _ _ _ _ _ _", OF opened])
qed

lemma take_objects_at:
  fixes c :: "'n conn"
  assumes "at_batch k i ds" and "cu_cursorId k = 0" and "cu_haveLimit k \<longrightarrow> sint (cu_nToReturn k) = int (i + n)"
  shows "\<exists>k'. take_objects e ck n (k, c) = Some (Inr (map enc_doc (take n ds)), (k', c)) \<and> cu_cursorId k' = 0"
  using assms
proof (induction n arbitrary: k i ds)
  case 0
  then show ?case by (auto simp: dret_def)
next
  case (Suc n)
  note b = more_in_batch [OF Suc.prems(1)]
  show ?case
  proof (cases ds)
    case Nil
    have more: "cu_more e ck (k, c) = Some (Inr False, (k, c))"
      using Suc.prems b Nil by (simp add: cu_more_def at_batch_def dret_def)
    with Suc.prems(2) Nil show ?thesis by (simp add: dseq_at [of "cu_more e ck", OF more] dret_def)
  next
    case (Cons d ds')
    have more: "cu_more e ck (k, c) = Some (Inr True, (k, c))"
      using Suc.prems b Cons by (auto simp: cu_more_def at_batch_def dret_def)
    obtain p where p: "nextSafe (k, c) = Some (Inr (enc_doc d), (advanced k (Suc i) p, c))" "at_batch (advanced k (Suc i) p) (Suc i) ds'"
      using nextSafe_at Suc.prems(1) unfolding Cons by blast
    obtain k' where "take_objects e ck n (advanced k (Suc i) p, c) = Some (Inr (map enc_doc (take n ds')), (k', c))" "cu_cursorId k' = 0"
      using Suc.IH [OF p(2)] Suc.prems(2,3) by auto
    then show ?thesis
      by (auto simp: Cons dseq_at [of "cu_more e ck", OF more] dseq_at [of nextSafe, OF p(1)] dseq_at [of "take_objects e ck n"] dret_def)
  qed
qed

text \<open>
  When the server answers a query for at most so many documents with these documents, \<open>findN\<close> returns the first of them, no more than were asked for; the
  documents are those that the builders wrote.
\<close>

theorem findN_gives_documents:
  fixes c :: "'n conn"
  assumes up: "\<not> cn_failed c" and n: "0 < n" "n < 2 ^ 31"
    and m: "assembleRequest ns q (of_nat n) skip fs opts = Inr m" "answers e (checkConnection e) m c r c1" "reply r 0 ds"
  shows "findN e (checkConnection e) ns q (of_nat n) skip fs opts c = Some (Inr (map enc_doc (take n ds)), c1)"
proof -
  define ck where "ck = checkConnection e"
  let ?k = "DBClientCursor ns q (of_nat n) skip fs opts 0"
  have sn: "sint (of_nat n :: 32 word) = int n" by (rule sint_of_nat [OF n(2)])
  then have "(of_nat n :: 32 word) \<noteq> 0" using n(1) by (metis of_nat_0_less_iff less_irrefl sint_0)
  then have k: "assembleInit ?k = Inr m"
    using m(1) by (simp add: DBClientCursor_def assembleInit_def nextBatchSize_def initialised_def)
  obtain k1 where k1: "open_cursor e ck ?k c = Some (Inr (Some k1), c1)" "at_batch k1 0 ds" "same_query ?k k1" "cu_cursorId k1 = 0"
      "hasResultFlag k1 ResultFlag_ShardConfigStale = Inr False"
    using open_cursor_at [OF k m(2,3) [folded ck_def]] by (auto simp: DBClientCursor_def)
  have opened: "conn_query e ck ns q (of_nat n) skip fs opts 0 c = Some (Inr (Some k1), c1)"
    using k1(1) by (simp add: conn_query_def base_query_def dthen_def dseq_at [of ck, OF checkConnection_up [OF up, of e, folded ck_def]])
  obtain k2 where k2: "take_objects e ck n (k1, c1) = Some (Inr (map enc_doc (take n ds)), (k2, c1))" "cu_cursorId k2 = 0"
    using take_objects_at [OF k1(2,4), of n e ck c1] k1(3) sn by (auto simp: same_query_def DBClientCursor_def)
  show ?thesis
    unfolding ck_def [symmetric] findN_def dseq_at [of "conn_query _ _ _ _ _ _ _ _ _", OF opened]
    using k1(5) k2 sn by (simp add: run_cursor_at)
qed

section \<open>A server that answers\<close>

text \<open>An operating system that takes all bytes and has those that a server will send.\<close>

definition canned :: "string os_env" where
  "canned = \<lparr>os_send = (\<lambda>d n. (Some (length d), n)), os_recv = (\<lambda>len n. (Some (take len n), drop len n)), os_resolve = (\<lambda>n. (True, n)),
     os_connect = (\<lambda>n. (True, n)), os_time = (\<lambda>n. (0, n)), elem_toString = (\<lambda>_ _. Inr [])\<rparr>"

definition on_line :: "string \<Rightarrow> string conn" where
  "on_line arriving = \<lparr>sk_open = True, sk_out = [], pb_buf = None, next_msgid = 7, cn_port = True, cn_failed = False, cn_autoReconnect = False,
     cn_lastReconnectTry = 0, cn_authCache = [], cn_availableOptions = Some 0, cn_seenIndexes = [], cn_lazyKillCursor = True, cn_os = arriving\<rparr>"

lemma canned_simps [simp]: "os_send canned d n = (Some (length d), n)" "os_recv canned len n = (Some (take len n), drop len n)"
  "os_time canned n = (0, n)"
  by (simp_all add: canned_def)

lemma canned_takes: "takes_some canned"
  by (simp add: takes_some_def)

lemma canned_send:
  assumes "sk_open c"
  shows "sk_send canned d c = Some (Inr (), c\<lparr>sk_out := sk_out c @ d\<rparr>)"
proof -
  have none: "sk_send canned [] c' = Some (Inr (), c')" for c' by (subst sk_send.simps) (simp add: dret_def)
  then show ?thesis using assms by (cases "d = []") (simp_all add: sk_send.simps [of _ d])
qed

lemma canned_recv:
  assumes "sk_open c" and "n \<le> length (cn_os c)"
  shows "sk_recv canned n c = Some (Inr (take n (cn_os c)), c\<lparr>cn_os := drop n (cn_os c)\<rparr>)"
proof -
  have none: "sk_recv canned 0 c' = Some (Inr [], c')" for c' by (subst sk_recv.simps) (simp add: dret_def)
  show ?thesis
  proof (cases "n = 0")
    case False
    with assms show ?thesis
      by (simp add: sk_recv.simps [of _ n] dseq_at [of "sk_recv canned 0", OF none] min_absorb2) (auto simp: dret_def)
  qed (simp add: none)
qed

lemma canned_arrives:
  assumes "sk_open c" and "cn_os c = message_bytes r @ rest" and "message_len r \<le> 48000000"
  shows "port_recv canned c = Some (Inr (Some r), c\<lparr>cn_os := rest\<rparr>)"
proof -
  have len: "length (message_bytes r) = message_len r" "16 \<le> message_len r"
    by (simp_all add: length_message_bytes message_len_def MsgDataHeaderSize_def)
  have "take 4 (message_bytes r) = le32 (of_nat (message_len r))" by (simp add: message_bytes_def)
  then have field: "len_field (take 4 (cn_os c)) = int (message_len r)"
    using assms(2,3) len by (simp add: len_field_def unle_words sint_of_nat)
  have first: "sk_recv canned 4 c = Some (Inr (take 4 (cn_os c)), c\<lparr>cn_os := drop 4 (cn_os c)\<rparr>)"
    using assms(1,2) len by (intro canned_recv) simp_all
  have n: "nat (int (message_len r) - 4) = length (drop 4 (message_bytes r))" using len by simp
  have second: "sk_recv canned (nat (int (message_len r) - 4)) (c\<lparr>cn_os := drop 4 (cn_os c)\<rparr>)
      = Some (Inr (drop 4 (message_bytes r)), c\<lparr>cn_os := rest\<rparr>)"
    unfolding n using assms(1,2) len by (subst canned_recv) simp_all
  have "recv_again canned c = Some (Inr (Some r), c\<lparr>cn_os := rest\<rparr>)"
    using len assms(3) by (subst recv_again.simps)
      (simp add: dseq_at [of "sk_recv canned 4", OF first] field dseq_at [of "sk_recv canned _", OF second] message_of_bytes dret_def)
  then show ?thesis by (simp add: port_recv_def dcatch_def)
qed

text \<open>The state after a call whose answer is the next that arrives.\<close>

definition after_call :: "message \<Rightarrow> string \<Rightarrow> string conn \<Rightarrow> string conn" where
  "after_call m rest c = c\<lparr>next_msgid := next_msgid c + 1, sk_out := sk_out c @ message_bytes (m\<lparr>m_id := next_msgid c, m_responseTo := - 1\<rparr>), cn_os := rest\<rparr>"

lemma canned_answers:
  assumes c: "sk_open c" "cn_port c" "\<not> cn_failed c" "pb_buf c = None"
    and r: "cn_os c = message_bytes r @ rest" "message_len r \<le> 48000000" "m_responseTo r = next_msgid c"
  shows "answers canned (checkConnection canned) m c r (after_call m rest c)"
proof -
  let ?n = "m\<lparr>m_id := next_msgid c, m_responseTo := - 1\<rparr>"
  let ?c = "c\<lparr>next_msgid := next_msgid c + 1, sk_out := sk_out c @ message_bytes ?n\<rparr>"
  have "port_say canned m (- 1) c = Some (Inr ?n, ?c)"
    using c by (simp add: port_say_def dseq_at [of "number_message _ _", OF number_message] pb_len_def dthen_def
        dseq_at [of "sk_send canned _", OF canned_send] dret_def)
  moreover have "port_recv canned ?c = Some (Inr (Some r), after_call m rest c)"
    using canned_arrives [of ?c r rest] c(1) r(1,2) by (simp add: after_call_def)
  ultimately have call: "port_call canned m c = Some (Inr (Some r), after_call m rest c)"
    using r(3) by (simp add: port_call_def port_recv_for_def dseq_at [of "port_say _ _ _"] dseq_at [of "port_recv _"] dret_def)
  then show ?thesis
    using c(2) unfolding answers_def conn_call_def dthen_def with_port_def failing_def
    by (simp add: dseq_at [of "checkConnection canned", OF checkConnection_up [OF c(3)]] dcatch_def dseq_at [of "port_call _ _"] dseq_assoc dret_def)
qed

definition server_reply :: "32 word \<Rightarrow> 64 word \<Rightarrow> wdoc list \<Rightarrow> message" where
  "server_reply to cid ds = (setData opReply (le32 0 @ le64 cid @ le32 0 @ le32 (of_nat (length ds)) @ concat (map enc_doc ds)))\<lparr>m_responseTo := to\<rparr>"

lemma server_reply:
  assumes "length ds < 2 ^ 31" and "\<forall>d \<in> set ds. ordinary d"
  shows "reply (server_reply to cid ds) cid ds" "m_responseTo (server_reply to cid ds) = to"
  using assms by (auto simp: reply_def server_reply_def setData_def has_bits_def intro!: exI [of _ 0])

definition sample_query :: message where
  "sample_query = setData dbQuery (query_bytes ''fc.player'' [] 0 0 None 0)"

definition bob :: wdoc where "bob = [(''Name'', WString ''Bob'')]"
definition ann :: wdoc where "ann = [(''Name'', WString ''Ann''), (''Cash'', WLong 5)]"

lemma sample_docs: "ordinary bob" "ordinary ann" "length (enc_doc bob) = 19" "length (enc_doc ann) = 33"
  by (simp_all add: ordinary_def fits_def bob_def ann_def enc_doc_def max_eq)

lemma sample_query_assembled: "assembleRequest ''fc.player'' (enc_doc []) 0 0 None (query_options 0) = Inr sample_query"
proof -
  have "query_options 0 = 0" by (simp add: query_options_def)
  then show ?thesis
    using assembleRequest_bytes [of "[]" None "''fc.player''" 0 0 0]
    by (simp add: fits_def enc_doc_def max_eq room_eq query_bytes_def enc_option_def sample_query_def)
qed

theorem query_gives_documents_witness:
  "\<exists>c'. query_each canned (checkConnection canned) ''fc.player'' (enc_doc []) None 0
     (on_line (message_bytes (server_reply 7 1 [bob]) @ message_bytes (server_reply 8 0 [ann]))) = Some (Inr [enc_doc bob, enc_doc ann], c')"
proof -
  let ?r1 = "server_reply 7 1 [bob]" and ?r2 = "server_reply 8 0 [ann]"
  let ?c = "on_line (message_bytes ?r1 @ message_bytes ?r2)"
  let ?c1 = "after_call sample_query (message_bytes ?r2) ?c"
  obtain m2 where m2: "getMore_message (query_options 0) ''fc.player'' 0 1 = Inr m2" by (simp add: getMore_message_bytes)
  have r: "reply ?r1 1 [bob]" "reply ?r2 0 [ann]" using sample_docs by (simp_all add: server_reply)
  have len: "message_len ?r1 \<le> 48000000" "message_len ?r2 \<le> 48000000"
    using sample_docs by (simp_all add: message_len_def server_reply_def setData_def MsgDataHeaderSize_def)
  have a1: "answers canned (checkConnection canned) sample_query ?c ?r1 ?c1"
    using len by (intro canned_answers) (simp_all add: on_line_def server_reply_def)
  have a2: "answers canned (checkConnection canned) m2 ?c1 ?r2 (after_call m2 [] ?c1)"
    using len by (intro canned_answers) (simp_all add: on_line_def after_call_def server_reply_def)
  have more: "serves canned (checkConnection canned) ''fc.player'' (query_options 0) [[ann]] 1 ?c1 (after_call m2 [] ?c1)"
    using m2 a2 r(2) by auto
  have "query_each canned (checkConnection canned) ''fc.player'' (enc_doc []) None 0 ?c
      = Some (Inr (map enc_doc ([bob] @ concat [[ann]])), after_call m2 [] ?c1)"
    by (rule query_gives_documents [OF _ _ _ sample_query_assembled a1 r(1) more, of 0]) (simp_all add: on_line_def has_bits_def)
  then show ?thesis by auto
qed

theorem findN_gives_documents_witness:
  "\<exists>c'. findN canned (checkConnection canned) ''fc.player'' (enc_doc []) 1 0 None 0
     (on_line (message_bytes (server_reply 7 0 [bob, ann]))) = Some (Inr [enc_doc bob], c')"
proof -
  let ?r = "server_reply 7 0 [bob, ann]" and ?m = "setData dbQuery (query_bytes ''fc.player'' [] 1 0 None 0)"
  let ?c = "on_line (message_bytes ?r)"
  have m: "assembleRequest ''fc.player'' (enc_doc []) (of_nat 1) 0 None 0 = Inr ?m"
    using assembleRequest_bytes [of "[]" None "''fc.player''" 1 0 0]
    by (simp add: fits_def enc_doc_def max_eq room_eq query_bytes_def enc_option_def)
  have r: "reply ?r 0 [bob, ann]" using sample_docs by (simp add: server_reply)
  have a: "answers canned (checkConnection canned) ?m ?c ?r (after_call ?m [] ?c)"
    using sample_docs by (intro canned_answers) (simp_all add: on_line_def server_reply_def message_len_def setData_def MsgDataHeaderSize_def)
  show ?thesis
    using findN_gives_documents [OF _ _ _ m a r] by (simp add: on_line_def)
qed

theorem messages_in_order_witness:
  "\<exists>c'. send_all canned [Piggy sample_query, Piggy sample_query, Say sample_query] (on_line []) = Some (Inr (), c')
     \<and> sk_out c' = concat (numbered 7 [Piggy sample_query, Piggy sample_query, Say sample_query])"
  using messages_in_order [OF canned_takes, of "on_line []" "[Piggy sample_query, Piggy sample_query, Say sample_query]"]
  by (auto simp: on_line_def waiting_def)

theorem query_roundtrip_witness:
  "\<exists>m d p. assembleRequest ''fc.player'' (enc_doc bob) 1 0 (map_option enc_doc (Some ann)) 4 = Inr m
    \<and> (let r = message_of (drop 4 (message_bytes (m\<lparr>m_id := 7, m_responseTo := - 1\<rparr>))) in
       m_operation r = dbQuery \<and> m_id r = 7 \<and> doesOpGetAResponse (m_operation r)
       \<and> QueryMessage (DbMessage r) = Inr (\<lparr>q_ns = ''fc.player'', q_ntoskip = 0, q_ntoreturn = 1, q_options = 4, q_query = p,
           q_fields = map_option (\<lambda>_. p + int (length (enc_doc bob))) (Some ann)\<rparr>, d) \<and> \<not> moreJSObjs d
       \<and> holds (m_data r) p (enc_doc bob) \<and> (\<forall>f. Some ann = Some f \<longrightarrow> holds (m_data r) (p + int (length (enc_doc bob))) (enc_doc f)))"
proof (rule query_roundtrip)
  show "fits bob" "\<And>f. Some ann = Some f \<Longrightarrow> fits f" using sample_docs by (auto simp: ordinary_def)
  show "length (query_bytes ''fc.player'' bob 1 0 (Some ann) 4) \<le> room" using sample_docs by (simp add: query_bytes_def enc_option_def room_eq)
qed simp

theorem failed_connection_quiet_witness:
  "refuses (findN canned (checkConnection canned) ''fc.player'' (enc_doc []) 1 0 None 0) ((on_line [])\<lparr>cn_failed := True\<rparr>)"
  using failed_connection_quiet [of canned "(on_line [])\<lparr>cn_failed := True\<rparr>"] by (simp add: stays_down_def on_line_def)

theorem index_never_made_witness:
  "\<exists>c'. ensureIndex canned (checkConnection canned) ''fc.player'' (enc_doc [(''Name'', WInt 1)]) False ''n'' True False (- 1)
      ((on_line [])\<lparr>cn_failed := True\<rparr>) = Some (Inl SocketException, c')
    \<and> ensureIndex canned (checkConnection canned) ''fc.player'' (enc_doc [(''Name'', WInt 1)]) False ''n'' True False (- 1) (c'\<lparr>cn_failed := False\<rparr>)
      = Some (Inr False, c'\<lparr>cn_failed := False\<rparr>)"
proof -
  let ?c = "(on_line [])\<lparr>cn_failed := True\<rparr>"
  obtain c' where c': "ensureIndex canned (checkConnection canned) ''fc.player'' (enc_doc [(''Name'', WInt 1)]) False ''n'' True False (- 1) ?c = Some (Inl SocketException, c')"
      "\<forall>(c2 :: string conn) e2. set (cn_seenIndexes c') \<subseteq> set (cn_seenIndexes c2) \<longrightarrow>
        ensureIndex e2 (checkConnection e2) ''fc.player'' (enc_doc [(''Name'', WInt 1)]) False ''n'' True False (- 1) c2 = Some (Inr False, c2)"
    using index_never_made [of canned ?c "''n''" "''fc.player''" "[(''Name'', WInt 1)]"]
    by (auto simp: stays_down_def on_line_def enc_doc_def)
  from c'(2) [rule_format, of "c'\<lparr>cn_failed := False\<rparr>" canned] c'(1) show ?thesis by (intro exI conjI) simp_all
qed

end
