(* ===== verification/Spec2Isabelle.thy ===== *)
theory Spec2Isabelle
  imports Racing_Correct GangZone_Correct Rules_Correct Reachable Streaming_Correct Wire_Correct Gdk_Correct Bridge Md5_Correct Driver_Correct
begin

text \<open>
  A verification library for freshcity, a game mode for the San Andreas Multiplayer server: a plugin in C++ that keeps accounts, teams, property,
  gang zones and races of the players of a server, on a streamer of world items, a client of the Mongo database and a layer that
  makes the functions and events of the server's script machine those of C++. Paths are under \<^verbatim>\<open>src/\<close>;
  \<^verbatim>\<open>G/\<close> stands for \<^verbatim>\<open>freshcity.server.gamemode/\<close>, \<^verbatim>\<open>S/\<close> for \<^verbatim>\<open>freshcity.dependency.streamer/src/\<close>,
  \<^verbatim>\<open>M/\<close> for \<^verbatim>\<open>freshcity.dependency.mongoclient/\<close> and \<^verbatim>\<open>K/\<close> for \<^verbatim>\<open>freshcity.dependency.sampgdk/\<close>.

  \<^bold>\<open>How the parts interact.\<close> The server calls its script; the layer of \<^verbatim>\<open>K/\<close> replaces the calling functions, reads the
  arguments from the script's stack and calls what the plugin exports (\<open>Gdk\<close>, \<open>GdkHooks\<close>, \<open>Bridge\<close>). The exported
  callbacks (\<open>Callbacks\<close>) look players up, run commands and dialogs (\<open>Commands\<close>, \<open>Dialogs\<close>), which call the members of the
  data classes (\<open>Profile\<close>, \<open>Team\<close>, \<open>Property\<close>, \<open>GangZone\<close>, \<open>Racing\<close>, \<open>Waypoint\<close>, \<open>Items\<close>, \<open>Roles\<close>). These write
  documents (\<open>Database\<close>, \<open>Bson\<close>, in memory \<open>Wire\<close>), place items with the streamer (\<open>Streamer\<close>, \<open>StreamerNatives\<close>,
  \<open>Streaming\<close>) and call natives of the server, which go back through wrappers (\<open>GdkNatives\<close>). Each tick the server lets
  the timers run and the streamer update.

  \<^bold>\<open>The theories.\<close>
  \<^item> \<open>Prelude\<close>: C++ exceptions as values (\<open>exn\<close>; \<open>Undefined\<close> is behaviour that C++ does not define), programs \<open>'s \<Rightarrow> (exn + 'a) \<times> 's\<close>
    with \<open>seq\<close>, \<open>andthen\<close>, \<open>tryCatch\<close>, \<open>forEach\<close>, and the rules by which frame conditions and
    invariants (\<open>keeps\<close>) go through programs. What a program did before it throws stays done.
  \<^item> \<open>Floats\<close>: rounded binary arithmetic on rationals. \<open>Managers\<close>: \<^verbatim>\<open>G/application_gamemode_manager_base.h\<close> and the two allocators of
    identifiers. \<open>Host\<close>, \<open>Texts\<close>: the natives (a trace of what was called, the answers a parameter), configuration, clock, messages.
  \<^item> \<open>Sha256\<close>, \<open>Algorithms\<close>: \<^verbatim>\<open>G/basic_algorithm_string.cpp\<close>, \<^verbatim>\<open>G/application_algorithms.cpp\<close>. \<open>Sha256_Correct\<close> compares the code with FIPS 180-4.
  \<^item> \<open>Bson\<close>, \<open>Database\<close>: object ids, documents as trees of values, the accessors with their exceptions, and \<^verbatim>\<open>SaveableItem\<close> of
    \<^verbatim>\<open>G/application_data_base.cpp\<close> over a log of requests. \<open>Wire\<close>: the same documents as the bytes in memory: buffer and builder, the elements
    and iterators that read them (\<^verbatim>\<open>M/bson\<close>). \<open>Wire_Correct\<close> shows that the bytes implement the trees.
  \<^item> \<open>Streamer\<close>, \<open>StreamerNatives\<close>: the item tables, the grid, the identifiers, the containers of players, worlds and interiors, and the natives
    of \<^verbatim>\<open>S/Natives.cpp\<close>. \<open>Streaming\<close>: the update loop of \<^verbatim>\<open>S/Streamer.cpp\<close> and the search in \<^verbatim>\<open>S/Grid.cpp\<close>.
    \<open>Streamer_Correct\<close>: tables, grid and identifiers agree, for every sequence of events; \<open>Streaming_Correct\<close>: what an update shows a player.
  \<^item> \<open>World\<close>: the state \<open>world\<close> of the program, one field for each global manager and each timer, with timers of
    \<^verbatim>\<open>G/application_gamemode_callback_timer.cpp\<close>. \<open>Profile\<close>, \<open>Team\<close>, \<open>Items\<close>, \<open>Property\<close>, \<open>Dialog_Table\<close>, \<open>Waypoint\<close>,
    \<open>GangZone\<close>, \<open>Racing\<close>, \<open>Roles\<close>, \<open>Effects\<close>, \<open>Commands\<close>, \<open>Dialogs\<close>, \<open>Callbacks\<close>: the classes and functions of the files
    each names in its header, in the order in which they build on each other. \<open>Callbacks\<close> ends with \<open>handle\<close>, an
    event of the server, and \<open>fire\<close>, the run of a timer that is due.
  \<^item> \<open>Gdk\<close>: the machine natives are called with and its heap, hooks in machine code, timers. \<open>GdkNatives\<close>: the wrapper of every native.
    \<open>GdkHooks\<close>: the handler of every callback, dispatch, the replaced \<^verbatim>\<open>amx_FindPublic\<close> and \<^verbatim>\<open>amx_Exec\<close>. \<open>Bridge\<close>: the game mode as the plugin.
  \<^item> \<open>Messages\<close>, \<open>Port\<close>, \<open>Client\<close>, \<open>Driver\<close>: the driver's connection to one server (\<^verbatim>\<open>M/client/dbclient.cpp\<close>, \<^verbatim>\<open>dbclientcursor.cpp\<close>,
    \<^verbatim>\<open>M/util/net\<close>, \<^verbatim>\<open>M/db/dbmessage.h\<close>): the bytes of requests and replies, the socket and the port with the messages that wait to go with the next one,
    saying and calling, cursors, and on them queries, commands, signing in, indexes and the check that connects again. What the operating system does is the parameter \<open>os_env\<close>.
    \<open>Driver_Correct\<close>: the order of the bytes, requests as the server's classes read them, the documents of a query, connections that have failed.
    \<open>Md5\<close>, \<open>Md5_Correct\<close>: the hash of \<^verbatim>\<open>M/util/md5.c\<close>, with which the driver signs in, and RFC 1321.
  \<^item> \<open>Profile_Correct\<close>, \<open>Items_Correct\<close>, \<open>Property_Correct\<close>, \<open>GangZone_Correct\<close>, \<open>Racing_Correct\<close>, \<open>Rules_Correct\<close>, \<open>Invariants\<close>,
    \<open>Reachable\<close>, \<open>Gdk_Correct\<close>: the theorems on these, and the lemmas they share.
\<close>

text \<open>
  \<^bold>\<open>State and operations.\<close> A class is a record whose fields are its members; an object in a manager is the entry under its key; a member function is a
  program over \<open>world\<close> that reads and writes that entry. A pointer that the source keeps beyond the life of its object is a key that may be missing, and using
  it then is \<open>Undefined\<close>. \<^verbatim>\<open>int\<close> is a 32-bit word where the code computes with it (money, times, identifiers of the
  allocators); a parameter that is only compared is an integer.

  \<^bold>\<open>Interfaces.\<close> \<open>item_manager\<close> is what the clients of the manager template rely on, interpreted on association lists (\<open>members\<close>). \<open>id_allocator\<close> and its extension
  \<open>least_allocator\<close> are interpreted on the bitmap of team ids (\<open>ia\<close>) and on the streamer's identifiers (\<open>ident\<close>).
  \<open>loop_invariant\<close> is what an invariant has to keep under the primitives of the streamer in order to hold after every update; it is interpreted on the
  consistency of the streamer (\<open>grid\<close>). \<open>world_invariant\<close> is the same for the whole program (every command, dialog, callback and timer is treated in it
  once), is a case of \<open>loop_invariant\<close>, and is interpreted on the types of the managers (\<open>typed\<close>) and on the sessions of the other players (\<open>stranger\<close>).

  \<^bold>\<open>What is shown.\<close>
  \<^item> Invariants of every run: the managers and the streamer are well typed and consistent; only a player who gives his password signs in; teams are disjoint; the marker of
    a property shows who owns it; the money on the screen is that of the account.
  \<^item> Refinement: turf wars make the steps of a machine with two states; the bytes of a document read as the document; a call of the server's script is the event of the game mode.
  \<^item> The driver: messages leave whole and in order, a query reads at the server as it was written, and the caller gets exactly the documents that the server sends.
  \<^item> Progress: a race that starts ends, with the results in the order of arrival, however the racers' checkpoints interleave; a war ends with its timer.
  \<^item> The results of the streamer's update: areas, checkpoints, icons, pickups and limits.
  \<^item> Round trips: a player's data, waypoints, object ids, the arguments and results of a native.
  \<^item> Errors: which lengths make the password hash write beyond its blocks; what destroying all icons leaves behind; a heap that grows under the machine; timers that end; an index that is remembered but was never sent.

  \<^bold>\<open>Loops.\<close> Recursion is over lists, or with a measure. The loops over bytes in memory, the conversion of hash words to digits and the walk through timers that callbacks
  may extend, and the driver's loops over what the operating system and the server send, are written as \<open>partial_function (option)\<close>, in which \<open>None\<close> is a loop that never ends; where a theorem says what they return it also says that they do. No fuel is used.
  The operations of the driver take the check of the connection as an argument (\<open>ck\<close>); \<open>checkConnection\<close> is the least fixed point, since it signs in again with such operations, which
  are monotone in it (\<open>dmono\<close>).

  \<^bold>\<open>Assumptions of the model.\<close>
  \<^item> Hash tables are association lists; iteration is in the order of insertion.
  \<^item> Floats are finite rationals, rounded after each operation; infinity is \<open>None\<close> where the code uses it, and NaN is outside. In \<open>Gdk\<close> a \<^verbatim>\<open>float\<close> is its bits.
  \<^item> Memory suffices, up to the 64 MB at which a buffer in \<open>Wire\<close> throws. Reads outside an object there are undefined.
  \<^item> The heap of \<open>Gdk\<close> is aligned, and moves when it grows beyond its size; the stack of a script is aligned.
  \<^item> Where C++ leaves the order of evaluation open the model takes one. The cells that a search collects are read when they are used. The streamer's
    callbacks for areas are also events of their own.
  \<^item> The format of \<^verbatim>\<open>sscanf\<close> that contains a null character is taken as what it means to be, the rest of the line.

  \<^bold>\<open>Not modelled.\<close> The text draws of the message queue, beyond their strings. What the code pages of Windows convert (a parameter). In
  \<^verbatim>\<open>M/\<close>: comparing, printing and parsing documents, several servers, pools of connections, files, timeouts, and the parts of the database server that the directory carries along.
  \<open>Database\<close> keeps its requests as a log of documents; that the driver's messages carry them is shown separately. In \<^verbatim>\<open>K/\<close>: the hooks that are taken back around each
  call of a replaced function, \<^verbatim>\<open>amx_Callback\<close>, the list of natives kept by \<^verbatim>\<open>amx_Register\<close>, version and logging. In \<^verbatim>\<open>S/\<close>: polygon areas, which no native creates, and the accessors of extra ids.
  Reading the configuration file, logs, crash dumps and the debug timer are input and output only. Eigen is third-party code.
\<close>

end
